(* ===== verification/Prelude.thy ===== *)
theory Prelude
  imports
    Complex_Main
    "HOL-Library.Multiset"
    "HOL-Library.Char_ord"
    "HOL-Library.List_Lexorder"
    "HOL-Library.Product_Lexorder"
begin

text \<open>
  Shared vocabulary of the development: Python's insertion-ordered dictionaries and
  \<open>defaultdict(list)\<close> as association lists, its string methods on lists of code
  points, \<open>sorted\<close> as the stable \<open>sort_key\<close>, \<open>round\<close> with ties to
  even, and the generic list and order lemmas the components use.  Strings are lists of
  \<open>char\<close>, so the model covers code points 0 to 255.
\<close>

named_theorems dict_simps "rewriting of insertion-ordered dictionaries"
named_theorems str_simps "unfolding of the modelled string methods"

section \<open>Dictionaries\<close>

type_synonym ('k, 'v) dict = "('k \<times> 'v) list"

text \<open>\<open>d[k] = v\<close>: an existing key keeps its place, a new one goes to the end.\<close>

fun dict_set :: "'k \<Rightarrow> 'v \<Rightarrow> ('k, 'v) dict \<Rightarrow> ('k, 'v) dict" where
  "dict_set k v [] = [(k, v)]"
| "dict_set k v ((k', v') # d) = (if k' = k then (k, v) # d else (k', v') # dict_set k v d)"

text \<open>\<open>defaultdict(list)\<close>: \<open>d[k].append(v)\<close>.\<close>

fun bucket_add :: "'k \<Rightarrow> 'v \<Rightarrow> ('k, 'v list) dict \<Rightarrow> ('k, 'v list) dict" where
  "bucket_add k v [] = [(k, [v])]"
| "bucket_add k v ((k', vs) # d) =
     (if k' = k then (k', vs @ [v]) # d else (k', vs) # bucket_add k v d)"

fun group_into :: "('k, 'v list) dict \<Rightarrow> ('k \<times> 'v) list \<Rightarrow> ('k, 'v list) dict" where
  "group_into d [] = d"
| "group_into d ((k, v) # kvs) = group_into (bucket_add k v d) kvs"

definition bucket_get :: "('k, 'v list) dict \<Rightarrow> 'k \<Rightarrow> 'v list" where
  "bucket_get d k = (case map_of d k of None \<Rightarrow> [] | Some vs \<Rightarrow> vs)"

lemma map_of_dict_set [dict_simps, simp]: "map_of (dict_set k v d) = (map_of d)(k \<mapsto> v)"
  by (induction k v d rule: dict_set.induct) auto

lemma dict_set_keys [dict_simps]: "fst ` set (dict_set k v d) = insert k (fst ` set d)"
  by (induction k v d rule: dict_set.induct) auto

lemma distinct_dict_set: "distinct (map fst d) \<Longrightarrow> distinct (map fst (dict_set k v d))"
  by (induction k v d rule: dict_set.induct) (auto simp: dict_set_keys)

lemma bucket_add_keys [dict_simps]: "fst ` set (bucket_add k v d) = insert k (fst ` set d)"
  by (induction k v d rule: bucket_add.induct) auto

lemma distinct_bucket_add: "distinct (map fst d) \<Longrightarrow> distinct (map fst (bucket_add k v d))"
  by (induction k v d rule: bucket_add.induct) (auto simp: bucket_add_keys)

lemma bucket_get_add [dict_simps]:
  "bucket_get (bucket_add k v d) k' = (if k' = k then bucket_get d k @ [v] else bucket_get d k')"
  by (induction k v d rule: bucket_add.induct) (auto simp: bucket_get_def)

lemma group_into_keys [dict_simps]:
  "fst ` set (group_into d kvs) = fst ` set d \<union> fst ` set kvs"
  by (induction d kvs rule: group_into.induct) (auto simp: bucket_add_keys)

lemma distinct_group_into:
  "distinct (map fst d) \<Longrightarrow> distinct (map fst (group_into d kvs))"
  by (induction d kvs rule: group_into.induct) (auto simp: distinct_bucket_add)

lemma bucket_get_group_into [dict_simps]:
  "bucket_get (group_into d kvs) k = bucket_get d k @ map snd (filter (\<lambda>p. fst p = k) kvs)"
  by (induction d kvs rule: group_into.induct) (auto simp: bucket_get_add)

lemma bucket_get_in:
  "distinct (map fst d) \<Longrightarrow> (k, vs) \<in> set d \<Longrightarrow> bucket_get d k = vs"
  by (simp add: bucket_get_def)

lemma group_into_Nil_entry:
  assumes "(k, vs) \<in> set (group_into [] kvs)"
  shows "vs = map snd (filter (\<lambda>p. fst p = k) kvs)"
proof -
  have "distinct (map fst (group_into [] kvs))" by (rule distinct_group_into) simp
  then have "bucket_get (group_into [] kvs) k = vs" using assms by (rule bucket_get_in)
  moreover have "bucket_get (group_into [] kvs) k = map snd (filter (\<lambda>p. fst p = k) kvs)"
    by (simp only: bucket_get_group_into) (simp add: bucket_get_def)
  ultimately show ?thesis by simp
qed

text \<open>Grouping loses nothing: the buckets hold exactly the values that went in.\<close>

lemma mset_bucket_add:
  "mset (concat (map snd (bucket_add k v d))) = add_mset v (mset (concat (map snd d)))"
  by (induction k v d rule: bucket_add.induct) auto

lemma mset_group_into [dict_simps]:
  "mset (concat (map snd (group_into d kvs))) = mset (concat (map snd d)) + mset (map snd kvs)"
  by (induction d kvs rule: group_into.induct) (auto simp: mset_bucket_add)

text \<open>\<open>list(dict.fromkeys(xs))\<close>: the first occurrence of each element, in order.\<close>

definition dict_fromkeys :: "'a list \<Rightarrow> 'a list" where
  "dict_fromkeys xs = rev (remdups (rev xs))"

lemma set_dict_fromkeys [simp]: "set (dict_fromkeys xs) = set xs"
  by (simp add: dict_fromkeys_def)

lemma distinct_dict_fromkeys [simp]: "distinct (dict_fromkeys xs)"
  by (simp add: dict_fromkeys_def)

lemma dict_fromkeys_Nil [simp]: "dict_fromkeys [] = []"
  by (simp add: dict_fromkeys_def)

lemma dict_fromkeys_snoc:
  "dict_fromkeys (xs @ [x]) = (if x \<in> set xs then dict_fromkeys xs else dict_fromkeys xs @ [x])"
  by (simp add: dict_fromkeys_def)

lemma dict_fromkeys_eq_Nil [simp]: "dict_fromkeys xs = [] \<longleftrightarrow> xs = []"
  by (metis set_dict_fromkeys set_empty)

text \<open>A \<open>Counter\<close>: weights added up per key, keys in the order they first occur.\<close>

definition add_counts :: "('a \<times> nat) list \<Rightarrow> ('a, nat) dict" where
  "add_counts xs = foldl (\<lambda>d (k, n). dict_set k ((case map_of d k of None \<Rightarrow> 0 | Some m \<Rightarrow> m) + n) d) [] xs"

definition counter :: "'a list \<Rightarrow> ('a, nat) dict" where
  "counter xs = add_counts (map (\<lambda>x. (x, 1)) xs)"

section \<open>Sorting\<close>

lemma insort_key_map: "insort_key k (g x) (map g xs) = map g (insort_key (\<lambda>a. k (g a)) x xs)"
  by (induction xs) auto

lemma sort_key_map: "sort_key k (map g xs) = map g (sort_key (\<lambda>a. k (g a)) xs)"
  by (induction xs) (simp_all add: insort_key_map)

section \<open>Counters\<close>

lemma add_counts_snoc: "add_counts (xs @ [(k, n)]) = dict_set k ((case map_of (add_counts xs) k of None \<Rightarrow> 0 | Some m \<Rightarrow> m) + n) (add_counts xs)"
  by (simp add: add_counts_def)

lemma map_of_add_counts:
  "map_of (add_counts xs) k = (if k \<in> fst ` set xs then Some (sum_list (map snd (filter (\<lambda>e. fst e = k) xs))) else None)"
proof (induction xs rule: rev_induct)
  case (snoc e xs)
  obtain k' n where e: "e = (k', n)" by fastforce
  have none: "k \<notin> fst ` set xs \<Longrightarrow> filter (\<lambda>e. fst e = k) xs = []" by (auto simp: filter_empty_conv)
  have mem: "k \<in> fst ` set (xs @ [(k', n)]) \<longleftrightarrow> k = k' \<or> k \<in> fst ` set xs" by auto
  show ?case
  proof (cases "k \<in> fst ` set xs")
    case True
    then show ?thesis using snoc unfolding e mem by (cases "k = k'") (simp_all add: add_counts_snoc)
  next
    case False
    then show ?thesis using snoc none unfolding e mem by (cases "k = k'") (simp_all add: add_counts_snoc)
  qed
qed (simp add: add_counts_def)

lemma distinct_add_counts: "distinct (map fst (add_counts xs))"
proof (induction xs rule: rev_induct)
  case (snoc e xs)
  then show ?case by (cases e) (simp add: add_counts_snoc distinct_dict_set)
qed (simp add: add_counts_def)

section \<open>Loops\<close>

lemma foldl_keeps: "(\<And>m x. P m \<Longrightarrow> P (f m x)) \<Longrightarrow> P m \<Longrightarrow> P (foldl f m xs)"
  by (induction xs arbitrary: m) auto

section \<open>find\<close>

lemma set_map_filter: "set (List.map_filter f xs) = {y. \<exists>x \<in> set xs. f x = Some y}"
  by (induction xs) (auto simp: List.map_filter_simps split: option.splits)

lemma find_SomeD: "find P xs = Some x \<Longrightarrow> x \<in> set xs \<and> P x"
  by (auto simp: find_Some_iff)

lemma find_cong_mem: "(\<And>x. x \<in> set xs \<Longrightarrow> P x = Q x) \<Longrightarrow> find P xs = find Q xs"
  by (induction xs) auto

section \<open>Maxima\<close>

text \<open>\<open>max(xs, key=k)\<close>: the first of the elements with the largest key.\<close>

definition first_max :: "('a \<Rightarrow> 'k::linorder) \<Rightarrow> 'a list \<Rightarrow> 'a" where
  "first_max k xs = foldl (\<lambda>best x. if k best < k x then x else best) (hd xs) (tl xs)"

lemma first_max_fold:
  fixes k :: "'a \<Rightarrow> 'k::linorder"
  shows "foldl (\<lambda>best x. if k best < k x then x else best) b xs \<in> insert b (set xs)
   \<and> (\<forall>y \<in> insert b (set xs). k y \<le> k (foldl (\<lambda>best x. if k best < k x then x else best) b xs))"
proof (induction xs arbitrary: b)
  case (Cons x xs)
  define c where "c = (if k b < k x then x else b)"
  let ?m = "foldl (\<lambda>best x. if k best < k x then x else best) c xs"
  have c: "c \<in> insert b (set (x # xs))" "k b \<le> k c" "k x \<le> k c" by (auto simp: c_def)
  have m: "?m \<in> insert c (set xs)" "\<forall>y \<in> insert c (set xs). k y \<le> k ?m"
    using Cons.IH [of c] by blast+
  have top: "k c \<le> k ?m" using m(2) by blast
  have bx: "k b \<le> k ?m" "k x \<le> k ?m"
    using order_trans [OF c(2) top] order_trans [OF c(3) top] by simp_all
  have "?m \<in> insert b (set (x # xs))" using m(1) c(1) by auto
  moreover have "\<forall>y \<in> insert b (set (x # xs)). k y \<le> k ?m" using bx m(2) by simp
  ultimately show ?case by (simp only: foldl.simps c_def [symmetric])
qed simp

lemma first_max_in: "xs \<noteq> [] \<Longrightarrow> first_max k xs \<in> set xs"
  using first_max_fold [of k "hd xs" "tl xs"] by (cases xs) (auto simp: first_max_def)

lemma first_max_ge: "x \<in> set xs \<Longrightarrow> k x \<le> k (first_max k xs)"
  using first_max_fold [of k "hd xs" "tl xs"] by (cases xs) (auto simp: first_max_def)

section \<open>Sums over lists\<close>

lemma sum_list_sort_key:
  "sum_list (map f (sort_key k xs)) = (sum_list (map f xs) :: 'a::comm_monoid_add)"
  by (metis mset_map mset_sort sum_mset_sum_list)

lemma distinct_concat_sort_key: "distinct (concat (sort_key k xs)) \<longleftrightarrow> distinct (concat xs)"
proof -
  have "mset (concat (sort_key k xs)) = mset (concat xs)"
    unfolding mset_concat by (rule sum_list_sort_key)
  then show ?thesis by (rule mset_eq_imp_distinct_iff)
qed

lemma length_filter_mono: "(\<And>x. P x \<Longrightarrow> Q x) \<Longrightarrow> length (filter P xs) \<le> length (filter Q xs)"
  by (induction xs) (auto intro: le_SucI)

lemma sum_list_mono_map:
  "(\<And>x. x \<in> set xs \<Longrightarrow> f x \<le> (g x :: real)) \<Longrightarrow> sum_list (map f xs) \<le> sum_list (map g xs)"
  by (induction xs) (auto intro: add_mono)

lemma sum_list_map_nonneg:
  "(\<And>x. x \<in> set xs \<Longrightarrow> 0 \<le> (f x :: real)) \<Longrightarrow> 0 \<le> sum_list (map f xs)"
  by (induction xs) auto

lemma sum_list_distinct_keys:
  "distinct xs \<Longrightarrow> sum_list (map f xs) = (\<Sum>x\<in>set xs. (f x :: real))"
  by (simp add: sum_list_distinct_conv_sum_set)

section \<open>round(x, n) with ties to even\<close>

definition py_round_int :: "real \<Rightarrow> int" where
  "py_round_int x =
     (let f = \<lfloor>x\<rfloor>; r = x - of_int f
      in if r < 1/2 then f else if r > 1/2 then f + 1
         else if even f then f else f + 1)"

definition py_round :: "nat \<Rightarrow> real \<Rightarrow> real" where
  "py_round n x = of_int (py_round_int (x * 10 ^ n)) / 10 ^ n"

lemma py_round_int_of_int [simp]: "py_round_int (of_int k) = k"
  by (simp add: py_round_int_def)

lemma py_round_int_bounds: "of_int (py_round_int x) \<le> x + 1/2" "x - 1/2 \<le> of_int (py_round_int x)"
  by (auto simp: py_round_int_def Let_def) linarith+

lemma py_round_int_mono: "x \<le> y \<Longrightarrow> py_round_int x \<le> py_round_int y"
proof -
  assume le: "x \<le> y"
  then consider "\<lfloor>x\<rfloor> = \<lfloor>y\<rfloor>" | "\<lfloor>x\<rfloor> + 1 \<le> \<lfloor>y\<rfloor>" using floor_mono by fastforce
  then show ?thesis
  proof cases
    case 1
    with le show ?thesis by (auto simp: py_round_int_def Let_def)
  next
    case 2
    then show ?thesis by (auto simp: py_round_int_def Let_def)
  qed
qed

lemma py_round_mono: "x \<le> y \<Longrightarrow> py_round n x \<le> py_round n y"
  by (simp add: py_round_def divide_right_mono py_round_int_mono)

lemma py_round_of_int [simp]: "py_round n (of_int k) = of_int k"
proof -
  have "of_int k * (10::real) ^ n = of_int (k * 10 ^ n)" by simp
  then show ?thesis unfolding py_round_def by (simp only: py_round_int_of_int) simp
qed

lemma py_round_0 [simp]: "py_round n 0 = 0"
  using py_round_of_int [of n 0] by simp

lemma py_round_numeral [simp]: "py_round n (numeral k) = numeral k"
  using py_round_of_int [of n "numeral k"] by simp

lemma py_round_nonneg: "0 \<le> x \<Longrightarrow> 0 \<le> py_round n x"
  using py_round_mono [of 0 x n] by simp

end
