(* ===== verification/PyStr.thy ===== *)
theory PyStr
  imports Prelude
begin

text \<open>
  The string and path methods of Python that the modelled code calls: \<open>startswith\<close>,
  \<open>endswith\<close>, \<open>split\<close>, \<open>join\<close>, \<open>strip\<close>, \<open>lower\<close>, \<open>partition\<close>,
  \<open>removesuffix\<close>, \<open>rsplit\<close>, formatting of natural numbers, and the parts, name,
  stem and suffix of a \<open>PurePosixPath\<close>.
\<close>

section \<open>Characters\<close>

definition code :: "char \<Rightarrow> nat" where
  "code c = of_char c"

definition is_digit :: "char \<Rightarrow> bool" where
  "is_digit c \<longleftrightarrow> 48 \<le> code c \<and> code c \<le> 57"

definition is_upper :: "char \<Rightarrow> bool" where
  "is_upper c \<longleftrightarrow> 65 \<le> code c \<and> code c \<le> 90"

definition is_lower :: "char \<Rightarrow> bool" where
  "is_lower c \<longleftrightarrow> 97 \<le> code c \<and> code c \<le> 122"

text \<open>\<open>\\s\<close> and \<open>str.strip()\<close> on code points below 256.\<close>

definition is_space :: "char \<Rightarrow> bool" where
  "is_space c \<longleftrightarrow> code c \<in> {9, 10, 11, 12, 13, 28, 29, 30, 31, 32, 133, 160}"

definition lower_char :: "char \<Rightarrow> char" where
  "lower_char c =
     (if is_upper c \<or> (192 \<le> code c \<and> code c \<le> 222 \<and> code c \<noteq> 215)
      then char_of (code c + 32) else c)"

definition lower :: "string \<Rightarrow> string" where
  "lower s = map lower_char s"

lemma length_lower [simp]: "length (lower s) = length s"
  by (simp add: lower_def)

section \<open>Prefixes and suffixes\<close>

definition starts_with :: "'a list \<Rightarrow> 'a list \<Rightarrow> bool" where
  "starts_with p s \<longleftrightarrow> take (length p) s = p"

definition ends_with :: "'a list \<Rightarrow> 'a list \<Rightarrow> bool" where
  "ends_with p s \<longleftrightarrow> length p \<le> length s \<and> drop (length s - length p) s = p"

definition remove_suffix :: "'a list \<Rightarrow> 'a list \<Rightarrow> 'a list" where
  "remove_suffix p s = (if ends_with p s then take (length s - length p) s else s)"

definition remove_prefix :: "'a list \<Rightarrow> 'a list \<Rightarrow> 'a list" where
  "remove_prefix p s = (if starts_with p s then drop (length p) s else s)"

lemma starts_with_iff: "starts_with p s \<longleftrightarrow> (\<exists>t. s = p @ t)"
  by (auto simp: starts_with_def) (metis append_take_drop_id)

lemma ends_with_iff: "ends_with p s \<longleftrightarrow> (\<exists>t. s = t @ p)"
  by (auto simp: ends_with_def) (metis append_take_drop_id)

lemma starts_with_append [simp]: "starts_with p (p @ t)"
  by (auto simp: starts_with_iff)

lemma ends_with_append [simp]: "ends_with p (t @ p)"
  by (auto simp: ends_with_iff)

lemma remove_suffix_append [simp]: "remove_suffix p (t @ p) = t"
  by (simp add: remove_suffix_def)

section \<open>split and join\<close>

fun split_on :: "'a \<Rightarrow> 'a list \<Rightarrow> 'a list list" where
  "split_on c [] = [[]]"
| "split_on c (x # xs) =
     (if x = c then [] # split_on c xs
      else (case split_on c xs of [] \<Rightarrow> [[x]] | p # ps \<Rightarrow> (x # p) # ps))"

fun join :: "'a list \<Rightarrow> 'a list list \<Rightarrow> 'a list" where
  "join sep [] = []"
| "join sep [p] = p"
| "join sep (p # q # ps) = p @ sep @ join sep (q # ps)"

lemma split_on_not_Nil [simp]: "split_on c s \<noteq> []"
  by (induction s) (auto split: list.splits)

lemma split_on_no_sep: "p \<in> set (split_on c s) \<Longrightarrow> c \<notin> set p"
proof (induction s arbitrary: p)
  case (Cons x xs)
  obtain q qs where "split_on c xs = q # qs" by (cases "split_on c xs") auto
  with Cons show ?case by (auto split: if_splits)
qed simp

lemma join_split_on [simp]: "join [c] (split_on c s) = s"
proof (induction s)
  case (Cons x xs)
  obtain p ps where "split_on c xs = p # ps" by (cases "split_on c xs") auto
  with Cons show ?case by (cases ps) auto
qed simp

lemma split_on_single: "c \<notin> set s \<Longrightarrow> split_on c s = [s]"
  by (induction s) auto

lemma split_on_append_sep: "c \<notin> set p \<Longrightarrow> split_on c (p @ c # s) = p # split_on c s"
  by (induction p) auto

lemma split_on_join:
  "ps \<noteq> [] \<Longrightarrow> \<forall>p \<in> set ps. c \<notin> set p \<Longrightarrow> split_on c (join [c] ps) = ps"
proof (induction ps)
  case (Cons p ps)
  then show ?case by (cases ps) (auto simp: split_on_single split_on_append_sep)
qed simp

section \<open>strip, partition, last occurrence\<close>

definition lstrip_by :: "('a \<Rightarrow> bool) \<Rightarrow> 'a list \<Rightarrow> 'a list" where
  "lstrip_by p s = dropWhile p s"

definition rstrip_by :: "('a \<Rightarrow> bool) \<Rightarrow> 'a list \<Rightarrow> 'a list" where
  "rstrip_by p s = rev (dropWhile p (rev s))"

definition strip :: "string \<Rightarrow> string" where
  "strip s = rstrip_by is_space (lstrip_by is_space s)"

text \<open>\<open>s.split(c, 1)[0]\<close> and \<open>s.partition(c)\<close> (before, found, after).\<close>

definition before :: "'a \<Rightarrow> 'a list \<Rightarrow> 'a list" where
  "before c s = takeWhile (\<lambda>x. x \<noteq> c) s"

definition partition_at :: "'a \<Rightarrow> 'a list \<Rightarrow> 'a list \<times> bool \<times> 'a list" where
  "partition_at c s = (before c s, c \<in> set s, drop (Suc (length (before c s))) s)"

text \<open>\<open>s.rsplit(c, 1)[0] if c in s else ""\<close>: what stands before the last separator.\<close>

definition before_last :: "'a \<Rightarrow> 'a list \<Rightarrow> 'a list" where
  "before_last c s =
     (if c \<in> set s then rev (drop 1 (dropWhile (\<lambda>x. x \<noteq> c) (rev s))) else [])"

definition after_last :: "'a \<Rightarrow> 'a list \<Rightarrow> 'a list" where
  "after_last c s = rev (takeWhile (\<lambda>x. x \<noteq> c) (rev s))"

lemma before_append: "c \<notin> set p \<Longrightarrow> before c (p @ c # s) = p"
  by (induction p) (auto simp: before_def)

lemma before_no_sep [simp]: "c \<notin> set (before c s)"
  unfolding before_def using set_takeWhileD by fastforce

lemma before_last_append: "c \<notin> set q \<Longrightarrow> before_last c (p @ c # q) = p"
proof -
  assume q: "c \<notin> set q"
  then have "dropWhile (\<lambda>x. x \<noteq> c) (rev q @ c # rev p) = c # rev p"
    by (subst dropWhile_append2) auto
  then show ?thesis by (simp add: before_last_def)
qed

lemma after_last_append: "c \<notin> set q \<Longrightarrow> after_last c (p @ c # q) = q"
proof -
  assume q: "c \<notin> set q"
  then have "takeWhile (\<lambda>x. x \<noteq> c) (rev q @ c # rev p) = rev q"
    by (subst takeWhile_append2) auto
  then show ?thesis by (simp add: after_last_def)
qed

lemma last_sep_split:
  assumes "c \<in> set s"
  shows "s = before_last c s @ c # after_last c s \<and> c \<notin> set (after_last c s)"
  using split_list_last [OF assms] by (auto simp: before_last_append after_last_append)

lemma length_before_last: "s \<noteq> [] \<Longrightarrow> length (before_last c s) < length s"
proof (cases "c \<in> set s")
  case True
  then have "length s = length (before_last c s @ c # after_last c s)"
    using last_sep_split by metis
  then show ?thesis by simp
qed (simp add: before_last_def)

section \<open>Formatting numbers\<close>

fun show_nat :: "nat \<Rightarrow> string" where
  "show_nat n =
     (if n < 10 then [char_of (48 + n)] else show_nat (n div 10) @ [char_of (48 + n mod 10)])"

declare show_nat.simps [simp del]

text \<open>\<open>int(s)\<close> of a string of decimal digits.\<close>

fun nat_of_digits :: "nat \<Rightarrow> string \<Rightarrow> nat" where
  "nat_of_digits acc [] = acc"
| "nat_of_digits acc (c # cs) = nat_of_digits (10 * acc + (code c - 48)) cs"

lemma nat_of_digits_append:
  "nat_of_digits a (xs @ [c]) = 10 * nat_of_digits a xs + (code c - 48)"
  by (induction a xs rule: nat_of_digits.induct) auto

lemma code_digit: "d < 10 \<Longrightarrow> code (char_of (48 + d)) = 48 + d"
  by (simp add: code_def)

lemma show_nat_digits: "(\<forall>c \<in> set (show_nat n). is_digit c) \<and> show_nat n \<noteq> []
    \<and> nat_of_digits 0 (show_nat n) = n"
proof (induction n rule: less_induct)
  case (less n)
  show ?case
  proof (cases "n < 10")
    case True
    then show ?thesis by (simp add: show_nat.simps [of n] is_digit_def code_digit)
  next
    case False
    then have "n div 10 < n" by simp
    from less.IH [OF this] False show ?thesis
      by (simp add: show_nat.simps [of n] nat_of_digits_append code_digit is_digit_def)
  qed
qed

lemma show_nat_inject [simp]: "show_nat m = show_nat n \<longleftrightarrow> m = n"
  using show_nat_digits by metis

lemma show_nat_no_sep: "\<not> is_digit c \<Longrightarrow> c \<notin> set (show_nat n)"
  using show_nat_digits by blast

definition show_int :: "int \<Rightarrow> string" where
  "show_int k = (if k < 0 then CHR ''-'' # show_nat (nat (- k)) else show_nat (nat k))"

section \<open>PurePosixPath\<close>

text \<open>
  \<open>parts\<close> of a path: its root, if it has one (\<open>/\<close>, or \<open>//\<close> for exactly two
  leading slashes), then the components other than the empty ones and \<open>.\<close>.
\<close>

definition path_root :: "string \<Rightarrow> string" where
  "path_root s =
     (if starts_with ''///'' s then ''/'' else if starts_with ''//'' s then ''//''
      else if starts_with ''/'' s then ''/'' else [])"

definition path_parts :: "string \<Rightarrow> string list" where
  "path_parts s =
     (let ps = filter (\<lambda>p. p \<noteq> [] \<and> p \<noteq> ''.'') (split_on CHR ''/'' s)
      in if path_root s = [] then ps else path_root s # ps)"

text \<open>\<open>name\<close>: the last part, empty for the root and the empty path.\<close>

definition path_name :: "string \<Rightarrow> string" where
  "path_name s =
     (case rev (path_parts s) of [] \<Rightarrow> []
      | p # _ \<Rightarrow> if p = path_root s then [] else p)"

definition path_parent_parts :: "string \<Rightarrow> string list" where
  "path_parent_parts s =
     (let ps = path_parts s in if ps = [path_root s] then ps else butlast ps)"

text \<open>
  \<open>suffix\<close> (Python 3.12): from the last dot of the name, when that dot is neither its
  first nor its last character.
\<close>

definition path_suffix :: "string \<Rightarrow> string" where
  "path_suffix s =
     (let n = path_name s; i = length (before_last CHR ''.'' n)
      in if CHR ''.'' \<in> set n \<and> 0 < i \<and> i < length n - 1 then drop i n else [])"

definition path_stem :: "string \<Rightarrow> string" where
  "path_stem s =
     (let n = path_name s; i = length (before_last CHR ''.'' n)
      in if CHR ''.'' \<in> set n \<and> 0 < i \<and> i < length n - 1 then take i n else n)"

lemma path_stem_suffix: "path_stem s @ path_suffix s = path_name s"
  by (simp add: path_stem_def path_suffix_def Let_def)

end
