(* ===== verification/Regex.thy ===== *)
theory Regex
  imports PyStr
begin

text \<open>
  The part of Python's \<open>re\<close> the code uses, as a backtracking matcher.
  \<open>rx_ends r s i\<close> lists, in the engine's order of preference, every position where a
  match of \<open>r\<close> started at position \<open>i\<close> of \<open>s\<close> can end, so its first element is
  the end of the match Python reports.  \<open>rx_rel\<close> is the declarative meaning, and
  \<open>rx_ends_iff\<close> shows that the matcher finds exactly the matches it describes; the fuel
  of a starred expression, the length of the subject, is part of that statement.
\<close>

datatype rx =
    Eps
  | Cls "char \<Rightarrow> bool"
  | Seq rx rx
  | Alt rx rx
  | Star rx
  | Bol
  | Eol
  | NotAhead rx
  | Ahead rx
  | NotBehind "char \<Rightarrow> bool"

section \<open>The matcher\<close>

fun star_ends :: "nat \<Rightarrow> (nat \<Rightarrow> nat list) \<Rightarrow> nat \<Rightarrow> nat list" where
  "star_ends 0 f i = [i]"
| "star_ends (Suc n) f i =
     concat (map (\<lambda>j. if i < j then star_ends n f j else []) (f i)) @ [i]"

text \<open>Python's \<open>$\<close> also matches before a final newline.\<close>

definition at_eol :: "string \<Rightarrow> nat \<Rightarrow> bool" where
  "at_eol s i \<longleftrightarrow> i = length s \<or> (Suc i = length s \<and> s ! i = CHR 0x0A)"

fun rx_ends :: "rx \<Rightarrow> string \<Rightarrow> nat \<Rightarrow> nat list" where
  "rx_ends Eps s i = [i]"
| "rx_ends (Cls p) s i = (if i < length s \<and> p (s ! i) then [Suc i] else [])"
| "rx_ends (Seq a b) s i = concat (map (rx_ends b s) (rx_ends a s i))"
| "rx_ends (Alt a b) s i = rx_ends a s i @ rx_ends b s i"
| "rx_ends (Star a) s i = star_ends (length s) (rx_ends a s) i"
| "rx_ends Bol s i = (if i = 0 then [i] else [])"
| "rx_ends Eol s i = (if at_eol s i then [i] else [])"
| "rx_ends (NotAhead a) s i = (if rx_ends a s i = [] then [i] else [])"
| "rx_ends (Ahead a) s i = (if rx_ends a s i = [] then [] else [i])"
| "rx_ends (NotBehind p) s i = (if 0 < i \<and> p (s ! (i - 1)) then [] else [i])"

definition rx_match :: "rx \<Rightarrow> string \<Rightarrow> bool" where
  "rx_match r s \<longleftrightarrow> rx_ends r s 0 \<noteq> []"

definition rx_fullmatch :: "rx \<Rightarrow> string \<Rightarrow> bool" where
  "rx_fullmatch r s \<longleftrightarrow> length s \<in> set (rx_ends r s 0)"

definition rx_search :: "rx \<Rightarrow> string \<Rightarrow> bool" where
  "rx_search r s \<longleftrightarrow> list_ex (\<lambda>i. rx_ends r s i \<noteq> []) [0..<Suc (length s)]"

text \<open>The end of the match that \<open>re.match\<close> reports.\<close>

definition rx_match_end :: "rx \<Rightarrow> string \<Rightarrow> nat option" where
  "rx_match_end r s = (case rx_ends r s 0 of [] \<Rightarrow> None | j # _ \<Rightarrow> Some j)"

section \<open>Derived forms\<close>

definition Chr :: "char \<Rightarrow> rx" where
  "Chr c = Cls (\<lambda>x. x = c)"

definition OneOf :: "string \<Rightarrow> rx" where
  "OneOf cs = Cls (\<lambda>x. x \<in> set cs)"

definition NotOf :: "string \<Rightarrow> rx" where
  "NotOf cs = Cls (\<lambda>x. x \<notin> set cs)"

fun Str :: "string \<Rightarrow> rx" where
  "Str [] = Eps"
| "Str [c] = Chr c"
| "Str (c # cs) = Seq (Chr c) (Str cs)"

fun Alts :: "rx list \<Rightarrow> rx" where
  "Alts [] = Cls (\<lambda>_. False)"
| "Alts [r] = r"
| "Alts (r # rs) = Alt r (Alts rs)"

fun Seqs :: "rx list \<Rightarrow> rx" where
  "Seqs [] = Eps"
| "Seqs [r] = r"
| "Seqs (r # rs) = Seq r (Seqs rs)"

definition Opt :: "rx \<Rightarrow> rx" where
  "Opt r = Alt r Eps"

definition Plus :: "rx \<Rightarrow> rx" where
  "Plus r = Seq r (Star r)"

text \<open>\<open>r{0,n}\<close> and \<open>r{m,n}\<close> with \<open>n = m + k\<close>.\<close>

fun UpTo :: "nat \<Rightarrow> rx \<Rightarrow> rx" where
  "UpTo 0 r = Eps"
| "UpTo (Suc n) r = Opt (Seq r (UpTo n r))"

definition Rep :: "nat \<Rightarrow> nat \<Rightarrow> rx \<Rightarrow> rx" where
  "Rep m k r = Seq (Seqs (replicate m r)) (UpTo k r)"

definition is_word :: "char \<Rightarrow> bool" where
  "is_word c \<longleftrightarrow> is_upper c \<or> is_lower c \<or> is_digit c \<or> c = CHR ''_''
     \<or> code c \<in> {170, 178, 179, 181, 185, 186, 188, 189, 190}
     \<or> (192 \<le> code c \<and> code c \<noteq> 215 \<and> code c \<noteq> 247)"

definition is_alnum_ascii :: "char \<Rightarrow> bool" where
  "is_alnum_ascii c \<longleftrightarrow> is_upper c \<or> is_lower c \<or> is_digit c"

section \<open>Declarative meaning\<close>

text \<open>Zero or more steps of \<open>f\<close>, each of which moves forward.\<close>

inductive star_rel :: "(nat \<Rightarrow> nat \<Rightarrow> bool) \<Rightarrow> nat \<Rightarrow> nat \<Rightarrow> bool" for R where
  star_refl: "star_rel R i i"
| star_step: "R i k \<Longrightarrow> i < k \<Longrightarrow> star_rel R k j \<Longrightarrow> star_rel R i j"

fun rx_rel :: "rx \<Rightarrow> string \<Rightarrow> nat \<Rightarrow> nat \<Rightarrow> bool" where
  "rx_rel Eps s i j \<longleftrightarrow> j = i"
| "rx_rel (Cls p) s i j \<longleftrightarrow> i < length s \<and> p (s ! i) \<and> j = Suc i"
| "rx_rel (Seq a b) s i j \<longleftrightarrow> (\<exists>k. rx_rel a s i k \<and> rx_rel b s k j)"
| "rx_rel (Alt a b) s i j \<longleftrightarrow> rx_rel a s i j \<or> rx_rel b s i j"
| "rx_rel (Star a) s i j \<longleftrightarrow> star_rel (rx_rel a s) i j"
| "rx_rel Bol s i j \<longleftrightarrow> i = 0 \<and> j = i"
| "rx_rel Eol s i j \<longleftrightarrow> at_eol s i \<and> j = i"
| "rx_rel (NotAhead a) s i j \<longleftrightarrow> (\<nexists>k. rx_rel a s i k) \<and> j = i"
| "rx_rel (Ahead a) s i j \<longleftrightarrow> (\<exists>k. rx_rel a s i k) \<and> j = i"
| "rx_rel (NotBehind p) s i j \<longleftrightarrow> \<not> (0 < i \<and> p (s ! (i - 1))) \<and> j = i"

lemma star_rel_le: "star_rel R i j \<Longrightarrow> i \<le> j"
  by (induction rule: star_rel.induct) auto

lemma star_ends_complete:
  "star_rel R i j \<Longrightarrow> (\<And>a b. R a b \<Longrightarrow> a < b \<Longrightarrow> a \<le> j \<Longrightarrow> b \<in> set (f a)) \<Longrightarrow> j \<le> i + n
    \<Longrightarrow> j \<in> set (star_ends n f i)"
proof (induction arbitrary: n rule: star_rel.induct)
  case (star_refl i)
  show ?case by (cases n) simp_all
next
  case (star_step i k j)
  from star_step.hyps have kj: "k \<le> j" by (auto dest: star_rel_le)
  with star_step.hyps(2) star_step.prems(2) obtain m where n: "n = Suc m" "j \<le> k + m"
    by (cases n) auto
  have "j \<in> set (star_ends m f k)" using star_step.IH star_step.prems(1) n(2) by blast
  moreover have "k \<in> set (f i)" using star_step.hyps kj star_step.prems(1) by auto
  ultimately show ?case using star_step.hyps(2) by (auto simp: n(1))
qed

lemma star_rel_bound:
  "star_rel R i j \<Longrightarrow> i \<le> L \<Longrightarrow> (\<And>a b. R a b \<Longrightarrow> a \<le> L \<Longrightarrow> b \<le> L) \<Longrightarrow> j \<le> L"
  by (induction rule: star_rel.induct) auto

lemma rx_rel_bounds: "rx_rel r s i j \<Longrightarrow> i \<le> length s \<Longrightarrow> i \<le> j \<and> j \<le> length s"
proof (induction r arbitrary: i j)
  case (Seq a b)
  then show ?case by (metis order_trans rx_rel.simps(3))
next
  case (Star a)
  then have "j \<le> length s" using star_rel_bound [of "rx_rel a s" i j "length s"] by auto
  with Star.prems show ?case by (auto dest: star_rel_le)
qed auto

theorem rx_ends_iff:
  "i \<le> length s \<Longrightarrow> j \<in> set (rx_ends r s i) \<longleftrightarrow> rx_rel r s i j"
proof (induction r arbitrary: i j)
  case (Seq a b)
  then show ?case using rx_rel_bounds [of a s i] by fastforce
next
  case (Star a)
  let ?L = "length s"
  have sound: "j \<in> set (star_ends n (rx_ends a s) i) \<Longrightarrow> i \<le> ?L \<Longrightarrow> star_rel (rx_rel a s) i j" for n i
  proof (induction n arbitrary: i)
    case (Suc n)
    then consider "j = i"
      | k where "k \<in> set (rx_ends a s i)" "i < k" "j \<in> set (star_ends n (rx_ends a s) k)"
      by (auto split: if_splits)
    then show ?case
    proof cases
      case 2
      then have "rx_rel a s i k" using Star.IH [OF Suc.prems(2)] by simp
      moreover from this have "k \<le> ?L" using rx_rel_bounds Suc.prems(2) by blast
      ultimately show ?thesis using 2 Suc.IH by (auto intro: star_rel.intros)
    qed (auto intro: star_rel.intros)
  qed (auto intro: star_rel.intros)
  have "star_rel (rx_rel a s) i j \<Longrightarrow> j \<in> set (star_ends ?L (rx_ends a s) i)"
  proof -
    assume st: "star_rel (rx_rel a s) i j"
    have jL: "j \<le> ?L" using rx_rel_bounds [of "Star a" s i j] st Star.prems by simp
    show ?thesis
      by (rule star_ends_complete [OF st]) (use jL Star.IH in auto)
  qed
  then show ?case using sound Star.prems by auto
next
  case (NotAhead a)
  then have "rx_ends a s i = [] \<longleftrightarrow> (\<forall>k. \<not> rx_rel a s i k)"
    by (metis all_not_in_conv set_empty2)
  then show ?case by auto
next
  case (Ahead a)
  then have "rx_ends a s i = [] \<longleftrightarrow> (\<forall>k. \<not> rx_rel a s i k)"
    by (metis all_not_in_conv set_empty2)
  then show ?case by auto
qed (auto simp: less_Suc_eq_le)

lemma rx_ends_empty: "i \<le> length s \<Longrightarrow> rx_ends r s i = [] \<longleftrightarrow> (\<forall>j. \<not> rx_rel r s i j)"
  by (metis rx_ends_iff all_not_in_conv set_empty2)

lemma rx_search_iff: "rx_search r s \<longleftrightarrow> (\<exists>i \<le> length s. \<exists>j. rx_rel r s i j)"
proof -
  have "rx_search r s \<longleftrightarrow> (\<exists>i \<in> {0..<Suc (length s)}. rx_ends r s i \<noteq> [])"
    by (simp only: rx_search_def list_ex_iff set_upt)
  also have "\<dots> \<longleftrightarrow> (\<exists>i \<le> length s. \<exists>j. rx_rel r s i j)"
    by (auto simp: less_Suc_eq_le rx_ends_empty)
  finally show ?thesis .
qed

lemma rx_match_iff: "rx_match r s \<longleftrightarrow> (\<exists>j. rx_rel r s 0 j)"
  by (simp add: rx_match_def rx_ends_empty)

lemma rx_fullmatch_iff: "rx_fullmatch r s \<longleftrightarrow> rx_rel r s 0 (length s)"
  by (simp add: rx_fullmatch_def rx_ends_iff)

text \<open>A starred or repeated class reads exactly a stretch of its characters.\<close>

lemma star_Cls_iff:
  assumes "i \<le> length s"
  shows "rx_rel (Star (Cls p)) s i j \<longleftrightarrow> i \<le> j \<and> j \<le> length s \<and> (\<forall>k. i \<le> k \<and> k < j \<longrightarrow> p (s ! k))"
proof
  assume "rx_rel (Star (Cls p)) s i j"
  then have "star_rel (rx_rel (Cls p) s) i j" by simp
  then show "i \<le> j \<and> j \<le> length s \<and> (\<forall>k. i \<le> k \<and> k < j \<longrightarrow> p (s ! k))" using assms
  proof (induction rule: star_rel.induct)
    case (star_step i k j)
    then have "k = Suc i" "p (s ! i)" by auto
    with star_step show ?case by (metis Suc_leI Suc_leD le_neq_implies_less rx_rel.simps(2))
  qed auto
next
  assume *: "i \<le> j \<and> j \<le> length s \<and> (\<forall>k. i \<le> k \<and> k < j \<longrightarrow> p (s ! k))"
  have "star_rel (rx_rel (Cls p) s) i j" using *
  proof (induction "j - i" arbitrary: i)
    case (Suc n)
    then have "star_rel (rx_rel (Cls p) s) (Suc i) j" by auto
    moreover have "rx_rel (Cls p) s i (Suc i)" using Suc by auto
    ultimately show ?case by (rule star_rel.star_step [rotated 2]) simp
  qed (auto intro: star_rel.intros)
  then show "rx_rel (Star (Cls p)) s i j" by simp
qed

end
