(* ===== verification/Findings.thy ===== *)
theory Findings
  imports Regex
begin

text \<open>
  The data every component shares: severities (\<open>models/finding.py\<close>), the analyzers'
  \<open>FindingData\<close> (\<open>analyzers/base.py\<close>), and what a test path is
  (\<open>scoring/rubric.py\<close>).  Severities are a linear order, the declaration order of the
  enumeration, so sorting and \<open>max\<close> of the library apply to them.
\<close>

section \<open>Severity\<close>

datatype severity = INFO | WARNING | ERROR | CRITICAL

text \<open>\<open>_SEVERITY_RANK\<close>: the position in the enumeration.\<close>

fun severity_rank :: "severity \<Rightarrow> nat" where
  "severity_rank INFO = 0"
| "severity_rank WARNING = 1"
| "severity_rank ERROR = 2"
| "severity_rank CRITICAL = 3"

lemma severity_rank_inject [simp]: "severity_rank a = severity_rank b \<longleftrightarrow> a = b"
  by (cases a; cases b) auto

instantiation severity :: linorder
begin

definition less_eq_severity :: "severity \<Rightarrow> severity \<Rightarrow> bool" where
  "less_eq_severity a b \<longleftrightarrow> severity_rank a \<le> severity_rank b"

definition less_severity :: "severity \<Rightarrow> severity \<Rightarrow> bool" where
  "less_severity a b \<longleftrightarrow> severity_rank a < severity_rank b"

instance
  by standard (auto simp: less_eq_severity_def less_severity_def)

end

definition severity_value :: "severity \<Rightarrow> string" where
  "severity_value s =
     (case s of INFO \<Rightarrow> ''info'' | WARNING \<Rightarrow> ''warning'' | ERROR \<Rightarrow> ''error''
      | CRITICAL \<Rightarrow> ''critical'')"

definition all_severities :: "severity list" where
  "all_severities = [INFO, WARNING, ERROR, CRITICAL]"

section \<open>Findings\<close>

text \<open>One entry of \<open>merged_from\<close>: what the merge keeps of a merged finding.\<close>

record merged_entry =
  me_analyzer :: string
  me_rule_id :: string
  me_severity :: string
  me_start_line :: int
  me_message :: string

text \<open>
  A vulnerable dependency's details; \<open>dependency.get(key, "")\<close> reads three of them.
\<close>

record dependency_info =
  dep_ecosystem :: "string option"
  dep_package :: "string option"
  dep_version :: "string option"

text \<open>
  \<open>FindingData\<close>.  \<open>raw\<close>, the tool's own result object, is carried along and never
  read, so it is left out.
\<close>

record finding_data =
  analyzer :: string
  rule_id :: string
  sev :: severity
  file_path :: string
  start_line :: int
  end_line :: int
  message :: string
  code_snippet :: "string option"
  category :: "string option"
  cwe_ids :: "int list"
  dependency :: "dependency_info option"
  corroborated_by :: "string list"
  merged_from :: "merged_entry list"

section \<open>Test paths\<close>

text \<open>\<open>_TEST_PATH\<close>.\<close>

definition TEST_PATH :: rx where
  "TEST_PATH =
     Alt (Seqs [Alt Bol (Chr CHR ''/''),
                Alts [Seq (Str ''test'') (Opt (Chr CHR ''s'')), Str ''__tests__'', Str ''spec'',
                      Str ''specs'', Str ''testing'', Str ''e2e''],
                Alt (Chr CHR ''/'') Eol])
         (Seqs [Alt Bol (Chr CHR ''/''),
                Alts [Seq (Str ''test_'') (Star (NotOf ''/'')),
                      Seq (Star (NotOf ''/'')) (Str ''_test.py''),
                      Seqs [Star (NotOf ''/''), Chr CHR ''.'', Alt (Str ''test'') (Str ''spec''),
                            Chr CHR ''.'', Opt (OneOf ''cm''), OneOf ''jt'', Chr CHR ''s'',
                            Opt (Chr CHR ''x'')],
                      Str ''conftest.py''],
                Eol])"

definition is_test_path :: "string \<Rightarrow> bool" where
  "is_test_path path = rx_search TEST_PATH (lower path)"

end
