(* ===== verification/Rubric.thy ===== *)
theory Rubric
  imports Findings
begin

text \<open>
  The scoring rubric (\<open>scoring/rubric.py\<close>): category penalties with damping of repeated
  rules, size normalisation, experimental signal deductions, the weighted overall score and
  its grade, and the impact of fixing one finding.  Python floats are modelled as real
  numbers, so the theorems are about the formulas and not about rounding error; the explicit
  \<open>round\<close> calls are modelled.  The locale \<open>damping\<close> is what the rubric relies on
  in its rank multipliers.
\<close>

section \<open>Inputs\<close>

text \<open>\<open>ScorableFinding\<close>: what the rubric reads from a finding.\<close>

record scorable =
  sf_id :: int
  sf_analyzer :: string
  sf_rule_id :: string
  sf_severity :: severity
  sf_file_path :: string
  sf_corroborated_by :: "string list"

datatype size_norm = Kloc_sqrt | Kloc_cbrt | Modules | No_size

record category_spec =
  spec_name :: string
  spec_label :: string
  spec_weight :: real
  spec_analyzers :: "string list"
  spec_severity_weights :: "severity \<Rightarrow> real"
  spec_half_life :: real
  spec_size :: size_norm

fun DEFAULT_SEVERITY :: "severity \<Rightarrow> real" where
  "DEFAULT_SEVERITY CRITICAL = 10"
| "DEFAULT_SEVERITY ERROR = 5"
| "DEFAULT_SEVERITY WARNING = 2"
| "DEFAULT_SEVERITY INFO = 1/2"

fun LINT_SEVERITY :: "severity \<Rightarrow> real" where
  "LINT_SEVERITY CRITICAL = 3"
| "LINT_SEVERITY ERROR = 3/2"
| "LINT_SEVERITY WARNING = 1/2"
| "LINT_SEVERITY INFO = 1/10"

definition security_spec :: category_spec where
  "security_spec = \<lparr>spec_name = ''security'', spec_label = ''Security'', spec_weight = 40/100,
     spec_analyzers = [''semgrep'', ''bandit''], spec_severity_weights = DEFAULT_SEVERITY,
     spec_half_life = 12, spec_size = Kloc_cbrt\<rparr>"

definition dependencies_spec :: category_spec where
  "dependencies_spec = \<lparr>spec_name = ''dependencies'', spec_label = ''Dependencies'',
     spec_weight = 20/100, spec_analyzers = [''dependency''],
     spec_severity_weights = DEFAULT_SEVERITY, spec_half_life = 25, spec_size = No_size\<rparr>"

definition architecture_spec :: category_spec where
  "architecture_spec = \<lparr>spec_name = ''architecture'', spec_label = ''Architecture'',
     spec_weight = 20/100, spec_analyzers = [''architecture''],
     spec_severity_weights = DEFAULT_SEVERITY, spec_half_life = 20, spec_size = Modules\<rparr>"

definition code_health_spec :: category_spec where
  "code_health_spec = \<lparr>spec_name = ''code_health'', spec_label = ''Code health'',
     spec_weight = 20/100, spec_analyzers = [''ruff''], spec_severity_weights = LINT_SEVERITY,
     spec_half_life = 25, spec_size = Kloc_sqrt\<rparr>"

lemmas spec_defs = security_spec_def dependencies_spec_def architecture_spec_def code_health_spec_def

definition CATEGORIES :: "category_spec list" where
  "CATEGORIES = [security_spec, dependencies_spec, architecture_spec, code_health_spec]"

text \<open>\<open>CATEGORY_BY_ANALYZER.get(a)\<close>; no analyzer belongs to two categories.\<close>

definition category_by_analyzer :: "string \<Rightarrow> category_spec option" where
  "category_by_analyzer a = find (\<lambda>spec. a \<in> set (spec_analyzers spec)) CATEGORIES"

text \<open>\<open>PROCESS_SPEC\<close>: scored only with \<open>process_dimension\<close>.\<close>

definition PROCESS_SPEC :: category_spec where
  "PROCESS_SPEC = \<lparr>spec_name = ''process'', spec_label = ''Process'', spec_weight = 15/100,
     spec_analyzers = [], spec_severity_weights = DEFAULT_SEVERITY, spec_half_life = 1,
     spec_size = No_size\<rparr>"

text \<open>A stored \<open>SignalReport.as_dict()\<close>; a component may be present and \<open>None\<close>.\<close>

record signal_report =
  sig_applicable :: bool
  sig_score :: "real option"
  sig_components :: "string \<rightharpoonup> real option"
  sig_reason :: "string option"

record score_context =
  source_loc :: nat
  module_count :: nat
  analyzers_run :: "string list"
  analyzers_failed :: "string list"
  signals :: "string \<rightharpoonup> signal_report"

record rubric_config =
  cfg_signals :: "string list"
  process_dimension :: bool
  dep_health_target :: string

definition default_config :: rubric_config where
  "default_config = \<lparr>cfg_signals = [], process_dimension = False,
     dep_health_target = ''dependencies''\<rparr>"

text \<open>
  \<open>RubricConfig.key\<close>: the identifier stored with every score.  \<open>cfg_signals\<close>
  stands for a set, so it is sorted without duplicates.
\<close>

definition config_key :: "rubric_config \<Rightarrow> string" where
  "config_key c =
     (let parts = sort (remdups (cfg_signals c));
          parts = map (\<lambda>s. if s = ''dep_health'' then ''dep_health>'' @ dep_health_target c else s) parts;
          parts = (if process_dimension c then parts @ [''process-dimension''] else parts)
      in if join '','' parts = [] then ''base'' else join '','' parts)"

section \<open>Outputs\<close>

record deduction =
  ded_signal :: "string option"
  ded_label :: string
  ded_score :: "real option"
  ded_penalty :: "real option"
  ded_points :: real

record category_score =
  cs_category :: string
  cs_label :: string
  cs_score :: "real option"
  cs_weight :: real
  cs_penalty :: real
  cs_finding_count :: nat
  cs_excluded_reason :: "string option"
  cs_rationale :: "string list"
  cs_deductions :: "deduction list"

record score_report =
  overall :: "real option"
  grade :: "string option"
  categories :: "category_score list"
  rubric_version :: string
  incomplete :: bool
  incomplete_reasons :: "string list"
  report_config :: string

text \<open>\<open>ScoreReport.category\<close>: \<open>None\<close> stands for the \<open>StopIteration\<close> of a missing name.\<close>

definition report_category :: "score_report \<Rightarrow> string \<Rightarrow> category_score option" where
  "report_category r name = find (\<lambda>c. cs_category c = name) (categories r)"

definition GRADES :: "(real \<times> string) list" where
  "GRADES = [(90, ''A''), (80, ''B''), (70, ''C''), (55, ''D''), (0, ''F'')]"

text \<open>\<open>next(letter ...)\<close> raises \<open>StopIteration\<close> (\<open>None\<close>) below the last threshold.\<close>

definition grade_for :: "real \<Rightarrow> string option" where
  "grade_for s = map_option snd (find (\<lambda>(threshold, letter). threshold \<le> s) GRADES)"

section \<open>Weights and penalties\<close>

definition CORROBORATION_FACTOR :: real where "CORROBORATION_FACTOR = 125/100"
definition TEST_PATH_FACTOR :: real where "TEST_PATH_FACTOR = 2/10"
definition MAX_SECURITY_SIZE_FACTOR :: real where "MAX_SECURITY_SIZE_FACTOR = 6"
definition RULE_DAMPING_EXPONENT :: real where "RULE_DAMPING_EXPONENT = 75/100"
definition MODULES_PER_UNIT :: real where "MODULES_PER_UNIT = 20"
definition SIGNAL_STRENGTH :: real where "SIGNAL_STRENGTH = 1"

definition finding_weight :: "scorable \<Rightarrow> category_spec \<Rightarrow> real" where
  "finding_weight f spec =
     (let w = spec_severity_weights spec (sf_severity f);
          w = (if sf_corroborated_by f \<noteq> [] then w * CORROBORATION_FACTOR else w)
      in if is_test_path (sf_file_path f) then w * TEST_PATH_FACTOR else w)"

definition size_factor :: "category_spec \<Rightarrow> score_context \<Rightarrow> real" where
  "size_factor spec ctx =
     (let kloc = max 1 (real (source_loc ctx) / 1000)
      in case spec_size spec of
           Kloc_sqrt \<Rightarrow> sqrt kloc
         | Kloc_cbrt \<Rightarrow> min MAX_SECURITY_SIZE_FACTOR (kloc powr (1/3))
         | Modules \<Rightarrow> sqrt (max 1 (real (module_count ctx) / MODULES_PER_UNIT))
         | No_size \<Rightarrow> 1)"

definition rank_multiplier :: "nat \<Rightarrow> real" where
  "rank_multiplier rank = real rank powr (- RULE_DAMPING_EXPONENT)"

text \<open>
  \<open>sum(w * m(rank) for rank, w in enumerate(ranked, start=k))\<close>.
\<close>

fun damped_sum :: "(nat \<Rightarrow> real) \<Rightarrow> nat \<Rightarrow> real list \<Rightarrow> real" where
  "damped_sum m k [] = 0"
| "damped_sum m k (w # ws) = w * m k + damped_sum m (Suc k) ws"

text \<open>\<open>sorted(weights, reverse=True)\<close>.\<close>

definition sorted_desc :: "real list \<Rightarrow> real list" where
  "sorted_desc ws = sort_key uminus ws"

definition rule_penalty :: "real list \<Rightarrow> real" where
  "rule_penalty weights = damped_sum rank_multiplier 1 (sorted_desc weights)"

definition decay :: "real \<Rightarrow> real \<Rightarrow> real" where
  "decay penalty half_life = 100 * exp (- penalty * ln 2 / half_life)"

section \<open>Experimental signals\<close>

text \<open>\<open>signal_targets\<close>: (signal, label, category, components or None for the overall score).\<close>

definition signal_targets ::
    "rubric_config \<Rightarrow> (string \<times> string \<times> string \<times> string list option) list" where
  "signal_targets c =
     (let organization = (if process_dimension c then ''process'' else ''architecture'');
          on = (\<lambda>s. s \<in> set (cfg_signals c))
      in (if on ''error_handling'' then [(''error_handling'', ''Error handling'', ''code_health'', None)] else [])
       @ (if on ''test_quality'' then [(''test_quality'', ''Test quality'', ''code_health'', None)] else [])
       @ (if on ''dep_health'' then
            [(''dep_health'', ''Dependency health (count, freshness, depth, trivial packages)'',
              dep_health_target c,
              Some [''direct_count'', ''freshness'', ''transitive'', ''trivial'']),
             (''dep_health'', ''Dependency hygiene (unused, phantom)'', ''architecture'',
              Some [''unused'', ''phantom''])] else [])
       @ (if on ''git_history'' then [(''git_history'', ''Git history'', organization, None)] else [])
       @ (if on ''ci_quality'' then [(''ci_quality'', ''CI pipeline'', organization, None)] else []))"

definition signal_value :: "signal_report option \<Rightarrow> string list option \<Rightarrow> real option" where
  "signal_value signal components =
     (case signal of None \<Rightarrow> None
      | Some sg \<Rightarrow>
          if \<not> sig_applicable sg then None
          else (case components of
                  None \<Rightarrow> sig_score sg
                | Some cs \<Rightarrow>
                    let present = List.map_filter
                                    (\<lambda>c. case sig_components sg c of None \<Rightarrow> None | Some v \<Rightarrow> v) cs
                    in if present = [] then None
                       else Some (sum_list present / real (length present))))"

record signal_state =
  pending :: "string \<Rightarrow> (string \<times> string \<times> real) list"
  skipped :: "string \<Rightarrow> string list"

definition signal_reason :: "signal_report option \<Rightarrow> string" where
  "signal_reason signal =
     (case Option.bind signal sig_reason of
        None \<Rightarrow> ''not collected''
      | Some r \<Rightarrow> if r = [] then ''not collected'' else r)"

definition collect_signal ::
    "score_context \<Rightarrow> signal_state \<Rightarrow> string \<times> string \<times> string \<times> string list option \<Rightarrow> signal_state" where
  "collect_signal ctx st = (\<lambda>(name, label, cat, components).
     let signal = signals ctx name
     in case signal_value signal components of
          None \<Rightarrow> st\<lparr>skipped := (skipped st)(cat := skipped st cat
                    @ [label @ '': not applicable ('' @ signal_reason signal @ '')''])\<rparr>
        | Some v \<Rightarrow> st\<lparr>pending := (pending st)(cat := pending st cat
                    @ [(name, label, max 0 (min 1 v))])\<rparr>)"

definition collect_signals :: "score_context \<Rightarrow> rubric_config \<Rightarrow> signal_state" where
  "collect_signals ctx c =
     foldl (collect_signal ctx) \<lparr>pending = (\<lambda>_. []), skipped = (\<lambda>_. [])\<rparr> (signal_targets c)"

section \<open>The score\<close>

text \<open>\<open>by_category\<close> and \<open>counts\<close>, both defaultdicts.\<close>

record tally =
  by_category :: "string \<Rightarrow> (string, real list) dict"
  counts :: "string \<Rightarrow> nat"

definition rule_key :: "scorable \<Rightarrow> string" where
  "rule_key f = sf_analyzer f @ '':'' @ sf_rule_id f"

definition tally_finding :: "int list \<Rightarrow> tally \<Rightarrow> scorable \<Rightarrow> tally" where
  "tally_finding excluded t f =
     (case category_by_analyzer (sf_analyzer f) of
        None \<Rightarrow> t
      | Some spec \<Rightarrow>
          if sf_id f \<in> set excluded then t
          else t\<lparr>by_category := (by_category t)(spec_name spec :=
                     bucket_add (rule_key f) (finding_weight f spec) (by_category t (spec_name spec))),
                 counts := (counts t)(spec_name spec := Suc (counts t (spec_name spec)))\<rparr>)"

definition tally_findings :: "scorable list \<Rightarrow> int list \<Rightarrow> tally" where
  "tally_findings findings excluded =
     foldl (tally_finding excluded) \<lparr>by_category = (\<lambda>_. []), counts = (\<lambda>_. 0)\<rparr> findings"

text \<open>The deduction loop: the penalty grows line by line.\<close>

fun apply_signals ::
    "real \<Rightarrow> real \<Rightarrow> (string \<times> string \<times> real) list \<Rightarrow> real \<times> deduction list" where
  "apply_signals half_life penalty [] = (penalty, [])"
| "apply_signals half_life penalty ((name, label, value) # lines) =
     (let signal_penalty = half_life * SIGNAL_STRENGTH * (1 - value);
          without = decay penalty half_life;
          penalty' = penalty + signal_penalty;
          with_signal = decay penalty' half_life;
          (final, ds) = apply_signals half_life penalty' lines
      in (final, \<lparr>ded_signal = Some name, ded_label = label, ded_score = Some (py_round 4 value),
                  ded_penalty = Some (py_round 4 signal_penalty),
                  ded_points = py_round 2 (without - with_signal)\<rparr> # ds))"

definition raw_penalty :: "(string, real list) dict \<Rightarrow> real" where
  "raw_penalty rules = sum_list (map (rule_penalty \<circ> snd) rules)"

definition rationale :: "(string, real list) dict \<Rightarrow> string list" where
  "rationale rules =
     (let worst = take 3 (sort_key (\<lambda>item. - rule_penalty (snd item)) rules)
      in map (\<lambda>(rule, ws). rule @ '' ('' @ show_nat (length ws) @ '' finding''
                  @ (if length ws \<noteq> 1 then ''s'' else []) @ '')'') worst)"

text \<open>One iteration of the loop over \<open>specs\<close>; the string is its incomplete reason, if any.\<close>

definition score_category ::
    "tally \<Rightarrow> signal_state \<Rightarrow> score_context \<Rightarrow> category_spec \<Rightarrow> category_score \<times> string list" where
  "score_category t sg ctx spec =
     (let failed = filter (\<lambda>a. a \<in> set (analyzers_failed ctx)) (spec_analyzers spec);
          ran = filter (\<lambda>a. a \<in> set (analyzers_run ctx)) (spec_analyzers spec);
          signal_lines = pending sg (spec_name spec)
      in if failed \<noteq> [] \<or> (ran = [] \<and> signal_lines = []) then
           let reason = (if failed \<noteq> [] then join '', '' (sort failed) @ '' failed''
                         else ''not applicable to this codebase'')
           in (\<lparr>cs_category = spec_name spec, cs_label = spec_label spec, cs_score = None,
                cs_weight = 0, cs_penalty = 0, cs_finding_count = 0,
                cs_excluded_reason = Some reason, cs_rationale = [], cs_deductions = []\<rparr>,
               if failed \<noteq> [] then [spec_label spec @ '': '' @ reason] else [])
         else
           let rules = by_category t (spec_name spec);
               penalty0 = raw_penalty rules / size_factor spec ctx;
               (penalty, ds) = apply_signals (spec_half_life spec) penalty0 signal_lines;
               skips = map (\<lambda>line. \<lparr>ded_signal = None, ded_label = line, ded_score = None,
                                     ded_penalty = None, ded_points = 0\<rparr>) (skipped sg (spec_name spec))
           in (\<lparr>cs_category = spec_name spec, cs_label = spec_label spec,
                cs_score = Some (decay penalty (spec_half_life spec)),
                cs_weight = spec_weight spec, cs_penalty = penalty,
                cs_finding_count = counts t (spec_name spec), cs_excluded_reason = None,
                cs_rationale = rationale rules, cs_deductions = ds @ skips\<rparr>, []))"

definition score_specs :: "rubric_config \<Rightarrow> category_spec list" where
  "score_specs c = CATEGORIES @ (if process_dimension c then [PROCESS_SPEC] else [])"

definition total_weight :: "category_score list \<Rightarrow> real" where
  "total_weight cs = sum_list (map cs_weight (filter (\<lambda>c. cs_score c \<noteq> None) cs))"

definition weighted_sum :: "category_score list \<Rightarrow> real" where
  "weighted_sum cs = sum_list (map (\<lambda>c. the (cs_score c) * cs_weight c)
                       (filter (\<lambda>c. cs_score c \<noteq> None) cs))"

definition renormalise :: "category_score list \<Rightarrow> category_score list" where
  "renormalise cs =
     map (\<lambda>c. if cs_score c \<noteq> None then c\<lparr>cs_weight := cs_weight c / total_weight cs\<rparr> else c) cs"

definition RUBRIC_VERSION :: string where "RUBRIC_VERSION = ''1.1.0''"

definition score_categories ::
    "scorable list \<Rightarrow> score_context \<Rightarrow> int list \<Rightarrow> rubric_config \<Rightarrow> (category_score \<times> string list) list" where
  "score_categories findings ctx exclude_ids c =
     map (score_category (tally_findings findings exclude_ids) (collect_signals ctx c) ctx)
       (score_specs c)"

definition score ::
    "scorable list \<Rightarrow> score_context \<Rightarrow> int list \<Rightarrow> rubric_config \<Rightarrow> score_report" where
  "score findings ctx exclude_ids c =
     (let results = score_categories findings ctx exclude_ids c;
          cats = map fst results;
          incomplete_rs = concat (map snd results)
      in if total_weight cats = 0 then
           \<lparr>overall = None, grade = None, categories = cats, rubric_version = RUBRIC_VERSION,
            incomplete = True,
            incomplete_reasons = (if incomplete_rs = []
                                  then [''No analyzer results could be scored.''] else incomplete_rs),
            report_config = config_key c\<rparr>
         else
           let cats = renormalise cats; ov = py_round 2 (weighted_sum cats)
           in \<lparr>overall = Some ov, grade = grade_for ov, categories = cats,
               rubric_version = RUBRIC_VERSION, incomplete = (incomplete_rs \<noteq> []),
               incomplete_reasons = incomplete_rs, report_config = config_key c\<rparr>)"

section \<open>Impacts\<close>

text \<open>
  \<open>_removal_penalties\<close>: the loops over positions, on the arrays \<open>gain\<close> and
  \<open>result\<close>.
\<close>

definition gain_array :: "real list \<Rightarrow> real list" where
  "gain_array ranked =
     fold (\<lambda>position gain. gain[position := gain ! (position + 1) + ranked ! position
              * (rank_multiplier position - rank_multiplier (position + 1))])
       (rev [1..<length ranked]) (replicate (length ranked + 1) 0)"

definition removal_penalties :: "real list \<Rightarrow> real list" where
  "removal_penalties weights =
     (let order = sort_key (\<lambda>i. - (weights ! i)) [0..<length weights];
          ranked = map (\<lambda>i. weights ! i) order;
          total = damped_sum rank_multiplier 1 ranked;
          gain = gain_array ranked
      in fold (\<lambda>(position, original_index) result.
                 result[original_index := total - ranked ! position * rank_multiplier (position + 1)
                                          + gain ! (position + 1)])
           (enumerate 0 order) (replicate (length ranked) 0))"

text \<open>
  The inner loop over one group of findings of a rule.  The dictionary of impacts is a map.
\<close>

definition group_impacts ::
    "score_context \<Rightarrow> category_score \<Rightarrow> category_spec \<Rightarrow> scorable list \<Rightarrow> (int \<rightharpoonup> real) \<Rightarrow> (int \<rightharpoonup> real)" where
  "group_impacts ctx cat spec members impacts =
     (case cs_score cat of
        None \<Rightarrow> foldl (\<lambda>m f. m(sf_id f \<mapsto> 0)) impacts members
      | Some cat_score \<Rightarrow>
          let size = size_factor spec ctx;
              weights = map (\<lambda>f. finding_weight f spec) members;
              other_penalty = cs_penalty cat * size - rule_penalty weights
          in foldl (\<lambda>m (f, remaining).
                let penalty = max 0 (other_penalty + remaining) / size;
                    new_value = decay penalty (spec_half_life spec);
                    gain = (new_value - cat_score) * cs_weight cat
                in m(sf_id f \<mapsto> py_round 4 (max 0 gain)))
              impacts (zip members (removal_penalties weights)))"

definition impact_groups :: "scorable list \<Rightarrow> (string \<times> string, scorable list) dict" where
  "impact_groups findings =
     group_into [] (List.map_filter (\<lambda>f. map_option (\<lambda>spec. ((spec_name spec, rule_key f), f))
                                     (category_by_analyzer (sf_analyzer f))) findings)"

text \<open>
  \<open>finding_impacts\<close>; \<open>None\<close> stands for the \<open>StopIteration\<close> or \<open>KeyError\<close> of a
  category name that is not in the report or not in the rubric.
\<close>

definition finding_impacts ::
    "scorable list \<Rightarrow> score_context \<Rightarrow> rubric_config \<Rightarrow> (int \<rightharpoonup> real) option" where
  "finding_impacts findings ctx c =
     (let base = score findings ctx [] c;
          start = foldl (\<lambda>m f. m(sf_id f \<mapsto> 0)) Map.empty findings
      in foldl (\<lambda>acc ((category_name, _), members).
            case acc of None \<Rightarrow> None
            | Some impacts \<Rightarrow>
                (case (report_category base category_name,
                       find (\<lambda>s. spec_name s = category_name) CATEGORIES) of
                   (Some cat, Some spec) \<Rightarrow> Some (group_impacts ctx cat spec members impacts)
                 | _ \<Rightarrow> None))
          (Some start) (impact_groups findings))"

end
