(* ===== verification/Rubric_Penalty.thy ===== *)
theory Rubric_Penalty
  imports Rubric
begin

text \<open>
  Penalties of the rubric: what damping promises, as a locale over the multiplier; its
  interpretation on the rubric's own \<open>rank_multiplier\<close>; and the correctness of the
  \<open>O(n log n)\<close> removal penalties.
\<close>

section \<open>Descending order\<close>

abbreviation desc :: "real list \<Rightarrow> bool" where
  "desc ws \<equiv> sorted (map uminus ws)"

lemma desc_sorted_desc [simp]: "desc (sorted_desc ws)"
  unfolding sorted_desc_def by (rule sorted_sort_key)

lemma mset_sorted_desc [simp]: "mset (sorted_desc ws) = mset ws"
  by (simp add: sorted_desc_def)

lemma set_sorted_desc [simp]: "set (sorted_desc ws) = set ws"
  by (metis mset_sorted_desc set_mset_mset)

lemma length_sorted_desc [simp]: "length (sorted_desc ws) = length ws"
  by (simp add: sorted_desc_def)

lemma sorted_desc_Cons: "sorted_desc (w # ws) = insort_key uminus w (sorted_desc ws)"
  by (simp add: sorted_desc_def)

lemma sorted_desc_unique: "mset ws = mset vs \<Longrightarrow> desc vs \<Longrightarrow> sorted_desc ws = vs"
  unfolding sorted_desc_def by (rule sort_key_inj_key_eq) (auto simp: inj_on_def)

lemma sorted_desc_cong: "mset ws = mset vs \<Longrightarrow> sorted_desc ws = sorted_desc vs"
  by (rule sorted_desc_unique) auto

section \<open>The contract of a damping multiplier\<close>

locale damping =
  fixes m :: "nat \<Rightarrow> real"
  assumes m_nonneg: "0 \<le> m k"
    and m_antimono: "1 \<le> k \<Longrightarrow> m (Suc k) \<le> m k"
begin

lemma damped_sum_nonneg: "\<forall>w \<in> set ws. 0 \<le> w \<Longrightarrow> 0 \<le> damped_sum m k ws"
  by (induction ws arbitrary: k) (auto simp: m_nonneg)

lemma damped_sum_tl:
  "desc (w # ws) \<Longrightarrow> \<forall>v \<in> set (w # ws). 0 \<le> v \<Longrightarrow> damped_sum m k ws \<le> damped_sum m k (w # ws)"
proof (induction ws arbitrary: w k)
  case (Cons v vs)
  have "damped_sum m (Suc k) vs \<le> damped_sum m (Suc k) (v # vs)" using Cons by auto
  moreover have "v * m k \<le> w * m k" using Cons.prems m_nonneg by (auto intro: mult_right_mono)
  ultimately show ?case by simp
qed (simp add: m_nonneg)

lemma damped_sum_insort:
  "desc ws \<Longrightarrow> \<forall>v \<in> set (w # ws). 0 \<le> v \<Longrightarrow>
    damped_sum m k ws \<le> damped_sum m k (insort_key uminus w ws)"
proof (induction ws arbitrary: k)
  case (Cons v vs)
  show ?case
  proof (cases "v \<le> w")
    case True
    with Cons.prems have "desc (w # v # vs)" by (auto dest: order_trans)
    from damped_sum_tl [OF this] Cons.prems True show ?thesis by simp
  next
    case False
    with Cons show ?thesis by simp
  qed
qed (simp add: m_nonneg)

lemma penalty_extra:
  "\<forall>v \<in> set (zs @ ws). 0 \<le> v \<Longrightarrow>
    damped_sum m 1 (sorted_desc ws) \<le> damped_sum m 1 (sorted_desc (zs @ ws))"
proof (induction zs)
  case (Cons z zs)
  have "damped_sum m 1 (sorted_desc (zs @ ws)) \<le> damped_sum m 1 (sorted_desc (z # zs @ ws))"
    unfolding sorted_desc_Cons by (rule damped_sum_insort) (use Cons.prems in auto)
  with Cons show ?case by simp
qed simp

text \<open>Fewer findings of a rule never weigh more.\<close>

lemma penalty_mono:
  assumes "mset ws \<subseteq># mset vs" and "\<forall>v \<in> set vs. 0 \<le> v"
  shows "damped_sum m 1 (sorted_desc ws) \<le> damped_sum m 1 (sorted_desc vs)"
proof -
  obtain zs where "mset zs = mset vs - mset ws" using ex_mset by blast
  with assms(1) have *: "mset (zs @ ws) = mset vs" by (simp add: subset_mset.diff_add)
  then have "set (zs @ ws) = set vs" by (metis set_mset_mset)
  then show ?thesis using penalty_extra [of zs ws] assms(2) sorted_desc_cong [OF *] by auto
qed

text \<open>Repeating a finding is damped: at most its plain weight is added.\<close>

lemma damped_sum_le_plain:
  "\<forall>w \<in> set ws. 0 \<le> w \<Longrightarrow> 1 \<le> k \<Longrightarrow> damped_sum m k ws \<le> m 1 * sum_list ws"
proof (induction ws arbitrary: k)
  case (Cons w ws)
  have "m k \<le> m 1" using Cons.prems(2)
    by (induction k rule: dec_induct) (auto intro: order_trans [OF m_antimono])
  then have "w * m k \<le> m 1 * w" using Cons.prems by (simp add: mult.commute mult_left_mono)
  with Cons show ?case by (auto simp: distrib_left intro: add_mono)
qed simp

end

lemma rank_multiplier_1 [simp]: "rank_multiplier 1 = 1" "rank_multiplier (Suc 0) = 1"
  by (simp_all add: rank_multiplier_def)

interpretation rubric: damping rank_multiplier
proof unfold_locales
  fix k :: nat
  show "0 \<le> rank_multiplier k" by (simp add: rank_multiplier_def)
  assume "1 \<le> k"
  then show "rank_multiplier (Suc k) \<le> rank_multiplier k"
    by (simp add: rank_multiplier_def powr_minus_divide RULE_DAMPING_EXPONENT_def
        frac_le powr_mono2)
qed

lemma rule_penalty_Nil [simp]: "rule_penalty [] = 0"
  by (simp add: rule_penalty_def sorted_desc_def)

lemma rule_penalty_nonneg: "\<forall>w \<in> set ws. 0 \<le> w \<Longrightarrow> 0 \<le> rule_penalty ws"
  unfolding rule_penalty_def by (rule rubric.damped_sum_nonneg) simp

lemma rule_penalty_mono:
  "mset ws \<subseteq># mset vs \<Longrightarrow> \<forall>v \<in> set vs. 0 \<le> v \<Longrightarrow> rule_penalty ws \<le> rule_penalty vs"
  unfolding rule_penalty_def by (rule rubric.penalty_mono)

lemma rule_penalty_cong: "mset ws = mset vs \<Longrightarrow> rule_penalty ws = rule_penalty vs"
  using sorted_desc_cong [of ws vs] by (simp add: rule_penalty_def)

section \<open>Removing one finding\<close>

text \<open>\<open>ws\<close> without its element at position \<open>i\<close>.\<close>

definition remove_nth :: "nat \<Rightarrow> 'a list \<Rightarrow> 'a list" where
  "remove_nth i xs = take i xs @ drop (Suc i) xs"

lemma mset_remove_nth: "i < length xs \<Longrightarrow> mset (remove_nth i xs) = mset xs - {#xs ! i#}"
proof -
  assume "i < length xs"
  then have "mset xs = mset (take i xs @ xs ! i # drop (Suc i) xs)"
    by (rule arg_cong [OF id_take_nth_drop])
  then show ?thesis by (simp add: remove_nth_def)
qed

lemma desc_remove_nth: "desc ws \<Longrightarrow> desc (remove_nth i ws)"
proof -
  assume d: "desc ws"
  have "remove_nth i (map uminus ws) = map uminus (remove_nth i ws)"
    by (simp add: remove_nth_def take_map drop_map)
  moreover have "sorted (take i xs @ drop (Suc i) xs)" if "sorted xs" for xs :: "real list"
  proof (cases "i < length xs")
    case True
    then have "xs = take i xs @ xs ! i # drop (Suc i) xs" by (rule id_take_nth_drop)
    with that have "sorted (take i xs @ xs ! i # drop (Suc i) xs)" by metis
    then show ?thesis by (auto simp: sorted_append)
  qed (simp add: that)
  ultimately show ?thesis using d unfolding remove_nth_def by metis
qed

lemma sorted_desc_remove:
  assumes "i < length ws" "p < length ws" "sorted_desc ws ! p = ws ! i"
  shows "sorted_desc (remove_nth i ws) = remove_nth p (sorted_desc ws)"
  by (rule sorted_desc_unique) (use assms in \<open>auto simp: mset_remove_nth desc_remove_nth\<close>)

lemma damped_sum_append:
  "damped_sum m k (xs @ ys) = damped_sum m k xs + damped_sum m (k + length xs) ys"
  by (induction xs arbitrary: k) auto

lemma damped_sum_nth: "damped_sum m k ws = (\<Sum>i<length ws. ws ! i * m (k + i))"
proof (induction ws arbitrary: k)
  case (Cons w ws)
  then show ?case by (simp add: sum.lessThan_Suc_shift del: sum.lessThan_Suc)
qed simp

text \<open>The identity of the docstring: later elements move up one rank.\<close>

lemma damped_sum_remove_nth:
  assumes "p < length ws"
  shows "damped_sum m 1 (remove_nth p ws) = damped_sum m 1 ws - ws ! p * m (Suc p)
    + (\<Sum>i = Suc p..<length ws. ws ! i * (m i - m (Suc i)))"
proof -
  let ?a = "take p ws" and ?b = "drop (Suc p) ws"
  have ws: "ws = ?a @ ws ! p # ?b" using assms by (rule id_take_nth_drop)
  have full: "damped_sum m 1 ws
      = damped_sum m 1 ?a + (ws ! p * m (Suc p) + damped_sum m (Suc (Suc p)) ?b)"
    by (subst ws, subst damped_sum_append) (use assms in simp)
  have removed: "damped_sum m 1 (remove_nth p ws) = damped_sum m 1 ?a + damped_sum m (Suc p) ?b"
    by (simp add: remove_nth_def damped_sum_append) (use assms in simp)
  have "damped_sum m (Suc p) ?b - damped_sum m (Suc (Suc p)) ?b
      = (\<Sum>j<length ?b. ws ! (j + Suc p) * (m (j + Suc p) - m (Suc (j + Suc p))))"
    by (simp add: damped_sum_nth sum_subtractf [symmetric] right_diff_distrib add.commute)
  also have "\<dots> = (\<Sum>i = Suc p..<length ws. ws ! i * (m i - m (Suc i)))"
    by (rule sum.reindex_bij_witness [where i = "\<lambda>i. i - Suc p" and j = "\<lambda>j. j + Suc p"]) auto
  finally show ?thesis using full removed by simp
qed

abbreviation gain_sum :: "real list \<Rightarrow> nat \<Rightarrow> real" where
  "gain_sum ranked p \<equiv>
     (\<Sum>i = p..<length ranked. ranked ! i * (rank_multiplier i - rank_multiplier (Suc i)))"

lemma gain_loop:
  assumes "k \<le> length ranked"
  shows "length (fold (\<lambda>position gain. gain[position := gain ! (position + 1) + ranked ! position
              * (rank_multiplier position - rank_multiplier (position + 1))])
           (rev [k..<length ranked]) (replicate (length ranked + 1) 0)) = Suc (length ranked)
    \<and> (\<forall>p. k \<le> p \<longrightarrow> p \<le> length ranked \<longrightarrow>
         fold (\<lambda>position gain. gain[position := gain ! (position + 1) + ranked ! position
              * (rank_multiplier position - rank_multiplier (position + 1))])
           (rev [k..<length ranked]) (replicate (length ranked + 1) 0) ! p = gain_sum ranked p)"
  using assms
proof (induction k rule: inc_induct)
  case (step k)
  have upt: "rev [k..<length ranked] = rev [Suc k..<length ranked] @ [k]"
    using step.hyps by (simp add: upt_conv_Cons)
  have "gain_sum ranked k = gain_sum ranked (Suc k)
      + ranked ! k * (rank_multiplier k - rank_multiplier (Suc k))"
    using step.hyps by (simp add: sum.atLeast_Suc_lessThan)
  with step show ?case by (auto simp: upt nth_list_update le_Suc_eq Suc_le_eq)
qed (auto simp del: replicate.simps replicate_Suc)

lemma gain_array_nth: "1 \<le> p \<Longrightarrow> p \<le> length ranked \<Longrightarrow> gain_array ranked ! p = gain_sum ranked p"
proof (cases "ranked = []")
  case False
  assume p: "1 \<le> p" "p \<le> length ranked"
  from False have "1 \<le> length ranked" by (simp add: Suc_le_eq)
  from conjunct2 [OF gain_loop [OF this]] p show ?thesis unfolding gain_array_def by blast
qed simp

text \<open>Writing one slot per index of a permutation.\<close>

lemma fold_scatter_length:
  "length (fold (\<lambda>(p, i) r. r[i := f p]) ps r) = length r"
  by (induction ps arbitrary: r) auto

lemma fold_scatter_other:
  "j \<notin> snd ` set ps \<Longrightarrow> fold (\<lambda>(p, i) r. r[i := f p]) ps r ! j = r ! j"
  by (induction ps arbitrary: r) auto

lemma fold_scatter_nth:
  "distinct (map snd ps) \<Longrightarrow> (p, i) \<in> set ps \<Longrightarrow> i < length r \<Longrightarrow>
    fold (\<lambda>(p, i) r. r[i := f p]) ps r ! i = f p"
proof (induction ps arbitrary: r)
  case (Cons q ps)
  then show ?case
    by (cases q) (auto simp: fold_scatter_other image_iff)
qed simp

lemma map_insort_key:
  "map g (insort_key (f \<circ> g) x xs) = insort_key f (g x) (map g xs)"
  by (induction xs) auto

lemma map_sort_key: "map g (sort_key (f \<circ> g) xs) = sort_key f (map g xs)"
  by (induction xs) (simp_all add: comp_def map_insort_key [unfolded comp_def])

lemma length_removal_penalties [simp]: "length (removal_penalties ws) = length ws"
  by (simp add: removal_penalties_def Let_def fold_scatter_length)

lemma removal_penalties_nth:
  assumes "i < length ws"
  shows "removal_penalties ws ! i = rule_penalty (remove_nth i ws)"
proof -
  define order where "order = sort_key (\<lambda>i. - (ws ! i)) [0..<length ws]"
  define ranked where "ranked = map (\<lambda>i. ws ! i) order"
  define f where "f position = damped_sum rank_multiplier 1 ranked
      - ranked ! position * rank_multiplier (position + 1) + gain_array ranked ! (position + 1)"
    for position
  have set_order: "set order = {0..<length ws}" and dist: "distinct order"
    and len: "length order = length ws"
    by (simp_all add: order_def)
  have ranked: "ranked = sorted_desc ws"
    using map_sort_key [of "\<lambda>i. ws ! i" uminus "[0..<length ws]"]
    by (simp add: ranked_def order_def sorted_desc_def comp_def map_nth)
  from assms set_order obtain p where p: "p < length order" "order ! p = i"
    by (metis atLeastLessThan_iff in_set_conv_nth zero_le)
  have rp: "ranked ! p = ws ! i" and plt: "p < length ranked" using p by (simp_all add: ranked_def)
  have "removal_penalties ws = fold (\<lambda>(p, i) r. r[i := f p]) (enumerate 0 order)
      (replicate (length ws) 0)"
    by (simp add: removal_penalties_def Let_def f_def ranked_def order_def)
  also have "\<dots> ! i = f p"
    by (rule fold_scatter_nth) (use p dist len assms in \<open>auto simp: in_set_enumerate_eq\<close>)
  also have "\<dots> = damped_sum rank_multiplier 1 (remove_nth p ranked)"
    using damped_sum_remove_nth [OF plt, of rank_multiplier] plt by (simp add: f_def gain_array_nth)
  also have "\<dots> = rule_penalty (remove_nth i ws)"
    unfolding rule_penalty_def using sorted_desc_remove [OF assms, of p] rp plt
    by (simp add: ranked)
  finally show ?thesis .
qed

end
