(* ===== verification/Rubric_Score.thy ===== *)
theory Rubric_Score
  imports Rubric_Penalty
begin

text \<open>
  Correctness of the score as a whole: closed forms of the tally and of a category's penalty,
  bounds, monotonicity under removal of findings, and exactness of the reported impacts.
\<close>

section \<open>The tally\<close>

definition cat_pairs :: "scorable list \<Rightarrow> int list \<Rightarrow> string \<Rightarrow> (string \<times> real) list" where
  "cat_pairs fs ex n = List.map_filter
     (\<lambda>f. case category_by_analyzer (sf_analyzer f) of None \<Rightarrow> None
          | Some spec \<Rightarrow> if spec_name spec = n \<and> sf_id f \<notin> set ex
                       then Some (rule_key f, finding_weight f spec) else None) fs"

lemma cat_pairs_Nil [simp]: "cat_pairs [] ex n = []"
  by (simp add: cat_pairs_def List.map_filter_simps)

lemma cat_pairs_Cons:
  "cat_pairs (f # fs) ex n =
     (case category_by_analyzer (sf_analyzer f) of None \<Rightarrow> cat_pairs fs ex n
      | Some spec \<Rightarrow> if spec_name spec = n \<and> sf_id f \<notin> set ex
                   then (rule_key f, finding_weight f spec) # cat_pairs fs ex n
                   else cat_pairs fs ex n)"
  by (simp add: cat_pairs_def List.map_filter_simps split: option.splits)

lemma tally_finding_step:
  "by_category (tally_finding ex t f) n = group_into (by_category t n) (cat_pairs [f] ex n)
   \<and> counts (tally_finding ex t f) n = counts t n + length (cat_pairs [f] ex n)"
  by (auto simp: cat_pairs_Cons tally_finding_def split: option.splits)

lemma cat_pairs_append: "cat_pairs (fs @ gs) ex n = cat_pairs fs ex n @ cat_pairs gs ex n"
  by (induction fs) (auto simp: cat_pairs_Cons split: option.splits)

lemma group_into_append: "group_into d (kvs @ kws) = group_into (group_into d kvs) kws"
  by (induction d kvs rule: group_into.induct) auto

lemma tally_foldl:
  "by_category (foldl (tally_finding ex) t fs) n = group_into (by_category t n) (cat_pairs fs ex n)
   \<and> counts (foldl (tally_finding ex) t fs) n = counts t n + length (cat_pairs fs ex n)"
proof (induction fs arbitrary: t)
  case (Cons f fs)
  have "cat_pairs (f # fs) ex n = cat_pairs [f] ex n @ cat_pairs fs ex n"
    using cat_pairs_append [of "[f]" fs] by simp
  then show ?case
    using tally_finding_step [of ex t f n] by (simp only: foldl_Cons Cons.IH) (simp add: group_into_append)
qed simp

lemma by_category_tally [simp]:
  "by_category (tally_findings fs ex) n = group_into [] (cat_pairs fs ex n)"
  by (simp add: tally_findings_def tally_foldl)

lemma counts_tally [simp]: "counts (tally_findings fs ex) n = length (cat_pairs fs ex n)"
  by (simp add: tally_findings_def tally_foldl)

definition values_of :: "'k \<Rightarrow> ('k \<times> 'v) list \<Rightarrow> 'v list" where
  "values_of k kvs = map snd (filter (\<lambda>p. fst p = k) kvs)"

lemma values_of_Nil: "k \<notin> fst ` set kvs \<Longrightarrow> values_of k kvs = []"
  by (auto simp: values_of_def filter_empty_conv)

lemma raw_penalty_group:
  assumes "finite K" "fst ` set kvs \<subseteq> K"
  shows "raw_penalty (group_into [] kvs) = (\<Sum>k\<in>K. rule_penalty (values_of k kvs))"
proof -
  let ?d = "group_into [] kvs"
  have dist: "distinct (map fst ?d)" by (rule distinct_group_into) simp
  have eq: "rule_penalty (snd p) = rule_penalty (values_of (fst p) kvs)" if "p \<in> set ?d" for p
    using that group_into_Nil_entry [of "fst p" "snd p" kvs] by (simp add: values_of_def)
  have "raw_penalty ?d = sum_list (map (\<lambda>k. rule_penalty (values_of k kvs)) (map fst ?d))"
    unfolding raw_penalty_def by (simp add: comp_def eq cong: map_cong)
  also have "\<dots> = (\<Sum>k\<in>fst ` set kvs. rule_penalty (values_of k kvs))"
    by (simp only: sum_list_distinct_keys [OF dist] set_map group_into_keys) simp
  also have "\<dots> = (\<Sum>k\<in>K. rule_penalty (values_of k kvs))"
    by (rule sum.mono_neutral_left) (use assms in \<open>auto simp: values_of_Nil\<close>)
  finally show ?thesis .
qed

section \<open>Signs\<close>

lemma CATEGORIES_cases:
  assumes "spec \<in> set CATEGORIES"
  obtains "spec = security_spec" | "spec = dependencies_spec" | "spec = architecture_spec"
    | "spec = code_health_spec"
  using assms by (auto simp: CATEGORIES_def)

lemma category_by_analyzer_in:
  "category_by_analyzer a = Some spec \<Longrightarrow> spec \<in> set CATEGORIES \<and> a \<in> set (spec_analyzers spec)"
  by (auto simp: category_by_analyzer_def find_Some_iff)

lemma severity_weights_nonneg: "spec \<in> set CATEGORIES \<Longrightarrow> 0 \<le> spec_severity_weights spec s"
  by (cases s) (auto simp: CATEGORIES_def spec_defs)

lemma finding_weight_nonneg: "spec \<in> set CATEGORIES \<Longrightarrow> 0 \<le> finding_weight f spec"
  by (simp add: finding_weight_def Let_def severity_weights_nonneg CORROBORATION_FACTOR_def
      TEST_PATH_FACTOR_def)

lemma size_factor_ge_1: "1 \<le> size_factor spec ctx"
proof -
  have "1 \<le> max 1 (real (source_loc ctx) / 1000) powr (1/3)" by (rule ge_one_powr_ge_zero) auto
  then show ?thesis
    by (auto simp: size_factor_def Let_def MAX_SECURITY_SIZE_FACTOR_def split: size_norm.splits)
qed

lemma cat_pairs_nonneg: "(k, w) \<in> set (cat_pairs fs ex n) \<Longrightarrow> 0 \<le> w"
  by (induction fs) (auto simp: cat_pairs_Cons finding_weight_nonneg
      dest: category_by_analyzer_in split: option.splits if_splits)

lemma values_of_nonneg: "\<forall>w \<in> set (values_of k (cat_pairs fs ex n)). 0 \<le> w"
  by (auto simp: values_of_def dest: cat_pairs_nonneg)

lemma raw_penalty_nonneg: "0 \<le> raw_penalty (group_into [] (cat_pairs fs ex n))"
  by (subst raw_penalty_group [OF _ subset_refl])
     (auto intro!: sum_nonneg rule_penalty_nonneg values_of_nonneg)

lemma score_specs_pos: "spec \<in> set (score_specs c) \<Longrightarrow> 0 < spec_weight spec \<and> 0 < spec_half_life spec"
  by (auto simp: score_specs_def CATEGORIES_def spec_defs PROCESS_SPEC_def split: if_splits)

lemma decay_bounds: "0 \<le> p \<Longrightarrow> 0 < h \<Longrightarrow> 0 < decay p h \<and> decay p h \<le> 100"
  by (auto simp: decay_def)

lemma decay_antimono: "p \<le> q \<Longrightarrow> 0 < h \<Longrightarrow> decay q h \<le> decay p h"
  by (simp add: decay_def divide_right_mono mult_right_mono)

section \<open>Signals\<close>

definition unit_pending :: "signal_state \<Rightarrow> bool" where
  "unit_pending st \<longleftrightarrow> (\<forall>cat n l v. (n, l, v) \<in> set (pending st cat) \<longrightarrow> 0 \<le> v \<and> v \<le> 1)"

lemma unit_pending_step: "unit_pending st \<Longrightarrow> unit_pending (collect_signal ctx st t)"
  by (cases t) (auto simp: unit_pending_def collect_signal_def Let_def split: option.splits if_splits)

lemma unit_pending_foldl: "unit_pending st \<Longrightarrow> unit_pending (foldl (collect_signal ctx) st ts)"
  by (induction ts arbitrary: st) (simp_all add: unit_pending_step)

lemma pending_in_unit:
  "(n, l, v) \<in> set (pending (collect_signals ctx c) cat) \<Longrightarrow> 0 \<le> v \<and> v \<le> 1"
  using unit_pending_foldl [of "\<lparr>pending = (\<lambda>_. []), skipped = (\<lambda>_. [])\<rparr>" ctx "signal_targets c"]
  unfolding collect_signals_def [symmetric] by (auto simp: unit_pending_def)

definition signal_cost :: "real \<Rightarrow> (string \<times> string \<times> real) list \<Rightarrow> real" where
  "signal_cost h lines = sum_list (map (\<lambda>(_, _, v). h * SIGNAL_STRENGTH * (1 - v)) lines)"

lemma apply_signals_penalty: "fst (apply_signals h p lines) = p + signal_cost h lines"
  by (induction h p lines rule: apply_signals.induct)
     (auto simp: signal_cost_def Let_def split: prod.splits)

lemma signal_cost_nonneg:
  "0 < h \<Longrightarrow> 0 \<le> signal_cost h (pending (collect_signals ctx c) cat)"
  unfolding signal_cost_def
  by (rule sum_list_map_nonneg) (auto simp: SIGNAL_STRENGTH_def dest: pending_in_unit)

section \<open>A category's score in closed form\<close>

text \<open>Whether a category is scored depends on the run, not on the findings.\<close>

definition excluded_spec :: "score_context \<Rightarrow> rubric_config \<Rightarrow> category_spec \<Rightarrow> bool" where
  "excluded_spec ctx c spec \<longleftrightarrow>
     (\<exists>a \<in> set (spec_analyzers spec). a \<in> set (analyzers_failed ctx)) \<or>
     (\<forall>a \<in> set (spec_analyzers spec). a \<notin> set (analyzers_run ctx)) \<and>
       pending (collect_signals ctx c) (spec_name spec) = []"

definition category_penalty ::
    "scorable list \<Rightarrow> score_context \<Rightarrow> int list \<Rightarrow> rubric_config \<Rightarrow> category_spec \<Rightarrow> real" where
  "category_penalty fs ctx ex c spec =
     raw_penalty (group_into [] (cat_pairs fs ex (spec_name spec))) / size_factor spec ctx
     + signal_cost (spec_half_life spec) (pending (collect_signals ctx c) (spec_name spec))"

lemma score_category_closed:
  fixes fs ex spec ctx c
  defines "cs \<equiv> fst (score_category (tally_findings fs ex) (collect_signals ctx c) ctx spec)"
  shows "cs_category cs = spec_name spec"
    and "cs_score cs = (if excluded_spec ctx c spec then None
           else Some (decay (category_penalty fs ctx ex c spec) (spec_half_life spec)))"
    and "cs_weight cs = (if excluded_spec ctx c spec then 0 else spec_weight spec)"
    and "\<not> excluded_spec ctx c spec \<Longrightarrow> cs_penalty cs = category_penalty fs ctx ex c spec"
  using apply_signals_penalty [of "spec_half_life spec"
      "raw_penalty (group_into [] (cat_pairs fs ex (spec_name spec))) / size_factor spec ctx"
      "pending (collect_signals ctx c) (spec_name spec)"]
  by (auto simp: cs_def score_category_def Let_def excluded_spec_def category_penalty_def
      filter_empty_conv split: prod.splits)

lemma category_penalty_nonneg:
  "spec \<in> set (score_specs c) \<Longrightarrow> 0 \<le> category_penalty fs ctx ex c spec"
  using size_factor_ge_1 [of spec ctx] score_specs_pos [of spec c]
  by (simp add: category_penalty_def raw_penalty_nonneg signal_cost_nonneg)

definition scored_specs :: "score_context \<Rightarrow> rubric_config \<Rightarrow> category_spec list" where
  "scored_specs ctx c = filter (\<lambda>spec. \<not> excluded_spec ctx c spec) (score_specs c)"

definition weight_sum :: "score_context \<Rightarrow> rubric_config \<Rightarrow> real" where
  "weight_sum ctx c = sum_list (map spec_weight (scored_specs ctx c))"

lemma total_weight_specs:
  "total_weight (map (\<lambda>spec. fst (score_category (tally_findings fs ex) (collect_signals ctx c) ctx spec)) S)
   = sum_list (map spec_weight (filter (\<lambda>spec. \<not> excluded_spec ctx c spec) S))"
  by (induction S) (simp_all add: total_weight_def score_category_closed)

lemma total_weight_closed:
  "total_weight (map fst (score_categories fs ctx ex c)) = weight_sum ctx c"
  by (simp add: score_categories_def comp_def total_weight_specs weight_sum_def scored_specs_def)

lemma weighted_sum_specs:
  "weighted_sum (map (\<lambda>cs. if cs_score cs \<noteq> None then cs\<lparr>cs_weight := cs_weight cs / t\<rparr> else cs)
     (map (\<lambda>spec. fst (score_category (tally_findings fs ex) (collect_signals ctx c) ctx spec)) S))
   = sum_list (map (\<lambda>spec. decay (category_penalty fs ctx ex c spec) (spec_half_life spec)
                            * (spec_weight spec / t))
       (filter (\<lambda>spec. \<not> excluded_spec ctx c spec) S))"
  by (induction S) (simp_all add: weighted_sum_def score_category_closed)

lemma weighted_sum_closed:
  "weighted_sum (renormalise (map fst (score_categories fs ctx ex c)))
   = sum_list (map (\<lambda>spec. decay (category_penalty fs ctx ex c spec) (spec_half_life spec)
                            * (spec_weight spec / weight_sum ctx c)) (scored_specs ctx c))"
proof -
  have eq: "map fst (score_categories fs ctx ex c)
      = map (\<lambda>spec. fst (score_category (tally_findings fs ex) (collect_signals ctx c) ctx spec)) (score_specs c)"
    by (simp add: score_categories_def comp_def)
  show ?thesis
    unfolding renormalise_def total_weight_closed unfolding eq weighted_sum_specs scored_specs_def ..
qed

text \<open>The unrounded overall score of a report: full-precision scores, effective weights.\<close>

definition exact_overall :: "score_report \<Rightarrow> real" where
  "exact_overall r = weighted_sum (categories r)"


lemma weight_sum_pos: "scored_specs ctx c \<noteq> [] \<Longrightarrow> 0 < weight_sum ctx c"
proof (cases "scored_specs ctx c")
  case (Cons spec specs)
  have pos: "0 < spec_weight s" if "s \<in> set (spec # specs)" for s
    using that Cons [symmetric] score_specs_pos by (auto simp: scored_specs_def)
  have "0 \<le> sum_list (map spec_weight specs)"
    by (rule sum_list_map_nonneg) (use pos in \<open>auto intro: less_imp_le\<close>)
  with pos Cons show ?thesis by (simp add: weight_sum_def add_pos_nonneg)
qed simp

lemma weight_sum_zero: "weight_sum ctx c = 0 \<longleftrightarrow> scored_specs ctx c = []"
  using weight_sum_pos [of ctx c] by (cases "scored_specs ctx c = []") (auto simp: weight_sum_def)

lemma sum_list_scale: "sum_list (map (\<lambda>x. a * (f x / t)) xs) = a * (sum_list (map f xs) / (t::real))"
  by (induction xs) (simp_all add: add_divide_distrib distrib_left)

definition overall_formula :: "scorable list \<Rightarrow> score_context \<Rightarrow> int list \<Rightarrow> rubric_config \<Rightarrow> real" where
  "overall_formula fs ctx ex c =
     sum_list (map (\<lambda>spec. decay (category_penalty fs ctx ex c spec) (spec_half_life spec)
                            * (spec_weight spec / weight_sum ctx c)) (scored_specs ctx c))"

lemma overall_closed:
  "overall (score fs ctx ex c) =
     (if scored_specs ctx c = [] then None else Some (py_round 2 (overall_formula fs ctx ex c)))"
  by (simp add: score_def Let_def total_weight_closed weighted_sum_closed weight_sum_zero
      overall_formula_def)

lemma grade_closed: "grade (score fs ctx ex c) = Option.bind (overall (score fs ctx ex c)) grade_for"
  by (simp add: score_def Let_def)

lemma exact_overall_closed: "exact_overall (score fs ctx ex c) = overall_formula fs ctx ex c"
proof (cases "scored_specs ctx c = []")
  case True
  then have "weight_sum ctx c = 0" by (simp add: weight_sum_def)
  moreover from True have "weighted_sum (map fst (score_categories fs ctx ex c)) = 0"
    using weighted_sum_specs [of 1 fs ex ctx c "score_specs c"]
    by (simp add: score_categories_def comp_def scored_specs_def cong: if_cong)
  ultimately show ?thesis using True
    by (simp add: exact_overall_def score_def Let_def total_weight_closed overall_formula_def)
next
  case False
  then have "weight_sum ctx c \<noteq> 0" using weight_sum_pos [of ctx c] by simp
  then show ?thesis
    by (simp add: exact_overall_def score_def Let_def total_weight_closed weighted_sum_closed
        overall_formula_def)
qed

lemma overall_formula_bounds: "0 \<le> overall_formula fs ctx ex c \<and> overall_formula fs ctx ex c \<le> 100"
proof (cases "scored_specs ctx c = []")
  case False
  have pos: "0 < weight_sum ctx c" by (rule weight_sum_pos [OF False])
  have d: "0 \<le> decay (category_penalty fs ctx ex c s) (spec_half_life s)
      \<and> decay (category_penalty fs ctx ex c s) (spec_half_life s) \<le> 100 \<and> 0 \<le> spec_weight s"
    if "s \<in> set (scored_specs ctx c)" for s
  proof -
    have s: "s \<in> set (score_specs c)" using that by (simp add: scored_specs_def)
    show ?thesis
      using decay_bounds [OF category_penalty_nonneg [OF s]] score_specs_pos [OF s]
      by (simp add: less_imp_le)
  qed
  have "overall_formula fs ctx ex c
      \<le> sum_list (map (\<lambda>s. 100 * (spec_weight s / weight_sum ctx c)) (scored_specs ctx c))"
    unfolding overall_formula_def
    by (rule sum_list_mono_map) (use d pos in \<open>auto intro!: divide_right_mono mult_right_mono\<close>)
  also have "\<dots> = 100 * (weight_sum ctx c / weight_sum ctx c)"
    by (simp only: sum_list_scale weight_sum_def [symmetric])
  also have "\<dots> = 100" using pos by simp
  finally show ?thesis unfolding overall_formula_def
    using d pos by (auto intro!: sum_list_map_nonneg)
qed (simp add: overall_formula_def)


section \<open>Removing findings\<close>

lemma values_of_Cons: "values_of k (p # kvs) = (if fst p = k then [snd p] else []) @ values_of k kvs"
  by (simp add: values_of_def)

lemma values_of_mono:
  "set ex \<subseteq> set ex' \<Longrightarrow>
    mset (values_of k (cat_pairs fs ex' n)) \<subseteq># mset (values_of k (cat_pairs fs ex n))"
proof (induction fs)
  case (Cons f fs)
  then have IH: "mset (values_of k (cat_pairs fs ex' n)) \<subseteq># mset (values_of k (cat_pairs fs ex n))"
    by simp
  have "mset (values_of k (cat_pairs fs ex' n)) \<subseteq># add_mset x (mset (values_of k (cat_pairs fs ex n)))"
    for x using IH by (metis add_mset_add_single mset_subset_eq_add_left subset_mset.order_trans)
  with IH Cons.prems show ?case
    by (auto simp: cat_pairs_Cons values_of_Cons split: option.splits)
qed (simp add: values_of_def)

lemma category_penalty_mono:
  assumes "set ex \<subseteq> set ex'"
  shows "category_penalty fs ctx ex' c spec \<le> category_penalty fs ctx ex c spec"
proof -
  let ?n = "spec_name spec"
  let ?K = "fst ` set (cat_pairs fs ex ?n) \<union> fst ` set (cat_pairs fs ex' ?n)"
  have "(\<Sum>k\<in>?K. rule_penalty (values_of k (cat_pairs fs ex' ?n)))
      \<le> (\<Sum>k\<in>?K. rule_penalty (values_of k (cat_pairs fs ex ?n)))"
    by (intro sum_mono rule_penalty_mono values_of_mono [OF assms] values_of_nonneg)
  then have "raw_penalty (group_into [] (cat_pairs fs ex' ?n))
      \<le> raw_penalty (group_into [] (cat_pairs fs ex ?n))"
    by (simp add: raw_penalty_group [where K = ?K])
  then show ?thesis using size_factor_ge_1 [of spec ctx]
    by (simp add: category_penalty_def divide_right_mono)
qed

lemma overall_formula_mono:
  assumes "set ex \<subseteq> set ex'"
  shows "overall_formula fs ctx ex c \<le> overall_formula fs ctx ex' c"
  unfolding overall_formula_def
proof (rule sum_list_mono_map)
  fix spec
  assume spec: "spec \<in> set (scored_specs ctx c)"
  then have "scored_specs ctx c \<noteq> []" by auto
  then have pos: "0 < weight_sum ctx c" by (rule weight_sum_pos)
  have s: "spec \<in> set (score_specs c)" using spec by (simp add: scored_specs_def)
  show "decay (category_penalty fs ctx ex c spec) (spec_half_life spec) * (spec_weight spec / weight_sum ctx c)
     \<le> decay (category_penalty fs ctx ex' c spec) (spec_half_life spec) * (spec_weight spec / weight_sum ctx c)"
    using decay_antimono [OF category_penalty_mono [OF assms]] score_specs_pos [OF s] pos
    by (intro mult_right_mono) (auto intro: divide_nonneg_nonneg less_imp_le)
qed

section \<open>Category lookup\<close>

lemma find_spec:
  assumes "spec \<in> set CATEGORIES"
  shows "find (\<lambda>s. spec_name s = spec_name spec) CATEGORIES = Some spec"
    and "find (\<lambda>s. spec_name s = spec_name spec) (score_specs c) = Some spec"
  using assms by (cases rule: CATEGORIES_cases; simp add: score_specs_def CATEGORIES_def spec_defs)+

lemma find_map_key: "(\<And>s. key (g s) = name s) \<Longrightarrow>
    find (\<lambda>c. key c = n) (map g specs) = map_option g (find (\<lambda>s. name s = n) specs)"
  by (induction specs) auto

lemma report_category_closed:
  assumes "spec \<in> set CATEGORIES"
  shows "\<exists>cat. report_category (score fs ctx ex c) (spec_name spec) = Some cat
    \<and> cs_score cat = (if excluded_spec ctx c spec then None
           else Some (decay (category_penalty fs ctx ex c spec) (spec_half_life spec)))
    \<and> (\<not> excluded_spec ctx c spec \<longrightarrow> cs_weight cat = spec_weight spec / weight_sum ctx c
         \<and> cs_penalty cat = category_penalty fs ctx ex c spec)"
proof -
  define g where "g spec = fst (score_category (tally_findings fs ex) (collect_signals ctx c) ctx spec)"
    for spec
  define t where "t = weight_sum ctx c"
  define h :: "category_score \<Rightarrow> category_score" where "h cs = (if cs_score cs \<noteq> None then cs\<lparr>cs_weight := cs_weight cs / t\<rparr> else cs)" for cs
  have cats: "map fst (score_categories fs ctx ex c) = map g (score_specs c)"
    by (simp add: score_categories_def g_def comp_def)
  have found: "find (\<lambda>s. spec_name s = spec_name spec) (score_specs c) = Some spec"
    by (rule find_spec [OF assms])
  have g: "cs_category (g s) = spec_name s" for s by (simp add: g_def score_category_closed)
  have hg: "cs_category (h (g s)) = spec_name s" for s by (simp add: h_def g)
  show ?thesis
  proof (cases "t = 0")
    case True
    then have "categories (score fs ctx ex c) = map g (score_specs c)"
      using total_weight_closed [of fs ctx ex c] cats by (simp add: score_def Let_def t_def)
    moreover have "excluded_spec ctx c spec"
    proof -
      have "scored_specs ctx c = []" using True by (simp add: t_def weight_sum_zero)
      moreover have "spec \<in> set (score_specs c)" using assms by (simp add: score_specs_def)
      ultimately show ?thesis by (auto simp: scored_specs_def filter_empty_conv)
    qed
    ultimately show ?thesis
      using find_map_key [of cs_category g spec_name "spec_name spec" "score_specs c", OF g] found
      by (simp add: report_category_def g_def score_category_closed)
  next
    case False
    then have "categories (score fs ctx ex c) = map (\<lambda>s. h (g s)) (score_specs c)"
      using total_weight_closed [of fs ctx ex c] cats
      by (simp add: score_def Let_def t_def renormalise_def h_def comp_def)
    then show ?thesis
      using find_map_key [of cs_category "\<lambda>s. h (g s)" spec_name "spec_name spec" "score_specs c", OF hg] found
      by (simp add: report_category_def h_def g_def score_category_closed t_def)
  qed
qed

end
