(* ===== verification/Rubric_Impact.thy ===== *)
theory Rubric_Impact
  imports Rubric_Score
begin

text \<open>
  Exactness of \<open>finding_impacts\<close>: the impact of a finding is the gain in the overall score
  that rescoring without it would show, computed from one pass over its rule's findings.
\<close>

section \<open>One group\<close>

definition impact_value :: "score_context \<Rightarrow> category_score \<Rightarrow> category_spec \<Rightarrow> scorable list \<Rightarrow> nat \<Rightarrow> real" where
  "impact_value ctx cat spec members i =
     (case cs_score cat of None \<Rightarrow> 0
      | Some s \<Rightarrow>
          let weights = map (\<lambda>f. finding_weight f spec) members;
              other = cs_penalty cat * size_factor spec ctx - rule_penalty weights
          in py_round 4 (max 0 ((decay (max 0 (other + removal_penalties weights ! i)
                                        / size_factor spec ctx) (spec_half_life spec) - s)
                                * cs_weight cat)))"

lemma foldl_update_other:
  "k \<notin> key ` set xs \<Longrightarrow> foldl (\<lambda>m x. m(key x \<mapsto> v x)) m xs k = m k"
  by (induction xs arbitrary: m) auto

lemma foldl_update_nth:
  "distinct (map key xs) \<Longrightarrow> i < length xs \<Longrightarrow>
    foldl (\<lambda>m x. m(key x \<mapsto> v x)) m xs (key (xs ! i)) = Some (v (xs ! i))"
proof (induction xs arbitrary: m i)
  case (Cons x xs)
  show ?case
  proof (cases i)
    case 0
    have "foldl (\<lambda>m x. m(key x \<mapsto> v x)) (m(key x \<mapsto> v x)) xs (key x) = (m(key x \<mapsto> v x)) (key x)"
      by (rule foldl_update_other) (use Cons.prems in auto)
    with 0 show ?thesis by (simp only: nth_Cons_0 foldl_Cons) simp
  next
    case (Suc j)
    with Cons show ?thesis by simp
  qed
qed simp

lemma group_impacts_fold:
  "group_impacts ctx cat spec members m =
     foldl (\<lambda>m p. m(sf_id (members ! p) \<mapsto> impact_value ctx cat spec members p)) m [0..<length members]"
proof -
  let ?ws = "map (\<lambda>f. finding_weight f spec) members"
  have zip: "zip members (removal_penalties ?ws)
      = map (\<lambda>p. (members ! p, removal_penalties ?ws ! p)) [0..<length members]"
    by (rule nth_equalityI) auto
  have members: "members = map (\<lambda>p. members ! p) [0..<length members]" by (simp add: map_nth)
  show ?thesis
  proof (cases "cs_score cat")
    case None
    have "foldl (\<lambda>m f. m(sf_id f \<mapsto> 0)) m members
        = foldl (\<lambda>m f. m(sf_id f \<mapsto> 0)) m (map (\<lambda>p. members ! p) [0..<length members])"
      by (simp add: map_nth)
    with None show ?thesis by (simp add: group_impacts_def impact_value_def foldl_map)
  next
    case (Some s)
    then show ?thesis by (simp add: group_impacts_def impact_value_def Let_def zip foldl_map)
  qed
qed

lemma group_impacts_nth:
  assumes "distinct (map sf_id members)" "i < length members"
  shows "group_impacts ctx cat spec members m (sf_id (members ! i)) = Some (impact_value ctx cat spec members i)"
proof -
  have "map (\<lambda>p. sf_id (members ! p)) [0..<length members] = map sf_id members"
    by (rule nth_equalityI) auto
  with assms have "distinct (map (\<lambda>p. sf_id (members ! p)) [0..<length members])" by simp
  from foldl_update_nth [OF this, of i "impact_value ctx cat spec members" m] assms(2)
  show ?thesis by (simp add: group_impacts_fold)
qed

lemma group_impacts_other:
  "k \<notin> sf_id ` set members \<Longrightarrow> group_impacts ctx cat spec members m k = m k"
  unfolding group_impacts_fold by (rule foldl_update_other) auto

section \<open>The loop over the groups\<close>

definition impact_step where
  "impact_step base ctx = (\<lambda>acc ((category_name :: string, rule :: string), members).
            case acc of None \<Rightarrow> None
            | Some impacts \<Rightarrow>
                (case (report_category base category_name,
                       find (\<lambda>s. spec_name s = category_name) CATEGORIES) of
                   (Some cat, Some spec) \<Rightarrow> Some (group_impacts ctx cat spec members impacts)
                 | _ \<Rightarrow> None))"

definition known_group :: "score_report \<Rightarrow> ((string \<times> string) \<times> scorable list) \<Rightarrow> bool" where
  "known_group base g \<longleftrightarrow> (\<exists>cat spec. report_category base (fst (fst g)) = Some cat
     \<and> find (\<lambda>s. spec_name s = fst (fst g)) CATEGORIES = Some spec)"

lemma impact_loop_other:
  "\<forall>g \<in> set gs. known_group base g \<and> k \<notin> sf_id ` set (snd g) \<Longrightarrow>
    \<exists>m'. foldl (impact_step base ctx) (Some m) gs = Some m' \<and> m' k = m k"
proof (induction gs arbitrary: m)
  case (Cons g gs)
  obtain n r ms where g: "g = ((n, r), ms)" by (metis surj_pair)
  from Cons.prems g obtain cat spec where
    "report_category base n = Some cat" "find (\<lambda>s. spec_name s = n) CATEGORIES = Some spec"
    by (auto simp: known_group_def)
  then have step: "impact_step base ctx (Some m) g = Some (group_impacts ctx cat spec ms m)"
    by (simp add: impact_step_def g)
  have "k \<notin> sf_id ` set ms" using Cons.prems g by auto
  then show ?case using Cons.IH [of "group_impacts ctx cat spec ms m"] Cons.prems step
    by (auto simp: group_impacts_other)
qed simp

lemma impact_loop_nth:
  assumes "\<forall>g \<in> set gs. known_group base g"
    and "distinct (map sf_id (concat (map snd gs)))"
    and "((n, r), ms) \<in> set gs" "i < length ms"
    and "report_category base n = Some cat" "find (\<lambda>s. spec_name s = n) CATEGORIES = Some spec"
  shows "\<exists>m'. foldl (impact_step base ctx) (Some m) gs = Some m'
    \<and> m' (sf_id (ms ! i)) = Some (impact_value ctx cat spec ms i)"
  using assms(1-4)
proof (induction gs arbitrary: m)
  case (Cons g gs)
  obtain n' r' ms' where g: "g = ((n', r'), ms')" by (metis surj_pair)
  from Cons.prems g obtain cat' spec' where
    found: "report_category base n' = Some cat'" "find (\<lambda>s. spec_name s = n') CATEGORIES = Some spec'"
    by (auto simp: known_group_def)
  then have step: "impact_step base ctx (Some m) g = Some (group_impacts ctx cat' spec' ms' m)"
    by (simp add: impact_step_def g)
  show ?case
  proof (cases "g = ((n, r), ms)")
    case True
    then have eq: "cat' = cat" "spec' = spec" "ms' = ms" using g found assms(5,6) by auto
    have "\<forall>g \<in> set gs. sf_id (ms ! i) \<notin> sf_id ` set (snd g)"
    proof
      fix h assume "h \<in> set gs"
      moreover have "ms ! i \<in> set ms'" using Cons.prems(4) eq(3) by simp
      ultimately show "sf_id (ms ! i) \<notin> sf_id ` set (snd h)"
        using Cons.prems(2) g by (fastforce simp: image_iff)
    qed
    from impact_loop_other [of gs base _ ctx "group_impacts ctx cat spec ms m"] this Cons.prems(1)
    obtain m' where "foldl (impact_step base ctx) (Some (group_impacts ctx cat spec ms m)) gs = Some m'"
      "m' (sf_id (ms ! i)) = group_impacts ctx cat spec ms m (sf_id (ms ! i))"
      by (metis list.set_intros(2))
    moreover have "distinct (map sf_id ms)" using Cons.prems(2) g eq(3) by simp
    ultimately show ?thesis using step eq group_impacts_nth [OF _ Cons.prems(4)] by simp
  next
    case False
    with Cons show ?thesis by (simp add: step)
  qed
qed simp

lemma finding_impacts_step:
  "finding_impacts fs ctx c =
     foldl (impact_step (score fs ctx [] c) ctx)
       (Some (foldl (\<lambda>m f. m(sf_id f \<mapsto> 0)) Map.empty fs)) (impact_groups fs)"
  by (simp add: finding_impacts_def Let_def impact_step_def)

section \<open>The groups and the tally agree\<close>

definition impact_key :: "scorable \<Rightarrow> (string \<times> string) option" where
  "impact_key f = map_option (\<lambda>spec. (spec_name spec, rule_key f)) (category_by_analyzer (sf_analyzer f))"

lemma impact_groups_alt:
  "impact_groups fs = group_into [] (map (\<lambda>f. (the (impact_key f), f)) (filter (\<lambda>f. impact_key f \<noteq> None) fs))"
proof -
  have "List.map_filter (\<lambda>f. map_option (\<lambda>spec. ((spec_name spec, rule_key f), f))
          (category_by_analyzer (sf_analyzer f))) fs
      = map (\<lambda>f. (the (impact_key f), f)) (filter (\<lambda>f. impact_key f \<noteq> None) fs)"
    by (induction fs) (auto simp: List.map_filter_simps impact_key_def split: option.splits)
  then show ?thesis by (simp add: impact_groups_def)
qed

lemma impact_groups_entry:
  "(k, ms) \<in> set (impact_groups fs) \<Longrightarrow> ms = filter (\<lambda>f. impact_key f = Some k) fs"
proof -
  assume "(k, ms) \<in> set (impact_groups fs)"
  from group_into_Nil_entry [OF this [unfolded impact_groups_alt]]
  have "ms = map snd (filter (\<lambda>p. fst p = k) (map (\<lambda>f. (the (impact_key f), f)) (filter (\<lambda>f. impact_key f \<noteq> None) fs)))" .
  then show ?thesis by (auto simp: filter_map comp_def intro!: filter_cong)
qed

lemma impact_groups_member:
  "f \<in> set fs \<Longrightarrow> impact_key f = Some k \<Longrightarrow> \<exists>ms. (k, ms) \<in> set (impact_groups fs)"
proof -
  assume "f \<in> set fs" "impact_key f = Some k"
  then have "k \<in> fst ` set (impact_groups fs)"
    by (simp only: impact_groups_alt group_into_keys) force
  then show ?thesis by auto
qed

lemma distinct_impact_groups:
  assumes "distinct (map sf_id fs)"
  shows "distinct (map sf_id (concat (map snd (impact_groups fs))))"
proof -
  let ?gs = "filter (\<lambda>f. impact_key f \<noteq> None) fs"
  have "mset (concat (map snd (impact_groups fs))) = mset ?gs"
    by (simp add: impact_groups_alt mset_group_into comp_def)
  moreover have "distinct (map sf_id ?gs)" using assms by (rule distinct_map_filter)
  ultimately show ?thesis by (metis mset_map mset_eq_imp_distinct_iff)
qed

lemma known_impact_groups:
  "g \<in> set (impact_groups fs) \<Longrightarrow> known_group (score fs ctx [] c) g"
proof -
  assume "g \<in> set (impact_groups fs)"
  then have "fst g \<in> fst ` set (impact_groups fs)" by simp
  then obtain f where "f \<in> set fs" "impact_key f = Some (fst g)"
    by (auto simp: impact_groups_alt group_into_keys)
  then obtain spec where s: "category_by_analyzer (sf_analyzer f) = Some spec"
    and k: "fst g = (spec_name spec, rule_key f)"
    by (auto simp: impact_key_def)
  from category_by_analyzer_in [OF s] k
  have spec: "spec \<in> set CATEGORIES" "fst (fst g) = spec_name spec" by simp_all
  then show ?thesis
    using report_category_closed [OF spec(1), of fs ctx "[]" c] find_spec(1) [OF spec(1)]
    by (auto simp: known_group_def)
qed


section \<open>The impact of one finding\<close>

lemma category_name_inject:
  "s \<in> set CATEGORIES \<Longrightarrow> s' \<in> set CATEGORIES \<Longrightarrow> spec_name s = spec_name s' \<Longrightarrow> s = s'"
  using find_spec(1) by (metis option.inject)

text \<open>The weights of a group are the tally's weights of that rule.\<close>

lemma group_weights:
  assumes "spec \<in> set CATEGORIES"
  shows "values_of r (cat_pairs fs ex (spec_name spec)) =
    map (\<lambda>f. finding_weight f spec)
      (filter (\<lambda>f. impact_key f = Some (spec_name spec, r) \<and> sf_id f \<notin> set ex) fs)"
proof (induction fs)
  case (Cons f fs)
  then show ?case using category_name_inject [OF _ assms] category_by_analyzer_in [of "sf_analyzer f"]
    by (auto simp: cat_pairs_Cons values_of_Cons impact_key_def split: option.splits)
qed (simp add: values_of_def)

lemma filter_remove_one:
  assumes "distinct (map key xs)" "i < length xs"
  shows "mset (filter (\<lambda>x. key x \<noteq> key (xs ! i)) xs) = mset (remove_nth i xs)"
proof -
  have xs: "xs = take i xs @ xs ! i # drop (Suc i) xs" using assms(2) by (rule id_take_nth_drop)
  have "distinct (map key (take i xs @ xs ! i # drop (Suc i) xs))" using assms(1) xs by metis
  then have keep: "filter (\<lambda>x. key x \<noteq> key (xs ! i)) (take i xs) = take i xs"
    "filter (\<lambda>x. key x \<noteq> key (xs ! i)) (drop (Suc i) xs) = drop (Suc i) xs"
    by (auto simp: filter_id_conv image_iff)
  have "filter (\<lambda>x. key x \<noteq> key (xs ! i)) xs = remove_nth i xs"
    unfolding remove_nth_def by (subst xs) (simp only: filter_append filter.simps keep, simp)
  then show ?thesis by simp
qed

lemma map_remove_nth: "map g (remove_nth i xs) = remove_nth i (map g xs)"
  by (simp add: remove_nth_def take_map drop_map)

lemma raw_penalty_drop_one:
  assumes dist: "distinct (map sf_id fs)" and f: "f \<in> set fs"
    and s: "category_by_analyzer (sf_analyzer f) = Some spec"
  defines "ms \<equiv> filter (\<lambda>g. impact_key g = Some (spec_name spec, rule_key f)) fs"
  assumes i: "i < length ms" "ms ! i = f"
  shows "raw_penalty (group_into [] (cat_pairs fs [sf_id f] (spec_name spec)))
    = raw_penalty (group_into [] (cat_pairs fs [] (spec_name spec)))
      - rule_penalty (map (\<lambda>f. finding_weight f spec) ms)
      + rule_penalty (remove_nth i (map (\<lambda>f. finding_weight f spec) ms))"
proof -
  let ?n = "spec_name spec" and ?k = "rule_key f"
  let ?P = "\<lambda>ex k. rule_penalty (values_of k (cat_pairs fs ex ?n))"
  let ?K = "insert ?k (fst ` set (cat_pairs fs [] ?n) \<union> fst ` set (cat_pairs fs [sf_id f] ?n))"
  have spec: "spec \<in> set CATEGORIES" using category_by_analyzer_in [OF s] by simp
  note gw = group_weights [OF spec, of _ fs]
  have distinct_ms: "distinct (map sf_id ms)" using dist by (simp add: ms_def distinct_map_filter)
  have "filter (\<lambda>g. impact_key g = Some (?n, ?k) \<and> sf_id g \<notin> set [sf_id f]) fs
      = filter (\<lambda>g. sf_id g \<noteq> sf_id f) ms"
    by (simp add: ms_def conj_commute)
  then have "mset (values_of ?k (cat_pairs fs [sf_id f] ?n))
      = mset (map (\<lambda>f. finding_weight f spec) (remove_nth i ms))"
    using filter_remove_one [OF distinct_ms i(1)] unfolding gw i(2) by simp
  then have new: "?P [sf_id f] ?k = rule_penalty (remove_nth i (map (\<lambda>f. finding_weight f spec) ms))"
    by (simp add: map_remove_nth cong: rule_penalty_cong)
  have old: "?P [] ?k = rule_penalty (map (\<lambda>f. finding_weight f spec) ms)"
    by (simp add: gw ms_def)
  have same: "?P [sf_id f] k = ?P [] k" if "k \<noteq> ?k" for k
  proof -
    have "impact_key g = Some (?n, k) \<and> sf_id g \<notin> set [sf_id f] \<longleftrightarrow> impact_key g = Some (?n, k) \<and> sf_id g \<notin> set []"
      if g: "g \<in> set fs" for g
    proof -
      have "sf_id g = sf_id f \<Longrightarrow> g = f" using dist g f by (auto simp: distinct_map inj_on_def)
      then show ?thesis using \<open>k \<noteq> ?k\<close> by (auto simp: impact_key_def)
    qed
    then have "filter (\<lambda>g. impact_key g = Some (?n, k) \<and> sf_id g \<notin> set [sf_id f]) fs
        = filter (\<lambda>g. impact_key g = Some (?n, k) \<and> sf_id g \<notin> set []) fs"
      by (intro filter_cong) auto
    then show ?thesis unfolding gw by simp
  qed
  have "raw_penalty (group_into [] (cat_pairs fs ex ?n)) = (\<Sum>k\<in>?K. ?P ex k)"
    if "ex = [] \<or> ex = [sf_id f]" for ex
    by (rule raw_penalty_group) (use that in auto)
  moreover have "(\<Sum>k\<in>?K. ?P [sf_id f] k) - ?P [sf_id f] ?k = (\<Sum>k\<in>?K. ?P [] k) - ?P [] ?k"
  proof -
    have "(\<Sum>k\<in>?K - {?k}. ?P [sf_id f] k) = (\<Sum>k\<in>?K - {?k}. ?P [] k)"
      by (rule sum.cong) (auto intro: same)
    moreover have "(\<Sum>k\<in>?K. ?P ex k) = ?P ex ?k + (\<Sum>k\<in>?K - {?k}. ?P ex k)" for ex
      by (rule sum.remove) auto
    ultimately show ?thesis by simp
  qed
  ultimately show ?thesis using new old by simp
qed


lemma category_penalty_drop_other:
  assumes dist: "distinct (map sf_id fs)" and f: "f \<in> set fs"
    and s: "category_by_analyzer (sf_analyzer f) = Some spec" and other: "spec_name spec' \<noteq> spec_name spec"
  shows "category_penalty fs ctx [sf_id f] c spec' = category_penalty fs ctx [] c spec'"
proof -
  have "cat_pairs gs [sf_id f] (spec_name spec') = cat_pairs gs [] (spec_name spec')"
    if "set gs \<subseteq> set fs" for gs
    using that
  proof (induction gs)
    case (Cons g gs)
    have "sf_id g = sf_id f \<Longrightarrow> g = f" using Cons.prems dist f by (auto simp: distinct_map inj_on_def)
    with Cons s other show ?case by (auto simp: cat_pairs_Cons split: option.splits)
  qed simp
  then show ?thesis by (simp add: category_penalty_def)
qed

lemma cat_pairs_unscored:
  assumes "distinct (map sf_id fs)" "f \<in> set fs" "category_by_analyzer (sf_analyzer f) = None"
  shows "cat_pairs fs [sf_id f] n = cat_pairs fs [] n"
proof -
  have "cat_pairs gs [sf_id f] n = cat_pairs gs [] n" if "set gs \<subseteq> set fs" for gs
    using that
  proof (induction gs)
    case (Cons g gs)
    have "sf_id g = sf_id f \<Longrightarrow> g = f" using Cons.prems assms by (auto simp: distinct_map inj_on_def)
    with Cons assms show ?case by (auto simp: cat_pairs_Cons split: option.splits)
  qed simp
  then show ?thesis by simp
qed

lemma sum_list_change_one:
  assumes "distinct xs" "x \<in> set xs" "\<And>y. y \<in> set xs \<Longrightarrow> y \<noteq> x \<Longrightarrow> f y = (g y :: real)"
  shows "sum_list (map f xs) - sum_list (map g xs) = f x - g x"
proof -
  have "(\<Sum>y\<in>set xs. f y) - (\<Sum>y\<in>set xs. g y) = f x - g x"
    using assms by (simp add: sum.remove [of "set xs" x])
  then show ?thesis using assms(1) by (simp add: sum_list_distinct_keys)
qed

lemma score_specs_names: "distinct (map spec_name (score_specs c))"
  by (simp add: score_specs_def CATEGORIES_def spec_defs PROCESS_SPEC_def)

lemma overall_gain:
  assumes dist: "distinct (map sf_id fs)" and f: "f \<in> set fs"
    and s: "category_by_analyzer (sf_analyzer f) = Some spec" and scored: "\<not> excluded_spec ctx c spec"
  shows "overall_formula fs ctx [sf_id f] c - overall_formula fs ctx [] c
    = (decay (category_penalty fs ctx [sf_id f] c spec) (spec_half_life spec)
       - decay (category_penalty fs ctx [] c spec) (spec_half_life spec))
      * (spec_weight spec / weight_sum ctx c)"
proof -
  have names: "distinct (map spec_name (scored_specs ctx c))"
    unfolding scored_specs_def by (rule distinct_map_filter [OF score_specs_names])
  then have "distinct (scored_specs ctx c)" by (simp add: distinct_map)
  moreover have "spec \<in> set (scored_specs ctx c)"
    using category_by_analyzer_in [OF s] scored by (simp add: scored_specs_def score_specs_def)
  moreover have "category_penalty fs ctx [sf_id f] c y = category_penalty fs ctx [] c y"
    if "y \<in> set (scored_specs ctx c)" "y \<noteq> spec" for y
    by (rule category_penalty_drop_other [OF dist f s])
       (use names that \<open>spec \<in> set (scored_specs ctx c)\<close> in \<open>auto simp: distinct_map inj_on_def\<close>)
  ultimately show ?thesis
    unfolding overall_formula_def by (subst sum_list_change_one [where x = spec]) (auto simp: algebra_simps)
qed

text \<open>What \<open>finding_impacts\<close> stores for a finding of a known analyzer.\<close>

lemma impact_value_exact:
  assumes dist: "distinct (map sf_id fs)" and f: "f \<in> set fs"
    and s: "category_by_analyzer (sf_analyzer f) = Some spec"
  defines "ms \<equiv> filter (\<lambda>g. impact_key g = Some (spec_name spec, rule_key f)) fs"
  assumes i: "i < length ms" "ms ! i = f"
    and cat: "report_category (score fs ctx [] c) (spec_name spec) = Some cat"
  shows "impact_value ctx cat spec ms i
    = py_round 4 (overall_formula fs ctx [sf_id f] c - overall_formula fs ctx [] c)"
proof (cases "excluded_spec ctx c spec")
  case True
  have spec: "spec \<in> set CATEGORIES" using category_by_analyzer_in [OF s] by simp
  have "category_penalty fs ctx [sf_id f] c y = category_penalty fs ctx [] c y"
    if "y \<in> set (scored_specs ctx c)" for y
    by (rule category_penalty_drop_other [OF dist f s])
       (use True that spec score_specs_names [of c] in
         \<open>auto simp: scored_specs_def score_specs_def distinct_map inj_on_def\<close>)
  then have "overall_formula fs ctx [sf_id f] c = overall_formula fs ctx [] c"
    by (simp add: overall_formula_def cong: map_cong)
  with True report_category_closed [OF spec, of fs ctx "[]" c] cat show ?thesis
    by (auto simp: impact_value_def)
next
  case False
  have spec: "spec \<in> set CATEGORIES" using category_by_analyzer_in [OF s] by simp
  let ?w = "map (\<lambda>f. finding_weight f spec) ms" and ?n = "spec_name spec"
  let ?raw = "\<lambda>ex. raw_penalty (group_into [] (cat_pairs fs ex ?n))"
  let ?sig = "signal_cost (spec_half_life spec) (pending (collect_signals ctx c) ?n)"
  let ?size = "size_factor spec ctx"
  have size: "0 < ?size" using size_factor_ge_1 [of spec ctx] by simp
  have drop: "?raw [sf_id f] = ?raw [] - rule_penalty ?w + rule_penalty (remove_nth i ?w)"
    using raw_penalty_drop_one [OF dist f s] i unfolding ms_def by simp
  have pen: "category_penalty fs ctx ex c spec = ?raw ex / ?size + ?sig" for ex
    by (simp add: category_penalty_def)
  have spec_in: "spec \<in> set (score_specs c)" using spec by (simp add: score_specs_def)
  have "(category_penalty fs ctx [] c spec * ?size - rule_penalty ?w + removal_penalties ?w ! i)
      = category_penalty fs ctx [sf_id f] c spec * ?size"
  proof -
    have "category_penalty fs ctx ex c spec * ?size = ?raw ex + ?sig * ?size" for ex
      using size unfolding pen distrib_right by simp
    then show ?thesis using i(1) drop by (simp add: removal_penalties_nth)
  qed
  moreover have "0 \<le> category_penalty fs ctx [sf_id f] c spec"
    by (rule category_penalty_nonneg [OF spec_in])
  ultimately have new: "max 0 (category_penalty fs ctx [] c spec * ?size - rule_penalty ?w
      + removal_penalties ?w ! i) / ?size = category_penalty fs ctx [sf_id f] c spec"
    using size by simp
  have "0 \<le> overall_formula fs ctx [sf_id f] c - overall_formula fs ctx [] c"
    using overall_formula_mono [of "[]" "[sf_id f]"] by simp
  then have "max 0 ((decay (category_penalty fs ctx [sf_id f] c spec) (spec_half_life spec)
       - decay (category_penalty fs ctx [] c spec) (spec_half_life spec)) * (spec_weight spec / weight_sum ctx c))
      = overall_formula fs ctx [sf_id f] c - overall_formula fs ctx [] c"
    unfolding overall_gain [OF dist f s False] by simp
  with False new report_category_closed [OF spec, of fs ctx "[]" c] cat show ?thesis
    by (auto simp: impact_value_def Let_def)
qed

lemma finding_impacts_value:
  assumes dist: "distinct (map sf_id fs)" and f: "f \<in> set fs"
  shows "\<exists>m. finding_impacts fs ctx c = Some m
    \<and> m (sf_id f) = Some (py_round 4 (overall_formula fs ctx [sf_id f] c - overall_formula fs ctx [] c))"
proof (cases "category_by_analyzer (sf_analyzer f)")
  case None
  let ?m = "foldl (\<lambda>m f. m(sf_id f \<mapsto> (0::real))) Map.empty fs"
  have "sf_id f \<notin> sf_id ` set ms" if km: "(k, ms) \<in> set (impact_groups fs)" for k ms
  proof
    assume "sf_id f \<in> sf_id ` set ms"
    then obtain g where "g \<in> set fs" "impact_key g = Some k" "sf_id g = sf_id f"
      using impact_groups_entry [OF km] by auto
    with dist f None show False by (auto simp: distinct_map inj_on_def impact_key_def)
  qed
  then obtain m' where m': "finding_impacts fs ctx c = Some m'" "m' (sf_id f) = ?m (sf_id f)"
    unfolding finding_impacts_step
    using impact_loop_other [of "impact_groups fs" "score fs ctx [] c" "sf_id f" ctx ?m]
      known_impact_groups [of _ fs ctx c] by fastforce
  obtain i where "i < length fs" "fs ! i = f" using f by (auto simp: in_set_conv_nth)
  then have "?m (sf_id f) = Some 0" using foldl_update_nth [OF dist, of i "\<lambda>_. 0"] by simp
  moreover have "overall_formula fs ctx [sf_id f] c = overall_formula fs ctx [] c"
    by (simp add: overall_formula_def category_penalty_def cat_pairs_unscored [OF dist f None])
  ultimately show ?thesis using m' by simp
next
  case (Some spec)
  let ?k = "(spec_name spec, rule_key f)"
  have gk: "impact_key f = Some ?k" using Some by (simp add: impact_key_def)
  then obtain ms where ms: "(?k, ms) \<in> set (impact_groups fs)"
    using impact_groups_member [OF f] by blast
  then have ms_eq: "ms = filter (\<lambda>g. impact_key g = Some ?k) fs" by (rule impact_groups_entry)
  then have "f \<in> set ms" using f gk by simp
  then obtain i where i: "i < length ms" "ms ! i = f" by (auto simp: in_set_conv_nth)
  have spec: "spec \<in> set CATEGORIES" using category_by_analyzer_in [OF Some] by simp
  obtain cat where cat: "report_category (score fs ctx [] c) (spec_name spec) = Some cat"
    using report_category_closed [OF spec] by blast
  have "\<exists>m. finding_impacts fs ctx c = Some m \<and> m (sf_id (ms ! i)) = Some (impact_value ctx cat spec ms i)"
    unfolding finding_impacts_step
    by (rule impact_loop_nth [OF _ distinct_impact_groups [OF dist] ms i(1) cat find_spec(1) [OF spec]])
       (simp add: known_impact_groups)
  then show ?thesis
    using impact_value_exact [OF dist f Some _ _ cat, of i] i unfolding ms_eq by simp
qed

end
