(* ===== verification/Rubric_Props.thy ===== *)
theory Rubric_Props
  imports Rubric_Impact
begin

text \<open>
  The properties of the scoring rubric, each with the witness that its hypotheses hold at a
  concrete scan.
\<close>

definition example_finding :: scorable where
  "example_finding = \<lparr>sf_id = 1, sf_analyzer = ''bandit'', sf_rule_id = ''B602'',
     sf_severity = ERROR, sf_file_path = ''app/main.py'', sf_corroborated_by = []\<rparr>"

definition example_lint :: scorable where
  "example_lint = \<lparr>sf_id = 2, sf_analyzer = ''ruff'', sf_rule_id = ''E501'',
     sf_severity = WARNING, sf_file_path = ''tests/test_a.py'', sf_corroborated_by = [''semgrep'']\<rparr>"

definition example_context :: score_context where
  "example_context = \<lparr>source_loc = 1000, module_count = 20,
     analyzers_run = [''semgrep'', ''bandit'', ''ruff''], analyzers_failed = [],
     signals = Map.empty\<rparr>"

lemma rubric_1_0_penalty:
  "cfg_signals c = [] \<Longrightarrow> category_penalty fs ctx ex c spec =
     raw_penalty (group_into [] (cat_pairs fs ex (spec_name spec))) / size_factor spec ctx"
  by (simp add: category_penalty_def collect_signals_def signal_targets_def signal_cost_def)

lemma collect_signals_off:
  "cfg_signals c = [] \<Longrightarrow> collect_signals ctx c = \<lparr>pending = (\<lambda>_. []), skipped = (\<lambda>_. [])\<rparr>"
  by (simp add: collect_signals_def signal_targets_def)

lemma score_category_signals_irrelevant:
  "score_category t sg (ctx\<lparr>signals := s\<rparr>) spec = score_category t sg ctx spec"
  by (simp add: score_category_def size_factor_def Let_def split: size_norm.splits)

section \<open>Properties\<close>

text \<open>
  C1: Leaving more findings out of the score never lowers it.  A scan that has an overall
  score keeps having one, and a scan that has none stays without, because which categories are
  scored depends on the analyzers that ran and not on the findings.
\<close>

theorem score_removal_monotone:
  assumes "set ex \<subseteq> set ex'"
  shows "rel_option (\<le>) (overall (score findings ctx ex c)) (overall (score findings ctx ex' c))"
  using overall_formula_mono [OF assms] by (simp add: overall_closed py_round_mono)

theorem score_removal_monotone_witness:
  "set [] \<subseteq> set [1 :: int] \<and>
   rel_option (\<le>) (overall (score [example_finding] example_context [] default_config))
     (overall (score [example_finding] example_context [1] default_config))"
  using score_removal_monotone [of "[]" "[1]" "[example_finding]" example_context default_config]
  by simp

text \<open>
  C2: \<open>finding_impacts\<close> never fails, and the impact it stores for a finding is, rounded to
  four decimals, the exact difference between the full-precision overall score of a rescoring
  without that finding and that of the scan, also when experimental signals are scored.
\<close>

theorem finding_impacts_exact:
  assumes "distinct (map sf_id findings)" and "f \<in> set findings"
  shows "\<exists>impacts. finding_impacts findings ctx c = Some impacts
    \<and> impacts (sf_id f) = Some (py_round 4
        (exact_overall (score findings ctx [sf_id f] c) - exact_overall (score findings ctx [] c)))"
  using finding_impacts_value [OF assms] by (simp add: exact_overall_closed)

theorem finding_impacts_exact_witness:
  "distinct (map sf_id [example_finding, example_lint]) \<and>
   (\<exists>impacts. finding_impacts [example_finding, example_lint] example_context default_config = Some impacts
    \<and> impacts 1 = Some (py_round 4
        (exact_overall (score [example_finding, example_lint] example_context [1] default_config)
         - exact_overall (score [example_finding, example_lint] example_context [] default_config))))"
  using finding_impacts_exact [of "[example_finding, example_lint]" example_finding example_context
      default_config]
  by (simp add: example_finding_def example_lint_def)

text \<open>
  The one-pass computation of removal penalties agrees with its specification: entry
  \<open>i\<close> is the penalty of the rule recomputed from scratch without the finding at \<open>i\<close>.
\<close>

theorem removal_penalties_exact:
  "removal_penalties weights = map (\<lambda>i. rule_penalty (remove_nth i weights)) [0..<length weights]"
  by (rule nth_equalityI) (simp_all add: removal_penalties_nth)

text \<open>
  C3: An overall score lies between 0 and 100 and always has a grade, so the search for
  a grade never runs past the last threshold; without an overall score there is no grade.
\<close>

theorem score_bounds:
  "case overall (score findings ctx ex c) of
     None \<Rightarrow> grade (score findings ctx ex c) = None
   | Some v \<Rightarrow> 0 \<le> v \<and> v \<le> 100 \<and> grade (score findings ctx ex c) = grade_for v \<and> grade_for v \<noteq> None"
proof (cases "overall (score findings ctx ex c)")
  case (Some v)
  then have v: "v = py_round 2 (overall_formula findings ctx ex c)"
    by (simp add: overall_closed split: if_splits)
  have "py_round 2 (overall_formula findings ctx ex c) \<le> py_round 2 100" "0 \<le> v"
    unfolding v using overall_formula_bounds [of findings ctx ex c]
    by (blast intro: py_round_mono py_round_nonneg)+
  with v Some show ?thesis by (auto simp: grade_closed grade_for_def GRADES_def)
qed (simp add: grade_closed)

text \<open>
  With no signal switched on, the stored signal reports have no influence on the score, no
  category carries a deduction, and a scored category's penalty is the rubric 1.0 formula.
\<close>

theorem score_without_signals:
  assumes "cfg_signals c = []"
  shows "score findings (ctx\<lparr>signals := s\<rparr>) ex c = score findings ctx ex c
    \<and> (\<forall>cat \<in> set (categories (score findings ctx ex c)). cs_deductions cat = []
        \<and> (\<exists>spec \<in> set (score_specs c). cs_category cat = spec_name spec
            \<and> (cs_score cat \<noteq> None \<longrightarrow> cs_penalty cat =
                 raw_penalty (by_category (tally_findings findings ex) (spec_name spec))
                 / size_factor spec ctx)))"
proof -
  let ?cat = "\<lambda>spec. fst (score_category (tally_findings findings ex) (collect_signals ctx c) ctx spec)"
  have d: "cs_deductions (?cat spec) = []" for spec
    by (simp add: score_category_def Let_def collect_signals_off [OF assms])
  have p: "cs_score (?cat spec) \<noteq> None \<Longrightarrow> cs_penalty (?cat spec) =
      raw_penalty (by_category (tally_findings findings ex) (spec_name spec)) / size_factor spec ctx" for spec
    by (cases "excluded_spec ctx c spec") (simp_all add: score_category_closed rubric_1_0_penalty [OF assms])
  have "cs_deductions cat = [] \<and> (\<exists>spec \<in> set (score_specs c). cs_category cat = spec_name spec
            \<and> (cs_score cat \<noteq> None \<longrightarrow> cs_penalty cat =
                 raw_penalty (by_category (tally_findings findings ex) (spec_name spec))
                 / size_factor spec ctx))"
    if "cat \<in> set (categories (score findings ctx ex c))" for cat
  proof -
    have "\<exists>spec w. spec \<in> set (score_specs c) \<and> (cat = ?cat spec \<or> cat = (?cat spec)\<lparr>cs_weight := w\<rparr>)"
      using that by (auto simp: score_def score_categories_def Let_def renormalise_def split: if_splits)
    then obtain spec w where spec: "spec \<in> set (score_specs c)"
      and cat: "cat = ?cat spec \<or> cat = (?cat spec)\<lparr>cs_weight := w\<rparr>" by blast
    have "cs_deductions cat = cs_deductions (?cat spec)" "cs_score cat = cs_score (?cat spec)"
      "cs_penalty cat = cs_penalty (?cat spec)" "cs_category cat = cs_category (?cat spec)"
      using cat by auto
    moreover have "cs_category (?cat spec) = spec_name spec" by (simp add: score_category_closed)
    ultimately show ?thesis using d p spec by metis
  qed
  moreover have "score_categories findings (ctx\<lparr>signals := s\<rparr>) ex c = score_categories findings ctx ex c"
    by (simp add: score_categories_def collect_signals_off [OF assms] score_category_signals_irrelevant)
  ultimately show ?thesis by (simp add: score_def)
qed

definition example_signal :: signal_report where
  "example_signal = \<lparr>sig_applicable = True, sig_score = Some 0, sig_components = Map.empty,
     sig_reason = None\<rparr>"

theorem score_without_signals_witness:
  "cfg_signals default_config = [] \<and>
   score [example_lint] (example_context\<lparr>signals := [''git_history'' \<mapsto> example_signal]\<rparr>) [] default_config
     = score [example_lint] example_context [] default_config"
proof -
  have off: "cfg_signals default_config = []" by (simp add: default_config_def)
  show ?thesis
    using off score_without_signals [OF off, where findings = "[example_lint]" and ctx = example_context
        and s = "[''git_history'' \<mapsto> example_signal]" and ex = "[]"] by blast
qed

end
