(* ===== verification/Score_Service.thy ===== *)
theory Score_Service
  imports Rubric_Impact
begin

text \<open>
  Persistence-side scoring: the configuration from the settings, the scoring context read from
  the analyzer runs, rescoring of a stored scan and the what-if projection
  (\<open>scoring/service.py\<close>), and the choice of the findings that get a fix suggestion
  (\<open>scoring/priority.py\<close>).  The database is the part of it these functions read and
  write: the finding rows of the scan, its analyzer runs and its score row.
\<close>

section \<open>Rows\<close>

record finding_row = scorable +
  fr_start_line :: int
  fr_score_impact :: "real option"

datatype run_status = RUN_RUNNING | RUN_COMPLETED | RUN_FAILED | RUN_TIMED_OUT | RUN_SKIPPED

definition FAILED_RUN_STATUSES :: "run_status list" where
  "FAILED_RUN_STATUSES = [RUN_FAILED, RUN_TIMED_OUT]"

record run_row =
  rr_analyzer_name :: string
  rr_status :: run_status

text \<open>The two numbers of an \<open>ArchitectureSummary.summary\<close> that scoring reads.\<close>

record summary_row =
  sm_total_loc :: "nat option"
  sm_node_count :: "nat option"

record scan_row =
  sc_source_loc :: "nat option"
  sc_signal_metrics :: "(string \<rightharpoonup> signal_report) option"

record score_row =
  row_rubric_version :: string
  row_rubric_config :: string
  row_overall :: "real option"
  row_grade :: "string option"
  row_incomplete :: bool
  row_incomplete_reasons :: "string list"
  row_categories :: "category_score list"
  row_source_loc :: nat
  row_module_count :: nat

record scan_store =
  st_scan :: scan_row
  st_findings :: "finding_row list"
  st_runs :: "run_row list"
  st_summary :: "summary_row option"
  st_score :: "score_row option"

section \<open>Configuration and context\<close>

record score_settings =
  rubric_signal_error_handling :: bool
  rubric_signal_dep_health :: bool
  rubric_signal_git_history :: bool
  rubric_signal_ci_quality :: bool
  rubric_signal_test_quality :: bool
  rubric_process_dimension :: bool
  rubric_dep_health_target :: string

definition SIGNAL_FLAGS :: "(string \<times> (score_settings \<Rightarrow> bool)) list" where
  "SIGNAL_FLAGS = [(''error_handling'', rubric_signal_error_handling),
                   (''dep_health'', rubric_signal_dep_health),
                   (''git_history'', rubric_signal_git_history),
                   (''ci_quality'', rubric_signal_ci_quality),
                   (''test_quality'', rubric_signal_test_quality)]"

definition rubric_config_of :: "score_settings \<Rightarrow> rubric_config" where
  "rubric_config_of settings =
     \<lparr>cfg_signals = map fst (filter (\<lambda>(name, flag). flag settings) SIGNAL_FLAGS),
      process_dimension = rubric_process_dimension settings,
      dep_health_target = rubric_dep_health_target settings\<rparr>"

definition rubric_config_key :: "score_settings \<Rightarrow> string" where
  "rubric_config_key settings = config_key (rubric_config_of settings)"

text \<open>\<open>a or b\<close> on optional numbers, where 0 counts as missing.\<close>

definition nat_or :: "nat option \<Rightarrow> nat \<Rightarrow> nat" where
  "nat_or x d = (case x of None \<Rightarrow> d | Some n \<Rightarrow> if n = 0 then d else n)"

definition context_for_scan :: "scan_store \<Rightarrow> score_context" where
  "context_for_scan db =
     \<lparr>source_loc = nat_or (sc_source_loc (st_scan db))
                     (nat_or (Option.bind (st_summary db) sm_total_loc) 0),
      module_count = nat_or (Option.bind (st_summary db) sm_node_count) 0,
      analyzers_run = map rr_analyzer_name
                        (filter (\<lambda>r. rr_status r = RUN_COMPLETED) (st_runs db)),
      analyzers_failed = map rr_analyzer_name
                           (filter (\<lambda>r. rr_status r \<in> set FAILED_RUN_STATUSES) (st_runs db)),
      signals = (case sc_signal_metrics (st_scan db) of None \<Rightarrow> Map.empty | Some m \<Rightarrow> m)\<rparr>"

section \<open>Storing a score\<close>

text \<open>
  \<open>store_score\<close>: the existing row or a new one, every scoring column assigned in turn.  A
  new row's columns are unset until then, here \<open>blank_score_row\<close>.
\<close>

definition blank_score_row :: score_row where
  "blank_score_row = \<lparr>row_rubric_version = [], row_rubric_config = ''base'', row_overall = None,
     row_grade = None, row_incomplete = False, row_incomplete_reasons = [], row_categories = [],
     row_source_loc = 0, row_module_count = 0\<rparr>"

definition store_score :: "scan_store \<Rightarrow> score_report \<Rightarrow> score_context \<Rightarrow> scan_store" where
  "store_score db report ctx =
     (let row = (case st_score db of Some row \<Rightarrow> row | None \<Rightarrow> blank_score_row);
          row = row\<lparr>row_rubric_version := rubric_version report,
                    row_rubric_config := report_config report,
                    row_overall := overall report, row_grade := grade report,
                    row_incomplete := incomplete report,
                    row_incomplete_reasons := incomplete_reasons report,
                    row_categories := categories report,
                    row_source_loc := source_loc ctx,
                    row_module_count := module_count ctx\<rparr>
      in db\<lparr>st_score := Some row\<rparr>)"

definition scorables :: "finding_row list \<Rightarrow> scorable list" where
  "scorables findings = map scorable.truncate findings"

text \<open>\<open>rescore_scan\<close>; \<open>None\<close> when \<open>finding_impacts\<close> raises.\<close>

definition rescore_scan :: "score_settings \<Rightarrow> scan_store \<Rightarrow> scan_store option" where
  "rescore_scan settings db =
     (let findings = scorables (st_findings db);
          ctx = context_for_scan db;
          c = rubric_config_of settings
      in case finding_impacts findings ctx c of
           None \<Rightarrow> None
         | Some impacts \<Rightarrow>
             let rows = map (\<lambda>f. f\<lparr>fr_score_impact := impacts (sf_id f)\<rparr>) (st_findings db);
                 db = db\<lparr>st_findings := rows\<rparr>
             in Some (store_score db (score findings ctx [] c) ctx))"

definition clear_impacts :: "scan_store \<Rightarrow> scan_store" where
  "clear_impacts db =
     db\<lparr>st_findings := map (\<lambda>f. f\<lparr>fr_score_impact := None\<rparr>) (st_findings db)\<rparr>"

section \<open>Projection\<close>

record projection =
  pj_current :: score_report
  pj_projected :: score_report
  included_finding_ids :: "int list"
  ignored_finding_ids :: "int list"

definition projection_delta :: "projection \<Rightarrow> real option" where
  "projection_delta p =
     (case (overall (pj_current p), overall (pj_projected p)) of
        (Some a, Some b) \<Rightarrow> Some (py_round 2 (b - a))
      | _ \<Rightarrow> None)"

definition project :: "score_settings \<Rightarrow> scan_store \<Rightarrow> int list \<Rightarrow> projection" where
  "project settings db finding_ids =
     (let findings = scorables (st_findings db);
          own = map sf_id (st_findings db);
          requested = dict_fromkeys finding_ids;
          ctx = context_for_scan db;
          c = rubric_config_of settings
      in \<lparr>pj_current = score findings ctx [] c,
          pj_projected = score findings ctx requested c,
          included_finding_ids = filter (\<lambda>i. i \<in> set own) requested,
          ignored_finding_ids = filter (\<lambda>i. i \<notin> set own) requested\<rparr>)"

section \<open>What to fix first\<close>

definition NOT_FIXABLE_ANALYZERS :: "string list" where
  "NOT_FIXABLE_ANALYZERS = [''architecture'']"

record prioritized_finding =
  pf_finding :: finding_row
  pf_priority :: real

definition impact_or_0 :: "finding_row \<Rightarrow> real" where
  "impact_or_0 f = (case fr_score_impact f of None \<Rightarrow> 0 | Some v \<Rightarrow> v)"

definition priority_key :: "finding_row \<Rightarrow> real \<times> int \<times> int \<times> string \<times> int \<times> int" where
  "priority_key f =
     (- impact_or_0 f, - int (severity_rank (sf_severity f)),
      - int (length (sf_corroborated_by f)), sf_file_path f, fr_start_line f, sf_id f)"

definition fixable :: "finding_row list \<Rightarrow> finding_row list" where
  "fixable findings = filter (\<lambda>f. sf_analyzer f \<notin> set NOT_FIXABLE_ANALYZERS) findings"

definition top_fixable :: "finding_row list \<Rightarrow> int \<Rightarrow> prioritized_finding list" where
  "top_fixable findings limit =
     map (\<lambda>f. \<lparr>pf_finding = f, pf_priority = impact_or_0 f\<rparr>)
       (take (nat (max 0 limit)) (sort_key priority_key (fixable findings)))"

section \<open>Lemmas\<close>

lemma priority_key_id: "priority_key f = priority_key g \<Longrightarrow> sf_id f = sf_id g"
  by (simp add: priority_key_def)

lemma distinct_ids_inj: "distinct (map sf_id fs) \<Longrightarrow> inj_on priority_key (set fs)"
  by (auto simp: distinct_map inj_on_def dest: priority_key_id)

lemma filter_eq_replicate: "filter (\<lambda>x. x = z) zs = replicate (count (mset zs) z) z"
  by (induction zs) auto

lemma subset_mset_Cons:
  assumes "x \<notin># M" and "M \<subseteq># add_mset x (mset xs)"
  shows "M \<subseteq># mset xs"
proof (rule mset_subset_eqI)
  fix a
  show "count M a \<le> count (mset xs) a"
    using mset_subset_eq_count [OF assms(2), of a] assms(1) by (cases "a = x") (auto simp: not_in_iff)
qed

lemma sub_add: "add_mset y M \<subseteq># mset xs \<Longrightarrow> M \<subseteq># mset xs"
  by (metis insert_subset_eq_iff diff_subset_eq_self subset_mset.order_trans)

text \<open>Sorting by an injective key depends on the multiset of the elements only.\<close>

lemma sort_key_mset_cong:
  assumes "mset xs = mset ys" and "inj_on k (set xs)"
  shows "sort_key k xs = sort_key k ys"
proof (rule properties_for_sort_key)
  show "mset (sort_key k ys) = mset xs" using assms(1) by simp
  show "filter (\<lambda>x. k z = k x) (sort_key k ys) = filter (\<lambda>x. k z = k x) xs"
    if "z \<in> set (sort_key k ys)" for z
  proof -
    have set_eq: "set xs = set ys" using assms(1) by (metis set_mset_mset)
    have eq: "x = z" if "x \<in> set xs" "k z = k x" for x
      using that \<open>z \<in> set (sort_key k ys)\<close> set_eq assms(2) by (auto dest: inj_onD)
    let ?P = "\<lambda>x. k z = k x"
    have rep: "filter ?P zs = replicate (count (mset zs) z) z" if "set zs = set xs" for zs
    proof -
      have "\<forall>x \<in> set zs. ?P x \<longleftrightarrow> x = z" using eq that by auto
      then have "filter ?P zs = filter (\<lambda>x. x = z) zs" by (intro filter_cong) auto
      then show ?thesis by (simp only: filter_eq_replicate)
    qed
    show ?thesis using rep [of "sort_key k ys"] rep [of xs] set_eq assms(1) by simp
  qed
qed simp

text \<open>The best prefix: no choice of at most \<open>n\<close> elements sums to more.\<close>

lemma take_desc_best:
  fixes g :: "'a \<Rightarrow> real"
  assumes "sorted_wrt (\<lambda>a b. g b \<le> g a) xs" and "M \<subseteq># mset xs" and "size M \<le> n"
    and "\<forall>x \<in> set xs. 0 \<le> g x"
  shows "sum_mset (image_mset g M) \<le> sum_list (map g (take n xs))"
  using assms
proof (induction xs arbitrary: M n)
  case (Cons x xs)
  note sub = Cons.prems(2)
  show ?case
  proof (cases n)
    case 0
    with Cons.prems(3) show ?thesis by simp
  next
    case (Suc k)
    show ?thesis
    proof (cases "x \<in># M")
      case True
      then obtain M' where M: "M = add_mset x M'" by (metis mset_add)
      have "sum_mset (image_mset g M') \<le> sum_list (map g (take k xs))"
        using Cons.prems M Suc by (intro Cons.IH) auto
      then show ?thesis using M Suc by simp
    next
      case False
      then have M: "M \<subseteq># mset xs" using sub by (auto simp: subset_mset_Cons)
      show ?thesis
      proof (cases "M = {#}")
        case True
        then show ?thesis using Cons.prems(4) set_take_subset [of n "x # xs"]
          by (auto intro!: sum_list_map_nonneg)
      next
        case False
        then obtain y M' where y: "M = add_mset y M'" by (meson multiset_cases)
        then have "y \<in> set xs" using mset_subset_eqD [OF M, of y] by simp
        then have "g y \<le> g x" using Cons.prems(1) by auto
        moreover have "sum_mset (image_mset g M') \<le> sum_list (map g (take k xs))"
          using Cons.prems y Suc sub_add [of y M' xs] M by (intro Cons.IH) auto
        ultimately show ?thesis using y Suc by simp
      qed
    qed
  qed
qed simp

lemma sort_key_impact_desc:
  "sorted_wrt (\<lambda>a b. impact_or_0 b \<le> impact_or_0 a) (sort_key priority_key fs)"
proof -
  have "sorted_wrt (\<lambda>a b. priority_key a \<le> priority_key b) (sort_key priority_key fs)"
    using sorted_sort_key [of priority_key fs] by (simp only: sorted_map)
  then show ?thesis
    by (rule sorted_wrt_mono_rel [rotated]) (auto simp: priority_key_def less_eq_prod_def)
qed

end
