(* ===== verification/Score_Service_Props.thy ===== *)
theory Score_Service_Props
  imports Score_Service Rubric_Props
begin

text \<open>
  The properties of stored scores: rescoring a scan always succeeds and stores exact impacts, a
  projection never predicts a loss, and the findings chosen for fix suggestions are an optimal
  choice under their stored impacts.
\<close>

lemma sf_id_truncate [simp]: "sf_id (scorable.truncate f) = sf_id f"
  by (simp add: scorable.truncate_def)

lemma scorables_ids [simp]: "map sf_id (scorables fs) = map sf_id fs"
  by (simp add: scorables_def)

lemma tally_finding_cong:
  "(sf_id f \<in> set ex \<longleftrightarrow> sf_id f \<in> set ex') \<Longrightarrow> tally_finding ex t f = tally_finding ex' t f"
  by (simp add: tally_finding_def split: option.splits)

lemma tally_findings_cong:
  assumes "\<forall>f \<in> set fs. sf_id f \<in> set ex \<longleftrightarrow> sf_id f \<in> set ex'"
  shows "tally_findings fs ex = tally_findings fs ex'"
  unfolding tally_findings_def by (rule foldl_cong) (use assms in \<open>auto intro: tally_finding_cong\<close>)

lemma score_cong:
  assumes "\<forall>f \<in> set fs. sf_id f \<in> set ex \<longleftrightarrow> sf_id f \<in> set ex'"
  shows "score fs ctx ex c = score fs ctx ex' c"
  by (simp add: score_def score_categories_def tally_findings_cong [OF assms])

lemma store_score_fields:
  "st_score (store_score db report ctx) = Some
     \<lparr>row_rubric_version = rubric_version report, row_rubric_config = report_config report,
      row_overall = overall report, row_grade = grade report, row_incomplete = incomplete report,
      row_incomplete_reasons = incomplete_reasons report, row_categories = categories report,
      row_source_loc = source_loc ctx, row_module_count = module_count ctx\<rparr>"
  "st_findings (store_score db report ctx) = st_findings db"
  "st_runs (store_score db report ctx) = st_runs db"
  by (simp_all add: store_score_def Let_def)

lemma finding_impacts_some:
  assumes "distinct (map sf_id fs)"
  shows "finding_impacts fs ctx c \<noteq> None"
proof (cases fs)
  case Nil
  then show ?thesis by (simp add: finding_impacts_def impact_groups_def Let_def List.map_filter_simps)
next
  case (Cons f gs)
  then show ?thesis using finding_impacts_value [OF assms, of f ctx c] by auto
qed

lemma mset_filter_compl: "mset (filter P xs) + mset (filter (\<lambda>x. \<not> P x) xs) = mset xs"
  by (induction xs) auto

definition example_row :: finding_row where
  "example_row = \<lparr>sf_id = 1, sf_analyzer = ''bandit'', sf_rule_id = ''B602'',
     sf_severity = ERROR, sf_file_path = ''app/main.py'', sf_corroborated_by = [],
     fr_start_line = 3, fr_score_impact = Some 2\<rparr>"

definition example_store :: scan_store where
  "example_store = \<lparr>st_scan = \<lparr>sc_source_loc = Some 1000, sc_signal_metrics = None\<rparr>,
     st_findings = [example_row],
     st_runs = [\<lparr>rr_analyzer_name = ''bandit'', rr_status = RUN_COMPLETED\<rparr>,
                \<lparr>rr_analyzer_name = ''ruff'', rr_status = RUN_FAILED\<rparr>],
     st_summary = None, st_score = None\<rparr>"

section \<open>Properties\<close>

text \<open>
  C4: Rescoring a stored scan always succeeds.  Every finding row ends up with the exact gain of
  fixing it alone, rounded to four decimals and never missing, and the score row holds the
  overall score and grade of the rows, whatever was stored before.
\<close>

theorem rescore_scan_exact:
  assumes "distinct (map sf_id (st_findings db))"
  shows "\<exists>db' row. rescore_scan settings db = Some db' \<and> st_score db' = Some row
    \<and> row_overall row = overall (score (scorables (st_findings db)) (context_for_scan db) []
                                  (rubric_config_of settings))
    \<and> row_rubric_config row = rubric_config_key settings
    \<and> map scorable.truncate (st_findings db') = map scorable.truncate (st_findings db)
    \<and> st_runs db' = st_runs db
    \<and> (\<forall>f \<in> set (st_findings db'). fr_score_impact f = Some (py_round 4
        (exact_overall (score (scorables (st_findings db)) (context_for_scan db) [sf_id f]
                         (rubric_config_of settings))
         - exact_overall (score (scorables (st_findings db)) (context_for_scan db) []
                           (rubric_config_of settings)))))"
proof -
  let ?fs = "scorables (st_findings db)"
  let ?ctx = "context_for_scan db" and ?c = "rubric_config_of settings"
  have d: "distinct (map sf_id ?fs)" using assms by simp
  obtain impacts where i: "finding_impacts ?fs ?ctx ?c = Some impacts"
    using finding_impacts_some [OF d] by blast
  have gain: "impacts (sf_id f) = Some (py_round 4
      (exact_overall (score ?fs ?ctx [sf_id f] ?c) - exact_overall (score ?fs ?ctx [] ?c)))"
    if "f \<in> set (st_findings db)" for f
  proof -
    have "scorable.truncate f \<in> set ?fs" using that by (simp add: scorables_def)
    from finding_impacts_value [OF d this, of ?ctx ?c] i show ?thesis
      by (simp add: exact_overall_closed)
  qed
  have conf: "report_config (score ?fs ?ctx [] ?c) = rubric_config_key settings"
    by (simp add: score_def rubric_config_key_def Let_def)
  have trunc: "scorable.truncate (f\<lparr>fr_score_impact := v\<rparr>) = scorable.truncate f" for f v
    by (simp add: scorable.truncate_def)
  show ?thesis
    by (simp add: rescore_scan_def i Let_def store_score_fields comp_def gain trunc conf)
qed

theorem rescore_scan_exact_witness:
  "distinct (map sf_id (st_findings example_store)) \<and>
   (\<exists>db'. rescore_scan
       \<lparr>rubric_signal_error_handling = False, rubric_signal_dep_health = False,
        rubric_signal_git_history = True, rubric_signal_ci_quality = False,
        rubric_signal_test_quality = False, rubric_process_dimension = False,
        rubric_dep_health_target = ''dependencies''\<rparr> example_store = Some db'
     \<and> st_runs db' = st_runs example_store)"
  (is "?d \<and> (\<exists>db'. rescore_scan ?s _ = _ \<and> _)")
proof -
  have d: "distinct (map sf_id (st_findings example_store))" by (simp add: example_store_def)
  show ?thesis using d rescore_scan_exact [OF d, of ?s] by blast
qed

text \<open>
  C5: A projection splits the requested ids, each once and in request order, into those of the
  scan and the ignored ones; the ignored ids have no influence on the projected score; and the
  predicted change exists exactly when the scan has a score, and is never negative.
\<close>

theorem project_sound:
  fixes settings db ids
  defines "p \<equiv> project settings db ids"
  shows "mset (included_finding_ids p) + mset (ignored_finding_ids p) = mset_set (set ids)
    \<and> set (included_finding_ids p) = set ids \<inter> set (map sf_id (st_findings db))
    \<and> pj_projected p = pj_projected (project settings db (included_finding_ids p))
    \<and> (case projection_delta p of
         None \<Rightarrow> overall (pj_current p) = None
       | Some v \<Rightarrow> overall (pj_current p) \<noteq> None \<and> 0 \<le> v)"
proof (intro conjI)
  have "mset (dict_fromkeys ids) = mset_set (set ids)"
    using mset_set_set [of "dict_fromkeys ids"] by simp
  then show "mset (included_finding_ids p) + mset (ignored_finding_ids p) = mset_set (set ids)"
    by (simp only: p_def project_def Let_def projection.select_convs mset_filter_compl)
  show "set (included_finding_ids p) = set ids \<inter> set (map sf_id (st_findings db))"
    by (auto simp: p_def project_def Let_def)
  show "pj_projected p = pj_projected (project settings db (included_finding_ids p))"
    by (auto simp: p_def project_def Let_def scorables_def intro!: score_cong)
  let ?fs = "scorables (st_findings db)"
  have "rel_option (\<le>) (overall (pj_current p)) (overall (pj_projected p))"
    unfolding p_def project_def Let_def using overall_formula_mono [of "[]" "dict_fromkeys ids" ?fs]
    by (simp add: overall_closed py_round_mono)
  then show "case projection_delta p of
         None \<Rightarrow> overall (pj_current p) = None
       | Some v \<Rightarrow> overall (pj_current p) \<noteq> None \<and> 0 \<le> v"
    by (cases "overall (pj_current p)"; cases "overall (pj_projected p)")
       (auto simp: projection_delta_def py_round_nonneg)
qed

text \<open>
  C6: The findings that get fix suggestions are an optimal choice: they are fixable findings of
  the scan, at most the limit, in non-increasing order of impact, and no other choice of at most
  that many fixable findings has a larger total impact.  The choice depends only on which
  findings the scan has, not on the order the database returns them in.
\<close>

theorem top_fixable_optimal:
  assumes "distinct (map sf_id findings)" and "\<forall>f \<in> set findings. 0 \<le> impact_or_0 f"
    and "M \<subseteq># mset (fixable findings)" and "size M \<le> nat limit"
    and "mset findings' = mset findings"
  shows "mset (map pf_finding (top_fixable findings limit)) \<subseteq># mset (fixable findings)
    \<and> length (top_fixable findings limit) \<le> nat limit
    \<and> sorted_wrt (\<lambda>a b. pf_priority b \<le> pf_priority a) (top_fixable findings limit)
    \<and> (\<Sum>f \<in># M. impact_or_0 f) \<le> sum_list (map pf_priority (top_fixable findings limit))
    \<and> top_fixable findings' limit = top_fixable findings limit"
proof -
  let ?s = "sort_key priority_key (fixable findings)" and ?n = "nat (max 0 limit)"
  have n: "?n = nat limit" by simp
  have chosen: "map pf_finding (top_fixable findings limit) = take ?n ?s"
    "map pf_priority (top_fixable findings limit) = map impact_or_0 (take ?n ?s)"
    by (simp_all add: top_fixable_def comp_def)
  have 1: "mset (take ?n ?s) \<subseteq># mset (fixable findings)"
    using mset_subset_eq_add_left [of "mset (take ?n ?s)" "mset (drop ?n ?s)"]
    by (metis append_take_drop_id mset_append mset_sort)
  have 2: "sorted_wrt (\<lambda>a b. pf_priority b \<le> pf_priority a) (top_fixable findings limit)"
    using sorted_wrt_take [OF sort_key_impact_desc] by (simp add: top_fixable_def sorted_wrt_map)
  have 3: "(\<Sum>f \<in># M. impact_or_0 f) \<le> sum_list (map impact_or_0 (take ?n ?s))"
    using assms(2-4) by (intro take_desc_best sort_key_impact_desc) (auto simp: fixable_def)
  have "mset (fixable findings') = mset (fixable findings)"
    using assms(5) by (simp add: fixable_def)
  moreover have "inj_on priority_key (set (fixable findings'))"
    using distinct_ids_inj [OF assms(1)] mset_eq_setD [OF assms(5)]
    by (auto simp: fixable_def intro: inj_on_subset)
  ultimately have "sort_key priority_key (fixable findings') = ?s" by (rule sort_key_mset_cong)
  then have 4: "top_fixable findings' limit = top_fixable findings limit"
    by (simp add: top_fixable_def)
  have 5: "length (top_fixable findings limit) \<le> nat limit"
    by (simp add: top_fixable_def n)
  show ?thesis using 1 2 3 4 5 by (simp add: chosen)
qed

theorem top_fixable_optimal_witness:
  "(\<Sum>f \<in># {#example_row#}. impact_or_0 f)
     \<le> sum_list (map pf_priority (top_fixable [example_row\<lparr>sf_id := 2, fr_score_impact := None\<rparr>, example_row] 1))"
  using top_fixable_optimal [of "[example_row\<lparr>sf_id := 2, fr_score_impact := None\<rparr>, example_row]"
      "{#example_row#}" 1 "[example_row, example_row\<lparr>sf_id := 2, fr_score_impact := None\<rparr>]"]
  by (simp add: example_row_def impact_or_0_def fixable_def NOT_FIXABLE_ANALYZERS_def)

end
