(* ===== verification/Dedup.thy ===== *)
theory Dedup
  imports Findings PyStr
begin

text \<open>
  Merging the same issue reported by several analyzers (\<open>analyzers/dedup.py\<close>), with the
  path normalisation it keys on (\<open>normalize_path\<close> of \<open>analyzers/snippets.py\<close>).  The
  locale \<open>location_match\<close> states what the grouping needs of the location test.

  \<open>f is not keeper\<close> compares object identities; the model carries each finding with its
  index in the input, which stands for its identity.
\<close>

section \<open>Paths\<close>

definition SANDBOX_ROOTS :: "string list" where
  "SANDBOX_ROOTS = [''/src/'']"

definition backslash :: char where
  "backslash = CHR 0x5C"

definition normalize_path :: "string \<Rightarrow> string" where
  "normalize_path path =
     (let v = map (\<lambda>c. if c = backslash then CHR ''/'' else c) path;
          v = (case find (\<lambda>mount. starts_with mount v) SANDBOX_ROOTS of
                 None \<Rightarrow> v | Some mount \<Rightarrow> drop (length mount) v);
          ps = filter (\<lambda>p. p \<notin> {[], ''.'', ''/''}) (path_parts v)
      in join ''/'' ps)"

section \<open>When two findings are the same\<close>

definition MAX_CONTAINING_SPAN :: int where
  "MAX_CONTAINING_SPAN = 5"

definition dedup_category :: "finding_data \<Rightarrow> string" where
  "dedup_category f =
     (case category f of
        None \<Rightarrow> ''rule:'' @ analyzer f @ '':'' @ rule_id f
      | Some c \<Rightarrow> if c = [] then ''rule:'' @ analyzer f @ '':'' @ rule_id f else c)"

definition contains_line :: "finding_data \<Rightarrow> finding_data \<Rightarrow> bool" where
  "contains_line outer inner \<longleftrightarrow>
     end_line outer - start_line outer \<le> MAX_CONTAINING_SPAN
     \<and> start_line outer \<le> start_line inner \<and> start_line inner \<le> end_line outer"

definition same_location :: "finding_data \<Rightarrow> finding_data \<Rightarrow> bool" where
  "same_location a b \<longleftrightarrow>
     start_line a = start_line b \<or> contains_line a b \<or> contains_line b a"

definition richness :: "finding_data \<Rightarrow> nat \<times> nat \<times> nat" where
  "richness f =
     (length (strip (message f)), severity_rank (sev f),
      if code_snippet f = None \<or> code_snippet f = Some [] then 0 else 1)"

section \<open>Merging a group\<close>

definition entry_of :: "finding_data \<Rightarrow> merged_entry" where
  "entry_of f = \<lparr>me_analyzer = analyzer f, me_rule_id = rule_id f,
     me_severity = severity_value (sev f), me_start_line = start_line f, me_message = message f\<rparr>"

definition merge_group :: "(nat \<times> finding_data) list \<Rightarrow> finding_data" where
  "merge_group members =
     (let (k, keeper) = first_max (richness \<circ> snd) members
      in if length members = 1 then keeper
         else
           let others = map snd (filter (\<lambda>x. fst x \<noteq> k) members);
               corroborated = sort (remdups (filter (\<lambda>a. a \<noteq> analyzer keeper) (map analyzer others)));
               worst = first_max severity_rank (map (sev \<circ> snd) members);
               cwes = dict_fromkeys (concat (map (cwe_ids \<circ> snd) members))
           in keeper\<lparr>sev := worst, cwe_ids := cwes,
                corroborated_by := sort (remdups (corroborated_by keeper @ corroborated)),
                merged_from := merged_from keeper @ map entry_of others\<rparr>)"

section \<open>Grouping\<close>

text \<open>A finding joins the first group whose anchor, its first finding, it matches.\<close>

fun place :: "('a \<Rightarrow> 'a \<Rightarrow> bool) \<Rightarrow> 'a \<Rightarrow> 'a list list \<Rightarrow> 'a list list" where
  "place same x [] = [[x]]"
| "place same x (g # gs) = (if same (hd g) x then (g @ [x]) # gs else g # place same x gs)"

definition group_bucket :: "(nat \<times> finding_data) list \<Rightarrow> (nat \<times> finding_data) list list" where
  "group_bucket bucket =
     foldl (\<lambda>groups x. place (\<lambda>a b. same_location (snd a) (snd b)) x groups) []
       (sort_key (\<lambda>x. (start_line (snd x), fst x)) bucket)"

definition bucket_key :: "finding_data \<Rightarrow> string \<times> string" where
  "bucket_key f = (normalize_path (file_path f), dedup_category f)"

definition all_groups :: "finding_data list \<Rightarrow> (nat \<times> finding_data) list list" where
  "all_groups findings =
     (let buckets = group_into [] (map (\<lambda>x. (bucket_key (snd x), x)) (enumerate 0 findings))
      in concat (map (group_bucket \<circ> snd) buckets))"

definition first_index :: "(nat \<times> 'a) list \<Rightarrow> nat" where
  "first_index members = Min (set (map fst members))"

definition deduplicate :: "finding_data list \<Rightarrow> finding_data list" where
  "deduplicate findings =
     (let merged = map (\<lambda>g. (first_index g, merge_group g)) (all_groups findings)
      in map snd (sort_key fst merged))"

section \<open>The interface of the location test\<close>

locale location_match =
  fixes same :: "'a \<Rightarrow> 'a \<Rightarrow> bool"
  assumes same_refl: "same a a"
    and same_sym: "same a b \<Longrightarrow> same b a"
begin

text \<open>Every member of a group matches its anchor, and no two anchors match each other.\<close>

definition anchored :: "'a list list \<Rightarrow> bool" where
  "anchored gs \<longleftrightarrow> (\<forall>g \<in> set gs. g \<noteq> [] \<and> (\<forall>x \<in> set g. same (hd g) x))
     \<and> sorted_wrt (\<lambda>g h. \<not> same (hd g) (hd h) \<and> \<not> same (hd h) (hd g)) gs"

lemma place_anchors: "h \<in> set (place same x gs) \<Longrightarrow> \<forall>g \<in> set gs. g \<noteq> [] \<Longrightarrow>
    h \<noteq> [] \<and> (hd h \<in> hd ` set gs \<or> hd h = x \<and> (\<forall>g \<in> set gs. \<not> same (hd g) x))"
  by (induction gs) (auto split: if_splits)

lemma anchored_place: "anchored gs \<Longrightarrow> anchored (place same x gs)"
proof (induction gs)
  case Nil
  then show ?case by (simp add: anchored_def same_refl)
next
  case (Cons g gs)
  have tail: "anchored gs" using Cons.prems by (simp add: anchored_def)
  show ?case
  proof (cases "same (hd g) x")
    case True
    then have "place same x (g # gs) = (g @ [x]) # gs" by simp
    moreover have "g \<noteq> []" using Cons.prems by (simp add: anchored_def)
    ultimately show ?thesis using Cons.prems True by (simp add: anchored_def ball_Un)
  next
    case False
    have "\<not> same (hd g) (hd h) \<and> \<not> same (hd h) (hd g)" if "h \<in> set (place same x gs)" for h
      using place_anchors [OF that] Cons.prems False same_sym by (auto simp: anchored_def)
    then show ?thesis using False Cons.IH [OF tail] Cons.prems by (simp add: anchored_def)
  qed
qed

lemma anchored_foldl: "anchored gs \<Longrightarrow> anchored (foldl (\<lambda>gs x. place same x gs) gs xs)"
  by (induction xs arbitrary: gs) (simp_all add: anchored_place)

lemma place_keeps: "mset (concat (place same x gs)) = add_mset x (mset (concat gs))"
  by (induction gs) auto

lemma foldl_place_keeps:
  "mset (concat (foldl (\<lambda>gs x. place same x gs) gs xs)) = mset (concat gs) + mset xs"
  by (induction xs arbitrary: gs) (simp_all add: place_keeps)

end

lemma same_location_refl: "same_location a a"
  by (simp add: same_location_def)

lemma same_location_sym: "same_location a b \<Longrightarrow> same_location b a"
  by (auto simp: same_location_def)

interpretation loc: location_match "\<lambda>a b. same_location (snd a) (snd b)"
  by unfold_locales (auto simp: same_location_refl intro: same_location_sym)

end
