(* ===== verification/Dedup_Props.thy ===== *)
theory Dedup_Props
  imports Dedup
begin

text \<open>
  Correctness of deduplication: the groups partition the input, the output has one finding per
  group in order of first appearance, and no report is lost or invented.
\<close>

section \<open>Merging\<close>

text \<open>What identifies a report: the severity aside, everything an entry of \<open>merged_from\<close> keeps.\<close>

definition report_of :: "finding_data \<Rightarrow> string \<times> string \<times> int \<times> string" where
  "report_of f = (analyzer f, rule_id f, start_line f, message f)"

definition reports :: "finding_data \<Rightarrow> (string \<times> string \<times> int \<times> string) list" where
  "reports f = report_of f
     # map (\<lambda>e. (me_analyzer e, me_rule_id e, me_start_line e, me_message e)) (merged_from f)"

definition with_others :: "nat \<Rightarrow> finding_data \<Rightarrow> (nat \<times> finding_data) list \<Rightarrow> finding_data" where
  "with_others k keeper g =
     keeper\<lparr>sev := first_max severity_rank (map (sev \<circ> snd) g),
       cwe_ids := dict_fromkeys (concat (map (cwe_ids \<circ> snd) g)),
       corroborated_by := sort (remdups (corroborated_by keeper @ sort (remdups
         (filter (\<lambda>a. a \<noteq> analyzer keeper) (map analyzer (map snd (filter (\<lambda>x. fst x \<noteq> k) g))))))),
       merged_from := merged_from keeper @ map entry_of (map snd (filter (\<lambda>x. fst x \<noteq> k) g))\<rparr>"

lemma with_others_fields [simp]:
  "report_of (with_others k keeper g) = report_of keeper"
  "file_path (with_others k keeper g) = file_path keeper"
  "category (with_others k keeper g) = category keeper"
  "sev (with_others k keeper g) = first_max severity_rank (map (sev \<circ> snd) g)"
  "merged_from (with_others k keeper g)
     = merged_from keeper @ map entry_of (map snd (filter (\<lambda>x. fst x \<noteq> k) g))"
  by (simp_all add: with_others_def report_of_def)

lemma merge_group_cases:
  assumes "g \<noteq> []"
  obtains k keeper where "(k, keeper) \<in> set g"
    and "merge_group g = (if length g = 1 then keeper else with_others k keeper g)"
proof -
  obtain k keeper where m: "first_max (richness \<circ> snd) g = (k, keeper)"
    by (cases "first_max (richness \<circ> snd) g")
  have "(k, keeper) \<in> set g" using first_max_in [OF assms, of "richness \<circ> snd"] m by simp
  then show ?thesis by (rule that) (simp add: merge_group_def with_others_def m Let_def)
qed

lemma merge_group_place:
  assumes "g \<noteq> []"
  shows "\<exists>k f. (k, f) \<in> set g \<and> report_of (merge_group g) = report_of f
    \<and> file_path (merge_group g) = file_path f \<and> category (merge_group g) = category f"
proof -
  obtain k keeper where "(k, keeper) \<in> set g"
    and m: "merge_group g = (if length g = 1 then keeper else with_others k keeper g)"
    using assms by (rule merge_group_cases)
  then show ?thesis by (intro exI [of _ k] exI [of _ keeper]) simp
qed

lemma merge_group_sev_max:
  assumes "g \<noteq> []"
  shows "sev (merge_group g) = first_max severity_rank (map (sev \<circ> snd) g)"
proof -
  obtain k keeper where "(k, keeper) \<in> set g"
    and "merge_group g = (if length g = 1 then keeper else with_others k keeper g)"
    using assms by (rule merge_group_cases)
  then show ?thesis by (cases g) (auto simp: first_max_def)
qed

lemma merge_group_sev:
  assumes "(k, f) \<in> set g"
  shows "sev f \<le> sev (merge_group g)"
    and "\<exists>h \<in> snd ` set g. sev (merge_group g) = sev h"
proof -
  have ne: "g \<noteq> []" using assms by auto
  have "sev f \<in> set (map (sev \<circ> snd) g)" using assms by force
  then show "sev f \<le> sev (merge_group g)"
    using first_max_ge [of "sev f" "map (sev \<circ> snd) g" severity_rank]
    by (simp add: less_eq_severity_def merge_group_sev_max [OF ne])
  have "first_max severity_rank (map (sev \<circ> snd) g) \<in> set (map (sev \<circ> snd) g)"
    using ne by (intro first_max_in) simp
  then show "\<exists>h \<in> snd ` set g. sev (merge_group g) = sev h"
    by (auto simp: merge_group_sev_max [OF ne])
qed

lemma filter_not_key:
  "distinct (map fst g) \<Longrightarrow> (k, f) \<in> set g \<Longrightarrow> add_mset (k, f) (mset (filter (\<lambda>x. fst x \<noteq> k) g)) = mset g"
proof (induction g)
  case (Cons p g)
  show ?case
  proof (cases "p = (k, f)")
    case True
    then have "filter (\<lambda>x. fst x \<noteq> k) g = g" using Cons.prems by (force simp: filter_id_conv)
    then show ?thesis using True by simp
  next
    case False
    then have "(k, f) \<in> set g" using Cons.prems by simp
    moreover from this have "k \<in> fst ` set g" by force
    then have "fst p \<noteq> k" using Cons.prems by auto
    ultimately have "(k, f) \<in> set g" "fst p \<noteq> k" by simp_all
    then show ?thesis using Cons by simp
  qed
qed simp

lemma merge_group_reports:
  assumes "g \<noteq> []" and "distinct (map fst g)" and "\<forall>f \<in> snd ` set g. merged_from f = []"
  shows "mset (reports (merge_group g)) = mset (map (report_of \<circ> snd) g)"
proof -
  obtain k keeper where in_g: "(k, keeper) \<in> set g"
    and m: "merge_group g = (if length g = 1 then keeper else with_others k keeper g)"
    using assms(1) by (rule merge_group_cases)
  have keep: "merged_from keeper = []" using assms(3) in_g by force
  show ?thesis
  proof (cases "length g = 1")
    case True
    then show ?thesis using m in_g keep by (cases g) (auto simp: reports_def)
  next
    case False
    let ?rest = "mset (filter (\<lambda>x. fst x \<noteq> k) g)"
    have "mset (reports (merge_group g)) = image_mset (report_of \<circ> snd) (add_mset (k, keeper) ?rest)"
      using m False keep
      by (simp add: reports_def comp_def) (simp add: entry_of_def report_of_def)
    then show ?thesis by (simp only: filter_not_key [OF assms(2) in_g] mset_map)
  qed
qed

section \<open>Groups\<close>

lemma group_bucket_props:
  "loc.anchored (group_bucket b)" "mset (concat (group_bucket b)) = mset b"
proof -
  have "loc.anchored []" by (simp add: loc.anchored_def)
  then show "loc.anchored (group_bucket b)" unfolding group_bucket_def by (rule loc.anchored_foldl)
  show "mset (concat (group_bucket b)) = mset b"
    unfolding group_bucket_def loc.foldl_place_keeps by simp
qed

lemma group_bucket_in: "g \<in> set (group_bucket b) \<Longrightarrow> x \<in> set g \<Longrightarrow> x \<in> set b"
  using group_bucket_props(2) [of b] by (metis UN_I mset_eq_setD set_concat)

definition buckets_of :: "finding_data list \<Rightarrow> (string \<times> string, (nat \<times> finding_data) list) dict" where
  "buckets_of fs = group_into [] (map (\<lambda>x. (bucket_key (snd x), x)) (enumerate 0 fs))"

lemma buckets_of_entry:
  "(key, b) \<in> set (buckets_of fs) \<Longrightarrow> x \<in> set b \<Longrightarrow> bucket_key (snd x) = key"
  unfolding buckets_of_def by (drule group_into_Nil_entry) auto

lemma all_groups_alt: "all_groups fs = concat (map (group_bucket \<circ> snd) (buckets_of fs))"
  by (simp add: all_groups_def buckets_of_def Let_def)

lemma all_groups_in:
  assumes "g \<in> set (all_groups fs)"
  obtains key b where "(key, b) \<in> set (buckets_of fs)" and "g \<in> set (group_bucket b)"
  using assms by (auto simp: all_groups_alt)

lemma all_groups_key:
  assumes "(key, b) \<in> set (buckets_of fs)" and "g \<in> set (group_bucket b)" and "x \<in> set g"
  shows "bucket_key (snd x) = key"
  using buckets_of_entry [OF assms(1) group_bucket_in [OF assms(2,3)]] .

lemma all_groups_anchor:
  assumes "g \<in> set (all_groups fs)"
  shows "g \<noteq> []" and "x \<in> set g \<Longrightarrow> same_location (snd (hd g)) (snd x)"
    and "x \<in> set g \<Longrightarrow> bucket_key (snd x) = bucket_key (snd (hd g))"
proof -
  from assms obtain key b where kb: "(key, b) \<in> set (buckets_of fs)" "g \<in> set (group_bucket b)"
    by (rule all_groups_in)
  have anch: "loc.anchored (group_bucket b)" by (rule group_bucket_props)
  then show ne: "g \<noteq> []" and "x \<in> set g \<Longrightarrow> same_location (snd (hd g)) (snd x)"
    using kb by (auto simp: loc.anchored_def)
  show "x \<in> set g \<Longrightarrow> bucket_key (snd x) = bucket_key (snd (hd g))"
    using all_groups_key [OF kb] ne by simp
qed

lemma sorted_wrt_pair:
  "sorted_wrt R xs \<Longrightarrow> a \<in> set xs \<Longrightarrow> b \<in> set xs \<Longrightarrow> a \<noteq> b \<Longrightarrow> R a b \<or> R b a"
  by (induction xs) auto

lemma all_groups_apart:
  assumes "g \<in> set (all_groups fs)" and "h \<in> set (all_groups fs)" and "g \<noteq> h"
    and "bucket_key (snd (hd g)) = bucket_key (snd (hd h))"
  shows "\<not> same_location (snd (hd g)) (snd (hd h))"
proof -
  from assms(1) obtain k1 b1 where 1: "(k1, b1) \<in> set (buckets_of fs)" "g \<in> set (group_bucket b1)"
    by (rule all_groups_in)
  from assms(2) obtain k2 b2 where 2: "(k2, b2) \<in> set (buckets_of fs)" "h \<in> set (group_bucket b2)"
    by (rule all_groups_in)
  have "hd g \<in> set g" "hd h \<in> set h"
    using all_groups_anchor(1) [OF assms(1)] all_groups_anchor(1) [OF assms(2)] by simp_all
  then have k: "k1 = k2" using all_groups_key [OF 1] all_groups_key [OF 2] assms(4) by simp
  have "distinct (map fst (buckets_of fs))" unfolding buckets_of_def by (rule distinct_group_into) simp
  then have b: "b1 = b2" using 1 2 k by (metis map_of_is_SomeI option.inject)
  have "sorted_wrt (\<lambda>g h. \<not> same_location (snd (hd g)) (snd (hd h))
      \<and> \<not> same_location (snd (hd h)) (snd (hd g))) (group_bucket b1)"
    using group_bucket_props(1) [of b1] by (simp add: loc.anchored_def)
  from sorted_wrt_pair [OF this 1(2) _ assms(3)] 2 b show ?thesis by blast
qed

lemma all_groups_mset: "mset (concat (all_groups fs)) = mset (enumerate 0 fs)"
proof -
  have step: "mset (concat (concat (map (group_bucket \<circ> snd) d))) = mset (concat (map snd d))"
    for d :: "(string \<times> string, (nat \<times> finding_data) list) dict"
    by (induction d) (simp_all add: group_bucket_props)
  show ?thesis
    by (simp add: all_groups_alt step) (simp add: buckets_of_def mset_group_into comp_def)
qed

lemma distinct_all_groups: "distinct (map fst (concat (all_groups fs)))"
proof -
  have "mset (map fst (concat (all_groups fs))) = mset (map fst (enumerate 0 fs))"
    by (simp only: mset_map all_groups_mset)
  then have "mset (map fst (concat (all_groups fs))) = mset [0..<length fs]" by (simp add: map_fst_enumerate)
  then show ?thesis by (metis distinct_upt mset_eq_imp_distinct_iff)
qed

lemma deduplicate_groups: "deduplicate fs = map merge_group (sort_key first_index (all_groups fs))"
  by (simp add: deduplicate_def sort_key_map comp_def Let_def)

lemma snd_enumerate_in: "x \<in> set (enumerate n xs) \<Longrightarrow> snd x \<in> set xs"
  by (metis image_eqI list.set_map map_snd_enumerate)

lemma mset_concat_cong: "mset xs = mset ys \<Longrightarrow> mset (concat xs) = mset (concat ys)"
  by (metis mset_concat mset_map sum_mset_sum_list)

definition example_semgrep :: finding_data where
  "example_semgrep = \<lparr>analyzer = ''semgrep'', rule_id = ''sqli'', sev = ERROR,
     file_path = ''/src/app.py'', start_line = 4, end_line = 7, message = ''SQL injection'',
     code_snippet = None, category = Some ''sql-injection'', cwe_ids = [89], dependency = None,
     corroborated_by = [], merged_from = []\<rparr>"

definition example_bandit :: finding_data where
  "example_bandit = example_semgrep\<lparr>analyzer := ''bandit'', rule_id := ''B608'', sev := CRITICAL,
     file_path := ''./app.py'', start_line := 5, end_line := 5, message := ''sql''\<rparr>"

text \<open>
  A path with exactly two leading slashes keeps them, because \<open>PurePosixPath\<close> gives it the
  root \<open>//\<close>, which the filter does not drop; joining then adds a third one.
\<close>

lemma normalize_path_double_slash: "normalize_path ''//app.py'' = ''///app.py''"
  by code_simp

section \<open>Properties\<close>

text \<open>
  C7: Deduplication merges exactly the groups it promises.  The groups partition the input;
  every member of a group has its file, category and a location matching the group's anchor; two
  groups with the same file and category have anchors at different locations; and the output is
  the merge of each group, in the order in which the groups first appear in the input.
\<close>

theorem deduplicate_sound:
  "\<exists>groups. deduplicate findings = map merge_group groups
    \<and> mset (concat groups) = mset (enumerate 0 findings)
    \<and> sorted (map first_index groups)
    \<and> (\<forall>g \<in> set groups. g \<noteq> [] \<and> (\<forall>x \<in> set g. bucket_key (snd x) = bucket_key (snd (hd g))
                                            \<and> same_location (snd (hd g)) (snd x)))
    \<and> (\<forall>g \<in> set groups. \<forall>h \<in> set groups. g \<noteq> h \<and> bucket_key (snd (hd g)) = bucket_key (snd (hd h))
          \<longrightarrow> \<not> same_location (snd (hd g)) (snd (hd h)))"
proof (intro exI conjI)
  let ?gs = "sort_key first_index (all_groups findings)"
  show "deduplicate findings = map merge_group ?gs" by (rule deduplicate_groups)
  show "mset (concat ?gs) = mset (enumerate 0 findings)"
    using mset_concat_cong [of ?gs "all_groups findings"] by (simp add: all_groups_mset)
  show "sorted (map first_index ?gs)" by (rule sorted_sort_key)
  show "\<forall>g \<in> set ?gs. g \<noteq> [] \<and> (\<forall>x \<in> set g. bucket_key (snd x) = bucket_key (snd (hd g))
                                            \<and> same_location (snd (hd g)) (snd x))"
    using all_groups_anchor by (simp only: set_sort) blast
  show "\<forall>g \<in> set ?gs. \<forall>h \<in> set ?gs. g \<noteq> h \<and> bucket_key (snd (hd g)) = bucket_key (snd (hd h))
          \<longrightarrow> \<not> same_location (snd (hd g)) (snd (hd h))"
    using all_groups_apart by (simp only: set_sort) blast
qed

theorem deduplicate_sound_witness:
  "\<exists>groups. deduplicate [example_semgrep, example_bandit] = map merge_group groups
    \<and> mset (concat groups) = mset (enumerate 0 [example_semgrep, example_bandit])"
  using deduplicate_sound [of "[example_semgrep, example_bandit]"] by blast

text \<open>
  C8: No report is lost and none is invented: the kept findings together with what they record
  in \<open>merged_from\<close> are, with their multiplicities, exactly the reports of the analyzers.
\<close>

theorem deduplicate_conserves:
  assumes "\<forall>f \<in> set findings. merged_from f = []"
  shows "mset (concat (map reports (deduplicate findings))) = mset (map report_of findings)"
proof -
  let ?gs = "all_groups findings"
  have mem: "snd x \<in> set findings" if "x \<in> set (concat ?gs)" for x
    using that unfolding mset_eq_setD [OF all_groups_mset [of findings]] by (rule snd_enumerate_in)
  have "mset (reports (merge_group g)) = mset (map (report_of \<circ> snd) g)" if "g \<in> set ?gs" for g
  proof (rule merge_group_reports)
    show "g \<noteq> []" using that by (rule all_groups_anchor)
    show "distinct (map fst g)" using distinct_all_groups [of findings] that
      by (auto simp: map_concat distinct_concat_iff)
    show "\<forall>f \<in> snd ` set g. merged_from f = []" using mem that assms by auto
  qed
  then have each: "set gs \<subseteq> set ?gs \<Longrightarrow> mset (concat (map reports (map merge_group gs)))
      = mset (map (report_of \<circ> snd) (concat gs))" for gs
    by (induction gs) auto
  have "mset (concat (map reports (deduplicate findings)))
      = image_mset (report_of \<circ> snd) (mset (concat (sort_key first_index ?gs)))"
    using each [of "sort_key first_index ?gs"] by (simp add: deduplicate_groups)
  also have "mset (concat (sort_key first_index ?gs)) = mset (enumerate 0 findings)"
    using mset_concat_cong [of "sort_key first_index ?gs" ?gs] by (simp add: all_groups_mset)
  also have "image_mset (report_of \<circ> snd) (mset (enumerate 0 findings)) = mset (map report_of findings)"
    by (metis map_map map_snd_enumerate mset_map)
  finally show ?thesis .
qed

theorem deduplicate_conserves_witness:
  "mset (concat (map reports (deduplicate [example_semgrep, example_bandit])))
     = {#report_of example_semgrep, report_of example_bandit#}"
  using deduplicate_conserves [of "[example_semgrep, example_bandit]"]
  by (simp add: example_semgrep_def example_bandit_def)

text \<open>
  Merging never understates an issue: every reported finding is covered by a kept one in the
  same normalised file and category whose severity is at least as high and whose severity some
  finding of that file and category really had.
\<close>

theorem deduplicate_covers:
  assumes "f \<in> set findings"
  shows "\<exists>kept \<in> set (deduplicate findings). bucket_key kept = bucket_key f \<and> sev f \<le> sev kept
    \<and> (\<exists>h \<in> set findings. bucket_key h = bucket_key f \<and> sev kept = sev h)"
proof -
  let ?gs = "all_groups findings"
  have sets: "set (concat ?gs) = set (enumerate 0 findings)"
    by (rule mset_eq_setD [OF all_groups_mset])
  obtain i where "(i, f) \<in> set (enumerate 0 findings)"
    using assms by (metis imageE list.set_map map_snd_enumerate prod.collapse)
  then obtain g where g: "g \<in> set ?gs" "(i, f) \<in> set g" using sets by auto
  have key: "bucket_key (snd x) = bucket_key f" if "x \<in> set g" for x
    using all_groups_anchor(3) [OF g(1) that] all_groups_anchor(3) [OF g] by simp
  obtain k h where h: "(k, h) \<in> set g" "report_of (merge_group g) = report_of h"
    "file_path (merge_group g) = file_path h" "category (merge_group g) = category h"
    using merge_group_place [OF all_groups_anchor(1) [OF g(1)]] by blast
  then have "analyzer (merge_group g) = analyzer h" "rule_id (merge_group g) = rule_id h"
    by (simp_all add: report_of_def)
  with h have "bucket_key (merge_group g) = bucket_key h"
    by (simp add: bucket_key_def dedup_category_def split: option.split)
  then have kept: "bucket_key (merge_group g) = bucket_key f" using key [OF h(1)] by simp
  from merge_group_sev(2) [OF g(2)] obtain x where x: "x \<in> set g" "sev (merge_group g) = sev (snd x)"
    by auto
  then have "x \<in> set (enumerate 0 findings)" unfolding sets [symmetric] using g(1) by auto
  then have "snd x \<in> set findings" by (rule snd_enumerate_in)
  then show ?thesis
    using g x key [OF x(1)] kept merge_group_sev(1) [OF g(2)] by (auto simp: deduplicate_groups)
qed

theorem deduplicate_covers_witness:
  "\<exists>kept \<in> set (deduplicate [example_semgrep, example_bandit]). CRITICAL \<le> sev kept"
  using deduplicate_covers [of example_bandit "[example_semgrep, example_bandit]"]
  by (auto simp: example_bandit_def)

end
