(* ===== verification/Compare.thy ===== *)
theory Compare
  imports Findings PyStr
begin

text \<open>
  Comparing the findings of two scans (\<open>services/compare.py\<close>): the identity of a finding
  across commits, and the matching of identities as a multiset.  A stored finding is a
  \<open>finding_data\<close> whose \<open>dependency\<close> is \<open>None\<close> when the column is null or an empty
  object.
\<close>

section \<open>Identity\<close>

text \<open>\<open>re.sub\<close> of one or more characters of a class by a single character.\<close>

fun collapse_from :: "(char \<Rightarrow> bool) \<Rightarrow> char \<Rightarrow> bool \<Rightarrow> string \<Rightarrow> string" where
  "collapse_from p r in_run [] = []"
| "collapse_from p r in_run (c # cs) =
     (if p c then (if in_run then [] else [r]) @ collapse_from p r True cs
      else c # collapse_from p r False cs)"

definition collapse :: "(char \<Rightarrow> bool) \<Rightarrow> char \<Rightarrow> string \<Rightarrow> string" where
  "collapse p r s = collapse_from p r False s"

definition collapse_spaces :: "string \<Rightarrow> string" where
  "collapse_spaces s = collapse is_space CHR '' '' s"

definition dep_field :: "string option \<Rightarrow> string" where
  "dep_field v = (case v of None \<Rightarrow> [] | Some s \<Rightarrow> s)"

definition finding_identity :: "finding_data \<Rightarrow> string list" where
  "finding_identity f =
     (case dependency f of
        Some dep \<Rightarrow> [analyzer f, rule_id f, dep_field (dep_ecosystem dep),
                      dep_field (dep_package dep), dep_field (dep_version dep)]
      | None \<Rightarrow>
          let evidence =
                (case code_snippet f of
                   Some s \<Rightarrow> if strip s \<noteq> [] then strip (collapse_spaces s)
                             else strip (collapse is_digit CHR ''#'' (collapse_spaces (message f)))
                 | None \<Rightarrow> strip (collapse is_digit CHR ''#'' (collapse_spaces (message f))))
          in [analyzer f, rule_id f, file_path f, evidence])"

section \<open>The difference\<close>

record comparison =
  cmp_new :: "finding_data list"
  cmp_resolved :: "finding_data list"
  unchanged_count :: nat

text \<open>The loop over the head findings: each takes one remaining base finding of its identity.\<close>

fun match_head ::
    "(string list, finding_data list) dict \<Rightarrow> finding_data list
     \<Rightarrow> (string list, finding_data list) dict \<times> finding_data list \<times> nat" where
  "match_head remaining [] = (remaining, [], 0)"
| "match_head remaining (f # fs) =
     (let matches = bucket_get remaining (finding_identity f)
      in if matches \<noteq> [] then
           (let (r, new, unchanged) =
                  match_head (dict_set (finding_identity f) (butlast matches) remaining) fs
            in (r, new, Suc unchanged))
         else (let (r, new, unchanged) = match_head remaining fs in (r, f # new, unchanged)))"

definition report_key :: "finding_data \<Rightarrow> int \<times> string \<times> int" where
  "report_key f = (- int (severity_rank (sev f)), file_path f, start_line f)"

definition diff_findings :: "finding_data list \<Rightarrow> finding_data list \<Rightarrow> comparison" where
  "diff_findings base head =
     (let remaining = group_into [] (map (\<lambda>f. (finding_identity f, f)) base);
          (r, new, unchanged) = match_head remaining head;
          resolved = concat (map snd r)
      in \<lparr>cmp_new = sort_key report_key new, cmp_resolved = sort_key report_key resolved,
          unchanged_count = unchanged\<rparr>)"

definition severity_counts :: "finding_data list \<Rightarrow> (string \<times> nat) list" where
  "severity_counts fs =
     map (\<lambda>s. (severity_value s, length (filter (\<lambda>f. severity_value (sev f) = severity_value s) fs)))
       all_severities"

section \<open>Counting identities\<close>

abbreviation idents :: "finding_data list \<Rightarrow> string list multiset" where
  "idents fs \<equiv> image_mset finding_identity (mset fs)"

lemma bucket_get_dict_set [dict_simps]:
  "bucket_get (dict_set k v d) k' = (if k' = k then v else bucket_get d k')"
  by (simp add: bucket_get_def)

lemma match_head_counts:
  assumes "match_head rem fs = (rem', new, u)"
  shows "length (bucket_get rem' k) = length (bucket_get rem k) - count (idents fs) k
    \<and> count (idents new) k = count (idents fs) k - length (bucket_get rem k)
    \<and> u + length new = length fs \<and> mset new \<subseteq># mset fs"
  using assms
proof (induction rem fs arbitrary: rem' new u rule: match_head.induct)
  case (2 rem f fs)
  let ?i = "finding_identity f"
  show ?case
  proof (cases "bucket_get rem ?i = []")
    case True
    obtain r n v where step: "match_head rem fs = (r, n, v)" by (cases "match_head rem fs")
    from 2(2) True step show ?thesis using 2(3) by (auto simp: Let_def)
  next
    case False
    let ?rem = "dict_set ?i (butlast (bucket_get rem ?i)) rem"
    obtain r n v where step: "match_head ?rem fs = (r, n, v)" by (cases "match_head ?rem fs")
    obtain m where m: "length (bucket_get rem ?i) = Suc m" using False by (cases "bucket_get rem ?i") auto
    with 2(1) False step show ?thesis
      using 2(3) subset_mset.order_trans [of "mset n" "mset fs" "mset (f # fs)"]
      by (auto simp: Let_def bucket_get_dict_set)
  qed
qed simp

text \<open>Dictionaries that hold every finding under its identity.\<close>

definition by_identity :: "(string list, finding_data list) dict \<Rightarrow> bool" where
  "by_identity d \<longleftrightarrow> distinct (map fst d) \<and> (\<forall>(k, fs) \<in> set d. \<forall>f \<in> set fs. finding_identity f = k)"

lemma by_identity_group: "by_identity (group_into [] (map (\<lambda>f. (finding_identity f, f)) base))"
  by (auto simp: by_identity_def intro: distinct_group_into dest!: group_into_Nil_entry)

lemma dict_set_in: "(k', v') \<in> set (dict_set k v d) \<Longrightarrow> distinct (map fst d) \<Longrightarrow>
    (k', v') = (k, v) \<or> k' \<noteq> k \<and> (k', v') \<in> set d"
  by (induction k v d rule: dict_set.induct) (force split: if_splits)+

lemma bucket_get_member: "f \<in> set (bucket_get d k) \<Longrightarrow> \<exists>fs. (k, fs) \<in> set d \<and> f \<in> set fs"
  by (cases "map_of d k") (auto simp: bucket_get_def dest: map_of_SomeD)

lemma by_identity_take:
  assumes "by_identity d"
  shows "by_identity (dict_set k (butlast (bucket_get d k)) d)"
proof -
  have d: "distinct (map fst d)" using assms by (simp add: by_identity_def)
  have "finding_identity f = k'"
    if "(k', fs) \<in> set (dict_set k (butlast (bucket_get d k)) d)" and "f \<in> set fs" for k' fs f
    using dict_set_in [OF that(1) d]
  proof
    assume "(k', fs) = (k, butlast (bucket_get d k))"
    then have "f \<in> set (bucket_get d k)" "k' = k" using that(2) by (auto dest: in_set_butlastD)
    then show ?thesis using assms bucket_get_member by (fastforce simp: by_identity_def)
  next
    assume "k' \<noteq> k \<and> (k', fs) \<in> set d"
    then show ?thesis using assms that(2) by (auto simp: by_identity_def)
  qed
  then show ?thesis using distinct_dict_set [OF d] by (auto simp: by_identity_def)
qed

lemma by_identity_match:
  "match_head rem fs = (rem', new, u) \<Longrightarrow> by_identity rem \<Longrightarrow> by_identity rem'"
proof (induction rem fs arbitrary: rem' new u rule: match_head.induct)
  case (2 rem f fs)
  then show ?case using by_identity_take
    by (auto simp: Let_def split: if_splits prod.splits)
qed simp

lemma count_by_identity:
  assumes "by_identity d"
  shows "count (idents (concat (map snd d))) k = length (bucket_get d k)"
  using assms
proof (induction d)
  case (Cons p d)
  obtain k' fs where p: "p = (k', fs)" by (cases p)
  have tail: "by_identity d" and k': "k' \<notin> fst ` set d" and fs: "\<forall>f \<in> set fs. finding_identity f = k'"
    using Cons.prems p by (auto simp: by_identity_def)
  have one: "count (idents fs) k = (if k = k' then length fs else 0)"
    using fs by (induction fs) auto
  have "bucket_get d k' = []" using k' by (simp add: bucket_get_def map_of_eq_None_iff [THEN iffD2])
  then show ?case using Cons.IH [OF tail] one p by (auto simp: bucket_get_def)
qed (simp add: bucket_get_def)

lemma bucket_get_group_idents:
  "length (bucket_get (group_into [] (map (\<lambda>f. (finding_identity f, f)) base)) k) = count (idents base) k"
  using count_by_identity [OF by_identity_group, of base k]
  by (simp add: mset_group_into comp_def)

lemma mset_diff_findings:
  assumes "match_head (group_into [] (map (\<lambda>f. (finding_identity f, f)) base)) head = (r, new, u)"
  shows "mset (cmp_new (diff_findings base head)) = mset new"
    and "mset (cmp_resolved (diff_findings base head)) = mset (concat (map snd r))"
    and "unchanged_count (diff_findings base head) = u"
  by (simp_all add: diff_findings_def assms)

end
