(* ===== verification/Compare_Props.thy ===== *)
theory Compare_Props
  imports Compare
begin

text \<open>
  Correctness of the comparison: it computes the differences of the multisets of identities, and
  so depends on nothing else of the base findings.
\<close>

definition example_issue :: finding_data where
  "example_issue = \<lparr>analyzer = ''bandit'', rule_id = ''B101'', sev = WARNING,
     file_path = ''a.py'', start_line = 3, end_line = 3, message = ''assert used'',
     code_snippet = Some ''  assert  x'', category = None, cwe_ids = [], dependency = None,
     corroborated_by = [], merged_from = []\<rparr>"

definition moved_issue :: finding_data where
  "moved_issue = example_issue\<lparr>start_line := 40, end_line := 40, code_snippet := Some ''assert x ''\<rparr>"

lemma match_head_cong:
  assumes "match_head rem fs = (r, new, u)" and "match_head rem2 fs = (r2, new2, u2)"
    and "\<forall>k. length (bucket_get rem k) = length (bucket_get rem2 k)"
  shows "new = new2 \<and> u = u2"
  using assms
proof (induction fs arbitrary: rem rem2 r r2 new new2 u u2)
  case (Cons f fs)
  let ?i = "finding_identity f"
  have len: "length (bucket_get rem k) = length (bucket_get rem2 k)" for k using Cons.prems(3) by simp
  have same: "bucket_get rem ?i = [] \<longleftrightarrow> bucket_get rem2 ?i = []" using len [of ?i] by auto
  show ?case
  proof (cases "bucket_get rem ?i = []")
    case True
    then show ?thesis using same Cons.prems Cons.IH [of rem _ _ _ rem2]
      by (auto simp: Let_def split: prod.splits)
  next
    case False
    have "\<forall>k. length (bucket_get (dict_set ?i (butlast (bucket_get rem ?i)) rem) k)
        = length (bucket_get (dict_set ?i (butlast (bucket_get rem2 ?i)) rem2) k)"
      by (simp add: bucket_get_dict_set len)
    then show ?thesis using False same Cons.prems
        Cons.IH [of "dict_set ?i (butlast (bucket_get rem ?i)) rem" _ _ _
                    "dict_set ?i (butlast (bucket_get rem2 ?i)) rem2"]
      by (auto simp: Let_def split: prod.splits)
  qed
qed simp

lemma size_diff_inter: "size (A - B) + size (A \<inter># B) = size A"
proof -
  have "A = (A - B) + (A \<inter># B)" by (rule multiset_eqI) simp
  then show ?thesis by (metis size_union)
qed

section \<open>Properties\<close>

text \<open>
  C9: The comparison of two scans is the difference of the multisets of their identities: a
  finding is new as often as the head has it more than the base, resolved as often as the base
  has it more than the head, and unchanged otherwise; new findings come from the head and the
  counts add up on both sides.
\<close>

theorem diff_findings_multiset:
  fixes base head
  defines "d \<equiv> diff_findings base head"
  shows "idents (cmp_new d) = idents head - idents base
    \<and> idents (cmp_resolved d) = idents base - idents head
    \<and> unchanged_count d = size (idents base \<inter># idents head)
    \<and> mset (cmp_new d) \<subseteq># mset head
    \<and> unchanged_count d + length (cmp_new d) = length head
    \<and> unchanged_count d + length (cmp_resolved d) = length base"
proof -
  let ?rem = "group_into [] (map (\<lambda>f. (finding_identity f, f)) base)"
  obtain r new u where m: "match_head ?rem head = (r, new, u)" by (cases "match_head ?rem head")
  note c = match_head_counts [OF m] and dm = mset_diff_findings [OF m, folded d_def]
  have new: "idents (cmp_new d) = idents head - idents base"
    using c by (intro multiset_eqI) (simp add: dm bucket_get_group_idents)
  have res: "idents (cmp_resolved d) = idents base - idents head"
    using c count_by_identity [OF by_identity_match [OF m by_identity_group]]
    by (intro multiset_eqI) (simp add: dm bucket_get_group_idents)
  have sizes: "size (idents (cmp_new d)) = length (cmp_new d)"
    "size (idents (cmp_resolved d)) = length (cmp_resolved d)"
    "length (cmp_new d) = length new" by (simp_all add: arg_cong [OF dm(1), of size, simplified])
  have head: "size (idents head - idents base) + size (idents base \<inter># idents head) = length head"
    using size_diff_inter [of "idents head" "idents base"] by (simp add: subset_mset.inf_commute)
  have base: "size (idents base - idents head) + size (idents base \<inter># idents head) = length base"
    using size_diff_inter [of "idents base" "idents head"] by simp
  have u: "u + length new = length head" and sub: "mset new \<subseteq># mset head" using c by blast+
  have un: "unchanged_count d = size (idents base \<inter># idents head)"
    using u head sizes new dm(3) by simp
  show ?thesis
  proof (intro conjI)
    show "mset (cmp_new d) \<subseteq># mset head" using sub dm(1) by simp
    show "unchanged_count d + length (cmp_new d) = length head" using u sizes dm(3) by simp
    show "unchanged_count d + length (cmp_resolved d) = length base"
      using un base sizes(2) res by simp
  qed (fact new res un)+
qed

text \<open>
  Only identities matter: replacing the base by findings with the same identities, for
  instance the same issues on other lines after an edit above them, changes neither which
  findings of the head are new nor how many are unchanged; in particular a scan compared with a
  moved copy of itself has nothing new and nothing resolved.
\<close>

theorem diff_findings_identity_only:
  assumes "idents base' = idents base"
  shows "cmp_new (diff_findings base' head) = cmp_new (diff_findings base head)
    \<and> unchanged_count (diff_findings base' head) = unchanged_count (diff_findings base head)
    \<and> (idents head = idents base \<longrightarrow> cmp_new (diff_findings base' head) = []
                                   \<and> cmp_resolved (diff_findings base' head) = [])"
proof -
  let ?rem = "\<lambda>base. group_into [] (map (\<lambda>f. (finding_identity f, f)) base)"
  obtain r new u where m: "match_head (?rem base) head = (r, new, u)" by (cases "match_head (?rem base) head")
  obtain r2 new2 u2 where m2: "match_head (?rem base') head = (r2, new2, u2)"
    by (cases "match_head (?rem base') head")
  have same: "new2 = new \<and> u2 = u"
    by (rule match_head_cong [OF m2 m]) (simp add: bucket_get_group_idents assms)
  have len: "length (bucket_get (?rem base') k) = count (idents base') k" for k
    by (rule bucket_get_group_idents)
  have none: "new2 = [] \<and> concat (map snd r2) = []" if "idents head = idents base"
  proof -
    have "idents new2 = {#}"
      by (rule multiset_eqI) (use match_head_counts [OF m2] len assms that in simp)
    moreover have "idents (concat (map snd r2)) = {#}"
      by (rule multiset_eqI) (use match_head_counts [OF m2] len assms that
        count_by_identity [OF by_identity_match [OF m2 by_identity_group]] in simp)
    ultimately show ?thesis by simp
  qed
  have "cmp_resolved (diff_findings base' head) = sort_key report_key (concat (map snd r2))"
    by (simp add: diff_findings_def m2)
  moreover have "cmp_new (diff_findings base' head) = sort_key report_key new2"
    "cmp_new (diff_findings base head) = sort_key report_key new"
    "unchanged_count (diff_findings base' head) = u2" "unchanged_count (diff_findings base head) = u"
    by (simp_all add: diff_findings_def m m2)
  ultimately show ?thesis using same none by (simp del: concat_eq_Nil_conv)
qed

theorem diff_findings_identity_only_witness:
  "idents [moved_issue] = idents [example_issue]
   \<and> cmp_new (diff_findings [moved_issue] [example_issue]) = []"
proof -
  have "finding_identity moved_issue = finding_identity example_issue" by code_simp
  then have eq: "idents [moved_issue] = idents [example_issue]" by simp
  show ?thesis using eq diff_findings_identity_only [OF eq, of "[example_issue]"] by blast
qed

end
