(* ===== verification/Categories.thy ===== *)
theory Categories
  imports Findings
begin

text \<open>
  Coarse issue categories (\<open>analyzers/categories.py\<close>): the keyword patterns and the CWE
  table, the choice of a category for a rule, and the extraction of CWE ids from tool output.
\<close>

section \<open>The tables\<close>

text \<open>\<open>[._-]?\<close>\<close>

definition Sep :: rx where
  "Sep = Opt (OneOf ''._-'')"

definition Two :: "string \<Rightarrow> string \<Rightarrow> rx" where
  "Two a b = Seqs [Str a, Sep, Str b]"

definition KEYWORD_CATEGORIES :: "(string \<times> rx) list" where
  "KEYWORD_CATEGORIES =
    [(''debug-enabled'', Str ''debug''),
     (''insecure-deserialization'',
        Alts [Str ''pickle'', Str ''marshal'', Str ''deserial'', Two ''yaml'' ''load'', Two ''unsafe'' ''load'']),
     (''sql-injection'', Str ''sql''),
     (''command-injection'',
        Alts [Str ''subprocess'', Str ''shell'', Two ''os'' ''system'', Str ''popen'',
              Two ''command'' ''injection'', Two ''child'' ''process'', Str ''spawn'', Two ''start'' ''process'']),
     (''code-injection'',
        Alts [Str ''eval'', Str ''exec'', Two ''code'' ''injection'', Two ''new'' ''function'']),
     (''xss'',
        Alts [Str ''xss'', Two ''cross'' ''site'', Two ''raw'' ''html'', Str ''innerhtml'',
              Two ''mark'' ''safe'', Str ''autoescape'']),
     (''path-traversal'', Alts [Two ''path'' ''traversal'', Two ''directory'' ''traversal'']),
     (''ssrf'', Str ''ssrf''),
     (''xxe'', Alts [Str ''xxe'', Two ''xml'' ''external'']),
     (''open-redirect'', Two ''open'' ''redirect''),
     (''tls-verification'', Alts [Str ''verify'', Str ''certificate'', Str ''ssl'', Str ''tls'']),
     (''weak-crypto'',
        Alts [Str ''md5'', Str ''sha1'', Str ''hashlib'', Two ''weak'' ''hash'', Two ''insecure'' ''hash'',
              Seq (Str ''des'') (NotAhead (Cls is_word)), Two ''weak'' ''cipher'']),
     (''insecure-randomness'', Str ''random''),
     (''bind-all-interfaces'', Alts [Two ''bind'' ''all'', Str ''0.0.0.0'', Two ''bad'' ''host'']),
     (''hardcoded-secret'',
        Alts [Str ''password'', Str ''secret'', Str ''token'', Str ''credential'', Two ''api'' ''key'',
              Str ''hardcoded''])]"

definition CWE_CATEGORIES :: "(int \<times> string) list" where
  "CWE_CATEGORIES =
    [(89, ''sql-injection''), (564, ''sql-injection''), (77, ''command-injection''),
     (78, ''command-injection''), (94, ''code-injection''), (95, ''code-injection''), (79, ''xss''),
     (80, ''xss''), (502, ''insecure-deserialization''), (22, ''path-traversal''),
     (23, ''path-traversal''), (918, ''ssrf''), (611, ''xxe''), (601, ''open-redirect''),
     (295, ''tls-verification''), (327, ''weak-crypto''), (328, ''weak-crypto''),
     (326, ''weak-crypto''), (916, ''weak-crypto''), (330, ''insecure-randomness''),
     (338, ''insecure-randomness''), (489, ''debug-enabled''), (215, ''debug-enabled''),
     (605, ''bind-all-interfaces''), (259, ''hardcoded-secret''), (321, ''hardcoded-secret''),
     (798, ''hardcoded-secret'')]"

section \<open>Choosing a category\<close>

definition categorize :: "string \<Rightarrow> int list \<Rightarrow> string option" where
  "categorize rule_text cwes =
     (let text = lower rule_text
      in case find (\<lambda>(_, pattern). rx_search pattern text) KEYWORD_CATEGORIES of
           Some (cat, _) \<Rightarrow> Some cat
         | None \<Rightarrow>
             (case find (\<lambda>cwe. map_of CWE_CATEGORIES cwe \<noteq> None) cwes of
                Some cwe \<Rightarrow> map_of CWE_CATEGORIES cwe
              | None \<Rightarrow> None))"

section \<open>CWE ids\<close>

text \<open>One item of the tool's list: an integer, or anything else as its \<open>str\<close>.\<close>

datatype cwe_item = Cwe_int int | Cwe_text string

text \<open>
  \<open>findall\<close> of \<open>CWE-(\d+)\<close> ignoring case: the digits after each non-overlapping match, from
  left to right.
\<close>

function find_cwes :: "string \<Rightarrow> int list" where
  "find_cwes [] = []"
| "find_cwes (c # cs) =
     (let s = c # cs; digits = takeWhile is_digit (drop 4 s)
      in if lower (take 4 s) = ''cwe-'' \<and> digits \<noteq> []
         then int (nat_of_digits 0 digits) # find_cwes (drop (4 + length digits) s)
         else find_cwes cs)"
  by pat_completeness auto
termination by (relation "measure length") auto

definition cwes_of_item :: "cwe_item \<Rightarrow> int list" where
  "cwes_of_item item = (case item of Cwe_int n \<Rightarrow> [n] | Cwe_text s \<Rightarrow> find_cwes s)"

text \<open>\<open>extend\<close> consumes its generator lazily, so \<open>ids\<close> grows between the tests.\<close>

definition extend_ids :: "int list \<Rightarrow> int list \<Rightarrow> int list" where
  "extend_ids ids found = foldl (\<lambda>ids cwe. if cwe \<in> set ids then ids else ids @ [cwe]) ids found"

definition parse_cwe_ids :: "cwe_item list \<Rightarrow> int list" where
  "parse_cwe_ids items = foldl (\<lambda>ids item. extend_ids ids (cwes_of_item item)) [] items"

section \<open>Lemmas\<close>

lemma lower_idem [simp]: "lower (lower s) = lower s"
  by (simp add: lower_def comp_def lower_char_def is_upper_def code_def)

lemma extend_ids_set: "set (extend_ids ids found) = set ids \<union> set found"
  unfolding extend_ids_def by (induction found arbitrary: ids) auto

lemma extend_ids_distinct: "distinct ids \<Longrightarrow> distinct (extend_ids ids found)"
  unfolding extend_ids_def by (induction found arbitrary: ids) auto

lemma parse_cwe_ids_foldl:
  "set (foldl (\<lambda>ids item. extend_ids ids (cwes_of_item item)) ids items)
     = set ids \<union> (\<Union>item \<in> set items. set (cwes_of_item item))
   \<and> (distinct ids \<longrightarrow> distinct (foldl (\<lambda>ids item. extend_ids ids (cwes_of_item item)) ids items))"
  by (induction items arbitrary: ids) (auto simp: extend_ids_set extend_ids_distinct)

lemma find_cwes_number:
  assumes "lower p = ''cwe-''" and "\<forall>c \<in> set (take 1 rest). \<not> is_digit c"
  shows "find_cwes (p @ show_nat n @ rest) = int n # find_cwes rest"
proof -
  have p: "length p = 4" using arg_cong [OF assms(1), of length] by simp
  then obtain c cs where pc: "p = c # cs" by (cases p) auto
  have digits: "takeWhile is_digit (show_nat n @ rest) = show_nat n"
    using assms(2) show_nat_digits [of n] by (cases rest) (auto simp: takeWhile_append)
  have "takeWhile is_digit (drop 4 (p @ show_nat n @ rest)) = show_nat n" using p digits by simp
  moreover have "take 4 (p @ show_nat n @ rest) = p" using p by simp
  moreover have "drop (4 + length (show_nat n)) (p @ show_nat n @ rest) = rest" using p by simp
  ultimately show ?thesis using p assms(1) show_nat_digits [of n] pc by (simp add: Let_def)
qed

end
