(* ===== verification/Categories_Props.thy ===== *)
theory Categories_Props
  imports Categories
begin

text \<open>Properties of the issue categories and of CWE parsing.\<close>

lemma find_index:
  "find P xs = Some x \<longleftrightarrow> (\<exists>i < length xs. xs ! i = x \<and> P x \<and> (\<forall>j < i. \<not> P (xs ! j)))"
  by (auto simp: find_Some_iff)

lemma rx_search_nonempty_category: "c \<in> fst ` set KEYWORD_CATEGORIES \<Longrightarrow> c \<noteq> []"
  by (auto simp: KEYWORD_CATEGORIES_def)

lemma cwe_values: "snd ` set CWE_CATEGORIES \<subseteq> fst ` set KEYWORD_CATEGORIES"
  by code_simp

section \<open>Properties\<close>

text \<open>
  C10: The category of a rule comes from the keyword table first: it is the first category
  whose pattern occurs in the rule text, whatever its case; only when no pattern occurs does the
  first known CWE id decide, and then with a category that the keyword table also has, so a
  keyword match and a CWE match of two tools can be merged.
\<close>

theorem categorize_priority:
  "categorize (lower text) cwes = categorize text cwes
   \<and> (case categorize text cwes of
        None \<Rightarrow> (\<forall>(c, pattern) \<in> set KEYWORD_CATEGORIES. \<not> rx_search pattern (lower text))
                \<and> (\<forall>cwe \<in> set cwes. cwe \<notin> fst ` set CWE_CATEGORIES)
      | Some c \<Rightarrow> c \<in> fst ` set KEYWORD_CATEGORIES
          \<and> ((\<exists>i < length KEYWORD_CATEGORIES. fst (KEYWORD_CATEGORIES ! i) = c
                \<and> rx_search (snd (KEYWORD_CATEGORIES ! i)) (lower text)
                \<and> (\<forall>j < i. \<not> rx_search (snd (KEYWORD_CATEGORIES ! j)) (lower text)))
             \<or> (\<forall>(k, pattern) \<in> set KEYWORD_CATEGORIES. \<not> rx_search pattern (lower text))
                \<and> (\<exists>cwe \<in> set cwes. map_of CWE_CATEGORIES cwe = Some c)))"
proof (intro conjI)
  show "categorize (lower text) cwes = categorize text cwes" by (simp add: categorize_def)
  let ?hit = "\<lambda>(_, pattern). rx_search pattern (lower text)"
  let ?known = "\<lambda>cwe. map_of CWE_CATEGORIES cwe \<noteq> None"
  show "case categorize text cwes of
        None \<Rightarrow> (\<forall>(c, pattern) \<in> set KEYWORD_CATEGORIES. \<not> rx_search pattern (lower text))
                \<and> (\<forall>cwe \<in> set cwes. cwe \<notin> fst ` set CWE_CATEGORIES)
      | Some c \<Rightarrow> c \<in> fst ` set KEYWORD_CATEGORIES
          \<and> ((\<exists>i < length KEYWORD_CATEGORIES. fst (KEYWORD_CATEGORIES ! i) = c
                \<and> rx_search (snd (KEYWORD_CATEGORIES ! i)) (lower text)
                \<and> (\<forall>j < i. \<not> rx_search (snd (KEYWORD_CATEGORIES ! j)) (lower text)))
             \<or> (\<forall>(k, pattern) \<in> set KEYWORD_CATEGORIES. \<not> rx_search pattern (lower text))
                \<and> (\<exists>cwe \<in> set cwes. map_of CWE_CATEGORIES cwe = Some c))"
  proof (cases "find ?hit KEYWORD_CATEGORIES")
    case (Some p)
    then obtain i where i: "i < length KEYWORD_CATEGORIES" "KEYWORD_CATEGORIES ! i = p" "?hit p"
      "\<forall>j < i. \<not> ?hit (KEYWORD_CATEGORIES ! j)" by (auto simp: find_Some_iff)
    have "categorize text cwes = Some (fst p)"
      using Some by (simp add: categorize_def Let_def split: prod.split)
    moreover have "fst p \<in> fst ` set KEYWORD_CATEGORIES" using i(1,2) nth_mem by blast
    ultimately show ?thesis using i by (auto simp: split_beta)
  next
    case None
    then have none: "\<forall>(k, pattern) \<in> set KEYWORD_CATEGORIES. \<not> rx_search pattern (lower text)"
      by (auto simp: find_None_iff)
    show ?thesis
    proof (cases "find ?known cwes")
      case None2: None
      then have "\<forall>cwe \<in> set cwes. cwe \<notin> fst ` set CWE_CATEGORIES"
        by (auto simp: find_None_iff map_of_eq_None_iff)
      moreover have "categorize text cwes = None"
        using None None2 by (simp add: categorize_def Let_def)
      ultimately show ?thesis using none by simp
    next
      case (Some cwe)
      then have c: "cwe \<in> set cwes" "?known cwe" by (auto simp: find_Some_iff)
      then obtain v where v: "map_of CWE_CATEGORIES cwe = Some v" by blast
      have "snd (cwe, v) \<in> snd ` set CWE_CATEGORIES" using map_of_SomeD [OF v] by (rule imageI)
      then have "v \<in> fst ` set KEYWORD_CATEGORIES" using cwe_values by (simp only: snd_conv subset_iff)
      moreover have "categorize text cwes = Some v"
        using None Some v by (simp add: categorize_def Let_def)
      moreover have "\<exists>cwe \<in> set cwes. map_of CWE_CATEGORIES cwe = Some v" using c v by blast
      ultimately show ?thesis using none by (simp only: option.case) blast
    qed
  qed
qed

theorem categorize_priority_witness:
  "categorize ''python.lang.SQL-format'' [79] = Some ''sql-injection''
   \<and> categorize (lower ''python.lang.SQL-format'') [79] = Some ''sql-injection''
   \<and> ''sql-injection'' \<in> fst ` set KEYWORD_CATEGORIES"
proof -
  have c: "categorize ''python.lang.SQL-format'' [79] = Some ''sql-injection''" by code_simp
  show ?thesis using categorize_priority [of "''python.lang.SQL-format''" "[79]"]
    unfolding c option.case by blast
qed

text \<open>
  CWE ids are read back from the text tools print: a string with one tag, in any case
  of its letters, gives its number; and the ids of any input are listed once each, and are
  exactly those of its items.
\<close>

theorem parse_cwe_ids_reads:
  assumes "lower tag = ''cwe-''" and "\<forall>c \<in> set (take 1 rest). \<not> is_digit c" and "find_cwes rest = []"
  shows "parse_cwe_ids [Cwe_text (tag @ show_nat n @ rest)] = [int n]
    \<and> distinct (parse_cwe_ids items)
    \<and> set (parse_cwe_ids items) = (\<Union>item \<in> set items. set (cwes_of_item item))"
  using parse_cwe_ids_foldl [of "[]" items] find_cwes_number [OF assms(1,2), of n] assms(3)
  by (simp add: parse_cwe_ids_def cwes_of_item_def extend_ids_def)

theorem parse_cwe_ids_reads_witness:
  "parse_cwe_ids [Cwe_text (''Cwe-'' @ show_nat 89 @ '': SQL'')] = [89]"
proof -
  have "lower ''Cwe-'' = ''cwe-''" "\<forall>c \<in> set (take 1 '': SQL''). \<not> is_digit c"
    "find_cwes '': SQL'' = []" by code_simp+
  from parse_cwe_ids_reads [OF this, of 89 "[]"] show ?thesis by (simp only: of_nat_numeral)
qed

end
