(* ===== verification/Analyzers.thy ===== *)
theory Analyzers
  imports Findings PyStr
begin

text \<open>
  Running the analyzers: the registry (\<open>analyzers/registry.py\<close>), the interface of an
  analyzer and its result (\<open>analyzers/base.py\<close>), failure isolation and concurrent execution
  (\<open>analyzers/orchestrator.py\<close>).  An analyzer's \<open>run\<close> is code of its own: the model
  takes what it did, a returned result or the kind of exception it raised, as an argument.
  Threads appear as the order in which the analyzers finish.
\<close>

section \<open>Analyzers and results\<close>

record analyzer_class =
  an_name :: string
  an_display_name :: string
  an_languages :: "string list"
  an_phase :: nat
  an_experimental :: bool
  an_timeout :: nat

record 'artifact analyzer_result =
  res_analyzer :: string
  res_success :: bool
  res_findings :: "finding_data list"
  res_raw :: string
  res_duration_ms :: nat
  res_error :: "string option"
  res_warnings :: "string list"
  res_timed_out :: bool
  res_transient :: bool
  res_artifact :: "'artifact option"

definition applies_to :: "analyzer_class \<Rightarrow> string list \<Rightarrow> bool" where
  "applies_to a languages \<longleftrightarrow>
     an_languages a = [] \<or> (\<exists>l \<in> set (an_languages a). l \<in> set languages)"

section \<open>The registry\<close>

text \<open>\<open>register\<close>: \<open>Inl\<close> is the \<open>ValueError\<close> of a name already taken.\<close>

type_synonym registry = "(string, analyzer_class) dict"

definition register :: "registry \<Rightarrow> analyzer_class \<Rightarrow> string + registry" where
  "register reg a =
     (if an_name a \<in> fst ` set reg
      then Inl (''Analyzer '' @ an_name a @ '' is already registered.'')
      else Inr (reg @ [(an_name a, a)]))"

fun register_all :: "registry \<Rightarrow> analyzer_class list \<Rightarrow> string + registry" where
  "register_all reg [] = Inr reg"
| "register_all reg (a # rest) =
     (case register reg a of Inl e \<Rightarrow> Inl e | Inr reg' \<Rightarrow> register_all reg' rest)"

definition registry_iter :: "registry \<Rightarrow> analyzer_class list" where
  "registry_iter reg = map snd reg"

definition select :: "registry \<Rightarrow> string list \<Rightarrow> analyzer_class list \<times> analyzer_class list" where
  "select reg languages =
     (filter (\<lambda>a. applies_to a languages) (registry_iter reg),
      filter (\<lambda>a. \<not> applies_to a languages) (registry_iter reg))"

section \<open>One analyzer, whatever it does\<close>

text \<open>
  What \<open>analyzer.run\<close> did.  The constructors are in the order of the except clauses, the
  most specific first: a timeout is also an \<open>AnalysisError\<close>.
\<close>

datatype 'artifact run_outcome =
    Returned "'artifact analyzer_result"
  | Raised_timeout
  | Raised_transient string
  | Raised_analysis string
  | Raised_other

definition MAX_ERROR_MESSAGE_CHARS :: nat where
  "MAX_ERROR_MESSAGE_CHARS = 2000"

definition failed_result ::
    "analyzer_class \<Rightarrow> nat \<Rightarrow> string \<Rightarrow> bool \<Rightarrow> bool \<Rightarrow> 'artifact analyzer_result" where
  "failed_result a elapsed msg is_timeout is_transient =
     \<lparr>res_analyzer = an_name a, res_success = False, res_findings = [], res_raw = [],
      res_duration_ms = elapsed, res_error = Some (take MAX_ERROR_MESSAGE_CHARS msg),
      res_warnings = [], res_timed_out = is_timeout, res_transient = is_transient, res_artifact = None\<rparr>"

definition run_analyzer_safely ::
    "analyzer_class \<Rightarrow> 'artifact run_outcome \<Rightarrow> nat \<Rightarrow> 'artifact analyzer_result" where
  "run_analyzer_safely a outcome elapsed =
     (case outcome of
        Raised_timeout \<Rightarrow>
          failed_result a elapsed (an_display_name a @ '' timed out after ''
            @ show_nat (an_timeout a) @ ''s and was stopped.'') True False
      | Raised_transient e \<Rightarrow> failed_result a elapsed (an_display_name a @ '' could not run: '' @ e) False True
      | Raised_analysis e \<Rightarrow> failed_result a elapsed e False False
      | Raised_other \<Rightarrow> failed_result a elapsed (an_display_name a @ '' crashed with an internal error.'') False False
      | Returned result \<Rightarrow>
          let result = (if res_analyzer result \<noteq> an_name a then result\<lparr>res_analyzer := an_name a\<rparr> else result)
          in result\<lparr>res_duration_ms := elapsed\<rparr>)"

section \<open>All of them\<close>

text \<open>
  \<open>run_analyzers\<close>: \<open>completed\<close> is the order in which the futures complete,
  \<open>on_result\<close> the callback on the caller's state, and \<open>None\<close> the \<open>KeyError\<close> of a
  missing result.
\<close>

definition run_analyzers ::
    "(analyzer_class \<Rightarrow> 'artifact analyzer_result) \<Rightarrow> ('artifact analyzer_result \<Rightarrow> 's \<Rightarrow> 's)
     \<Rightarrow> analyzer_class list \<Rightarrow> analyzer_class list \<Rightarrow> 's \<Rightarrow> 'artifact analyzer_result list option \<times> 's" where
  "run_analyzers run on_result analyzers completed st =
     (if analyzers = [] then (Some [], st)
      else
        let (results, st) = foldl (\<lambda>(results, st) a.
              (results(an_name a \<mapsto> run a), on_result (run a) st)) (Map.empty, st) completed
        in (those (map (\<lambda>a. results (an_name a)) analyzers), st))"

section \<open>Lemmas\<close>

lemma register_all_ok:
  "distinct (map fst reg @ map an_name as) \<Longrightarrow>
   register_all reg as = Inr (reg @ map (\<lambda>a. (an_name a, a)) as)"
  by (induction reg as rule: register_all.induct) (force simp: register_def)+

lemma register_all_dup:
  "distinct (map fst reg) \<Longrightarrow> \<not> distinct (map fst reg @ map an_name as) \<Longrightarrow>
   \<exists>e. register_all reg as = Inl e"
proof (induction reg as rule: register_all.induct)
  case (2 reg a rest)
  show ?case
  proof (cases "an_name a \<in> fst ` set reg")
    case False
    then have r: "register reg a = Inr (reg @ [(an_name a, a)])" by (simp add: register_def)
    have "\<exists>e. register_all (reg @ [(an_name a, a)]) rest = Inl e"
      by (rule 2(1) [OF r]) (use 2(2,3) False in auto)
    then show ?thesis by (simp add: r)
  qed (simp add: register_def)
qed simp

lemma run_fold:
  "foldl (\<lambda>(results, st) a. (results(an_name a \<mapsto> run a), on_result (run a) st)) (m, st) completed
   = (foldl (\<lambda>m a. m(an_name a \<mapsto> run a)) m completed, foldl (\<lambda>st a. on_result (run a) st) st completed)"
  by (induction completed arbitrary: m st) simp_all

lemma run_fold_lookup:
  assumes "inj_on an_name (insert a (set completed))"
  shows "foldl (\<lambda>m a. m(an_name a \<mapsto> run a)) m completed (an_name a)
    = (if a \<in> set completed then Some (run a) else m (an_name a))"
  using assms by (induction completed arbitrary: m) (auto simp: inj_on_def)

lemma those_map_Some [simp]: "those (map (\<lambda>x. Some (f x)) xs) = Some (map f xs)"
  by (induction xs) simp_all

lemma run_analyzers_results:
  assumes "distinct (map an_name analyzers)" and "mset completed = mset analyzers"
  shows "run_analyzers run on_result analyzers completed st
    = (Some (map run analyzers), foldl (\<lambda>st a. on_result (run a) st) st completed)"
proof (cases "analyzers = []")
  case True
  then show ?thesis using assms by (simp add: run_analyzers_def)
next
  case False
  have sets: "set completed = set analyzers" using assms(2) by (metis set_mset_mset)
  have "inj_on an_name (set analyzers)" using assms(1) by (simp add: distinct_map)
  then have "foldl (\<lambda>m a. m(an_name a \<mapsto> run a)) Map.empty completed (an_name a) = Some (run a)"
    if "a \<in> set analyzers" for a
    using run_fold_lookup [of a completed run Map.empty] sets that by (simp add: insert_absorb)
  then have "map (\<lambda>a. foldl (\<lambda>m a. m(an_name a \<mapsto> run a)) Map.empty completed (an_name a)) analyzers
      = map (\<lambda>a. Some (run a)) analyzers" by simp
  then show ?thesis using False
    by (simp only: run_analyzers_def run_fold Let_def prod.case if_False those_map_Some)
qed

lemma run_analyzer_safely_fields:
  "res_analyzer (run_analyzer_safely a outcome elapsed) = an_name a"
  "res_duration_ms (run_analyzer_safely a outcome elapsed) = elapsed"
  by (cases outcome; simp add: run_analyzer_safely_def failed_result_def Let_def)+

end
