(* ===== verification/Pipeline.thy ===== *)
theory Pipeline
  imports Analyzers Dedup Score_Service
begin

text \<open>
  One scan, from the selected analyzers to the stored result (\<open>services/scan_pipeline.py\<close>:
  \<open>analyze_and_persist\<close>, \<open>store_signals\<close>, \<open>persist_results\<close>; the statuses of
  \<open>models/scan.py\<close> and the fingerprint of \<open>models/finding.py\<close>).  The analyzers' own
  work, the order in which they finish, the snippets read from the source tree, SHA-256 and the
  reason why the LLM stage is off are arguments, the record \<open>pipeline_env\<close>.  Timestamps,
  metrics and log lines are left out, and so is the import graph's own table.
\<close>

section \<open>Statuses\<close>

datatype scan_status = QUEUED | RUNNING | ANALYSIS_COMPLETE | ENRICHING | COMPLETED | PARTIAL | FAILED

datatype enrichment_status = E_PENDING | E_RUNNING | E_COMPLETED | E_PARTIAL | E_FAILED | E_SKIPPED

section \<open>Artifacts and signals\<close>

text \<open>\<open>SignalReport\<close> with its name, and the two numbers read from an architecture report.\<close>

record named_signal =
  ns_name :: string
  ns_report :: signal_report

datatype artifact = Architecture summary_row | Signal named_signal | Other_artifact

definition EXPERIMENTAL_ADVISORY :: string where
  "EXPERIMENTAL_ADVISORY = ''advisory''"

text \<open>\<open>SignalReport.as_dict\<close>: scores are stored with four decimals.\<close>

definition as_dict :: "signal_report \<Rightarrow> signal_report" where
  "as_dict r = r\<lparr>sig_score := map_option (py_round 4) (sig_score r),
                 sig_components := (\<lambda>k. map_option (map_option (py_round 4)) (sig_components r k))\<rparr>"

definition not_applicable :: "string \<Rightarrow> string \<Rightarrow> named_signal" where
  "not_applicable name reason =
     \<lparr>ns_name = name, ns_report = \<lparr>sig_applicable = False, sig_score = None,
        sig_components = Map.empty, sig_reason = Some reason\<rparr>\<rparr>"

section \<open>The scan as the pipeline stores it\<close>

record pl_run =
  pl_run_status :: run_status
  pl_run_error :: "string option"
  pl_finding_count :: "nat option"
  pl_duration_ms :: "nat option"
  pl_warnings :: "string list"

record pl_finding =
  plf_data :: finding_data
  plf_score_impact :: "real option"
  plf_fingerprint :: string

record pl_scan =
  pl_status :: scan_status
  pl_source_loc :: "nat option"
  pl_runs :: "string \<rightharpoonup> pl_run"
  pl_signal_metrics :: "(string \<rightharpoonup> signal_report) option"
  pl_advisory_metrics :: "signal_report option"
  pl_analysis_partial :: bool
  pl_enrichment_status :: "enrichment_status option"
  pl_enrichment_error :: "string option"
  pl_findings :: "pl_finding list"
  pl_score :: "score_report option"
  pl_error_message :: "string option"

datatype pl_error = Transient_error string | Analysis_error string | Key_error

record pl_outcome =
  out_status :: scan_status
  findings_before_dedup :: nat
  findings_after_dedup :: nat
  out_results :: "artifact analyzer_result list"

record pipeline_env =
  env_registry :: registry
  env_languages :: "string list"
  env_run :: "(string \<rightharpoonup> artifact analyzer_result) \<Rightarrow> analyzer_class \<Rightarrow> artifact run_outcome"
  env_elapsed :: "analyzer_class \<Rightarrow> nat"
  env_order :: "analyzer_class list \<Rightarrow> analyzer_class list"
  env_fill_snippets :: "finding_data list \<Rightarrow> finding_data list"
  env_sha256 :: "string \<Rightarrow> string"
  env_llm_skip :: "string option"
  env_settings :: score_settings

section \<open>Running and recording\<close>

definition skipped_run :: "analyzer_class \<Rightarrow> pl_run" where
  "skipped_run a = \<lparr>pl_run_status = RUN_SKIPPED,
     pl_run_error = Some (''Not applicable: no '' @ join '', '' (sort (remdups (an_languages a)))
                          @ '' code detected.''),
     pl_finding_count = None, pl_duration_ms = None, pl_warnings = []\<rparr>"

definition started_run :: pl_run where
  "started_run = \<lparr>pl_run_status = RUN_RUNNING, pl_run_error = None, pl_finding_count = None,
     pl_duration_ms = None, pl_warnings = []\<rparr>"

definition initial_runs :: "analyzer_class list \<Rightarrow> analyzer_class list \<Rightarrow> (string \<rightharpoonup> pl_run)" where
  "initial_runs applicable inapplicable =
     foldl (\<lambda>m a. m(an_name a \<mapsto> started_run))
       (foldl (\<lambda>m a. m(an_name a \<mapsto> skipped_run a)) Map.empty inapplicable) applicable"

text \<open>\<open>record\<close>; \<open>None\<close> is the \<open>KeyError\<close> of a result without a run.\<close>

definition finished_run :: "artifact analyzer_result \<Rightarrow> pl_run \<Rightarrow> pl_run" where
  "finished_run r run =
     (if res_success r
      then run\<lparr>pl_run_status := RUN_COMPLETED, pl_finding_count := Some (length (res_findings r))\<rparr>
      else run\<lparr>pl_run_status := (if res_timed_out r then RUN_TIMED_OUT else RUN_FAILED)\<rparr>)
     \<lparr>pl_duration_ms := Some (res_duration_ms r), pl_run_error := res_error r,
      pl_warnings := res_warnings r\<rparr>"

definition record_result ::
    "artifact analyzer_result \<Rightarrow> (string \<rightharpoonup> pl_run) option \<Rightarrow> (string \<rightharpoonup> pl_run) option" where
  "record_result r runs =
     (case runs of None \<Rightarrow> None
      | Some m \<Rightarrow> (case m (res_analyzer r) of None \<Rightarrow> None
                   | Some run \<Rightarrow> Some (m(res_analyzer r \<mapsto> finished_run r run))))"

definition run_phase ::
    "pipeline_env \<Rightarrow> (string \<rightharpoonup> artifact analyzer_result) \<Rightarrow> analyzer_class list
     \<Rightarrow> (string \<rightharpoonup> pl_run) option \<Rightarrow> artifact analyzer_result list option \<times> (string \<rightharpoonup> pl_run) option" where
  "run_phase env prior as runs =
     run_analyzers (\<lambda>a. run_analyzer_safely a (env_run env prior a) (env_elapsed env a))
       record_result as (env_order env as) runs"

definition prior_results ::
    "artifact analyzer_result list \<Rightarrow> (string \<rightharpoonup> artifact analyzer_result)" where
  "prior_results results =
     foldl (\<lambda>m r. if res_success r then m(res_analyzer r \<mapsto> r) else m) Map.empty results"

section \<open>Signals\<close>

definition result_signal :: "artifact analyzer_result \<Rightarrow> named_signal" where
  "result_signal r =
     (case res_artifact r of
        Some (Signal s) \<Rightarrow> s
      | _ \<Rightarrow> not_applicable (res_analyzer r)
               (case res_error r of
                  None \<Rightarrow> ''the analyzer produced no report''
                | Some e \<Rightarrow> if e = [] then ''the analyzer produced no report'' else e))"

definition store_signals :: "pl_scan \<Rightarrow> artifact analyzer_result list \<Rightarrow> pl_scan" where
  "store_signals scan results =
     (let (sigs, advisory) = foldl (\<lambda>(sigs, advisory) r.
            let s = result_signal r
            in if ns_name s = EXPERIMENTAL_ADVISORY then (sigs, Some (as_dict (ns_report s)))
               else (sigs(ns_name s \<mapsto> as_dict (ns_report s)), advisory)) (Map.empty, None) results
      in scan\<lparr>pl_signal_metrics := (if \<forall>r \<in> set results. ns_name (result_signal r) = EXPERIMENTAL_ADVISORY
                                     then None else Some sigs),
              pl_advisory_metrics := advisory\<rparr>)"

section \<open>Persisting\<close>

text \<open>\<open>finding_fingerprint\<close>, with \<open>sha256(...).hexdigest()\<close> as an argument.\<close>

definition finding_fingerprint :: "(string \<Rightarrow> string) \<Rightarrow> finding_data \<Rightarrow> string" where
  "finding_fingerprint sha256 f =
     sha256 (join ''|'' [analyzer f, rule_id f, file_path f, show_int (start_line f),
       show_int (end_line f), message f,
       (case Option.bind (dependency f) dep_package of None \<Rightarrow> [] | Some p \<Rightarrow> p),
       (case Option.bind (dependency f) dep_version of None \<Rightarrow> [] | Some v \<Rightarrow> v)])"

definition scorable_row :: "nat \<Rightarrow> finding_data \<Rightarrow> scorable" where
  "scorable_row i f = \<lparr>sf_id = int i, sf_analyzer = analyzer f, sf_rule_id = rule_id f,
     sf_severity = sev f, sf_file_path = file_path f, sf_corroborated_by = corroborated_by f\<rparr>"

definition stored_category :: "finding_data \<Rightarrow> finding_data" where
  "stored_category f =
     f\<lparr>category := (case category f of None \<Rightarrow> None | Some c \<Rightarrow> if c = [] then None else Some (take 512 c))\<rparr>"

text \<open>One row of the insert, dropped when its fingerprint is already there.\<close>

definition insert_finding ::
    "pipeline_env \<Rightarrow> (int \<rightharpoonup> real) \<Rightarrow> pl_finding list \<Rightarrow> nat \<times> finding_data \<Rightarrow> pl_finding list" where
  "insert_finding env impacts rows = (\<lambda>(i, f).
     let fp = finding_fingerprint (env_sha256 env) f
     in if fp \<in> plf_fingerprint ` set rows then rows
        else rows @ [\<lparr>plf_data = stored_category f, plf_score_impact = impacts (int i),
                      plf_fingerprint = fp\<rparr>])"

definition persist_results ::
    "pipeline_env \<Rightarrow> pl_scan \<Rightarrow> finding_data list \<Rightarrow> scan_status \<Rightarrow> score_context \<Rightarrow> pl_scan option" where
  "persist_results env scan unique status ctx =
     (let rows = map (\<lambda>(i, f). scorable_row i f) (enumerate 0 unique);
          c = rubric_config_of (env_settings env)
      in case finding_impacts rows ctx c of
           None \<Rightarrow> None
         | Some impacts \<Rightarrow>
             Some (scan\<lparr>pl_score := Some (score rows ctx [] c),
               pl_findings := foldl (insert_finding env impacts) [] (enumerate 0 unique),
               pl_status := status, pl_error_message := None\<rparr>))"

section \<open>The pipeline\<close>

definition error_text :: "artifact analyzer_result \<Rightarrow> string" where
  "error_text r = (case res_error r of None \<Rightarrow> ''None'' | Some e \<Rightarrow> e)"

text \<open>\<open>next((r.artifact for r in succeeded if isinstance(r.artifact, ArchitectureReport)), None)\<close>.\<close>

definition architecture_of :: "artifact analyzer_result list \<Rightarrow> summary_row option" where
  "architecture_of results =
     (case List.map_filter (\<lambda>r. case res_artifact r of Some (Architecture s) \<Rightarrow> Some s | _ \<Rightarrow> None) results of
        [] \<Rightarrow> None | s # _ \<Rightarrow> Some s)"

definition summary_number :: "(summary_row \<Rightarrow> nat option) \<Rightarrow> summary_row option \<Rightarrow> nat" where
  "summary_number field s = (case Option.bind s field of None \<Rightarrow> 0 | Some n \<Rightarrow> n)"

definition pipeline_context ::
    "pl_scan \<Rightarrow> artifact analyzer_result list \<Rightarrow> artifact analyzer_result list \<Rightarrow> score_context" where
  "pipeline_context scan succeeded failed =
     \<lparr>source_loc = nat_or (pl_source_loc scan) (summary_number sm_total_loc (architecture_of succeeded)),
      module_count = summary_number sm_node_count (architecture_of succeeded),
      analyzers_run = map res_analyzer succeeded, analyzers_failed = map res_analyzer failed,
      signals = (case pl_signal_metrics scan of None \<Rightarrow> Map.empty | Some m \<Rightarrow> m)\<rparr>"

text \<open>What happens once every analyzer has reported.\<close>

definition conclude ::
    "pipeline_env \<Rightarrow> analyzer_class list \<Rightarrow> artifact analyzer_result list \<Rightarrow> pl_scan
     \<Rightarrow> (pl_error + pl_outcome) \<times> pl_scan" where
  "conclude env applicable results scan =
     (let exp_names = map an_name (filter an_experimental applicable);
          signal_results = filter (\<lambda>r. res_analyzer r \<in> set exp_names) results;
          results = filter (\<lambda>r. res_analyzer r \<notin> set exp_names) results;
          scan = store_signals scan signal_results;
          succeeded = filter res_success results;
          failed = filter (\<lambda>r. \<not> res_success r) results;
          reasons = join ''; '' (map error_text failed)
      in if applicable \<noteq> [] \<and> succeeded = [] then
           (Inl (if \<exists>r \<in> set failed. res_transient r
                 then Transient_error (''No analyzer could run: '' @ reasons)
                 else Analysis_error (''Every analyzer failed: '' @ reasons)), scan)
         else
           let signal_findings = concat (map res_findings (filter res_success signal_results));
               fs = env_fill_snippets env (concat (map res_findings succeeded) @ signal_findings);
               unique = deduplicate fs;
               status = (if failed \<noteq> [] then PARTIAL else COMPLETED);
               scan = scan\<lparr>pl_analysis_partial := (failed \<noteq> []),
                  pl_enrichment_status := Some (if env_llm_skip env \<noteq> None then E_SKIPPED else E_PENDING),
                  pl_enrichment_error := env_llm_skip env\<rparr>;
               stored_status = (if env_llm_skip env \<noteq> None then status else ANALYSIS_COMPLETE)
           in (case persist_results env scan unique stored_status
                      (pipeline_context scan succeeded failed) of
                 None \<Rightarrow> (Inl Key_error, scan)
               | Some scan \<Rightarrow>
                   (Inr \<lparr>out_status = status, findings_before_dedup = length fs,
                         findings_after_dedup = length unique, out_results = results\<rparr>, scan)))"

definition analyze_and_persist :: "pipeline_env \<Rightarrow> pl_scan \<Rightarrow> (pl_error + pl_outcome) \<times> pl_scan" where
  "analyze_and_persist env scan =
     (let (applicable, inapplicable) = select (env_registry env) (env_languages env);
          started = initial_runs applicable inapplicable;
          first = filter (\<lambda>a. an_phase a = 1) applicable;
          second = filter (\<lambda>a. an_phase a \<noteq> 1) applicable
      in case run_phase env Map.empty first (Some started) of
           (Some results, Some runs) \<Rightarrow>
             (case (if second = [] then (Some [], Some runs)
                    else run_phase env (prior_results results) second (Some runs)) of
                (Some results2, Some runs) \<Rightarrow>
                  conclude env applicable (results @ results2) (scan\<lparr>pl_runs := runs\<rparr>)
              | _ \<Rightarrow> (Inl Key_error, scan\<lparr>pl_runs := started\<rparr>))
         | _ \<Rightarrow> (Inl Key_error, scan\<lparr>pl_runs := started\<rparr>))"

end
