(* ===== verification/Pipeline_Props.thy ===== *)
theory Pipeline_Props
  imports Pipeline Score_Service_Props
begin

text \<open>
  Correctness of the pipeline: it never trips over its own bookkeeping, its result does not
  depend on the order in which analyzers finish, and its status, runs, findings and score are
  what the results say.
\<close>

section \<open>Recording runs\<close>

definition env_result ::
    "pipeline_env \<Rightarrow> (string \<rightharpoonup> artifact analyzer_result) \<Rightarrow> analyzer_class \<Rightarrow> artifact analyzer_result" where
  "env_result env prior a = run_analyzer_safely a (env_run env prior a) (env_elapsed env a)"

lemma res_analyzer_env [simp]: "res_analyzer (env_result env prior a) = an_name a"
  by (simp add: env_result_def run_analyzer_safely_fields)

definition record_all ::
    "(analyzer_class \<Rightarrow> artifact analyzer_result) \<Rightarrow> analyzer_class list \<Rightarrow> (string \<rightharpoonup> pl_run) \<Rightarrow> (string \<rightharpoonup> pl_run)" where
  "record_all run as m n =
     (case find (\<lambda>a. an_name a = n) as of
        None \<Rightarrow> m n | Some a \<Rightarrow> map_option (finished_run (run a)) (m n))"

lemma find_name:
  "distinct (map an_name as) \<Longrightarrow> a \<in> set as \<Longrightarrow> find (\<lambda>b. an_name b = an_name a) as = Some a"
  by (induction as) auto

lemma find_name_None: "n \<notin> an_name ` set as \<Longrightarrow> find (\<lambda>b. an_name b = n) as = None"
  by (auto simp: find_None_iff)

lemma record_fold:
  assumes "\<And>a. res_analyzer (run a) = an_name a"
  shows "distinct (map an_name as) \<Longrightarrow> an_name ` set as \<subseteq> dom m \<Longrightarrow>
    foldl (\<lambda>st a. record_result (run a) st) (Some m) as = Some (record_all run as m)"
proof (induction as arbitrary: m)
  case Nil
  then show ?case by (simp add: record_all_def fun_eq_iff)
next
  case (Cons a as)
  then obtain r where r: "m (an_name a) = Some r" by auto
  let ?m = "m(an_name a \<mapsto> finished_run (run a) r)"
  have "foldl (\<lambda>st a. record_result (run a) st) (Some ?m) as = Some (record_all run as ?m)"
    using Cons.prems by (intro Cons.IH) auto
  moreover have "record_all run as ?m = record_all run (a # as) m"
  proof
    fix n
    show "record_all run as ?m n = record_all run (a # as) m n"
    proof (cases "n = an_name a")
      case True
      then have "find (\<lambda>b. an_name b = n) as = None" using Cons.prems by (intro find_name_None) auto
      then show ?thesis using True r by (simp add: record_all_def)
    next
      case False
      then show ?thesis by (simp add: record_all_def split: option.split)
    qed
  qed
  ultimately show ?case by (simp add: record_result_def assms r)
qed

lemma record_all_perm:
  assumes "distinct (map an_name as)" and "mset bs = mset as"
  shows "record_all run bs m = record_all run as m"
proof
  fix n
  have sets: "set bs = set as" using assms(2) by (metis set_mset_mset)
  have d: "distinct (map an_name bs)"
    using assms by (metis mset_map mset_eq_imp_distinct_iff)
  show "record_all run bs m n = record_all run as m n"
  proof (cases "n \<in> an_name ` set as")
    case True
    then obtain a where "a \<in> set as" "n = an_name a" by auto
    then show ?thesis using find_name [OF assms(1), of a] find_name [OF d, of a] sets
      by (simp add: record_all_def)
  next
    case False
    then show ?thesis using sets by (simp add: record_all_def find_name_None)
  qed
qed

lemma run_phase_closed:
  assumes "distinct (map an_name as)" and "mset (env_order env as) = mset as"
    and "an_name ` set as \<subseteq> dom m"
  shows "run_phase env prior as (Some m)
    = (Some (map (env_result env prior) as), Some (record_all (env_result env prior) as m))"
proof -
  have sets: "set (env_order env as) = set as" using assms(2) by (metis set_mset_mset)
  have d: "distinct (map an_name (env_order env as))"
    using assms(1,2) by (metis mset_map mset_eq_imp_distinct_iff)
  have "foldl (\<lambda>st a. record_result (env_result env prior a) st) (Some m) (env_order env as)
      = Some (record_all (env_result env prior) as m)"
    using record_fold [of "env_result env prior", OF _ d, of m] assms sets
      record_all_perm [OF assms(1,2)] by simp
  moreover have "env_result env prior
      = (\<lambda>a. run_analyzer_safely a (env_run env prior a) (env_elapsed env a))"
    by (simp add: env_result_def fun_eq_iff)
  ultimately show ?thesis
    using run_analyzers_results [OF assms(1,2), of "env_result env prior" record_result "Some m"]
    by (simp add: run_phase_def)
qed

section \<open>The closed form of the pipeline\<close>

definition applicable_of :: "pipeline_env \<Rightarrow> analyzer_class list" where
  "applicable_of env = filter (\<lambda>a. applies_to a (env_languages env)) (registry_iter (env_registry env))"

definition inapplicable_of :: "pipeline_env \<Rightarrow> analyzer_class list" where
  "inapplicable_of env = filter (\<lambda>a. \<not> applies_to a (env_languages env)) (registry_iter (env_registry env))"

definition phase1 :: "pipeline_env \<Rightarrow> analyzer_class list" where
  "phase1 env = filter (\<lambda>a. an_phase a = 1) (applicable_of env)"

definition phase2 :: "pipeline_env \<Rightarrow> analyzer_class list" where
  "phase2 env = filter (\<lambda>a. an_phase a \<noteq> 1) (applicable_of env)"

text \<open>The result of an applicable analyzer: phase 2 sees the successful results of phase 1.\<close>

definition result_of :: "pipeline_env \<Rightarrow> analyzer_class \<Rightarrow> artifact analyzer_result" where
  "result_of env a =
     env_result env (if an_phase a = 1 then Map.empty
                     else prior_results (map (env_result env Map.empty) (phase1 env))) a"

definition final_runs :: "pipeline_env \<Rightarrow> (string \<rightharpoonup> pl_run)" where
  "final_runs env = record_all (result_of env) (phase2 env)
     (record_all (result_of env) (phase1 env) (initial_runs (applicable_of env) (inapplicable_of env)))"

text \<open>What the pipeline relies on: a registry without duplicates, and every future completing.\<close>

definition env_ok :: "pipeline_env \<Rightarrow> bool" where
  "env_ok env \<longleftrightarrow> distinct (map an_name (registry_iter (env_registry env)))
     \<and> mset (env_order env (phase1 env)) = mset (phase1 env)
     \<and> mset (env_order env (phase2 env)) = mset (phase2 env)"

lemma initial_fold:
  "foldl (\<lambda>m a. m(an_name a \<mapsto> f a)) m as n =
     (case find (\<lambda>a. an_name a = n) (rev as) of None \<Rightarrow> m n | Some a \<Rightarrow> Some (f a))"
  by (induction as arbitrary: m rule: rev_induct) auto

lemma dom_initial: "dom (initial_runs applicable unfit) = an_name ` set applicable \<union> an_name ` set unfit"
proof -
  have "dom (foldl (\<lambda>m a. m(an_name a \<mapsto> f a)) m as) = dom m \<union> an_name ` set as"
    for f :: "analyzer_class \<Rightarrow> pl_run" and m as
    by (induction as arbitrary: m) auto
  then show ?thesis by (auto simp: initial_runs_def)
qed

lemma dom_record_all: "dom (record_all run as m) = dom m"
  by (auto simp: record_all_def dom_def split: option.splits)

lemma record_all_cong: "(\<And>a. a \<in> set as \<Longrightarrow> f a = g a) \<Longrightarrow> record_all f as m = record_all g as m"
proof
  fix n assume fg: "\<And>a. a \<in> set as \<Longrightarrow> f a = g a"
  show "record_all f as m n = record_all g as m n"
  proof (cases "find (\<lambda>a. an_name a = n) as")
    case (Some a)
    then have "a \<in> set as" by (auto simp: find_Some_iff)
    then show ?thesis using Some fg by (simp add: record_all_def)
  qed (simp add: record_all_def)
qed

lemma phases_distinct:
  assumes "env_ok env"
  shows "distinct (map an_name (applicable_of env))" "distinct (map an_name (phase1 env))"
    "distinct (map an_name (phase2 env))"
  using assms by (auto simp: env_ok_def applicable_of_def phase1_def phase2_def distinct_map
      intro: distinct_filter inj_on_subset)

lemma analyze_unfold:
  "analyze_and_persist env scan =
    (case run_phase env Map.empty (phase1 env) (Some (initial_runs (applicable_of env) (inapplicable_of env))) of
       (Some results, Some runs) \<Rightarrow>
         (case (if phase2 env = [] then (Some [], Some runs)
                else run_phase env (prior_results results) (phase2 env) (Some runs)) of
            (Some results2, Some runs) \<Rightarrow>
              conclude env (applicable_of env) (results @ results2) (scan\<lparr>pl_runs := runs\<rparr>)
          | _ \<Rightarrow> (Inl Key_error, scan\<lparr>pl_runs := initial_runs (applicable_of env) (inapplicable_of env)\<rparr>))
     | _ \<Rightarrow> (Inl Key_error, scan\<lparr>pl_runs := initial_runs (applicable_of env) (inapplicable_of env)\<rparr>))"
  unfolding analyze_and_persist_def select_def Let_def applicable_of_def inapplicable_of_def
    phase1_def phase2_def prod.case by (rule refl)

lemma analyze_closed:
  assumes "env_ok env"
  shows "analyze_and_persist env scan =
    conclude env (applicable_of env) (map (result_of env) (phase1 env @ phase2 env))
      (scan\<lparr>pl_runs := final_runs env\<rparr>)"
proof -
  let ?m = "initial_runs (applicable_of env) (inapplicable_of env)"
  let ?r1 = "env_result env Map.empty"
  let ?r2 = "env_result env (prior_results (map ?r1 (phase1 env)))"
  note d = phases_distinct [OF assms]
  have o: "mset (env_order env (phase1 env)) = mset (phase1 env)"
    "mset (env_order env (phase2 env)) = mset (phase2 env)" using assms by (simp_all add: env_ok_def)
  have one: "run_phase env Map.empty (phase1 env) (Some ?m)
      = (Some (map ?r1 (phase1 env)), Some (record_all ?r1 (phase1 env) ?m))"
    by (rule run_phase_closed [OF d(2) o(1)]) (auto simp: dom_initial phase1_def)
  have two: "run_phase env (prior_results (map ?r1 (phase1 env))) (phase2 env)
        (Some (record_all ?r1 (phase1 env) ?m))
      = (Some (map ?r2 (phase2 env)), Some (record_all ?r2 (phase2 env) (record_all ?r1 (phase1 env) ?m)))"
    by (rule run_phase_closed [OF d(3) o(2)]) (auto simp: dom_record_all dom_initial phase2_def)
  have r: "map ?r1 (phase1 env) = map (result_of env) (phase1 env)"
    "map ?r2 (phase2 env) = map (result_of env) (phase2 env)"
    "record_all ?r1 (phase1 env) m = record_all (result_of env) (phase1 env) m"
    "record_all ?r2 (phase2 env) m = record_all (result_of env) (phase2 env) m" for m
    by (auto simp: result_of_def phase1_def phase2_def intro!: record_all_cong)
  note one = one [unfolded r] and two = two [unfolded r] and later = r(2,4) [unfolded r(1)]
  show ?thesis
  proof (cases "phase2 env = []")
    case True
    then have "final_runs env = record_all (result_of env) (phase1 env) ?m"
      by (simp add: final_runs_def record_all_def fun_eq_iff)
    then show ?thesis by (simp add: analyze_unfold one True)
  next
    case False
    then show ?thesis by (simp add: analyze_unfold one two later final_runs_def)
  qed
qed

section \<open>Storing\<close>

lemma insert_fold:
  fixes env imp
  defines "fp \<equiv> finding_fingerprint (env_sha256 env)"
  shows "distinct (map plf_fingerprint rows) \<Longrightarrow>
    distinct (map plf_fingerprint (foldl (insert_finding env imp) rows xs))
    \<and> plf_fingerprint ` set (foldl (insert_finding env imp) rows xs)
        = plf_fingerprint ` set rows \<union> fp ` snd ` set xs
    \<and> (\<forall>r \<in> set (foldl (insert_finding env imp) rows xs). r \<in> set rows
         \<or> (\<exists>(i, f) \<in> set xs. r = \<lparr>plf_data = stored_category f, plf_score_impact = imp (int i),
                                     plf_fingerprint = fp f\<rparr>))"
proof (induction xs arbitrary: rows)
  case (Cons x xs)
  obtain i f where x: "x = (i, f)" by (cases x)
  let ?rows = "insert_finding env imp rows x"
  have d: "distinct (map plf_fingerprint ?rows)"
    using Cons.prems by (auto simp: x insert_finding_def Let_def)
  have keys: "plf_fingerprint ` set ?rows = insert (fp f) (plf_fingerprint ` set rows)"
    by (auto simp: x insert_finding_def Let_def fp_def)
  have new: "r \<in> set rows \<or> r = \<lparr>plf_data = stored_category f, plf_score_impact = imp (int i),
      plf_fingerprint = fp f\<rparr>" if "r \<in> set ?rows" for r
    using that by (auto simp: x insert_finding_def Let_def fp_def split: if_splits)
  note IH = Cons.IH [OF d]
  let ?final = "foldl (insert_finding env imp) ?rows xs"
  have "r \<in> set rows \<or> (\<exists>(i, f) \<in> set (x # xs). r = \<lparr>plf_data = stored_category f,
      plf_score_impact = imp (int i), plf_fingerprint = fp f\<rparr>)" if "r \<in> set ?final" for r
  proof -
    from IH that have "r \<in> set ?rows \<or> (\<exists>(i, f) \<in> set xs. r = \<lparr>plf_data = stored_category f,
      plf_score_impact = imp (int i), plf_fingerprint = fp f\<rparr>)" by blast
    then show ?thesis
    proof
      assume "r \<in> set ?rows"
      from new [OF this] show ?thesis by (simp add: x) blast
    qed auto
  qed
  moreover have "plf_fingerprint ` set ?final = plf_fingerprint ` set rows \<union> fp ` snd ` set (x # xs)"
    using IH keys by (simp add: x)
  ultimately show ?case using IH by simp
qed simp

definition unique_rows :: "finding_data list \<Rightarrow> scorable list" where
  "unique_rows fs = map (\<lambda>(i, f). scorable_row i f) (enumerate 0 fs)"

lemma unique_rows_ids: "map sf_id (unique_rows fs) = map int [0..<length fs]"
  by (rule nth_equalityI) (simp_all add: unique_rows_def nth_enumerate_eq scorable_row_def)

lemma unique_rows_distinct: "distinct (map sf_id (unique_rows fs))"
  by (simp add: unique_rows_ids distinct_map inj_on_def)

lemma store_signals_other [simp]:
  "pl_runs (store_signals scan rs) = pl_runs scan" "pl_status (store_signals scan rs) = pl_status scan"
  "pl_findings (store_signals scan rs) = pl_findings scan" "pl_score (store_signals scan rs) = pl_score scan"
  "pl_source_loc (store_signals scan rs) = pl_source_loc scan"
  by (simp_all add: store_signals_def Let_def split: prod.split)

lemma persist_results_some:
  obtains imp where "persist_results env scan fs st ctx = Some (scan\<lparr>
      pl_score := Some (score (unique_rows fs) ctx [] (rubric_config_of (env_settings env))),
      pl_findings := foldl (insert_finding env imp) [] (enumerate 0 fs),
      pl_status := st, pl_error_message := None\<rparr>)"
    and "finding_impacts (unique_rows fs) ctx (rubric_config_of (env_settings env)) = Some imp"
  using finding_impacts_some [OF unique_rows_distinct, of fs ctx "rubric_config_of (env_settings env)"]
  by (auto simp: persist_results_def unique_rows_def)

section \<open>The core results\<close>

text \<open>The results that decide the status: those of the applicable analyzers that are not experimental.\<close>

definition core_results :: "pipeline_env \<Rightarrow> artifact analyzer_result list" where
  "core_results env = map (result_of env) (filter (\<lambda>a. \<not> an_experimental a) (phase1 env @ phase2 env))"

definition signal_results_of :: "pipeline_env \<Rightarrow> artifact analyzer_result list" where
  "signal_results_of env = map (result_of env) (filter an_experimental (phase1 env @ phase2 env))"

lemma result_of_analyzer [simp]: "res_analyzer (result_of env a) = an_name a"
  by (simp add: result_of_def)

lemma split_experimental:
  assumes "env_ok env"
  shows "filter (\<lambda>r. res_analyzer r \<notin> set (map an_name (filter an_experimental (applicable_of env))))
           (map (result_of env) (phase1 env @ phase2 env)) = core_results env"
    and "filter (\<lambda>r. res_analyzer r \<in> set (map an_name (filter an_experimental (applicable_of env))))
           (map (result_of env) (phase1 env @ phase2 env)) = signal_results_of env"
proof -
  have inj: "inj_on an_name (set (applicable_of env))"
    using phases_distinct(1) [OF assms] by (simp add: distinct_map)
  have sub: "set (phase1 env @ phase2 env) \<subseteq> set (applicable_of env)"
    by (auto simp: phase1_def phase2_def)
  let ?names = "set (map an_name (filter an_experimental (applicable_of env)))"
  have mem: "an_name a \<in> ?names \<longleftrightarrow> an_experimental a" if "a \<in> set (phase1 env @ phase2 env)" for a
  proof -
    have a: "a \<in> set (applicable_of env)" using that sub by blast
    then have "an_name a = an_name b \<Longrightarrow> b \<in> set (applicable_of env) \<Longrightarrow> a = b" for b
      using inj by (auto dest: inj_onD)
    then show ?thesis using a by auto
  qed
  have f1: "filter (\<lambda>a. an_name a \<notin> ?names) (phase1 env @ phase2 env)
      = filter (\<lambda>a. \<not> an_experimental a) (phase1 env @ phase2 env)"
    by (rule filter_cong [OF refl]) (simp only: mem)
  have f2: "filter (\<lambda>a. an_name a \<in> ?names) (phase1 env @ phase2 env)
      = filter an_experimental (phase1 env @ phase2 env)"
    by (rule filter_cong [OF refl]) (simp only: mem)
  show "filter (\<lambda>r. res_analyzer r \<notin> ?names) (map (result_of env) (phase1 env @ phase2 env)) = core_results env"
    unfolding core_results_def filter_map comp_def result_of_analyzer f1 ..
  show "filter (\<lambda>r. res_analyzer r \<in> ?names) (map (result_of env) (phase1 env @ phase2 env)) = signal_results_of env"
    unfolding signal_results_of_def filter_map comp_def result_of_analyzer f2 ..
qed

text \<open>The findings that go into deduplication.\<close>

definition reported_findings :: "pipeline_env \<Rightarrow> finding_data list" where
  "reported_findings env = env_fill_snippets env
     (concat (map res_findings (filter res_success (core_results env)))
      @ concat (map res_findings (filter res_success (signal_results_of env))))"

lemma conclude_closed:
  assumes "env_ok env"
  shows "conclude env (applicable_of env) (map (result_of env) (phase1 env @ phase2 env)) scan =
    (let scan = store_signals scan (signal_results_of env);
         succeeded = filter res_success (core_results env);
         failed = filter (\<lambda>r. \<not> res_success r) (core_results env);
         reasons = join ''; '' (map error_text failed)
     in if applicable_of env \<noteq> [] \<and> succeeded = [] then
          (Inl (if \<exists>r \<in> set failed. res_transient r
                then Transient_error (''No analyzer could run: '' @ reasons)
                else Analysis_error (''Every analyzer failed: '' @ reasons)), scan)
        else
          let fs = reported_findings env; unique = deduplicate fs;
              status = (if failed \<noteq> [] then PARTIAL else COMPLETED);
              scan = scan\<lparr>pl_analysis_partial := (failed \<noteq> []),
                 pl_enrichment_status := Some (if env_llm_skip env \<noteq> None then E_SKIPPED else E_PENDING),
                 pl_enrichment_error := env_llm_skip env\<rparr>;
              stored_status = (if env_llm_skip env \<noteq> None then status else ANALYSIS_COMPLETE)
          in (case persist_results env scan unique stored_status (pipeline_context scan succeeded failed) of
                None \<Rightarrow> (Inl Key_error, scan)
              | Some scan \<Rightarrow>
                  (Inr \<lparr>out_status = status, findings_before_dedup = length fs,
                        findings_after_dedup = length unique, out_results = core_results env\<rparr>, scan)))"
  unfolding conclude_def Let_def split_experimental [OF assms] reported_findings_def by (rule refl)

text \<open>Everything about a run in one statement; the two outcomes are the properties below.\<close>

lemma analyze_raises:
  assumes "env_ok env" and "applicable_of env \<noteq> []" and "\<forall>r \<in> set (core_results env). \<not> res_success r"
  shows "analyze_and_persist env scan =
    (Inl (if \<exists>r \<in> set (core_results env). res_transient r
          then Transient_error (''No analyzer could run: '' @ join ''; '' (map error_text (core_results env)))
          else Analysis_error (''Every analyzer failed: '' @ join ''; '' (map error_text (core_results env)))),
     store_signals (scan\<lparr>pl_runs := final_runs env\<rparr>) (signal_results_of env))"
proof -
  have "filter res_success (core_results env) = []" "filter (\<lambda>r. \<not> res_success r) (core_results env) = core_results env"
    using assms(3) by (auto simp: filter_empty_conv filter_id_conv)
  then show ?thesis using assms(2)
    unfolding analyze_closed [OF assms(1)] conclude_closed [OF assms(1)] Let_def by simp
qed

lemma analyze_returns:
  assumes "env_ok env" and "applicable_of env = [] \<or> (\<exists>r \<in> set (core_results env). res_success r)"
  obtains imp ctx where
    "finding_impacts (unique_rows (deduplicate (reported_findings env))) ctx
       (rubric_config_of (env_settings env)) = Some imp"
    and "ctx = pipeline_context (store_signals (scan\<lparr>pl_runs := final_runs env\<rparr>) (signal_results_of env))
       (filter res_success (core_results env)) (filter (\<lambda>r. \<not> res_success r) (core_results env))"
    and "fst (analyze_and_persist env scan) = Inr
       \<lparr>out_status = (if \<exists>r \<in> set (core_results env). \<not> res_success r then PARTIAL else COMPLETED),
        findings_before_dedup = length (reported_findings env),
        findings_after_dedup = length (deduplicate (reported_findings env)),
        out_results = core_results env\<rparr>"
    and "pl_runs (snd (analyze_and_persist env scan)) = final_runs env"
    and "pl_analysis_partial (snd (analyze_and_persist env scan))
       = (\<exists>r \<in> set (core_results env). \<not> res_success r)"
    and "pl_enrichment_status (snd (analyze_and_persist env scan))
       = Some (if env_llm_skip env \<noteq> None then E_SKIPPED else E_PENDING)"
    and "pl_status (snd (analyze_and_persist env scan))
       = (if env_llm_skip env = None then ANALYSIS_COMPLETE
          else if \<exists>r \<in> set (core_results env). \<not> res_success r then PARTIAL else COMPLETED)"
    and "pl_score (snd (analyze_and_persist env scan))
       = Some (score (unique_rows (deduplicate (reported_findings env))) ctx [] (rubric_config_of (env_settings env)))"
    and "pl_findings (snd (analyze_and_persist env scan))
       = foldl (insert_finding env imp) [] (enumerate 0 (deduplicate (reported_findings env)))"
proof -
  let ?s0 = "store_signals (scan\<lparr>pl_runs := final_runs env\<rparr>) (signal_results_of env)"
  let ?failed = "filter (\<lambda>r. \<not> res_success r) (core_results env)"
  let ?ctx = "pipeline_context ?s0 (filter res_success (core_results env)) ?failed"
  have some: "\<not> (applicable_of env \<noteq> [] \<and> filter res_success (core_results env) = [])"
    using assms(2) by (auto simp: filter_empty_conv)
  have nil: "?failed \<noteq> [] \<longleftrightarrow> (\<exists>r \<in> set (core_results env). \<not> res_success r)"
    by (auto simp: filter_empty_conv)
  let ?status = "if \<exists>r \<in> set (core_results env). \<not> res_success r then PARTIAL else COMPLETED"
  let ?s1 = "?s0\<lparr>pl_analysis_partial := (\<exists>r \<in> set (core_results env). \<not> res_success r),
     pl_enrichment_status := Some (if env_llm_skip env \<noteq> None then E_SKIPPED else E_PENDING),
     pl_enrichment_error := env_llm_skip env\<rparr>"
  let ?stored = "if env_llm_skip env \<noteq> None then ?status else ANALYSIS_COMPLETE"
  have ctx: "pipeline_context ?s1 (filter res_success (core_results env)) ?failed = ?ctx"
    by (simp add: pipeline_context_def)
  obtain imp where p: "persist_results env ?s1 (deduplicate (reported_findings env)) ?stored ?ctx
      = Some (?s1\<lparr>pl_score := Some (score (unique_rows (deduplicate (reported_findings env))) ?ctx []
                       (rubric_config_of (env_settings env))),
           pl_findings := foldl (insert_finding env imp) [] (enumerate 0 (deduplicate (reported_findings env))),
           pl_status := ?stored, pl_error_message := None\<rparr>)"
    and i: "finding_impacts (unique_rows (deduplicate (reported_findings env))) ?ctx
       (rubric_config_of (env_settings env)) = Some imp"
    by (rule persist_results_some)
  have closed: "analyze_and_persist env scan = (Inr
       \<lparr>out_status = ?status, findings_before_dedup = length (reported_findings env),
        findings_after_dedup = length (deduplicate (reported_findings env)), out_results = core_results env\<rparr>,
      ?s1\<lparr>pl_score := Some (score (unique_rows (deduplicate (reported_findings env))) ?ctx []
                       (rubric_config_of (env_settings env))),
           pl_findings := foldl (insert_finding env imp) [] (enumerate 0 (deduplicate (reported_findings env))),
           pl_status := ?stored, pl_error_message := None\<rparr>)"
    unfolding analyze_closed [OF assms(1)] conclude_closed [OF assms(1)] Let_def
    by (simp only: if_not_P [OF some] nil ctx p option.case)
  show ?thesis by (rule that [OF i refl]) (simp_all add: closed)
qed

end
