(* ===== verification/Pipeline_Results.thy ===== *)
theory Pipeline_Results
  imports Pipeline_Props
begin

text \<open>The properties of the scan pipeline, with a small scan as their witness.\<close>

lemma initial_runs_lookup:
  "initial_runs app unfit n = (if n \<in> an_name ` set app then Some started_run
     else case find (\<lambda>a. an_name a = n) (rev unfit) of None \<Rightarrow> None | Some a \<Rightarrow> Some (skipped_run a))"
proof -
  have "foldl (\<lambda>m a. m(an_name a \<mapsto> started_run)) m app n = (if n \<in> an_name ` set app then Some started_run else m n)"
    for m by (induction app arbitrary: m) auto
  then show ?thesis by (simp add: initial_runs_def initial_fold)
qed

lemma applicable_phases: "a \<in> set (applicable_of env) \<Longrightarrow> a \<in> set (phase1 env) \<and> a \<notin> set (phase2 env)
    \<or> a \<in> set (phase2 env) \<and> a \<notin> set (phase1 env)"
  by (auto simp: phase1_def phase2_def)

lemma final_runs_applicable:
  assumes "env_ok env" and "a \<in> set (applicable_of env)"
  shows "final_runs env (an_name a) = Some (finished_run (result_of env a) started_run)"
proof -
  have inj: "inj_on an_name (set (applicable_of env))"
    using phases_distinct(1) [OF assms(1)] by (simp add: distinct_map)
  have sub: "set (phase1 env) \<subseteq> set (applicable_of env)" "set (phase2 env) \<subseteq> set (applicable_of env)"
    by (auto simp: phase1_def phase2_def)
  have none: "find (\<lambda>b. an_name b = an_name a) bs = None"
    if "a \<notin> set bs" "set bs \<subseteq> set (applicable_of env)" for bs
    using that inj assms(2) by (auto simp: find_None_iff dest: inj_onD)
  have start: "initial_runs (applicable_of env) (inapplicable_of env) (an_name a) = Some started_run"
    using assms(2) by (simp add: initial_runs_lookup)
  from applicable_phases [OF assms(2)] show ?thesis
  proof
    assume p: "a \<in> set (phase1 env) \<and> a \<notin> set (phase2 env)"
    then have "find (\<lambda>b. an_name b = an_name a) (phase1 env) = Some a"
      by (intro find_name phases_distinct(2) [OF assms(1)]) simp
    then show ?thesis using p none [of "phase2 env"] sub start
      by (simp add: final_runs_def record_all_def)
  next
    assume p: "a \<in> set (phase2 env) \<and> a \<notin> set (phase1 env)"
    then have "find (\<lambda>b. an_name b = an_name a) (phase2 env) = Some a"
      by (intro find_name phases_distinct(3) [OF assms(1)]) simp
    then show ?thesis using p none [of "phase1 env"] sub start
      by (simp add: final_runs_def record_all_def)
  qed
qed

lemma final_runs_inapplicable:
  assumes "env_ok env" and "a \<in> set (inapplicable_of env)"
  shows "final_runs env (an_name a) = Some (skipped_run a)"
proof -
  have dist: "distinct (map an_name (registry_iter (env_registry env)))"
    using assms(1) by (simp add: env_ok_def)
  have reg: "a \<in> set (registry_iter (env_registry env))" "\<not> applies_to a (env_languages env)"
    using assms(2) by (auto simp: inapplicable_of_def)
  have inj: "inj_on an_name (set (registry_iter (env_registry env)))"
    using dist by (simp add: distinct_map)
  then have na: "an_name a \<notin> an_name ` set (applicable_of env)"
    using reg by (auto simp: applicable_of_def dest: inj_onD)
  have "distinct (map an_name (rev (inapplicable_of env)))"
    using dist by (auto simp: inapplicable_of_def distinct_map rev_map [symmetric] intro: inj_on_subset)
  then have "find (\<lambda>b. an_name b = an_name a) (rev (inapplicable_of env)) = Some a"
    by (rule find_name) (simp add: assms(2))
  then have "initial_runs (applicable_of env) (inapplicable_of env) (an_name a) = Some (skipped_run a)"
    using na by (simp add: initial_runs_lookup)
  moreover have "find (\<lambda>b. an_name b = an_name a) (phase1 env) = None"
    "find (\<lambda>b. an_name b = an_name a) (phase2 env) = None"
    using na by (intro find_name_None; force simp: phase1_def phase2_def)+
  ultimately show ?thesis by (simp add: final_runs_def record_all_def)
qed

lemma analyze_runs: "env_ok env \<Longrightarrow> pl_runs (snd (analyze_and_persist env scan)) = final_runs env"
proof -
  assume ok: "env_ok env"
  show ?thesis
  proof (cases "applicable_of env = [] \<or> (\<exists>r \<in> set (core_results env). res_success r)")
    case True
    from analyze_returns [OF ok True, where scan = scan] show ?thesis by metis
  next
    case False
    then show ?thesis by (subst analyze_raises [OF ok]) auto
  qed
qed

section \<open>A small scan\<close>

definition bandit_analyzer :: analyzer_class where
  "bandit_analyzer = \<lparr>an_name = ''bandit'', an_display_name = ''Bandit'', an_languages = [''python''],
     an_phase = 1, an_experimental = False, an_timeout = 300\<rparr>"

definition ruff_analyzer :: analyzer_class where
  "ruff_analyzer = bandit_analyzer\<lparr>an_name := ''ruff'', an_display_name := ''Ruff''\<rparr>"

definition history_analyzer :: analyzer_class where
  "history_analyzer = \<lparr>an_name = ''git_history'', an_display_name = ''Git history'', an_languages = [],
     an_phase = 2, an_experimental = True, an_timeout = 60\<rparr>"

definition small_settings :: score_settings where
  "small_settings = \<lparr>rubric_signal_error_handling = False, rubric_signal_dep_health = False,
     rubric_signal_git_history = True, rubric_signal_ci_quality = False,
     rubric_signal_test_quality = False, rubric_process_dimension = False,
     rubric_dep_health_target = ''dependencies''\<rparr>"

definition small_env :: pipeline_env where
  "small_env = \<lparr>
     env_registry = [(''bandit'', bandit_analyzer), (''ruff'', ruff_analyzer), (''git_history'', history_analyzer)],
     env_languages = [''python''],
     env_run = (\<lambda>prior a. if an_name a = ''bandit''
        then Returned \<lparr>res_analyzer = ''bandit'', res_success = True, res_findings = [], res_raw = [],
               res_duration_ms = 0, res_error = None, res_warnings = [], res_timed_out = False,
               res_transient = False, res_artifact = None\<rparr>
        else Raised_timeout),
     env_elapsed = (\<lambda>_. 5), env_order = rev, env_fill_snippets = (\<lambda>fs. fs), env_sha256 = (\<lambda>s. s),
     env_llm_skip = Some ''off'', env_settings = small_settings\<rparr>"

definition small_scan :: pl_scan where
  "small_scan = \<lparr>pl_status = RUNNING, pl_source_loc = Some 10, pl_runs = Map.empty,
     pl_signal_metrics = None, pl_advisory_metrics = None, pl_analysis_partial = False,
     pl_enrichment_status = None, pl_enrichment_error = None, pl_findings = [], pl_score = None,
     pl_error_message = None\<rparr>"

lemma small_env_ok: "env_ok small_env"
  by (simp add: env_ok_def small_env_def registry_iter_def bandit_analyzer_def ruff_analyzer_def
      history_analyzer_def)

section \<open>Properties\<close>

text \<open>
  Whatever the analyzers do, a scan ends with one run per registered analyzer and none left
  running: an applicable one is completed with its number of findings, timed out or failed, as
  its result says, and one that does not apply is skipped.
\<close>

theorem pipeline_runs_recorded:
  assumes "env_ok env" and "a \<in> set (registry_iter (env_registry env))"
  shows "\<exists>run. pl_runs (snd (analyze_and_persist env scan)) (an_name a) = Some run
    \<and> (if \<not> applies_to a (env_languages env) then pl_run_status run = RUN_SKIPPED
       else pl_run_error run = res_error (result_of env a)
         \<and> (if res_success (result_of env a)
            then pl_run_status run = RUN_COMPLETED
              \<and> pl_finding_count run = Some (length (res_findings (result_of env a)))
            else pl_run_status run
              = (if res_timed_out (result_of env a) then RUN_TIMED_OUT else RUN_FAILED)))"
proof (cases "applies_to a (env_languages env)")
  case True
  then have "a \<in> set (applicable_of env)" using assms(2) by (simp add: applicable_of_def)
  then show ?thesis using True
    by (simp add: analyze_runs [OF assms(1)] final_runs_applicable [OF assms(1)] finished_run_def)
next
  case False
  then have "a \<in> set (inapplicable_of env)" using assms(2) by (simp add: inapplicable_of_def)
  then show ?thesis using False
    by (simp add: analyze_runs [OF assms(1)] final_runs_inapplicable [OF assms(1)] skipped_run_def)
qed

theorem pipeline_runs_recorded_witness:
  "\<exists>run. pl_runs (snd (analyze_and_persist small_env small_scan)) ''ruff'' = Some run
     \<and> pl_run_status run = RUN_TIMED_OUT"
proof -
  have "ruff_analyzer \<in> set (registry_iter (env_registry small_env))"
    "applies_to ruff_analyzer (env_languages small_env)" "an_name ruff_analyzer = ''ruff''"
    by (simp_all add: small_env_def registry_iter_def applies_to_def ruff_analyzer_def bandit_analyzer_def)
  moreover have "\<not> res_success (result_of small_env ruff_analyzer)"
    "res_timed_out (result_of small_env ruff_analyzer)"
    by (simp_all add: result_of_def env_result_def small_env_def ruff_analyzer_def bandit_analyzer_def
        run_analyzer_safely_def failed_result_def)
  ultimately show ?thesis
    using pipeline_runs_recorded [OF small_env_ok, of ruff_analyzer small_scan] by auto
qed

text \<open>
  C13: The order in which the concurrent analyzers finish has no influence: any two orders give
  the same outcome and the same stored scan.
\<close>

theorem pipeline_order_irrelevant:
  assumes "env_ok env" and "env_ok (env\<lparr>env_order := order\<rparr>)"
  shows "analyze_and_persist (env\<lparr>env_order := order\<rparr>) scan = analyze_and_persist env scan"
proof -
  let ?e = "env\<lparr>env_order := order\<rparr>"
  have app: "applicable_of ?e = applicable_of env" "inapplicable_of ?e = inapplicable_of env"
    by (simp_all add: applicable_of_def inapplicable_of_def)
  then have ph: "phase1 ?e = phase1 env" "phase2 ?e = phase2 env"
    by (simp_all add: phase1_def phase2_def)
  have er: "env_result ?e = env_result env" by (simp add: fun_eq_iff env_result_def)
  have res: "result_of ?e = result_of env"
    by (simp add: fun_eq_iff result_of_def er ph)
  have runs: "final_runs ?e = final_runs env" by (simp add: final_runs_def app ph res)
  have ins: "insert_finding ?e = insert_finding env"
    by (simp add: fun_eq_iff insert_finding_def)
  have persist: "persist_results ?e = persist_results env"
    by (simp add: fun_eq_iff persist_results_def ins Let_def cong: option.case_cong)
  have sel: "env_fill_snippets ?e = env_fill_snippets env" "env_llm_skip ?e = env_llm_skip env"
    by simp_all
  have "conclude ?e applicable results scan = conclude env applicable results scan"
    for applicable results scan
    unfolding conclude_def persist sel by (rule refl)
  then show ?thesis by (simp add: analyze_closed [OF assms(1)] analyze_closed [OF assms(2)] app ph res runs)
qed

theorem pipeline_order_irrelevant_witness:
  "analyze_and_persist (small_env\<lparr>env_order := \<lambda>as. as\<rparr>) small_scan = analyze_and_persist small_env small_scan"
proof -
  have "env_ok (small_env\<lparr>env_order := \<lambda>as. as\<rparr>)"
    using small_env_ok by (simp add: env_ok_def)
  then show ?thesis by (rule pipeline_order_irrelevant [OF small_env_ok])
qed

text \<open>
  C11: A failing analyzer never fails the scan on its own.  The scan fails only when analyzers
  applied and none of the rated ones succeeded, with an error that is retried exactly when some
  failure came from the infrastructure, and then no finding, score or status is touched.
  Otherwise it is partial exactly when a rated analyzer failed, complete when none did, and
  final unless the LLM stage is still to come; experimental analyzers have no say in either.
\<close>

theorem pipeline_outcome:
  fixes env scan
  assumes ok: "env_ok env"
  defines "bad \<equiv> \<exists>r \<in> set (core_results env). \<not> res_success r"
    and "none_ok \<equiv> applicable_of env \<noteq> [] \<and> (\<forall>r \<in> set (core_results env). \<not> res_success r)"
    and "stored \<equiv> snd (analyze_and_persist env scan)"
  shows "case fst (analyze_and_persist env scan) of
      Inl e \<Rightarrow> none_ok
        \<and> (if \<exists>r \<in> set (core_results env). res_transient r then \<exists>m. e = Transient_error m
           else \<exists>m. e = Analysis_error m)
        \<and> pl_status stored = pl_status scan \<and> pl_findings stored = pl_findings scan
        \<and> pl_score stored = pl_score scan
    | Inr out \<Rightarrow> \<not> none_ok \<and> out_status out = (if bad then PARTIAL else COMPLETED)
        \<and> pl_analysis_partial stored = bad
        \<and> pl_status stored = (if env_llm_skip env = None then ANALYSIS_COMPLETE else out_status out)
        \<and> pl_enrichment_status stored = Some (if env_llm_skip env = None then E_PENDING else E_SKIPPED)"
proof (cases none_ok)
  case True
  then show ?thesis unfolding none_ok_def stored_def
    by (subst (1 2 3 4) analyze_raises [OF ok]) (auto simp: none_ok_def)
next
  case False
  then have c: "applicable_of env = [] \<or> (\<exists>r \<in> set (core_results env). res_success r)"
    by (auto simp: none_ok_def)
  let ?status = "if bad then PARTIAL else COMPLETED"
  have f: "(\<exists>out. fst (analyze_and_persist env scan) = Inr out \<and> out_status out = ?status)
    \<and> pl_analysis_partial stored = bad
    \<and> pl_status stored = (if env_llm_skip env = None then ANALYSIS_COMPLETE else ?status)
    \<and> pl_enrichment_status stored = Some (if env_llm_skip env \<noteq> None then E_SKIPPED else E_PENDING)"
    unfolding stored_def bad_def
    by (rule analyze_returns [OF ok c, where scan = scan]) (simp del: bex_simps ball_simps)
  then obtain out where "fst (analyze_and_persist env scan) = Inr out" "out_status out = ?status" by blast
  with f False show ?thesis by simp
qed

theorem pipeline_outcome_witness:
  "\<exists>out. fst (analyze_and_persist small_env small_scan) = Inr out \<and> out_status out = PARTIAL
     \<and> pl_status (snd (analyze_and_persist small_env small_scan)) = PARTIAL"
proof -
  have core: "core_results small_env = [result_of small_env bandit_analyzer, result_of small_env ruff_analyzer]"
    by (simp add: core_results_def phase1_def phase2_def applicable_of_def small_env_def registry_iter_def
        applies_to_def bandit_analyzer_def ruff_analyzer_def history_analyzer_def)
  have "res_success (result_of small_env bandit_analyzer)" "\<not> res_success (result_of small_env ruff_analyzer)"
    by (simp_all add: result_of_def env_result_def small_env_def bandit_analyzer_def ruff_analyzer_def
        run_analyzer_safely_def failed_result_def)
  moreover have "env_llm_skip small_env \<noteq> None" by (simp add: small_env_def)
  ultimately show ?thesis using pipeline_outcome [OF small_env_ok, of small_scan]
    by (simp add: core split: sum.splits)
qed



end
