(* ===== verification/Lifecycle.thy ===== *)
theory Lifecycle
  imports Pipeline
begin

text \<open>
  The life of a scan row across tasks: \<open>run_scan\<close>, \<open>_set_status\<close> and
  \<open>enrich_scan\<close> (\<open>workers/tasks.py\<close>), the enrichment stage
  (\<open>llm/enrichment.py\<close>) and the reaper (\<open>workers/maintenance.py\<close>), first as functions
  on the row, one per transaction, then as a step relation in which any number of task
  deliveries interleave.  Times are seconds; analysis itself is the pipeline of
  \<open>Pipeline\<close>, of which only the stored status matters here.
\<close>

section \<open>The row\<close>

datatype fix_status = GENERATING | READY | FIX_FAILED

record lc_scan =
  lc_status :: scan_status
  lc_created_at :: int
  lc_started_at :: "int option"
  lc_completed_at :: "int option"
  lc_error :: "string option"
  lc_partial :: bool
  lc_enrichment :: "enrichment_status option"
  lc_enrichment_error :: "string option"
  lc_runs :: "run_status list"
  lc_fixes :: "fix_status list"

record lc_config =
  scan_timeout_seconds :: int
  stale_job_grace_seconds :: int
  llm_task_timeout_seconds :: int
  scan_max_retries :: nat

definition MAX_QUEUED :: int where
  "MAX_QUEUED = 6 * 3600"

definition RETRY_BASE_DELAY_SECONDS :: nat where
  "RETRY_BASE_DELAY_SECONDS = 10"

section \<open>run_scan\<close>

definition set_status :: "int \<Rightarrow> scan_status \<Rightarrow> string option \<Rightarrow> lc_scan \<Rightarrow> lc_scan" where
  "set_status now status error scan =
     (let scan = scan\<lparr>lc_status := status,
                      lc_error := (case error of None \<Rightarrow> None
                        | Some e \<Rightarrow> if e = [] then None else Some (take MAX_ERROR_MESSAGE_CHARS e))\<rparr>
      in if status = FAILED
         then scan\<lparr>lc_completed_at := Some now,
                   lc_runs := map (\<lambda>r. if r = RUN_RUNNING then RUN_FAILED else r) (lc_runs scan)\<rparr>
         else scan)"

text \<open>What a delivery does after reading the row.\<close>

datatype entry = Nothing_to_do | Queue_enrichment | Try_claim

definition run_scan_entry :: "lc_scan \<Rightarrow> entry" where
  "run_scan_entry scan =
     (if lc_status scan \<in> {COMPLETED, PARTIAL, ENRICHING} then Nothing_to_do
      else if lc_status scan = ANALYSIS_COMPLETE then Queue_enrichment
      else Try_claim)"

definition claimable :: "lc_config \<Rightarrow> int \<Rightarrow> lc_scan \<Rightarrow> bool" where
  "claimable cfg now scan \<longleftrightarrow>
     lc_status scan \<in> {QUEUED, FAILED}
     \<or> lc_status scan = RUNNING
       \<and> (case lc_started_at scan of None \<Rightarrow> False
          | Some t \<Rightarrow> t < now - (scan_timeout_seconds cfg + 60))"

text \<open>The conditional UPDATE: whether a row was claimed, and the row.\<close>

definition claim :: "lc_config \<Rightarrow> int \<Rightarrow> lc_scan \<Rightarrow> bool \<times> lc_scan" where
  "claim cfg now scan =
     (if claimable cfg now scan
      then (True, scan\<lparr>lc_status := RUNNING, lc_started_at := Some now, lc_completed_at := None,
                       lc_error := None\<rparr>)
      else (False, scan))"

text \<open>What ends a claimed run: the pipeline's result, or an exception.\<close>

datatype run_end =
    Persisted scan_status bool enrichment_status
  | Transient_failure string
  | Soft_time_limit
  | Analysis_failure string
  | Crash

text \<open>
  The except clauses of \<open>run_scan\<close>; the second component is the delay of the retry, if
  there is one.  A failed delivery without a claim runs the same clauses.
\<close>

definition run_scan_failure ::
    "lc_config \<Rightarrow> int \<Rightarrow> nat \<Rightarrow> run_end \<Rightarrow> lc_scan \<Rightarrow> lc_scan \<times> nat option" where
  "run_scan_failure cfg now attempt e scan =
     (case e of
        Transient_failure m \<Rightarrow>
          if attempt < scan_max_retries cfg
          then (set_status now QUEUED (Some (''Retrying after a temporary error: '' @ m)) scan,
                Some (RETRY_BASE_DELAY_SECONDS * 3 ^ attempt))
          else (set_status now FAILED (Some (''Infrastructure error, gave up after ''
                  @ show_nat (scan_max_retries cfg) @ '' retries: '' @ m)) scan, None)
      | Soft_time_limit \<Rightarrow>
          (set_status now FAILED (Some (''Scan exceeded the '' @ show_int (scan_timeout_seconds cfg)
             @ ''s time limit.'')) scan, None)
      | Analysis_failure m \<Rightarrow> (set_status now FAILED (Some m) scan, None)
      | Crash \<Rightarrow> (set_status now FAILED (Some ''Internal error while running the scan.'') scan, None)
      | Persisted status partial est \<Rightarrow>
          (scan\<lparr>lc_status := status, lc_completed_at := Some now, lc_error := None,
                lc_partial := partial, lc_enrichment := Some est\<rparr>, None))"

section \<open>Enrichment\<close>

definition start_enrichment :: "lc_scan \<Rightarrow> bool \<times> lc_scan" where
  "start_enrichment scan =
     (if lc_status scan \<notin> {ANALYSIS_COMPLETE, ENRICHING} then (False, scan)
      else (True, scan\<lparr>lc_status := ENRICHING, lc_enrichment := Some E_RUNNING,
                       lc_enrichment_error := None\<rparr>))"

definition finish_enrichment :: "enrichment_status \<Rightarrow> string option \<Rightarrow> lc_scan \<Rightarrow> lc_scan" where
  "finish_enrichment status msg scan =
     scan\<lparr>lc_fixes := map (\<lambda>f. if f = GENERATING then FIX_FAILED else f) (lc_fixes scan),
          lc_status := (if lc_partial scan then PARTIAL else COMPLETED),
          lc_enrichment := Some status,
          lc_enrichment_error := (case msg of None \<Rightarrow> None
            | Some m \<Rightarrow> if m = [] then None else Some (take 2000 m))\<rparr>"

text \<open>\<open>FixRunStats\<close>, and what became of the architecture review.\<close>

record fix_run_stats =
  fr_groups :: nat
  llm_requests_failed :: nat
  by_validation :: "(string, nat) dict"
  budget_exhausted :: bool
  fr_errors :: "string list"

datatype review = Review_generated | Review_none | Review_budget string | Review_failed string

text \<open>\<open>needle in haystack\<close>.\<close>

fun occurs_in :: "string \<Rightarrow> string \<Rightarrow> bool" where
  "occurs_in needle [] = (needle = [])"
| "occurs_in needle (c # cs) = (starts_with needle (c # cs) \<or> occurs_in needle cs)"

text \<open>\<open>errors[0]\<close> of an empty list is an \<open>IndexError\<close>, the outer \<open>None\<close>.\<close>

definition enrichment_problems :: "fix_run_stats \<Rightarrow> review \<Rightarrow> string list option" where
  "enrichment_problems stats rv =
     (if llm_requests_failed stats > 0 \<and> fr_errors stats = [] then None
      else Some (
        (if budget_exhausted stats
         then [''Fix suggestions stopped early: ''
               @ (if fr_errors stats = [] then ''The token budget ran out.'' else last (fr_errors stats))]
         else [])
        @ (if llm_requests_failed stats > 0
           then [show_nat (llm_requests_failed stats) @ '' of '' @ show_nat (fr_groups stats)
                 @ '' fix requests failed: '' @ hd (fr_errors stats)] else [])
        @ (if budget_exhausted stats then [''Architecture review skipped: the LLM budget is exhausted.'']
           else (case rv of
                   Review_budget m \<Rightarrow> [''Architecture review skipped: '' @ m]
                 | Review_failed m \<Rightarrow> [''Architecture review failed: '' @ m]
                 | _ \<Rightarrow> []))))"

definition run_enrichment :: "fix_run_stats \<Rightarrow> review \<Rightarrow> (enrichment_status \<times> string list) option" where
  "run_enrichment stats rv =
     (case enrichment_problems stats rv of None \<Rightarrow> None
      | Some problems \<Rightarrow>
          let generated = (\<not> budget_exhausted stats \<and> rv = Review_generated);
              produced = (generated \<or> sum_list (map snd (by_validation stats)) > 0);
              attempted = (fr_groups stats > 0 \<or> generated \<or> problems \<noteq> []);
              budget_cut = (budget_exhausted stats \<or> (\<exists>p \<in> set problems. occurs_in ''skipped:'' p))
          in if problems \<noteq> [] then
               (if produced then Some (E_PARTIAL, problems)
                else if budget_cut \<and> llm_requests_failed stats = 0 then Some (E_SKIPPED, problems)
                else Some (E_FAILED, problems))
             else if \<not> attempted then
               Some (E_SKIPPED, [''Nothing to enrich: no fixable findings and no architecture graph.''])
             else Some (E_COMPLETED, problems))"

text \<open>What happens inside the \<open>try\<close> of \<open>enrich_scan\<close> after the claim.\<close>

datatype enrich_event =
    Dispatch_blocked string
  | Ran fix_run_stats review
  | LLM_unavailable string
  | Enrich_time_limit
  | Enrich_error string
  | Enrich_crash

definition enrich_result :: "lc_config \<Rightarrow> enrich_event \<Rightarrow> enrichment_status \<times> string option" where
  "enrich_result cfg event =
     (case event of
        Dispatch_blocked m \<Rightarrow> (E_SKIPPED, Some m)
      | Ran stats rv \<Rightarrow>
          (case run_enrichment stats rv of
             None \<Rightarrow> (E_FAILED, Some ''Internal error during enrichment.'')
           | Some (status, problems) \<Rightarrow>
               (status, if join '' '' problems = [] then None else Some (join '' '' problems)))
      | LLM_unavailable m \<Rightarrow> (E_SKIPPED, Some m)
      | Enrich_time_limit \<Rightarrow>
          (E_FAILED, Some (''Enrichment exceeded the '' @ show_int (llm_task_timeout_seconds cfg)
             @ ''s time limit.''))
      | Enrich_error m \<Rightarrow> (E_FAILED, Some (''Enrichment failed: '' @ m))
      | Enrich_crash \<Rightarrow> (E_FAILED, Some ''Internal error during enrichment.''))"

definition enrich_scan :: "lc_config \<Rightarrow> enrich_event \<Rightarrow> lc_scan \<Rightarrow> lc_scan" where
  "enrich_scan cfg event scan =
     (let (claimed, scan) = start_enrichment scan
      in if claimed then (let (status, msg) = enrich_result cfg event
                          in finish_enrichment status msg scan)
         else scan)"

section \<open>The reaper\<close>

definition before_time :: "int option \<Rightarrow> int \<Rightarrow> bool" where
  "before_time t deadline \<longleftrightarrow> (case t of None \<Rightarrow> False | Some t \<Rightarrow> t < deadline)"

text \<open>The part of \<open>reap_stale_jobs_once\<close> that touches this scan.\<close>

definition reap_scan :: "lc_config \<Rightarrow> int \<Rightarrow> lc_scan \<Rightarrow> lc_scan" where
  "reap_scan cfg now scan =
     (let scan_deadline = now - (scan_timeout_seconds cfg + 60) - stale_job_grace_seconds cfg;
          enrich_deadline = now - (llm_task_timeout_seconds cfg + 60) - stale_job_grace_seconds cfg;
          scan = (if lc_status scan = RUNNING \<and> before_time (lc_started_at scan) scan_deadline
                  then scan\<lparr>lc_status := FAILED, lc_completed_at := Some now,
                            lc_error := Some (''The scan did not finish within ''
                              @ show_int (scan_timeout_seconds cfg)
                              @ ''s (the worker stopped or the task was lost). Start a new scan.'')\<rparr>
                  else scan);
          scan = (if lc_status scan = QUEUED \<and> lc_created_at scan < now - MAX_QUEUED
                  then scan\<lparr>lc_status := FAILED, lc_completed_at := Some now,
                            lc_error := Some ''The scan was never picked up by a worker. Start a new scan.''\<rparr>
                  else scan)
      in if lc_status scan \<in> {ENRICHING, ANALYSIS_COMPLETE} \<and> before_time (lc_completed_at scan) enrich_deadline
         then finish_enrichment E_FAILED
                (Some ''Fix suggestions did not finish in time (the worker stopped).'') scan
         else scan)"

section \<open>Interleavings\<close>

text \<open>
  The row, the clock, the deliveries that have read the row and go on to claim it, the claim
  times of the runs that are analyzing, and the number of enrichments under way.  Celery kills a
  run at \<open>task_time_limit\<close>, \<open>scan_timeout_seconds + 60\<close>: time does not pass beyond the
  limit of a live run.
\<close>

record lc_system =
  sy_row :: lc_scan
  sy_now :: int
  sy_readers :: nat
  sy_analyzing :: "int list"
  sy_enriching :: nat

text \<open>The statuses the pipeline persists, with the flags it stores beside them.\<close>

definition persisted_ok :: "run_end \<Rightarrow> bool" where
  "persisted_ok e = (case e of
     Persisted status partial est \<Rightarrow> status = ANALYSIS_COMPLETE \<and> est = E_PENDING
       \<or> status = (if partial then PARTIAL else COMPLETED) \<and> est = E_SKIPPED
   | _ \<Rightarrow> True)"

inductive lc_step :: "lc_config \<Rightarrow> lc_system \<Rightarrow> lc_system \<Rightarrow> bool" for cfg where
  tick: "0 < d \<Longrightarrow> \<forall>t \<in> set (sy_analyzing s). sy_now s + d \<le> t + scan_timeout_seconds cfg + 60
    \<Longrightarrow> lc_step cfg s (s\<lparr>sy_now := sy_now s + d\<rparr>)"
| deliver: "run_scan_entry (sy_row s) = Try_claim
    \<Longrightarrow> lc_step cfg s (s\<lparr>sy_readers := Suc (sy_readers s)\<rparr>)"
| claim_won: "sy_readers s = Suc n \<Longrightarrow> claim cfg (sy_now s) (sy_row s) = (True, row)
    \<Longrightarrow> lc_step cfg s (s\<lparr>sy_readers := n, sy_row := row, sy_analyzing := sy_now s # sy_analyzing s\<rparr>)"
| claim_lost: "sy_readers s = Suc n \<Longrightarrow> claim cfg (sy_now s) (sy_row s) = (False, row)
    \<Longrightarrow> lc_step cfg s (s\<lparr>sy_readers := n\<rparr>)"
| run_ends: "t \<in> set (sy_analyzing s) \<Longrightarrow> persisted_ok e
    \<Longrightarrow> lc_step cfg s (s\<lparr>sy_analyzing := remove1 t (sy_analyzing s),
                        sy_row := fst (run_scan_failure cfg (sy_now s) attempt e (sy_row s))\<rparr>)"
| killed: "t \<in> set (sy_analyzing s)
    \<Longrightarrow> lc_step cfg s (s\<lparr>sy_analyzing := remove1 t (sy_analyzing s)\<rparr>)"
| enrichment_starts: "start_enrichment (sy_row s) = (True, row)
    \<Longrightarrow> lc_step cfg s (s\<lparr>sy_row := row, sy_enriching := Suc (sy_enriching s)\<rparr>)"
| enrichment_ends: "sy_enriching s = Suc n \<Longrightarrow> enrich_result cfg event = (status, msg)
    \<Longrightarrow> lc_step cfg s (s\<lparr>sy_row := finish_enrichment status msg (sy_row s), sy_enriching := n\<rparr>)"
| reap: "lc_step cfg s (s\<lparr>sy_row := reap_scan cfg (sy_now s) (sy_row s)\<rparr>)"

text \<open>
  The fault the happy path leaves out: a delivery that meets a transient error before it has
  claimed the scan runs the same except clause as the one that owns it.
\<close>

inductive lc_fault_step :: "lc_config \<Rightarrow> lc_system \<Rightarrow> lc_system \<Rightarrow> bool" for cfg where
  ok: "lc_step cfg s s' \<Longrightarrow> lc_fault_step cfg s s'"
| read_fails: "lc_fault_step cfg s
    (s\<lparr>sy_row := fst (run_scan_failure cfg (sy_now s) attempt (Transient_failure m) (sy_row s))\<rparr>)"
| claim_fails: "sy_readers s = Suc n \<Longrightarrow> lc_fault_step cfg s
    (s\<lparr>sy_readers := n,
       sy_row := fst (run_scan_failure cfg (sy_now s) attempt (Transient_failure m) (sy_row s))\<rparr>)"

definition fresh_system :: "int \<Rightarrow> lc_system" where
  "fresh_system now = \<lparr>sy_row = \<lparr>lc_status = QUEUED, lc_created_at = now, lc_started_at = None,
       lc_completed_at = None, lc_error = None, lc_partial = False, lc_enrichment = None,
       lc_enrichment_error = None, lc_runs = [], lc_fixes = []\<rparr>,
     sy_now = now, sy_readers = 0, sy_analyzing = [], sy_enriching = 0\<rparr>"

inductive_cases lc_step_elim: "lc_step cfg s s'"

end
