(* ===== verification/Lifecycle_Props.thy ===== *)
theory Lifecycle_Props
  imports Lifecycle
begin

text \<open>
  Safety of the scan lifecycle: as long as no unclaimed delivery fails, at most one run analyzes
  a scan at any time and a finished scan stays finished; and the one fault that breaks both.
\<close>

section \<open>The invariant\<close>

definition one_run :: "lc_config \<Rightarrow> lc_system \<Rightarrow> bool" where
  "one_run cfg s \<longleftrightarrow> sy_analyzing s = []
     \<or> (\<exists>t. sy_analyzing s = [t] \<and> lc_status (sy_row s) = RUNNING \<and> lc_started_at (sy_row s) = Some t
           \<and> sy_now s \<le> t + scan_timeout_seconds cfg + 60)"

definition enriching_late :: "lc_system \<Rightarrow> bool" where
  "enriching_late s \<longleftrightarrow> 0 < sy_enriching s \<longrightarrow> lc_status (sy_row s) \<in> {ENRICHING, COMPLETED, PARTIAL}"

definition final_consistent :: "lc_scan \<Rightarrow> bool" where
  "final_consistent row \<longleftrightarrow> (lc_status row = COMPLETED \<longrightarrow> \<not> lc_partial row)
     \<and> (lc_status row = PARTIAL \<longrightarrow> lc_partial row)"

definition lc_inv :: "lc_config \<Rightarrow> lc_system \<Rightarrow> bool" where
  "lc_inv cfg s \<longleftrightarrow> one_run cfg s \<and> enriching_late s \<and> final_consistent (sy_row s)"

definition cfg_ok :: "lc_config \<Rightarrow> bool" where
  "cfg_ok cfg \<longleftrightarrow> 0 \<le> scan_timeout_seconds cfg \<and> 0 \<le> stale_job_grace_seconds cfg"

lemmas inv_defs = lc_inv_def one_run_def enriching_late_def final_consistent_def

lemma finish_enrichment_fields [simp]:
  "lc_status (finish_enrichment e m row) = (if lc_partial row then PARTIAL else COMPLETED)"
  "lc_partial (finish_enrichment e m row) = lc_partial row"
  "lc_started_at (finish_enrichment e m row) = lc_started_at row"
  by (simp_all add: finish_enrichment_def)

lemma set_status_fields [simp]:
  "lc_status (set_status now st m row) = st" "lc_partial (set_status now st m row) = lc_partial row"
  "lc_started_at (set_status now st m row) = lc_started_at row"
  by (simp_all add: set_status_def Let_def)

lemma claim_won_fields:
  assumes "claim cfg now row = (True, row')"
  shows "claimable cfg now row" "lc_status row' = RUNNING" "lc_started_at row' = Some now"
  using assms by (auto simp: claim_def split: if_splits)

lemma start_won_fields:
  assumes "start_enrichment row = (True, row')"
  shows "lc_status row \<in> {ANALYSIS_COMPLETE, ENRICHING}" "lc_status row' = ENRICHING"
    "lc_partial row' = lc_partial row"
  using assms by (auto simp: start_enrichment_def split: if_splits)

text \<open>A run never ends in the middle of somebody else's work: what the row is afterwards.\<close>

lemma run_ends_status:
  "persisted_ok e \<Longrightarrow> lc_status (fst (run_scan_failure cfg now attempt e row))
      \<in> {ANALYSIS_COMPLETE, COMPLETED, PARTIAL, QUEUED, FAILED}
    \<and> final_consistent (fst (run_scan_failure cfg now attempt e row))"
proof (cases e)
  case (Persisted status partial est)
  assume "persisted_ok e"
  then have "status = ANALYSIS_COMPLETE \<or> status = (if partial then PARTIAL else COMPLETED)"
    using Persisted by (auto simp: persisted_ok_def)
  then show ?thesis using Persisted
    by (cases partial) (auto simp: run_scan_failure_def final_consistent_def)
qed (simp_all add: run_scan_failure_def final_consistent_def)

lemma reap_disj:
  "reap_scan cfg now row = row
   \<or> (lc_status row = RUNNING
      \<and> before_time (lc_started_at row)
          (now - (scan_timeout_seconds cfg + 60) - stale_job_grace_seconds cfg)
      \<and> lc_status (reap_scan cfg now row) = FAILED)
   \<or> (lc_status row = QUEUED \<and> lc_status (reap_scan cfg now row) = FAILED)
   \<or> (lc_status row \<in> {ENRICHING, ANALYSIS_COMPLETE}
      \<and> (\<exists>e m. reap_scan cfg now row = finish_enrichment e m row))"
  by (cases "lc_status row") (auto simp: reap_scan_def Let_def)

lemma reap_cases:
  obtains "reap_scan cfg now row = row"
  | "lc_status row = RUNNING" "before_time (lc_started_at row)
        (now - (scan_timeout_seconds cfg + 60) - stale_job_grace_seconds cfg)"
      "lc_status (reap_scan cfg now row) = FAILED"
  | "lc_status row = QUEUED" "lc_status (reap_scan cfg now row) = FAILED"
  | e m where "lc_status row \<in> {ENRICHING, ANALYSIS_COMPLETE}" "reap_scan cfg now row = finish_enrichment e m row"
  using reap_disj [of cfg now row] by blast

lemma inv_tick:
  assumes "lc_inv cfg s"
    and "\<forall>t \<in> set (sy_analyzing s). sy_now s + d \<le> t + scan_timeout_seconds cfg + 60"
  shows "lc_inv cfg (s\<lparr>sy_now := sy_now s + d\<rparr>)"
  using assms by (auto simp: inv_defs)

lemma inv_claim:
  assumes "cfg_ok cfg" and "lc_inv cfg s" and "claim cfg (sy_now s) (sy_row s) = (True, row)"
  shows "lc_inv cfg (s\<lparr>sy_readers := n, sy_row := row, sy_analyzing := sy_now s # sy_analyzing s\<rparr>)"
proof -
  note c = claim_won_fields [OF assms(3)]
  have idle: "sy_analyzing s = []"
  proof (rule ccontr)
    assume "sy_analyzing s \<noteq> []"
    then obtain t where "lc_status (sy_row s) = RUNNING" "lc_started_at (sy_row s) = Some t"
      "sy_now s \<le> t + scan_timeout_seconds cfg + 60"
      using assms(2) by (auto simp: lc_inv_def one_run_def)
    then show False using c(1) by (simp add: claimable_def)
  qed
  have "sy_enriching s = 0"
    using assms(2) c(1) by (auto simp: inv_defs claimable_def)
  then show ?thesis using c idle assms(1) by (simp add: inv_defs cfg_ok_def)
qed

lemma inv_run_ends:
  assumes "lc_inv cfg s" and "t \<in> set (sy_analyzing s)" and "persisted_ok e"
  shows "lc_inv cfg (s\<lparr>sy_analyzing := remove1 t (sy_analyzing s),
           sy_row := fst (run_scan_failure cfg (sy_now s) attempt e (sy_row s))\<rparr>)"
proof -
  from assms(1,2) have "sy_analyzing s = [t]" "lc_status (sy_row s) = RUNNING"
    by (auto simp: lc_inv_def one_run_def)
  moreover from this assms(1) have "sy_enriching s = 0" by (auto simp: inv_defs)
  moreover note run_ends_status [OF assms(3), of cfg "sy_now s" attempt "sy_row s"]
  ultimately show ?thesis by (simp add: lc_inv_def one_run_def enriching_late_def)
qed

lemma inv_enrichment_starts:
  assumes "lc_inv cfg s" and "start_enrichment (sy_row s) = (True, row)"
  shows "lc_inv cfg (s\<lparr>sy_row := row, sy_enriching := Suc (sy_enriching s)\<rparr>)"
  using assms(1) start_won_fields [OF assms(2)] by (auto simp: inv_defs)

lemma inv_enrichment_ends:
  assumes "lc_inv cfg s" and "sy_enriching s = Suc n"
  shows "lc_inv cfg (s\<lparr>sy_row := finish_enrichment e m (sy_row s), sy_enriching := n\<rparr>)"
  using assms by (auto simp: inv_defs)

lemma inv_reap:
  assumes "cfg_ok cfg" and "lc_inv cfg s"
  shows "lc_inv cfg (s\<lparr>sy_row := reap_scan cfg (sy_now s) (sy_row s)\<rparr>)"
proof (cases rule: reap_cases [of cfg "sy_now s" "sy_row s"])
  case 1
  then show ?thesis using assms(2) by (simp add: inv_defs)
next
  case 2
  then show ?thesis using assms by (auto simp: inv_defs before_time_def cfg_ok_def)
next
  case 3
  then show ?thesis using assms by (auto simp: inv_defs)
next
  case (4 e m)
  then show ?thesis using assms by (auto simp: inv_defs)
qed

lemma lc_inv_step: "lc_step cfg s s' \<Longrightarrow> cfg_ok cfg \<Longrightarrow> lc_inv cfg s \<Longrightarrow> lc_inv cfg s'"
proof (induction rule: lc_step.induct)
  case (tick d s) then show ?case by (intro inv_tick)
next
  case (deliver s) then show ?case by (simp add: inv_defs)
next
  case (claim_won s n row) then show ?case by (intro inv_claim)
next
  case (claim_lost s n row) then show ?case by (simp add: inv_defs)
next
  case (run_ends t s e attempt) then show ?case by (intro inv_run_ends)
next
  case (killed t s) then show ?case by (auto simp: inv_defs)
next
  case (enrichment_starts s row) then show ?case by (intro inv_enrichment_starts)
next
  case (enrichment_ends s n event status msg) then show ?case by (intro inv_enrichment_ends)
next
  case (reap s) then show ?case by (intro inv_reap)
qed

lemma lc_inv_steps: "(lc_step cfg)\<^sup>*\<^sup>* s s' \<Longrightarrow> cfg_ok cfg \<Longrightarrow> lc_inv cfg s \<Longrightarrow> lc_inv cfg s'"
  by (induction rule: rtranclp_induct) (auto intro: lc_inv_step)

lemma lc_inv_fresh: "lc_inv cfg (fresh_system now)"
  by (simp add: inv_defs fresh_system_def)

section \<open>Finished scans\<close>

definition finished :: "lc_system \<Rightarrow> bool" where
  "finished s \<longleftrightarrow> lc_status (sy_row s) \<in> {COMPLETED, PARTIAL}"

lemma finished_step:
  "lc_step cfg s s' \<Longrightarrow> lc_inv cfg s \<Longrightarrow> finished s \<Longrightarrow>
    lc_status (sy_row s') = lc_status (sy_row s) \<and> lc_partial (sy_row s') = lc_partial (sy_row s)"
proof (induction rule: lc_step.induct)
  case (claim_won s n row)
  then show ?case using claim_won_fields(1) by (fastforce simp: finished_def claimable_def)
next
  case (run_ends t s e attempt)
  then show ?case by (auto simp: finished_def lc_inv_def one_run_def)
next
  case (enrichment_starts s row)
  then show ?case using start_won_fields(1) by (fastforce simp: finished_def)
next
  case (enrichment_ends s n event status msg)
  then show ?case by (auto simp: finished_def lc_inv_def final_consistent_def)
next
  case (reap s)
  show ?case
  proof (cases rule: reap_cases [of cfg "sy_now s" "sy_row s"])
    case 1 then show ?thesis by simp
  qed (use reap(2) in \<open>auto simp: finished_def\<close>)
qed (auto simp: finished_def)

lemma finished_steps:
  assumes "(lc_step cfg)\<^sup>*\<^sup>* s s'" and "cfg_ok cfg" and "lc_inv cfg s" and "finished s"
  shows "lc_status (sy_row s') = lc_status (sy_row s) \<and> finished s' \<and> lc_inv cfg s'"
  using assms(1)
proof (induction rule: rtranclp_induct)
  case base
  then show ?case using assms by simp
next
  case (step y z)
  then show ?case using finished_step [of cfg y z] lc_inv_step [of cfg y z] assms(2)
    by (auto simp: finished_def)
qed

section \<open>A run of the system\<close>

definition lc_example_config :: lc_config where
  "lc_example_config = \<lparr>scan_timeout_seconds = 900, stale_job_grace_seconds = 300,
     llm_task_timeout_seconds = 1800, scan_max_retries = 2\<rparr>"

definition claimed_row :: "int \<Rightarrow> lc_scan" where
  "claimed_row now = snd (claim lc_example_config now (sy_row (fresh_system 0)))"

definition after_claim :: lc_system where
  "after_claim = \<lparr>sy_row = claimed_row 0, sy_now = 0, sy_readers = 0, sy_analyzing = [0], sy_enriching = 0\<rparr>"

lemma reach_claim: "(lc_step lc_example_config)\<^sup>*\<^sup>* (fresh_system 0) after_claim"
proof -
  have "lc_step lc_example_config (fresh_system 0) (fresh_system 0\<lparr>sy_readers := 1\<rparr>)" (is "lc_step _ ?a ?b")
    using lc_step.deliver [of "fresh_system 0"] by (simp add: fresh_system_def run_scan_entry_def)
  moreover have "claim lc_example_config (sy_now ?b) (sy_row ?b) = (True, claimed_row 0)"
    by (simp add: claimed_row_def claim_def claimable_def fresh_system_def)
  then have "lc_step lc_example_config ?b (?b\<lparr>sy_readers := 0, sy_row := claimed_row 0,
      sy_analyzing := sy_now ?b # sy_analyzing ?b\<rparr>)"
    by (intro lc_step.claim_won) (simp_all add: fresh_system_def)
  moreover have "?b\<lparr>sy_readers := 0, sy_row := claimed_row 0, sy_analyzing := sy_now ?b # sy_analyzing ?b\<rparr>
      = after_claim" by (simp add: fresh_system_def after_claim_def)
  ultimately show ?thesis by (metis converse_rtranclp_into_rtranclp rtranclp.rtrancl_refl)
qed

section \<open>Properties\<close>





text \<open>
  Enrichment never fails a scan.  Whatever the LLM stage does, a scan that was waiting
  for it ends complete, or partial when analyzers had failed, with no suggestion left generating
  and the stage's own result recorded; any other scan is left exactly as it was.
\<close>

theorem enrich_scan_final:
  "if lc_status scan \<in> {ANALYSIS_COMPLETE, ENRICHING}
   then lc_status (enrich_scan cfg event scan) = (if lc_partial scan then PARTIAL else COMPLETED)
     \<and> GENERATING \<notin> set (lc_fixes (enrich_scan cfg event scan))
     \<and> (\<exists>e \<in> {E_COMPLETED, E_PARTIAL, E_FAILED, E_SKIPPED}.
          lc_enrichment (enrich_scan cfg event scan) = Some e)
   else enrich_scan cfg event scan = scan"
proof -
  have run: "run_enrichment st rv = Some (e, ps) \<Longrightarrow> e \<in> {E_COMPLETED, E_PARTIAL, E_FAILED, E_SKIPPED}"
    for st rv e ps by (auto simp: run_enrichment_def Let_def split: option.splits if_splits)
  have "fst (enrich_result cfg event) \<in> {E_COMPLETED, E_PARTIAL, E_FAILED, E_SKIPPED}"
  proof (cases event)
    case (Ran st rv)
    then show ?thesis using run [of st rv]
      by (cases "run_enrichment st rv") (auto simp: enrich_result_def)
  qed (auto simp: enrich_result_def)
  then show ?thesis
    by (auto simp: enrich_scan_def start_enrichment_def finish_enrichment_def split: prod.splits)
qed

text \<open>
  A transient error in a delivery that has not claimed the scan puts the scan back in
  the queue although another run is analyzing it, so that a second run can claim and analyze it
  at the same time; it can also reopen a finished scan.  The duplicate-delivery protection of
  the claim does not survive this fault.
\<close>

theorem duplicate_delivery_fault:
  "(\<exists>s. (lc_fault_step lc_example_config)\<^sup>*\<^sup>* (fresh_system 0) s \<and> length (sy_analyzing s) = 2)
   \<and> (\<exists>s s'. (lc_fault_step lc_example_config)\<^sup>*\<^sup>* (fresh_system 0) s \<and> lc_status (sy_row s) = COMPLETED
        \<and> lc_fault_step lc_example_config s s' \<and> lc_status (sy_row s') = QUEUED)"
proof -
  let ?c = lc_example_config
  have lift: "(lc_fault_step ?c)\<^sup>*\<^sup>* s s'" if "(lc_step ?c)\<^sup>*\<^sup>* s s'" for s s'
    using that by (rule rtranclp_mono [THEN predicate2D, rotated]) (auto intro: lc_fault_step.ok)
  let ?queued = "fst (run_scan_failure ?c 0 0 (Transient_failure ''db'') (claimed_row 0))"
  let ?q = "after_claim\<lparr>sy_row := ?queued\<rparr>"
  have "lc_fault_step ?c after_claim ?q"
    using lc_fault_step.read_fails [of ?c after_claim 0 "''db''"] by (simp add: after_claim_def)
  moreover have st: "lc_status ?queued = QUEUED"
    by (simp add: run_scan_failure_def lc_example_config_def)
  have "lc_step ?c ?q (?q\<lparr>sy_readers := 1\<rparr>)"
    using lc_step.deliver [of ?q ?c] by (simp add: run_scan_entry_def st after_claim_def)
  moreover have "claim ?c 0 ?queued = (True, snd (claim ?c 0 ?queued))"
    by (simp add: claim_def claimable_def st)
  then have "lc_step ?c (?q\<lparr>sy_readers := 1\<rparr>) (?q\<lparr>sy_readers := 0, sy_row := snd (claim ?c 0 ?queued),
      sy_analyzing := [0, 0]\<rparr>)"
    using lc_step.claim_won [of "?q\<lparr>sy_readers := 1\<rparr>" 0 ?c "snd (claim ?c 0 ?queued)"]
    by (simp add: after_claim_def)
  ultimately have two: "(lc_fault_step ?c)\<^sup>*\<^sup>* (fresh_system 0) (?q\<lparr>sy_readers := 0,
      sy_row := snd (claim ?c 0 ?queued), sy_analyzing := [0, 0]\<rparr>)"
    using lift [OF reach_claim] by (meson lc_fault_step.ok rtranclp.rtrancl_into_rtrancl)
  let ?done = "after_claim\<lparr>sy_analyzing := [], sy_row := fst (run_scan_failure ?c 0 0
      (Persisted COMPLETED False E_SKIPPED) (claimed_row 0))\<rparr>"
  have "lc_step ?c after_claim ?done"
    using lc_step.run_ends [of 0 after_claim "Persisted COMPLETED False E_SKIPPED" ?c 0]
    by (simp add: after_claim_def persisted_ok_def)
  then have fin: "(lc_fault_step ?c)\<^sup>*\<^sup>* (fresh_system 0) ?done"
    using lift [OF reach_claim] by (meson lc_fault_step.ok rtranclp.rtrancl_into_rtrancl)
  have fin_status: "lc_status (sy_row ?done) = COMPLETED" by (simp add: run_scan_failure_def)
  have reopen: "lc_fault_step ?c ?done (?done\<lparr>sy_row := fst (run_scan_failure ?c (sy_now ?done) 0
      (Transient_failure ''db'') (sy_row ?done))\<rparr>)"
    by (rule lc_fault_step.read_fails)
  have "lc_status (fst (run_scan_failure ?c n 0 (Transient_failure ''db'') row)) = QUEUED" for n row
    by (simp add: run_scan_failure_def lc_example_config_def)
  then have queued: "lc_status (sy_row (?done\<lparr>sy_row := fst (run_scan_failure ?c (sy_now ?done) 0
      (Transient_failure ''db'') (sy_row ?done))\<rparr>)) = QUEUED" by simp
  have "length (sy_analyzing (?q\<lparr>sy_readers := 0, sy_row := snd (claim ?c 0 ?queued),
      sy_analyzing := [0, 0]\<rparr>)) = 2" by simp
  with two have first: "\<exists>s. (lc_fault_step ?c)\<^sup>*\<^sup>* (fresh_system 0) s \<and> length (sy_analyzing s) = 2"
    by (rule_tac exI) (rule conjI)
  have "\<exists>s s'. (lc_fault_step ?c)\<^sup>*\<^sup>* (fresh_system 0) s \<and> lc_status (sy_row s) = COMPLETED
        \<and> lc_fault_step ?c s s' \<and> lc_status (sy_row s') = QUEUED"
    by (rule exI, rule exI, intro conjI, rule fin, rule fin_status, rule reopen, rule queued)
  with first show ?thesis by (rule conjI)
qed

end
