(* ===== verification/Quotas.thy ===== *)
theory Quotas
  imports PyStr
begin

text \<open>
  Rate limits (\<open>services/quotas.py\<close>): tiers and limits, the client address behind trusted
  proxies, and the sliding window kept in a Redis sorted set by the Lua script.  Redis is not
  part of the repository: its four sorted-set commands are the record \<open>zset_ops\<close>, an
  argument of the model, and \<open>zset_ok\<close> states what the Redis documentation promises of them.
\<close>

section \<open>Tiers and limits\<close>

datatype tier = Anonymous | Free | Pro

datatype limit_name = Requests | Scans | Site_analyses | Pull_requests | Pr_previews | Llm_tokens

record quota_settings =
  q_anonymous :: "limit_name \<Rightarrow> int"
  q_free :: "limit_name \<Rightarrow> int"
  q_pro :: "limit_name \<Rightarrow> int"
  trusted_proxy_hops :: int

record quota_user =
  qu_id :: string
  qu_tier :: "string option"
  qu_override :: "limit_name \<Rightarrow> int option"

record quota_subject =
  qs_tier :: tier
  qs_key :: string
  qs_user :: "quota_user option"

text \<open>\<open>WINDOWS\<close>, in seconds; tokens have no sliding window.\<close>

fun WINDOWS :: "limit_name \<Rightarrow> int" where
  "WINDOWS Requests = 60"
| "WINDOWS Scans = 86400"
| "WINDOWS Site_analyses = 86400"
| "WINDOWS Pull_requests = 86400"
| "WINDOWS Pr_previews = 3600"
| "WINDOWS Llm_tokens = 0"

fun DESCRIPTIONS :: "limit_name \<Rightarrow> string" where
  "DESCRIPTIONS Requests = ''API requests per minute''"
| "DESCRIPTIONS Scans = ''scans per day''"
| "DESCRIPTIONS Site_analyses = ''site analyses per day''"
| "DESCRIPTIONS Pull_requests = ''pull requests per day''"
| "DESCRIPTIONS Pr_previews = ''pull request previews per hour''"
| "DESCRIPTIONS Llm_tokens = []"

text \<open>Anonymous clients have no pull requests and no previews, whatever the settings.\<close>

definition tier_defaults :: "quota_settings \<Rightarrow> tier \<Rightarrow> limit_name \<Rightarrow> int" where
  "tier_defaults settings t name =
     (case t of
        Anonymous \<Rightarrow> if name = Pull_requests \<or> name = Pr_previews then 0 else q_anonymous settings name
      | Free \<Rightarrow> q_free settings name
      | Pro \<Rightarrow> q_pro settings name)"

definition limit_for :: "quota_settings \<Rightarrow> quota_subject \<Rightarrow> limit_name \<Rightarrow> int" where
  "limit_for settings s name =
     (case Option.bind (qs_user s) (\<lambda>u. qu_override u name) of
        Some v \<Rightarrow> v | None \<Rightarrow> tier_defaults settings (qs_tier s) name)"

definition subject_for :: "quota_user option \<Rightarrow> string \<Rightarrow> quota_subject" where
  "subject_for user ip =
     (case user of
        None \<Rightarrow> \<lparr>qs_tier = Anonymous, qs_key = ''ip:'' @ ip, qs_user = None\<rparr>
      | Some u \<Rightarrow> \<lparr>qs_tier = (if qu_tier u = Some ''pro'' then Pro else Free),
                   qs_key = ''user:'' @ qu_id u, qs_user = Some u\<rparr>)"

text \<open>\<open>client_ip\<close>: the forwarded header, if any, and the address of the connection.\<close>

definition forwarded_addresses :: "string \<Rightarrow> string list" where
  "forwarded_addresses h = filter (\<lambda>a. a \<noteq> []) (map strip (split_on CHR '','' h))"

definition client_ip :: "quota_settings \<Rightarrow> string option \<Rightarrow> string option \<Rightarrow> string" where
  "client_ip settings forwarded peer =
     (let hops = trusted_proxy_hops settings;
          addresses = (case forwarded of None \<Rightarrow> [] | Some h \<Rightarrow> forwarded_addresses h);
          direct = (case peer of None \<Rightarrow> ''unknown'' | Some p \<Rightarrow> p)
      in if hops > 0 \<and> forwarded \<noteq> None \<and> forwarded \<noteq> Some [] \<and> int (length addresses) \<ge> hops
         then addresses ! (length addresses - nat hops) else direct)"

section \<open>Redis sorted sets\<close>

record 'z zset_ops =
  zremrangebyscore :: "int \<Rightarrow> int \<Rightarrow> 'z \<Rightarrow> 'z"
  zcard :: "'z \<Rightarrow> nat"
  zadd :: "int \<Rightarrow> string \<Rightarrow> 'z \<Rightarrow> 'z"
  zrange_first :: "'z \<Rightarrow> (string \<times> int) option"

text \<open>
  The documented behaviour, over the map from members to scores that a sorted set stands for:
  removal of a score range, cardinality, insertion or update of a member, and a member with the
  lowest score.
\<close>

definition zset_ok :: "'z zset_ops \<Rightarrow> ('z \<Rightarrow> (string \<rightharpoonup> int)) \<Rightarrow> bool" where
  "zset_ok ops scores \<longleftrightarrow>
     (\<forall>z. finite (dom (scores z)) \<and> zcard ops z = card (dom (scores z))) \<and>
     (\<forall>lo hi z. scores (zremrangebyscore ops lo hi z)
        = (\<lambda>m. case scores z m of None \<Rightarrow> None | Some s \<Rightarrow> if lo \<le> s \<and> s \<le> hi then None else Some s)) \<and>
     (\<forall>s m z. scores (zadd ops s m z) = (scores z)(m \<mapsto> s)) \<and>
     (\<forall>z. case zrange_first ops z of
            None \<Rightarrow> dom (scores z) = {}
          | Some (m, s) \<Rightarrow> scores z m = Some s \<and> (\<forall>m' s'. scores z m' = Some s' \<longrightarrow> s \<le> s'))"

section \<open>The sliding window\<close>

text \<open>\<open>member .. ':' .. i\<close> for \<open>i\<close> from \<open>1\<close> to \<open>cost\<close>.\<close>

definition member_name :: "string \<Rightarrow> nat \<Rightarrow> string" where
  "member_name member i = member @ '':'' @ show_nat i"

definition add_members :: "'z zset_ops \<Rightarrow> int \<Rightarrow> string \<Rightarrow> nat \<Rightarrow> 'z \<Rightarrow> 'z" where
  "add_members ops now member cost z =
     foldl (\<lambda>z i. zadd ops now (member_name member i) z) z [1..<Suc cost]"

text \<open>
  \<open>SLIDING_WINDOW_LUA\<close>, run atomically; the expiry it sets on the key is left out, since it
  only drops members that the next run would remove.  The result is the set and (allowed, count,
  oldest).
\<close>

definition SLIDING_WINDOW :: "'z zset_ops \<Rightarrow> 'z \<Rightarrow> int \<Rightarrow> int \<Rightarrow> int \<Rightarrow> string \<Rightarrow> nat \<Rightarrow> 'z \<times> bool \<times> nat \<times> int" where
  "SLIDING_WINDOW ops z now window limit member cost =
     (let z = zremrangebyscore ops 0 (now - window) z;
          count = zcard ops z;
          (z, count, allowed) =
            (if cost = 0 then (z, count, int count < limit)
             else if int (count + cost) \<le> limit then (add_members ops now member cost z, count + cost, True)
             else (z, count, False));
          oldest = (case zrange_first ops z of None \<Rightarrow> now | Some (_, s) \<Rightarrow> s)
      in (z, allowed, count, oldest))"

record limit_state =
  ls_name :: limit_name
  ls_limit :: int
  ls_used :: nat
  ls_reset_seconds :: int
  ls_allowed :: bool

text \<open>\<open>int(x)\<close> of a quotient truncates towards zero.\<close>

definition trunc_div :: "int \<Rightarrow> int \<Rightarrow> int" where
  "trunc_div a b = (if 0 \<le> a then a div b else - ((- a) div b))"

definition window_state ::
    "'z zset_ops \<Rightarrow> quota_settings \<Rightarrow> int \<Rightarrow> string \<Rightarrow> quota_subject \<Rightarrow> limit_name \<Rightarrow> nat \<Rightarrow> 'z \<Rightarrow> 'z \<times> limit_state" where
  "window_state ops settings now_ms member s name cost z =
     (let window = WINDOWS name; limit = limit_for settings s name;
          (z, allowed, count, oldest) =
            SLIDING_WINDOW ops z now_ms (window * 1000) limit member cost;
          reset = (if count \<noteq> 0
                   then max 1 (trunc_div (oldest + window * 1000 - now_ms) 1000 + 1) else 0)
      in (z, \<lparr>ls_name = name, ls_limit = limit, ls_used = count, ls_reset_seconds = reset,
              ls_allowed = allowed\<rparr>))"

record rate_limited =
  rl_message :: string
  rl_code :: string
  rl_retry_after :: int

text \<open>\<open>_format_reset\<close>; the clock texts \<open>%H:%M\<close> and \<open>%Y-%m-%d %H:%M\<close> are arguments.\<close>

definition format_reset :: "string \<Rightarrow> string \<Rightarrow> int \<Rightarrow> string" where
  "format_reset hhmm full seconds =
     (if seconds < 90 then ''in '' @ show_int seconds @ '' seconds''
      else if seconds < 5400
      then ''in '' @ show_int (py_round_int (of_int seconds / 60)) @ '' minutes ('' @ hhmm @ '' UTC)''
      else ''at '' @ full @ '' UTC'')"

definition tier_name :: "tier \<Rightarrow> string" where
  "tier_name t = (case t of Anonymous \<Rightarrow> ''anonymous'' | Free \<Rightarrow> ''free'' | Pro \<Rightarrow> ''pro'')"

text \<open>\<open>consume\<close>: the refusal or the state, the set, and the limits consumed so far.\<close>

definition consume ::
    "'z zset_ops \<Rightarrow> quota_settings \<Rightarrow> int \<Rightarrow> string \<Rightarrow> (int \<Rightarrow> string) \<Rightarrow> quota_subject \<Rightarrow> limit_name \<Rightarrow> nat
     \<Rightarrow> 'z \<times> limit_state list option \<Rightarrow> (rate_limited + limit_state) \<times> 'z \<times> limit_state list option" where
  "consume ops settings now_ms member fmt s name cost = (\<lambda>(z, consumed).
     let (z, state) = window_state ops settings now_ms member s name cost z;
         limit = limit_for settings s name;
         consumed = map_option (\<lambda>xs. xs @ [state]) consumed;
         who = (if qs_tier s = Anonymous \<and> name \<noteq> Pull_requests then '' Sign in for higher limits.'' else [])
     in if \<not> ls_allowed state then
          (Inl \<lparr>rl_message =
                 (if limit = 0 then ''Your plan doesn't include '' @ DESCRIPTIONS name @ ''.'' @ who
                  else ''Limit reached: '' @ show_int limit @ '' '' @ DESCRIPTIONS name @ '' (''
                       @ tier_name (qs_tier s) @ '' tier). It resets '' @ fmt (ls_reset_seconds state)
                       @ ''.'' @ who),
               rl_code = (if name \<noteq> Requests then ''quota_exceeded'' else ''rate_limited''),
               rl_retry_after = ls_reset_seconds state\<rparr>, z, consumed)
        else (Inr state, z, consumed))"

definition peek ::
    "'z zset_ops \<Rightarrow> quota_settings \<Rightarrow> int \<Rightarrow> string \<Rightarrow> quota_subject \<Rightarrow> limit_name \<Rightarrow> 'z \<Rightarrow> 'z \<times> limit_state" where
  "peek ops settings now_ms member s name = window_state ops settings now_ms member s name 0"

section \<open>Runs of requests\<close>

text \<open>One request against one key: its time, its fresh member and its cost.\<close>

type_synonym request = "int \<times> string \<times> nat"

text \<open>The set and the log of the admitted requests (time, cost).\<close>

fun run_requests ::
    "'z zset_ops \<Rightarrow> int \<Rightarrow> int \<Rightarrow> 'z \<Rightarrow> request list \<Rightarrow> (int \<times> nat) list" where
  "run_requests ops window limit z [] = []"
| "run_requests ops window limit z ((now, member, cost) # reqs) =
     (let (z', allowed, _, _) = SLIDING_WINDOW ops z now window limit member cost
      in (if allowed then [(now, cost)] else []) @ run_requests ops window limit z' reqs)"

text \<open>What is admitted in the window that ends at \<open>t\<close>.\<close>

definition admitted :: "(int \<times> nat) list \<Rightarrow> int \<Rightarrow> int \<Rightarrow> nat" where
  "admitted events lo hi = sum_list (map snd (filter (\<lambda>(t, _). lo < t \<and> t \<le> hi) events))"

end
