(* ===== verification/Quota_Props.thy ===== *)
theory Quota_Props
  imports Quotas
begin

text \<open>
  The sliding window admits at most its limit in every window of its length, whatever the times
  of the requests; a forwarded header cannot move a client to another address.
\<close>

section \<open>Members\<close>

lemma member_name_inject [simp]: "member_name a i = member_name b j \<longleftrightarrow> a = b \<and> i = j"
proof -
  have no: "CHR '':'' \<notin> set (show_nat k)" for k by (rule show_nat_no_sep) (simp add: is_digit_def code_def)
  have "before_last CHR '':'' (member_name a i) = a" "after_last CHR '':'' (member_name a i) = show_nat i" for a i
    using before_last_append [OF no] after_last_append [OF no] by (simp_all add: member_name_def)
  then show ?thesis by (metis show_nat_inject)
qed

definition names_of :: "string \<Rightarrow> nat \<Rightarrow> string set" where
  "names_of member cost = member_name member ` {1..cost}"

lemma scores_add_members:
  assumes "zset_ok ops scores"
  shows "scores (add_members ops now member cost z)
    = (\<lambda>m. if m \<in> names_of member cost then Some now else scores z m)"
proof (induction cost)
  case 0
  then show ?case by (simp add: add_members_def names_of_def)
next
  case (Suc cost)
  have "add_members ops now member (Suc cost) z
      = zadd ops now (member_name member (Suc cost)) (add_members ops now member cost z)"
    by (simp add: add_members_def)
  moreover have "names_of member (Suc cost) = insert (member_name member (Suc cost)) (names_of member cost)"
    by (simp add: names_of_def atLeastAtMostSuc_conv)
  ultimately show ?case using assms Suc by (auto simp: zset_ok_def fun_eq_iff)
qed

section \<open>The invariant of a key\<close>

definition newer :: "('z \<Rightarrow> (string \<rightharpoonup> int)) \<Rightarrow> 'z \<Rightarrow> int \<Rightarrow> string set" where
  "newer scores z lo = {m. \<exists>s. scores z m = Some s \<and> lo < s}"

definition window_inv ::
    "('z \<Rightarrow> (string \<rightharpoonup> int)) \<Rightarrow> int \<Rightarrow> 'z \<Rightarrow> (int \<times> nat) list \<Rightarrow> string set \<Rightarrow> int \<Rightarrow> bool" where
  "window_inv scores window z events used now \<longleftrightarrow>
     (\<forall>m s. scores z m = Some s \<longrightarrow> 0 \<le> s \<and> s \<le> now \<and> (\<exists>member \<in> used. \<exists>i. m = member_name member i))
     \<and> (\<forall>t c. (t, c) \<in> set events \<longrightarrow> t \<le> now)
     \<and> (\<forall>lo \<ge> now - window. card (newer scores z lo) = admitted events lo now)"

lemma admitted_append: "admitted (xs @ ys) lo hi = admitted xs lo hi + admitted ys lo hi"
  by (simp add: admitted_def)

lemma admitted_later:
  assumes "\<forall>t c. (t, c) \<in> set events \<longrightarrow> t \<le> now" and "now \<le> now'"
  shows "admitted events lo now' = admitted events lo now"
proof -
  have "filter (\<lambda>(t, _). lo < t \<and> t \<le> now') events = filter (\<lambda>(t, _). lo < t \<and> t \<le> now) events"
    using assms by (intro filter_cong) force+
  then show ?thesis by (simp add: admitted_def)
qed

lemma admitted_mono: "lo' \<le> lo \<Longrightarrow> hi \<le> hi' \<Longrightarrow> admitted events lo hi \<le> admitted events lo' hi'"
  by (induction events) (auto simp: admitted_def)

lemma finite_newer: "zset_ok ops scores \<Longrightarrow> finite (newer scores z lo)"
  by (rule finite_subset [of _ "dom (scores z)"]) (auto simp: newer_def zset_ok_def)

lemma zrem_scores:
  assumes "zset_ok ops scores" and "window_inv scores window z events used now"
  shows "scores (zremrangebyscore ops 0 oldest_kept z) m
    = (case scores z m of None \<Rightarrow> None | Some s \<Rightarrow> if s \<le> oldest_kept then None else Some s)"
proof -
  have "0 \<le> s" if "scores z m = Some s" for s using assms(2) that by (auto simp: window_inv_def)
  then show ?thesis using assms(1) by (auto simp: zset_ok_def split: option.split)
qed

text \<open>One request: the log grows as the window allows, and the invariant moves to its time.\<close>

lemma sliding_window_step:
  assumes ok: "zset_ok ops scores" and inv: "window_inv scores window z events used now"
    and later: "now \<le> now'" "0 \<le> now'" and fresh: "member \<notin> used" and pos: "0 < window"
    and step: "SLIDING_WINDOW ops z now' window limit member cost = (z', allowed, n_now, oldest)"
  shows "window_inv scores window z' (events @ (if allowed then [(now', cost)] else [])) (insert member used) now'"
    and "allowed \<Longrightarrow> 0 < cost \<Longrightarrow> int (admitted events (now' - window) now' + cost) \<le> limit"
proof -
  let ?z = "zremrangebyscore ops 0 (now' - window) z"
  note sz = zrem_scores [OF ok inv, of "now' - window"]
  have times: "\<forall>t c. (t, c) \<in> set events \<longrightarrow> t \<le> now" using inv by (simp add: window_inv_def)
  have newer_z: "newer scores ?z lo = newer scores z lo" if "now' - window \<le> lo" for lo
    using that by (auto simp: newer_def sz split: option.splits if_splits)
  have cnt: "card (newer scores ?z lo) = admitted events lo now'" if "now' - window \<le> lo" for lo
  proof -
    have "card (newer scores z lo) = admitted events lo now"
      using inv that later unfolding window_inv_def by simp
    then show ?thesis using newer_z [OF that] admitted_later [OF times later(1)] by simp
  qed
  have "newer scores ?z (now' - window) = dom (scores ?z)"
    by (auto simp: newer_def sz split: option.splits if_splits)
  then have card: "zcard ops ?z = admitted events (now' - window) now'"
    using cnt [of "now' - window"] ok by (simp add: zset_ok_def)
  have base: "\<forall>m s. scores ?z m = Some s \<longrightarrow> 0 \<le> s \<and> s \<le> now' \<and> (\<exists>b \<in> insert member used. \<exists>i. m = member_name b i)"
    using inv later by (force simp: window_inv_def sz split: option.splits if_splits)
  have times': "\<forall>t c. (t, c) \<in> set events \<longrightarrow> t \<le> now'" using times later by force
  have stay: "window_inv scores window ?z events (insert member used) now'"
    unfolding window_inv_def using base times' cnt by blast
  have zero: "window_inv scores window y (events @ [(now', 0)]) (insert member used) now'"
    if "window_inv scores window y events (insert member used) now'" for y
    using that by (auto simp: window_inv_def admitted_append) (simp add: admitted_def)
  have grow: "window_inv scores window (add_members ops now' member cost ?z) (events @ [(now', cost)])
      (insert member used) now'"
  proof -
    let ?y = "add_members ops now' member cost ?z"
    note sy = scores_add_members [OF ok, of now' member cost ?z]
    have disj: "newer scores ?z lo \<inter> names_of member cost = {}" for lo
    proof -
      have "\<exists>b \<in> used. \<exists>i. m = member_name b i" if "m \<in> newer scores ?z lo" for m
        using that inv by (force simp: newer_def sz window_inv_def split: option.splits if_splits)
      note old = this
      show ?thesis
      proof (rule ccontr)
        assume "\<not> ?thesis"
        then obtain m where m: "m \<in> newer scores ?z lo" "m \<in> names_of member cost" by blast
        obtain b i where "b \<in> used" "m = member_name b i" using old [OF m(1)] by blast
        moreover obtain j where "m = member_name member j" using m(2) by (auto simp: names_of_def)
        ultimately show False using fresh by simp
      qed
    qed
    have "card (newer scores ?y lo) = admitted (events @ [(now', cost)]) lo now'" if "now' - window \<le> lo" for lo
    proof -
      have n: "newer scores ?y lo = newer scores ?z lo \<union> (if lo < now' then names_of member cost else {})"
      proof (cases "lo < now'")
        case True
        then show ?thesis by (auto simp: newer_def sy)
      next
        case False
        then have "newer scores ?z lo = {}" using base by (force simp: newer_def)
        then show ?thesis using False by (auto simp: newer_def sy split: if_splits)
      qed
      have "card (names_of member cost) = cost"
        unfolding names_of_def by (subst card_image) (auto simp: inj_on_def)
      moreover have "finite (names_of member cost)" by (simp add: names_of_def)
      ultimately show ?thesis
        using n disj [of lo] cnt [OF that] finite_newer [OF ok, of ?z lo]
        by (auto simp: admitted_append card_Un_disjoint admitted_def)
    qed
    moreover have "\<forall>m s. scores ?y m = Some s \<longrightarrow> 0 \<le> s \<and> s \<le> now' \<and> (\<exists>b \<in> insert member used. \<exists>i. m = member_name b i)"
      using base later by (auto simp: sy names_of_def)
    ultimately show ?thesis unfolding window_inv_def using times' by auto
  qed
  show "window_inv scores window z' (events @ (if allowed then [(now', cost)] else [])) (insert member used) now'"
    using step stay zero [OF stay] grow
    by (cases "cost = 0"; cases allowed) (auto simp: SLIDING_WINDOW_def Let_def split: if_splits)
  show "allowed \<Longrightarrow> 0 < cost \<Longrightarrow> int (admitted events (now' - window) now' + cost) \<le> limit"
    using step card by (auto simp: SLIDING_WINDOW_def Let_def split: if_splits)
qed

definition within_limit :: "int \<Rightarrow> int \<Rightarrow> (int \<times> nat) list \<Rightarrow> bool" where
  "within_limit window limit events \<longleftrightarrow> (\<forall>t. int (admitted events (t - window) t) \<le> limit)"

lemma within_limit_snoc:
  assumes "within_limit window limit events" and "\<forall>t c. (t, c) \<in> set events \<longrightarrow> t \<le> now"
    and "0 < cost \<longrightarrow> int (admitted events (now - window) now + cost) \<le> limit"
  shows "within_limit window limit (events @ [(now, cost)])"
  unfolding within_limit_def
proof
  fix t
  have one: "admitted [(now, cost)] (t - window) t \<le> cost" by (simp add: admitted_def)
  show "int (admitted (events @ [(now, cost)]) (t - window) t) \<le> limit"
  proof (cases "now \<le> t \<and> 0 < cost")
    case True
    have "admitted events (t - window) t = admitted events (t - window) now"
      using True by (intro admitted_later assms(2)) simp
    also have "\<dots> \<le> admitted events (now - window) now" using True by (intro admitted_mono) auto
    finally show ?thesis using assms(3) True one by (simp add: admitted_append)
  next
    case False
    then have "admitted [(now, cost)] (t - window) t = 0" by (auto simp: admitted_def)
    then show ?thesis using assms(1) by (simp add: admitted_append within_limit_def)
  qed
qed

lemma run_requests_within:
  assumes "zset_ok ops scores" and "0 < window"
  shows "window_inv scores window z events used now \<Longrightarrow> within_limit window limit events \<Longrightarrow>
    sorted (now # map fst reqs) \<Longrightarrow> 0 \<le> now \<Longrightarrow> distinct (map (fst \<circ> snd) reqs) \<Longrightarrow>
    (fst \<circ> snd) ` set reqs \<inter> used = {} \<Longrightarrow>
    within_limit window limit (events @ run_requests ops window limit z reqs)"
proof (induction reqs arbitrary: z events used now)
  case (Cons r reqs)
  obtain now' member cost where r: "r = (now', member, cost)" by (cases r) auto
  obtain z' allowed n_now oldest where
    step: "SLIDING_WINDOW ops z now' window limit member cost = (z', allowed, n_now, oldest)"
    by (cases "SLIDING_WINDOW ops z now' window limit member cost") auto
  have pre: "now \<le> now'" "0 \<le> now'" "member \<notin> used" using Cons.prems r by auto
  note st = sliding_window_step [OF assms(1) Cons.prems(1) pre assms(2) step]
  let ?events = "events @ (if allowed then [(now', cost)] else [])"
  have times: "\<forall>t c. (t, c) \<in> set events \<longrightarrow> t \<le> now'"
    using Cons.prems(1) pre(1) by (force simp: window_inv_def)
  have "within_limit window limit ?events"
    using within_limit_snoc [OF Cons.prems(2) times, of cost] st(2) Cons.prems(2) by simp
  then have "within_limit window limit (?events @ run_requests ops window limit z' reqs)"
    using Cons.prems pre r by (intro Cons.IH [OF st(1)]) auto
  then show ?case by (simp add: r step)
qed simp

section \<open>Addresses\<close>

lemma split_on_append:
  "split_on c (xs @ c # ys) = split_on c xs @ split_on c ys"
proof (induction xs)
  case (Cons x xs)
  obtain p ps where "split_on c xs = p # ps" by (cases "split_on c xs") auto
  with Cons show ?case by auto
qed simp

lemma forwarded_append:
  "forwarded_addresses (xs @ CHR '','' # ys) = forwarded_addresses xs @ forwarded_addresses ys"
  by (simp add: forwarded_addresses_def split_on_append)

section \<open>A concrete sorted set\<close>

definition live :: "(string \<times> int) list \<Rightarrow> (string \<times> int) list" where
  "live z = filter (\<lambda>p. map_of z (fst p) = Some (snd p)) z"

definition list_zset :: "((string \<times> int) list) zset_ops" where
  "list_zset = \<lparr>zremrangebyscore = (\<lambda>lo hi z. filter (\<lambda>p. \<not> (lo \<le> snd p \<and> snd p \<le> hi)) (live z)),
     zcard = (\<lambda>z. card (fst ` set z)), zadd = (\<lambda>s m z. (m, s) # z),
     zrange_first = (\<lambda>z. case sort_key snd (live z) of [] \<Rightarrow> None | p # _ \<Rightarrow> Some p)\<rparr>"

lemma live_set: "(m, s) \<in> set (live z) \<longleftrightarrow> map_of z m = Some s"
  by (auto simp: live_def dest: map_of_SomeD)

lemma map_of_functional:
  "(\<And>m s s'. (m, s) \<in> set ps \<Longrightarrow> (m, s') \<in> set ps \<Longrightarrow> s = s') \<Longrightarrow>
    map_of ps m = Some s \<longleftrightarrow> (m, s) \<in> set ps"
  by (metis map_of_SomeD weak_map_of_SomeI)

lemma list_zset_ok: "zset_ok list_zset map_of"
  unfolding zset_ok_def
proof (intro conjI allI)
  fix z :: "(string \<times> int) list"
  show "finite (dom (map_of z))" by (rule finite_dom_map_of)
  show "zcard list_zset z = card (dom (map_of z))" by (simp add: list_zset_def dom_map_of_conv_image_fst)
  show "case zrange_first list_zset z of None \<Rightarrow> dom (map_of z) = {}
      | Some (m, s) \<Rightarrow> map_of z m = Some s \<and> (\<forall>m' s'. map_of z m' = Some s' \<longrightarrow> s \<le> s')"
  proof (cases "sort_key snd (live z)")
    case Nil
    then have "set (live z) = {}" by (metis set_sort set_empty)
    then have "map_of z m = None" for m using live_set [of m _ z] by (cases "map_of z m") auto
    then have "map_of z = Map.empty" by (intro ext) simp
    then show ?thesis using Nil by (simp add: list_zset_def)
  next
    case (Cons p ps)
    obtain m s where p: "p = (m, s)" by (cases p)
    have sorted: "sorted (map snd (p # ps))" unfolding Cons [symmetric] by (rule sorted_sort_key)
    have sets: "set (p # ps) = set (live z)" unfolding Cons [symmetric] by simp
    then have "map_of z m = Some s" using live_set p by (metis list.set_intros(1))
    moreover have "s \<le> s'" if "map_of z m' = Some s'" for m' s'
    proof -
      have "(m', s') \<in> set (p # ps)" using that live_set sets by blast
      then show ?thesis using sorted p by auto
    qed
    ultimately show ?thesis using Cons p by (simp add: list_zset_def)
  qed
next
  fix lo hi and z :: "(string \<times> int) list"
  show "map_of (zremrangebyscore list_zset lo hi z)
      = (\<lambda>m. case map_of z m of None \<Rightarrow> None | Some s \<Rightarrow> if lo \<le> s \<and> s \<le> hi then None else Some s)"
  proof
    fix m
    let ?ps = "filter (\<lambda>p. \<not> (lo \<le> snd p \<and> snd p \<le> hi)) (live z)"
    have iff: "map_of ?ps m = Some s \<longleftrightarrow> (m, s) \<in> set ?ps" for s
      by (rule map_of_functional) (auto simp: live_set)
    show "map_of (zremrangebyscore list_zset lo hi z) m
      = (case map_of z m of None \<Rightarrow> None | Some s \<Rightarrow> if lo \<le> s \<and> s \<le> hi then None else Some s)"
    proof (cases "map_of ?ps m")
      case None
      then have "(m, s) \<notin> set ?ps" for s using iff by simp
      then show ?thesis using None by (cases "map_of z m") (auto simp: list_zset_def live_set)
    next
      case (Some s)
      then have "(m, s) \<in> set ?ps" using iff by blast
      then show ?thesis using Some by (auto simp: list_zset_def live_set)
    qed
  qed
qed (simp_all add: list_zset_def)

section \<open>Properties\<close>

text \<open>
  C16: In no window of the limit's length are more events admitted than the limit, for any
  sequence of requests with a clock that does not run backwards: unlike a counter that is reset
  at fixed times, a burst around a boundary cannot double a quota.
\<close>

theorem sliding_window_bounds:
  assumes "zset_ok ops scores" and "scores z = Map.empty" and "0 < window" and "0 \<le> limit"
    and "sorted (0 # map fst reqs)" and "distinct (map (fst \<circ> snd) reqs)"
  shows "int (admitted (run_requests ops window limit z reqs) (t - window) t) \<le> limit"
proof -
  have "window_inv scores window z [] {} 0"
    using assms(2) by (simp add: window_inv_def newer_def admitted_def)
  moreover have "within_limit window limit []" using assms(4) by (simp add: within_limit_def admitted_def)
  ultimately have "within_limit window limit ([] @ run_requests ops window limit z reqs)"
    using assms by (intro run_requests_within [of ops scores window z "[]" "{}" 0]) auto
  then show ?thesis by (simp add: within_limit_def)
qed

theorem sliding_window_bounds_witness:
  "int (admitted (run_requests list_zset 60000 1 [] [(5, ''a'', 1), (59000, ''b'', 1), (61000, ''c'', 1)])
     (61000 - 60000) 61000) \<le> 1"
  by (rule sliding_window_bounds [OF list_zset_ok]) simp_all

text \<open>
  C17: A client cannot choose the address it is limited under: behind trusted proxies, whatever
  it puts in front of the addresses the proxies append has no influence, and without trusted
  proxies the header is ignored altogether.
\<close>

theorem client_ip_not_spoofable:
  "(0 < trusted_proxy_hops settings \<and> trusted_proxy_hops settings \<le> int (length (forwarded_addresses trusted))
      \<longrightarrow> client_ip settings (Some (spoofed @ CHR '','' # trusted)) peer = client_ip settings (Some trusted) peer)
   \<and> (trusted_proxy_hops settings \<le> 0 \<longrightarrow> client_ip settings forwarded peer = client_ip settings None peer)"
proof -
  let ?h = "nat (trusted_proxy_hops settings)"
  let ?s = "forwarded_addresses spoofed" and ?r = "forwarded_addresses trusted"
  have "(?s @ ?r) ! (length ?s + length ?r - ?h) = ?r ! (length ?r - ?h)" if "?h \<le> length ?r"
  proof -
    have "length ?s + length ?r - ?h = length ?s + (length ?r - ?h)" using that by simp
    then show ?thesis by (simp only: nth_append_length_plus)
  qed
  moreover have "trusted \<noteq> []" if "0 < trusted_proxy_hops settings"
    "trusted_proxy_hops settings \<le> int (length ?r)"
    using that by (auto simp: forwarded_addresses_def strip_def rstrip_by_def lstrip_by_def)
  ultimately show ?thesis
    by (auto simp: client_ip_def forwarded_append Let_def nat_le_iff)
qed

theorem client_ip_not_spoofable_witness:
  "client_ip \<lparr>q_anonymous = (\<lambda>_. 10), q_free = (\<lambda>_. 10), q_pro = (\<lambda>_. 10), trusted_proxy_hops = 1\<rparr>
     (Some (''6.6.6.6'' @ CHR '','' # '' 1.2.3.4'')) None
   = client_ip \<lparr>q_anonymous = (\<lambda>_. 10), q_free = (\<lambda>_. 10), q_pro = (\<lambda>_. 10), trusted_proxy_hops = 1\<rparr>
     (Some '' 1.2.3.4'') None"
proof -
  have "length (forwarded_addresses '' 1.2.3.4'') = 1" by code_simp
  then show ?thesis
    using client_ip_not_spoofable [of "\<lparr>q_anonymous = (\<lambda>_. 10), q_free = (\<lambda>_. 10), q_pro = (\<lambda>_. 10),
        trusted_proxy_hops = 1\<rparr>" "'' 1.2.3.4''" "''6.6.6.6''" None None] by simp
qed

end
