(* ===== verification/Llm_Ledger.thy ===== *)
theory Llm_Ledger
  imports PyStr
begin

text \<open>
  What an LLM call costs and who may make one: the price table (\<open>llm/pricing.py\<close>), the
  spend cap and kill switch (\<open>services/costs.py\<close>), and the client's ledger of calls
  (\<open>llm/client.py\<close>): reservation at the worst case before a call, settlement after it,
  retries, and one correction of unparsable output.  The API's answers, the owner of a subject
  and the first instant of the month are arguments.  Amounts are real numbers with the code's
  explicit rounding.
\<close>

section \<open>Prices\<close>

record model_price =
  input_per_mtok :: real
  output_per_mtok :: real

definition PRICES :: "(string \<times> model_price) list" where
  "PRICES =
    [(''claude-fable-5-1'', \<lparr>input_per_mtok = 10, output_per_mtok = 50\<rparr>),
     (''claude-fable-5'', \<lparr>input_per_mtok = 10, output_per_mtok = 50\<rparr>),
     (''claude-opus-5'', \<lparr>input_per_mtok = 5, output_per_mtok = 25\<rparr>),
     (''claude-opus-4-8'', \<lparr>input_per_mtok = 5, output_per_mtok = 25\<rparr>),
     (''claude-opus-4-7'', \<lparr>input_per_mtok = 5, output_per_mtok = 25\<rparr>),
     (''claude-opus-4-6'', \<lparr>input_per_mtok = 5, output_per_mtok = 25\<rparr>),
     (''claude-sonnet-5'', \<lparr>input_per_mtok = 2, output_per_mtok = 10\<rparr>),
     (''claude-sonnet-4-6'', \<lparr>input_per_mtok = 3, output_per_mtok = 15\<rparr>),
     (''claude-haiku-4-5'', \<lparr>input_per_mtok = 1, output_per_mtok = 5\<rparr>)]"

definition CACHE_WRITE_MULTIPLIER :: real where "CACHE_WRITE_MULTIPLIER = 125/100"
definition CACHE_READ_MULTIPLIER :: real where "CACHE_READ_MULTIPLIER = 1/10"

definition LOCAL_PREFIX :: string where "LOCAL_PREFIX = ''ollama/''"

definition is_local :: "string \<Rightarrow> bool" where
  "is_local model = starts_with LOCAL_PREFIX model"

definition is_priced :: "string \<Rightarrow> bool" where
  "is_priced model \<longleftrightarrow> model \<in> fst ` set PRICES \<or> is_local model"

definition cost_usd :: "string \<Rightarrow> nat \<Rightarrow> nat \<Rightarrow> nat \<Rightarrow> nat \<Rightarrow> real" where
  "cost_usd model inp out cache_creation cache_read =
     (case map_of PRICES model of
        None \<Rightarrow> 0
      | Some price \<Rightarrow>
          if is_local model then 0
          else py_round 6 ((inp * input_per_mtok price
                 + cache_creation * input_per_mtok price * CACHE_WRITE_MULTIPLIER
                 + cache_read * input_per_mtok price * CACHE_READ_MULTIPLIER
                 + out * output_per_mtok price) / 1000000))"

definition estimate_cost_usd :: "string \<Rightarrow> nat \<Rightarrow> nat \<Rightarrow> real" where
  "estimate_cost_usd model inp max_out =
     (if model \<in> fst ` set PRICES \<or> is_local model then cost_usd model inp max_out 0 0
      else let worst = first_max output_per_mtok (map snd PRICES)
           in py_round 6 ((inp * input_per_mtok worst + max_out * output_per_mtok worst) / 1000000))"

section \<open>Spend control\<close>

datatype spend_block = Switched_off string | Cap_reached

text \<open>\<open>blocked_reason\<close> over what it reads: the kill switch, the provider, the cap, today's spend.\<close>

definition blocked_reason :: "string option \<Rightarrow> bool \<Rightarrow> real \<Rightarrow> real \<Rightarrow> real \<Rightarrow> spend_block option" where
  "blocked_reason kill local_provider cap spent additional =
     (case kill of
        Some reason \<Rightarrow>
          if reason \<noteq> [] then Some (Switched_off reason)
          else if local_provider then None
          else if cap \<le> 0 \<or> spent + additional > cap then Some Cap_reached else None
      | None \<Rightarrow>
          if local_provider then None
          else if cap \<le> 0 \<or> spent + additional > cap then Some Cap_reached else None)"

datatype alert_level = Cap_alert | Threshold_alert

text \<open>\<open>check_spend_alerts\<close> up to the delivery: \<open>fired\<close> are the levels whose key is set today.\<close>

definition check_spend_alerts ::
    "real \<Rightarrow> real \<Rightarrow> real \<Rightarrow> alert_level list \<Rightarrow> (alert_level \<times> real \<times> real) option \<times> alert_level list" where
  "check_spend_alerts cap ratio spent fired =
     (if cap \<le> 0 then (None, fired)
      else
        let level = (if spent \<ge> cap then Some Cap_alert
                     else if spent \<ge> cap * ratio then Some Threshold_alert else None)
        in case level of
             None \<Rightarrow> (None, fired)
           | Some l \<Rightarrow> if l \<in> set fired then (None, fired)
                       else (Some (l, py_round 4 spent, cap), fired @ [l]))"

section \<open>The ledger\<close>

datatype subject = Scan_subject string | Site_subject string

record llm_usage =
  u_input :: nat
  u_output :: nat
  u_cache_creation :: nat
  u_cache_read :: nat

record llm_call =
  cl_subject :: subject
  cl_model :: string
  cl_usage :: llm_usage
  cl_cost :: real
  cl_pending :: bool
  cl_reserved :: nat
  cl_success :: bool
  cl_error :: "string option"
  cl_created_at :: int

record ledger =
  lg_calls :: "llm_call list"
  lg_now :: int
  lg_kill :: "string option"

record 'o llm_env =
  le_budget_scan :: nat
  le_budget_site :: nat
  le_owner :: "subject \<Rightarrow> 'o option"
  le_quota :: "'o option \<Rightarrow> nat"
  le_month_start :: "int \<Rightarrow> int"
  le_daily_cap :: real
  le_local :: bool
  le_max_retries :: nat
  le_max_output_tokens :: nat
  le_model :: string

definition no_usage :: llm_usage where
  "no_usage = \<lparr>u_input = 0, u_output = 0, u_cache_creation = 0, u_cache_read = 0\<rparr>"

definition usage_tokens :: "llm_usage \<Rightarrow> nat" where
  "usage_tokens u = u_input u + u_output u + u_cache_creation u + u_cache_read u"

definition subject_budget :: "'o llm_env \<Rightarrow> subject \<Rightarrow> nat" where
  "subject_budget env s = (case s of Scan_subject _ \<Rightarrow> le_budget_scan env | Site_subject _ \<Rightarrow> le_budget_site env)"

text \<open>\<open>tokens_used\<close>: finished calls at what they used, pending ones at their reservation.\<close>

definition tokens_used :: "llm_call list \<Rightarrow> subject \<Rightarrow> nat" where
  "tokens_used calls s =
     sum_list (map (usage_tokens \<circ> cl_usage) (filter (\<lambda>c. cl_subject c = s \<and> \<not> cl_pending c) calls))
     + sum_list (map cl_reserved (filter (\<lambda>c. cl_subject c = s \<and> cl_pending c) calls))"

text \<open>\<open>_call_tokens\<close> and the two monthly sums of \<open>quotas.py\<close>.\<close>

definition call_tokens :: "llm_call \<Rightarrow> nat" where
  "call_tokens c = usage_tokens (cl_usage c) + (if cl_pending c then cl_reserved c else 0)"

definition tokens_this_month :: "'o llm_env \<Rightarrow> int \<Rightarrow> llm_call list \<Rightarrow> 'o option \<Rightarrow> nat" where
  "tokens_this_month env now calls owner =
     sum_list (map call_tokens (filter (\<lambda>c. le_owner env (cl_subject c) = owner
       \<and> le_month_start env now \<le> cl_created_at c) calls))"

definition day_start :: "int \<Rightarrow> int" where
  "day_start now = now - now mod 86400"

definition spend_today :: "int \<Rightarrow> llm_call list \<Rightarrow> real" where
  "spend_today now calls = sum_list (map cl_cost (filter (\<lambda>c. day_start now \<le> cl_created_at c) calls))"

datatype refusal = Budget_exceeded | Quota_exceeded | Spend_blocked spend_block

definition refusal_type :: "refusal \<Rightarrow> string" where
  "refusal_type r = (case r of Budget_exceeded \<Rightarrow> ''budget_exceeded''
     | Quota_exceeded \<Rightarrow> ''quota_exceeded'' | Spend_blocked _ \<Rightarrow> ''spend_cap'')"

definition reserve_refusal :: "'o llm_env \<Rightarrow> ledger \<Rightarrow> subject \<Rightarrow> nat \<Rightarrow> nat \<Rightarrow> refusal option" where
  "reserve_refusal env l s input_tokens max_tokens =
     (let reserve = input_tokens + max_tokens;
          estimate = estimate_cost_usd (le_model env) input_tokens max_tokens
      in if tokens_used (lg_calls l) s + reserve > subject_budget env s then Some Budget_exceeded
         else if tokens_this_month env (lg_now l) (lg_calls l) (le_owner env s) + reserve
                   > le_quota env (le_owner env s) then Some Quota_exceeded
         else map_option Spend_blocked
                (blocked_reason (lg_kill l) (le_local env) (le_daily_cap env)
                   (spend_today (lg_now l) (lg_calls l)) estimate))"

text \<open>\<open>_reserve\<close>, one transaction under the advisory lock; a call's id is its place in the ledger.\<close>

definition reserve :: "'o llm_env \<Rightarrow> ledger \<Rightarrow> subject \<Rightarrow> nat \<Rightarrow> nat \<Rightarrow> (refusal + nat) \<times> ledger" where
  "reserve env l s input_tokens max_tokens =
     (let refusal = reserve_refusal env l s input_tokens max_tokens;
          refused = (refusal \<noteq> None);
          call = \<lparr>cl_subject = s, cl_model = le_model env, cl_usage = no_usage,
                  cl_cost = (if refused then 0 else estimate_cost_usd (le_model env) input_tokens max_tokens),
                  cl_pending = (\<not> refused),
                  cl_reserved = (if refused then 0 else input_tokens + max_tokens),
                  cl_success = False, cl_error = map_option refusal_type refusal,
                  cl_created_at = lg_now l\<rparr>
      in (case refusal of Some r \<Rightarrow> Inl r | None \<Rightarrow> Inr (length (lg_calls l)),
          l\<lparr>lg_calls := lg_calls l @ [call]\<rparr>))"

text \<open>\<open>_finish\<close>: \<open>None\<close> of the usage leaves the token columns as they are.\<close>

definition finish_call :: "bool \<Rightarrow> string option \<Rightarrow> llm_usage option \<Rightarrow> llm_call \<Rightarrow> llm_call" where
  "finish_call success error usage call =
     (let u = (case usage of None \<Rightarrow> cl_usage call | Some u \<Rightarrow> u)
      in call\<lparr>cl_success := success, cl_error := error, cl_usage := u, cl_pending := False,
              cl_cost := cost_usd (cl_model call) (u_input u) (u_output u) (u_cache_creation u) (u_cache_read u)\<rparr>)"

definition update_call :: "nat \<Rightarrow> (llm_call \<Rightarrow> llm_call) \<Rightarrow> ledger \<Rightarrow> ledger" where
  "update_call i f l =
     (if i < length (lg_calls l) then l\<lparr>lg_calls := (lg_calls l)[i := f (lg_calls l ! i)]\<rparr> else l)"

definition finish :: "nat \<Rightarrow> bool \<Rightarrow> string option \<Rightarrow> llm_usage option \<Rightarrow> ledger \<Rightarrow> ledger" where
  "finish i success error usage l = update_call i (finish_call success error usage) l"

definition mark_failed :: "nat \<Rightarrow> string \<Rightarrow> ledger \<Rightarrow> ledger" where
  "mark_failed i error l = update_call i (\<lambda>c. c\<lparr>cl_success := False, cl_error := Some error\<rparr>) l"

definition record_unsent_failure :: "'o llm_env \<Rightarrow> subject \<Rightarrow> ledger \<Rightarrow> ledger" where
  "record_unsent_failure env s l =
     l\<lparr>lg_calls := lg_calls l @ [\<lparr>cl_subject = s, cl_model = le_model env, cl_usage = no_usage,
        cl_cost = 0, cl_pending = False, cl_reserved = 0, cl_success = False,
        cl_error = Some ''api_error'', cl_created_at = lg_now l\<rparr>]\<rparr>"

section \<open>Requests\<close>

text \<open>
  \<open>_with_retries\<close>: attempt \<open>k\<close> of the operation gives a result, or an error and whether
  it is retryable.
\<close>

function with_retries :: "nat \<Rightarrow> (nat \<Rightarrow> ('e \<times> bool) + 'a) \<Rightarrow> nat \<Rightarrow> ('e + 'a) \<times> nat" where
  "with_retries max_retries op attempts =
     (case op (Suc attempts) of
        Inr r \<Rightarrow> (Inr r, Suc attempts)
      | Inl (e, retryable) \<Rightarrow>
          if \<not> retryable \<or> Suc attempts > max_retries then (Inl e, Suc attempts)
          else with_retries max_retries op (Suc attempts))"
  by pat_completeness auto
termination by (relation "measure (\<lambda>(m, _, a). Suc m - a)") auto

declare with_retries.simps [simp del]

text \<open>\<open>_retry_delay\<close>: the parsed Retry-After header, if there is one, and the jitter.\<close>

definition retry_delay :: "real \<Rightarrow> real option \<Rightarrow> nat \<Rightarrow> real \<Rightarrow> real" where
  "retry_delay cap retry_after attempt jitter =
     (case retry_after of
        Some r \<Rightarrow> min cap (max 0 r)
      | None \<Rightarrow> min cap (2 ^ (attempt - 1) + jitter))"

text \<open>The error of the last attempt, as \<open>_complete\<close> classifies it, with its message.\<close>

datatype api_failure =
    Ollama_failure string string
  | Rate_limited string
  | Connection_error string
  | Other_api_error string

fun failure_kind :: "api_failure \<Rightarrow> string" where
  "failure_kind (Ollama_failure kind _) = kind"
| "failure_kind (Rate_limited _) = ''rate_limited''"
| "failure_kind (Connection_error _) = ''connection_error''"
| "failure_kind (Other_api_error _) = ''api_error''"

datatype stop_reason = Stop_refusal | Stop_max_tokens | Stop_other

record llm_response =
  rp_usage :: llm_usage
  rp_text :: string
  rp_stop :: stop_reason

datatype llm_error = Refused refusal | Request_failed api_failure | Model_refusal | Output_error string

text \<open>One exchange: the outcomes of the attempts to count tokens and to create the message.\<close>

record exchange =
  ex_count :: "nat \<Rightarrow> (api_failure \<times> bool) + nat"
  ex_create :: "nat \<Rightarrow> (api_failure \<times> bool) + llm_response"

definition complete ::
    "'o llm_env \<Rightarrow> subject \<Rightarrow> nat option \<Rightarrow> exchange \<Rightarrow> ledger \<Rightarrow> (llm_error + string \<times> nat) \<times> ledger" where
  "complete env s max_tokens ex l =
     (let max_tokens = (case max_tokens of None \<Rightarrow> le_max_output_tokens env
                        | Some m \<Rightarrow> if m = 0 then le_max_output_tokens env else m)
      in case fst (with_retries (le_max_retries env) (ex_count ex) 0) of
           Inl e \<Rightarrow> (Inl (Request_failed e), record_unsent_failure env s l)
         | Inr counted \<Rightarrow>
             (case reserve env l s counted max_tokens of
                (Inl r, l) \<Rightarrow> (Inl (Refused r), l)
              | (Inr i, l) \<Rightarrow>
                  (case fst (with_retries (le_max_retries env) (ex_create ex) 0) of
                     Inl e \<Rightarrow> (Inl (Request_failed e), finish i False (Some (failure_kind e)) None l)
                   | Inr resp \<Rightarrow>
                       (case rp_stop resp of
                          Stop_refusal \<Rightarrow>
                            (Inl Model_refusal, finish i False (Some ''refusal'') (Some (rp_usage resp)) l)
                        | Stop_max_tokens \<Rightarrow>
                            (Inl (Output_error ''max_tokens''),
                             finish i False (Some ''max_tokens'') (Some (rp_usage resp)) l)
                        | Stop_other \<Rightarrow>
                            (Inr (rp_text resp, i), finish i True None (Some (rp_usage resp)) l)))))"

text \<open>\<open>generate_json\<close>: at most one correction round after unparsable output.\<close>

definition generate_json ::
    "'o llm_env \<Rightarrow> subject \<Rightarrow> nat option \<Rightarrow> (string \<Rightarrow> string + 'a) \<Rightarrow> exchange \<Rightarrow> exchange \<Rightarrow> ledger
     \<Rightarrow> (llm_error + 'a \<times> nat) \<times> ledger" where
  "generate_json env s max_tokens parse ex1 ex2 l =
     (case complete env s max_tokens ex1 l of
        (Inl e, l) \<Rightarrow> (Inl e, l)
      | (Inr (text, i), l) \<Rightarrow>
          (case parse text of
             Inr v \<Rightarrow> (Inr (v, i), l)
           | Inl _ \<Rightarrow>
               let l = mark_failed i ''invalid_output'' l
               in (case complete env s max_tokens ex2 l of
                     (Inl e, l) \<Rightarrow> (Inl e, l)
                   | (Inr (text, j), l) \<Rightarrow>
                       (case parse text of
                          Inr v \<Rightarrow> (Inr (v, j), l)
                        | Inl m \<Rightarrow> (Inl (Output_error m), mark_failed j ''invalid_output'' l)))))"

section \<open>Interleavings\<close>

text \<open>
  The documented behaviour of the API for one call: the input it bills is at most what it counted
  before, the output at most the limit it was given, and the client, which never asks for prompt
  caching, is billed no cache writes.
\<close>

definition usage_within :: "llm_call \<Rightarrow> llm_usage \<Rightarrow> bool" where
  "usage_within c u \<longleftrightarrow> u_cache_creation u = 0 \<and>
     (\<exists>counted max_out. cl_reserved c = counted + max_out
        \<and> cl_cost c = estimate_cost_usd (cl_model c) counted max_out
        \<and> u_input u + u_cache_read u \<le> counted \<and> u_output u \<le> max_out)"

text \<open>Any number of workers: their reservations and settlements interleave, the clock advances.\<close>

inductive ledger_step :: "'o llm_env \<Rightarrow> ledger \<Rightarrow> ledger \<Rightarrow> bool" for env where
  reserves: "ledger_step env l (snd (reserve env l s input_tokens max_tokens))"
| settles: "i < length (lg_calls l) \<Longrightarrow> cl_pending (lg_calls l ! i) \<Longrightarrow> usage_within (lg_calls l ! i) u
    \<Longrightarrow> ledger_step env l (finish i ok err (Some u) l)"
| fails: "i < length (lg_calls l) \<Longrightarrow> cl_pending (lg_calls l ! i)
    \<Longrightarrow> ledger_step env l (finish i False err None l)"
| marks: "ledger_step env l (mark_failed i err l)"
| unsent: "ledger_step env l (record_unsent_failure env s l)"
| time_passes: "lg_now l \<le> t \<Longrightarrow> ledger_step env l (l\<lparr>lg_now := t\<rparr>)"
| operator: "ledger_step env l (l\<lparr>lg_kill := k\<rparr>)"

end
