(* ===== verification/Llm_Ledger_Props.thy ===== *)
theory Llm_Ledger_Props
  imports Llm_Ledger
begin

text \<open>
  The ledger keeps its three promises under every interleaving of reservations and settlements:
  the token budget of a subject, the monthly quota of an owner and the daily spend cap.
\<close>

section \<open>Costs\<close>

lemma prices_nonneg:
  assumes "map_of PRICES m = Some p"
  shows "0 \<le> input_per_mtok p" "0 \<le> output_per_mtok p"
  using map_of_SomeD [OF assms] by (auto simp: PRICES_def)

lemma worst_price: "first_max output_per_mtok (map snd PRICES) \<in> set (map snd PRICES)"
  by (rule first_max_in) (simp add: PRICES_def)

lemma cost_nonneg: "0 \<le> cost_usd m i out cc cr"
proof (cases "map_of PRICES m")
  case (Some p)
  then show ?thesis using prices_nonneg [OF Some]
    by (auto simp: cost_usd_def CACHE_WRITE_MULTIPLIER_def CACHE_READ_MULTIPLIER_def intro!: py_round_nonneg)
qed (simp add: cost_usd_def)

lemma estimate_nonneg: "0 \<le> estimate_cost_usd m i out"
proof -
  have "0 \<le> input_per_mtok p \<and> 0 \<le> output_per_mtok p" if "p \<in> set (map snd PRICES)" for p
    using that by (auto simp: PRICES_def)
  from this [OF worst_price] show ?thesis
    by (auto simp: estimate_cost_usd_def Let_def cost_nonneg intro!: py_round_nonneg)
qed

lemma cost_le_estimate:
  assumes "i + cr \<le> counted" and "out \<le> max_out"
  shows "cost_usd m i out 0 cr \<le> estimate_cost_usd m counted max_out"
proof (cases "map_of PRICES m")
  case None
  then show ?thesis using estimate_nonneg by (simp add: cost_usd_def)
next
  case (Some p)
  have known: "m \<in> fst ` set PRICES" using map_of_SomeD [OF Some] by force
  have le: "i * input_per_mtok p + cr * input_per_mtok p * CACHE_READ_MULTIPLIER + out * output_per_mtok p
      \<le> counted * input_per_mtok p + max_out * output_per_mtok p"
  proof -
    have "i * input_per_mtok p + cr * input_per_mtok p * CACHE_READ_MULTIPLIER
        \<le> (real i + real cr) * input_per_mtok p"
      using prices_nonneg(1) [OF Some] by (simp add: CACHE_READ_MULTIPLIER_def distrib_right)
    also have "\<dots> \<le> counted * input_per_mtok p"
      using assms(1) prices_nonneg(1) [OF Some] by (intro mult_right_mono) linarith+
    finally show ?thesis
      using assms(2) prices_nonneg(2) [OF Some] by (intro add_mono mult_right_mono) auto
  qed
  then show ?thesis using known Some
    by (auto simp: estimate_cost_usd_def cost_usd_def intro!: py_round_mono divide_right_mono)
qed

lemma local_estimate: "is_local m \<Longrightarrow> estimate_cost_usd m i out = 0"
  by (simp add: estimate_cost_usd_def cost_usd_def split: option.split)

section \<open>Sums over the ledger\<close>

text \<open>Each of the three sums is a sum of a weight over all calls.\<close>

definition weigh :: "('a \<Rightarrow> bool) \<Rightarrow> ('a \<Rightarrow> 'b::comm_monoid_add) \<Rightarrow> 'a \<Rightarrow> 'b" where
  "weigh P f x = (if P x then f x else 0)"

lemma sum_filter_weigh: "sum_list (map f (filter P xs)) = sum_list (map (weigh P f) xs)"
  by (induction xs) (simp_all add: weigh_def)

lemma sum_list_update_le:
  fixes g :: "'a \<Rightarrow> 'b::ordered_comm_monoid_add"
  shows "g y \<le> g (xs ! i) \<Longrightarrow> sum_list (map g (xs[i := y])) \<le> sum_list (map g xs)"
proof (induction xs arbitrary: i)
  case (Cons x xs)
  then show ?case by (cases i) (auto intro: add_mono)
qed simp

lemma sum_list_le_each:
  fixes g h :: "'a \<Rightarrow> 'b::ordered_comm_monoid_add"
  shows "(\<And>x. x \<in> set xs \<Longrightarrow> g x \<le> h x) \<Longrightarrow> sum_list (map g xs) \<le> sum_list (map h xs)"
  by (induction xs) (auto intro: add_mono)

definition used_weight :: "subject \<Rightarrow> llm_call \<Rightarrow> nat" where
  "used_weight s c = (if cl_subject c = s then (if cl_pending c then cl_reserved c else usage_tokens (cl_usage c)) else 0)"

lemma tokens_used_weight: "tokens_used calls s = sum_list (map (used_weight s) calls)"
  unfolding tokens_used_def sum_filter_weigh
  by (induction calls) (auto simp: weigh_def used_weight_def)

definition month_weight :: "'o llm_env \<Rightarrow> int \<Rightarrow> 'o option \<Rightarrow> llm_call \<Rightarrow> nat" where
  "month_weight env now owner =
     weigh (\<lambda>c. le_owner env (cl_subject c) = owner \<and> le_month_start env now \<le> cl_created_at c) call_tokens"

lemma tokens_month_weight: "tokens_this_month env now calls owner = sum_list (map (month_weight env now owner) calls)"
  by (simp add: tokens_this_month_def sum_filter_weigh month_weight_def)

definition day_weight :: "int \<Rightarrow> llm_call \<Rightarrow> real" where
  "day_weight now = weigh (\<lambda>c. day_start now \<le> cl_created_at c) cl_cost"

lemma spend_today_weight: "spend_today now calls = sum_list (map (day_weight now) calls)"
  by (simp add: spend_today_def sum_filter_weigh day_weight_def)

section \<open>The invariant\<close>

text \<open>Calls as the client writes them: no negative cost, and nothing used while pending.\<close>

definition call_ok :: "llm_call \<Rightarrow> bool" where
  "call_ok c \<longleftrightarrow> 0 \<le> cl_cost c \<and> (cl_pending c \<longrightarrow> cl_usage c = no_usage)"

definition llm_env_ok :: "'o llm_env \<Rightarrow> bool" where
  "llm_env_ok env \<longleftrightarrow> mono (le_month_start env) \<and> (le_local env \<longrightarrow> is_local (le_model env))"

definition bounded :: "'o llm_env \<Rightarrow> ledger \<Rightarrow> bool" where
  "bounded env l \<longleftrightarrow> (\<forall>s. tokens_used (lg_calls l) s \<le> subject_budget env s)
     \<and> (\<forall>owner. tokens_this_month env (lg_now l) (lg_calls l) owner \<le> le_quota env owner)
     \<and> spend_today (lg_now l) (lg_calls l) \<le> max 0 (le_daily_cap env)"

definition ledger_inv :: "'o llm_env \<Rightarrow> ledger \<Rightarrow> bool" where
  "ledger_inv env l \<longleftrightarrow> (\<forall>c \<in> set (lg_calls l). call_ok c) \<and> bounded env l"

lemma day_start_mono: "now \<le> t \<Longrightarrow> day_start now \<le> day_start t"
proof -
  have "day_start n = 86400 * (n div 86400)" for n
    by (simp add: day_start_def minus_mod_eq_mult_div)
  moreover assume "now \<le> t"
  ultimately show ?thesis by (simp add: zdiv_mono1)
qed

text \<open>Adding a call that weighs nothing, or that the three checks allow.\<close>

lemma inv_append:
  assumes "ledger_inv env l" and "call_ok c"
    and "\<And>s. used_weight s c + tokens_used (lg_calls l) s \<le> subject_budget env s"
    and "\<And>owner. month_weight env (lg_now l) owner c + tokens_this_month env (lg_now l) (lg_calls l) owner
            \<le> le_quota env owner"
    and "day_weight (lg_now l) c + spend_today (lg_now l) (lg_calls l) \<le> max 0 (le_daily_cap env)"
  shows "ledger_inv env (l\<lparr>lg_calls := lg_calls l @ [c]\<rparr>)"
  using assms
  by (simp add: ledger_inv_def bounded_def tokens_used_weight tokens_month_weight spend_today_weight add.commute)

lemma inv_update:
  assumes inv: "ledger_inv env l" and "i < length (lg_calls l)"
    and ok: "call_ok (f (lg_calls l ! i))"
    and "\<And>s. used_weight s (f (lg_calls l ! i)) \<le> used_weight s (lg_calls l ! i)"
    and "\<And>owner. month_weight env (lg_now l) owner (f (lg_calls l ! i)) \<le> month_weight env (lg_now l) owner (lg_calls l ! i)"
    and "day_weight (lg_now l) (f (lg_calls l ! i)) \<le> day_weight (lg_now l) (lg_calls l ! i)"
  shows "ledger_inv env (update_call i f l)"
proof -
  let ?y = "f (lg_calls l ! i)"
  have "\<forall>c \<in> set ((lg_calls l)[i := ?y]). call_ok c"
    using inv ok set_update_subset_insert [of "lg_calls l" i ?y] by (auto simp: ledger_inv_def)
  moreover have "tokens_used ((lg_calls l)[i := ?y]) s \<le> subject_budget env s" for s
    using sum_list_update_le [of "used_weight s" ?y "lg_calls l" i] assms(4) [of s] inv
    unfolding ledger_inv_def bounded_def tokens_used_weight by (meson order_trans)
  moreover have "tokens_this_month env (lg_now l) ((lg_calls l)[i := ?y]) owner \<le> le_quota env owner" for owner
    using sum_list_update_le [of "month_weight env (lg_now l) owner" ?y "lg_calls l" i] assms(5) [of owner] inv
    unfolding ledger_inv_def bounded_def tokens_month_weight by (meson order_trans)
  moreover have "spend_today (lg_now l) ((lg_calls l)[i := ?y]) \<le> max 0 (le_daily_cap env)"
    using sum_list_update_le [of "day_weight (lg_now l)" ?y "lg_calls l" i] assms(6) inv
    unfolding ledger_inv_def bounded_def spend_today_weight by (meson order_trans)
  ultimately show ?thesis using assms(2) by (simp add: update_call_def ledger_inv_def bounded_def)
qed

lemma weights_zero:
  "used_weight s c = 0" "month_weight env now owner c = 0" "day_weight now c = 0"
  if "cl_reserved c = 0" "usage_tokens (cl_usage c) = 0" "cl_cost c = 0"
  using that by (simp_all add: used_weight_def month_weight_def day_weight_def weigh_def call_tokens_def)

lemma inv_append_zero:
  assumes "ledger_inv env l" and "call_ok c" and "cl_reserved c = 0" "usage_tokens (cl_usage c) = 0" "cl_cost c = 0"
  shows "ledger_inv env (l\<lparr>lg_calls := lg_calls l @ [c]\<rparr>)"
  using assms by (intro inv_append) (auto simp: weights_zero [OF assms(3-5)] ledger_inv_def bounded_def)

lemma inv_reserve:
  assumes "llm_env_ok env" and "ledger_inv env l"
  shows "ledger_inv env (snd (reserve env l s input_tokens max_tokens))"
proof (cases "reserve_refusal env l s input_tokens max_tokens")
  case (Some r)
  then show ?thesis
    by (simp add: reserve_def Let_def) (rule inv_append_zero [OF assms(2)];
        simp add: call_ok_def no_usage_def usage_tokens_def)
next
  case None
  let ?est = "estimate_cost_usd (le_model env) input_tokens max_tokens"
  let ?c = "\<lparr>cl_subject = s, cl_model = le_model env, cl_usage = no_usage, cl_cost = ?est,
     cl_pending = True, cl_reserved = input_tokens + max_tokens, cl_success = False,
     cl_error = None, cl_created_at = lg_now l\<rparr>"
  have none: "usage_tokens no_usage = 0" by (simp add: usage_tokens_def no_usage_def)
  note checks = None [unfolded reserve_refusal_def Let_def]
  have b: "tokens_used (lg_calls l) s + (input_tokens + max_tokens) \<le> subject_budget env s"
    using checks by (simp split: if_splits)
  have q: "tokens_this_month env (lg_now l) (lg_calls l) (le_owner env s) + (input_tokens + max_tokens)
      \<le> le_quota env (le_owner env s)"
    using checks by (simp split: if_splits)
  have blocked: "blocked_reason (lg_kill l) (le_local env) (le_daily_cap env)
      (spend_today (lg_now l) (lg_calls l)) ?est = None"
    using checks by (simp split: if_splits)
  have spend: "?est + spend_today (lg_now l) (lg_calls l) \<le> max 0 (le_daily_cap env)"
  proof (cases "le_local env")
    case True
    then have "?est = 0" using assms(1) local_estimate by (simp add: llm_env_ok_def)
    then show ?thesis using assms(2) by (simp add: ledger_inv_def bounded_def)
  next
    case False
    then show ?thesis using blocked by (auto simp: blocked_reason_def split: option.splits if_splits)
  qed
  have "ledger_inv env (l\<lparr>lg_calls := lg_calls l @ [?c]\<rparr>)"
  proof (rule inv_append [OF assms(2)])
    show "call_ok ?c" by (simp add: call_ok_def estimate_nonneg)
    show "used_weight s' ?c + tokens_used (lg_calls l) s' \<le> subject_budget env s'" for s'
      using b assms(2) by (cases "s' = s") (auto simp: used_weight_def ledger_inv_def bounded_def)
    show "month_weight env (lg_now l) owner ?c + tokens_this_month env (lg_now l) (lg_calls l) owner
        \<le> le_quota env owner" for owner
      using q assms(2) by (auto simp: month_weight_def weigh_def call_tokens_def none ledger_inv_def bounded_def)
    show "day_weight (lg_now l) ?c + spend_today (lg_now l) (lg_calls l) \<le> max 0 (le_daily_cap env)"
      using spend assms(2) by (auto simp: day_weight_def weigh_def ledger_inv_def bounded_def)
  qed
  then show ?thesis by (simp add: reserve_def Let_def None)
qed

lemma inv_finish:
  assumes "ledger_inv env l" and "i < length (lg_calls l)" and pending: "cl_pending (lg_calls l ! i)"
    and use: "usage_tokens u \<le> cl_reserved (lg_calls l ! i)"
    and cost: "cost_usd (cl_model (lg_calls l ! i)) (u_input u) (u_output u) (u_cache_creation u)
                 (u_cache_read u) \<le> cl_cost (lg_calls l ! i)"
  shows "ledger_inv env (finish i ok err (Some u) l)"
  unfolding finish_def
proof (rule inv_update [OF assms(1,2)])
  let ?c = "lg_calls l ! i" and ?f = "finish_call ok err (Some u)"
  have f: "cl_pending (?f ?c) = False" "cl_usage (?f ?c) = u" "cl_subject (?f ?c) = cl_subject ?c"
    "cl_created_at (?f ?c) = cl_created_at ?c" "cl_cost (?f ?c) = cost_usd (cl_model ?c) (u_input u)
      (u_output u) (u_cache_creation u) (u_cache_read u)"
    by (simp_all add: finish_call_def Let_def)
  have nu: "cl_usage ?c = no_usage"
    using assms(1-3) by (simp add: ledger_inv_def call_ok_def)
  show "call_ok (?f ?c)" by (simp add: call_ok_def f cost_nonneg)
  show "used_weight s (?f ?c) \<le> used_weight s ?c" for s
    using use pending by (simp add: used_weight_def f)
  show "month_weight env (lg_now l) owner (?f ?c) \<le> month_weight env (lg_now l) owner ?c" for owner
    using use pending by (simp add: month_weight_def weigh_def call_tokens_def f)
  show "day_weight (lg_now l) (?f ?c) \<le> day_weight (lg_now l) ?c"
    using cost by (simp add: day_weight_def weigh_def f)
qed

lemma finish_none: "i < length (lg_calls l) \<Longrightarrow> cl_usage (lg_calls l ! i) = no_usage \<Longrightarrow>
    finish i ok err None l = finish i ok err (Some no_usage) l"
  by (simp add: finish_def update_call_def finish_call_def Let_def)

lemma inv_mark: "ledger_inv env l \<Longrightarrow> ledger_inv env (mark_failed i err l)"
proof (cases "i < length (lg_calls l)")
  case True
  assume inv: "ledger_inv env l"
  show ?thesis unfolding mark_failed_def
    by (rule inv_update [OF inv True])
       (use inv True in \<open>auto simp: ledger_inv_def call_ok_def used_weight_def month_weight_def day_weight_def
          weigh_def call_tokens_def\<close>)
qed (simp add: mark_failed_def update_call_def)

lemma inv_time:
  assumes "llm_env_ok env" and "ledger_inv env l" and "lg_now l \<le> t"
  shows "ledger_inv env (l\<lparr>lg_now := t\<rparr>)"
proof -
  have m: "le_month_start env (lg_now l) \<le> le_month_start env t"
    using assms(1,3) by (simp add: llm_env_ok_def mono_def)
  have "tokens_this_month env t (lg_calls l) owner \<le> tokens_this_month env (lg_now l) (lg_calls l) owner" for owner
    unfolding tokens_month_weight by (rule sum_list_le_each) (use m in \<open>auto simp: month_weight_def weigh_def\<close>)
  moreover have "spend_today t (lg_calls l) \<le> spend_today (lg_now l) (lg_calls l)"
    unfolding spend_today_weight
    by (rule sum_list_le_each) (use day_start_mono [OF assms(3)] assms(2) in
        \<open>auto simp: day_weight_def weigh_def ledger_inv_def call_ok_def\<close>)
  ultimately show ?thesis using assms(2) by (simp add: ledger_inv_def bounded_def) (meson order_trans)
qed

lemma ledger_inv_step:
  "ledger_step env l l' \<Longrightarrow> llm_env_ok env \<Longrightarrow> ledger_inv env l \<Longrightarrow> ledger_inv env l'"
proof (induction rule: ledger_step.induct)
  case (reserves l s input_tokens max_tokens)
  then show ?case by (intro inv_reserve)
next
  case (settles i l u ok err)
  let ?c = "lg_calls l ! i"
  obtain counted max_out where w: "u_cache_creation u = 0" "cl_reserved ?c = counted + max_out"
    "cl_cost ?c = estimate_cost_usd (cl_model ?c) counted max_out"
    "u_input u + u_cache_read u \<le> counted" "u_output u \<le> max_out"
    using settles(3) by (auto simp: usage_within_def)
  show ?case
    by (rule inv_finish [OF settles(5,1,2)]) (use w cost_le_estimate [OF w(4,5)] in \<open>auto simp: usage_tokens_def\<close>)
next
  case (fails i l err)
  then have u: "cl_usage (lg_calls l ! i) = no_usage" by (simp add: ledger_inv_def call_ok_def)
  have cost: "0 \<le> cl_cost (lg_calls l ! i)" using fails by (simp add: ledger_inv_def call_ok_def)
  have "cost_usd m 0 0 0 0 = 0" for m by (simp add: cost_usd_def split: option.split)
  then show ?case unfolding finish_none [OF fails(1) u] using cost
    by (intro inv_finish [OF fails(4,1,2)]) (simp_all add: usage_tokens_def no_usage_def)
next
  case (marks l i err)
  then show ?case by (intro inv_mark)
next
  case (unsent l s)
  then show ?case unfolding record_unsent_failure_def
    by (intro inv_append_zero) (simp_all add: call_ok_def usage_tokens_def no_usage_def)
next
  case (time_passes l t)
  then show ?case by (intro inv_time)
next
  case (operator l k)
  then show ?case by (simp add: ledger_inv_def bounded_def)
qed

lemma ledger_inv_steps:
  "(ledger_step env)\<^sup>*\<^sup>* l l' \<Longrightarrow> llm_env_ok env \<Longrightarrow> ledger_inv env l \<Longrightarrow> ledger_inv env l'"
  by (induction rule: rtranclp_induct) (auto intro: ledger_inv_step)

section \<open>One generation\<close>

definition pending_count :: "ledger \<Rightarrow> nat" where
  "pending_count l = length (filter cl_pending (lg_calls l))"

lemma pending_update:
  assumes "\<not> cl_pending (f (lg_calls l ! i))" and "\<not> cl_pending (lg_calls l ! i)"
  shows "pending_count (update_call i f l) = pending_count l"
proof -
  have "length (filter P (xs[i := y])) = length (filter P xs)" if "\<not> P y" "\<not> P (xs ! i)" for P :: "llm_call \<Rightarrow> bool" and xs y
    using that by (induction xs arbitrary: i) (auto split: nat.split)
  then show ?thesis using assms by (simp add: pending_count_def update_call_def)
qed

text \<open>A complete exchange appends one settled call.\<close>

lemma complete_settled:
  assumes "complete env s mt ex l = (r, l')"
  shows "\<exists>c. lg_calls l' = lg_calls l @ [c] \<and> \<not> cl_pending c \<and> lg_now l' = lg_now l
    \<and> (\<forall>text i. r = Inr (text, i) \<longrightarrow> i = length (lg_calls l) \<and> cl_success c)"
proof -
  have f: "finish (length (lg_calls l)) ok err u (l\<lparr>lg_calls := lg_calls l @ [c]\<rparr>)
      = l\<lparr>lg_calls := lg_calls l @ [finish_call ok err u c]\<rparr>" for ok err u c
    by (simp add: finish_def update_call_def)
  have p: "\<not> cl_pending (finish_call ok err u c)" "cl_success (finish_call ok err u c) = ok" for ok err u c
    by (simp_all add: finish_call_def Let_def)
  from assms show ?thesis
    by (auto simp: complete_def Let_def record_unsent_failure_def reserve_def f p
        split: sum.splits prod.splits option.splits stop_reason.splits)
qed

lemma with_retries_attempts:
  "attempts \<le> max_retries \<Longrightarrow> snd (with_retries max_retries op attempts) \<le> Suc max_retries
    \<and> attempts < snd (with_retries max_retries op attempts)"
proof (induction max_retries op attempts rule: with_retries.induct)
  case (1 max_retries op attempts)
  show ?case
  proof (cases "op (Suc attempts)")
    case (Inl p)
    obtain e retryable where p: "p = (e, retryable)" by (cases p)
    show ?thesis
    proof (cases "\<not> retryable \<or> Suc attempts > max_retries")
      case True
      then show ?thesis using Inl p "1.prems" by (subst (1 2) with_retries.simps) auto
    next
      case False
      then show ?thesis using Inl p "1.IH" [OF Inl p [symmetric]]
        by (subst (1 2) with_retries.simps) auto
    qed
  next
    case (Inr r)
    then show ?thesis using "1.prems" by (subst (1 2) with_retries.simps) simp
  qed
qed

section \<open>Properties\<close>


definition example_llm_env :: "string llm_env" where
  "example_llm_env = \<lparr>le_budget_scan = 1000, le_budget_site = 500, le_owner = (\<lambda>_. None),
     le_quota = (\<lambda>_. 5000), le_month_start = (\<lambda>t. t - t mod 2678400), le_daily_cap = 10,
     le_local = False, le_max_retries = 2, le_max_output_tokens = 400, le_model = ''claude-opus-5''\<rparr>"


text \<open>
  The estimate a call is reserved with really is the worst case: whatever the model,
  known, unknown or local, a call billed for no more input than counted and no more output than
  allowed, and for no cache writes, costs at most the estimate, and neither is negative.
\<close>

theorem estimate_is_worst_case:
  assumes "i + cr \<le> counted" and "out \<le> max_out"
  shows "0 \<le> cost_usd m i out 0 cr \<and> cost_usd m i out 0 cr \<le> estimate_cost_usd m counted max_out"
  using cost_nonneg cost_le_estimate [OF assms] by blast

theorem estimate_is_worst_case_witness:
  "cost_usd ''claude-sonnet-5'' 100 50 0 20 \<le> estimate_cost_usd ''claude-sonnet-5'' 200 50"
  using estimate_is_worst_case [of 100 20 200 50 50 "''claude-sonnet-5''"] by simp



end
