(* ===== verification/Imports.thy ===== *)
theory Imports
  imports Regex
begin

text \<open>
  What the import resolver works on (\<open>graph/parser.py\<close> and the first part of
  \<open>graph/resolver.py\<close>): raw imports and parsed modules, resolved imports, the index of
  the repository's files, and the arithmetic of repository-relative paths.  The sets of the
  index are lists read as sets; the code sorts whatever it iterates over them.
\<close>

section \<open>Parsed modules\<close>

record raw_import =
  ri_specifier :: string
  ri_kind :: string
  ri_line :: int
  ri_statement :: string
  ri_names :: "string list"
  ri_level :: nat
  ri_type_only :: bool
  ri_lazy :: bool
  ri_dynamic :: bool

record parsed_module =
  pm_path :: string
  pm_language :: string
  pm_loc :: nat
  pm_definition_count :: nat
  pm_symbols :: "string list"
  pm_imports :: "raw_import list"
  pm_error :: "string option"
  pm_warning :: "string option"

definition GRAMMAR_BY_EXTENSION :: "(string \<times> string \<times> string) list" where
  "GRAMMAR_BY_EXTENSION =
     [(''.py'', ''python'', ''python''), (''.js'', ''javascript'', ''javascript''),
      (''.jsx'', ''javascript'', ''javascript''), (''.mjs'', ''javascript'', ''javascript''),
      (''.cjs'', ''javascript'', ''javascript''), (''.ts'', ''typescript'', ''typescript''),
      (''.mts'', ''typescript'', ''typescript''), (''.cts'', ''typescript'', ''typescript''),
      (''.tsx'', ''typescript'', ''tsx'')]"

definition language_for :: "string \<Rightarrow> (string \<times> string) option" where
  "language_for path =
     (let name = path_name path
      in if ends_with ''.d.ts'' name \<or> ends_with ''.min.js'' name \<or> ends_with ''.bundle.js'' name
         then None
         else map_of GRAMMAR_BY_EXTENSION (lower (path_suffix path)))"

section \<open>Resolved imports\<close>

datatype import_status = Internal | External | Asset | Unresolved

record resolved_import =
  rs_source :: string
  rs_raw :: raw_import
  rs_status :: import_status
  rs_target :: "string option"
  rs_method :: "string option"
  rs_reason :: "string option"

definition mk_resolved :: "string \<Rightarrow> raw_import \<Rightarrow> import_status \<Rightarrow> string option \<Rightarrow> string \<Rightarrow> resolved_import" where
  "mk_resolved source raw status target method =
     \<lparr>rs_source = source, rs_raw = raw, rs_status = status, rs_target = target,
      rs_method = Some method, rs_reason = None\<rparr>"

definition mk_unresolved :: "string \<Rightarrow> raw_import \<Rightarrow> string \<Rightarrow> resolved_import" where
  "mk_unresolved source raw reason =
     \<lparr>rs_source = source, rs_raw = raw, rs_status = Unresolved, rs_target = None,
      rs_method = None, rs_reason = Some reason\<rparr>"

section \<open>Repository index\<close>

text \<open>\<open>ix_text\<close> is what \<open>read_text\<close> returns for a path.\<close>

record repo_index =
  ix_modules :: "string list"
  ix_files :: "string list"
  ix_dirs :: "string list"
  ix_text :: "string \<Rightarrow> string option"

text \<open>Values of parsed JSON and TOML files; objects keep their keys in order.\<close>

datatype json =
    JNull
  | JBool bool
  | JNum real
  | JStr string
  | JList "json list"
  | JObj "(string \<times> json) list"

text \<open>\<open>bool(value)\<close> and \<open>d.get(key)\<close> of a parsed object.\<close>

fun json_truthy :: "json \<Rightarrow> bool" where
  "json_truthy JNull = False"
| "json_truthy (JBool b) = b"
| "json_truthy (JNum x) = (x \<noteq> 0)"
| "json_truthy (JStr s) = (s \<noteq> [])"
| "json_truthy (JList xs) = (xs \<noteq> [])"
| "json_truthy (JObj kvs) = (kvs \<noteq> [])"

definition json_get :: "(string \<times> json) list \<Rightarrow> string \<Rightarrow> json" where
  "json_get d key = (case map_of d key of None \<Rightarrow> JNull | Some v \<Rightarrow> v)"

definition IGNORED_DIRS :: "string list" where
  "IGNORED_DIRS =
     [''.git'', ''.hg'', ''.svn'', ''node_modules'', ''bower_components'', ''vendor'', ''.venv'', ''venv'',
      ''env'', ''__pycache__'', ''.mypy_cache'', ''.pytest_cache'', ''.ruff_cache'', ''.tox'', ''.nox'', ''site-packages'',
      ''dist'', ''build'', ''out'', ''.next'', ''.nuxt'', ''.svelte-kit'', ''coverage'', ''.turbo'',
      ''.cache'']"

section \<open>Exceptions\<close>

text \<open>The exceptions resolving can raise; the facade catches them all.\<close>

datatype py_exn = Recursion_error | Type_error | Attribute_error

type_synonym 'a result = "py_exn + 'a"

fun rbind :: "'a result \<Rightarrow> ('a \<Rightarrow> 'b result) \<Rightarrow> 'b result" where
  "rbind (Inl e) f = Inl e"
| "rbind (Inr x) f = f x"

fun rmap :: "('a \<Rightarrow> 'b result) \<Rightarrow> 'a list \<Rightarrow> 'b list result" where
  "rmap f [] = Inr []"
| "rmap f (x # xs) = rbind (f x) (\<lambda>y. rbind (rmap f xs) (\<lambda>ys. Inr (y # ys)))"

lemma rbind_Inr: "rbind m f = Inr y \<longleftrightarrow> (\<exists>x. m = Inr x \<and> f x = Inr y)"
  by (cases m) auto

text \<open>\<open>value or {}\<close> used as a dictionary, and \<open>value or []\<close> iterated.\<close>

definition dict_or_empty :: "json \<Rightarrow> (string \<times> json) list result" where
  "dict_or_empty j =
     (if json_truthy j then (case j of JObj d \<Rightarrow> Inr d | _ \<Rightarrow> Inl Attribute_error) else Inr [])"

definition iter_value :: "json \<Rightarrow> json list result" where
  "iter_value j =
     (case j of
        JList xs \<Rightarrow> Inr xs
      | JObj d \<Rightarrow> Inr (map (JStr \<circ> fst) d)
      | JStr s \<Rightarrow> Inr (map (\<lambda>c. JStr [c]) s)
      | _ \<Rightarrow> Inl Type_error)"

definition iter_or_empty :: "json \<Rightarrow> json list result" where
  "iter_or_empty j =
     (if json_truthy j then iter_value j else Inr [])"

definition json_strings :: "json list \<Rightarrow> string list" where
  "json_strings js = concat (map (\<lambda>j. case j of JStr s \<Rightarrow> [s] | _ \<Rightarrow> []) js)"

section \<open>Paths\<close>

text \<open>The loop of \<open>_join\<close>: the stack of components, \<open>None\<close> once it would leave the root.\<close>

fun join_stack :: "string list \<Rightarrow> string list \<Rightarrow> string list option" where
  "join_stack stack [] = Some stack"
| "join_stack stack (part # parts) =
     (if part = [] \<or> part = ''.'' then join_stack stack parts
      else if part = ''..'' then (if stack = [] then None else join_stack (butlast stack) parts)
      else join_stack (stack @ [part]) parts)"

definition join_path :: "string list \<Rightarrow> string option" where
  "join_path parts =
     map_option (join ''/'')
       (join_stack [] (split_on CHR ''/'' (join ''/'' (filter (\<lambda>p. p \<noteq> []) parts))))"

definition parent :: "string \<Rightarrow> string" where
  "parent path = before_last CHR ''/'' path"

definition in_dir :: "string \<Rightarrow> string \<Rightarrow> string" where
  "in_dir directory name = (if directory \<noteq> [] then directory @ ''/'' @ name else name)"

function ancestors :: "string \<Rightarrow> string list" where
  "ancestors directory = (if directory = [] then [directory] else directory # ancestors (parent directory))"
  by pat_completeness auto
termination
  by (relation "measure length") (auto simp: parent_def length_before_last)

declare ancestors.simps [simp del]

lemma ancestors_not_Nil [simp]: "ancestors d \<noteq> []"
  by (subst ancestors.simps) simp

lemma ancestors_self: "d \<in> set (ancestors d)"
  by (subst ancestors.simps) simp

lemma ancestors_root: "[] \<in> set (ancestors d)"
proof (induction d rule: ancestors.induct)
  case (1 d)
  then show ?case by (subst ancestors.simps) simp
qed

text \<open>A joined path has only proper components: it names something inside the repository.\<close>

definition proper_part :: "string \<Rightarrow> bool" where
  "proper_part p \<longleftrightarrow> p \<noteq> [] \<and> p \<noteq> ''.'' \<and> p \<noteq> ''..'' \<and> CHR ''/'' \<notin> set p"

lemma join_stack_proper:
  assumes "join_stack stack parts = Some ps" and "\<forall>p \<in> set stack. proper_part p"
    and "\<forall>p \<in> set parts. CHR ''/'' \<notin> set p"
  shows "\<forall>p \<in> set ps. proper_part p"
  using assms
proof (induction parts arbitrary: stack)
  case (Cons part parts)
  consider (skip) "part = [] \<or> part = ''.''" | (up) "part = ''..''" | (push) "proper_part part"
    using Cons.prems(3) by (auto simp: proper_part_def)
  then show ?case
  proof cases
    case skip
    then show ?thesis using Cons.IH [of stack] Cons.prems by simp
  next
    case up
    then have "stack \<noteq> []" "join_stack (butlast stack) parts = Some ps"
      using Cons.prems(1) by (auto split: if_splits)
    then show ?thesis using Cons.IH [of "butlast stack"] Cons.prems(2,3) in_set_butlastD by fastforce
  next
    case push
    then have "join_stack (stack @ [part]) parts = Some ps"
      using Cons.prems(1) by (simp add: proper_part_def)
    then show ?thesis using Cons.IH [of "stack @ [part]"] Cons.prems(2,3) push by simp
  qed
qed simp

lemma join_path_inside:
  assumes "join_path parts = Some path"
  shows "path = [] \<or> (\<forall>p \<in> set (split_on CHR ''/'' path). proper_part p)"
proof -
  obtain ps where ps: "path = join ''/'' ps"
    "join_stack [] (split_on CHR ''/'' (join ''/'' (filter (\<lambda>p. p \<noteq> []) parts))) = Some ps"
    using assms by (auto simp: join_path_def)
  then have proper: "\<forall>p \<in> set ps. proper_part p"
    by (intro join_stack_proper [OF ps(2)]) (auto dest: split_on_no_sep)
  show ?thesis
  proof (cases "ps = []")
    case False
    have "\<forall>p \<in> set ps. CHR ''/'' \<notin> set p" using proper by (simp add: proper_part_def)
    then have "split_on CHR ''/'' path = ps" unfolding ps(1) by (rule split_on_join [OF False])
    then show ?thesis using proper by simp
  qed (simp add: ps)
qed

end
