(* ===== verification/Regex_Scan.thy ===== *)
theory Regex_Scan
  imports Regex
begin

text \<open>
  \<open>re.findall\<close>, \<open>re.split\<close> and \<open>re.sub\<close> on top of the matcher, for patterns that do
  not match the empty string; capture groups by naming the parts before, inside and after the
  group; and \<open>str.splitlines\<close>.
\<close>

text \<open>The successive non-overlapping matches from a position on, as start and end.\<close>

function rx_scan :: "rx \<Rightarrow> string \<Rightarrow> nat \<Rightarrow> (nat \<times> nat) list" where
  "rx_scan r s i =
     (if length s < i then []
      else (case rx_ends r s i of
              [] \<Rightarrow> rx_scan r s (Suc i)
            | j # _ \<Rightarrow> (i, j) # rx_scan r s (max (Suc i) j)))"
  by pat_completeness auto
termination
  by (relation "measure (\<lambda>(r, s, i). Suc (length s) - i)") auto

declare rx_scan.simps [simp del]

definition slice :: "string \<Rightarrow> nat \<Rightarrow> nat \<Rightarrow> string" where
  "slice s i j = take (j - i) (drop i s)"

definition rx_findall :: "rx \<Rightarrow> string \<Rightarrow> string list" where
  "rx_findall r s = map (\<lambda>(i, j). slice s i j) (rx_scan r s 0)"

fun cut_at :: "string \<Rightarrow> nat \<Rightarrow> (nat \<times> nat) list \<Rightarrow> string list" where
  "cut_at s k [] = [drop k s]"
| "cut_at s k ((i, j) # ms) = slice s k i # cut_at s j ms"

definition rx_split :: "rx \<Rightarrow> string \<Rightarrow> string list" where
  "rx_split r s = cut_at s 0 (rx_scan r s 0)"

definition rx_sub :: "rx \<Rightarrow> string \<Rightarrow> string \<Rightarrow> string" where
  "rx_sub r rep s = join rep (rx_split r s)"

text \<open>The group of the first match of \<open>pre(grp)post\<close> in order of preference, at one position.\<close>

definition rx_group :: "rx \<Rightarrow> rx \<Rightarrow> rx \<Rightarrow> string \<Rightarrow> nat \<Rightarrow> string option" where
  "rx_group pre grp post s i =
     (case concat (map (\<lambda>a. concat (map (\<lambda>b. map (\<lambda>c. slice s a b) (rx_ends post s b)) (rx_ends grp s a)))
             (rx_ends pre s i)) of
        [] \<Rightarrow> None | g # _ \<Rightarrow> Some g)"

text \<open>\<open>findall\<close> of a pattern with one group.\<close>

definition rx_findall_group :: "rx \<Rightarrow> rx \<Rightarrow> rx \<Rightarrow> string \<Rightarrow> string list" where
  "rx_findall_group pre grp post s =
     map (\<lambda>(i, j). the (rx_group pre grp post s i)) (rx_scan (Seq pre (Seq grp post)) s 0)"

text \<open>
  The groups of the first match of a sequence of patterns at a position: what each of them
  matched, the empty string for an optional one that matched nothing.
\<close>

fun seq_cuts :: "rx list \<Rightarrow> string \<Rightarrow> nat \<Rightarrow> nat list list" where
  "seq_cuts [] s i = [[i]]"
| "seq_cuts (r # rs) s i = concat (map (\<lambda>j. map ((#) i) (seq_cuts rs s j)) (rx_ends r s i))"

fun slices :: "string \<Rightarrow> nat list \<Rightarrow> string list" where
  "slices s (i # j # is) = slice s i j # slices s (j # is)"
| "slices s _ = []"

definition rx_groups :: "rx list \<Rightarrow> string \<Rightarrow> string list option" where
  "rx_groups rs s = (case seq_cuts rs s 0 of [] \<Rightarrow> None | cuts # _ \<Rightarrow> Some (slices s cuts))"

text \<open>\<open>s.split()\<close>, and the number of occurrences \<open>s.count(sub)\<close>.\<close>

definition py_words :: "string \<Rightarrow> string list" where
  "py_words s = filter (\<lambda>w. w \<noteq> []) (rx_split (Plus (Cls is_space)) s)"

definition count_str :: "string \<Rightarrow> string \<Rightarrow> nat" where
  "count_str sub s = length (rx_scan (Str sub) s 0)"

text \<open>The first match anywhere (\<open>re.search\<close>), as start and end.\<close>

definition rx_find :: "rx \<Rightarrow> string \<Rightarrow> (nat \<times> nat) option" where
  "rx_find r s = (case rx_scan r s 0 of [] \<Rightarrow> None | m # _ \<Rightarrow> Some m)"

section \<open>splitlines\<close>

definition is_line_break :: "char \<Rightarrow> bool" where
  "is_line_break c \<longleftrightarrow> code c \<in> {10, 11, 12, 13, 28, 29, 30, 133}"

fun lines_from :: "string \<Rightarrow> string \<Rightarrow> string list" where
  "lines_from acc [] = (if acc = [] then [] else [acc])"
| "lines_from acc [c] = (if is_line_break c then [acc] else [acc @ [c]])"
| "lines_from acc (c # d # cs) =
     (if c = CHR 0x0D \<and> d = CHR 0x0A then acc # lines_from [] cs
      else if is_line_break c then acc # lines_from [] (d # cs)
      else lines_from (acc @ [c]) (d # cs))"

definition splitlines :: "string \<Rightarrow> string list" where
  "splitlines s = lines_from [] s"

section \<open>repr\<close>

definition hex_digit :: "nat \<Rightarrow> char" where
  "hex_digit d = char_of (if d < 10 then 48 + d else 87 + d)"

definition repr_char :: "char \<Rightarrow> char \<Rightarrow> string" where
  "repr_char q c =
     (if c = q \<or> c = CHR 0x5C then [CHR 0x5C, c]
      else if c = CHR 0x0A then [CHR 0x5C, CHR ''n'']
      else if c = CHR 0x0D then [CHR 0x5C, CHR ''r'']
      else if c = CHR 0x09 then [CHR 0x5C, CHR ''t'']
      else if code c < 32 \<or> (127 \<le> code c \<and> code c \<le> 160) \<or> code c = 173
      then [CHR 0x5C, CHR ''x'', hex_digit (code c div 16), hex_digit (code c mod 16)]
      else [c])"

definition py_repr :: "string \<Rightarrow> string" where
  "py_repr s =
     (let q = (if CHR 0x27 \<in> set s \<and> CHR 0x22 \<notin> set s then CHR 0x22 else CHR 0x27)
      in q # concat (map (repr_char q) s) @ [q])"

end
