(* ===== verification/Py_Resolver.thy ===== *)
theory Py_Resolver
  imports Imports Regex_Scan
begin

text \<open>
  \<open>PythonResolver\<close> of \<open>graph/resolver.py\<close>.  What the standard library and the TOML
  reader contribute (\<open>sys.stdlib_module_names\<close>, \<open>tomllib.loads\<close>) is in
  \<open>resolver_env\<close>; so are \<open>json.loads\<close> and the recursion limit for the JavaScript
  resolver.  An exception is a value of the left summand.
\<close>

record resolver_env =
  re_index :: repo_index
  re_stdlib :: "string list"
  re_toml :: "string \<Rightarrow> (string \<times> json) list option"
  re_json :: "string \<Rightarrow> json option"
  re_recursion_limit :: nat

abbreviation re_modules :: "resolver_env \<Rightarrow> string list" where
  "re_modules env \<equiv> ix_modules (re_index env)"

abbreviation re_files :: "resolver_env \<Rightarrow> string list" where
  "re_files env \<equiv> ix_files (re_index env)"

abbreviation re_dirs :: "resolver_env \<Rightarrow> string list" where
  "re_dirs env \<equiv> ix_dirs (re_index env)"

abbreviation re_text :: "resolver_env \<Rightarrow> string \<Rightarrow> string option" where
  "re_text env \<equiv> ix_text (re_index env)"

section \<open>Tables\<close>

definition PYTHON_IMPORT_ALIASES :: "(string \<times> string list) list" where
  "PYTHON_IMPORT_ALIASES =
     [(''yaml'', [''pyyaml'']), (''PIL'', [''pillow'']),
      (''cv2'', [''opencv_python'', ''opencv_python_headless'', ''opencv_contrib_python'']),
      (''bs4'', [''beautifulsoup4'']), (''sklearn'', [''scikit_learn'']),
      (''skimage'', [''scikit_image'']), (''dateutil'', [''python_dateutil'']),
      (''jwt'', [''pyjwt'']), (''jose'', [''python_jose'']), (''dotenv'', [''python_dotenv'']),
      (''multipart'', [''python_multipart'']), (''attr'', [''attrs'']),
      (''OpenSSL'', [''pyopenssl'']), (''Crypto'', [''pycryptodome'', ''pycrypto'']),
      (''Cryptodome'', [''pycryptodomex'']),
      (''psycopg2'', [''psycopg2_binary'', ''psycopg2'']), (''git'', [''gitpython'']),
      (''serial'', [''pyserial'']), (''zmq'', [''pyzmq'']), (''docx'', [''python_docx'']),
      (''pptx'', [''python_pptx'']), (''slugify'', [''python_slugify'']),
      (''magic'', [''python_magic'']),
      (''google'', [''protobuf'', ''google_cloud_storage'', ''google_api_python_client'', ''google_auth'']),
      (''googleapiclient'', [''google_api_python_client'']), (''grpc'', [''grpcio'']),
      (''MySQLdb'', [''mysqlclient'']), (''pkg_resources'', [''setuptools'']),
      (''setuptools'', [''setuptools'']), (''socketio'', [''python_socketio'']),
      (''engineio'', [''python_engineio'']), (''telegram'', [''python_telegram_bot'']),
      (''rest_framework'', [''djangorestframework'']),
      (''corsheaders'', [''django_cors_headers'']),
      (''debug_toolbar'', [''django_debug_toolbar'']),
      (''tree_sitter_python'', [''tree_sitter_python'']), (''lxml'', [''lxml'']),
      (''Levenshtein'', [''python_levenshtein'', ''levenshtein'']),
      (''markdown'', [''markdown'']), (''win32api'', [''pywin32'']),
      (''typing_extensions'', [''typing_extensions''])]"

definition PYTHON_IMPLICIT :: "string list" where
  "PYTHON_IMPLICIT =
     [''pkg_resources'', ''setuptools'', ''pip'', ''_pytest'', ''pytest'', ''typing_extensions'']"

definition normalize_dist :: "string \<Rightarrow> string" where
  "normalize_dist name = lower (rx_sub (Plus (OneOf ''-_.'')) ''_'' name)"

section \<open>Roots and names\<close>

text \<open>
  The climb to the top-level package.  Paths of the index are relative, so no package is the
  root itself and the guard against the empty path changes nothing.
\<close>

function top_package :: "string list \<Rightarrow> string \<Rightarrow> string" where
  "top_package package_dirs pkg =
     (if pkg \<noteq> [] \<and> parent pkg \<in> set package_dirs then top_package package_dirs (parent pkg) else pkg)"
  by pat_completeness auto
termination
  by (relation "measure (length \<circ> snd)") (auto simp: parent_def length_before_last)

declare top_package.simps [simp del]

definition depth_key :: "string \<Rightarrow> int \<times> string" where
  "depth_key r = (- int (length (filter (\<lambda>c. c = CHR ''/'') r) + (if r = [] then 0 else 1)), r)"

definition source_roots :: "repo_index \<Rightarrow> string list" where
  "source_roots ix =
     (let package_dirs = map parent (filter (ends_with ''/__init__.py'') (ix_files ix));
          roots = [] # map (\<lambda>p. parent (top_package package_dirs p)) package_dirs
            @ map parent (filter (\<lambda>f. path_name f \<in> {''pyproject.toml'', ''setup.py'', ''setup.cfg''})
                (ix_files ix))
            @ filter (\<lambda>d. d = ''src'' \<or> ends_with ''/src'' d) (ix_dirs ix)
      in sort_key depth_key (dict_fromkeys roots))"

definition internal_top_names :: "repo_index \<Rightarrow> string list" where
  "internal_top_names ix =
     concat (map (\<lambda>root.
       let prefix = (if root = [] then [] else root @ ''/'')
       in map (\<lambda>m. remove_suffix ''.py'' (before CHR ''/'' (drop (length prefix) m)))
            (filter (\<lambda>m. ends_with ''.py'' m \<and> starts_with prefix m) (ix_modules ix)))
       (source_roots ix))"

section \<open>Declared distributions\<close>

definition requirement_name :: "string \<Rightarrow> string option" where
  "requirement_name line =
     (let line = strip (before CHR ''#'' line)
      in if line = [] \<or> starts_with ''-'' line then None
         else map_option normalize_dist
           (rx_group Eps (Seq (Cls is_alnum_ascii)
               (Star (Cls (\<lambda>c. is_alnum_ascii c \<or> c \<in> set ''._-'')))) Eps line 0))"

definition requirements :: "string \<Rightarrow> string list" where
  "requirements text = List.map_filter requirement_name (splitlines text)"

definition loose_requirements :: "string \<Rightarrow> string list" where
  "loose_requirements text =
     map normalize_dist
       (rx_findall_group
         (Cls (\<lambda>c. c = CHR 0x27 \<or> c = CHR 0x22 \<or> is_space c))
         (Seq (Cls (\<lambda>c. is_upper c \<or> is_lower c)) (Plus (Cls (\<lambda>c. is_word c \<or> c = CHR ''.'' \<or> c = CHR ''-''))))
         (Seq (Star (Cls is_space)) (OneOf ''=<>~![''))
         text)"

definition normalize_json :: "json \<Rightarrow> string result" where
  "normalize_json j = (case j of JStr s \<Rightarrow> Inr (normalize_dist s) | _ \<Rightarrow> Inl Type_error)"

definition pyproject :: "resolver_env \<Rightarrow> string \<Rightarrow> string list result" where
  "pyproject env text =
     (case re_toml env text of
        None \<Rightarrow> Inr []
      | Some data \<Rightarrow>
          rbind (dict_or_empty (json_get data ''project'')) (\<lambda>project.
          rbind (iter_or_empty (json_get project ''dependencies'')) (\<lambda>specs1.
          rbind (dict_or_empty (json_get project ''optional-dependencies'')) (\<lambda>optional.
          rbind (rmap (\<lambda>(_, g). iter_value g) optional) (\<lambda>specs2.
          rbind (dict_or_empty (json_get data ''dependency-groups'')) (\<lambda>groups.
          rbind (rmap (\<lambda>(_, g). iter_value g) groups) (\<lambda>specs3.
          rbind (dict_or_empty (json_get data ''tool'')) (\<lambda>tool.
          rbind (dict_or_empty (json_get tool ''poetry'')) (\<lambda>poetry.
          rbind (iter_or_empty (json_get poetry ''dependencies'')) (\<lambda>poetry_deps.
          rbind (dict_or_empty (json_get poetry ''group'')) (\<lambda>poetry_groups.
          rbind (rmap (\<lambda>(_, g). case g of JObj d \<Rightarrow> iter_or_empty (json_get d ''dependencies'')
                                  | _ \<Rightarrow> Inl Attribute_error) poetry_groups) (\<lambda>group_deps.
          rbind (rmap normalize_json poetry_deps) (\<lambda>names1.
          rbind (rmap normalize_json (concat group_deps)) (\<lambda>names2.
          Inr (names1 @ names2
               @ List.map_filter requirement_name
                   (json_strings (specs1 @ concat specs2 @ concat specs3)))))))))))))))))"


definition file_distributions :: "resolver_env \<Rightarrow> string \<Rightarrow> string list result" where
  "file_distributions env rel =
     (let name = path_name rel; text = (case re_text env rel of None \<Rightarrow> [] | Some t \<Rightarrow> t)
      in if starts_with ''requirements'' name \<and> (ends_with ''.txt'' name \<or> ends_with ''.in'' name)
         then Inr (requirements text)
         else if name = ''pyproject.toml'' then pyproject env text
         else if name \<in> {''setup.cfg'', ''setup.py'', ''Pipfile''} then Inr (loose_requirements text)
         else Inr [])"

definition declared_distributions :: "resolver_env \<Rightarrow> string list result" where
  "declared_distributions env = rbind (rmap (file_distributions env) (re_files env)) (\<lambda>ds. Inr (concat ds))"

definition is_declared :: "resolver_env \<Rightarrow> string \<Rightarrow> bool result" where
  "is_declared env pkg =
     (if pkg \<in> set PYTHON_IMPLICIT then Inr True
      else
        let candidates = [normalize_dist pkg, ''python_'' @ normalize_dist pkg, ''py'' @ normalize_dist pkg]
              @ (case map_of PYTHON_IMPORT_ALIASES pkg of None \<Rightarrow> [] | Some ds \<Rightarrow> ds)
        in rbind (declared_distributions env) (\<lambda>declared. Inr (list_ex (\<lambda>c. c \<in> set declared) candidates)))"

section \<open>Modules\<close>

definition replace_char :: "char \<Rightarrow> string \<Rightarrow> string \<Rightarrow> string" where
  "replace_char c new s = concat (map (\<lambda>x. if x = c then new else [x]) s)"

definition module_file :: "repo_index \<Rightarrow> string \<Rightarrow> string \<Rightarrow> string option" where
  "module_file ix directory dotted =
     (case (if dotted \<noteq> [] then join_path [directory, replace_char CHR ''.'' ''/'' dotted] else Some directory) of
        None \<Rightarrow> None
      | Some b \<Rightarrow>
          find (\<lambda>c. c \<in> set (ix_modules ix))
            [b @ ''.py'', if b \<noteq> [] then b @ ''/__init__.py'' else ''__init__.py''])"

definition is_namespace_package :: "repo_index \<Rightarrow> string \<Rightarrow> string \<Rightarrow> bool" where
  "is_namespace_package ix directory dotted =
     (case join_path [directory, replace_char CHR ''.'' ''/'' dotted] of
        None \<Rightarrow> False
      | Some b \<Rightarrow> b \<noteq> [] \<and> b \<in> set (ix_dirs ix)
          \<and> list_ex (\<lambda>m. starts_with (b @ ''/'') m \<and> ends_with ''.py'' m) (ix_modules ix))"

definition candidate_roots :: "repo_index \<Rightarrow> string \<Rightarrow> string list" where
  "candidate_roots ix source =
     (let source_dir = parent source; up = ancestors source_dir;
          nearest = filter (\<lambda>r. r \<in> set up) (source_roots ix);
          others = filter (\<lambda>r. r \<notin> set up) (source_roots ix);
          script_dir = (if in_dir source_dir ''__init__.py'' \<in> set (ix_modules ix) then [] else [source_dir])
      in dict_fromkeys (nearest @ script_dir @ others))"

text \<open>The loop of \<open>_from_targets\<close> over the imported names: results and \<open>needs_base\<close>.\<close>

fun from_names ::
    "repo_index \<Rightarrow> string \<Rightarrow> raw_import \<Rightarrow> string \<Rightarrow> string \<Rightarrow> string \<Rightarrow> string list \<Rightarrow> resolved_import list \<times> bool" where
  "from_names ix source raw directory base mth [] = ([], False)"
| "from_names ix source raw directory base mth (name # names) =
     (let (results, needs_base) = from_names ix source raw directory base mth names
      in case module_file ix directory (if base \<noteq> [] then base @ ''.'' @ name else name) of
           None \<Rightarrow> (results, True)
         | Some submodule \<Rightarrow>
             if submodule \<noteq> source
             then (mk_resolved source raw Internal (Some submodule) mth # results, needs_base)
             else (results, True))"

definition from_targets ::
    "repo_index \<Rightarrow> string \<Rightarrow> raw_import \<Rightarrow> string \<Rightarrow> string \<Rightarrow> string \<Rightarrow> bool \<Rightarrow> resolved_import list option" where
  "from_targets ix source raw directory base mth allow_namespace =
     (let (results, missing) = from_names ix source raw directory base mth (ri_names raw);
          needs_base = (ri_names raw = [] \<or> missing)
      in if \<not> needs_base then Some results
         else
           let base_module = module_file ix directory base;
               is_package_dir = (base = [] \<and> directory \<in> set (ix_dirs ix)) \<or> is_namespace_package ix directory base
           in case base_module of
                Some m \<Rightarrow>
                  if m \<noteq> source then Some (results @ [mk_resolved source raw Internal (Some m) mth])
                  else if allow_namespace \<and> is_package_dir
                  then Some (if results \<noteq> [] then results else [mk_resolved source raw Internal None ''namespace-package''])
                  else None
              | None \<Rightarrow>
                  if allow_namespace \<and> is_package_dir
                  then Some (if results \<noteq> [] then results else [mk_resolved source raw Internal None ''namespace-package''])
                  else None)"

section \<open>Resolution\<close>

definition package_depth :: "repo_index \<Rightarrow> string \<Rightarrow> nat" where
  "package_depth ix directory =
     length (takeWhile (\<lambda>a. in_dir a ''__init__.py'' \<in> set (ix_modules ix)) (ancestors directory))"

definition resolve_relative :: "repo_index \<Rightarrow> string \<Rightarrow> raw_import \<Rightarrow> resolved_import list" where
  "resolve_relative ix source raw =
     (let directory = parent source
      in if ri_level raw > max (package_depth ix directory) 1
         then [mk_unresolved source raw ''relative import beyond the top-level package'']
         else
           let directory = (parent ^^ (ri_level raw - 1)) directory;
               shown = replicate (ri_level raw) CHR ''.'' @ ri_specifier raw;
               failed = [mk_unresolved source raw (''relative module '' @ py_repr shown @ '' not found'')]
           in if ri_kind raw = ''import''
              then (case module_file ix directory (ri_specifier raw) of
                      Some t \<Rightarrow> [mk_resolved source raw Internal (Some t) ''relative''] | None \<Rightarrow> failed)
              else (case from_targets ix source raw directory (ri_specifier raw) ''relative'' True of
                      Some (r # rs) \<Rightarrow> r # rs | _ \<Rightarrow> failed))"

text \<open>What one root yields for an absolute import (\<open>found\<close> in the loop).\<close>

definition absolute_at :: "repo_index \<Rightarrow> string \<Rightarrow> raw_import \<Rightarrow> bool \<Rightarrow> string \<Rightarrow> resolved_import list option" where
  "absolute_at ix source raw internal_name sys_root =
     (let dotted = ri_specifier raw
      in if ri_kind raw = ''from''
         then from_targets ix source raw sys_root dotted ''absolute'' internal_name
         else
           let t = module_file ix sys_root dotted
           in if t \<noteq> None \<and> t \<noteq> Some source then Some [mk_resolved source raw Internal t ''absolute'']
              else if internal_name \<and> is_namespace_package ix sys_root dotted
              then Some [mk_resolved source raw Internal None ''namespace-package'']
              else None)"

text \<open>The loop over the roots: a real match ends it, the first namespace match is kept.\<close>

fun absolute_loop ::
    "(string \<Rightarrow> resolved_import list option) \<Rightarrow> string list \<Rightarrow> resolved_import list
     \<Rightarrow> resolved_import list + resolved_import list" where
  "absolute_loop f [] namespace_match = Inr namespace_match"
| "absolute_loop f (r # rs) namespace_match =
     (let found = (case f r of None \<Rightarrow> [] | Some xs \<Rightarrow> xs)
      in if list_ex (\<lambda>x. rs_method x \<noteq> Some ''namespace-package'') found then Inl found
         else absolute_loop f rs (if namespace_match \<noteq> [] then namespace_match else found))"

definition resolve_absolute :: "resolver_env \<Rightarrow> string \<Rightarrow> raw_import \<Rightarrow> resolved_import list result" where
  "resolve_absolute env source raw =
     (let ix = re_index env; dotted = ri_specifier raw
      in if dotted = [] then Inr [mk_unresolved source raw ''empty module name'']
         else
           let pkg = before CHR ''.'' dotted;
               internal_name = (pkg \<in> set (internal_top_names ix))
           in case absolute_loop (absolute_at ix source raw internal_name) (candidate_roots ix source) [] of
                Inl found \<Rightarrow> Inr found
              | Inr namespace_match \<Rightarrow>
                  if pkg \<in> set (''__future__'' # re_stdlib env)
                  then Inr [mk_resolved source raw External (Some pkg) ''stdlib'']
                  else rbind (is_declared env pkg) (\<lambda>declared. Inr
                    (if declared then [mk_resolved source raw External (Some pkg) ''declared'']
                     else if namespace_match \<noteq> [] then namespace_match
                     else if internal_name
                     then [mk_unresolved source raw
                             (''module '' @ py_repr dotted @ '' not found in internal package '' @ py_repr pkg)]
                     else [mk_resolved source raw External (Some pkg) ''undeclared''])))"

definition py_resolve :: "resolver_env \<Rightarrow> string \<Rightarrow> raw_import \<Rightarrow> resolved_import list result" where
  "py_resolve env source raw =
     (if ri_dynamic raw
      then Inr [mk_unresolved source raw ''dynamic import with a non-literal module name'']
      else if 0 < ri_level raw then Inr (resolve_relative (re_index env) source raw)
      else resolve_absolute env source raw)"

end
