(* ===== verification/Js_Resolver.thy ===== *)
theory Js_Resolver
  imports Py_Resolver
begin

text \<open>
  \<open>JsResolver\<close> of \<open>graph/resolver.py\<close>.  The caches of compiler options and aliases are
  the state, because a chain of \<open>extends\<close> cut at its depth limit is cached differently
  depending on where it was entered; the cache of parsed JSON files only remembers a function
  of the index and is left out.  \<open>_probe\<close> calls itself through package manifests without
  a bound of its own: its argument is the number of stack frames left.
\<close>

section \<open>Tables\<close>

definition JS_CODE_EXTENSIONS :: "string list" where
  "JS_CODE_EXTENSIONS = [''.ts'', ''.tsx'', ''.mts'', ''.cts'', ''.js'', ''.jsx'', ''.mjs'', ''.cjs'']"

definition JS_TO_TS :: "(string \<times> string list) list" where
  "JS_TO_TS = [(''.js'', [''.ts'', ''.tsx'']), (''.jsx'', [''.tsx'']), (''.mjs'', [''.mts'']), (''.cjs'', [''.cts''])]"

definition ASSET_EXTENSIONS :: "string list" where
  "ASSET_EXTENSIONS =
     [''.css'', ''.scss'', ''.sass'', ''.less'', ''.styl'', ''.pcss'', ''.json'', ''.json5'', ''.svg'',
      ''.png'', ''.jpg'', ''.jpeg'', ''.gif'', ''.webp'', ''.avif'', ''.ico'', ''.bmp'', ''.woff'',
      ''.woff2'', ''.ttf'', ''.otf'', ''.eot'', ''.mp4'', ''.webm'', ''.mp3'', ''.wav'', ''.wasm'',
      ''.html'', ''.md'', ''.mdx'', ''.txt'', ''.graphql'', ''.gql'', ''.yaml'', ''.yml'', ''.vue'',
      ''.svelte'', ''.astro'', ''.worker'']"

definition NODE_BUILTINS :: "string list" where
  "NODE_BUILTINS =
     [''assert'', ''async_hooks'', ''buffer'', ''child_process'', ''cluster'', ''console'', ''constants'',
      ''crypto'', ''dgram'', ''diagnostics_channel'', ''dns'', ''domain'', ''events'', ''fs'', ''http'',
      ''http2'', ''https'', ''inspector'', ''module'', ''net'', ''os'', ''path'', ''perf_hooks'',
      ''process'', ''punycode'', ''querystring'', ''readline'', ''repl'', ''stream'',
      ''string_decoder'', ''sys'', ''timers'', ''tls'', ''trace_events'', ''tty'', ''url'', ''util'',
      ''v8'', ''vm'', ''wasi'', ''worker_threads'', ''zlib'']"

section \<open>JSON with comments\<close>

fun skip_line :: "string \<Rightarrow> string" where
  "skip_line [] = []"
| "skip_line (c # cs) = (if c = CHR 0x0A then c # cs else skip_line cs)"

fun skip_block :: "string \<Rightarrow> string" where
  "skip_block (c # d # cs) = (if c = CHR ''*'' \<and> d = CHR ''/'' then cs else skip_block (d # cs))"
| "skip_block _ = []"

lemma length_skip_line: "length (skip_line s) \<le> length s"
  by (induction s) auto

lemma length_skip_block: "length (skip_block s) \<le> length s"
  by (induction s rule: skip_block.induct) auto

text \<open>The loop of \<open>_strip_jsonc\<close>: \<open>in_string\<close> and the rest of the text.\<close>

function strip_comments :: "bool \<Rightarrow> string \<Rightarrow> string" where
  "strip_comments in_string [] = []"
| "strip_comments True (c # cs) =
     (if c = CHR 0x5C \<and> cs \<noteq> [] then c # hd cs # strip_comments True (tl cs)
      else c # strip_comments (c \<noteq> CHR 0x22) cs)"
| "strip_comments False (c # cs) =
     (if c = CHR 0x22 then c # strip_comments True cs
      else if starts_with ''//'' (c # cs) then strip_comments False (skip_line cs)
      else if starts_with ''/*'' (c # cs) then strip_comments False (skip_block (tl cs))
      else c # strip_comments False cs)"
  by pat_completeness auto
termination
proof (relation "measure (length \<circ> snd)")
  fix c :: char and cs
  show "((False, skip_line cs), False, c # cs) \<in> measure (length \<circ> snd)"
    using length_skip_line [of cs] by (simp add: less_Suc_eq_le)
  show "((False, skip_block (tl cs)), False, c # cs) \<in> measure (length \<circ> snd)"
    using length_skip_block [of "tl cs"] by (simp add: less_Suc_eq_le)
qed auto

text \<open>\<open>re.sub(r",(\s*[}\]])", r"\1", text)\<close>: it does not look at strings.\<close>

fun drop_trailing_commas :: "string \<Rightarrow> string" where
  "drop_trailing_commas [] = []"
| "drop_trailing_commas (c # cs) =
     (let rest = drop_trailing_commas cs
      in if c = CHR '','' \<and> (case dropWhile is_space cs of d # _ \<Rightarrow> d = CHR ''}'' \<or> d = CHR '']'' | [] \<Rightarrow> False)
         then rest else c # rest)"

definition strip_jsonc :: "string \<Rightarrow> string" where
  "strip_jsonc text = drop_trailing_commas (strip_comments False text)"

definition load_json :: "resolver_env \<Rightarrow> string \<Rightarrow> (string \<times> json) list option" where
  "load_json env rel_path =
     (case re_text env rel_path of
        None \<Rightarrow> None
      | Some text \<Rightarrow> (case re_json env (strip_jsonc text) of Some (JObj d) \<Rightarrow> Some d | _ \<Rightarrow> None))"

section \<open>Compiler options\<close>

text \<open>
  The merged dictionary: \<open>_baseUrl\<close> (present, and then possibly \<open>None\<close>) and
  \<open>_paths\<close>, which is always stored together with \<open>_pathsDir\<close>.
\<close>

record compiler_opts =
  co_base_url :: "string option option"
  co_paths :: "((string \<times> json) list \<times> string) option"

definition merge_options :: "compiler_opts \<Rightarrow> compiler_opts \<Rightarrow> compiler_opts" where
  "merge_options a b =
     \<lparr>co_base_url = (if co_base_url b = None then co_base_url a else co_base_url b),
      co_paths = (if co_paths b = None then co_paths a else co_paths b)\<rparr>"

record path_aliases =
  pa_base_dir :: string
  pa_paths :: "(string \<times> string list) list"
  pa_base_url :: "string option"

record js_state =
  js_configs :: "(string \<times> compiler_opts) list"
  js_aliases :: "(string \<times> path_aliases option) list"

fun extend_options ::
    "(string \<Rightarrow> js_state \<Rightarrow> compiler_opts option result \<times> js_state) \<Rightarrow> string \<Rightarrow> json list
     \<Rightarrow> compiler_opts \<Rightarrow> js_state \<Rightarrow> compiler_opts result \<times> js_state" where
  "extend_options recurse config_dir [] merged st = (Inr merged, st)"
| "extend_options recurse config_dir (p # ps) merged st =
     (case (case p of JStr s \<Rightarrow> if starts_with ''.'' s then join_path [config_dir, s] else None | _ \<Rightarrow> None) of
        None \<Rightarrow> extend_options recurse config_dir ps merged st
      | Some path \<Rightarrow>
          if path = [] then extend_options recurse config_dir ps merged st
          else
            (case recurse (if ends_with ''.json'' path then path else path @ ''.json'') st of
               (Inl e, st) \<Rightarrow> (Inl e, st)
             | (Inr inherited, st) \<Rightarrow>
                 extend_options recurse config_dir ps
                   (case inherited of None \<Rightarrow> merged | Some i \<Rightarrow> merge_options merged i) st))"

definition extends_list :: "json \<Rightarrow> json list result" where
  "extends_list j = (case j of JStr s \<Rightarrow> Inr [j] | _ \<Rightarrow> iter_or_empty j)"

definition own_options :: "string \<Rightarrow> json \<Rightarrow> compiler_opts" where
  "own_options config_dir options =
     (case options of
        JObj d \<Rightarrow>
          \<lparr>co_base_url = (case json_get d ''baseUrl'' of JStr s \<Rightarrow> Some (join_path [config_dir, s]) | _ \<Rightarrow> None),
           co_paths = (case json_get d ''paths'' of JObj ps \<Rightarrow> Some (ps, config_dir) | _ \<Rightarrow> None)\<rparr>
      | _ \<Rightarrow> \<lparr>co_base_url = None, co_paths = None\<rparr>)"

text \<open>\<open>_compiler_options\<close>: the first argument is the depth left, 6 on entry.\<close>

primrec compiler_options ::
    "nat \<Rightarrow> resolver_env \<Rightarrow> string \<Rightarrow> js_state \<Rightarrow> compiler_opts option result \<times> js_state" where
  "compiler_options 0 env config_path st =
     (Inr (map_of (js_configs st) config_path), st)"
| "compiler_options (Suc k) env config_path st =
     (case map_of (js_configs st) config_path of
        Some merged \<Rightarrow> (Inr (Some merged), st)
      | None \<Rightarrow>
          (case load_json env config_path of
             None \<Rightarrow> (Inr None, st)
           | Some data \<Rightarrow>
               (case extends_list (json_get data ''extends'') of
                  Inl e \<Rightarrow> (Inl e, st)
                | Inr parents \<Rightarrow>
                    (case extend_options (compiler_options k env) (parent config_path) parents
                            \<lparr>co_base_url = None, co_paths = None\<rparr> st of
                       (Inl e, st) \<Rightarrow> (Inl e, st)
                     | (Inr merged, st) \<Rightarrow>
                         let merged = merge_options merged
                               (own_options (parent config_path) (json_get data ''compilerOptions''))
                         in (Inr (Some merged), st\<lparr>js_configs := dict_set config_path merged (js_configs st)\<rparr>)))))"

section \<open>Path aliases\<close>

definition is_config_name :: "string \<Rightarrow> bool" where
  "is_config_name name =
     rx_fullmatch
       (Seqs [Alt (Str ''ts'') (Str ''js''), Str ''config'',
              Opt (Seq (Chr CHR ''.'') (Plus (Cls (\<lambda>c. is_word c \<or> c = CHR ''.'' \<or> c = CHR ''-'')))),
              Str ''.json'']) name"

definition js_config_key :: "string \<Rightarrow> bool \<times> string" where
  "js_config_key f = (path_name f \<notin> {''tsconfig.json'', ''jsconfig.json''}, f)"

definition configs_in :: "repo_index \<Rightarrow> string \<Rightarrow> string list" where
  "configs_in ix ancestor =
     (let prefix = (if ancestor = [] then [] else ancestor @ ''/'')
      in sort_key js_config_key
           (filter (\<lambda>f. starts_with prefix f \<and> is_config_name (drop (length prefix) f)) (ix_files ix)))"

text \<open>
  The loop over the configs of one directory: \<open>base_url\<close>, \<open>paths\<close>, \<open>paths_dir\<close>.
  Python's \<open>or\<close> takes the empty string, which is the repository root, for a missing value.
\<close>

definition or_else :: "string option \<Rightarrow> string option \<Rightarrow> string option" where
  "or_else a b = (if a = None \<or> a = Some [] then b else a)"

definition config_step ::
    "compiler_opts \<Rightarrow> string option \<times> (string \<times> json) list \<times> string option
     \<Rightarrow> string option \<times> (string \<times> json) list \<times> string option" where
  "config_step options acc =
     (case acc of (base_url, paths, paths_dir) \<Rightarrow>
        let own = Option.bind (co_base_url options) id;
            base_url = or_else base_url own
        in case co_paths options of
             Some (ps, dir) \<Rightarrow>
               if ps \<noteq> [] \<and> paths = [] then (base_url, ps, or_else own (Some dir))
               else (base_url, paths, paths_dir)
           | None \<Rightarrow> (base_url, paths, paths_dir))"

fun read_configs ::
    "resolver_env \<Rightarrow> string list \<Rightarrow> string option \<times> (string \<times> json) list \<times> string option
     \<Rightarrow> js_state \<Rightarrow> (string option \<times> (string \<times> json) list \<times> string option) result \<times> js_state" where
  "read_configs env [] acc st = (Inr acc, st)"
| "read_configs env (config # configs) acc st =
     (case compiler_options 6 env config st of
        (Inl e, st) \<Rightarrow> (Inl e, st)
      | (Inr options, st) \<Rightarrow>
          read_configs env configs
            (config_step (case options of None \<Rightarrow> \<lparr>co_base_url = None, co_paths = None\<rparr> | Some o' \<Rightarrow> o') acc) st)"

definition ordered_paths :: "(string \<times> json) list \<Rightarrow> (string \<times> string list) list" where
  "ordered_paths paths =
     sort_key (\<lambda>item. - int (length (before CHR ''*'' (fst item))))
       (List.map_filter (\<lambda>(p, targets). case targets of JList ts \<Rightarrow> Some (p, json_strings ts) | _ \<Rightarrow> None) paths)"

definition aliases_for :: "resolver_env \<Rightarrow> string \<Rightarrow> js_state \<Rightarrow> path_aliases option result \<times> js_state" where
  "aliases_for env directory st =
     (case map_of (js_aliases st) directory of
        Some r \<Rightarrow> (Inr r, st)
      | None \<Rightarrow>
          (case find (\<lambda>a. configs_in (re_index env) a \<noteq> []) (ancestors directory) of
             None \<Rightarrow> (Inr None, st\<lparr>js_aliases := dict_set directory None (js_aliases st)\<rparr>)
           | Some ancestor \<Rightarrow>
               (case read_configs env (configs_in (re_index env) ancestor) (None, [], None) st of
                  (Inl e, st) \<Rightarrow> (Inl e, st)
                | (Inr (base_url, paths, paths_dir), st) \<Rightarrow>
                    let r = (if paths \<noteq> [] \<or> base_url \<noteq> None
                             then Some \<lparr>pa_base_dir = (case paths_dir of None \<Rightarrow> ancestor | Some d \<Rightarrow> d),
                                        pa_paths = ordered_paths paths, pa_base_url = base_url\<rparr>
                             else None)
                    in (Inr r, st\<lparr>js_aliases := dict_set directory r (js_aliases st)\<rparr>))))"

section \<open>Packages\<close>

definition package_root :: "repo_index \<Rightarrow> string \<Rightarrow> string option" where
  "package_root ix directory =
     find (\<lambda>a. in_dir a ''package.json'' \<in> set (ix_files ix)) (ancestors directory)"

text \<open>The first package of a name wins; \<open>files\<close> is iterated in sorted order.\<close>

fun add_packages :: "resolver_env \<Rightarrow> (string, string) dict \<Rightarrow> string list \<Rightarrow> (string, string) dict" where
  "add_packages env packages [] = packages"
| "add_packages env packages (rel # rels) =
     add_packages env
       (if path_name rel = ''package.json''
        then (case json_get (case load_json env rel of None \<Rightarrow> [] | Some d \<Rightarrow> d) ''name'' of
                JStr name \<Rightarrow>
                  if name \<noteq> [] \<and> name \<notin> fst ` set packages then dict_set name (parent rel) packages else packages
              | _ \<Rightarrow> packages)
        else packages) rels"

definition workspace_packages :: "resolver_env \<Rightarrow> (string, string) dict" where
  "workspace_packages env = add_packages env [] (sort (re_files env))"

definition declares :: "resolver_env \<Rightarrow> string \<Rightarrow> string \<Rightarrow> bool" where
  "declares env manifest package =
     (let data = (case load_json env manifest of None \<Rightarrow> [] | Some d \<Rightarrow> d)
      in list_ex (\<lambda>key. case json_get data key of JObj deps \<Rightarrow> package \<in> fst ` set deps | _ \<Rightarrow> False)
           [''dependencies'', ''devDependencies'', ''peerDependencies'', ''optionalDependencies''])"

definition js_declared :: "resolver_env \<Rightarrow> string \<Rightarrow> string \<Rightarrow> bool" where
  "js_declared env directory package =
     list_ex (\<lambda>a. in_dir a ''package.json'' \<in> set (re_files env)
                  \<and> declares env (in_dir a ''package.json'') package) (ancestors directory)"

section \<open>Probing files\<close>

type_synonym found = "import_status \<times> string \<times> string"

definition first_some :: "'a option list \<Rightarrow> 'a option" where
  "first_some xs = (case filter (\<lambda>x. x \<noteq> None) xs of [] \<Rightarrow> None | x # _ \<Rightarrow> x)"

text \<open>What \<open>_probe\<close> tries before it looks at a directory.\<close>

definition probe_file :: "repo_index \<Rightarrow> string \<Rightarrow> found option" where
  "probe_file ix b =
     (let suffix = lower (path_suffix b);
          stem = (if suffix \<noteq> [] then take (length b - length suffix) b else b)
      in if b \<in> set (ix_modules ix) then Some (Internal, b, ''file'')
         else if b \<in> set (ix_files ix) \<and> suffix \<in> set ASSET_EXTENSIONS then Some (Asset, b, ''asset'')
         else
           case find (\<lambda>f. f \<in> set (ix_modules ix))
                  (map (\<lambda>r. stem @ r) (case map_of JS_TO_TS suffix of None \<Rightarrow> [] | Some rs \<Rightarrow> rs)) of
             Some f \<Rightarrow> Some (Internal, f, ''file'')
           | None \<Rightarrow>
               (case find (\<lambda>f. f \<in> set (ix_modules ix)) (map (\<lambda>e. b @ e) JS_CODE_EXTENSIONS) of
                  Some f \<Rightarrow> Some (Internal, f, ''extension'')
                | None \<Rightarrow>
                    if b @ ''.d.ts'' \<in> set (ix_files ix) then Some (Asset, b @ ''.d.ts'', ''type-declaration'')
                    else None))"

definition probe_index :: "repo_index \<Rightarrow> string \<Rightarrow> found option" where
  "probe_index ix b =
     (case find (\<lambda>f. f \<in> set (ix_modules ix)) (map (\<lambda>e. in_dir b (''index'' @ e)) JS_CODE_EXTENSIONS) of
        Some f \<Rightarrow> Some (Internal, f, ''index'')
      | None \<Rightarrow>
          if in_dir b ''index.d.ts'' \<in> set (ix_files ix)
          then Some (Asset, in_dir b ''index.d.ts'', ''type-declaration'') else None)"

text \<open>The targets the manifest of a package directory names, in the order they are tried.\<close>

definition manifest_entries :: "resolver_env \<Rightarrow> string \<Rightarrow> string list" where
  "manifest_entries env b =
     (case (if b \<noteq> [] then load_json env (in_dir b ''package.json'') else None) of
        None \<Rightarrow> []
      | Some manifest \<Rightarrow>
          concat (map (\<lambda>field. case json_get manifest field of
              JStr entry \<Rightarrow> (case join_path [b, entry] of Some j \<Rightarrow> if j \<noteq> [] then [j] else [] | None \<Rightarrow> [])
            | _ \<Rightarrow> [])
            [''source'', ''module'', ''main'', ''types'']))"

fun first_found :: "(string \<Rightarrow> found option result) \<Rightarrow> string list \<Rightarrow> found option result" where
  "first_found f [] = Inr None"
| "first_found f (b # bs) =
     (case f b of Inl e \<Rightarrow> Inl e | Inr (Some r) \<Rightarrow> Inr (Some r) | Inr None \<Rightarrow> first_found f bs)"

primrec probe :: "nat \<Rightarrow> resolver_env \<Rightarrow> string \<Rightarrow> found option result" where
  "probe 0 env b = Inl Recursion_error"
| "probe (Suc frames) env b =
     (case probe_file (re_index env) b of
        Some r \<Rightarrow> Inr (Some r)
      | None \<Rightarrow>
          if b \<in> set (re_dirs env)
          then (case first_found (probe frames env) (manifest_entries env b) of
                  Inl e \<Rightarrow> Inl e
                | Inr (Some r) \<Rightarrow> Inr (Some r)
                | Inr None \<Rightarrow> Inr (probe_index (re_index env) b))
          else Inr None)"

definition probe_any :: "resolver_env \<Rightarrow> string option list \<Rightarrow> found option result" where
  "probe_any env bases = first_found (probe (re_recursion_limit env) env) (List.map_filter id bases)"

section \<open>Resolution\<close>

definition clean :: "string \<Rightarrow> string" where
  "clean specifier = takeWhile (\<lambda>c. c \<noteq> CHR ''?'' \<and> c \<noteq> CHR ''#'') (after_last CHR ''!'' specifier)"

definition package_name :: "string \<Rightarrow> string" where
  "package_name specifier =
     (let parts = split_on CHR ''/'' specifier
      in if starts_with ''@'' specifier \<and> 1 < length parts then join ''/'' (take 2 parts) else hd parts)"

definition has_scheme :: "string \<Rightarrow> bool" where
  "has_scheme specifier =
     rx_match (Seqs [Cls (\<lambda>c. is_upper c \<or> is_lower c),
         Star (Cls (\<lambda>c. is_alnum_ascii c \<or> c \<in> set ''+.-'')), Chr CHR '':'']) specifier"

text \<open>How one pattern of \<open>paths\<close> matches: the text for its star, if it matches.\<close>

definition match_pattern :: "string \<Rightarrow> string \<Rightarrow> string option" where
  "match_pattern pattern specifier =
     (let (prefix, star, suffix) = partition_at CHR ''*'' pattern
      in if star
         then (if starts_with prefix specifier \<and> ends_with suffix specifier
                  \<and> length prefix + length suffix \<le> length specifier
               then Some (take (length specifier - length suffix - length prefix) (drop (length prefix) specifier))
               else None)
         else if specifier \<noteq> pattern then None else Some [])"

definition replace_star :: "string \<Rightarrow> string \<Rightarrow> string" where
  "replace_star target matched =
     (let (a, star, b) = partition_at CHR ''*'' target in if star then a @ matched @ b else target)"

definition lstrip_slash :: "string \<Rightarrow> string" where
  "lstrip_slash s = dropWhile (\<lambda>c. c = CHR ''/'') s"

definition finish_found :: "string \<Rightarrow> raw_import \<Rightarrow> found \<Rightarrow> string \<Rightarrow> resolved_import list" where
  "finish_found source raw found mth =
     (case found of (status, target, _) \<Rightarrow> [mk_resolved source raw status (Some target) mth])"

definition resolve_file :: "resolver_env \<Rightarrow> string \<Rightarrow> raw_import \<Rightarrow> string \<Rightarrow> resolved_import list result" where
  "resolve_file env source raw specifier =
     (let source_dir = parent source;
          absolute = starts_with ''/'' specifier;
          project = (case package_root (re_index env) source_dir of None \<Rightarrow> [] | Some r \<Rightarrow> r);
          candidates = (if absolute
            then [join_path [project, specifier], join_path [project, ''public'', specifier], join_path [specifier]]
            else [join_path [source_dir, specifier]])
      in rbind (probe_any env candidates) (\<lambda>found. Inr
           (case found of
              Some f \<Rightarrow> finish_found source raw f (if absolute then ''root-relative'' else ''relative'')
            | None \<Rightarrow>
                if hd candidates = None
                then [mk_unresolved source raw ''relative import beyond the repository root'']
                else [mk_unresolved source raw (''file '' @ py_repr specifier @ '' not found'')])))"

text \<open>The aliases: \<open>None\<close> when no pattern matches and the base URL leads nowhere.\<close>

definition resolve_alias ::
    "resolver_env \<Rightarrow> string \<Rightarrow> raw_import \<Rightarrow> string \<Rightarrow> path_aliases \<Rightarrow> resolved_import list option result" where
  "resolve_alias env source raw specifier aliases =
     (case find (\<lambda>(pattern, targets). match_pattern pattern specifier \<noteq> None) (pa_paths aliases) of
        Some (pattern, targets) \<Rightarrow>
          rbind (probe_any env (map (\<lambda>t. join_path [pa_base_dir aliases, replace_star t (the (match_pattern pattern specifier))])
              targets)) (\<lambda>found. Inr (Some
            (case found of
               Some f \<Rightarrow> finish_found source raw f ''tsconfig-paths''
             | None \<Rightarrow> [mk_unresolved source raw (''path alias '' @ py_repr pattern @ '' matched but no file found'')])))
      | None \<Rightarrow>
          (case pa_base_url aliases of
             None \<Rightarrow> Inr None
           | Some base_url \<Rightarrow>
               rbind (probe_any env [join_path [base_url, specifier]]) (\<lambda>found. Inr
                 (map_option (\<lambda>f. finish_found source raw f ''tsconfig-baseUrl'') found))))"

definition resolve_workspace ::
    "resolver_env \<Rightarrow> string \<Rightarrow> raw_import \<Rightarrow> string \<Rightarrow> resolved_import list option result" where
  "resolve_workspace env source raw specifier =
     (let package = package_name specifier
      in case map_of (workspace_packages env) package of
           None \<Rightarrow> Inr None
         | Some dir \<Rightarrow>
             if package_root (re_index env) (parent source) = Some dir then Inr None
             else
               let subpath = lstrip_slash (drop (length package) specifier);
                   bases = (if subpath \<noteq> [] then [join_path [dir, subpath], join_path [dir, ''src'', subpath]]
                            else [Some dir, join_path [dir, ''src'']])
               in rbind (probe_any env bases) (\<lambda>found. Inr
                    (map_option (\<lambda>f. finish_found source raw f ''workspace-package'') found)))"

text \<open>The end of \<open>resolve\<close>: bundler aliases, project roots, external packages.\<close>

definition resolve_package :: "resolver_env \<Rightarrow> string \<Rightarrow> raw_import \<Rightarrow> string \<Rightarrow> resolved_import list result" where
  "resolve_package env source raw specifier =
     (let ix = re_index env; source_dir = parent source; package = package_name specifier;
          declared = js_declared env source_dir package;
          external = [mk_resolved source raw External (Some package) (if declared then ''declared'' else ''undeclared'')]
      in if \<not> declared \<and> length specifier \<ge> 2 \<and> hd specifier \<in> set ''@~#'' \<and> specifier ! 1 = CHR ''/''
         then
           let alias_root = (case package_root ix source_dir of None \<Rightarrow> [] | Some r \<Rightarrow> r);
               rest = drop 2 specifier
           in rbind (probe_any env [join_path [alias_root, ''src'', rest], join_path [alias_root, rest]]) (\<lambda>found. Inr
                (case found of
                   Some f \<Rightarrow> finish_found source raw f ''heuristic-alias''
                 | None \<Rightarrow> [mk_unresolved source raw
                     (''alias '' @ py_repr (take 2 specifier) @ '' is not configured in tsconfig/jsconfig'')]))
         else if declared then Inr external
         else
           (case package_root ix source_dir of
              None \<Rightarrow> Inr external
            | Some dir \<Rightarrow>
                (case join_path [dir, before CHR ''/'' specifier] of
                   None \<Rightarrow> Inr external
                 | Some candidate \<Rightarrow>
                     if candidate \<noteq> [] \<and> candidate \<in> set (ix_dirs ix) \<and> candidate \<noteq> dir
                     then rbind (probe_any env [join_path [dir, specifier]]) (\<lambda>found. Inr
                            (case found of Some f \<Rightarrow> finish_found source raw f ''heuristic-project-root'' | None \<Rightarrow> external))
                     else Inr external)))"

definition js_resolve ::
    "resolver_env \<Rightarrow> string \<Rightarrow> raw_import \<Rightarrow> js_state \<Rightarrow> resolved_import list result \<times> js_state" where
  "js_resolve env source raw st =
     (let specifier = clean (strip (ri_specifier raw))
      in if ri_dynamic raw then (Inr [mk_unresolved source raw ''dynamic import with a non-literal specifier''], st)
         else if specifier = [] then (Inr [mk_unresolved source raw ''empty import specifier''], st)
         else if has_scheme specifier \<and> \<not> starts_with ''node:'' specifier
         then (Inr [mk_resolved source raw External (Some (take 200 (before CHR ''?'' specifier))) ''url''], st)
         else if starts_with ''node:'' specifier \<or> package_name specifier \<in> set NODE_BUILTINS
         then (Inr [mk_resolved source raw External
                 (Some (before CHR ''/'' (remove_prefix ''node:'' specifier))) ''node-builtin''], st)
         else if starts_with ''.'' specifier \<or> starts_with ''/'' specifier
         then (resolve_file env source raw specifier, st)
         else
           (case aliases_for env (parent source) st of
              (Inl e, st) \<Rightarrow> (Inl e, st)
            | (Inr aliases, st) \<Rightarrow>
                (rbind (case aliases of None \<Rightarrow> Inr None | Some a \<Rightarrow> resolve_alias env source raw specifier a)
                  (\<lambda>via_alias. case via_alias of
                     Some rs \<Rightarrow> Inr rs
                   | None \<Rightarrow>
                       rbind (resolve_workspace env source raw specifier) (\<lambda>via_workspace.
                         case via_workspace of
                           Some rs \<Rightarrow> Inr rs
                         | None \<Rightarrow> resolve_package env source raw specifier)), st)))"

end
