(* ===== verification/Resolver.thy ===== *)
theory Resolver
  imports Js_Resolver
begin

text \<open>
  The facade of \<open>graph/resolver.py\<close>: every import of every module is resolved by the
  resolver of its language, an exception becomes an unresolved import, and the results are
  counted per import statement.
\<close>

definition no_caches :: js_state where
  "no_caches = \<lparr>js_configs = [], js_aliases = []\<rparr>"

definition resolve_one ::
    "resolver_env \<Rightarrow> parsed_module \<Rightarrow> raw_import \<Rightarrow> js_state \<Rightarrow> resolved_import list \<times> js_state" where
  "resolve_one env m raw st =
     (let (r, st) = (if pm_language m = ''python'' then (py_resolve env (pm_path m) raw, st)
                     else js_resolve env (pm_path m) raw st)
      in (case r of Inr rs \<Rightarrow> rs | Inl _ \<Rightarrow> [mk_unresolved (pm_path m) raw ''resolver error''], st))"

fun resolve_list ::
    "resolver_env \<Rightarrow> (parsed_module \<times> raw_import) list \<Rightarrow> js_state \<Rightarrow> resolved_import list" where
  "resolve_list env [] st = []"
| "resolve_list env ((m, raw) # rest) st =
     (let (rs, st) = resolve_one env m raw st in rs @ resolve_list env rest st)"

definition resolve_imports :: "resolver_env \<Rightarrow> parsed_module list \<Rightarrow> resolved_import list" where
  "resolve_imports env modules =
     resolve_list env (concat (map (\<lambda>m. map (\<lambda>raw. (m, raw)) (pm_imports m)) modules)) no_caches"

section \<open>Statistics\<close>

record resolution_counts =
  st_total :: nat
  st_internal :: nat
  st_external :: nat
  st_asset :: nat
  st_unresolved :: nat
  st_undeclared :: nat

type_synonym statement_id = "string \<times> int \<times> string \<times> string"

definition statement_key :: "resolved_import \<Rightarrow> statement_id" where
  "statement_key r =
     (rs_source r, ri_line (rs_raw r), ri_kind (rs_raw r), ri_specifier (rs_raw r))"

definition by_statement :: "resolved_import list \<Rightarrow> (statement_id \<times> resolved_import list) list" where
  "by_statement resolved = group_into [] (map (\<lambda>r. (statement_key r, r)) resolved)"

fun status_rank :: "import_status \<Rightarrow> nat" where
  "status_rank Internal = 0"
| "status_rank External = 1"
| "status_rank Asset = 2"
| "status_rank Unresolved = 3"

definition statement_status :: "resolved_import list \<Rightarrow> import_status" where
  "statement_status items =
     (if list_ex (\<lambda>r. rs_status r = Unresolved) items then Unresolved
      else first_max (\<lambda>s. - int (status_rank s)) (map rs_status items))"

definition undeclared_statement :: "resolved_import list \<Rightarrow> bool" where
  "undeclared_statement items \<longleftrightarrow>
     statement_status items = External \<and> rs_method (hd items) = Some ''undeclared''"

definition resolution_stats :: "resolved_import list \<Rightarrow> resolution_counts" where
  "resolution_stats resolved =
     (let groups = map snd (by_statement resolved);
          counted = (\<lambda>s. length (filter (\<lambda>g. statement_status g = s) groups))
      in \<lparr>st_total = length groups, st_internal = counted Internal, st_external = counted External,
         st_asset = counted Asset, st_unresolved = counted Unresolved,
         st_undeclared = length (filter undeclared_statement groups)\<rparr>)"

definition coverage :: "resolution_counts \<Rightarrow> real" where
  "coverage st = (if st_total st = 0 then 1 else real (st_total st - st_unresolved st) / real (st_total st))"

end
