(* ===== verification/Resolver_Props.thy ===== *)
theory Resolver_Props
  imports Resolver
begin

text \<open>
  Every import gets an answer, the answer points into the repository, and the statistics
  count every import statement once; and what a package manifest that leads back to its own
  directory does to the search.
\<close>

section \<open>Well-formed answers\<close>

definition wf_resolved :: "repo_index \<Rightarrow> resolved_import \<Rightarrow> bool" where
  "wf_resolved ix r \<longleftrightarrow>
     (case rs_status r of
        Internal \<Rightarrow>
          (case rs_target r of Some t \<Rightarrow> t \<in> set (ix_modules ix) | None \<Rightarrow> rs_method r = Some ''namespace-package'')
      | Asset \<Rightarrow> (\<exists>t. rs_target r = Some t \<and> t \<in> set (ix_files ix))
      | External \<Rightarrow> rs_target r \<noteq> None
      | Unresolved \<Rightarrow> rs_target r = None)
     \<and> ((rs_reason r \<noteq> None) = (rs_status r = Unresolved))"

definition answers :: "repo_index \<Rightarrow> string \<Rightarrow> raw_import \<Rightarrow> resolved_import list \<Rightarrow> bool" where
  "answers ix source raw rs \<longleftrightarrow>
     rs \<noteq> [] \<and> (\<forall>r \<in> set rs. rs_source r = source \<and> rs_raw r = raw \<and> wf_resolved ix r)"

lemma answers_unresolved [simp]: "answers ix source raw [mk_unresolved source raw reason]"
  by (simp add: answers_def wf_resolved_def mk_unresolved_def)

lemma answers_external [simp]: "answers ix source raw [mk_resolved source raw External (Some p) mth]"
  by (simp add: answers_def wf_resolved_def mk_resolved_def)

lemma answers_namespace [simp]:
  "answers ix source raw [mk_resolved source raw Internal None ''namespace-package'']"
  by (simp add: answers_def wf_resolved_def mk_resolved_def)

lemma answers_internal:
  "t \<in> set (ix_modules ix) \<Longrightarrow> answers ix source raw [mk_resolved source raw Internal (Some t) mth]"
  by (simp add: answers_def wf_resolved_def mk_resolved_def)

lemma answers_append:
  "answers ix source raw xs \<Longrightarrow> answers ix source raw ys \<Longrightarrow> answers ix source raw (xs @ ys)"
  by (auto simp: answers_def)

section \<open>The Python resolver\<close>

lemma module_file_in: "module_file ix d x = Some f \<Longrightarrow> f \<in> set (ix_modules ix)"
  unfolding module_file_def by (auto split: option.splits simp del: find.simps dest: find_SomeD)

lemma from_names_ok:
  "from_names ix source raw d b mth names = (rs, missing) \<Longrightarrow> rs = [] \<or> answers ix source raw rs"
proof (induction names arbitrary: rs missing)
  case (Cons name names)
  obtain rs' missing' where rest: "from_names ix source raw d b mth names = (rs', missing')"
    by (cases "from_names ix source raw d b mth names")
  have "rs' = [] \<or> answers ix source raw rs'" by (rule Cons.IH [OF rest])
  moreover have "answers ix source raw (mk_resolved source raw Internal (Some f) mth # rs')"
    if "module_file ix d n = Some f" "rs' = [] \<or> answers ix source raw rs'" for f n
    using answers_internal [OF module_file_in [OF that(1)], of source raw mth] that(2)
      answers_append [of ix source raw "[mk_resolved source raw Internal (Some f) mth]" rs'] by auto
  ultimately show ?case
    using Cons.prems rest by (auto simp: Let_def split: option.splits if_splits)
qed simp

lemma from_names_some:
  "from_names ix source raw d b mth names = ([], missing) \<Longrightarrow> names \<noteq> [] \<Longrightarrow> missing"
  by (induction names arbitrary: missing)
     (auto simp: Let_def split: option.splits if_splits prod.splits)

lemma from_targets_ok:
  assumes "from_targets ix source raw d b mth allow = Some rs"
  shows "answers ix source raw rs"
proof -
  obtain rs0 missing where names: "from_names ix source raw d b mth (ri_names raw) = (rs0, missing)"
    by (cases "from_names ix source raw d b mth (ri_names raw)")
  note ok = from_names_ok [OF names]
  have some: "ri_names raw \<noteq> [] \<Longrightarrow> \<not> missing \<Longrightarrow> rs0 \<noteq> []"
    using from_names_some names by blast
  have app: "answers ix source raw (rs0 @ [mk_resolved source raw Internal (Some m) mth])"
    if "module_file ix d b = Some m" for m
    using ok answers_append answers_internal [OF module_file_in [OF that]] by fastforce
  show ?thesis
    using assms ok some app
    by (auto simp: from_targets_def names Let_def split: if_splits option.splits)
qed

lemma resolve_relative_ok: "answers ix source raw (resolve_relative ix source raw)"
  by (auto simp: resolve_relative_def Let_def module_file_in answers_internal from_targets_ok
      split: option.splits list.splits)

lemma absolute_at_ok: "absolute_at ix source raw internal_name r = Some rs \<Longrightarrow> answers ix source raw rs"
  by (auto simp: absolute_at_def Let_def from_targets_ok module_file_in answers_internal split: if_splits)

lemma absolute_loop_ok:
  assumes "\<And>r rs. f r = Some rs \<Longrightarrow> P rs" and "ns = [] \<or> P ns"
  shows "(absolute_loop f roots ns = Inl found \<longrightarrow> found \<noteq> [] \<longrightarrow> P found)
       \<and> (absolute_loop f roots ns = Inr ns' \<longrightarrow> ns' = [] \<or> P ns')"
  using assms(2)
proof (induction roots arbitrary: ns)
  case (Cons r rs)
  let ?found = "case f r of None \<Rightarrow> [] | Some xs \<Rightarrow> xs"
  have "?found = [] \<or> P ?found" using assms(1) by (auto split: option.splits)
  then show ?case using Cons by (auto simp: Let_def)
qed auto

lemma absolute_loop_Inl: "absolute_loop f roots ns = Inl found \<Longrightarrow> found \<noteq> []"
  by (induction roots arbitrary: ns) (auto simp: Let_def split: if_splits)

lemma resolve_absolute_ok:
  assumes "resolve_absolute env source raw = Inr rs"
  shows "answers (re_index env) source raw rs"
proof -
  define loop where "loop = absolute_loop (absolute_at (re_index env) source raw
      (before CHR ''.'' (ri_specifier raw) \<in> set (internal_top_names (re_index env))))
      (candidate_roots (re_index env) source) []"
  have found: "loop = Inl found \<Longrightarrow> answers (re_index env) source raw found" for found
    using absolute_loop_ok [where P = "answers (re_index env) source raw" and ns = "[]"]
      absolute_loop_Inl absolute_at_ok unfolding loop_def by blast
  have ns: "loop = Inr n \<Longrightarrow> n = [] \<or> answers (re_index env) source raw n" for n
    using absolute_loop_ok [where P = "answers (re_index env) source raw" and ns = "[]"]
      absolute_at_ok unfolding loop_def by blast
  show ?thesis
    using assms unfolding resolve_absolute_def Let_def loop_def [symmetric]
    by (auto simp: rbind_Inr split: if_splits sum.splits dest: found ns)
qed

lemma py_resolve_ok: "py_resolve env source raw = Inr rs \<Longrightarrow> answers (re_index env) source raw rs"
  by (auto simp: py_resolve_def resolve_relative_ok resolve_absolute_ok split: if_splits)

section \<open>The JavaScript resolver\<close>

definition good_found :: "repo_index \<Rightarrow> found \<Rightarrow> bool" where
  "good_found ix f \<longleftrightarrow>
     (case f of (status, t, _) \<Rightarrow>
        (status = Internal \<and> t \<in> set (ix_modules ix)) \<or> (status = Asset \<and> t \<in> set (ix_files ix)))"

lemma finish_found_ok: "good_found ix f \<Longrightarrow> answers ix source raw (finish_found source raw f mth)"
  by (auto simp: good_found_def finish_found_def answers_def wf_resolved_def mk_resolved_def)

lemma probe_file_ok: "probe_file ix b = Some f \<Longrightarrow> good_found ix f"
  unfolding probe_file_def Let_def
  by (auto simp: good_found_def simp del: find.simps split: if_splits option.splits dest: find_SomeD)

lemma probe_index_ok: "probe_index ix b = Some f \<Longrightarrow> good_found ix f"
  unfolding probe_index_def
  by (auto simp: good_found_def simp del: find.simps split: if_splits option.splits dest: find_SomeD)

lemma first_found_ok:
  assumes "\<And>b r. f b = Inr (Some r) \<Longrightarrow> P r"
  shows "first_found f bs = Inr (Some r) \<Longrightarrow> P r"
  by (induction bs) (auto split: sum.splits option.splits intro: assms)

lemma probe_ok: "probe frames env b = Inr (Some f) \<Longrightarrow> good_found (re_index env) f"
proof (induction frames arbitrary: b f)
  case (Suc frames)
  show ?case
    using Suc.prems first_found_ok [of "probe frames env" "good_found (re_index env)", OF Suc.IH]
    by (auto split: option.splits if_splits sum.splits dest: probe_file_ok probe_index_ok)
qed simp

lemma probe_any_ok: "probe_any env bases = Inr (Some f) \<Longrightarrow> good_found (re_index env) f"
  unfolding probe_any_def using first_found_ok probe_ok by blast

lemma resolve_file_ok:
  "resolve_file env source raw specifier = Inr rs \<Longrightarrow> answers (re_index env) source raw rs"
  unfolding resolve_file_def Let_def
  by (auto simp: rbind_Inr intro!: finish_found_ok split: option.splits if_splits dest: probe_any_ok)

lemma resolve_alias_ok:
  "resolve_alias env source raw specifier a = Inr (Some rs) \<Longrightarrow> answers (re_index env) source raw rs"
  unfolding resolve_alias_def
  by (auto simp: rbind_Inr intro!: finish_found_ok split: option.splits if_splits; erule probe_any_ok)

lemma resolve_workspace_ok:
  "resolve_workspace env source raw specifier = Inr (Some rs) \<Longrightarrow> answers (re_index env) source raw rs"
  unfolding resolve_workspace_def Let_def
  by (auto simp: rbind_Inr intro!: finish_found_ok split: option.splits if_splits dest: probe_any_ok)

lemma resolve_package_ok:
  "resolve_package env source raw specifier = Inr rs \<Longrightarrow> answers (re_index env) source raw rs"
  unfolding resolve_package_def Let_def
  by (auto simp: rbind_Inr intro!: finish_found_ok split: option.splits if_splits dest: probe_any_ok)

lemma js_resolve_ok:
  assumes "js_resolve env source raw st = (Inr rs, st')"
  shows "answers (re_index env) source raw rs"
proof -
  have "answers (re_index env) source raw rs"
    if "rbind (case aliases of None \<Rightarrow> Inr None | Some a \<Rightarrow> resolve_alias env source raw s a)
          (\<lambda>via. case via of Some rs \<Rightarrow> Inr rs
             | None \<Rightarrow> rbind (resolve_workspace env source raw s)
                 (\<lambda>ws. case ws of Some rs \<Rightarrow> Inr rs | None \<Rightarrow> resolve_package env source raw s)) = Inr rs" for aliases s
    using that by (auto simp: rbind_Inr split: option.splits
        dest: resolve_alias_ok resolve_workspace_ok resolve_package_ok)
  then show ?thesis
    using assms unfolding js_resolve_def Let_def
    by (auto split: if_splits prod.splits sum.splits dest: resolve_file_ok)
qed

section \<open>The facade\<close>

lemma resolve_one_ok:
  "resolve_one env m raw st = (rs, st') \<Longrightarrow> answers (re_index env) (pm_path m) raw rs"
  by (auto simp: resolve_one_def Let_def split: if_splits sum.splits prod.splits
      dest: py_resolve_ok js_resolve_ok)

lemma resolve_list_ok:
  "r \<in> set (resolve_list env work st) \<Longrightarrow>
     \<exists>(m, raw) \<in> set work. rs_source r = pm_path m \<and> rs_raw r = raw \<and> wf_resolved (re_index env) r"
proof (induction env work st rule: resolve_list.induct)
  case (2 env m raw rest st)
  obtain rs st' where one: "resolve_one env m raw st = (rs, st')" by (cases "resolve_one env m raw st")
  have "r \<in> set rs \<or> r \<in> set (resolve_list env rest st')" using "2.prems" by (simp add: one)
  then show ?case
  proof
    assume "r \<in> set rs"
    then show ?thesis using resolve_one_ok [OF one] by (auto simp: answers_def)
  next
    assume "r \<in> set (resolve_list env rest st')"
    then show ?thesis using "2.IH" [OF one [symmetric] refl] by auto
  qed
qed simp

lemma resolve_list_answers:
  "(m, raw) \<in> set work \<Longrightarrow> \<exists>r \<in> set (resolve_list env work st). rs_source r = pm_path m \<and> rs_raw r = raw"
proof (induction env work st rule: resolve_list.induct)
  case (2 env m' raw' rest st)
  obtain rs st' where one: "resolve_one env m' raw' st = (rs, st')" by (cases "resolve_one env m' raw' st")
  note ok = resolve_one_ok [OF one]
  show ?case
  proof (cases "(m, raw) = (m', raw')")
    case True
    then obtain r where "r \<in> set rs" "rs_source r = pm_path m" "rs_raw r = raw"
      using ok by (cases rs) (auto simp: answers_def)
    then show ?thesis by (auto simp: one)
  next
    case False
    then have "(m, raw) \<in> set rest" using "2.prems" by auto
    then show ?thesis using "2.IH" [OF one [symmetric] refl] by (auto simp: one)
  qed
qed simp

section \<open>Statistics\<close>

lemma statement_count: "st_total (resolution_stats rs) = card (statement_key ` set rs)"
proof -
  let ?g = "group_into [] (map (\<lambda>r. (statement_key r, r)) rs)"
  have "distinct (map fst ?g)" by (rule distinct_group_into) simp
  then have "length ?g = card (fst ` set ?g)" using distinct_card [of "map fst ?g"] by simp
  also have "fst ` set ?g = statement_key ` set rs" by (simp add: group_into_keys image_image)
  finally show ?thesis by (simp add: resolution_stats_def by_statement_def Let_def)
qed

lemma filter_partition4:
  "length xs = length (filter (\<lambda>g. f g = Internal) xs) + length (filter (\<lambda>g. f g = External) xs)
     + length (filter (\<lambda>g. f g = Asset) xs) + length (filter (\<lambda>g. f g = Unresolved) xs)"
proof (induction xs)
  case (Cons x xs)
  then show ?case by (cases "f x") simp_all
qed simp

section \<open>Manifests that lead back\<close>

lemma probe_manifest_loop:
  assumes "b \<in> set (re_dirs env)" and "probe_file (re_index env) b = None"
    and "manifest_entries env b = b # others"
  shows "probe frames env b = Inl Recursion_error"
  by (induction frames) (use assms in simp_all)

lemma dot_not_builtin: "package_name (CHR ''.'' # cs) \<notin> set NODE_BUILTINS"
proof -
  obtain p ps where "split_on CHR ''/'' cs = p # ps" by (cases "split_on CHR ''/'' cs") auto
  then have "package_name (CHR ''.'' # cs) = CHR ''.'' # p"
    by (simp add: package_name_def starts_with_def)
  moreover have "\<forall>b \<in> set NODE_BUILTINS. hd b \<noteq> CHR ''.''" by code_simp
  ultimately show ?thesis by force
qed

lemma dot_no_scheme: "\<not> has_scheme (CHR ''.'' # cs)"
  by (simp add: has_scheme_def rx_match_def is_upper_def is_lower_def code_def)

section \<open>Properties\<close>

definition example_module :: "parsed_module" where
  "example_module =
     \<lparr>pm_path = ''app.ts'', pm_language = ''typescript'', pm_loc = 1, pm_definition_count = 0, pm_symbols = [],
      pm_imports = [\<lparr>ri_specifier = ''./lib'', ri_kind = ''import'', ri_line = 1, ri_statement = [], ri_names = [],
                     ri_level = 0, ri_type_only = False, ri_lazy = False, ri_dynamic = False\<rparr>],
      pm_error = None, pm_warning = None\<rparr>"

definition example_env :: "json \<Rightarrow> resolver_env" where
  "example_env manifest =
     \<lparr>re_index = \<lparr>ix_modules = [''app.ts'', ''lib/index.ts''],
                  ix_files = [''app.ts'', ''lib/index.ts'', ''lib/package.json''], ix_dirs = [[], ''lib''],
                  ix_text = (\<lambda>f. if f = ''lib/package.json'' then Some [] else None)\<rparr>,
      re_stdlib = [], re_toml = (\<lambda>_. None), re_json = (\<lambda>_. Some manifest), re_recursion_limit = 1000\<rparr>"

text \<open>
  C20: Every result belongs to an import of a module and is well formed: an internal target
  is a module of the index (or a namespace package without a file), an asset is a file of the
  index, an external one names a package, an unresolved one has a reason.  And every import of
  every module has a result, whatever exceptions the resolvers raise.
\<close>

theorem resolve_imports_sound:
  "(\<forall>r \<in> set (resolve_imports env modules). \<exists>m \<in> set modules.
       rs_source r = pm_path m \<and> rs_raw r \<in> set (pm_imports m) \<and> wf_resolved (re_index env) r)
   \<and> (\<forall>m \<in> set modules. \<forall>raw \<in> set (pm_imports m).
       \<exists>r \<in> set (resolve_imports env modules). rs_source r = pm_path m \<and> rs_raw r = raw)"
proof -
  let ?work = "concat (map (\<lambda>m. map (\<lambda>raw. (m, raw)) (pm_imports m)) modules)"
  have "\<exists>m \<in> set modules. rs_source r = pm_path m \<and> rs_raw r \<in> set (pm_imports m) \<and> wf_resolved (re_index env) r"
    if "r \<in> set (resolve_imports env modules)" for r
    using resolve_list_ok [OF that [unfolded resolve_imports_def]] by auto
  moreover have "\<exists>r \<in> set (resolve_imports env modules). rs_source r = pm_path m \<and> rs_raw r = raw"
    if "m \<in> set modules" "raw \<in> set (pm_imports m)" for m raw
    unfolding resolve_imports_def by (rule resolve_list_answers) (use that in auto)
  ultimately show ?thesis by blast
qed

theorem resolve_imports_sound_witness:
  "\<exists>r \<in> set (resolve_imports (example_env JNull) [example_module]). rs_source r = ''app.ts''"
  using conjunct2 [OF resolve_imports_sound [of "example_env JNull" "[example_module]"]]
  by (auto simp: example_module_def)

text \<open>
  The statistics count every import statement exactly once: the total is the number of
  different statements, each has one status, and the coverage is a share between 0 and 1.
\<close>

theorem resolution_stats_partition:
  "let st = resolution_stats (resolve_imports env modules)
   in st_total st = card {(pm_path m, ri_line raw, ri_kind raw, ri_specifier raw) | m raw.
                            m \<in> set modules \<and> raw \<in> set (pm_imports m)}
    \<and> st_total st = st_internal st + st_external st + st_asset st + st_unresolved st
    \<and> st_undeclared st \<le> st_external st \<and> 0 \<le> coverage st \<and> coverage st \<le> 1"
proof -
  let ?rs = "resolve_imports env modules" and ?st = "resolution_stats (resolve_imports env modules)"
  let ?K = "{(pm_path m, ri_line raw, ri_kind raw, ri_specifier raw) | m raw.
                            m \<in> set modules \<and> raw \<in> set (pm_imports m)}"
  have "statement_key ` set ?rs = ?K"
  proof
    show "statement_key ` set ?rs \<subseteq> ?K"
      using resolve_list_ok [of _ env "concat (map (\<lambda>m. map (\<lambda>raw. (m, raw)) (pm_imports m)) modules)" no_caches]
      unfolding resolve_imports_def statement_key_def by fastforce
    show "?K \<subseteq> statement_key ` set ?rs"
    proof
      fix k assume "k \<in> ?K"
      then obtain m raw where k: "k = (pm_path m, ri_line raw, ri_kind raw, ri_specifier raw)"
        "m \<in> set modules" "raw \<in> set (pm_imports m)" by blast
      then have "\<exists>r \<in> set ?rs. rs_source r = pm_path m \<and> rs_raw r = raw"
        unfolding resolve_imports_def by (intro resolve_list_answers) auto
      then show "k \<in> statement_key ` set ?rs" unfolding k statement_key_def by force
    qed
  qed
  then have "st_total ?st = card ?K" using statement_count by metis
  moreover have sum: "st_total ?st = st_internal ?st + st_external ?st + st_asset ?st + st_unresolved ?st"
    using filter_partition4 [of "map snd (by_statement ?rs)" statement_status]
    unfolding resolution_stats_def Let_def by simp
  moreover have "st_undeclared ?st \<le> st_external ?st"
    unfolding resolution_stats_def Let_def resolution_counts.simps
    by (rule length_filter_mono) (simp add: undeclared_statement_def)
  moreover have "0 \<le> coverage ?st \<and> coverage ?st \<le> 1" using sum by (simp add: coverage_def)
  ultimately show ?thesis by (simp only: Let_def simp_thms)
qed

text \<open>
  A package manifest whose first entry leads back to its own directory makes the search
  exhaust the stack, whatever the limit, and the import is lost, although the directory may
  hold an index file that the search would try next.
\<close>

theorem manifest_loop_unresolved:
  assumes "pm_language m \<noteq> ''python''" and "\<not> ri_dynamic raw"
    and "clean (strip (ri_specifier raw)) = CHR ''.'' # cs"
    and "join_path [parent (pm_path m), CHR ''.'' # cs] = Some b"
    and "b \<in> set (re_dirs env)" and "probe_file (re_index env) b = None"
    and "manifest_entries env b = b # others"
  shows "resolve_one env m raw st = ([mk_unresolved (pm_path m) raw ''resolver error''], st)"
proof -
  have "\<not> starts_with ''/'' (CHR ''.'' # cs)" "\<not> starts_with ''node:'' (CHR ''.'' # cs)"
    "starts_with ''.'' (CHR ''.'' # cs)" by (simp_all add: starts_with_def)
  moreover from this have "resolve_file env (pm_path m) raw (CHR ''.'' # cs) = Inl Recursion_error"
    using assms(4) probe_manifest_loop [OF assms(5,6,7)]
    by (simp add: resolve_file_def Let_def probe_any_def List.map_filter_simps)
  ultimately have "js_resolve env (pm_path m) raw st = (Inl Recursion_error, st)"
    using assms(2,3) dot_not_builtin dot_no_scheme by (simp add: js_resolve_def Let_def)
  then show ?thesis using assms(1) by (simp add: resolve_one_def)
qed

theorem manifest_loop_unresolved_witness:
  "map rs_status (fst (resolve_one (example_env (JObj [(''main'', JStr ''.'')])) example_module
        (hd (pm_imports example_module)) no_caches)) = [Unresolved]
   \<and> map rs_target (fst (resolve_one (example_env JNull) example_module (hd (pm_imports example_module)) no_caches))
      = [Some ''lib/index.ts'']"
  (is "?l \<and> ?r")
proof
  let ?e = "example_env (JObj [(''main'', JStr ''.'')])"
  have "resolve_one ?e example_module (hd (pm_imports example_module)) no_caches
      = ([mk_unresolved (pm_path example_module) (hd (pm_imports example_module)) ''resolver error''], no_caches)"
  proof (rule manifest_loop_unresolved)
    show "pm_language example_module \<noteq> ''python''" "\<not> ri_dynamic (hd (pm_imports example_module))"
      by (simp_all add: example_module_def)
    show "clean (strip (ri_specifier (hd (pm_imports example_module)))) = CHR ''.'' # ''/lib''" by code_simp
    show "join_path [parent (pm_path example_module), CHR ''.'' # ''/lib''] = Some ''lib''" by code_simp
    show "''lib'' \<in> set (re_dirs ?e)" by (simp add: example_env_def)
    show "probe_file (re_index ?e) ''lib'' = None" by code_simp
    show "manifest_entries ?e ''lib'' = ''lib'' # []" by code_simp
  qed
  then show ?l by (simp add: mk_unresolved_def)
  show ?r by code_simp
qed

end
