(* ===== verification/Layers.thy ===== *)
theory Layers
  imports Regex_Scan
begin

text \<open>
  \<open>graph/layers.py\<close>: the architectural layer of a module, and whether it is an
  entrypoint, from the words of its path.
\<close>

definition BACKEND :: string where "BACKEND = ''backend''"
definition FRONTEND :: string where "FRONTEND = ''frontend''"

definition STACKS :: "(string \<times> string list) list" where
  "STACKS = [(BACKEND, [''presentation'', ''service'', ''data'']),
             (FRONTEND, [''ui'', ''hooks'', ''api'', ''store''])]"

definition words_to :: "string list \<Rightarrow> string \<Rightarrow> (string \<times> string) list" where
  "words_to ws layer = map (\<lambda>w. (w, layer)) ws"

definition BACKEND_WORDS :: "(string \<times> string) list" where
  "BACKEND_WORDS =
     words_to [''route'', ''routes'', ''router'', ''routers'', ''controller'', ''controllers'', ''handler'',
       ''handlers'', ''endpoint'', ''endpoints'', ''view'', ''views'', ''resource'', ''resources'']
       ''presentation''
     @ words_to [''service'', ''services'', ''usecase'', ''usecases'', ''interactor'', ''interactors'',
       ''manager'', ''managers''] ''service''
     @ words_to [''model'', ''models'', ''entity'', ''entities'', ''repository'', ''repositories'', ''repo'',
       ''repos'', ''dao'', ''daos'', ''db'', ''database'', ''orm''] ''data''"

definition FRONTEND_WORDS :: "(string \<times> string) list" where
  "FRONTEND_WORDS =
     words_to [''component'', ''components'', ''page'', ''pages'', ''screen'', ''screens'', ''layout'',
       ''layouts'', ''container'', ''containers'', ''widget'', ''widgets''] ''ui''
     @ words_to [''hook'', ''hooks'', ''composable'', ''composables''] ''hooks''
     @ words_to [''api'', ''apis'', ''client'', ''clients'', ''query'', ''queries'', ''request'', ''requests''] ''api''
     @ words_to [''store'', ''stores'', ''state'', ''redux'', ''slice'', ''slices'', ''reducer'', ''reducers'',
       ''atom'', ''atoms''] ''store''"

definition PYTHON_OVERRIDES :: "(string \<times> string \<times> string) list" where
  "PYTHON_OVERRIDES = [(''api'', ''presentation'', BACKEND), (''apis'', ''presentation'', BACKEND)]"

definition TEST_WORDS :: "string list" where
  "TEST_WORDS =
     [''test'', ''tests'', ''__tests__'', ''spec'', ''specs'', ''e2e'', ''testing'', ''cypress'', ''playwright'']"

definition ENTRYPOINT_NAMES :: "string list" where
  "ENTRYPOINT_NAMES =
     [''__main__.py'', ''__init__.py'', ''manage.py'', ''wsgi.py'', ''asgi.py'', ''setup.py'',
      ''conftest.py'', ''noxfile.py'', ''fabfile.py'', ''tasks.py'']"

definition ENTRYPOINT_STEMS :: "string list" where
  "ENTRYPOINT_STEMS =
     [''main'', ''index'', ''server'', ''cli'', ''app'', ''worker'', ''celery'', ''run'', ''entry'']"

definition ROUTING_STEMS :: "string list" where
  "ROUTING_STEMS =
     [''page'', ''layout'', ''route'', ''loading'', ''error'', ''not-found'', ''template'', ''middleware'',
      ''_app'', ''_document'']"

definition ENTRYPOINT_DIRS :: "string list" where
  "ENTRYPOINT_DIRS =
     [''scripts'', ''script'', ''bin'', ''examples'', ''example'', ''docs'', ''docs_src'', ''migrations'',
      ''versions'', ''benchmarks'', ''bench'', ''stories'', ''fixtures'']"

section \<open>Words of a segment\<close>

text \<open>\<open>[cm]?[jt]sx?\<close>\<close>

definition js_ext :: rx where
  "js_ext = Seqs [Opt (OneOf ''cm''), OneOf ''jt'', Chr CHR ''s'', Opt (Chr CHR ''x'')]"

definition source_ext :: rx where
  "source_ext = Seqs [Chr CHR ''.'', Alt (Str ''py'') js_ext, Eol]"

definition separators :: rx where
  "separators = Plus (Cls (\<lambda>c. c \<in> set ''._-'' \<or> is_space c))"

definition word_rx :: rx where
  "word_rx = Alt (Seq (Plus (Cls is_upper)) (NotAhead (Cls is_lower)))
                 (Seq (Opt (Cls is_upper)) (Plus (Cls (\<lambda>c. is_lower c \<or> is_digit c))))"

definition words :: "string \<Rightarrow> string list" where
  "words segment =
     concat (map (\<lambda>token. map lower (rx_findall word_rx token))
       (rx_split separators (rx_sub source_ext [] segment)))"

section \<open>Layers\<close>

record layer_info =
  li_layer :: "string option"
  li_stack :: "string option"
  li_is_test :: bool
  li_layer_root :: "string option"

fun index_of :: "'a \<Rightarrow> 'a list \<Rightarrow> nat option" where
  "index_of x [] = None"
| "index_of x (y # ys) = (if y = x then Some 0 else map_option Suc (index_of x ys))"

definition layer_rank :: "layer_info \<Rightarrow> nat option" where
  "layer_rank i =
     (case (li_layer i, li_stack i) of
        (Some l, Some s) \<Rightarrow> Option.bind (map_of STACKS s) (index_of l)
      | _ \<Rightarrow> None)"

definition hook_name :: "string \<Rightarrow> bool" where
  "hook_name stem = rx_match (Seq (Str ''use'') (Cls (\<lambda>c. is_upper c \<or> is_digit c))) stem"

definition match_segment :: "string \<Rightarrow> bool \<Rightarrow> string \<Rightarrow> string \<Rightarrow> bool \<Rightarrow> (string \<times> string) option" where
  "match_segment segment is_file stem language frontend_project =
     (let ws = words segment
      in if ws = [] then None
         else if language \<noteq> ''python'' \<and> is_file \<and> hook_name stem then Some (''hooks'', FRONTEND)
         else
           let word = last ws;
               backend = map_option (\<lambda>l. (l, BACKEND)) (map_of BACKEND_WORDS word)
           in if language = ''python''
              then (case map_of PYTHON_OVERRIDES word of Some p \<Rightarrow> Some p | None \<Rightarrow> backend)
              else if frontend_project \<and> map_of FRONTEND_WORDS word \<noteq> None
              then map_option (\<lambda>l. (l, FRONTEND)) (map_of FRONTEND_WORDS word)
              else if frontend_project \<and> word \<in> {''service'', ''services''} then Some (''api'', FRONTEND)
              else if backend \<noteq> None then backend
              else if \<not> frontend_project \<and> word \<in> {''api'', ''apis''} then Some (''presentation'', BACKEND)
              else None)"

definition test_name :: rx where
  "test_name = Alts [Seq Bol (Str ''test_''), Seq (Str ''_test.py'') Eol,
     Seqs [Chr CHR ''.'', Alt (Str ''test'') (Str ''spec''), Chr CHR ''.'', js_ext, Eol]]"

text \<open>The loop over the segments from the file upwards, with the number of segments left.\<close>

fun match_upwards :: "string \<Rightarrow> string \<Rightarrow> bool \<Rightarrow> bool \<Rightarrow> string list \<Rightarrow> (string \<times> string \<times> nat) option" where
  "match_upwards stem language frontend_project is_file [] = None"
| "match_upwards stem language frontend_project is_file (segment # segments) =
     (case match_segment segment is_file stem language frontend_project of
        Some (layer, stack) \<Rightarrow> Some (layer, stack, Suc (length segments))
      | None \<Rightarrow> match_upwards stem language frontend_project False segments)"

definition path_segments :: "string \<Rightarrow> string list" where
  "path_segments path = path_parent_parts path @ [path_name path]"

definition is_test_module :: "string \<Rightarrow> bool" where
  "is_test_module path \<longleftrightarrow>
     list_ex (\<lambda>s. list_ex (\<lambda>w. w \<in> set TEST_WORDS) (words s)) (path_segments path)
     \<or> rx_search test_name (path_name path)"

definition infer_layer :: "string \<Rightarrow> string \<Rightarrow> bool \<Rightarrow> layer_info" where
  "infer_layer path language frontend_project =
     (let segments = path_segments path
      in if is_test_module path
         then \<lparr>li_layer = None, li_stack = None, li_is_test = True, li_layer_root = None\<rparr>
         else
           (case match_upwards (path_stem path) language frontend_project True (rev segments) of
              Some (layer, stack, n) \<Rightarrow>
                \<lparr>li_layer = Some layer, li_stack = Some stack, li_is_test = False,
                 li_layer_root = Some (join ''/'' (take n segments))\<rparr>
            | None \<Rightarrow> \<lparr>li_layer = None, li_stack = None, li_is_test = False, li_layer_root = None\<rparr>))"

definition is_frontend_path :: "string \<Rightarrow> bool" where
  "is_frontend_path path \<longleftrightarrow>
     path_suffix path \<in> {''.tsx'', ''.jsx''}
     \<or> list_ex (\<lambda>s. words s \<noteq> [] \<and> map_of FRONTEND_WORDS (last (words s)) \<in> {Some ''ui'', Some ''hooks''})
         (path_parent_parts path)"

section \<open>Entrypoints\<close>

definition contains :: "string \<Rightarrow> string \<Rightarrow> bool" where
  "contains sub s = list_ex (\<lambda>i. starts_with sub (drop i s)) [0..<Suc (length s)]"

definition is_entrypoint :: "string \<Rightarrow> string \<Rightarrow> bool \<Rightarrow> bool" where
  "is_entrypoint path language is_test =
     (let name = path_name path; stem = before CHR ''.'' name
      in if is_test \<or> name \<in> set ENTRYPOINT_NAMES \<or> starts_with ''.'' name then True
         else if lower stem \<in> set ENTRYPOINT_STEMS \<or> contains ''.config.'' name
              \<or> starts_with ''setupTests'' name \<or> starts_with ''vite-env'' name then True
         else if list_ex (\<lambda>part. lower part \<in> set ENTRYPOINT_DIRS) (path_parent_parts path) then True
         else language \<noteq> ''python''
              \<and> (contains ''.stories.'' name \<or> stem \<in> set ROUTING_STEMS
                 \<or> ''pages'' \<in> set (path_parent_parts path)))"

section \<open>Every layer is one of its stack\<close>

definition layer_of_stack :: "string \<Rightarrow> string \<Rightarrow> bool" where
  "layer_of_stack stack layer \<longleftrightarrow> (\<exists>ls. map_of STACKS stack = Some ls \<and> layer \<in> set ls)"

lemma layer_tables:
  "map_of BACKEND_WORDS w = Some l \<Longrightarrow> layer_of_stack BACKEND l"
  "map_of FRONTEND_WORDS w = Some l \<Longrightarrow> layer_of_stack FRONTEND l"
  "map_of PYTHON_OVERRIDES w = Some (l, st) \<Longrightarrow> layer_of_stack st l"
  by (auto simp: layer_of_stack_def STACKS_def BACKEND_def FRONTEND_def BACKEND_WORDS_def
      FRONTEND_WORDS_def PYTHON_OVERRIDES_def words_to_def split: if_splits)

lemma layer_of_stack_simps [simp]:
  "layer_of_stack FRONTEND ''hooks''" "layer_of_stack FRONTEND ''api''" "layer_of_stack BACKEND ''presentation''"
  by (simp_all add: layer_of_stack_def STACKS_def BACKEND_def FRONTEND_def)

lemma match_segment_layer:
  "match_segment segment is_file stem language frontend_project = Some (l, st) \<Longrightarrow> layer_of_stack st l"
  unfolding match_segment_def Let_def
  by (auto split: if_splits option.splits intro: layer_tables)

lemma match_upwards_layer:
  "match_upwards stem language frontend_project is_file segs = Some (l, st, n)
   \<Longrightarrow> layer_of_stack st l \<and> 0 < n \<and> n \<le> length segs"
  by (induction segs arbitrary: is_file)
     (auto split: option.splits prod.splits dest: match_segment_layer intro: le_SucI)

lemma infer_layer_stack:
  assumes "li_layer (infer_layer path language fp) = Some l"
  obtains st where "li_stack (infer_layer path language fp) = Some st" "layer_of_stack st l"
    "\<not> li_is_test (infer_layer path language fp)"
  using assms unfolding infer_layer_def Let_def
  by (auto split: if_splits option.splits prod.splits dest: match_upwards_layer)

end
