(* ===== verification/Graph_Builder.thy ===== *)
theory Graph_Builder
  imports Layers Imports
begin

text \<open>
  \<open>graph/builder.py\<close>: module ids, and the module graph built from the parsed modules and
  the resolved imports.  The graph object is its insertion-ordered dictionary of nodes with
  the dictionary of edges.
\<close>

section \<open>Data\<close>

record import_ref =
  ir_line :: int
  ir_statement :: string
  ir_type_only :: bool
  ir_lazy :: bool

record edge_data =
  ed_source :: string
  ed_target :: string
  ed_imports :: "import_ref list"

definition edge_type_only :: "edge_data \<Rightarrow> bool" where
  "edge_type_only e = list_all ir_type_only (ed_imports e)"

definition edge_lazy :: "edge_data \<Rightarrow> bool" where
  "edge_lazy e =
     (let runtime = filter (\<lambda>i. \<not> ir_type_only i) (ed_imports e)
      in runtime \<noteq> [] \<and> list_all ir_lazy runtime)"

definition edge_first :: "edge_data \<Rightarrow> import_ref" where
  "edge_first e = first_max (\<lambda>i. - ir_line i) (ed_imports e)"

record external_import =
  xi_source :: string
  xi_package :: string
  xi_language :: string
  xi_evidence :: string
  xi_imports :: "import_ref list"

record node_data =
  nd_path :: string
  nd_language :: string
  nd_loc :: nat
  nd_definition_count :: nat
  nd_symbols :: "string list"
  nd_layer :: "string option"
  nd_stack :: "string option"
  nd_layer_root :: "string option"
  nd_is_test :: bool
  nd_is_entrypoint :: bool
  nd_parse_error :: "string option"

datatype issue_type = Circular_dependency | Layer_violation | God_module | Orphan_module

type_synonym edge_key = "string \<times> string"

record architecture_graph =
  ag_nodes :: "(string, node_data) dict"
  ag_edges :: "(edge_key, edge_data) dict"
  ag_external :: "external_import list"
  ag_unresolved :: "resolved_import list"
  ag_module_ids :: "(string, string) dict"

definition runtime_edges :: "architecture_graph \<Rightarrow> edge_key list" where
  "runtime_edges a = map fst (filter (\<lambda>(k, e). \<not> edge_type_only e) (ag_edges a))"

section \<open>Module ids\<close>

definition STRIP_SUFFIXES :: "string list" where
  "STRIP_SUFFIXES =
     [''.py'', ''.d.ts'', ''.tsx'', ''.ts'', ''.mts'', ''.cts'', ''.jsx'', ''.js'', ''.mjs'', ''.cjs'']"

definition rstrip_slash :: "string \<Rightarrow> string" where
  "rstrip_slash s = rstrip_by (\<lambda>c. c = CHR ''/'') s"

definition candidate_id :: "string \<Rightarrow> string" where
  "candidate_id path =
     (let module_id = (case find (\<lambda>s. ends_with s path) STRIP_SUFFIXES of
                         None \<Rightarrow> path | Some s \<Rightarrow> remove_suffix s path)
      in if ends_with ''/__init__'' module_id \<or> module_id = ''__init__''
         then (let package = rstrip_slash (remove_suffix ''__init__'' module_id)
               in if package \<noteq> [] then package else ''__init__'')
         else module_id)"

definition module_ids_for :: "string list \<Rightarrow> (string, string) dict" where
  "module_ids_for paths =
     (let candidates = map (\<lambda>p. (p, candidate_id p)) (dict_fromkeys paths)
      in map (\<lambda>(p, mid). (p, if length (filter (\<lambda>(_, m). m = mid) candidates) = 1 then mid else p)) candidates)"

section \<open>The graph\<close>

definition project_key :: "string \<Rightarrow> string list \<Rightarrow> string" where
  "project_key path package_roots =
     (case find (\<lambda>r. r = [] \<or> starts_with (r @ ''/'') path) package_roots of
        Some r \<Rightarrow> r
      | None \<Rightarrow> if CHR ''/'' \<in> set path then before CHR ''/'' path else [])"

definition package_roots :: "repo_index \<Rightarrow> string list" where
  "package_roots ix =
     sort_key (\<lambda>r. - int (length r))
       (dict_fromkeys (map parent (filter (\<lambda>f. path_name f = ''package.json'') (ix_files ix))))"

definition or_none :: "string option \<Rightarrow> string option \<Rightarrow> string option" where
  "or_none a b = (case a of None \<Rightarrow> b | Some s \<Rightarrow> if s = [] then b else a)"

definition node_of :: "string list \<Rightarrow> string list \<Rightarrow> parsed_module \<Rightarrow> node_data" where
  "node_of roots frontend_projects m =
     (let info = infer_layer (pm_path m) (pm_language m)
                   (project_key (pm_path m) roots \<in> set frontend_projects)
      in \<lparr>nd_path = pm_path m, nd_language = pm_language m, nd_loc = pm_loc m,
          nd_definition_count = pm_definition_count m, nd_symbols = take 200 (pm_symbols m),
          nd_layer = li_layer info, nd_stack = li_stack info, nd_layer_root = li_layer_root info,
          nd_is_test = li_is_test info,
          nd_is_entrypoint = is_entrypoint (pm_path m) (pm_language m) (li_is_test info),
          nd_parse_error = or_none (pm_error m) (pm_warning m)\<rparr>)"

definition frontend_projects :: "string list \<Rightarrow> parsed_module list \<Rightarrow> string list" where
  "frontend_projects roots modules =
     map (\<lambda>m. project_key (pm_path m) roots)
       (filter (\<lambda>m. pm_language m \<noteq> ''python'' \<and> is_frontend_path (pm_path m)) modules)"

definition add_nodes ::
    "(string \<Rightarrow> string) \<Rightarrow> (parsed_module \<Rightarrow> node_data) \<Rightarrow> parsed_module list \<Rightarrow> (string, node_data) dict" where
  "add_nodes ids node modules = foldl (\<lambda>d m. dict_set (ids (pm_path m)) (node m) d) [] modules"

definition ref_of :: "resolved_import \<Rightarrow> import_ref" where
  "ref_of item =
     \<lparr>ir_line = ri_line (rs_raw item), ir_statement = ri_statement (rs_raw item),
      ir_type_only = ri_type_only (rs_raw item), ir_lazy = ri_lazy (rs_raw item)\<rparr>"

text \<open>The internal edge an import contributes to, if it does.\<close>

definition edge_of :: "(string, string) dict \<Rightarrow> resolved_import \<Rightarrow> edge_key option" where
  "edge_of ids item =
     (case (map_of ids (rs_source item), Option.bind (rs_target item) (map_of ids)) of
        (Some source, Some target) \<Rightarrow>
          if rs_status item = Internal \<and> target \<noteq> source then Some (source, target) else None
      | _ \<Rightarrow> None)"

definition add_edge :: "edge_key \<Rightarrow> import_ref \<Rightarrow> (edge_key, edge_data) dict \<Rightarrow> (edge_key, edge_data) dict" where
  "add_edge k ref d =
     (let edge = (case map_of d k of
                    None \<Rightarrow> \<lparr>ed_source = fst k, ed_target = snd k, ed_imports = []\<rparr> | Some e \<Rightarrow> e)
      in dict_set k (if ref \<in> set (ed_imports edge) then edge
                     else edge\<lparr>ed_imports := ed_imports edge @ [ref]\<rparr>) d)"

definition add_external ::
    "(string, string) dict \<Rightarrow> (string, string) dict \<Rightarrow> resolved_import
     \<Rightarrow> (edge_key, external_import) dict \<Rightarrow> (edge_key, external_import) dict" where
  "add_external ids languages item d =
     (case (map_of ids (rs_source item), rs_target item) of
        (Some source, Some package) \<Rightarrow>
          if rs_status item = External \<and> package \<noteq> []
          then
            let entry = (case map_of d (source, package) of
                  Some e \<Rightarrow> e
                | None \<Rightarrow>
                    \<lparr>xi_source = source, xi_package = package,
                     xi_language = (case map_of languages (rs_source item) of Some l \<Rightarrow> l | None \<Rightarrow> []),
                     xi_evidence = the (or_none (rs_method item) (Some ''undeclared'')), xi_imports = []\<rparr>)
            in dict_set (source, package) (entry\<lparr>xi_imports := xi_imports entry @ [ref_of item]\<rparr>) d
          else d
      | _ \<Rightarrow> d)"

definition build_graph :: "repo_index \<Rightarrow> parsed_module list \<Rightarrow> resolved_import list \<Rightarrow> architecture_graph" where
  "build_graph ix modules resolved =
     (let module_ids = module_ids_for (map pm_path modules);
          roots = package_roots ix;
          languages = map (\<lambda>m. (pm_path m, pm_language m)) (rev modules)
      in \<lparr>ag_nodes = add_nodes (\<lambda>p. the (map_of module_ids p))
                        (node_of roots (frontend_projects roots modules)) modules,
          ag_edges = foldl (\<lambda>d item. case edge_of module_ids item of
                        None \<Rightarrow> d | Some k \<Rightarrow> add_edge k (ref_of item) d) [] resolved,
          ag_external = map snd (foldl (\<lambda>d item. add_external module_ids languages item d) [] resolved),
          ag_unresolved = filter (\<lambda>item. rs_status item = Unresolved) resolved,
          ag_module_ids = module_ids\<rparr>)"

end
