(* ===== verification/Graph_Builder_Props.thy ===== *)
theory Graph_Builder_Props
  imports Graph_Builder
begin

text \<open>
  The edges of the graph are exactly the internal imports between different modules, each
  with its distinct imports in order; every edge joins two nodes; and when two modules get the
  same id.
\<close>

section \<open>Module ids\<close>

definition unique_candidate :: "string list \<Rightarrow> string \<Rightarrow> bool" where
  "unique_candidate paths p \<longleftrightarrow> (\<forall>q \<in> set paths. candidate_id q = candidate_id p \<longrightarrow> q = p)"

definition module_id :: "string list \<Rightarrow> string \<Rightarrow> string" where
  "module_id paths p = the (map_of (module_ids_for paths) p)"

lemma length_filter_one:
  assumes "distinct xs" and "x \<in> set xs" and "P x"
  shows "length (filter P xs) = 1 \<longleftrightarrow> (\<forall>y \<in> set xs. P y \<longrightarrow> y = x)"
proof
  assume "length (filter P xs) = 1"
  then obtain z where z: "filter P xs = [z]" by (auto simp: length_Suc_conv)
  have "y = z" if "y \<in> set xs" "P y" for y
  proof -
    have "y \<in> set (filter P xs)" using that by simp
    then show ?thesis by (simp add: z)
  qed
  then show "\<forall>y \<in> set xs. P y \<longrightarrow> y = x" using assms(2,3) by metis
next
  assume only: "\<forall>y \<in> set xs. P y \<longrightarrow> y = x"
  have "set (filter P xs) \<subseteq> {x}" using only by simp blast
  moreover have "x \<in> set (filter P xs)" using assms by simp
  ultimately have "set (filter P xs) = {x}" by blast
  then show "length (filter P xs) = 1"
    using distinct_card [OF distinct_filter [OF assms(1), of P]] by simp
qed

lemma map_of_module_ids:
  "map_of (module_ids_for paths) p =
     (if p \<in> set paths then Some (if unique_candidate paths p then candidate_id p else p) else None)"
proof -
  let ?ps = "dict_fromkeys paths"
  have one: "(length (filter (\<lambda>(_, m). m = candidate_id q) (map (\<lambda>p. (p, candidate_id p)) ?ps)) = 1)
      = unique_candidate paths q" if "q \<in> set paths" for q
    using length_filter_one [of ?ps q "\<lambda>p. candidate_id p = candidate_id q"] that
    by (simp add: filter_map o_def case_prod_beta unique_candidate_def)
  have "module_ids_for paths =
      map (\<lambda>p. (p, if unique_candidate paths p then candidate_id p else p)) ?ps"
    using one by (auto simp: module_ids_for_def Let_def)
  then show ?thesis by (simp add: map_of_map_restrict restrict_map_def)
qed

text \<open>
  Two files get the same id exactly when one of them is kept under its full path and
  that path is the stripped name of the other, so falling back to the path does not keep ids
  apart: \<open>utils.ts\<close> next to \<open>utils.js\<close> and \<open>utils.ts.py\<close> is such a case.
\<close>

theorem module_ids_collide:
  "(p \<in> set paths \<and> q \<in> set paths \<and> p \<noteq> q \<longrightarrow>
      (module_id paths p = module_id paths q) =
        ((unique_candidate paths p \<and> \<not> unique_candidate paths q \<and> candidate_id p = q)
         \<or> (unique_candidate paths q \<and> \<not> unique_candidate paths p \<and> candidate_id q = p)))
   \<and> module_id [''utils.ts'', ''utils.js'', ''utils.ts.py''] ''utils.ts''
      = module_id [''utils.ts'', ''utils.js'', ''utils.ts.py''] ''utils.ts.py''"
proof
  have "module_id paths r = (if unique_candidate paths r then candidate_id r else r)" if "r \<in> set paths" for r
    using that by (simp add: module_id_def map_of_module_ids)
  moreover have "candidate_id p \<noteq> candidate_id q"
    if "unique_candidate paths q" "p \<in> set paths" "p \<noteq> q" for p q
    using that by (auto simp: unique_candidate_def)
  ultimately show "p \<in> set paths \<and> q \<in> set paths \<and> p \<noteq> q \<longrightarrow>
      (module_id paths p = module_id paths q) =
        ((unique_candidate paths p \<and> \<not> unique_candidate paths q \<and> candidate_id p = q)
         \<or> (unique_candidate paths q \<and> \<not> unique_candidate paths p \<and> candidate_id q = p))"
    by auto
  show "module_id [''utils.ts'', ''utils.js'', ''utils.ts.py''] ''utils.ts''
      = module_id [''utils.ts'', ''utils.js'', ''utils.ts.py''] ''utils.ts.py''" by code_simp
qed

theorem module_ids_collide_witness:
  "module_id [''a.py'', ''b.py''] ''a.py'' \<noteq> module_id [''a.py'', ''b.py''] ''b.py''"
  using conjunct1 [OF module_ids_collide [of "''a.py''" "[''a.py'', ''b.py'']" "''b.py''"]]
  by (simp add: unique_candidate_def)

section \<open>Edges\<close>

text \<open>The imports an edge aggregates, each once, in the order they are resolved.\<close>

definition imports_between :: "(string, string) dict \<Rightarrow> resolved_import list \<Rightarrow> edge_key \<Rightarrow> import_ref list" where
  "imports_between ids resolved k =
     dict_fromkeys (map ref_of (filter (\<lambda>item. edge_of ids item = Some k) resolved))"

definition collect_edges :: "(string, string) dict \<Rightarrow> resolved_import list \<Rightarrow> (edge_key, edge_data) dict" where
  "collect_edges ids resolved =
     foldl (\<lambda>d item. case edge_of ids item of None \<Rightarrow> d | Some k \<Rightarrow> add_edge k (ref_of item) d) [] resolved"

lemma collect_edges_lookup:
  "map_of (collect_edges ids resolved) k =
     (let rs = imports_between ids resolved k
      in if rs = [] then None else Some \<lparr>ed_source = fst k, ed_target = snd k, ed_imports = rs\<rparr>)"
proof (induction resolved rule: rev_induct)
  case Nil
  show ?case by (simp add: collect_edges_def imports_between_def)
next
  case (snoc item items)
  have step: "collect_edges ids (items @ [item]) =
      (case edge_of ids item of None \<Rightarrow> collect_edges ids items
       | Some k' \<Rightarrow> add_edge k' (ref_of item) (collect_edges ids items))"
    by (cases "edge_of ids item") (simp_all add: collect_edges_def)
  have refs: "imports_between ids (items @ [item]) k =
      (if edge_of ids item = Some k \<and> ref_of item \<notin> set (imports_between ids items k)
       then imports_between ids items k @ [ref_of item] else imports_between ids items k)"
    by (simp add: imports_between_def dict_fromkeys_snoc del: set_map set_filter)
  show ?case
    using snoc by (auto simp: step refs add_edge_def Let_def split: option.splits)
qed

lemma distinct_collect_edges: "distinct (map fst (collect_edges ids resolved))"
proof (induction resolved rule: rev_induct)
  case (snoc item items)
  then show ?case
    by (auto simp: collect_edges_def add_edge_def Let_def distinct_dict_set split: option.splits)
qed (simp add: collect_edges_def)

lemma add_nodes_keys: "fst ` set (add_nodes ids node modules) = ids ` pm_path ` set modules"
proof (induction modules rule: rev_induct)
  case (snoc m ms)
  then show ?case by (simp add: add_nodes_def dict_set_keys)
qed (simp add: add_nodes_def)

lemma edge_of_nodes:
  assumes "edge_of (module_ids_for paths) item = Some (s, t)"
  shows "s \<in> module_id paths ` set paths \<and> t \<in> module_id paths ` set paths \<and> s \<noteq> t"
proof -
  have ids: "map_of (module_ids_for paths) p = Some i \<Longrightarrow> i \<in> module_id paths ` set paths" for p i
    by (auto simp: module_id_def map_of_module_ids split: if_splits intro!: image_eqI [of _ _ p])
  show ?thesis using assms ids by (auto simp: edge_of_def bind_eq_Some_conv split: option.splits if_splits)
qed

lemma runtime_edges_iff:
  assumes "ag_edges a = collect_edges ids resolved"
  shows "k \<in> set (runtime_edges a) \<longleftrightarrow>
    (\<exists>item \<in> set resolved. edge_of ids item = Some k \<and> \<not> ri_type_only (rs_raw item))"
proof -
  have "k \<in> set (runtime_edges a) \<longleftrightarrow>
      (\<exists>e. map_of (collect_edges ids resolved) k = Some e \<and> \<not> edge_type_only e)"
    using distinct_collect_edges [of ids resolved]
    by (cases k) (auto simp: runtime_edges_def assms image_iff)
  also have "\<dots> \<longleftrightarrow> (\<exists>ref \<in> set (imports_between ids resolved k). \<not> ir_type_only ref)"
    by (auto simp: collect_edges_lookup Let_def edge_type_only_def list_all_iff)
  also have "\<dots> \<longleftrightarrow> (\<exists>item \<in> set resolved. edge_of ids item = Some k \<and> \<not> ri_type_only (rs_raw item))"
    by (auto simp: imports_between_def ref_of_def)
  finally show ?thesis .
qed

text \<open>
  C21: The graph refines the import relation: there is an edge for exactly the pairs of
  different modules with a resolved internal import between them, it holds these imports
  without repetition in their order, both ends are nodes, and the runtime edges are those with
  an import that is not only for type checking.
\<close>

theorem build_graph_refines:
  "let a = build_graph ix modules resolved; ids = module_ids_for (map pm_path modules)
   in (\<forall>k. map_of (ag_edges a) k =
          (if imports_between ids resolved k = [] then None
           else Some \<lparr>ed_source = fst k, ed_target = snd k, ed_imports = imports_between ids resolved k\<rparr>))
    \<and> distinct (map fst (ag_edges a))
    \<and> (\<forall>(s, t) \<in> fst ` set (ag_edges a). s \<noteq> t \<and> s \<in> fst ` set (ag_nodes a) \<and> t \<in> fst ` set (ag_nodes a))
    \<and> set (runtime_edges a) =
        {k. \<exists>item \<in> set resolved. edge_of ids item = Some k \<and> \<not> ri_type_only (rs_raw item)}"
proof -
  let ?a = "build_graph ix modules resolved" and ?ids = "module_ids_for (map pm_path modules)"
  have edges: "ag_edges ?a = collect_edges ?ids resolved"
    by (simp add: build_graph_def collect_edges_def Let_def)
  have nodes: "fst ` set (ag_nodes ?a) = module_id (map pm_path modules) ` set (map pm_path modules)"
    by (simp add: build_graph_def Let_def add_nodes_keys module_id_def image_image)
  have lookup: "\<forall>k. map_of (ag_edges ?a) k =
          (if imports_between ?ids resolved k = [] then None
           else Some \<lparr>ed_source = fst k, ed_target = snd k, ed_imports = imports_between ?ids resolved k\<rparr>)"
    by (simp add: edges collect_edges_lookup Let_def)
  have ends: "s \<noteq> t \<and> s \<in> fst ` set (ag_nodes ?a) \<and> t \<in> fst ` set (ag_nodes ?a)"
    if "(s, t) \<in> fst ` set (ag_edges ?a)" for s t
  proof -
    have "map_of (ag_edges ?a) (s, t) \<noteq> None" using that by (simp add: map_of_eq_None_iff)
    then have "imports_between ?ids resolved (s, t) \<noteq> []" using lookup by metis
    then obtain item where "edge_of ?ids item = Some (s, t)"
      by (auto simp: imports_between_def filter_empty_conv)
    from edge_of_nodes [OF this] show ?thesis unfolding nodes by blast
  qed
  show ?thesis
    unfolding Let_def
  proof (intro conjI)
    show "distinct (map fst (ag_edges ?a))" unfolding edges by (rule distinct_collect_edges)
    show "set (runtime_edges ?a) =
        {k. \<exists>item \<in> set resolved. edge_of ?ids item = Some k \<and> \<not> ri_type_only (rs_raw item)}"
      using runtime_edges_iff [OF edges] by blast
  qed (use lookup ends in blast)+
qed

definition example_module_at :: "string \<Rightarrow> parsed_module" where
  "example_module_at path =
     \<lparr>pm_path = path, pm_language = ''python'', pm_loc = 1, pm_definition_count = 0, pm_symbols = [],
      pm_imports = [], pm_error = None, pm_warning = None\<rparr>"

definition example_import :: resolved_import where
  "example_import = mk_resolved ''a.py''
     \<lparr>ri_specifier = ''b'', ri_kind = ''import'', ri_line = 3, ri_statement = ''import b'', ri_names = [],
      ri_level = 0, ri_type_only = False, ri_lazy = False, ri_dynamic = False\<rparr>
     Internal (Some ''b.py'') ''absolute''"

theorem build_graph_refines_witness:
  "map_of (ag_edges (build_graph \<lparr>ix_modules = [], ix_files = [], ix_dirs = [], ix_text = (\<lambda>_. None)\<rparr>
      [example_module_at ''a.py'', example_module_at ''b.py''] [example_import])) (''a'', ''b'') \<noteq> None"
proof -
  let ?ms = "[example_module_at ''a.py'', example_module_at ''b.py'']"
  have "imports_between (module_ids_for (map pm_path ?ms)) [example_import] (''a'', ''b'') \<noteq> []" by code_simp
  then show ?thesis
    using build_graph_refines [of "\<lparr>ix_modules = [], ix_files = [], ix_dirs = [], ix_text = (\<lambda>_. None)\<rparr>"
        ?ms "[example_import]"] by (simp add: Let_def)
qed

end
