(* ===== verification/Graph_Metrics.thy ===== *)
theory Graph_Metrics
  imports Graph_Builder Findings
begin

text \<open>
  \<open>graph/metrics.py\<close>: import cycles, layer violations, god modules, orphans and the
  summary.  The graph algorithms of networkx the code calls are the fields of \<open>nx_ops\<close>;
  \<open>nx_ok\<close> says what is documented of the two that the cycle search relies on.  The
  descriptions of the issues are left out.
\<close>

section \<open>networkx\<close>

text \<open>
  A graph is its list of nodes and its list of edges.  \<open>simple_cycles\<close> is called with a
  length bound and may be cut off, so it is the sequence it would generate.
\<close>

record nx_ops =
  nx_betweenness :: "string list \<Rightarrow> edge_key list \<Rightarrow> nat option \<Rightarrow> string \<Rightarrow> real option"
  nx_components :: "string list \<Rightarrow> edge_key list \<Rightarrow> string list list"
  nx_simple_cycles :: "string list \<Rightarrow> edge_key list \<Rightarrow> nat \<Rightarrow> string list list"
  nx_condensed_depth :: "string list \<Rightarrow> edge_key list \<Rightarrow> nat"
  nx_density :: "string list \<Rightarrow> edge_key list \<Rightarrow> real"

definition cycle_edges :: "'a list \<Rightarrow> ('a \<times> 'a) list" where
  "cycle_edges c = zip c (rotate1 c)"

definition simple_cycle :: "edge_key list \<Rightarrow> string list \<Rightarrow> bool" where
  "simple_cycle es c \<longleftrightarrow> c \<noteq> [] \<and> distinct c \<and> set (cycle_edges c) \<subseteq> set es"

definition same_cycle :: "'a list \<Rightarrow> 'a list \<Rightarrow> bool" where
  "same_cycle c d \<longleftrightarrow> (\<exists>n. d = rotate n c)"

definition nx_ok :: "nx_ops \<Rightarrow> bool" where
  "nx_ok nx \<longleftrightarrow>
     (\<forall>ns es. distinct (concat (nx_components nx ns es)) \<and> (\<forall>c \<in> set (nx_components nx ns es). c \<noteq> [])
        \<and> set (concat (nx_components nx ns es)) = set ns
        \<and> (\<forall>u \<in> set ns. \<forall>v \<in> set ns.
             (\<exists>c \<in> set (nx_components nx ns es). u \<in> set c \<and> v \<in> set c)
             \<longleftrightarrow> (u, v) \<in> (set es)\<^sup>* \<and> (v, u) \<in> (set es)\<^sup>*))
     \<and> (\<forall>ns es b. distinct (nx_simple_cycles nx ns es b)
        \<and> (\<forall>c \<in> set (nx_simple_cycles nx ns es b). simple_cycle es c \<and> length c \<le> b)
        \<and> (\<forall>c \<in> set (nx_simple_cycles nx ns es b). \<forall>d \<in> set (nx_simple_cycles nx ns es b).
             same_cycle c d \<longrightarrow> c = d)
        \<and> (\<forall>c. simple_cycle es c \<longrightarrow> length c \<le> b \<longrightarrow>
             (\<exists>d \<in> set (nx_simple_cycles nx ns es b). same_cycle c d)))"

section \<open>Constants and data\<close>

definition MAX_CYCLE_LENGTH :: nat where "MAX_CYCLE_LENGTH = 10"
definition MAX_CYCLES :: nat where "MAX_CYCLES = 100"
definition CYCLE_ENUMERATION_CEILING :: nat where "CYCLE_ENUMERATION_CEILING = 10000"
definition MAX_ISSUES_PER_TYPE :: nat where "MAX_ISSUES_PER_TYPE = 200"
definition BETWEENNESS_SAMPLE_THRESHOLD :: nat where "BETWEENNESS_SAMPLE_THRESHOLD = 1000"
definition BETWEENNESS_SAMPLE_SIZE :: nat where "BETWEENNESS_SAMPLE_SIZE = 500"
definition GOD_MIN_NODES :: nat where "GOD_MIN_NODES = 10"
definition GOD_MIN_LOC :: real where "GOD_MIN_LOC = 300"
definition GOD_MIN_FAN_IN :: real where "GOD_MIN_FAN_IN = 5"
definition GOD_MIN_CENTRALITY :: real where "GOD_MIN_CENTRALITY = 5/100"

datatype issue_details =
    Cycle_details "edge_key list"
  | Inversion string string
  | Skip string string "string list"
  | God_details nat nat real real real real
  | No_details

record issue_data =
  is_type :: issue_type
  is_severity :: severity
  is_title :: string
  is_modules :: "string list"
  is_edges :: "edge_key list"
  is_metric :: "real option"
  is_location_module :: string
  is_location_line :: int
  is_details :: issue_details

record node_metrics_rec =
  nm_fan_in :: nat
  nm_fan_out :: nat
  nm_instability :: "real option"
  nm_centrality :: real

section \<open>Nodes\<close>

definition node_names :: "architecture_graph \<Rightarrow> string list" where
  "node_names a = map fst (ag_nodes a)"

definition edge_keys :: "architecture_graph \<Rightarrow> edge_key list" where
  "edge_keys a = map fst (ag_edges a)"

definition in_degree :: "edge_key list \<Rightarrow> string \<Rightarrow> nat" where
  "in_degree es n = length (filter (\<lambda>e. snd e = n) es)"

definition out_degree :: "edge_key list \<Rightarrow> string \<Rightarrow> nat" where
  "out_degree es n = length (filter (\<lambda>e. fst e = n) es)"

definition node_metrics :: "nx_ops \<Rightarrow> string list \<Rightarrow> edge_key list \<Rightarrow> (string \<times> node_metrics_rec) list" where
  "node_metrics nx ns es =
     (if ns = [] then []
      else
        let centrality = nx_betweenness nx ns es
              (if BETWEENNESS_SAMPLE_THRESHOLD < length ns then Some BETWEENNESS_SAMPLE_SIZE else None)
        in map (\<lambda>n.
             let fan_in = in_degree es n; fan_out = out_degree es n; both = fan_in + fan_out
             in (n, \<lparr>nm_fan_in = fan_in, nm_fan_out = fan_out,
                     nm_instability = (if both = 0 then None else Some (py_round 4 (real fan_out / real both))),
                     nm_centrality = py_round 6 (case centrality n of None \<Rightarrow> 0 | Some c \<Rightarrow> c)\<rparr>)) ns)"

section \<open>Cycles\<close>

definition canonical_cycle :: "string list \<Rightarrow> string list" where
  "canonical_cycle c =
     (let start = length (takeWhile (\<lambda>x. x \<noteq> Min (set c)) c) in drop start c @ take start c)"

definition component_key :: "string list \<Rightarrow> nat \<times> string" where
  "component_key c = (length c, Min (set c))"

text \<open>The loop over the components: what is found and whether it was cut.\<close>

fun enumerate_cycles ::
    "nx_ops \<Rightarrow> edge_key list \<Rightarrow> string list list \<Rightarrow> string list list \<Rightarrow> string list list \<times> bool" where
  "enumerate_cycles nx es [] found = (found, False)"
| "enumerate_cycles nx es (component # components) found =
     (let budget = CYCLE_ENUMERATION_CEILING - length found;
          sub = filter (\<lambda>(u, v). u \<in> set component \<and> v \<in> set component) es;
          cycles = take (budget + 1) (nx_simple_cycles nx component sub MAX_CYCLE_LENGTH);
          found = found @ map canonical_cycle cycles
      in if CYCLE_ENUMERATION_CEILING < length found
         then (take CYCLE_ENUMERATION_CEILING found, True)
         else enumerate_cycles nx es components found)"

definition find_cycles :: "nx_ops \<Rightarrow> string list \<Rightarrow> edge_key list \<Rightarrow> string list list \<times> bool" where
  "find_cycles nx ns es =
     (let components = filter (\<lambda>c. 1 < length c) (nx_components nx ns es);
          (found, truncated) = enumerate_cycles nx es (sort_key component_key components) [];
          found = sort_key (\<lambda>c. (length c, c)) found
      in if MAX_CYCLES < length found then (take MAX_CYCLES found, True) else (found, truncated))"

definition edge_at :: "architecture_graph \<Rightarrow> edge_key \<Rightarrow> edge_data" where
  "edge_at a k = the (map_of (ag_edges a) k)"

definition cycle_issue :: "architecture_graph \<Rightarrow> string list \<Rightarrow> issue_data" where
  "cycle_issue a cycle =
     (let edges = cycle_edges cycle; lazy = filter (\<lambda>e. edge_lazy (edge_at a e)) edges
      in \<lparr>is_type = Circular_dependency, is_severity = (if lazy \<noteq> [] then WARNING else ERROR),
          is_title = ''Circular dependency ('' @ show_nat (length cycle) @ '' modules)'',
          is_modules = cycle, is_edges = edges, is_metric = Some (real (length cycle)),
          is_location_module = hd cycle, is_location_line = ir_line (edge_first (edge_at a (hd edges))),
          is_details = Cycle_details lazy\<rparr>)"

section \<open>Layers\<close>

definition node_at :: "architecture_graph \<Rightarrow> string \<Rightarrow> node_data" where
  "node_at a n = the (map_of (ag_nodes a) n)"

definition truthy :: "string option \<Rightarrow> bool" where
  "truthy s \<longleftrightarrow> (case s of None \<Rightarrow> False | Some t \<Rightarrow> t \<noteq> [])"

definition colocated :: "node_data \<Rightarrow> node_data \<Rightarrow> bool" where
  "colocated src dst \<longleftrightarrow>
     nd_layer_root dst \<noteq> Some (nd_path dst)
     \<and> starts_with ((case nd_layer_root dst of None \<Rightarrow> ''None'' | Some r \<Rightarrow> r) @ ''/'') (nd_path src)"

definition present_layers :: "architecture_graph \<Rightarrow> (string option \<times> string option) list" where
  "present_layers a =
     map (\<lambda>(_, d). (nd_stack d, nd_layer d)) (filter (\<lambda>(_, d). truthy (nd_layer d)) (ag_nodes a))"

definition layer_issue :: "architecture_graph \<Rightarrow> edge_key \<Rightarrow> issue_data option" where
  "layer_issue a k =
     (let src = node_at a (fst k); dst = node_at a (snd k)
      in if \<not> truthy (nd_layer src) \<or> \<not> truthy (nd_layer dst) \<or> nd_stack src \<noteq> nd_stack dst then None
         else if nd_is_test src \<or> nd_is_test dst then None
         else if colocated src dst then None
         else
           let stack = the (map_of STACKS (the (nd_stack src)));
               from_layer = the (nd_layer src); to_layer = the (nd_layer dst);
               src_rank = the (index_of from_layer stack); dst_rank = the (index_of to_layer stack);
               issue = \<lparr>is_type = Layer_violation, is_severity = ERROR, is_title = [],
                        is_modules = [fst k, snd k], is_edges = [k], is_metric = None,
                        is_location_module = fst k, is_location_line = ir_line (edge_first (edge_at a k)),
                        is_details = No_details\<rparr>
           in if dst_rank < src_rank
              then Some (issue\<lparr>is_title := ''Layer inversion: '' @ from_layer @ '' imports '' @ to_layer,
                               is_metric := Some (real (src_rank - dst_rank)),
                               is_details := Inversion from_layer to_layer\<rparr>)
              else if src_rank + 2 \<le> dst_rank
              then
                let skipped = filter (\<lambda>l. (nd_stack src, Some l) \<in> set (present_layers a))
                      (take (dst_rank - Suc src_rank) (drop (Suc src_rank) stack))
                in if skipped = [] then None
                   else Some (issue\<lparr>is_severity := WARNING,
                               is_title := ''Layer skip: '' @ from_layer @ '' imports '' @ to_layer,
                               is_metric := Some (real (dst_rank - src_rank)),
                               is_details := Skip from_layer to_layer skipped\<rparr>)
              else None)"

definition layer_issues :: "architecture_graph \<Rightarrow> issue_data list" where
  "layer_issues a = List.map_filter (layer_issue a) (sort (runtime_edges a))"

section \<open>God modules and orphans\<close>

text \<open>\<open>statistics.quantiles(values, n=100, method="inclusive")[q - 1]\<close>\<close>

definition percentile :: "real list \<Rightarrow> nat \<Rightarrow> real" where
  "percentile values q =
     (if values = [] then 0
      else if length values = 1 then hd values
      else
        let sorted = sort values; p = q * (length values - 1); j = p div 100; delta = p mod 100
        in (sorted ! j * real (100 - delta) + sorted ! (j + 1) * real delta) / 100)"

definition predecessors :: "edge_key list \<Rightarrow> string \<Rightarrow> string list" where
  "predecessors es n = map fst (filter (\<lambda>e. snd e = n) es)"

definition god_issue ::
    "architecture_graph \<Rightarrow> (string \<times> node_metrics_rec) list \<Rightarrow> real \<Rightarrow> real \<Rightarrow> real \<Rightarrow> string \<Rightarrow> issue_data option" where
  "god_issue a metrics loc_threshold fan_in_threshold centrality_threshold n =
     (let data = node_at a n; m = the (map_of metrics n); preds = sort (predecessors (edge_keys a) n)
      in if real (nd_loc data) < loc_threshold \<or> real (nm_fan_in m) < fan_in_threshold
            \<or> nm_centrality m < centrality_threshold
         then None
         else Some \<lparr>is_type = God_module, is_severity = WARNING, is_title = ''God module'',
                    is_modules = n # preds, is_edges = map (\<lambda>p. (p, n)) preds,
                    is_metric = Some (nm_centrality m), is_location_module = n, is_location_line = 1,
                    is_details = God_details (nd_loc data) (nm_fan_in m) (nm_centrality m)
                      loc_threshold fan_in_threshold (py_round 6 centrality_threshold)\<rparr>)"

definition god_module_issues ::
    "architecture_graph \<Rightarrow> (string \<times> node_metrics_rec) list \<Rightarrow> issue_data list" where
  "god_module_issues a metrics =
     (let candidates = map fst (filter (\<lambda>(_, d). \<not> nd_is_test d) (ag_nodes a));
          m = (\<lambda>n. the (map_of metrics n))
      in if length candidates < GOD_MIN_NODES then []
         else
           let loc_threshold = max GOD_MIN_LOC (percentile (map (\<lambda>n. real (nd_loc (node_at a n))) candidates) 90);
               fan_in_threshold = max GOD_MIN_FAN_IN (percentile (map (\<lambda>n. real (nm_fan_in (m n))) candidates) 90);
               centrality_threshold = max GOD_MIN_CENTRALITY (percentile (map (\<lambda>n. nm_centrality (m n)) candidates) 90)
           in List.map_filter (god_issue a metrics loc_threshold fan_in_threshold centrality_threshold)
                (sort_key (\<lambda>n. - nm_centrality (m n)) candidates))"

definition orphan_issues ::
    "architecture_graph \<Rightarrow> (string \<times> node_metrics_rec) list \<Rightarrow> issue_data list" where
  "orphan_issues a metrics =
     List.map_filter (\<lambda>(n, d).
       if nm_fan_in (the (map_of metrics n)) \<noteq> 0 \<or> nd_is_entrypoint d \<or> truthy (nd_parse_error d) then None
       else Some \<lparr>is_type = Orphan_module, is_severity = INFO, is_title = ''Orphan module'',
                  is_modules = [n], is_edges = [], is_metric = Some 0, is_location_module = n,
                  is_location_line = 1, is_details = No_details\<rparr>)
       (sort_key fst (ag_nodes a))"

section \<open>Metrics\<close>

definition cap_issues :: "issue_data list \<Rightarrow> issue_data list \<times> nat" where
  "cap_issues issues =
     (take MAX_ISSUES_PER_TYPE (sort_key (\<lambda>i. - int (severity_rank (is_severity i))) issues),
      length issues - MAX_ISSUES_PER_TYPE)"

record metrics_summary =
  ms_node_count :: nat
  ms_edge_count :: nat
  ms_type_only_edge_count :: nat
  ms_density :: real
  ms_average_degree :: real
  ms_max_depth :: nat
  ms_cycle_count :: nat
  ms_cycles_truncated :: bool
  ms_cyclic_module_count :: nat
  ms_layer_violation_count :: nat
  ms_god_module_count :: nat
  ms_orphan_count :: nat
  ms_issues_omitted :: "(issue_type \<times> nat) list"
  ms_layers :: "(string, nat) dict"
  ms_languages :: "(string, nat) dict"
  ms_total_loc :: nat

record architecture_metrics =
  am_nodes :: "(string \<times> node_metrics_rec) list"
  am_issues :: "issue_data list"
  am_summary :: metrics_summary

definition max_depth :: "nx_ops \<Rightarrow> string list \<Rightarrow> edge_key list \<Rightarrow> nat" where
  "max_depth nx ns es = (if ns = [] then 0 else nx_condensed_depth nx ns es)"

definition compute_metrics :: "nx_ops \<Rightarrow> architecture_graph \<Rightarrow> architecture_metrics" where
  "compute_metrics nx a =
     (let ns = node_names a; es = edge_keys a; runtime = runtime_edges a;
          metrics = node_metrics nx ns es;
          (cycles, cycles_truncated) = find_cycles nx ns runtime;
          capped = map (\<lambda>(t, found). (t, cap_issues found))
            [(Circular_dependency, map (cycle_issue a) cycles), (Layer_violation, layer_issues a),
             (God_module, god_module_issues a metrics), (Orphan_module, orphan_issues a metrics)];
          issues = concat (map (fst \<circ> snd) capped);
          kind_count = (\<lambda>t. length (filter (\<lambda>i. is_type i = t) issues));
          n = length ns; e = length es
      in \<lparr>am_nodes = metrics, am_issues = issues,
          am_summary = \<lparr>ms_node_count = n, ms_edge_count = e,
            ms_type_only_edge_count = length (filter (\<lambda>(_, d). edge_type_only d) (ag_edges a)),
            ms_density = (if 1 < n then py_round 6 (nx_density nx ns es) else 0),
            ms_average_degree = (if n \<noteq> 0 then py_round 3 (real (2 * e) / real n) else 0),
            ms_max_depth = max_depth nx ns runtime,
            ms_cycle_count = length cycles, ms_cycles_truncated = cycles_truncated,
            ms_cyclic_module_count =
              card (set (concat (filter (\<lambda>c. 1 < length c) (nx_components nx ns runtime)))),
            ms_layer_violation_count = kind_count Layer_violation,
            ms_god_module_count = kind_count God_module, ms_orphan_count = kind_count Orphan_module,
            ms_issues_omitted = map (\<lambda>(t, _, d). (t, d)) (filter (\<lambda>(_, _, d). d \<noteq> 0) capped),
            ms_layers = counter (map (\<lambda>(_, d). if truthy (nd_layer d) then the (nd_layer d) else ''none'') (ag_nodes a)),
            ms_languages = counter (map (\<lambda>(_, d). nd_language d) (ag_nodes a)),
            ms_total_loc = sum_list (map (\<lambda>(_, d). nd_loc d) (ag_nodes a))\<rparr>\<rparr>)"

end
