(* ===== verification/Graph_Cycles.thy ===== *)
theory Graph_Cycles
  imports Graph_Metrics
begin

text \<open>
  The cycle search reports every import cycle once, in one rotation, or says that it left
  some out.  \<open>example_nx\<close> is a concrete instance of what is assumed of networkx.
\<close>

section \<open>Rotations\<close>

lemma zip_rotate1: "length xs = length ys \<Longrightarrow> zip (rotate1 xs) (rotate1 ys) = rotate1 (zip xs ys)"
  by (cases xs; cases ys) (auto simp: zip_append1 zip_append)

lemma zip_rotate: "length xs = length ys \<Longrightarrow> zip (rotate n xs) (rotate n ys) = rotate n (zip xs ys)"
  by (induction n) (auto simp: rotate_Suc zip_rotate1)

lemma cycle_edges_rotate: "cycle_edges (rotate n c) = rotate n (cycle_edges c)"
  unfolding cycle_edges_def by (subst rotate1_rotate_swap) (simp add: zip_rotate)

lemma simple_cycle_rotate [simp]: "simple_cycle es (rotate n c) \<longleftrightarrow> simple_cycle es c"
  by (simp add: simple_cycle_def cycle_edges_rotate)

lemma same_cycle_length: "same_cycle c d \<Longrightarrow> length d = length c"
  by (auto simp: same_cycle_def)

lemma same_cycle_set: "same_cycle c d \<Longrightarrow> set d = set c"
  by (auto simp: same_cycle_def)

lemma same_cycle_refl: "same_cycle c c"
  unfolding same_cycle_def by (rule exI [of _ 0]) simp

lemma same_cycle_trans: "same_cycle c d \<Longrightarrow> same_cycle d e \<Longrightarrow> same_cycle c e"
  unfolding same_cycle_def by (metis rotate_rotate)

lemma same_cycle_sym:
  assumes "same_cycle c d" shows "same_cycle d c"
proof -
  obtain n where d: "d = rotate n c" using assms by (auto simp: same_cycle_def)
  show ?thesis
  proof (cases "c = []")
    case True
    then show ?thesis using d same_cycle_refl by simp
  next
    case False
    have "rotate (length c - n mod length c) d = rotate (length c - n mod length c + n mod length c) c"
      unfolding d by (metis rotate_conv_mod rotate_rotate)
    also have "\<dots> = c" using False by simp
    finally show ?thesis by (metis same_cycle_def)
  qed
qed

lemma length_takeWhile_member: "x \<in> set c \<Longrightarrow> length (takeWhile (\<lambda>y. y \<noteq> x) c) < length c"
  by (induction c) auto

lemma canonical_rotation: "canonical_cycle c = rotate (length (takeWhile (\<lambda>x. x \<noteq> Min (set c)) c)) c"
proof (cases "c = []")
  case False
  then have "Min (set c) \<in> set c" by simp
  then have "length (takeWhile (\<lambda>x. x \<noteq> Min (set c)) c) < length c"
    by (rule length_takeWhile_member)
  then show ?thesis by (simp add: canonical_cycle_def Let_def rotate_drop_take)
qed (simp add: canonical_cycle_def)

lemma same_canonical: "same_cycle c (canonical_cycle c)"
  using canonical_rotation same_cycle_def by blast

lemma hd_canonical: "c \<noteq> [] \<Longrightarrow> hd (canonical_cycle c) = Min (set c)"
proof -
  assume "c \<noteq> []"
  then have "Min (set c) \<in> set c" by simp
  then obtain ys zs where c: "c = ys @ Min (set c) # zs" "Min (set c) \<notin> set ys" by (metis split_list_first)
  then have "takeWhile (\<lambda>x. x \<noteq> Min (set c)) c = ys"
    by (metis (mono_tags, lifting) takeWhile_tail takeWhile_append2 append.right_neutral takeWhile.simps(2))
  then show ?thesis using c(1) unfolding canonical_cycle_def Let_def
    by (metis append_eq_conv_conj drop_eq_Nil hd_append2 leD length_append less_add_same_cancel1
        list.distinct(1) list.sel(1) length_greater_0_conv)
qed

lemma rotate_hd_inject:
  assumes "distinct c" and "c \<noteq> []" and "hd (rotate n c) = hd (rotate m c)"
  shows "rotate n c = rotate m c"
proof -
  have "c ! (n mod length c) = c ! (m mod length c)"
    using assms(2,3) by (simp add: hd_rotate_conv_nth)
  then have "n mod length c = m mod length c"
    using assms(1,2) nth_eq_iff_index_eq by (metis length_greater_0_conv mod_less_divisor)
  then show ?thesis by (metis rotate_conv_mod)
qed

lemma canonical_same:
  assumes "same_cycle c d" and "distinct c" and "c \<noteq> []"
  shows "canonical_cycle c = canonical_cycle d"
proof -
  obtain n where n: "canonical_cycle c = rotate n c" using canonical_rotation by blast
  obtain m where m: "canonical_cycle d = rotate m c"
    using same_cycle_trans [OF assms(1) same_canonical] by (auto simp: same_cycle_def)
  have "d \<noteq> []" using assms(3) same_cycle_length [OF assms(1)] by auto
  then have "hd (rotate n c) = hd (rotate m c)"
    using hd_canonical [OF assms(3)] hd_canonical [of d] same_cycle_set [OF assms(1)] n m by metis
  then show ?thesis using rotate_hd_inject assms(2,3) n m by metis
qed

section \<open>Cycles lie in one component\<close>

lemma cycle_edges_nth:
  "i < length c \<Longrightarrow> (c ! i, c ! (Suc i mod length c)) \<in> set (cycle_edges c)"
  unfolding cycle_edges_def set_zip by (auto simp: nth_rotate1 intro!: exI [of _ i])

lemma cycle_reaches_hd:
  assumes "simple_cycle es c" and "v \<in> set c"
  shows "(hd c, v) \<in> (set es)\<^sup>*"
proof -
  have "(hd c, c ! i) \<in> (set es)\<^sup>*" if "i < length c" for i
    using that
  proof (induction i)
    case 0
    then show ?case by (simp add: hd_conv_nth)
  next
    case (Suc i)
    then have "(c ! i, c ! Suc i) \<in> set es"
      using cycle_edges_nth [of i c] assms(1) by (auto simp: simple_cycle_def)
    then show ?case using Suc by (meson Suc_lessD rtrancl.rtrancl_into_rtrancl)
  qed
  then show ?thesis using assms(2) by (metis in_set_conv_nth)
qed

lemma cycle_connected:
  assumes "simple_cycle es c" and "u \<in> set c" and "v \<in> set c"
  shows "(u, v) \<in> (set es)\<^sup>*"
proof -
  obtain i where i: "i < length c" "c ! i = u" using assms(2) by (metis in_set_conv_nth)
  moreover have "c \<noteq> []" using i by auto
  ultimately have "hd (rotate i c) = u" by (simp add: hd_rotate_conv_nth)
  then show ?thesis
    using cycle_reaches_hd [of es "rotate i c" v] assms(1,3) by simp
qed

lemma cycle_nodes: "simple_cycle es c \<Longrightarrow> set es \<subseteq> N \<times> N \<Longrightarrow> set c \<subseteq> N"
proof
  fix x assume c: "simple_cycle es c" "set es \<subseteq> N \<times> N" "x \<in> set c"
  then obtain i where "i < length c" "c ! i = x" by (metis in_set_conv_nth)
  then show "x \<in> N" using cycle_edges_nth [of i c] c(1,2) by (auto simp: simple_cycle_def)
qed

lemma concat_same_member:
  assumes "distinct (concat xss)" and "xs \<in> set xss" "ys \<in> set xss" "x \<in> set xs" "x \<in> set ys"
  shows "xs = ys"
  using assms by (induction xss) auto

lemma nx_component:
  assumes "nx_ok nx" and "simple_cycle es c" and "set es \<subseteq> set ns \<times> set ns"
  obtains C where "C \<in> set (nx_components nx ns es)" "set c \<subseteq> set C"
proof -
  have ok: "distinct (concat (nx_components nx ns es))"
    "\<forall>u \<in> set ns. \<forall>v \<in> set ns. (\<exists>c \<in> set (nx_components nx ns es). u \<in> set c \<and> v \<in> set c)
             \<longleftrightarrow> (u, v) \<in> (set es)\<^sup>* \<and> (v, u) \<in> (set es)\<^sup>*"
    using assms(1) by (simp_all add: nx_ok_def)
  have c: "c \<noteq> []" "set c \<subseteq> set ns" using assms(2) cycle_nodes [OF assms(2,3)] by (auto simp: simple_cycle_def)
  have joint: "\<exists>C \<in> set (nx_components nx ns es). hd c \<in> set C \<and> v \<in> set C" if "v \<in> set c" for v
  proof -
    have hd: "hd c \<in> set c" using c(1) by simp
    then have "(hd c, v) \<in> (set es)\<^sup>* \<and> (v, hd c) \<in> (set es)\<^sup>*"
      using cycle_connected [OF assms(2)] that by blast
    then show ?thesis using ok(2) [rule_format, of "hd c" v] c(2) hd that by blast
  qed
  obtain C where C: "C \<in> set (nx_components nx ns es)" "hd c \<in> set C" using joint c(1) hd_in_set by blast
  have "set c \<subseteq> set C" using joint concat_same_member [OF ok(1) _ C(1) _ C(2)] by blast
  then show thesis using C(1) that by blast
qed

section \<open>Enumeration\<close>

definition component_cycles :: "nx_ops \<Rightarrow> edge_key list \<Rightarrow> string list \<Rightarrow> string list list" where
  "component_cycles nx es component =
     map canonical_cycle (nx_simple_cycles nx component
       (filter (\<lambda>(u, v). u \<in> set component \<and> v \<in> set component) es) MAX_CYCLE_LENGTH)"

lemma enumerate_cycles_take:
  "length found \<le> CYCLE_ENUMERATION_CEILING \<Longrightarrow>
   enumerate_cycles nx es components found =
     (let everything = found @ concat (map (component_cycles nx es) components)
      in (take CYCLE_ENUMERATION_CEILING everything, CYCLE_ENUMERATION_CEILING < length everything))"
proof (induction components arbitrary: found)
  case Nil
  then show ?case by simp
next
  case (Cons C Cs)
  let ?gen = "component_cycles nx es C" and ?b = "CYCLE_ENUMERATION_CEILING - length found"
  have step: "enumerate_cycles nx es (C # Cs) found =
      (let found' = found @ take (?b + 1) ?gen
       in if CYCLE_ENUMERATION_CEILING < length found' then (take CYCLE_ENUMERATION_CEILING found', True)
          else enumerate_cycles nx es Cs found')"
    by (simp add: component_cycles_def take_map Let_def)
  show ?case
  proof (cases "length ?gen \<le> ?b")
    case True
    then have "length (found @ ?gen) \<le> CYCLE_ENUMERATION_CEILING" using Cons.prems by simp
    then show ?thesis using Cons.IH [of "found @ ?gen"] True unfolding step
      by (simp add: Let_def)
  next
    case False
    then have "CYCLE_ENUMERATION_CEILING < length (found @ take (?b + 1) ?gen)"
      "CYCLE_ENUMERATION_CEILING < length (found @ ?gen)"
      using Cons.prems by auto
    then show ?thesis unfolding step using Cons.prems
      by (simp add: Let_def take_append min_def)
  qed
qed

lemma distinct_component_cycles:
  assumes "nx_ok nx"
  shows "distinct (component_cycles nx es C)"
proof -
  let ?sub = "filter (\<lambda>(u, v). u \<in> set C \<and> v \<in> set C) es"
  let ?l = "nx_simple_cycles nx C ?sub MAX_CYCLE_LENGTH"
  have ok: "distinct ?l" "\<forall>c \<in> set ?l. simple_cycle ?sub c"
    "\<forall>c \<in> set ?l. \<forall>d \<in> set ?l. same_cycle c d \<longrightarrow> c = d"
    using assms by (simp_all add: nx_ok_def)
  have "inj_on canonical_cycle (set ?l)"
  proof (rule inj_onI)
    fix c d assume cd: "c \<in> set ?l" "d \<in> set ?l" "canonical_cycle c = canonical_cycle d"
    then have "same_cycle c d" by (metis same_canonical same_cycle_sym same_cycle_trans)
    then show "c = d" using ok(3) cd by blast
  qed
  then show ?thesis using ok(1) by (simp add: component_cycles_def distinct_map)
qed

lemma component_cycles_in:
  assumes "nx_ok nx" and "c \<in> set (component_cycles nx es C)"
  shows "simple_cycle es c \<and> length c \<le> MAX_CYCLE_LENGTH \<and> hd c = Min (set c) \<and> c \<noteq> [] \<and> set c \<subseteq> set C"
proof -
  let ?sub = "filter (\<lambda>(u, v). u \<in> set C \<and> v \<in> set C) es"
  obtain d where d: "d \<in> set (nx_simple_cycles nx C ?sub MAX_CYCLE_LENGTH)" "c = canonical_cycle d"
    using assms(2) by (auto simp: component_cycles_def)
  then have ok: "simple_cycle ?sub d" "length d \<le> MAX_CYCLE_LENGTH" using assms(1) by (simp_all add: nx_ok_def)
  have same: "same_cycle d c" using d same_canonical by simp
  have sub: "simple_cycle ?sub c" using ok(1) canonical_rotation [of d] d(2) by simp
  then have "simple_cycle es c" "c \<noteq> []" by (auto simp: simple_cycle_def)
  moreover have "set c \<subseteq> set C" using cycle_nodes [OF sub, of "set C"] by auto
  moreover have "hd c = Min (set c)"
    using hd_canonical [of d] d(2) same_cycle_set [OF same] ok(1) by (simp add: simple_cycle_def)
  ultimately show ?thesis using same_cycle_length [OF same] ok(2) by simp
qed

lemma distinct_all_cycles:
  assumes "nx_ok nx" and "distinct (concat Cs)"
  shows "distinct (concat (map (component_cycles nx es) Cs))"
  using assms(2)
proof (induction Cs)
  case (Cons C Cs)
  have "set c \<inter> set C = {}" if "c \<in> set (component_cycles nx es D)" "D \<in> set Cs" for c D
    using component_cycles_in [OF assms(1) that(1)] Cons.prems that(2) by auto
  moreover have "set c \<inter> set C \<noteq> {}" if "c \<in> set (component_cycles nx es C)" for c
    using component_cycles_in [OF assms(1) that] by (metis inf.absorb1 set_empty)
  ultimately have "set (component_cycles nx es C) \<inter> set (concat (map (component_cycles nx es) Cs)) = {}"
    by (simp add: disjoint_iff) blast
  moreover have "distinct (concat (map (component_cycles nx es) Cs))" using Cons by simp
  ultimately show ?case using distinct_component_cycles [OF assms(1), of es C] by simp
qed simp

lemma all_cycles_complete:
  assumes "nx_ok nx" and "simple_cycle es c" and "set es \<subseteq> set ns \<times> set ns"
    and "2 \<le> length c" and "length c \<le> MAX_CYCLE_LENGTH"
  shows "\<exists>C \<in> set (nx_components nx ns es). 1 < length C \<and> (\<exists>d \<in> set (component_cycles nx es C). same_cycle c d)"
proof -
  obtain C where C: "C \<in> set (nx_components nx ns es)" "set c \<subseteq> set C"
    using nx_component [OF assms(1,2,3)] by blast
  let ?sub = "filter (\<lambda>(u, v). u \<in> set C \<and> v \<in> set C) es"
  have "distinct c" using assms(2) by (simp add: simple_cycle_def)
  then have "length c \<le> card (set C)" using C(2) by (metis card_mono distinct_card finite_set)
  then have "1 < length C" using assms(4) card_length [of C] by simp
  moreover have "set (cycle_edges c) \<subseteq> set c \<times> set c"
    unfolding cycle_edges_def by (auto dest: set_zip_leftD set_zip_rightD)
  then have "simple_cycle ?sub c" using assms(2) C(2) by (auto simp: simple_cycle_def)
  then obtain d where "d \<in> set (nx_simple_cycles nx C ?sub MAX_CYCLE_LENGTH)" "same_cycle c d"
    using assms(1,5) unfolding nx_ok_def by metis
  then have "canonical_cycle d \<in> set (component_cycles nx es C)" "same_cycle c (canonical_cycle d)"
    by (auto simp: component_cycles_def intro: same_cycle_trans same_canonical)
  ultimately show ?thesis using C(1) by blast
qed

end
