(* ===== verification/Graph_Metrics_Props.thy ===== *)
theory Graph_Metrics_Props
  imports Graph_Cycles
begin

text \<open>What the cycle search and the layer check report.\<close>

section \<open>An instance of networkx\<close>

definition mutual :: "edge_key list \<Rightarrow> string list \<Rightarrow> string \<Rightarrow> string list" where
  "mutual es us u = filter (\<lambda>v. (u, v) \<in> (set es)\<^sup>* \<and> (v, u) \<in> (set es)\<^sup>*) us"

definition example_nx :: nx_ops where
  "example_nx =
     \<lparr>nx_betweenness = (\<lambda>ns es k n. None),
      nx_components = (\<lambda>ns es. map (mutual es (remdups ns))
        (filter (\<lambda>u. hd (mutual es (remdups ns) u) = u) (remdups ns))),
      nx_simple_cycles = (\<lambda>ns es b. filter (\<lambda>c. simple_cycle es c \<and> hd c = Min (set c))
        (concat (map (\<lambda>k. List.n_lists k (remdups (map fst es))) [1..<Suc b]))),
      nx_condensed_depth = (\<lambda>ns es. 0), nx_density = (\<lambda>ns es. 0)\<rparr>"

lemma mutual_eq: "v \<in> set (mutual es us u) \<Longrightarrow> mutual es us v = mutual es us u"
  unfolding mutual_def by (rule filter_cong [OF refl]) (auto intro: rtrancl_trans)

lemma mutual_self: "u \<in> set us \<Longrightarrow> u \<in> set (mutual es us u)"
  by (simp add: mutual_def)

lemma example_components:
  fixes ns :: "string list" and es :: "edge_key list"
  defines "cs \<equiv> nx_components example_nx ns es"
  shows "distinct (concat cs)" and "\<forall>c \<in> set cs. c \<noteq> []" and "set (concat cs) = set ns"
    and "\<forall>u \<in> set ns. \<forall>v \<in> set ns. (\<exists>c \<in> set cs. u \<in> set c \<and> v \<in> set c)
           \<longleftrightarrow> (u, v) \<in> (set es)\<^sup>* \<and> (v, u) \<in> (set es)\<^sup>*"
proof -
  let ?us = "remdups ns"
  let ?m = "mutual es ?us"
  have cs: "cs = map ?m (filter (\<lambda>u. hd (?m u) = u) ?us)" by (simp add: cs_def example_nx_def)
  have rep: "?m (hd (?m v)) = ?m v \<and> hd (?m v) \<in> set ?us" if "v \<in> set ns" for v
  proof -
    have "?m v \<noteq> []" using mutual_self [of v ?us es] that by auto
    then have hd: "hd (?m v) \<in> set (?m v)" by simp
    have "set (?m v) \<subseteq> set ?us" by (auto simp: mutual_def)
    then show ?thesis using mutual_eq [OF hd] hd by blast
  qed
  have covers: "?m v \<in> set cs" if "v \<in> set ns" for v
    using rep [OF that] unfolding cs by (auto simp: image_iff intro!: exI [of _ "hd (?m v)"])
  show "distinct (concat cs)"
  proof (rule distinct_concat)
    have "inj_on ?m {u. hd (?m u) = u}" by (rule inj_on_inverseI [of _ hd]) simp
    then have "inj_on ?m (set (filter (\<lambda>u. hd (?m u) = u) ?us))" by (rule inj_on_subset) auto
    then show "distinct cs" unfolding cs by (simp add: distinct_map)
    show "\<And>ys. ys \<in> set cs \<Longrightarrow> distinct ys" unfolding cs by (auto simp: mutual_def)
    fix xs ys assume xy: "xs \<in> set cs" "ys \<in> set cs" "xs \<noteq> ys"
    then obtain u v where "xs = ?m u" "ys = ?m v" unfolding cs by auto
    then show "set xs \<inter> set ys = {}" using mutual_eq xy(3) by (metis disjoint_iff)
  qed
  show "\<forall>c \<in> set cs. c \<noteq> []"
  proof
    fix c assume "c \<in> set cs"
    then obtain u where "u \<in> set ?us" "c = ?m u" unfolding cs by auto
    then have "u \<in> set c" using mutual_self by blast
    then show "c \<noteq> []" by auto
  qed
  show "set (concat cs) = set ns"
  proof
    show "set (concat cs) \<subseteq> set ns" by (auto simp: cs mutual_def)
    show "set ns \<subseteq> set (concat cs)" using covers mutual_self [of _ ?us es] by auto
  qed
  show "\<forall>u \<in> set ns. \<forall>v \<in> set ns. (\<exists>c \<in> set cs. u \<in> set c \<and> v \<in> set c)
           \<longleftrightarrow> (u, v) \<in> (set es)\<^sup>* \<and> (v, u) \<in> (set es)\<^sup>*"
  proof (intro ballI iffI)
    fix u v assume "\<exists>c \<in> set cs. u \<in> set c \<and> v \<in> set c"
    then show "(u, v) \<in> (set es)\<^sup>* \<and> (v, u) \<in> (set es)\<^sup>*"
      unfolding cs by (auto simp: mutual_def intro: rtrancl_trans)
  next
    fix u v assume uv: "u \<in> set ns" "v \<in> set ns" "(u, v) \<in> (set es)\<^sup>* \<and> (v, u) \<in> (set es)\<^sup>*"
    then have "u \<in> set (?m u)" "v \<in> set (?m u)" by (auto simp: mutual_def)
    then show "\<exists>c \<in> set cs. u \<in> set c \<and> v \<in> set c" using covers uv(1) by blast
  qed
qed

lemma distinct_lists_up_to:
  "distinct us \<Longrightarrow> distinct (concat (map (\<lambda>k. List.n_lists k us) [1..<n]))"
proof (induction n)
  case (Suc n)
  have "length c < n" if "c \<in> set (concat (map (\<lambda>k. List.n_lists k us) [1..<n]))" for c
    using that by (auto simp: set_n_lists)
  then show ?case using Suc distinct_n_lists [of us n] by (auto simp: set_n_lists)
qed simp

lemma example_nx_ok: "nx_ok example_nx"
proof -
  have "distinct (nx_simple_cycles example_nx ns es b)" for ns es b
    using distinct_lists_up_to [of "remdups (map fst es)" "Suc b"] by (simp add: example_nx_def del: upt_Suc)
  moreover have "simple_cycle es c \<and> length c \<le> b"
    if "c \<in> set (nx_simple_cycles example_nx ns es b)" for ns es b c
    using that by (auto simp: example_nx_def set_n_lists simp del: upt_Suc)
  moreover have "c = d" if in_c: "c \<in> set (nx_simple_cycles example_nx ns es b)"
    and in_d: "d \<in> set (nx_simple_cycles example_nx ns es b)" and same: "same_cycle c d" for ns es b c d
  proof -
    have c: "distinct c" "c \<noteq> []" "hd c = Min (set c)" "hd d = Min (set d)"
      using in_c in_d by (auto simp: example_nx_def simple_cycle_def)
    obtain n where d: "d = rotate n c" using same by (auto simp: same_cycle_def)
    have "hd (rotate n c) = hd (rotate 0 c)" using c(3,4) d by simp
    from rotate_hd_inject [OF c(1,2) this] show "c = d" using d by simp
  qed
  moreover have "\<exists>d \<in> set (nx_simple_cycles example_nx ns es b). same_cycle c d"
    if "simple_cycle es c" "length c \<le> b" for ns es b c
  proof -
    let ?d = "canonical_cycle c"
    have same: "same_cycle c ?d" by (rule same_canonical)
    have c: "c \<noteq> []" using that(1) by (simp add: simple_cycle_def)
    have d: "simple_cycle es ?d" using that(1) canonical_rotation [of c] by simp
    have "set ?d \<subseteq> set (map fst es)"
    proof
      fix x assume "x \<in> set ?d"
      then obtain i where "i < length ?d" "?d ! i = x" by (metis in_set_conv_nth)
      then show "x \<in> set (map fst es)" using cycle_edges_nth [of i ?d] d
        by (force simp: simple_cycle_def)
    qed
    then have "?d \<in> set (nx_simple_cycles example_nx ns es b)"
      using d hd_canonical [OF c] same_cycle_set [OF same] same_cycle_length [OF same] that(2) c
      by (auto simp: example_nx_def set_n_lists Suc_le_eq simp del: upt_Suc)
    then show ?thesis using same by blast
  qed
  ultimately show ?thesis unfolding nx_ok_def
    using example_components by meson
qed

section \<open>Import cycles\<close>

text \<open>
  C22: Every reported cycle is an import cycle of at most ten different modules, starting at
  its smallest id; no cycle is reported twice, in this or another rotation; the shortest come
  first and there are at most a hundred.  When nothing is said to be cut, every import cycle of
  two to ten modules is reported.
\<close>

theorem find_cycles_exact:
  assumes "nx_ok nx" and "set es \<subseteq> set ns \<times> set ns" and "find_cycles nx ns es = (cycles, truncated)"
  shows "(\<forall>c \<in> set cycles. simple_cycle es c \<and> length c \<le> 10 \<and> hd c = Min (set c))
    \<and> (\<forall>c \<in> set cycles. \<forall>d \<in> set cycles. same_cycle c d \<longrightarrow> c = d) \<and> distinct cycles
    \<and> sorted (map (\<lambda>c. (length c, c)) cycles) \<and> length cycles \<le> 100
    \<and> (\<not> truncated \<longrightarrow> (\<forall>c. simple_cycle es c \<and> 2 \<le> length c \<and> length c \<le> 10 \<longrightarrow>
         (\<exists>d \<in> set cycles. same_cycle c d)))"
proof -
  define Cs where "Cs = sort_key component_key (filter (\<lambda>c. 1 < length c) (nx_components nx ns es))"
  define everything where "everything = concat (map (component_cycles nx es) Cs)"
  define found where "found = take CYCLE_ENUMERATION_CEILING everything"
  define ranked where "ranked = sort_key (\<lambda>c. (length c, c)) found"
  have result: "cycles = take MAX_CYCLES ranked"
    "truncated = (MAX_CYCLES < length ranked \<or> CYCLE_ENUMERATION_CEILING < length everything)"
  proof -
    have "enumerate_cycles nx es Cs [] = (found, CYCLE_ENUMERATION_CEILING < length everything)"
      using enumerate_cycles_take [of "[]" nx es Cs] by (simp add: everything_def found_def Let_def)
    moreover have "length ranked = length found" by (simp add: ranked_def)
    ultimately have "find_cycles nx ns es =
        (if MAX_CYCLES < length ranked then (take MAX_CYCLES ranked, True)
         else (ranked, CYCLE_ENUMERATION_CEILING < length everything))"
      unfolding find_cycles_def Let_def Cs_def [symmetric] by (simp add: ranked_def [symmetric])
    then show "cycles = take MAX_CYCLES ranked"
      "truncated = (MAX_CYCLES < length ranked \<or> CYCLE_ENUMERATION_CEILING < length everything)"
      using assms(3) by (simp_all split: if_splits)
  qed
  have sub: "set cycles \<subseteq> set everything"
    unfolding result ranked_def found_def using set_take_subset by (metis set_sort subset_trans)
  have "distinct (concat (filter (\<lambda>c. 1 < length c) xs))" if "distinct (concat xs)" for xs :: "string list list"
    using that by (induction xs) auto
  then have "distinct (concat (filter (\<lambda>c. 1 < length c) (nx_components nx ns es)))"
    using assms(1) by (simp add: nx_ok_def)
  then have "distinct (concat Cs)"
    unfolding Cs_def by (simp only: distinct_concat_sort_key)
  then have "distinct everything" unfolding everything_def by (rule distinct_all_cycles [OF assms(1)])
  then have dist: "distinct cycles" unfolding result ranked_def found_def by simp
  have member: "simple_cycle es c \<and> length c \<le> 10 \<and> hd c = Min (set c) \<and> c \<noteq> []" if "c \<in> set cycles" for c
    using that sub component_cycles_in [OF assms(1)] by (auto simp: everything_def MAX_CYCLE_LENGTH_def)
  have unique: "c = d" if in_c: "c \<in> set cycles" and in_d: "d \<in> set cycles" and same: "same_cycle c d" for c d
  proof -
    obtain n where d: "d = rotate n c" using same by (auto simp: same_cycle_def)
    have "hd (rotate n c) = hd (rotate 0 c)"
      using member [OF in_c] member [OF in_d] same_cycle_set [OF same] d by simp
    then show ?thesis using rotate_hd_inject [of c n 0] member [OF in_c] d by (simp add: simple_cycle_def)
  qed
  have "sorted (map (\<lambda>c. (length c, c)) cycles)"
    unfolding result ranked_def take_map [symmetric] by (rule sorted_wrt_take) simp
  moreover have "length cycles \<le> 100" unfolding result by (simp add: MAX_CYCLES_def)
  moreover have "\<exists>d \<in> set cycles. same_cycle c d"
    if "\<not> truncated" "simple_cycle es c" "2 \<le> length c" "length c \<le> 10" for c
  proof -
    have "set cycles = set everything"
      using that(1) unfolding result ranked_def found_def
      by (simp add: not_less MAX_CYCLES_def CYCLE_ENUMERATION_CEILING_def)
    moreover have "\<exists>d \<in> set everything. same_cycle c d"
      using all_cycles_complete [OF assms(1) that(2) assms(2) that(3)] that(4)
      by (auto simp: everything_def Cs_def MAX_CYCLE_LENGTH_def)
    ultimately show ?thesis by simp
  qed
  ultimately show ?thesis using member unique dist by blast
qed

theorem find_cycles_exact_witness:
  "length (fst (find_cycles example_nx [''a'', ''b''] [(''a'', ''b''), (''b'', ''a'')])) \<le> 100"
  using find_cycles_exact [OF example_nx_ok _ prod.collapse [symmetric],
      of "[(''a'', ''b''), (''b'', ''a'')]" "[''a'', ''b'']"] by simp

end
