(* ===== verification/Graph_View.thy ===== *)
theory Graph_View
  imports Graph_Builder
begin

text \<open>
  \<open>graph/view.py\<close>: the stored module graph shaped for display, grouped by directory when
  it has too many modules.  Sets of directories are lists read as sets.
\<close>

section \<open>Rows and view\<close>

record node_row =
  nr_module_id :: string
  nr_path :: string
  nr_language :: string
  nr_loc :: nat
  nr_definition_count :: nat
  nr_fan_in :: nat
  nr_fan_out :: nat
  nr_instability :: "real option"
  nr_centrality :: real
  nr_layer :: "string option"
  nr_is_entrypoint :: bool
  nr_is_test :: bool
  nr_parse_error :: "string option"

record edge_row =
  er_source :: string
  er_target :: string
  er_import_count :: nat
  er_type_only :: bool
  er_lazy :: bool

record issue_row =
  ri_id :: nat
  ri_type :: issue_type
  ri_involved_modules :: "string list"
  ri_involved_edges :: "(string \<times> string) list"

record view_node =
  vn_id :: string
  vn_directory :: bool
  vn_label :: string
  vn_path :: string
  vn_module_count :: nat
  vn_loc :: nat
  vn_definition_count :: nat
  vn_fan_in :: nat
  vn_fan_out :: nat
  vn_instability :: "real option"
  vn_centrality :: real
  vn_layer :: "string option"
  vn_language :: string
  vn_is_entrypoint :: bool
  vn_is_test :: bool
  vn_parse_error_count :: nat
  vn_issue_ids :: "nat list"

record view_edge =
  ve_id :: string
  ve_source :: string
  ve_target :: string
  ve_module_edge_count :: nat
  ve_import_count :: nat
  ve_type_only :: bool
  ve_lazy :: bool
  ve_in_cycle :: bool
  ve_layer_violation :: bool
  ve_issue_ids :: "nat list"

record view_issue =
  vi_id :: nat
  vi_type :: issue_type
  vi_node_ids :: "string list"
  vi_edge_ids :: "string list"

record graph_view =
  gv_nodes :: "view_node list"
  gv_edges :: "view_edge list"
  gv_issues :: "view_issue list"
  gv_total_modules :: nat
  gv_aggregated :: bool
  gv_depth :: "nat option"
  gv_expanded :: "string list"
  gv_collapsed :: "string list"

section \<open>Grouping\<close>

definition DIRECTORY_PREFIX :: string where "DIRECTORY_PREFIX = ''dir:''"

definition dirs :: "string \<Rightarrow> string list" where
  "dirs path = path_parent_parts path"

definition directory_id :: "string list \<Rightarrow> string" where
  "directory_id prefix = DIRECTORY_PREFIX @ join ''/'' prefix"

definition prefix_name :: "string list \<Rightarrow> nat \<Rightarrow> string" where
  "prefix_name ds k = join ''/'' (take k ds)"

definition group_key :: "string \<Rightarrow> string \<Rightarrow> nat option \<Rightarrow> string list \<Rightarrow> string list \<Rightarrow> string" where
  "group_key path module_id depth expand collapse =
     (let ds = dirs path
      in case find (\<lambda>k. prefix_name ds k \<in> set collapse) [1..<Suc (length ds)] of
           Some k \<Rightarrow> directory_id (take k ds)
         | None \<Rightarrow>
             (case depth of
                None \<Rightarrow> module_id
              | Some depth \<Rightarrow>
                  if ds = [] then module_id
                  else
                    (case find (\<lambda>k. prefix_name ds k \<notin> set expand) [min depth (length ds)..<Suc (length ds)] of
                       Some k \<Rightarrow> directory_id (take k ds)
                     | None \<Rightarrow> module_id)))"

definition choose_depth :: "string list \<Rightarrow> nat \<Rightarrow> nat option" where
  "choose_depth paths max_nodes =
     (if length paths \<le> max_nodes then None
      else
        let max_depth = (if paths = [] then 1 else Max (set (map (length \<circ> dirs) paths)))
        in case find (\<lambda>depth. card (set (map (\<lambda>p. group_key p p (Some depth) [] []) paths)) \<le> max_nodes)
                  (rev [1..<Suc max_depth]) of
             Some depth \<Rightarrow> Some depth
           | None \<Rightarrow> Some 1)"

definition node_key :: "nat option \<Rightarrow> string list \<Rightarrow> string list \<Rightarrow> node_row \<Rightarrow> string" where
  "node_key depth expand collapse n = group_key (nr_path n) (nr_module_id n) depth expand collapse"

definition members_of :: "(node_row \<Rightarrow> string) \<Rightarrow> node_row list \<Rightarrow> (string, node_row list) dict" where
  "members_of key nodes = group_into [] (map (\<lambda>n. (key n, n)) nodes)"

section \<open>Automatic expansion\<close>

text \<open>One round: the largest directory whose expansion splits it and still fits.\<close>

definition expansion ::
    "node_row list \<Rightarrow> nat \<Rightarrow> nat \<Rightarrow> string list \<Rightarrow> string list \<Rightarrow> string option" where
  "expansion nodes depth max_nodes current collapse =
     (let members = members_of (node_key (Some depth) current collapse) nodes;
          fits = (\<lambda>(key, g).
            starts_with DIRECTORY_PREFIX key \<and> 2 \<le> length g
            \<and> (let children = card (set (map (node_key (Some depth)
                     (remove_prefix DIRECTORY_PREFIX key # current) collapse) g))
               in 1 < children \<and> length members - 1 + children \<le> max_nodes))
      in map_option (\<lambda>(key, g). remove_prefix DIRECTORY_PREFIX key)
           (find fits (sort_key (\<lambda>(key, g). (- int (length g), key)) members)))"

definition all_prefixes :: "node_row list \<Rightarrow> string set" where
  "all_prefixes nodes = (\<Union>n \<in> set nodes. prefix_name (dirs (nr_path n)) ` {0..length (dirs (nr_path n))})"

text \<open>Expanding a directory that is no prefix of the path, or is expanded already, changes no key.\<close>

lemma node_key_expand_irrelevant:
  assumes "d \<notin> prefix_name (dirs (nr_path n)) ` {0..length (dirs (nr_path n))} \<or> d \<in> set current"
  shows "node_key depth (d # current) collapse n = node_key depth current collapse n"
proof -
  let ?ds = "dirs (nr_path n)"
  have "find (\<lambda>k. prefix_name ?ds k \<notin> set (d # current)) [min i (length ?ds)..<Suc (length ?ds)]
      = find (\<lambda>k. prefix_name ?ds k \<notin> set current) [min i (length ?ds)..<Suc (length ?ds)]" for i
    by (rule find_cong_mem) (use assms in auto)
  then show ?thesis
    by (auto simp: node_key_def group_key_def Let_def split: option.splits)
qed

lemma members_of_entry:
  assumes "(k, g) \<in> set (members_of key nodes)"
  shows "g = filter (\<lambda>n. key n = k) nodes"
proof -
  have "g = map snd (filter (\<lambda>p. fst p = k) (map (\<lambda>n. (key n, n)) nodes))"
    using assms unfolding members_of_def by (rule group_into_Nil_entry)
  then show ?thesis by (simp add: filter_map o_def)
qed

lemma expansion_new:
  assumes "expansion nodes depth max_nodes current collapse = Some d"
  shows "d \<in> all_prefixes nodes \<and> d \<notin> set current"
proof -
  obtain key g where g: "(key, g) \<in> set (members_of (node_key (Some depth) current collapse) nodes)"
    "d = remove_prefix DIRECTORY_PREFIX key"
    "1 < card (set (map (node_key (Some depth) (d # current) collapse) g))"
    using assms unfolding expansion_def Let_def
    by (auto simp: map_option_case case_prod_beta split: option.splits dest!: find_SomeD)
  have "\<exists>n \<in> set g. node_key (Some depth) (d # current) collapse n \<noteq> key"
  proof (rule ccontr)
    assume "\<not> ?thesis"
    then have sub: "set (map (node_key (Some depth) (d # current) collapse) g) \<subseteq> {key}" by auto
    have "card (set (map (node_key (Some depth) (d # current) collapse) g)) \<le> 1"
      using card_mono [OF _ sub] by simp
    then show False using g(3) by simp
  qed
  then obtain n where n: "n \<in> set g" "node_key (Some depth) (d # current) collapse n \<noteq> key" by blast
  then have "n \<in> set nodes" "node_key (Some depth) current collapse n = key"
    using members_of_entry [OF g(1)] by auto
  then show ?thesis
    using n node_key_expand_irrelevant [of d n current "Some depth" collapse]
    by (auto simp: all_prefixes_def)
qed

function auto_expand ::
    "node_row list \<Rightarrow> nat \<Rightarrow> nat \<Rightarrow> string list \<Rightarrow> string list \<Rightarrow> string list \<Rightarrow> string list" where
  "auto_expand nodes depth max_nodes expand collapse expanded =
     (case expansion nodes depth max_nodes (expanded @ expand) collapse of
        None \<Rightarrow> expanded
      | Some chosen \<Rightarrow> auto_expand nodes depth max_nodes expand collapse (chosen # expanded))"
  by pat_completeness auto
termination
proof (relation "measure (\<lambda>(nodes, _, _, expand, _, expanded). card (all_prefixes nodes - set (expanded @ expand)))")
  fix nodes depth max_nodes expand collapse expanded chosen
  assume "expansion nodes depth max_nodes (expanded @ expand) collapse = Some chosen"
  from expansion_new [OF this]
  have "all_prefixes nodes - set ((chosen # expanded) @ expand) \<subset> all_prefixes nodes - set (expanded @ expand)"
    by auto
  moreover have "finite (all_prefixes nodes)" by (simp add: all_prefixes_def)
  ultimately show "((nodes, depth, max_nodes, expand, collapse, chosen # expanded),
      nodes, depth, max_nodes, expand, collapse, expanded) \<in>
      measure (\<lambda>(nodes, _, _, expand, _, expanded). card (all_prefixes nodes - set (expanded @ expand)))"
    by (simp add: psubset_card_mono)
qed simp

declare auto_expand.simps [simp del]

section \<open>Edges\<close>

definition strip_slashes :: "string \<Rightarrow> string" where
  "strip_slashes s = rstrip_by (\<lambda>c. c = CHR ''/'') (lstrip_by (\<lambda>c. c = CHR ''/'') s)"

definition directory_set :: "string list \<Rightarrow> string list" where
  "directory_set ds = dict_fromkeys (filter (\<lambda>d. d \<noteq> []) (map strip_slashes ds))"

text \<open>The edges of the issues of a type, and the issues of an edge in order.\<close>

definition edges_of_type :: "issue_type \<Rightarrow> issue_row list \<Rightarrow> (string \<times> string) list" where
  "edges_of_type t issues = concat (map ri_involved_edges (filter (\<lambda>i. ri_type i = t) issues))"

definition issues_of_edge :: "issue_row list \<Rightarrow> string \<times> string \<Rightarrow> nat list" where
  "issues_of_edge issues e =
     concat (map (\<lambda>i. map (\<lambda>_. ri_id i) (filter (\<lambda>x. x = e) (ri_involved_edges i))) issues)"

definition new_edge :: "string \<times> string \<Rightarrow> view_edge" where
  "new_edge k =
     \<lparr>ve_id = fst k @ ''->'' @ snd k, ve_source = fst k, ve_target = snd k, ve_module_edge_count = 0,
      ve_import_count = 0, ve_type_only = True, ve_lazy = True, ve_in_cycle = False,
      ve_layer_violation = False, ve_issue_ids = []\<rparr>"

definition absorb_edge :: "issue_row list \<Rightarrow> edge_row \<Rightarrow> view_edge \<Rightarrow> view_edge" where
  "absorb_edge issues e v =
     (let pair = (er_source e, er_target e)
      in v\<lparr>ve_module_edge_count := ve_module_edge_count v + 1,
           ve_import_count := ve_import_count v + er_import_count e,
           ve_type_only := ve_type_only v \<and> er_type_only e,
           ve_lazy := ve_lazy v \<and> er_lazy e,
           ve_in_cycle := ve_in_cycle v \<or> pair \<in> set (edges_of_type Circular_dependency issues),
           ve_layer_violation := ve_layer_violation v \<or> pair \<in> set (edges_of_type Layer_violation issues),
           ve_issue_ids := foldl (\<lambda>ids i. if i \<in> set ids then ids else ids @ [i]) (ve_issue_ids v)
             (issues_of_edge issues pair)\<rparr>)"

text \<open>The pair of view nodes an edge belongs to, if its ends are known and differ.\<close>

definition view_pair :: "(string, string) dict \<Rightarrow> string \<times> string \<Rightarrow> (string \<times> string) option" where
  "view_pair key_of p =
     (case (map_of key_of (fst p), map_of key_of (snd p)) of
        (Some s, Some t) \<Rightarrow> if s = t then None else Some (s, t)
      | _ \<Rightarrow> None)"

definition group_edge ::
    "(string, string) dict \<Rightarrow> issue_row list \<Rightarrow> (string \<times> string, view_edge) dict \<Rightarrow> edge_row
     \<Rightarrow> (string \<times> string, view_edge) dict" where
  "group_edge key_of issues grouped e =
     (case view_pair key_of (er_source e, er_target e) of
        None \<Rightarrow> grouped
      | Some k \<Rightarrow>
          dict_set k (absorb_edge issues e (case map_of grouped k of None \<Rightarrow> new_edge k | Some v \<Rightarrow> v)) grouped)"

definition group_edges ::
    "(string, string) dict \<Rightarrow> issue_row list \<Rightarrow> edge_row list \<Rightarrow> (string \<times> string, view_edge) dict" where
  "group_edges key_of issues edges = foldl (group_edge key_of issues) [] edges"

section \<open>Issues and nodes\<close>

definition involved_keys :: "(string, string) dict \<Rightarrow> issue_row \<Rightarrow> string list" where
  "involved_keys key_of i = List.map_filter (map_of key_of) (ri_involved_modules i)"

definition primary_issues :: "(string, string) dict \<Rightarrow> issue_row list \<Rightarrow> string \<Rightarrow> nat list" where
  "primary_issues key_of issues key =
     map ri_id (filter (\<lambda>i. case involved_keys key_of i of [] \<Rightarrow> False | k # _ \<Rightarrow> k = key) issues)"

definition view_issue_of ::
    "(string, string) dict \<Rightarrow> (string \<times> string, view_edge) dict \<Rightarrow> issue_row \<Rightarrow> view_issue" where
  "view_issue_of key_of grouped i =
     \<lparr>vi_id = ri_id i, vi_type = ri_type i,
      vi_node_ids = dict_fromkeys (involved_keys key_of i),
      vi_edge_ids = dict_fromkeys (List.map_filter
        (\<lambda>e. case (map_of key_of (fst e), map_of key_of (snd e)) of
               (Some s, Some t) \<Rightarrow> map_option ve_id (map_of grouped (s, t))
             | _ \<Rightarrow> None) (ri_involved_edges i))\<rparr>"

text \<open>\<open>most_common(1)[0][0]\<close>\<close>

definition most_common :: "('a, nat) dict \<Rightarrow> 'a" where
  "most_common d = fst (first_max snd d)"

definition degree_in :: "(string \<times> string, view_edge) dict \<Rightarrow> string \<Rightarrow> nat" where
  "degree_in grouped key = length (filter (\<lambda>((s, t), _). t = key) grouped)"

definition degree_out :: "(string \<times> string, view_edge) dict \<Rightarrow> string \<Rightarrow> nat" where
  "degree_out grouped key = length (filter (\<lambda>((s, t), _). s = key) grouped)"

definition directory_node ::
    "(string \<times> string, view_edge) dict \<Rightarrow> nat list \<Rightarrow> string \<Rightarrow> node_row list \<Rightarrow> view_node" where
  "directory_node grouped issue_ids key g =
     (let directory = remove_prefix DIRECTORY_PREFIX key;
          total_in = degree_in grouped key; total_out = degree_out grouped key;
          loc_by_layer = add_counts (List.map_filter (\<lambda>m. case nr_layer m of None \<Rightarrow> None
                           | Some l \<Rightarrow> if l = [] then None else Some (l, max (nr_loc m) 1)) g)
      in \<lparr>vn_id = key, vn_directory = True, vn_label = path_name directory @ ''/'', vn_path = directory,
          vn_module_count = length g, vn_loc = sum_list (map nr_loc g),
          vn_definition_count = sum_list (map nr_definition_count g),
          vn_fan_in = total_in, vn_fan_out = total_out,
          vn_instability = (if total_in + total_out = 0 then None
             else Some (py_round 4 (real total_out / real (total_in + total_out)))),
          vn_centrality = Max (set (map nr_centrality g)),
          vn_layer = (if loc_by_layer = [] then None else Some (most_common loc_by_layer)),
          vn_language = most_common (counter (map nr_language g)),
          vn_is_entrypoint = list_all nr_is_entrypoint g, vn_is_test = list_all nr_is_test g,
          vn_parse_error_count = length (filter (\<lambda>m. nr_parse_error m \<noteq> None \<and> nr_parse_error m \<noteq> Some []) g),
          vn_issue_ids = issue_ids\<rparr>)"

definition module_node :: "nat list \<Rightarrow> string \<Rightarrow> node_row \<Rightarrow> view_node" where
  "module_node issue_ids key m =
     \<lparr>vn_id = key, vn_directory = False, vn_label = path_name (nr_path m), vn_path = nr_path m,
      vn_module_count = 1, vn_loc = nr_loc m, vn_definition_count = nr_definition_count m,
      vn_fan_in = nr_fan_in m, vn_fan_out = nr_fan_out m, vn_instability = nr_instability m,
      vn_centrality = nr_centrality m, vn_layer = nr_layer m, vn_language = nr_language m,
      vn_is_entrypoint = nr_is_entrypoint m, vn_is_test = nr_is_test m,
      vn_parse_error_count = (if nr_parse_error m = None \<or> nr_parse_error m = Some [] then 0 else 1),
      vn_issue_ids = issue_ids\<rparr>"

text \<open>One view node; \<open>[module] = group\<close> raises for a group of several modules.\<close>

definition view_node_of ::
    "(string \<times> string, view_edge) dict \<Rightarrow> (string \<Rightarrow> nat list) \<Rightarrow> string \<times> node_row list \<Rightarrow> view_node option" where
  "view_node_of grouped issue_ids kg =
     (case kg of (key, g) \<Rightarrow>
        if starts_with DIRECTORY_PREFIX key then Some (directory_node grouped (issue_ids key) key g)
        else (case g of [m] \<Rightarrow> Some (module_node (issue_ids key) key m) | _ \<Rightarrow> None))"

fun option_all :: "('a \<Rightarrow> 'b option) \<Rightarrow> 'a list \<Rightarrow> 'b list option" where
  "option_all f [] = Some []"
| "option_all f (x # xs) =
     (case f x of None \<Rightarrow> None | Some y \<Rightarrow> map_option (\<lambda>ys. y # ys) (option_all f xs))"

section \<open>The view\<close>

definition effective_expand ::
    "node_row list \<Rightarrow> nat option \<Rightarrow> nat \<Rightarrow> string list \<Rightarrow> string list \<Rightarrow> string list" where
  "effective_expand nodes depth max_nodes expand collapse =
     (case depth of None \<Rightarrow> expand
      | Some d \<Rightarrow> auto_expand nodes d max_nodes expand collapse [] @ expand)"

definition view_keys :: "node_row list \<Rightarrow> nat option \<Rightarrow> string list \<Rightarrow> string list \<Rightarrow> (string, string) dict" where
  "view_keys nodes depth effective collapse_set =
     foldl (\<lambda>d n. dict_set (nr_module_id n) (node_key depth effective collapse_set n) d) [] nodes"

definition build_view ::
    "node_row list \<Rightarrow> edge_row list \<Rightarrow> issue_row list \<Rightarrow> nat \<Rightarrow> string list \<Rightarrow> string list \<Rightarrow> graph_view option" where
  "build_view nodes edges issues max_nodes expand collapse =
     (let expand_set = directory_set expand; collapse_set = directory_set collapse;
          depth = choose_depth (map nr_path nodes) max_nodes;
          effective = effective_expand nodes depth max_nodes expand_set collapse_set;
          key_of = view_keys nodes depth effective collapse_set;
          members = members_of (\<lambda>n. the (map_of key_of (nr_module_id n))) nodes;
          grouped = group_edges key_of issues edges
      in case option_all (view_node_of grouped (primary_issues key_of issues)) (sort_key fst members) of
           None \<Rightarrow> None
         | Some view_nodes \<Rightarrow> Some
             \<lparr>gv_nodes = view_nodes, gv_edges = sort_key ve_id (map snd grouped),
              gv_issues = map (view_issue_of key_of grouped) issues,
              gv_total_modules = length nodes, gv_aggregated = list_ex vn_directory view_nodes,
              gv_depth = depth, gv_expanded = sort expand_set, gv_collapsed = sort collapse_set\<rparr>)"

end
