(* ===== verification/Graph_View_Props.thy ===== *)
theory Graph_View_Props
  imports Graph_View
begin

text \<open>
  The automatic expansion stops within the budget of nodes, and the view is the quotient of
  the module graph: no module, line or import is lost or counted twice.
\<close>

section \<open>Expansion\<close>

lemma find_restrict:
  "find P xs = Some x \<Longrightarrow> Q x \<Longrightarrow> (\<And>y. Q y \<Longrightarrow> P y) \<Longrightarrow> find Q xs = Some x"
  by (induction xs) (auto split: if_splits)

lemma find_restrict_None:
  "find P xs = None \<Longrightarrow> (\<And>y. Q y \<Longrightarrow> P y) \<Longrightarrow> find Q xs = None"
  by (induction xs) (auto split: if_splits)

text \<open>Expanding one more directory leaves the nodes outside its group where they are.\<close>

lemma node_key_other_group:
  assumes "node_key depth current collapse n \<noteq> DIRECTORY_PREFIX @ d"
  shows "node_key depth (d # current) collapse n = node_key depth current collapse n"
proof -
  let ?ds = "dirs (nr_path n)"
  have "(case find (\<lambda>k. prefix_name ?ds k \<notin> set (d # current)) xs of
           Some k \<Rightarrow> directory_id (take k ?ds) | None \<Rightarrow> nr_module_id n)
      = (case find (\<lambda>k. prefix_name ?ds k \<notin> set current) xs of
           Some k \<Rightarrow> directory_id (take k ?ds) | None \<Rightarrow> nr_module_id n)"
    if "\<And>k. find (\<lambda>k. prefix_name ?ds k \<notin> set current) xs = Some k \<Longrightarrow> prefix_name ?ds k \<noteq> d" for xs
  proof (cases "find (\<lambda>k. prefix_name ?ds k \<notin> set current) xs")
    case None
    then have "find (\<lambda>k. prefix_name ?ds k \<notin> set (d # current)) xs = None"
      by (rule find_restrict_None) simp
    then show ?thesis using None by simp
  next
    case (Some k)
    then have "find (\<lambda>k. prefix_name ?ds k \<notin> set (d # current)) xs = Some k"
      by (rule find_restrict) (use that [OF Some] find_SomeD [OF Some] in simp_all)
    then show ?thesis using Some by simp
  qed
  note moved = this
  show ?thesis
  proof (cases "find (\<lambda>k. prefix_name ?ds k \<in> set collapse) [1..<Suc (length ?ds)] = None \<and> depth \<noteq> None \<and> ?ds \<noteq> []")
    case True
    then obtain i where i: "depth = Some i" by blast
    have key: "node_key depth cur collapse n =
        (case find (\<lambda>k. prefix_name ?ds k \<notin> set cur) [min i (length ?ds)..<Suc (length ?ds)] of
           Some k \<Rightarrow> directory_id (take k ?ds) | None \<Rightarrow> nr_module_id n)" for cur
      using True i by (simp add: node_key_def group_key_def Let_def del: upt_Suc)
    show ?thesis
      unfolding key
    proof (rule moved)
      fix k assume "find (\<lambda>k. prefix_name ?ds k \<notin> set current) [min i (length ?ds)..<Suc (length ?ds)] = Some k"
      then have "node_key depth current collapse n = directory_id (take k ?ds)" by (simp add: key del: upt_Suc)
      then show "prefix_name ?ds k \<noteq> d" using assms by (auto simp: directory_id_def prefix_name_def)
    qed
  next
    case False
    then show ?thesis
      by (auto simp: node_key_def group_key_def Let_def simp del: upt_Suc split: option.splits)
  qed
qed

lemma length_members: "length (members_of key nodes) = card (key ` set nodes)"
proof -
  have "distinct (map fst (members_of key nodes))" unfolding members_of_def by (rule distinct_group_into) simp
  then have "length (members_of key nodes) = card (fst ` set (members_of key nodes))"
    using distinct_card [of "map fst (members_of key nodes)"] by simp
  also have "fst ` set (members_of key nodes) = key ` set nodes"
    by (simp add: members_of_def group_into_keys image_image)
  finally show ?thesis .
qed

lemma expansion_fits:
  assumes "expansion nodes depth max_nodes current collapse = Some d"
  shows "card (node_key (Some depth) (d # current) collapse ` set nodes) \<le> max_nodes"
proof -
  let ?old = "node_key (Some depth) current collapse" and ?new = "node_key (Some depth) (d # current) collapse"
  obtain key g where g: "(key, g) \<in> set (members_of ?old nodes)" "starts_with DIRECTORY_PREFIX key"
    "d = remove_prefix DIRECTORY_PREFIX key"
    and fits: "length (members_of ?old nodes) - 1 + card (set (map ?new g)) \<le> max_nodes"
    using assms unfolding expansion_def Let_def
    by (auto simp: map_option_case case_prod_beta split: option.splits dest!: find_SomeD)
  have key: "key = DIRECTORY_PREFIX @ d" using g(2,3) by (auto simp: starts_with_iff remove_prefix_def)
  have members: "set g = {n \<in> set nodes. ?old n = key}" using members_of_entry [OF g(1)] by auto
  have "key \<in> ?old ` set nodes"
  proof -
    have "key \<in> fst ` set (members_of ?old nodes)" using g(1) by force
    then show ?thesis by (simp add: members_of_def group_into_keys image_image)
  qed
  have "?new ` set nodes \<subseteq> ?new ` set g \<union> (?old ` set nodes - {key})"
  proof
    fix x assume "x \<in> ?new ` set nodes"
    then obtain n where n: "n \<in> set nodes" "x = ?new n" by blast
    show "x \<in> ?new ` set g \<union> (?old ` set nodes - {key})"
    proof (cases "?old n = key")
      case True
      then show ?thesis using n members by simp
    next
      case False
      then have "?new n = ?old n" using node_key_other_group key by blast
      then show ?thesis using n False by auto
    qed
  qed
  then have "card (?new ` set nodes) \<le> card (?new ` set g \<union> (?old ` set nodes - {key}))"
    by (intro card_mono) auto
  also have "\<dots> \<le> card (?new ` set g) + card (?old ` set nodes - {key})" by (rule card_Un_le)
  also have "card (?old ` set nodes - {key}) = length (members_of ?old nodes) - 1"
    using \<open>key \<in> ?old ` set nodes\<close> by (simp add: length_members)
  finally show ?thesis using fits by simp
qed

definition view_size :: "node_row list \<Rightarrow> nat \<Rightarrow> string list \<Rightarrow> string list \<Rightarrow> nat" where
  "view_size nodes depth expand collapse = card (node_key (Some depth) expand collapse ` set nodes)"

text \<open>
  C23: The automatic expansion ends for every graph: each round opens a directory that was
  not open yet.  The opened directories are directories of the graph, the view stays within
  the budget of nodes, or at what it was, and at the end no further directory fits.
\<close>

theorem auto_expand_fits:
  "let opened = auto_expand nodes depth max_nodes expand collapse []
   in distinct opened \<and> set opened \<subseteq> all_prefixes nodes - set expand
    \<and> view_size nodes depth (opened @ expand) collapse \<le> max max_nodes (view_size nodes depth expand collapse)
    \<and> expansion nodes depth max_nodes (opened @ expand) collapse = None"
proof -
  have "distinct (auto_expand nodes depth max_nodes expand collapse e)
      \<and> set (auto_expand nodes depth max_nodes expand collapse e) \<subseteq> all_prefixes nodes - set expand
      \<and> view_size nodes depth (auto_expand nodes depth max_nodes expand collapse e @ expand) collapse
          \<le> max max_nodes (view_size nodes depth expand collapse)
      \<and> expansion nodes depth max_nodes (auto_expand nodes depth max_nodes expand collapse e @ expand) collapse = None"
    if "distinct e" "set e \<subseteq> all_prefixes nodes - set expand"
      "view_size nodes depth (e @ expand) collapse \<le> max max_nodes (view_size nodes depth expand collapse)" for e
    using that
  proof (induction nodes depth max_nodes expand collapse e rule: auto_expand.induct)
    case (1 nodes depth max_nodes expand collapse e)
    show ?case
    proof (cases "expansion nodes depth max_nodes (e @ expand) collapse")
      case None
      then show ?thesis using "1.prems" by (simp add: auto_expand.simps [of _ _ _ _ _ e])
    next
      case (Some d)
      have "distinct (d # e)" "set (d # e) \<subseteq> all_prefixes nodes - set expand"
        using expansion_new [OF Some] "1.prems"(1,2) by auto
      moreover have "view_size nodes depth ((d # e) @ expand) collapse
          \<le> max max_nodes (view_size nodes depth expand collapse)"
        using expansion_fits [OF Some] by (simp add: view_size_def)
      ultimately show ?thesis
        using "1.IH" [OF Some] by (subst (1 2 3 4) auto_expand.simps) (simp only: Some option.case)
    qed
  qed
  from this [of "[]"] show ?thesis by (simp add: Let_def)
qed

section \<open>The quotient graph\<close>

text \<open>The module edges that belong to a pair of view nodes.\<close>

definition edges_between :: "(string, string) dict \<Rightarrow> edge_row list \<Rightarrow> string \<times> string \<Rightarrow> edge_row list" where
  "edges_between key_of edges k =
     filter (\<lambda>e. view_pair key_of (er_source e, er_target e) = Some k) edges"

definition summarises :: "issue_row list \<Rightarrow> edge_row list \<Rightarrow> view_edge \<Rightarrow> bool" where
  "summarises issues es v \<longleftrightarrow>
     ve_module_edge_count v = length es
     \<and> ve_import_count v = sum_list (map er_import_count es)
     \<and> ve_type_only v = list_all er_type_only es \<and> ve_lazy v = list_all er_lazy es
     \<and> ve_in_cycle v = (\<exists>e \<in> set es. (er_source e, er_target e) \<in> set (edges_of_type Circular_dependency issues))
     \<and> ve_layer_violation v = (\<exists>e \<in> set es. (er_source e, er_target e) \<in> set (edges_of_type Layer_violation issues))
     \<and> distinct (ve_issue_ids v)
     \<and> set (ve_issue_ids v) = (\<Union>e \<in> set es. set (issues_of_edge issues (er_source e, er_target e)))"

lemma add_missing:
  "distinct ids \<Longrightarrow> distinct (foldl (\<lambda>ids i. if i \<in> set ids then ids else ids @ [i]) ids xs)
     \<and> set (foldl (\<lambda>ids i. if i \<in> set ids then ids else ids @ [i]) ids xs) = set ids \<union> set xs"
proof (induction xs rule: rev_induct)
  case (snoc x xs)
  then show ?case by auto
qed simp

lemma absorb_summarises:
  assumes "summarises issues es v"
  shows "summarises issues (es @ [e]) (absorb_edge issues e v)"
  using assms add_missing [of "ve_issue_ids v" "issues_of_edge issues (er_source e, er_target e)"]
  by (auto simp: summarises_def absorb_edge_def Let_def)

lemma absorb_ends:
  "ve_source (absorb_edge issues e v) = ve_source v" "ve_target (absorb_edge issues e v) = ve_target v"
  "ve_id (absorb_edge issues e v) = ve_id v"
  by (simp_all add: absorb_edge_def Let_def)

lemma group_edges_lookup:
  "case map_of (group_edges key_of issues edges) k of
     None \<Rightarrow> edges_between key_of edges k = []
   | Some v \<Rightarrow> edges_between key_of edges k \<noteq> [] \<and> summarises issues (edges_between key_of edges k) v
       \<and> (ve_source v, ve_target v) = k"
proof (induction edges rule: rev_induct)
  case Nil
  show ?case by (simp add: group_edges_def edges_between_def)
next
  case (snoc e es)
  have grouped: "group_edges key_of issues (es @ [e]) = group_edge key_of issues (group_edges key_of issues es) e"
    by (simp add: group_edges_def)
  have new: "summarises issues [] (new_edge k)" by (simp add: summarises_def new_edge_def)
  show ?case
  proof (cases "view_pair key_of (er_source e, er_target e) = Some k")
    case False
    then show ?thesis using snoc
      by (auto simp: grouped group_edge_def edges_between_def split: option.splits)
  next
    case True
    then have es: "edges_between key_of (es @ [e]) k = edges_between key_of es k @ [e]"
      by (simp add: edges_between_def)
    show ?thesis
    proof (cases "map_of (group_edges key_of issues es) k")
      case None
      then show ?thesis using snoc True es absorb_summarises [OF new, of e]
        by (simp add: grouped group_edge_def absorb_ends) (simp add: new_edge_def)
    next
      case (Some v)
      then show ?thesis using snoc True es absorb_summarises [of issues "edges_between key_of es k" v e]
        by (simp add: grouped group_edge_def absorb_ends)
    qed
  qed
qed

lemma distinct_group_edges: "distinct (map fst (group_edges key_of issues edges))"
proof (induction edges rule: rev_induct)
  case (snoc e es)
  then show ?case
    by (auto simp: group_edges_def group_edge_def distinct_dict_set split: option.splits)
qed (simp add: group_edges_def)

lemma option_all_Some: "option_all f xs = Some ys \<Longrightarrow> map Some ys = map f xs"
  by (induction xs arbitrary: ys) (auto split: option.splits)

lemma sum_list_members:
  "sum_list (map (\<lambda>(k, g). sum_list (map f g)) (members_of key nodes)) = (sum_list (map f nodes) :: nat)"
proof -
  have "sum_list (map (\<lambda>(k, g). sum_list (map f g)) xs) = sum_mset (image_mset f (mset (concat (map snd xs))))" for xs
    by (induction xs) (auto simp: sum_mset_sum_list [symmetric])
  also have "mset (concat (map snd (members_of key nodes))) = mset nodes"
    by (simp add: members_of_def mset_group_into o_def)
  finally show ?thesis by (simp add: sum_mset_sum_list [symmetric])
qed

lemma view_node_counts:
  assumes "view_node_of grouped issue_ids (k, g) = Some v"
  shows "vn_id v = k \<and> vn_module_count v = length g \<and> vn_loc v = sum_list (map nr_loc g)"
  using assms
  by (auto simp: view_node_of_def directory_node_def module_node_def Let_def split: if_splits list.splits)

text \<open>
  C24: The view is the quotient of the module graph by the grouping.  Two view nodes are
  joined by exactly one edge when some module edge leads from one to the other and by none
  otherwise, and the edge sums up these module edges; the view nodes are different, and hold
  every module and every line once.
\<close>

theorem build_view_quotient:
  assumes "build_view nodes edges issues max_nodes expand collapse = Some v"
  shows "\<exists>key_of. key_of = view_keys nodes (gv_depth v)
            (effective_expand nodes (gv_depth v) max_nodes (directory_set expand) (directory_set collapse))
            (directory_set collapse)
      \<and> distinct (map (\<lambda>e. (ve_source e, ve_target e)) (gv_edges v))
      \<and> (\<forall>k. (\<exists>e \<in> set (gv_edges v). (ve_source e, ve_target e) = k) = (edges_between key_of edges k \<noteq> []))
      \<and> (\<forall>e \<in> set (gv_edges v). summarises issues (edges_between key_of edges (ve_source e, ve_target e)) e)
      \<and> distinct (map vn_id (gv_nodes v))
      \<and> sum_list (map vn_module_count (gv_nodes v)) = length nodes
      \<and> sum_list (map vn_loc (gv_nodes v)) = sum_list (map nr_loc nodes)"
proof -
  define depth where "depth = choose_depth (map nr_path nodes) max_nodes"
  define key_of where "key_of = view_keys nodes depth
      (effective_expand nodes depth max_nodes (directory_set expand) (directory_set collapse)) (directory_set collapse)"
  define grouped where "grouped = group_edges key_of issues edges"
  define members where "members = members_of (\<lambda>n. the (map_of key_of (nr_module_id n))) nodes"
  have v: "gv_depth v = depth" "gv_edges v = sort_key ve_id (map snd grouped)"
    and vn: "option_all (view_node_of grouped (primary_issues key_of issues)) (sort_key fst members) = Some (gv_nodes v)"
    using assms unfolding build_view_def Let_def depth_def [symmetric] key_of_def [symmetric]
      grouped_def [symmetric] members_def [symmetric]
    by (auto split: option.splits)
  have set_edges: "set (gv_edges v) = snd ` set grouped" by (simp add: v)
  have ends: "(ve_source e, ve_target e) = k \<and> edges_between key_of edges k \<noteq> []
      \<and> summarises issues (edges_between key_of edges k) e" if "(k, e) \<in> set grouped" for k e
    using group_edges_lookup [where key_of = key_of and issues = issues and edges = edges and k = k] that distinct_group_edges [of key_of issues edges]
    by (simp add: grouped_def)
  have "map (\<lambda>e. (ve_source e, ve_target e)) (map snd grouped) = map fst grouped"
    unfolding list.map_comp by (rule map_cong [OF refl]) (use ends in force)
  then have "distinct (map (\<lambda>e. (ve_source e, ve_target e)) (map snd grouped))"
    using distinct_group_edges grouped_def by metis
  then have dist: "distinct (map (\<lambda>e. (ve_source e, ve_target e)) (gv_edges v))"
    unfolding v by (metis (no_types, lifting) distinct_map distinct_sort mset_sort set_sort)
  have exists: "(\<exists>e \<in> set (gv_edges v). (ve_source e, ve_target e) = k) = (edges_between key_of edges k \<noteq> [])" for k
  proof
    assume "\<exists>e \<in> set (gv_edges v). (ve_source e, ve_target e) = k"
    then obtain k' e where "(k', e) \<in> set grouped" "(ve_source e, ve_target e) = k" using set_edges by auto
    then show "edges_between key_of edges k \<noteq> []" using ends by metis
  next
    assume "edges_between key_of edges k \<noteq> []"
    then obtain e where "map_of grouped k = Some e"
      using group_edges_lookup [where key_of = key_of and issues = issues and edges = edges and k = k] by (auto simp: grouped_def split: option.splits)
    then have "(k, e) \<in> set grouped" by (rule map_of_SomeD)
    then have "(ve_source e, ve_target e) = k" "e \<in> set (gv_edges v)"
      using ends by (blast, metis set_edges image_eqI snd_conv)
    then show "\<exists>e \<in> set (gv_edges v). (ve_source e, ve_target e) = k" by blast
  qed
  have sums: "\<forall>e \<in> set (gv_edges v). summarises issues (edges_between key_of edges (ve_source e, ve_target e)) e"
    unfolding set_edges using ends by (metis (no_types, lifting) imageE prod.collapse)
  have zip: "map Some (gv_nodes v) = map (view_node_of grouped (primary_issues key_of issues)) (sort_key fst members)"
    by (rule option_all_Some [OF vn])
  have counts: "vn_id x = fst kg \<and> vn_module_count x = length (snd kg) \<and> vn_loc x = sum_list (map nr_loc (snd kg))"
    if "Some x = view_node_of grouped (primary_issues key_of issues) kg" for x kg
    using view_node_counts [of grouped "primary_issues key_of issues" "fst kg" "snd kg" x] that by simp
  have rel: "list_all2 (\<lambda>x kg. Some x = view_node_of grouped (primary_issues key_of issues) kg)
      (gv_nodes v) (sort_key fst members)"
    using zip by (simp add: list_all2_conv_all_nth map_eq_conv list_eq_iff_nth_eq)
  have ids: "map vn_id (gv_nodes v) = map fst (sort_key fst members)"
    and mods: "map vn_module_count (gv_nodes v) = map (\<lambda>kg. length (snd kg)) (sort_key fst members)"
    and locs: "map vn_loc (gv_nodes v) = map (\<lambda>kg. sum_list (map nr_loc (snd kg))) (sort_key fst members)"
    using rel counts by (induction rule: list_all2_induct) auto
  have "distinct (map fst members)" unfolding members_def members_of_def by (rule distinct_group_into) simp
  then have d: "distinct (map vn_id (gv_nodes v))"
    unfolding ids by (metis distinct_map distinct_sort set_sort)
  have "sum_list (map vn_module_count (gv_nodes v)) = length nodes"
    unfolding mods sum_list_sort_key
    using sum_list_members [of "\<lambda>_. 1" "\<lambda>n. the (map_of key_of (nr_module_id n))" nodes]
    by (simp add: members_def case_prod_beta' sum_list_triv)
  moreover have "sum_list (map vn_loc (gv_nodes v)) = sum_list (map nr_loc nodes)"
    unfolding locs sum_list_sort_key
    using sum_list_members [of nr_loc "\<lambda>n. the (map_of key_of (nr_module_id n))" nodes]
    by (simp add: members_def case_prod_beta')
  ultimately show ?thesis using dist exists sums d key_of_def v(1) by blast
qed

definition example_node :: "string \<Rightarrow> string \<Rightarrow> node_row" where
  "example_node i p =
     \<lparr>nr_module_id = i, nr_path = p, nr_language = ''python'', nr_loc = 3, nr_definition_count = 1, nr_fan_in = 0,
      nr_fan_out = 0, nr_instability = None, nr_centrality = 0, nr_layer = None, nr_is_entrypoint = False,
      nr_is_test = False, nr_parse_error = None\<rparr>"

theorem build_view_quotient_witness:
  "\<exists>v. build_view [example_node ''a'' ''a.py'', example_node ''b'' ''b.py'']
        [\<lparr>er_source = ''a'', er_target = ''b'', er_import_count = 2, er_type_only = False, er_lazy = False\<rparr>]
        [] 10 [] [] = Some v \<and> sum_list (map vn_loc (gv_nodes v)) = 6"
  (is "\<exists>v. ?b = Some v \<and> _")
proof -
  have "?b \<noteq> None" by code_simp
  then obtain v where v: "?b = Some v" by blast
  have "sum_list (map vn_loc (gv_nodes v)) = sum_list (map nr_loc [example_node ''a'' ''a.py'', example_node ''b'' ''b.py''])"
    using build_view_quotient [OF v] by blast
  then show ?thesis using v by (simp add: example_node_def)
qed

end
