(* ===== verification/Archive.thy ===== *)
theory Archive
  imports PyStr "HOL-Library.Word"
begin

unbundle bit_operations_syntax

text \<open>
  \<open>archive.py\<close>: the checks on an uploaded zip archive and its extraction.  An archive is
  its first bytes and the entries of its central directory; what reading an entry yields,
  the sizes of the chunks and how it ends, is part of the entry and is not bounded by the
  declared size.  The file system is its directories and its files with their sizes, by
  absolute components; \<open>resolve\<close>, the resolution of links, is an argument.
\<close>

section \<open>Archives\<close>

datatype read_end = Read_ok | Read_bad_zip | Read_unsupported

record zip_info =
  zi_filename :: string
  zi_flag_bits :: "16 word"
  zi_external_attr :: "32 word"
  zi_file_size :: nat
  zi_open :: read_end
  zi_chunks :: "nat list"
  zi_end :: read_end

record archive =
  ar_head :: string
  ar_infolist :: "zip_info list option"

record archive_limits =
  al_max_files :: nat
  al_max_total_bytes :: nat
  al_max_file_bytes :: nat

record archive_summary =
  as_file_count :: nat
  as_declared_bytes :: nat

text \<open>\<open>UnsafeArchiveError\<close> with its message, or an \<open>OSError\<close> that is not caught.\<close>

datatype archive_error = Unsafe_archive string | Os_error

definition ZIP_LOCAL_HEADER :: string where
  "ZIP_LOCAL_HEADER = [CHR ''P'', CHR ''K'', CHR 0x03, CHR 0x04]"

section \<open>Checks\<close>

definition has_windows_drive :: "string \<Rightarrow> bool" where
  "has_windows_drive name \<longleftrightarrow>
     (case name of c # d # _ \<Rightarrow> (is_upper c \<or> is_lower c) \<and> d = CHR '':'' | _ \<Rightarrow> False)"

definition validate_member_name :: "string \<Rightarrow> archive_error + string list" where
  "validate_member_name name =
     (if name = [] \<or> CHR 0x00 \<in> set name then Inl (Unsafe_archive ''empty or invalid name'')
      else if CHR 0x5C \<in> set name then Inl (Unsafe_archive ''uses backslashes'')
      else if starts_with ''/'' name \<or> has_windows_drive name then Inl (Unsafe_archive ''absolute path'')
      else if ''..'' \<in> set (path_parts name) then Inl (Unsafe_archive ''escapes the archive root'')
      else Inr (path_parts name))"

definition is_symlink :: "zip_info \<Rightarrow> bool" where
  "is_symlink info \<longleftrightarrow> drop_bit 16 (zi_external_attr info) AND 61440 = 40960"

definition is_dir :: "zip_info \<Rightarrow> bool" where
  "is_dir info \<longleftrightarrow> ends_with ''/'' (zi_filename info)"

fun inspect_entries ::
    "archive_limits \<Rightarrow> zip_info list \<Rightarrow> nat \<Rightarrow> nat \<Rightarrow> archive_error + archive_summary" where
  "inspect_entries limits [] file_count declared =
     (if file_count = 0 then Inl (Unsafe_archive ''no files'')
      else Inr \<lparr>as_file_count = file_count, as_declared_bytes = declared\<rparr>)"
| "inspect_entries limits (info # infos) file_count declared =
     (case validate_member_name (zi_filename info) of
        Inl e \<Rightarrow> Inl e
      | Inr _ \<Rightarrow>
          if zi_flag_bits info AND 1 \<noteq> 0 then Inl (Unsafe_archive ''encrypted'')
          else if is_symlink info then Inl (Unsafe_archive ''symbolic link'')
          else if is_dir info then inspect_entries limits infos file_count declared
          else if al_max_files limits < file_count + 1 then Inl (Unsafe_archive ''too many files'')
          else if al_max_file_bytes limits < zi_file_size info then Inl (Unsafe_archive ''entry too large'')
          else if al_max_total_bytes limits < declared + zi_file_size info
          then Inl (Unsafe_archive ''expands beyond the allowed size'')
          else inspect_entries limits infos (file_count + 1) (declared + zi_file_size info))"

definition inspect_zip :: "archive \<Rightarrow> archive_limits \<Rightarrow> archive_error + archive_summary" where
  "inspect_zip ar limits =
     (if take 4 (ar_head ar) \<noteq> ZIP_LOCAL_HEADER then Inl (Unsafe_archive ''not a zip archive'')
      else (case ar_infolist ar of
              None \<Rightarrow> Inl (Unsafe_archive ''corrupt or unsupported'')
            | Some infos \<Rightarrow> inspect_entries limits infos 0 0))"

section \<open>Extraction\<close>

type_synonym path = "string list"

record file_system =
  fs_dirs :: "path list"
  fs_files :: "(path, nat) dict"

text \<open>
  \<open>Path.mkdir(parents=True, exist_ok=True)\<close>: fails when the path or one of its parents is
  a file.  The empty path is the root of the file system.
\<close>

definition prefixes_of :: "path \<Rightarrow> path list" where
  "prefixes_of p = map (\<lambda>k. take k p) [0..<Suc (length p)]"

definition make_dirs :: "path \<Rightarrow> file_system \<Rightarrow> file_system option" where
  "make_dirs p fs =
     (if list_ex (\<lambda>q. q \<in> fst ` set (fs_files fs)) (prefixes_of p) then None
      else Some (fs\<lparr>fs_dirs := dict_fromkeys (fs_dirs fs @ prefixes_of p)\<rparr>))"

text \<open>How opening an entry or reading it ends, by the exceptions of \<open>zipfile\<close>.\<close>

definition finish_read :: "read_end \<Rightarrow> 'a \<Rightarrow> archive_error + 'a" where
  "finish_read e v =
     (case e of
        Read_ok \<Rightarrow> Inr v
      | Read_bad_zip \<Rightarrow> Inl (Unsafe_archive ''corrupt'')
      | Read_unsupported \<Rightarrow> Inl (Unsafe_archive ''unsupported compression''))"

text \<open>
  The copy of one entry: the bytes of this file so far, of all files so far.  A chunk is
  counted before it is written, so what the limits refuse is not on the disk.
\<close>

fun copy_chunks ::
    "archive_limits \<Rightarrow> path \<Rightarrow> read_end \<Rightarrow> nat list \<Rightarrow> nat \<Rightarrow> nat \<Rightarrow> file_system
     \<Rightarrow> (archive_error + nat) \<times> file_system" where
  "copy_chunks limits target fin [] written so_far fs =
     (finish_read fin so_far, fs)"
| "copy_chunks limits target fin (n # ns) written so_far fs =
     (if al_max_file_bytes limits < written + n then (Inl (Unsafe_archive ''entry too large''), fs)
      else if al_max_total_bytes limits < so_far + n
      then (Inl (Unsafe_archive ''expands beyond the allowed size''), fs)
      else copy_chunks limits target fin ns (written + n) (so_far + n)
             (fs\<lparr>fs_files := dict_set target (written + n) (fs_files fs)\<rparr>))"

definition member_target :: "(path \<Rightarrow> path) \<Rightarrow> path \<Rightarrow> zip_info \<Rightarrow> archive_error + path" where
  "member_target resolve base info =
     (case validate_member_name (zi_filename info) of
        Inl e \<Rightarrow> Inl e
      | Inr parts \<Rightarrow>
          (let target = resolve (base @ parts)
           in if target \<noteq> base \<and> \<not> starts_with base target
              then Inl (Unsafe_archive ''escapes the extraction root'') else Inr target))"

text \<open>Opening an entry and its target, and the copy.\<close>

definition write_member :: "archive_limits \<Rightarrow> path \<Rightarrow> zip_info \<Rightarrow> nat \<Rightarrow> file_system
     \<Rightarrow> (archive_error + nat) \<times> file_system" where
  "write_member limits target info so_far fs =
     (case finish_read (zi_open info) () of
        Inl e \<Rightarrow> (Inl e, fs)
      | Inr _ \<Rightarrow>
          if target \<in> set (fs_dirs fs)
          then (Inl (Unsafe_archive ''conflicting file and directory names''), fs)
          else copy_chunks limits target (zi_end info) (zi_chunks info) 0 so_far
                 (fs\<lparr>fs_files := dict_set target 0 (fs_files fs)\<rparr>))"

text \<open>One entry of the loop in \<open>safe_extract\<close>.\<close>

definition extract_entry ::
    "(path \<Rightarrow> path) \<Rightarrow> path \<Rightarrow> archive_limits \<Rightarrow> zip_info \<Rightarrow> nat \<Rightarrow> file_system
     \<Rightarrow> (archive_error + nat) \<times> file_system" where
  "extract_entry resolve base limits info so_far fs =
     (case member_target resolve base info of
        Inl e \<Rightarrow> (Inl e, fs)
      | Inr target \<Rightarrow>
          (case make_dirs (if is_dir info then target else butlast target) fs of
             None \<Rightarrow> (Inl Os_error, fs)
           | Some fs' \<Rightarrow>
               if is_dir info then (Inr so_far, fs')
               else write_member limits target info so_far fs'))"

fun extract_entries ::
    "(path \<Rightarrow> path) \<Rightarrow> path \<Rightarrow> archive_limits \<Rightarrow> zip_info list \<Rightarrow> nat \<Rightarrow> file_system
     \<Rightarrow> archive_error option \<times> file_system" where
  "extract_entries resolve base limits [] so_far fs = (None, fs)"
| "extract_entries resolve base limits (info # infos) so_far fs =
     (case extract_entry resolve base limits info so_far fs of
        (Inl e, fs) \<Rightarrow> (Some e, fs)
      | (Inr so_far, fs) \<Rightarrow> extract_entries resolve base limits infos so_far fs)"

definition safe_extract ::
    "(path \<Rightarrow> path) \<Rightarrow> path \<Rightarrow> archive_limits \<Rightarrow> archive \<Rightarrow> file_system
     \<Rightarrow> (archive_error + archive_summary) \<times> file_system" where
  "safe_extract resolve dest limits ar fs =
     (case make_dirs (resolve dest) fs of
        None \<Rightarrow> (Inl Os_error, fs)
      | Some fs \<Rightarrow>
          (case inspect_zip ar limits of
             Inl e \<Rightarrow> (Inl e, fs)
           | Inr summary \<Rightarrow>
               (case extract_entries resolve (resolve dest) limits (the (ar_infolist ar)) 0 fs of
                  (Some e, fs) \<Rightarrow> (Inl e, fs)
                | (None, fs) \<Rightarrow> (Inr summary, fs))))"

end
