(* ===== verification/Archive_Props.thy ===== *)
theory Archive_Props
  imports Archive
begin

text \<open>
  Extraction is confined to its destination and to the limits, whatever the archive says of
  itself; the invariant speaks of the files at and below the root.
\<close>

section \<open>Names\<close>

lemma validate_member_name_Inr:
  assumes "validate_member_name name = Inr parts"
  shows "parts = path_parts name" "''..'' \<notin> set parts" "name \<noteq> []"
    and "CHR 0x00 \<notin> set name" "CHR 0x5C \<notin> set name" "\<not> starts_with ''/'' name"
  using assms by (auto simp: validate_member_name_def split: if_splits)

lemma member_target_below:
  "member_target resolve base info = Inr target \<Longrightarrow> starts_with base target"
  by (auto simp: member_target_def Let_def starts_with_def split: sum.splits if_splits)

lemma starts_with_butlast: "starts_with p q \<Longrightarrow> q \<noteq> p \<Longrightarrow> starts_with p (butlast q)"
  by (auto simp: starts_with_iff butlast_append)

section \<open>The file system\<close>

definition files_below :: "path \<Rightarrow> file_system \<Rightarrow> (path \<times> nat) list" where
  "files_below base fs = filter (\<lambda>f. starts_with base (fst f)) (fs_files fs)"

lemma sum_dict_set:
  fixes d :: "('k, nat) dict"
  assumes "P k"
  shows "sum_list (map snd (filter (\<lambda>f. P (fst f)) (dict_set k v d)))
      + (case map_of d k of None \<Rightarrow> 0 | Some old \<Rightarrow> old)
    = sum_list (map snd (filter (\<lambda>f. P (fst f)) d)) + v"
  using assms by (induction d) auto

lemma length_dict_set:
  "length (filter (\<lambda>f. P (fst f)) (dict_set k v d))
     = length (filter (\<lambda>f. P (fst f)) d) + (if P k \<and> k \<notin> fst ` set d then 1 else 0)"
  by (induction d) (auto, force+)

lemma dict_set_values: "f \<in> set (dict_set k v d) \<Longrightarrow> f = (k, v) \<or> f \<in> set d"
  by (induction d) (auto split: if_splits)

lemma dict_set_outside:
  "\<not> P k \<Longrightarrow> filter (\<lambda>f. P (fst f)) (dict_set k v d) = filter (\<lambda>f. P (fst f)) d"
  by (induction d) auto

lemma make_dirs_SomeD:
  assumes "make_dirs p fs = Some fs'"
  shows "fs_files fs' = fs_files fs" "set (fs_dirs fs') = set (fs_dirs fs) \<union> set (prefixes_of p)"
  using assms by (auto simp: make_dirs_def split: if_splits)

lemma in_prefixes_of: "q \<in> set (prefixes_of p) \<longleftrightarrow> starts_with q p"
proof
  assume "starts_with q p"
  then have "q = take (length q) p" "length q \<in> {0..<Suc (length p)}"
    by (auto simp: starts_with_iff)
  then show "q \<in> set (prefixes_of p)" by (auto simp: prefixes_of_def simp del: upt_Suc)
qed (auto simp: prefixes_of_def starts_with_def min_def simp del: upt_Suc)

lemma starts_with_refl [simp]: "starts_with p p"
  by (simp add: starts_with_def)

lemma prefixes_of_below:
  assumes "starts_with base p" "q \<in> set (prefixes_of p)"
  shows "q \<in> set (prefixes_of base) \<or> starts_with base q"
  using assms by (auto simp: in_prefixes_of starts_with_iff append_eq_append_conv2)

section \<open>The invariant\<close>

text \<open>
  From \<open>fs\<close> to \<open>fs'\<close>, with \<open>n\<close> bytes written and \<open>k\<close> files opened so far.
\<close>

definition confined :: "path \<Rightarrow> archive_limits \<Rightarrow> file_system \<Rightarrow> nat \<Rightarrow> nat \<Rightarrow> file_system \<Rightarrow> bool" where
  "confined base limits fs n k fs' \<longleftrightarrow>
     base \<in> set (fs_dirs fs')
     \<and> (\<forall>d \<in> set (fs_dirs fs'). d \<in> set (fs_dirs fs) \<or> d \<in> set (prefixes_of base) \<or> starts_with base d)
     \<and> filter (\<lambda>f. \<not> starts_with base (fst f)) (fs_files fs') = filter (\<lambda>f. \<not> starts_with base (fst f)) (fs_files fs)
     \<and> (\<forall>(p, bytes) \<in> set (files_below base fs'). p \<noteq> base \<and> bytes \<le> al_max_file_bytes limits)
     \<and> sum_list (map snd (files_below base fs')) \<le> n
     \<and> n \<le> al_max_total_bytes limits
     \<and> length (files_below base fs') \<le> k"

lemma confined_set:
  assumes "confined base limits fs n k fs'" "starts_with base target" "target \<noteq> base"
    and "bytes \<le> al_max_file_bytes limits" "n \<le> n'" "n' \<le> al_max_total_bytes limits"
    and "bytes + n \<le> n' + (case map_of (fs_files fs') target of None \<Rightarrow> 0 | Some old \<Rightarrow> old)"
    and "length (files_below base (fs'\<lparr>fs_files := dict_set target bytes (fs_files fs')\<rparr>)) \<le> k'"
  shows "confined base limits fs n' k' (fs'\<lparr>fs_files := dict_set target bytes (fs_files fs')\<rparr>)"
proof -
  have "sum_list (map snd (files_below base (fs'\<lparr>fs_files := dict_set target bytes (fs_files fs')\<rparr>))) \<le> n'"
    using sum_dict_set [of "starts_with base" target bytes "fs_files fs'"] assms(1,2,7)
    by (simp add: confined_def files_below_def)
  moreover have "filter (\<lambda>f. \<not> starts_with base (fst f)) (dict_set target bytes (fs_files fs'))
      = filter (\<lambda>f. \<not> starts_with base (fst f)) (fs_files fs')"
    using dict_set_outside [of "\<lambda>p. \<not> starts_with base p"] assms(2) by simp
  moreover have "p \<noteq> base \<and> m \<le> al_max_file_bytes limits"
    if "(p, m) \<in> set (files_below base (fs'\<lparr>fs_files := dict_set target bytes (fs_files fs')\<rparr>))" for p m
    using that assms(1,3,4) dict_set_values [of "(p, m)" target bytes "fs_files fs'"]
    by (auto simp: confined_def files_below_def)
  ultimately show ?thesis using assms(1,6,8) by (auto simp: confined_def)
qed

lemma confined_copy:
  assumes "copy_chunks limits target fin ns written so_far fs' = (r, fs'')"
    and "confined base limits fs so_far k fs'" "starts_with base target" "target \<noteq> base"
    and "map_of (fs_files fs') target = Some written" "written \<le> so_far"
  shows "\<exists>n. confined base limits fs n k fs'' \<and> (\<forall>m. r = Inr m \<longrightarrow> n = m)
    \<and> fst ` set (fs_files fs'') = fst ` set (fs_files fs') \<and> fs_dirs fs'' = fs_dirs fs'"
  using assms
proof (induction limits target fin ns written so_far fs' rule: copy_chunks.induct)
  case (1 limits target fin written so_far fs)
  then show ?case by (auto simp: finish_read_def split: read_end.splits)
next
  case (2 limits target fin n ns written so_far fs')
  show ?case
  proof (cases "al_max_file_bytes limits < written + n \<or> al_max_total_bytes limits < so_far + n")
    case True
    then show ?thesis using 2(2,3) by (auto split: if_splits)
  next
    case False
    let ?fs = "fs'\<lparr>fs_files := dict_set target (written + n) (fs_files fs')\<rparr>"
    have mem: "target \<in> fst ` set (fs_files fs')" using 2(6) by (force dest: map_of_SomeD)
    have "length (files_below base ?fs) \<le> k"
      using 2(3) mem by (simp add: files_below_def length_dict_set confined_def)
    then have "confined base limits fs (so_far + n) k ?fs"
      using False 2(4,5,6) by (intro confined_set [OF 2(3)]) simp_all
    from 2(1) [OF _ _ _ this] False 2(2,4,5,7)
    have "\<exists>n. confined base limits fs n k fs'' \<and> (\<forall>m. r = Inr m \<longrightarrow> n = m)
      \<and> fst ` set (fs_files fs'') = fst ` set (fs_files ?fs) \<and> fs_dirs fs'' = fs_dirs ?fs"
      by simp
    then show ?thesis using mem by (simp add: dict_set_keys insert_absorb)
  qed
qed

lemma confined_write:
  assumes "write_member limits target info so_far fs' = (r, fs'')"
    and "confined base limits fs so_far k fs'" "starts_with base target"
  shows "\<exists>n. confined base limits fs n (Suc k) fs''
    \<and> (\<forall>m. r = Inr m \<longrightarrow> n = m \<and> fst ` set (fs_files fs'') = insert target (fst ` set (fs_files fs')))"
proof (cases "finish_read (zi_open info) () = Inr () \<and> target \<notin> set (fs_dirs fs')")
  case True
  then have target: "target \<noteq> base" using assms(2) by (auto simp: confined_def)
  let ?fs = "fs'\<lparr>fs_files := dict_set target 0 (fs_files fs')\<rparr>"
  have "length (files_below base ?fs) \<le> Suc k"
    using assms(2) by (simp add: files_below_def length_dict_set confined_def)
  then have "confined base limits fs so_far (Suc k) ?fs"
    using assms(2,3) target by (intro confined_set [OF assms(2)]) (simp_all add: confined_def)
  note conf = this
  have copy: "copy_chunks limits target (zi_end info) (zi_chunks info) 0 so_far ?fs = (r, fs'')"
    using assms(1) True by (simp add: write_member_def)
  have "map_of (fs_files ?fs) target = Some 0" by simp
  from confined_copy [OF copy conf assms(3) target this] obtain n where
    "confined base limits fs n (Suc k) fs''" "\<forall>m. r = Inr m \<longrightarrow> n = m"
    "fst ` set (fs_files fs'') = fst ` set (fs_files ?fs)" by blast
  then show ?thesis by (auto simp: dict_set_keys)
next
  case False
  then have "\<exists>e. r = Inl e" "fs'' = fs'"
    using assms(1) by (auto simp: write_member_def split: sum.splits if_splits)
  moreover have "confined base limits fs so_far (Suc k) fs'" using assms(2) by (auto simp: confined_def)
  ultimately show ?thesis by auto
qed

lemma confined_make_dirs:
  assumes "make_dirs p fs' = Some fs''" "confined base limits fs n k fs'" "starts_with base p \<or> p = butlast base"
  shows "confined base limits fs n k fs''"
proof -
  have "q \<in> set (prefixes_of base) \<or> starts_with base q" if "q \<in> set (prefixes_of p)" for q
  proof (cases "starts_with base p")
    case False
    then have "p = butlast base" using assms(3) by blast
    then have "q \<in> set (prefixes_of base)" using that
      by (cases base rule: rev_cases) (auto simp: in_prefixes_of starts_with_iff)
    then show ?thesis ..
  qed (use prefixes_of_below that in blast)
  then show ?thesis
    using assms(2) make_dirs_SomeD [OF assms(1)] by (auto simp: confined_def files_below_def)
qed

definition file_targets :: "(path \<Rightarrow> path) \<Rightarrow> path \<Rightarrow> zip_info list \<Rightarrow> path set" where
  "file_targets resolve base infos =
     {t. \<exists>info \<in> set infos. \<not> is_dir info \<and> member_target resolve base info = Inr t}"

lemma confined_entry:
  assumes "extract_entry resolve base limits info so_far fs' = (r, fs'')"
    and "confined base limits fs so_far k fs'"
  shows "\<exists>n. confined base limits fs n (if is_dir info then k else Suc k) fs''
    \<and> (\<forall>m. r = Inr m \<longrightarrow> n = m
        \<and> fst ` set (fs_files fs'') = fst ` set (fs_files fs') \<union> file_targets resolve base [info])"
proof -
  have weaker: "confined base limits fs so_far (if is_dir info then k else Suc k) fs'"
    using assms(2) by (auto simp: confined_def)
  show ?thesis
  proof (cases "member_target resolve base info")
    case (Inl e)
    then show ?thesis using assms(1) weaker by (auto simp: extract_entry_def)
  next
    case (Inr target)
    then have below: "starts_with base target" by (rule member_target_below)
    let ?d = "if is_dir info then target else butlast target"
    show ?thesis
    proof (cases "make_dirs ?d fs'")
      case None
      then show ?thesis using assms(1) Inr weaker by (auto simp: extract_entry_def)
    next
      case (Some made)
      have "starts_with base ?d \<or> ?d = butlast base"
        using below starts_with_butlast [of base target] by auto
      then have conf: "confined base limits fs so_far k made"
        by (rule confined_make_dirs [OF Some assms(2)])
      show ?thesis
      proof (cases "is_dir info")
        case True
        then show ?thesis
          using assms(1) Inr Some conf make_dirs_SomeD(1) [OF Some]
          by (auto simp: extract_entry_def file_targets_def)
      next
        case False
        then have "write_member limits target info so_far made = (r, fs'')"
          using assms(1) Inr Some by (simp add: extract_entry_def)
        from confined_write [OF this conf below] show ?thesis
          using False Inr make_dirs_SomeD(1) [OF Some] by (auto simp: file_targets_def)
      qed
    qed
  qed
qed

lemma confined_entries:
  assumes "extract_entries resolve base limits infos so_far fs' = (r, fs'')"
    and "confined base limits fs so_far k fs'"
  shows "\<exists>n. confined base limits fs n (k + length (filter (\<lambda>i. \<not> is_dir i) infos)) fs''
    \<and> (r = None \<longrightarrow> fst ` set (fs_files fs'') = fst ` set (fs_files fs') \<union> file_targets resolve base infos)"
  using assms
proof (induction infos arbitrary: so_far fs' k)
  case Nil
  then show ?case by (auto simp: file_targets_def)
next
  case (Cons info infos)
  obtain r1 mid where step: "extract_entry resolve base limits info so_far fs' = (r1, mid)" by fastforce
  from confined_entry [OF this Cons.prems(2)] obtain n where
    n: "confined base limits fs n (if is_dir info then k else Suc k) mid"
       "\<And>m. r1 = Inr m \<Longrightarrow> n = m \<and> fst ` set (fs_files mid) = fst ` set (fs_files fs') \<union> file_targets resolve base [info]"
    by blast
  show ?case
  proof (cases r1)
    case (Inl e)
    then have "r \<noteq> None" "fs'' = mid" using Cons.prems(1) step by auto
    then show ?thesis using n(1) by (intro exI [of _ n]) (auto simp: confined_def)
  next
    case (Inr m)
    then have run: "extract_entries resolve base limits infos m mid = (r, fs'')"
      using Cons.prems(1) step by simp
    have split: "file_targets resolve base (info # infos)
        = file_targets resolve base [info] \<union> file_targets resolve base infos"
      by (auto simp: file_targets_def)
    have "confined base limits fs m (if is_dir info then k else Suc k) mid" using n(1) n(2) [OF Inr] by simp
    from Cons.IH [OF run this] obtain n' where "confined base limits fs n'
        ((if is_dir info then k else Suc k) + length (filter (\<lambda>i. \<not> is_dir i) infos)) fs''"
      "r = None \<longrightarrow> fst ` set (fs_files fs'') = fst ` set (fs_files mid) \<union> file_targets resolve base infos"
      by blast
    moreover have "(if is_dir info then k else Suc k) + length (filter (\<lambda>i. \<not> is_dir i) infos)
        = k + length (filter (\<lambda>i. \<not> is_dir i) (info # infos))" by simp
    moreover have "fst ` set (fs_files mid) = fst ` set (fs_files fs') \<union> file_targets resolve base [info]"
      using n(2) [OF Inr] by blast
    ultimately show ?thesis unfolding split Un_assoc [symmetric] by (intro exI [of _ n'] conjI) simp_all
  qed
qed

section \<open>The directory of the archive\<close>

lemma inspect_entries_Inr:
  assumes "inspect_entries limits infos k n = Inr summary"
  shows "as_file_count summary = k + length (filter (\<lambda>i. \<not> is_dir i) infos)"
    and "as_declared_bytes summary = n + sum_list (map zi_file_size (filter (\<lambda>i. \<not> is_dir i) infos))"
    and "0 < as_file_count summary"
    and "k \<le> al_max_files limits \<Longrightarrow> as_file_count summary \<le> al_max_files limits"
  using assms
  by (induction limits infos k n rule: inspect_entries.induct) (auto split: sum.splits if_splits)

section \<open>Extraction\<close>

lemma safe_extract_cases:
  assumes "safe_extract resolve dest limits ar fs = (r, fs')"
  obtains "\<exists>e. r = Inl e" "fs' = fs"
  | e made where "r = Inl e" "make_dirs (resolve dest) fs = Some made" "fs' = made"
  | made infos summary e where "make_dirs (resolve dest) fs = Some made" "ar_infolist ar = Some infos"
      "inspect_entries limits infos 0 0 = Inr summary"
      "extract_entries resolve (resolve dest) limits infos 0 made = (e, fs')"
      "r = (case e of None \<Rightarrow> Inr summary | Some e \<Rightarrow> Inl e)"
proof (cases "make_dirs (resolve dest) fs")
  case None
  then show thesis using that(1) assms by (auto simp: safe_extract_def)
next
  case (Some made)
  show thesis
  proof (cases "inspect_zip ar limits")
    case (Inl e)
    then have "r = Inl e" "fs' = made" using Some assms by (auto simp: safe_extract_def)
    then show thesis using that(2) Some by blast
  next
    case (Inr summary)
    then obtain infos where i: "ar_infolist ar = Some infos" "inspect_entries limits infos 0 0 = Inr summary"
      by (auto simp: inspect_zip_def split: if_splits option.splits)
    then show thesis
      using that(3) [OF Some i] Some Inr assms by (auto simp: safe_extract_def split: prod.splits option.splits)
  qed
qed

text \<open>
  C25: Extraction is safe whatever the archive contains.  Let the resolved destination hold no
  file yet.  Then, however the extraction ends, every directory it made is the destination, one
  of its parents or below it; the files elsewhere are what they were; and below the
  destination there are at most \<open>max_files\<close> files, each of at most \<open>max_file_bytes\<close> bytes
  and of at most \<open>max_total_bytes\<close> bytes together, although the sizes in the archive may lie.
  When it succeeds, the files below the destination are exactly the targets of the archive's
  file entries, and the summary counts these entries and adds up the declared sizes.
\<close>

theorem extract_confined:
  assumes "safe_extract resolve dest limits ar fs = (r, fs')"
    and "files_below (resolve dest) fs = []"
  shows "(\<forall>d \<in> set (fs_dirs fs') - set (fs_dirs fs). starts_with d (resolve dest) \<or> starts_with (resolve dest) d)
    \<and> filter (\<lambda>f. \<not> starts_with (resolve dest) (fst f)) (fs_files fs') = fs_files fs
    \<and> length (files_below (resolve dest) fs') \<le> al_max_files limits
    \<and> (\<forall>(p, bytes) \<in> set (files_below (resolve dest) fs').
          p \<noteq> resolve dest \<and> bytes \<le> al_max_file_bytes limits)
    \<and> sum_list (map snd (files_below (resolve dest) fs')) \<le> al_max_total_bytes limits
    \<and> (\<forall>summary. r = Inr summary \<longrightarrow>
          fst ` set (files_below (resolve dest) fs') = file_targets resolve (resolve dest) (the (ar_infolist ar))
          \<and> as_file_count summary = length (filter (\<lambda>i. \<not> is_dir i) (the (ar_infolist ar)))
          \<and> as_declared_bytes summary
              = sum_list (map zi_file_size (filter (\<lambda>i. \<not> is_dir i) (the (ar_infolist ar)))))"
  using assms(1)
proof (cases rule: safe_extract_cases)
  case 1
  then show ?thesis using assms(2) by (auto simp: files_below_def filter_empty_conv filter_id_conv)
next
  case (2 e made)
  then show ?thesis using assms(2) make_dirs_SomeD [OF 2(2)]
    by (auto simp: files_below_def in_prefixes_of filter_empty_conv filter_id_conv)
next
  case (3 made infos summary e)
  let ?base = "resolve dest" and ?n = "length (filter (\<lambda>i. \<not> is_dir i) infos)"
  note made = make_dirs_SomeD [OF 3(1)]
  have outside: "filter (\<lambda>f. \<not> starts_with ?base (fst f)) (fs_files fs) = fs_files fs"
    using assms(2) by (auto simp: files_below_def filter_empty_conv filter_id_conv)
  have "confined ?base limits fs 0 0 made"
    using made assms(2) by (auto simp: confined_def files_below_def in_prefixes_of)
  from confined_entries [OF 3(4) this] obtain n where n: "confined ?base limits fs n ?n fs'"
    and files: "e = None \<Longrightarrow> fst ` set (fs_files fs') = fst ` set (fs_files made) \<union> file_targets resolve ?base infos"
    by auto
  have count: "as_file_count summary = ?n"
      "as_declared_bytes summary = sum_list (map zi_file_size (filter (\<lambda>i. \<not> is_dir i) infos))"
      "?n \<le> al_max_files limits"
    using inspect_entries_Inr [OF 3(3)] by simp_all
  have "fst ` set (files_below ?base fs') = file_targets resolve ?base infos" if "e = None"
  proof -
    have "fst ` set (files_below ?base fs') = {p \<in> fst ` set (fs_files fs'). starts_with ?base p}"
      by (auto simp: files_below_def)
    also have "\<dots> = file_targets resolve ?base infos"
    proof -
      have "\<not> starts_with ?base p" if "p \<in> fst ` set (fs_files made)" for p
        using that made(1) assms(2) by (auto simp: files_below_def filter_empty_conv)
      moreover have "starts_with ?base p" if "p \<in> file_targets resolve ?base infos" for p
        using that member_target_below unfolding file_targets_def by blast
      ultimately show ?thesis unfolding files [OF that] by blast
    qed
    finally show ?thesis .
  qed
  then have success: "\<forall>s. r = Inr s \<longrightarrow> fst ` set (files_below ?base fs') = file_targets resolve ?base (the (ar_infolist ar))
      \<and> as_file_count s = length (filter (\<lambda>i. \<not> is_dir i) (the (ar_infolist ar)))
      \<and> as_declared_bytes s = sum_list (map zi_file_size (filter (\<lambda>i. \<not> is_dir i) (the (ar_infolist ar))))"
    using count(1,2) 3(2,5) by (cases e) simp_all
  moreover have "\<forall>d \<in> set (fs_dirs fs') - set (fs_dirs fs). starts_with d ?base \<or> starts_with ?base d"
    using n by (auto simp: confined_def in_prefixes_of)
  moreover have "length (files_below ?base fs') \<le> al_max_files limits"
      "sum_list (map snd (files_below ?base fs')) \<le> al_max_total_bytes limits"
    using n count(3) by (simp_all add: confined_def)
  moreover have "filter (\<lambda>f. \<not> starts_with ?base (fst f)) (fs_files fs') = fs_files fs"
      "\<forall>(p, bytes) \<in> set (files_below ?base fs'). p \<noteq> ?base \<and> bytes \<le> al_max_file_bytes limits"
    using n outside by (simp_all add: confined_def)
  ultimately show ?thesis by blast
qed

definition example_zip :: "string \<Rightarrow> nat list \<Rightarrow> zip_info" where
  "example_zip name chunks =
     \<lparr>zi_filename = name, zi_flag_bits = 0, zi_external_attr = 0, zi_file_size = 1,
      zi_open = Read_ok, zi_chunks = chunks, zi_end = Read_ok\<rparr>"

theorem extract_confined_witness:
  "case safe_extract id [''srv'', ''job''] \<lparr>al_max_files = 2, al_max_total_bytes = 5, al_max_file_bytes = 4\<rparr>
       \<lparr>ar_head = ZIP_LOCAL_HEADER, ar_infolist = Some [example_zip ''a/x.py'' [3], example_zip ''y'' [2, 2]]\<rparr>
       \<lparr>fs_dirs = [[], [''srv'']], fs_files = []\<rparr> of
     (r, fs') \<Rightarrow> r = Inl (Unsafe_archive ''expands beyond the allowed size'')
       \<and> sum_list (map snd (files_below [''srv'', ''job''] fs')) \<le> 5
       \<and> files_below [''srv'', ''job''] fs' = [([''srv'', ''job'', ''a'', ''x.py''], 3), ([''srv'', ''job'', ''y''], 2)]"
proof -
  let ?limits = "\<lparr>al_max_files = 2, al_max_total_bytes = 5, al_max_file_bytes = 4\<rparr>"
  let ?ar = "\<lparr>ar_head = ZIP_LOCAL_HEADER, ar_infolist = Some [example_zip ''a/x.py'' [3], example_zip ''y'' [2, 2]]\<rparr>"
  let ?fs = "\<lparr>fs_dirs = [[], [''srv'']], fs_files = []\<rparr>"
  obtain r fs' where run: "safe_extract id [''srv'', ''job''] ?limits ?ar ?fs = (r, fs')" by fastforce
  have fresh: "files_below (id [''srv'', ''job'']) ?fs = []" by (simp add: files_below_def)
  have "safe_extract id [''srv'', ''job''] ?limits ?ar ?fs =
    (Inl (Unsafe_archive ''expands beyond the allowed size''),
     \<lparr>fs_dirs = [[], [''srv''], [''srv'', ''job''], [''srv'', ''job'', ''a'']],
      fs_files = [([''srv'', ''job'', ''a'', ''x.py''], 3), ([''srv'', ''job'', ''y''], 2)]\<rparr>)"
    by code_simp
  then show ?thesis using extract_confined [OF run fresh] run by (simp add: files_below_def starts_with_def)
qed

text \<open>
  An entry whose parent directory is the name of an earlier file: the \<open>OSError\<close> of
  \<open>mkdir\<close> is not among the exceptions the function turns into \<open>UnsafeArchiveError\<close>.
\<close>

lemma conflicting_names_uncaught:
  "fst (safe_extract id [''srv''] \<lparr>al_max_files = 9, al_max_total_bytes = 9, al_max_file_bytes = 9\<rparr>
     \<lparr>ar_head = ZIP_LOCAL_HEADER, ar_infolist = Some [example_zip ''a'' [1], example_zip ''a/b'' [1]]\<rparr>
     \<lparr>fs_dirs = [[], [''srv'']], fs_files = []\<rparr>) = Inl Os_error"
  by code_simp

end
