(* ===== verification/Ip_Address.thy ===== *)
theory Ip_Address
  imports Regex_Scan "HOL-Library.Word"
begin

unbundle bit_operations_syntax

text \<open>
  What the network code uses of Python's \<open>ipaddress\<close> and \<open>int\<close>: addresses at their
  widths of 32 and 128 bits, an IPv6 address with its scope, the strict parsers, the printed
  forms, and the tests against the IANA registries as tests of a prefix.
\<close>

section \<open>Integers\<close>

definition digit_value :: "char \<Rightarrow> int option" where
  "digit_value c =
     (if is_digit c then Some (int (code c) - 48)
      else if is_lower c then Some (int (code c) - 87)
      else if is_upper c then Some (int (code c) - 55) else None)"

fun digits_value :: "int \<Rightarrow> int \<Rightarrow> string \<Rightarrow> int option" where
  "digits_value base acc [] = Some acc"
| "digits_value base acc (c # cs) =
     (case digit_value c of
        Some d \<Rightarrow> if d < base then digits_value base (base * acc + d) cs else None
      | None \<Rightarrow> None)"

definition plain_int :: "int \<Rightarrow> string \<Rightarrow> int option" where
  "plain_int base s = (if s = [] then None else digits_value base 0 s)"

text \<open>\<open>int(s, base)\<close>: surrounding space, a sign, the prefix of the base, single underscores.\<close>

definition base_digits :: "int \<Rightarrow> string \<Rightarrow> string" where
  "base_digits base s =
     (let marker = (if base = 16 then ''x'' else if base = 8 then ''o'' else [])
      in if marker \<noteq> [] \<and> lower (take 2 s) = CHR ''0'' # marker
         then (if take 1 (drop 2 s) = ''_'' then drop 3 s else drop 2 s)
         else s)"

definition py_int :: "int \<Rightarrow> string \<Rightarrow> int option" where
  "py_int base s =
     (let t = strip s;
          neg = (take 1 t = ''-'');
          u = base_digits base (if neg \<or> take 1 t = ''+'' then drop 1 t else t);
          parts = split_on CHR ''_'' u
      in if [] \<in> set parts then None
         else map_option (\<lambda>n. if neg then - n else n) (digits_value base 0 (concat parts)))"

function show_hex :: "int \<Rightarrow> string" where
  "show_hex n =
     (if n < 16 then [hex_digit (nat n)] else show_hex (n div 16) @ [hex_digit (nat (n mod 16))])"
  by pat_completeness auto
termination
  by (relation "measure nat") auto

declare show_hex.simps [simp del]

section \<open>Addresses\<close>

datatype ip_address = IPv4 "32 word" | IPv6 "128 word" "string option"

definition is_v6 :: "ip_address \<Rightarrow> bool" where
  "is_v6 ip \<longleftrightarrow> (case ip of IPv4 _ \<Rightarrow> False | IPv6 _ _ \<Rightarrow> True)"

text \<open>The network \<open>v/n\<close>, by the value of its \<open>n\<close> leading bits.\<close>

definition in_prefix :: "nat \<Rightarrow> int \<Rightarrow> 'a::len word \<Rightarrow> bool" where
  "in_prefix n v a \<longleftrightarrow> uint (drop_bit (LENGTH('a) - n) a) = v"

section \<open>Parsing\<close>

definition parse_octet :: "string \<Rightarrow> int option" where
  "parse_octet s =
     (if s = [] \<or> \<not> list_all is_digit s \<or> 3 < length s \<or> (s \<noteq> ''0'' \<and> hd s = CHR ''0'') then None
      else (case plain_int 10 s of None \<Rightarrow> None | Some n \<Rightarrow> if 255 < n then None else Some n))"

definition parse_ipv4 :: "string \<Rightarrow> 32 word option" where
  "parse_ipv4 s =
     (if CHR 0x2F \<in> set s then None
      else (case map parse_octet (split_on CHR ''.'' s) of
              [Some a, Some b, Some c, Some d] \<Rightarrow> Some (of_int (((a * 256 + b) * 256 + c) * 256 + d))
            | _ \<Rightarrow> None))"

definition parse_hextet :: "string \<Rightarrow> int option" where
  "parse_hextet s = (if 4 < length s then None else plain_int 16 s)"

text \<open>An IPv4 suffix, as two hextets.\<close>

definition expand_suffix :: "string list \<Rightarrow> string list option" where
  "expand_suffix parts =
     (if CHR ''.'' \<in> set (last parts)
      then map_option
        (\<lambda>v. butlast parts @ [show_hex (uint (drop_bit 16 v)), show_hex (uint (v AND 0xFFFF))])
        (parse_ipv4 (last parts))
      else Some parts)"

text \<open>The parts copied, and the number of zero parts between them.\<close>

definition spread_parts :: "string list \<Rightarrow> (string list \<times> nat \<times> string list) option" where
  "spread_parts parts =
     (case filter (\<lambda>i. parts ! i = []) [1..<length parts - 1] of
        [] \<Rightarrow> if length parts \<noteq> 8 \<or> hd parts = [] \<or> last parts = [] then None else Some (parts, 0, [])
      | [i] \<Rightarrow>
          (let hi = (if hd parts = [] then i - 1 else i);
               lo = (if last parts = [] then length parts - i - 2 else length parts - i - 1)
           in if (hd parts = [] \<and> hi \<noteq> 0) \<or> (last parts = [] \<and> lo \<noteq> 0) \<or> 8 \<le> hi + lo then None
              else Some (take hi parts, 8 - (hi + lo), drop (length parts - lo) parts))
      | _ \<Rightarrow> None)"

fun hextets_value :: "int \<Rightarrow> string list \<Rightarrow> int option" where
  "hextets_value acc [] = Some acc"
| "hextets_value acc (p # ps) =
     (case parse_hextet p of None \<Rightarrow> None | Some h \<Rightarrow> hextets_value (65536 * acc + h) ps)"

definition parse_ipv6_int :: "string \<Rightarrow> int option" where
  "parse_ipv6_int s =
     (let parts = split_on CHR '':'' s
      in if length parts < 3 then None
         else Option.bind (expand_suffix parts) (\<lambda>parts.
           if 9 < length parts then None
           else Option.bind (spread_parts parts) (\<lambda>(hi, skipped, lo).
             Option.bind (hextets_value 0 hi) (\<lambda>n. hextets_value (n * 65536 ^ skipped) lo))))"

definition parse_ipv6 :: "string \<Rightarrow> ip_address option" where
  "parse_ipv6 s =
     (case partition_at CHR ''%'' s of
        (addr, percent, scope) \<Rightarrow>
          if CHR 0x2F \<in> set s \<or> (percent \<and> (scope = [] \<or> CHR ''%'' \<in> set scope)) then None
          else map_option (\<lambda>n. IPv6 (of_int n) (if percent then Some scope else None)) (parse_ipv6_int addr))"

definition parse_ip :: "string \<Rightarrow> ip_address option" where
  "parse_ip s = (case parse_ipv4 s of Some v \<Rightarrow> Some (IPv4 v) | None \<Rightarrow> parse_ipv6 s)"

section \<open>Printing\<close>

definition show_ipv4 :: "32 word \<Rightarrow> string" where
  "show_ipv4 v = join ''.'' (map (\<lambda>k. show_int (uint (drop_bit k v) mod 256)) [24, 16, 8, 0])"

text \<open>The first longest run of zero parts, as its start and length.\<close>

fun zero_run :: "nat \<Rightarrow> string list \<Rightarrow> nat \<times> nat \<Rightarrow> nat \<Rightarrow> nat \<times> nat" where
  "zero_run i [] best run = best"
| "zero_run i (h # hs) best run =
     (if h = ''0'' then
        zero_run (Suc i) hs (if snd best < Suc run then (i - run, Suc run) else best) (Suc run)
      else zero_run (Suc i) hs best 0)"

definition compress_hextets :: "string list \<Rightarrow> string list" where
  "compress_hextets hs =
     (case zero_run 0 hs (0, 0) 0 of
        (start, n) \<Rightarrow>
          if n \<le> 1 then hs
          else (if start = 0 then [[]] else []) @ take start hs @ [[]] @ drop (start + n) hs
               @ (if start + n = length hs then [[]] else []))"

definition show_ip :: "ip_address \<Rightarrow> string" where
  "show_ip ip =
     (case ip of
        IPv4 v \<Rightarrow> show_ipv4 v
      | IPv6 v scope \<Rightarrow>
          join '':'' (compress_hextets
            (map (\<lambda>k. show_hex (uint (drop_bit k v) mod 65536)) [112, 96, 80, 64, 48, 32, 16, 0]))
          @ (case scope of Some z \<Rightarrow> CHR ''%'' # z | None \<Rightarrow> []))"

section \<open>Registries\<close>

definition private_ipv4 :: "32 word \<Rightarrow> bool" where
  "private_ipv4 v \<longleftrightarrow>
     (in_prefix 8 0 v \<or> in_prefix 8 10 v \<or> in_prefix 8 127 v \<or> in_prefix 16 0xA9FE v
      \<or> in_prefix 12 0xAC1 v \<or> in_prefix 24 0xC00000 v \<or> in_prefix 31 0x60000055 v
      \<or> in_prefix 24 0xC00002 v \<or> in_prefix 16 0xC0A8 v \<or> in_prefix 15 0x6309 v
      \<or> in_prefix 24 0xC63364 v \<or> in_prefix 24 0xCB0071 v \<or> in_prefix 4 0xF v
      \<or> in_prefix 32 0xFFFFFFFF v)
     \<and> \<not> in_prefix 32 0xC0000009 v \<and> \<not> in_prefix 32 0xC000000A v"

definition global_ipv4 :: "32 word \<Rightarrow> bool" where
  "global_ipv4 v \<longleftrightarrow> \<not> in_prefix 10 0x191 v \<and> \<not> private_ipv4 v"

definition ipv4_mapped :: "128 word \<Rightarrow> 32 word option" where
  "ipv4_mapped w = (if in_prefix 96 0xFFFF w then Some (ucast w) else None)"

definition sixtofour :: "128 word \<Rightarrow> 32 word option" where
  "sixtofour w = (if in_prefix 16 0x2002 w then Some (ucast (drop_bit 80 w)) else None)"

definition teredo_client :: "128 word \<Rightarrow> 32 word option" where
  "teredo_client w = (if in_prefix 32 0x20010000 w then Some (ucast (NOT w)) else None)"

definition private_ipv6 :: "128 word \<Rightarrow> bool" where
  "private_ipv6 w \<longleftrightarrow>
     (case ipv4_mapped w of
        Some v \<Rightarrow> private_ipv4 v
      | None \<Rightarrow>
          (in_prefix 128 1 w \<or> in_prefix 128 0 w \<or> in_prefix 96 0xFFFF w \<or> in_prefix 48 0x64FF9B0001 w
           \<or> in_prefix 64 0x100000000000000 w \<or> in_prefix 23 0x100080 w \<or> in_prefix 32 0x20010DB8 w
           \<or> in_prefix 16 0x2002 w \<or> in_prefix 7 0x7E w \<or> in_prefix 10 0x3FA w)
          \<and> \<not> in_prefix 128 0x20010001000000000000000000000001 w
          \<and> \<not> in_prefix 128 0x20010001000000000000000000000002 w
          \<and> \<not> in_prefix 32 0x20010003 w \<and> \<not> in_prefix 48 0x200100040112 w
          \<and> \<not> in_prefix 28 0x2001002 w \<and> \<not> in_prefix 28 0x2001003 w)"

definition reserved_ipv6 :: "128 word \<Rightarrow> bool" where
  "reserved_ipv6 w \<longleftrightarrow>
     in_prefix 8 0 w \<or> in_prefix 8 1 w \<or> in_prefix 7 1 w \<or> in_prefix 6 1 w \<or> in_prefix 5 1 w
     \<or> in_prefix 4 1 w \<or> in_prefix 3 2 w \<or> in_prefix 3 3 w \<or> in_prefix 3 4 w \<or> in_prefix 3 5 w
     \<or> in_prefix 3 6 w \<or> in_prefix 4 0xE w \<or> in_prefix 5 0x1E w \<or> in_prefix 6 0x3E w
     \<or> in_prefix 9 0x1FC w"

definition ip_loopback :: "ip_address \<Rightarrow> bool" where
  "ip_loopback ip \<longleftrightarrow> (case ip of IPv4 v \<Rightarrow> in_prefix 8 127 v | IPv6 w _ \<Rightarrow> w = 1)"

definition ip_unspecified :: "ip_address \<Rightarrow> bool" where
  "ip_unspecified ip \<longleftrightarrow> (case ip of IPv4 v \<Rightarrow> v = 0 | IPv6 w _ \<Rightarrow> w = 0)"

definition ip_link_local :: "ip_address \<Rightarrow> bool" where
  "ip_link_local ip \<longleftrightarrow> (case ip of IPv4 v \<Rightarrow> in_prefix 16 0xA9FE v | IPv6 w _ \<Rightarrow> in_prefix 10 0x3FA w)"

definition ip_private :: "ip_address \<Rightarrow> bool" where
  "ip_private ip \<longleftrightarrow> (case ip of IPv4 v \<Rightarrow> private_ipv4 v | IPv6 w _ \<Rightarrow> private_ipv6 w)"

definition ip_multicast :: "ip_address \<Rightarrow> bool" where
  "ip_multicast ip \<longleftrightarrow> (case ip of IPv4 v \<Rightarrow> in_prefix 4 0xE v | IPv6 w _ \<Rightarrow> in_prefix 8 0xFF w)"

definition ip_reserved :: "ip_address \<Rightarrow> bool" where
  "ip_reserved ip \<longleftrightarrow> (case ip of IPv4 v \<Rightarrow> in_prefix 4 0xF v | IPv6 w _ \<Rightarrow> reserved_ipv6 w)"

definition ip_site_local :: "ip_address \<Rightarrow> bool" where
  "ip_site_local ip \<longleftrightarrow> (case ip of IPv4 _ \<Rightarrow> False | IPv6 w _ \<Rightarrow> in_prefix 10 0x3FB w)"

definition ip_global :: "ip_address \<Rightarrow> bool" where
  "ip_global ip \<longleftrightarrow>
     (case ip of
        IPv4 v \<Rightarrow> global_ipv4 v
      | IPv6 w _ \<Rightarrow> (case ipv4_mapped w of Some v \<Rightarrow> global_ipv4 v | None \<Rightarrow> \<not> private_ipv6 w))"

section \<open>Prefixes as intervals\<close>

lemma div_eq_iff_interval:
  fixes x k v :: int
  assumes "0 < k"
  shows "x div k = v \<longleftrightarrow> v * k \<le> x \<and> x < (v + 1) * k"
proof
  assume v: "x div k = v"
  have "x = v * k + x mod k" using div_mult_mod_eq [of x k] v by simp
  moreover have "0 \<le> x mod k" "x mod k < k" using assms by simp_all
  ultimately show "v * k \<le> x \<and> x < (v + 1) * k" by (simp add: distrib_right)
next
  assume "v * k \<le> x \<and> x < (v + 1) * k"
  then show "x div k = v"
    by (intro int_div_pos_eq [of _ _ _ "x - v * k"]) (auto simp: algebra_simps)
qed

lemma in_prefix_iff:
  "in_prefix n v (a :: 'a::len word) \<longleftrightarrow>
     v * 2 ^ (LENGTH('a) - n) \<le> uint a \<and> uint a < (v + 1) * 2 ^ (LENGTH('a) - n)"
proof -
  let ?k = "2 ^ (LENGTH('a) - n) :: int"
  have "in_prefix n v a \<longleftrightarrow> uint a div ?k = v"
  proof -
    have "uint (drop_bit (LENGTH('a) - n) a) = drop_bit (LENGTH('a) - n) (uint a)"
      by transfer (simp add: take_bit_drop_bit)
    then show ?thesis by (simp only: in_prefix_def drop_bit_eq_div)
  qed
  also have "\<dots> \<longleftrightarrow> v * ?k \<le> uint a \<and> uint a < (v + 1) * ?k"
    by (rule div_eq_iff_interval) simp
  finally show ?thesis .
qed

end
