(* ===== verification/Urls.thy ===== *)
theory Urls
  imports Ip_Address
begin

text \<open>
  What the network code uses of Python's \<open>urllib.parse\<close>: \<open>urlsplit\<close> with the
  components of the network location, and \<open>unquote\<close>.  What depends on the Unicode tables
  is an argument: whether a network location passes the NFKC check, the IDNA form of a host,
  and the decoding of UTF-8; on ASCII they are fixed here.
\<close>

record unicode_ops =
  uo_netloc_ok :: "string \<Rightarrow> bool"
  uo_idna :: "string \<Rightarrow> string option"
  uo_utf8 :: "string \<Rightarrow> string"

definition is_ascii :: "string \<Rightarrow> bool" where
  "is_ascii s \<longleftrightarrow> list_all (\<lambda>c. code c < 128) s"

definition is_ascii_letter :: "char \<Rightarrow> bool" where
  "is_ascii_letter c \<longleftrightarrow> is_upper c \<or> is_lower c"

record split_url =
  su_scheme :: string
  su_netloc :: string
  su_path :: string
  su_query :: string
  su_fragment :: string

section \<open>urlsplit\<close>

definition clean_url :: "string \<Rightarrow> string" where
  "clean_url s = filter (\<lambda>c. code c \<notin> {9, 10, 13}) (lstrip_by (\<lambda>c. code c \<le> 32) s)"

definition scheme_char :: "char \<Rightarrow> bool" where
  "scheme_char c \<longleftrightarrow> is_alnum_ascii c \<or> c \<in> set ''+-.''"

definition split_scheme :: "string \<Rightarrow> string \<times> string" where
  "split_scheme url =
     (case partition_at CHR '':'' url of
        (s, found, rest) \<Rightarrow>
          if found \<and> s \<noteq> [] \<and> is_ascii_letter (hd s) \<and> list_all scheme_char s
          then (lower s, rest) else ([], url))"

text \<open>An IP literal in brackets: IPv6 or the future form of RFC 3986.\<close>

definition future_rx :: rx where
  "future_rx = Seqs [Chr CHR ''v'', Plus (Cls (\<lambda>c. is_digit c \<or> c \<in> set ''abcdefABCDEF'')), Chr CHR ''.'',
     Plus (Cls (\<lambda>c. c \<noteq> CHR 0x0A))]"

definition bracketed_ok :: "string \<Rightarrow> bool" where
  "bracketed_ok host \<longleftrightarrow>
     (if starts_with ''v'' host then rx_fullmatch future_rx host
      else (case parse_ip host of Some ip \<Rightarrow> is_v6 ip | None \<Rightarrow> False))"

definition brackets_ok :: "string \<Rightarrow> bool" where
  "brackets_ok netloc \<longleftrightarrow>
     (CHR ''['' \<in> set netloc) = (CHR '']'' \<in> set netloc)
     \<and> (CHR ''['' \<in> set netloc \<longrightarrow>
          bracketed_ok (before CHR '']'' (snd (snd (partition_at CHR ''['' netloc)))))"

text \<open>\<open>None\<close> is the \<open>ValueError\<close> of a malformed network location.\<close>

definition urlsplit :: "unicode_ops \<Rightarrow> string \<Rightarrow> split_url option" where
  "urlsplit ops raw =
     (case split_scheme (clean_url raw) of
        (scheme, url) \<Rightarrow>
          let has_netloc = starts_with ''//'' url;
              netloc = (if has_netloc then takeWhile (\<lambda>c. c \<notin> set ''/?#'') (drop 2 url) else []);
              rest = (if has_netloc then dropWhile (\<lambda>c. c \<notin> set ''/?#'') (drop 2 url) else url);
              (rest, _, fragment) = partition_at CHR ''#'' rest;
              (path, _, query) = partition_at CHR ''?'' rest
          in if \<not> brackets_ok netloc \<or> (\<not> is_ascii netloc \<and> \<not> uo_netloc_ok ops netloc) then None
             else Some \<lparr>su_scheme = scheme, su_netloc = netloc, su_path = path, su_query = query,
                         su_fragment = fragment\<rparr>)"

section \<open>The network location\<close>

definition userinfo :: "split_url \<Rightarrow> (string \<times> string option) option" where
  "userinfo u =
     (if CHR ''@'' \<notin> set (su_netloc u) then None
      else (case partition_at CHR '':'' (before_last CHR ''@'' (su_netloc u)) of
              (name, found, password) \<Rightarrow> Some (name, if found then Some password else None)))"

definition has_userinfo :: "split_url \<Rightarrow> bool" where
  "has_userinfo u \<longleftrightarrow>
     (case userinfo u of None \<Rightarrow> False
      | Some (name, password) \<Rightarrow> name \<noteq> [] \<or> (case password of None \<Rightarrow> False | Some p \<Rightarrow> p \<noteq> []))"

text \<open>The host and the port as written, \<open>None\<close> for a missing port.\<close>

definition hostinfo :: "split_url \<Rightarrow> string \<times> string option" where
  "hostinfo u =
     (let info = after_last CHR ''@'' (su_netloc u);
          (_, bracket, rest) = partition_at CHR ''['' info;
          (host, _, after) = (if bracket then partition_at CHR '']'' rest else partition_at CHR '':'' info);
          port = (if bracket then snd (snd (partition_at CHR '':'' after)) else after)
      in (host, if port = [] then None else Some port))"

text \<open>\<open>hostname\<close>, empty for \<open>None\<close>: lower case up to the zone of a scoped address.\<close>

definition hostname :: "split_url \<Rightarrow> string" where
  "hostname u =
     (case partition_at CHR ''%'' (fst (hostinfo u)) of
        (host, found, zone) \<Rightarrow> lower host @ (if found then CHR ''%'' # zone else []))"

text \<open>\<open>port\<close>: \<open>None\<close> is the \<open>ValueError\<close>.\<close>

definition url_port :: "split_url \<Rightarrow> nat option option" where
  "url_port u =
     (case snd (hostinfo u) of
        None \<Rightarrow> Some None
      | Some p \<Rightarrow>
          if list_all is_digit p \<and> nat_of_digits 0 p \<le> 65535 then Some (Some (nat_of_digits 0 p)) else None)"

section \<open>unquote\<close>

definition unhex :: "string \<Rightarrow> char option" where
  "unhex s = (if length s = 2 then map_option (\<lambda>n. char_of (nat n)) (digits_value 16 0 s) else None)"

fun unquote_bytes :: "string \<Rightarrow> string" where
  "unquote_bytes [] = []"
| "unquote_bytes (c # cs) =
     (case (if c = CHR ''%'' then unhex (take 2 cs) else None) of
        Some b \<Rightarrow> b # unquote_bytes (drop 2 cs)
      | None \<Rightarrow> c # unquote_bytes cs)"

text \<open>Runs of ASCII are decoded, other characters stay as they are.\<close>

definition decode_run :: "unicode_ops \<Rightarrow> string \<Rightarrow> string" where
  "decode_run ops s =
     (let bytes = unquote_bytes s in if is_ascii bytes then bytes else uo_utf8 ops bytes)"

function unquote :: "unicode_ops \<Rightarrow> string \<Rightarrow> string" where
  "unquote ops s =
     (if s = [] then []
      else if code (hd s) < 128
      then decode_run ops (takeWhile (\<lambda>c. code c < 128) s) @ unquote ops (dropWhile (\<lambda>c. code c < 128) s)
      else hd s # unquote ops (tl s))"
  by pat_completeness auto
termination
proof (relation "measure (\<lambda>(ops, s). length s)")
  show "((ops, dropWhile (\<lambda>c. code c < 128) s), ops, s) \<in> measure (\<lambda>(ops, s). length s)"
    if "s \<noteq> []" "code (hd s) < 128" for ops :: unicode_ops and s
    using that by (cases s) (auto simp: le_imp_less_Suc length_dropWhile_le)
qed auto

declare unquote.simps [simp del]

end
