(* ===== verification/Net_Guard.thy ===== *)
theory Net_Guard
  imports Urls
begin

text \<open>
  \<open>web/netguard.py\<close>: the guard against requests to internal addresses.  Every exception
  is a value: \<open>Blocked\<close> with its reason is \<open>BlockedUrlError\<close>, \<open>Value_error\<close> a
  plain \<open>ValueError\<close> that the function does not turn into one.  A resolver is a function
  from a host and a port to its answers, \<open>None\<close> when it raises.
\<close>

datatype net_error = Blocked string | Value_error

type_synonym resolver = "string \<Rightarrow> nat \<Rightarrow> string list option"

section \<open>Tables\<close>

definition ALLOWED_SCHEMES :: "string list" where
  "ALLOWED_SCHEMES = [''http'', ''https'']"

definition ALLOWED_PORTS :: "nat list" where
  "ALLOWED_PORTS = [80, 443, 8080, 8443]"

definition MAX_URL_LENGTH :: nat where
  "MAX_URL_LENGTH = 2048"

definition METADATA_ADDRESSES :: "ip_address list" where
  "METADATA_ADDRESSES =
     [IPv4 0xA9FEA9FE, IPv4 0xA9FEAA02, IPv4 0xA9FEA9FD, IPv4 0xA83F8110, IPv4 0x646464C8,
      IPv4 0xC00000C0, IPv6 0xFD000EC2000000000000000000000254 None,
      IPv6 0xFD000EC2000000000000000000000023 None]"

definition FORBIDDEN_HOSTNAMES :: "string list" where
  "FORBIDDEN_HOSTNAMES =
     [''localhost'', ''metadata'', ''metadata.google.internal'', ''metadata.goog'', ''instance-data'',
      ''instance-data.ec2.internal'', ''kubernetes'', ''kubernetes.default'', ''host.docker.internal'',
      ''gateway.docker.internal'']"

definition FORBIDDEN_SUFFIXES :: "string list" where
  "FORBIDDEN_SUFFIXES =
     [''.localhost'', ''.local'', ''.internal'', ''.localdomain'', ''.home.arpa'', ''.lan'', ''.svc'',
      ''.cluster.local'']"

definition in_NAT64 :: "128 word \<Rightarrow> bool" where
  "in_NAT64 w \<longleftrightarrow> in_prefix 96 0x64FF9B0000000000000000 w"

definition HOST_LABEL :: rx where
  "HOST_LABEL =
     (let label_char = Cls (\<lambda>c. is_lower c \<or> is_digit c \<or> c = CHR ''-'')
      in Seqs [Bol, NotAhead (Chr CHR ''-''), Rep 1 62 label_char, NotBehind (\<lambda>c. c = CHR ''-''), Eol])"

record normalized_url =
  nu_scheme :: string
  nu_host :: string
  nu_port :: nat
  nu_path :: string
  nu_query :: string
  nu_ip :: "ip_address option"

definition default_port :: "normalized_url \<Rightarrow> bool" where
  "default_port u \<longleftrightarrow> nu_port u = (if nu_scheme u = ''https'' then 443 else 80)"

definition netloc :: "normalized_url \<Rightarrow> string" where
  "netloc u =
     (let host = (case nu_ip u of
                    Some (IPv6 _ _) \<Rightarrow> ''['' @ nu_host u @ '']''
                  | _ \<Rightarrow> nu_host u)
      in if default_port u then host else host @ '':'' @ show_nat (nu_port u))"

definition url_text :: "normalized_url \<Rightarrow> string" where
  "url_text u =
     nu_scheme u @ ''://'' @ netloc u @ (if nu_path u = [] then ''/'' else nu_path u)
     @ (if nu_query u = [] then [] else CHR ''?'' # nu_query u)"

section \<open>Addresses\<close>

text \<open>The table of checks, in order, and the last one.\<close>

definition plain_reason :: "ip_address \<Rightarrow> string option" where
  "plain_reason ip =
     (case find fst
        [(ip_loopback ip, ''a loopback address''),
         (ip_unspecified ip, ''an unspecified address''),
         (ip_link_local ip, ''a link-local address''),
         (ip_private ip, ''a private network address''),
         (ip_multicast ip, ''a multicast address''),
         (ip_reserved ip, ''a reserved address''),
         (ip_site_local ip, ''a site-local address'')] of
        Some (_, reason) \<Rightarrow> Some reason
      | None \<Rightarrow> if ip_global ip then None else Some ''a non-public address'')"

text \<open>The IPv4 address inside an IPv6 address; later forms override earlier ones.\<close>

definition embedded_ipv4 :: "128 word \<Rightarrow> 32 word option" where
  "embedded_ipv4 w =
     (if in_NAT64 w then Some (ucast (w AND 0xFFFFFFFF))
      else (case teredo_client w of
              Some v \<Rightarrow> Some v
            | None \<Rightarrow> (case ipv4_mapped w of Some v \<Rightarrow> Some v | None \<Rightarrow> sixtofour w)))"

definition ipv4_reason :: "32 word \<Rightarrow> string option" where
  "ipv4_reason v =
     (if IPv4 v \<in> set METADATA_ADDRESSES then Some ''a cloud metadata address'' else plain_reason (IPv4 v))"

definition forbidden_ip_reason :: "ip_address \<Rightarrow> string option" where
  "forbidden_ip_reason ip =
     (case ip of
        IPv4 v \<Rightarrow> ipv4_reason v
      | IPv6 w scope \<Rightarrow>
          if ip \<in> set METADATA_ADDRESSES then Some ''a cloud metadata address''
          else (case embedded_ipv4 w of
                  Some v \<Rightarrow>
                    map_option (\<lambda>inner. ''an IPv6 form of '' @ show_ipv4 v @ '' ('' @ inner @ '')'') (ipv4_reason v)
                | None \<Rightarrow>
                    if scope \<noteq> None then Some ''a scoped (link-local) IPv6 address'' else plain_reason ip))"

section \<open>Hosts\<close>

definition numeric_rx :: rx where
  "numeric_rx =
     Alt (Seq (Str ''0x'') (Star (Cls (\<lambda>c. is_digit c \<or> c \<in> set ''abcdef'')))) (Plus (Cls is_digit))"

definition ipv4_number :: "string \<Rightarrow> int option" where
  "ipv4_number part =
     (if starts_with ''0x'' part
      then py_int 16 (if drop 2 part = [] then ''0'' else drop 2 part)
      else if 1 < length part \<and> hd part = CHR ''0'' then py_int 8 part
      else py_int 10 part)"

definition ipv4_parts :: "string \<Rightarrow> string list" where
  "ipv4_parts host =
     (let parts = split_on CHR ''.'' host in if last parts = [] then butlast parts else parts)"

text \<open>The value of the parts; an \<open>IPv4Address\<close> of a negative number raises \<open>ValueError\<close>.\<close>

definition ipv4_value :: "int list \<Rightarrow> int" where
  "ipv4_value numbers =
     last numbers + sum_list (map (\<lambda>i. numbers ! i * 256 ^ (3 - i)) [0..<length numbers - 1])"

definition parse_ipv4_like :: "string \<Rightarrow> net_error + 32 word option" where
  "parse_ipv4_like host =
     (let parts = ipv4_parts host; numbers = map ipv4_number parts
      in if parts = [] \<or> \<not> rx_fullmatch numeric_rx (last parts) then Inr None
         else if 4 < length parts \<or> None \<in> set numbers then Inl (Blocked ''Invalid IP address.'')
         else
           (let ns = map the numbers
            in if list_ex (\<lambda>n. 255 < n) (butlast ns) \<or> 256 ^ (5 - length ns) \<le> last ns
               then Inl (Blocked ''Invalid IP address.'')
               else if ipv4_value ns < 0 \<or> 2 ^ 32 \<le> ipv4_value ns then Inl Value_error
               else Inr (Some (of_int (ipv4_value ns)))))"

definition hostname_reason :: "string \<Rightarrow> string option" where
  "hostname_reason host =
     (if host \<in> set FORBIDDEN_HOSTNAMES \<or> list_ex (\<lambda>s. ends_with s host) FORBIDDEN_SUFFIXES
      then Some ''an internal hostname''
      else if CHR ''.'' \<notin> set host then Some ''a single-label hostname'' else None)"

definition points_to :: "string option \<Rightarrow> net_error + unit" where
  "points_to reason =
     (case reason of
        Some r \<Rightarrow> Inl (Blocked (''The URL points to '' @ r @ ''.''))
      | None \<Rightarrow> Inr ())"

definition check_host :: "normalized_url \<Rightarrow> net_error + unit" where
  "check_host u =
     points_to (case nu_ip u of Some ip \<Rightarrow> forbidden_ip_reason ip | None \<Rightarrow> hostname_reason (nu_host u))"

section \<open>normalize_url\<close>

text \<open>\<open>encode("idna")\<close>: the length checks on ASCII, the argument otherwise.\<close>

definition encode_idna :: "unicode_ops \<Rightarrow> string \<Rightarrow> string option" where
  "encode_idna ops s =
     (if \<not> is_ascii s then uo_idna ops s
      else (let labels = split_on CHR ''.'' s
            in if s \<noteq> [] \<and> (list_ex (\<lambda>l. l = [] \<or> 64 \<le> length l) (butlast labels) \<or> 64 \<le> length (last labels))
               then None else Some s))"

text \<open>The host as it is used, and its address when it is a literal.\<close>

definition normalize_host ::
    "unicode_ops \<Rightarrow> split_url \<Rightarrow> net_error + string \<times> ip_address option" where
  "normalize_host ops parts =
     (let raw_host = hostname parts
      in if starts_with ''['' (after_last CHR ''@'' (su_netloc parts))
         then (case parse_ipv6 raw_host of
                 None \<Rightarrow> Inl (Blocked ''Invalid IPv6 address.'')
               | Some ip \<Rightarrow> Inr (show_ip ip, Some ip))
         else
           (case encode_idna ops (rstrip_by (\<lambda>c. c = CHR ''.'') raw_host) of
              None \<Rightarrow> Inl (Blocked ''Invalid hostname.'')
            | Some encoded \<Rightarrow>
                (case parse_ipv4_like (lower encoded) of
                   Inl e \<Rightarrow> Inl e
                 | Inr (Some v) \<Rightarrow> Inr (show_ip (IPv4 v), Some (IPv4 v))
                 | Inr None \<Rightarrow>
                     if 253 < length (lower encoded)
                        \<or> \<not> list_all (rx_match HOST_LABEL) (split_on CHR ''.'' (lower encoded))
                     then Inl (Blocked ''Invalid hostname.'') else Inr (lower encoded, None))))"

definition valid_text :: "string \<Rightarrow> bool" where
  "valid_text text \<longleftrightarrow> text \<noteq> [] \<and> length text \<le> MAX_URL_LENGTH \<and> list_all (\<lambda>c. 33 \<le> code c) text"

definition has_scheme_mark :: "string \<Rightarrow> bool" where
  "has_scheme_mark text \<longleftrightarrow> list_ex (\<lambda>i. starts_with ''://'' (drop i text)) [0..<length text]"

definition normalize_url :: "unicode_ops \<Rightarrow> string \<Rightarrow> net_error + normalized_url" where
  "normalize_url ops raw =
     (let stripped = strip raw
      in if \<not> valid_text stripped then Inl (Blocked ''Enter a valid http(s) URL.'')
         else
           (case urlsplit ops (if has_scheme_mark stripped then stripped else ''https://'' @ stripped) of
              None \<Rightarrow> Inl Value_error
            | Some parts \<Rightarrow>
                let scheme = lower (su_scheme parts)
                in if scheme \<notin> set ALLOWED_SCHEMES
                   then Inl (Blocked ''Only http and https URLs can be analyzed.'')
                   else if CHR ''@'' \<in> set (su_netloc parts) \<or> has_userinfo parts
                   then Inl (Blocked ''URLs with credentials are not allowed.'')
                   else if CHR 0x5C \<in> set (su_netloc parts) then Inl (Blocked ''Enter a valid http(s) URL.'')
                   else
                     (case url_port parts of
                        None \<Rightarrow> Inl (Blocked ''Invalid port.'')
                      | Some p \<Rightarrow>
                          let port = (case p of
                                 Some n \<Rightarrow> if n = 0 then (if scheme = ''https'' then 443 else 80) else n
                               | None \<Rightarrow> if scheme = ''https'' then 443 else 80)
                          in if port \<notin> set ALLOWED_PORTS
                             then Inl (Blocked (''Port '' @ show_nat port
                                    @ '' is not allowed (only 80, 443, 8080 and 8443).''))
                             else if hostname parts = [] then Inl (Blocked ''The URL has no host.'')
                             else
                               (case normalize_host ops parts of
                                  Inl e \<Rightarrow> Inl e
                                | Inr (host, ip) \<Rightarrow>
                                    let u = \<lparr>nu_scheme = scheme, nu_host = host, nu_port = port,
                                              nu_path = (if su_path parts = [] then ''/'' else su_path parts),
                                              nu_query = su_query parts, nu_ip = ip\<rparr>
                                    in (case check_host u of Inl e \<Rightarrow> Inl e | Inr _ \<Rightarrow> Inr u)))))"

section \<open>Resolution\<close>

fun check_answers :: "string \<Rightarrow> string list \<Rightarrow> ip_address list \<Rightarrow> net_error + ip_address list" where
  "check_answers host [] addresses =
     (if addresses = [] then Inl (Blocked (host @ '' could not be resolved.'')) else Inr addresses)"
| "check_answers host (answer # answers) addresses =
     (case parse_ip (before CHR ''%'' answer) of
        None \<Rightarrow> Inl Value_error
      | Some address \<Rightarrow>
          if CHR ''%'' \<in> set answer
          then Inl (Blocked (host @ '' resolves to a scoped (link-local) IPv6 address.''))
          else (case forbidden_ip_reason address of
                  Some reason \<Rightarrow> Inl (Blocked (host @ '' resolves to '' @ reason @ ''.''))
                | None \<Rightarrow>
                    check_answers host answers
                      (if address \<in> set addresses then addresses else addresses @ [address])))"

definition resolve_public :: "resolver \<Rightarrow> string \<Rightarrow> nat \<Rightarrow> net_error + ip_address list" where
  "resolve_public resolver host port =
     (case parse_ip host of
        Some ip \<Rightarrow>
          (case points_to (forbidden_ip_reason ip) of Inl e \<Rightarrow> Inl e | Inr _ \<Rightarrow> Inr [ip])
      | None \<Rightarrow>
          (case points_to (hostname_reason host) of
             Inl e \<Rightarrow> Inl e
           | Inr _ \<Rightarrow>
               (case resolver host port of
                  None \<Rightarrow> Inl (Blocked (host @ '' could not be resolved.''))
                | Some answers \<Rightarrow> check_answers host answers [])))"

definition validate_url ::
    "unicode_ops \<Rightarrow> resolver \<Rightarrow> string \<Rightarrow> net_error + normalized_url \<times> ip_address list" where
  "validate_url ops resolver raw =
     (case normalize_url ops raw of
        Inl e \<Rightarrow> Inl e
      | Inr u \<Rightarrow>
          (case resolve_public resolver (nu_host u) (nu_port u) of
             Inl e \<Rightarrow> Inl e
           | Inr addresses \<Rightarrow> Inr (u, addresses)))"

end
