(* ===== verification/Net_Guard_Props.thy ===== *)
theory Net_Guard_Props
  imports Net_Guard
begin

text \<open>
  The guard against a specification by intervals of addresses that does not use the tests of
  the code: what it lets through is a public unicast address, also inside the IPv6 forms that
  carry an IPv4 address, and it comes from the resolver.
\<close>

section \<open>Public addresses\<close>

text \<open>The special-purpose ranges of IPv4, first and last address.\<close>

definition special_ipv4 :: "(int \<times> int) list" where
  "special_ipv4 =
     [(0, 0x00FFFFFF), (0x0A000000, 0x0AFFFFFF), (0x64400000, 0x647FFFFF), (0x7F000000, 0x7FFFFFFF),
      (0xA9FE0000, 0xA9FEFFFF), (0xAC100000, 0xAC1FFFFF), (0xC0000000, 0xC0000008),
      (0xC000000B, 0xC00000FF), (0xC0000200, 0xC00002FF), (0xC0A80000, 0xC0A8FFFF),
      (0xC6120000, 0xC613FFFF), (0xC6336400, 0xC63364FF), (0xCB007100, 0xCB0071FF),
      (0xE0000000, 0xFFFFFFFF)]"

definition public_ipv4 :: "int \<Rightarrow> bool" where
  "public_ipv4 x \<longleftrightarrow>
     (\<forall>(lo, hi) \<in> set special_ipv4. x < lo \<or> hi < x) \<and> x \<noteq> 0xA83F8110"

lemma uint_less_ipv4: "uint (v :: 32 word) < 4294967296"
  using uint_bounded [of v] by simp

lemma ip_reason_unfold:
  "plain_reason ip = None \<longleftrightarrow>
     \<not> ip_loopback ip \<and> \<not> ip_unspecified ip \<and> \<not> ip_link_local ip \<and> \<not> ip_private ip
     \<and> \<not> ip_multicast ip \<and> \<not> ip_reserved ip \<and> \<not> ip_site_local ip \<and> ip_global ip"
  by (simp add: plain_reason_def)

lemma global_ipv4_iff:
  "global_ipv4 v \<and> \<not> in_prefix 4 0xE v \<longleftrightarrow> (\<forall>(lo, hi) \<in> set special_ipv4. uint v < lo \<or> hi < uint v)"
  using uint_less_ipv4 [of v]
  by (simp add: global_ipv4_def private_ipv4_def in_prefix_iff special_ipv4_def) presburger

lemma uint_eq_iff: "uint a = uint b \<longleftrightarrow> a = b"
  by (simp add: word_uint_eq_iff)

lemma metadata_ipv4:
  "IPv4 v \<in> set METADATA_ADDRESSES \<longleftrightarrow>
     uint v \<in> {0xA9FEA9FE, 0xA9FEAA02, 0xA9FEA9FD, 0xA83F8110, 0x646464C8, 0xC00000C0}"
  by (simp add: METADATA_ADDRESSES_def word_uint_eq_iff)

text \<open>On IPv4 the chain of tests is exactly the table of ranges.\<close>

lemma ipv4_reason_None_iff: "ipv4_reason v = None \<longleftrightarrow> public_ipv4 (uint v)"
proof -
  have plain: "plain_reason (IPv4 v) = None \<longleftrightarrow> global_ipv4 v \<and> \<not> in_prefix 4 0xE v"
  proof -
    have "private_ipv4 v" if "in_prefix 8 127 v \<or> v = 0 \<or> in_prefix 16 0xA9FE v \<or> in_prefix 4 0xF v"
      using that unfolding private_ipv4_def in_prefix_iff word_uint_eq_iff by simp presburger
    then show ?thesis
      unfolding ip_reason_unfold ip_loopback_def ip_unspecified_def ip_link_local_def ip_private_def
        ip_multicast_def ip_reserved_def ip_site_local_def ip_global_def global_ipv4_def
      by (simp del: not_None_eq) blast
  qed
  show ?thesis
    unfolding ipv4_reason_def public_ipv4_def metadata_ipv4
    using plain global_ipv4_iff [of v] by (auto simp: special_ipv4_def)
qed

text \<open>
  An IPv6 address is public when the IPv4 address it carries is (mapped, 6to4, Teredo,
  NAT64), or when it is a global unicast address without a scope, outside the
  documentation range and, in the block of protocol assignments, one of the global ones.
\<close>

definition carried_ipv4 :: "int \<Rightarrow> int option" where
  "carried_ipv4 x =
     (if x div 2 ^ 32 = 0xFFFF \<or> x div 2 ^ 32 = 0x64FF9B0000000000000000 then Some (x mod 2 ^ 32)
      else if x div 2 ^ 112 = 0x2002 then Some (x div 2 ^ 80 mod 2 ^ 32)
      else if x div 2 ^ 96 = 0x20010000 then Some (2 ^ 32 - 1 - x mod 2 ^ 32)
      else None)"

definition global_unicast :: "int \<Rightarrow> bool" where
  "global_unicast x \<longleftrightarrow>
     x div 2 ^ 125 = 1 \<and> x div 2 ^ 96 \<noteq> 0x20010DB8
     \<and> (x div 2 ^ 105 = 0x100080 \<longrightarrow>
          x \<in> {0x20010001000000000000000000000001, 0x20010001000000000000000000000002}
          \<or> x div 2 ^ 96 = 0x20010003 \<or> x div 2 ^ 80 = 0x200100040112
          \<or> x div 2 ^ 100 \<in> {0x2001002, 0x2001003})"

definition public_address :: "ip_address \<Rightarrow> bool" where
  "public_address ip \<longleftrightarrow>
     (case ip of
        IPv4 v \<Rightarrow> public_ipv4 (uint v)
      | IPv6 w scope \<Rightarrow>
          (case carried_ipv4 (uint w) of
             Some x \<Rightarrow> public_ipv4 x
           | None \<Rightarrow> scope = None \<and> global_unicast (uint w)))"

lemma in_prefix_div: "in_prefix n v (a :: 'a::len word) \<longleftrightarrow> uint a div 2 ^ (LENGTH('a) - n) = v"
  by (simp only: in_prefix_iff div_eq_iff_interval zero_less_numeral zero_less_power)

lemma uint_drop_bit_div: "uint (drop_bit n (a :: 'a::len word)) = uint a div 2 ^ n"
proof -
  have "uint (drop_bit n a) = drop_bit n (uint a)" by transfer (simp add: take_bit_drop_bit)
  then show ?thesis by (simp only: drop_bit_eq_div)
qed

lemma uint_ucast_32: "uint (ucast (w :: 128 word) :: 32 word) = uint w mod 2 ^ 32"
  by (simp add: unsigned_ucast_eq take_bit_eq_mod)

lemma uint_low_word: "uint (ucast ((w :: 128 word) AND 0xFFFFFFFF) :: 32 word) = uint w mod 2 ^ 32"
proof -
  have "w AND 0xFFFFFFFF = take_bit 32 w" by (simp add: take_bit_eq_mask mask_eq_exp_minus_1)
  moreover have "uint (ucast (take_bit 32 w) :: 32 word) = take_bit 32 (uint w)"
    by transfer simp
  ultimately show ?thesis by (simp only: take_bit_eq_mod)
qed

lemma mod_complement: "(- x - 1) mod m = m - 1 - x mod m" if "0 < m" for x m :: int
proof -
  have "- x - 1 = (m - 1 - x mod m) + m * (- (x div m) - 1)"
    using div_mult_mod_eq [of x m] by (simp add: algebra_simps)
  then have "(- x - 1) mod m = (m - 1 - x mod m) mod m" by (metis mod_mult_self2)
  also have "\<dots> = m - 1 - x mod m"
    using pos_mod_bound [OF that, of x] pos_mod_sign [OF that, of x] by (simp add: mod_pos_pos_trivial)
  finally show ?thesis .
qed

lemma uint_low_not: "uint (ucast (NOT (w :: 128 word)) :: 32 word) = 2 ^ 32 - 1 - uint w mod 2 ^ 32"
proof -
  have "uint (ucast (NOT w) :: 32 word) = take_bit 32 (NOT (uint w))"
    by transfer (simp add: take_bit_not_iff)
  also have "\<dots> = (- uint w - 1) mod 2 ^ 32" by (simp only: not_eq_complement take_bit_eq_mod)
  also have "\<dots> = 2 ^ 32 - 1 - uint w mod 2 ^ 32" by (rule mod_complement) simp
  finally show ?thesis .
qed

lemma div_div_64: "x div 2 ^ 112 = x div 2 ^ 32 div 2 ^ 80" "x div 2 ^ 96 = x div 2 ^ 32 div 2 ^ 64" for x :: int
  by (simp_all add: div_mult2_eq [symmetric] flip: zdiv_zmult2_eq)

lemma embedded_carried: "map_option uint (embedded_ipv4 w) = carried_ipv4 (uint w)"
proof -
  have "uint w div 2 ^ 32 \<noteq> 0xFFFF" "uint w div 2 ^ 32 \<noteq> 0x64FF9B0000000000000000"
    if "uint w div 2 ^ 112 = 0x2002 \<or> uint w div 2 ^ 96 = 0x20010000"
    using that unfolding div_div_64 by auto
  moreover have "uint w div 2 ^ 112 \<noteq> 0x2002" if "uint w div 2 ^ 96 = 0x20010000"
  proof -
    have "uint w div 2 ^ 112 = uint w div 2 ^ 96 div 2 ^ 16" by (simp flip: zdiv_zmult2_eq)
    then show ?thesis using that by simp
  qed
  moreover have "map_option uint (embedded_ipv4 w) =
      (if uint w div 2 ^ 32 = 0x64FF9B0000000000000000 then Some (uint w mod 2 ^ 32)
       else if uint w div 2 ^ 96 = 0x20010000 then Some (2 ^ 32 - 1 - uint w mod 2 ^ 32)
       else if uint w div 2 ^ 32 = 0xFFFF then Some (uint w mod 2 ^ 32)
       else if uint w div 2 ^ 112 = 0x2002 then Some (uint w div 2 ^ 80 mod 2 ^ 32) else None)"
  proof -
    have prefixes: "in_prefix 96 v w \<longleftrightarrow> uint w div 2 ^ 32 = v" "in_prefix 32 v w \<longleftrightarrow> uint w div 2 ^ 96 = v"
        "in_prefix 16 v w \<longleftrightarrow> uint w div 2 ^ 112 = v" for v
      by (simp_all add: in_prefix_div)
    show ?thesis
      unfolding embedded_ipv4_def in_NAT64_def teredo_client_def ipv4_mapped_def sixtofour_def prefixes
      by (cases "uint w div 2 ^ 32 = 0x64FF9B0000000000000000"; cases "uint w div 2 ^ 96 = 0x20010000";
          cases "uint w div 2 ^ 32 = 0xFFFF"; cases "uint w div 2 ^ 112 = 0x2002")
        (simp_all only: option.case option.map if_True if_False simp_thms
          uint_low_word [unfolded uint_ucast_32] uint_low_not [unfolded uint_ucast_32]
          uint_ucast_32 uint_drop_bit_div)
  qed
  ultimately show ?thesis unfolding carried_ipv4_def by (simp only: split: if_split) blast
qed

lemma div_pow_chain: "x div 2 ^ (m + n) = x div 2 ^ m div 2 ^ n" for x :: int
  by (simp add: power_add flip: zdiv_zmult2_eq)

text \<open>Outside \<open>2000::/3\<close> every address is in one of the blocks the tests refuse.\<close>

lemma outside_unicast:
  fixes x :: int
  assumes "0 \<le> x" "x < 2 ^ 128" "x div 2 ^ 125 \<noteq> 1"
  shows "x div 2 ^ 120 = 0 \<or> x div 2 ^ 120 = 1 \<or> x div 2 ^ 121 = 1 \<or> x div 2 ^ 122 = 1 \<or> x div 2 ^ 123 = 1
    \<or> x div 2 ^ 124 = 1 \<or> x div 2 ^ 125 \<in> {2, 3, 4, 5, 6} \<or> x div 2 ^ 124 = 0xE \<or> x div 2 ^ 123 = 0x1E
    \<or> x div 2 ^ 122 = 0x3E \<or> x div 2 ^ 119 = 0x1FC \<or> x div 2 ^ 121 = 0x7E \<or> x div 2 ^ 118 = 0x3FA
    \<or> x div 2 ^ 118 = 0x3FB \<or> x div 2 ^ 120 = 0xFF"
proof -
  define t where "t = x div 2 ^ 118"
  have t: "0 \<le> t" "t < 1024"
    using assms(1,2) zdiv_mono1 [of x "2 ^ 128 - 1" "2 ^ 118"]
    by (simp_all add: t_def pos_imp_zdiv_nonneg_iff)
  have step: "x div 2 ^ k = t div d" if "k = 118 + n" "d = 2 ^ n" for k n d
    unfolding t_def that by (rule div_pow_chain)
  have chain: "x div 2 ^ 119 = t div 2" "x div 2 ^ 120 = t div 4" "x div 2 ^ 121 = t div 8" "x div 2 ^ 122 = t div 16"
    "x div 2 ^ 123 = t div 32" "x div 2 ^ 124 = t div 64" "x div 2 ^ 125 = t div 128"
    by (rule step [of _ 1] step [of _ 2] step [of _ 3] step [of _ 4] step [of _ 5] step [of _ 6] step [of _ 7],
        simp, simp)+
  have i: "t div 128 = v \<longleftrightarrow> v * 128 \<le> t \<and> t < (v + 1) * 128" "t div 64 = v \<longleftrightarrow> v * 64 \<le> t \<and> t < (v + 1) * 64"
    "t div 32 = v \<longleftrightarrow> v * 32 \<le> t \<and> t < (v + 1) * 32" "t div 16 = v \<longleftrightarrow> v * 16 \<le> t \<and> t < (v + 1) * 16"
    "t div 8 = v \<longleftrightarrow> v * 8 \<le> t \<and> t < (v + 1) * 8" "t div 4 = v \<longleftrightarrow> v * 4 \<le> t \<and> t < (v + 1) * 4"
    "t div 2 = v \<longleftrightarrow> v * 2 \<le> t \<and> t < (v + 1) * 2" for v
    by (rule div_eq_iff_interval, simp)+
  have "t div 128 \<noteq> 1" using assms(3) unfolding chain .
  then show ?thesis
    using t unfolding chain t_def [symmetric] i insert_iff empty_iff by presburger
qed

lemma unicast_exceptions:
  fixes x :: int
  assumes "x div 2 ^ 96 \<in> {0x20010003, 0x20010DB8} \<or> x div 2 ^ 80 = 0x200100040112 \<or> x div 2 ^ 100 \<in> {0x2001002, 0x2001003}
    \<or> x \<in> {0x20010001000000000000000000000001, 0x20010001000000000000000000000002}"
  shows "x div 2 ^ 125 = 1"
proof -
  have by_prefix: "x div 2 ^ 125 = k div 2 ^ n" if "x div 2 ^ m = k" "m + n = 125" for m n k
    using div_pow_chain [of x m n] that by simp
  from assms show ?thesis
  proof (elim disjE insertE emptyE)
  qed (simp_all add: by_prefix [where m = 96 and n = 29] by_prefix [where m = 80 and n = 45]
      by_prefix [where m = 100 and n = 25])
qed

lemma ipv6_plain:
  assumes "plain_reason (IPv6 w scope) = None" "carried_ipv4 (uint w) = None"
  shows "global_unicast (uint w)"
proof -
  let ?x = "uint w"
  have x: "0 \<le> ?x" "?x < 2 ^ 128" using uint_bounded [of w] by simp_all
  have mapped: "ipv4_mapped w = None" "?x div 2 ^ 32 \<noteq> 0xFFFF" "?x div 2 ^ 112 \<noteq> 0x2002"
    using assms(2) by (auto simp: carried_ipv4_def ipv4_mapped_def in_prefix_div split: if_splits)
  have checks: "\<not> private_ipv6 w" "\<not> reserved_ipv6 w" "\<not> in_prefix 10 0x3FA w" "\<not> in_prefix 10 0x3FB w" "\<not> in_prefix 8 0xFF w"
    using assms(1) by (simp_all add: ip_reason_unfold ip_private_def ip_reserved_def ip_link_local_def
      ip_site_local_def ip_multicast_def)
  have "?x div 2 ^ 125 = 1"
  proof (rule ccontr)
    assume out: "?x div 2 ^ 125 \<noteq> 1"
    have "\<not> in_prefix 7 0x7E w"
      using checks(1) mapped(1) unicast_exceptions [of ?x] out
      by (auto simp: private_ipv6_def in_prefix_div)
    then show False
      using outside_unicast [OF x out] checks by (simp add: reserved_ipv6_def in_prefix_div)
  qed
  then show ?thesis
    using checks(1) mapped(1) unfolding global_unicast_def private_ipv6_def
    by (auto simp: in_prefix_div)
qed

lemma forbidden_ip_reason_public:
  assumes "forbidden_ip_reason ip = None"
  shows "public_address ip"
proof (cases ip)
  case (IPv4 v)
  then show ?thesis using assms by (simp add: forbidden_ip_reason_def ipv4_reason_None_iff public_address_def)
next
  case (IPv6 w scope)
  show ?thesis
  proof (cases "embedded_ipv4 w")
    case None
    then have "carried_ipv4 (uint w) = None" using embedded_carried [of w] by simp
    then show ?thesis using assms IPv6 None ipv6_plain
      by (auto simp: forbidden_ip_reason_def public_address_def split: if_splits)
  next
    case (Some v)
    then have "carried_ipv4 (uint w) = Some (uint v)" using embedded_carried [of w] by simp
    then show ?thesis using assms IPv6 Some
      by (auto simp: forbidden_ip_reason_def public_address_def ipv4_reason_None_iff split: if_splits)
  qed
qed

section \<open>The guard\<close>

lemma points_to_Inr: "points_to reason = Inr v \<longleftrightarrow> reason = None"
  by (simp add: points_to_def split: option.splits)

lemma before_absent: "c \<notin> set s \<Longrightarrow> before c s = s"
  by (induction s) (auto simp: before_def)

lemma check_answers_Inr:
  assumes "check_answers host answers known = Inr addresses" "distinct known"
    and "\<forall>a \<in> set known. forbidden_ip_reason a = None"
  shows "distinct addresses \<and> addresses \<noteq> [] \<and> (\<forall>a \<in> set addresses. forbidden_ip_reason a = None)
    \<and> Some ` set addresses = Some ` set known \<union> parse_ip ` set answers"
  using assms
proof (induction host answers known rule: check_answers.induct)
  case (2 host answer answers known)
  have plain: "before CHR ''%'' answer = answer" "CHR ''%'' \<notin> set answer"
    using 2(2) by (auto simp: before_absent split: option.splits if_splits)
  then obtain address where a: "parse_ip answer = Some address" "forbidden_ip_reason address = None"
    "check_answers host answers (if address \<in> set known then known else known @ [address]) = Inr addresses"
    using 2(2) by (auto split: option.splits if_splits)
  let ?known = "if address \<in> set known then known else known @ [address]"
  have "distinct ?known" "\<forall>a \<in> set ?known. forbidden_ip_reason a = None" using 2(3,4) a(2) by auto
  from 2(1) [OF _ plain(2) a(2,3) this] a(1) plain(1)
  have IH: "distinct addresses \<and> addresses \<noteq> [] \<and> (\<forall>a \<in> set addresses. forbidden_ip_reason a = None)
    \<and> Some ` set addresses = Some ` set ?known \<union> parse_ip ` set answers" by simp
  moreover have "Some ` set ?known = insert (parse_ip answer) (Some ` set known)" using a(1) by auto
  ultimately show ?case by simp
qed (auto split: if_splits)

lemma resolve_public_Inr:
  assumes "resolve_public resolver host port = Inr addresses"
  shows "distinct addresses" "addresses \<noteq> []" "\<forall>a \<in> set addresses. public_address a"
    and "case parse_ip host of
           Some ip \<Rightarrow> addresses = [ip]
         | None \<Rightarrow> hostname_reason host = None
             \<and> (\<exists>answers. resolver host port = Some answers \<and> Some ` set addresses = parse_ip ` set answers)"
  using assms check_answers_Inr [where known = "[]"] forbidden_ip_reason_public
  by (auto simp: resolve_public_def points_to_Inr split: option.splits sum.splits)

lemma normalize_url_Inr:
  assumes "normalize_url ops raw = Inr u"
  shows "nu_scheme u \<in> set ALLOWED_SCHEMES" "nu_port u \<in> set ALLOWED_PORTS" "nu_path u \<noteq> []"
    and "\<And>ip. nu_ip u = Some ip \<Longrightarrow> public_address ip"
  using assms
  by (auto simp: normalize_url_def Let_def check_host_def points_to_Inr forbidden_ip_reason_public
      split: if_splits option.splits sum.splits prod.splits)

text \<open>
  C26: The guard against requests to internal addresses.  When a URL is accepted, its scheme is
  http or https, its port one of the four allowed ones, and there is at least one address to
  connect to.  Every such address is public: an IPv4 address outside the special-purpose
  ranges and the metadata services, or an IPv6 address that carries such an IPv4 address, or a
  global unicast address without a scope.  For an IP literal it is that literal alone;
  otherwise the host is not an internal name and the addresses are exactly the answers of the
  one lookup, so nothing is looked up again after the check.
\<close>

theorem validate_url_public:
  assumes "validate_url ops resolver raw = Inr (u, addresses)"
  shows "nu_scheme u \<in> {''http'', ''https''} \<and> nu_port u \<in> {80, 443, 8080, 8443}
    \<and> addresses \<noteq> [] \<and> distinct addresses \<and> (\<forall>a \<in> set addresses. public_address a)
    \<and> (\<forall>ip. nu_ip u = Some ip \<longrightarrow> public_address ip)
    \<and> (case parse_ip (nu_host u) of
         Some ip \<Rightarrow> addresses = [ip]
       | None \<Rightarrow> hostname_reason (nu_host u) = None
           \<and> (\<exists>answers. resolver (nu_host u) (nu_port u) = Some answers
                \<and> Some ` set addresses = parse_ip ` set answers))"
proof -
  have "normalize_url ops raw = Inr u" "resolve_public resolver (nu_host u) (nu_port u) = Inr addresses"
    using assms by (auto simp: validate_url_def split: sum.splits)
  then show ?thesis
    using normalize_url_Inr [of ops raw u] resolve_public_Inr [of resolver "nu_host u" "nu_port u" addresses]
    by (simp add: ALLOWED_SCHEMES_def ALLOWED_PORTS_def)
qed

definition example_unicode :: unicode_ops where
  "example_unicode = \<lparr>uo_netloc_ok = (\<lambda>_. False), uo_idna = (\<lambda>_. None), uo_utf8 = id\<rparr>"

definition example_resolver :: resolver where
  "example_resolver host port =
     (if host = ''a.io'' then Some [''1.1.1.1'', ''64:ff9b::1.1.1.1'', ''1.1.1.1''] else None)"

theorem validate_url_public_witness:
  "case validate_url example_unicode example_resolver ''A.io./x'' of
     Inl _ \<Rightarrow> False
   | Inr (u, addresses) \<Rightarrow>
       nu_host u = ''a.io'' \<and> length addresses = 2 \<and> (\<forall>a \<in> set addresses. public_address a)"
proof -
  have run: "validate_url example_unicode example_resolver ''A.io./x'' =
     Inr (\<lparr>nu_scheme = ''https'', nu_host = ''a.io'', nu_port = 443, nu_path = ''/x'', nu_query = [], nu_ip = None\<rparr>,
          [IPv4 0x01010101, IPv6 0x64FF9B000000000000000001010101 None])"
    by code_simp
  then show ?thesis using validate_url_public [OF run] by simp
qed

text \<open>
  Numbers that \<open>int\<close> accepts and a URL does not: a sign makes the parser answer with an
  address, or with an exception that is not \<open>BlockedUrlError\<close>; an unclosed bracket makes
  \<open>urlsplit\<close> raise.
\<close>

lemma signed_numbers:
  "parse_ipv4_like ''8.-1.0.1'' = Inr (Some 0x07FF0001)"
  "parse_ipv4_like ''-1.1.1.1'' = Inl Value_error"
  "normalize_url example_unicode ''http://[::1'' = Inl Value_error"
  by code_simp+

end
