(* ===== verification/Github_Urls.thy ===== *)
theory Github_Urls
  imports Urls
begin

text \<open>
  \<open>github/urls.py\<close>: repository URLs are parsed and checked, the result is an owner, a name
  and an optional ref from which the URLs that are fetched are built.  A refused URL is a value
  with its message; \<open>Plain_value_error\<close> is a \<open>ValueError\<close> raised by \<open>urlsplit\<close>.
\<close>

datatype repo_error = Invalid_repo_url string | Plain_value_error

section \<open>Naming rules\<close>

definition alnum :: rx where
  "alnum = Cls is_alnum_ascii"

definition OWNER :: rx where
  "OWNER = Seqs [Bol, alnum, UpTo 38 (Alt alnum (Seq (Chr CHR ''-'') (Ahead alnum))), Eol]"

definition REPO :: rx where
  "REPO = Seqs [Bol, Rep 1 99 (Cls (\<lambda>c. is_alnum_ascii c \<or> c \<in> set ''._-'')), Eol]"

definition dot_star :: rx where
  "dot_star = Star (Cls (\<lambda>c. c \<noteq> CHR 0x0A))"

definition REF :: rx where
  "REF =
     Seqs [Bol, NotAhead (Chr CHR ''-''), NotAhead (Seq dot_star (Str ''..'')), NotAhead (Seq dot_star (Str ''//'')),
       NotAhead (Seq dot_star (Str [CHR ''@'', CHR 0x7B])),
       Rep 1 254 (Cls (\<lambda>c. is_alnum_ascii c \<or> c \<in> set ''._/@+-'')),
       NotBehind (\<lambda>c. c \<in> set ''./''), Eol]"

definition SHA :: rx where
  "SHA = Seqs [Bol, Rep 40 0 (Cls (\<lambda>c. is_digit c \<or> c \<in> set ''abcdef'')), Eol]"

definition ALLOWED_HOSTS :: "string list" where
  "ALLOWED_HOSTS = [''github.com'', ''www.github.com'']"

record repo_ref =
  rr_owner :: string
  rr_name :: string
  rr_ref :: "string option"

definition full_name :: "repo_ref \<Rightarrow> string" where
  "full_name r = rr_owner r @ ''/'' @ rr_name r"

definition clone_url :: "repo_ref \<Rightarrow> string" where
  "clone_url r = ''https://github.com/'' @ rr_owner r @ ''/'' @ rr_name r @ ''.git''"

definition html_url :: "repo_ref \<Rightarrow> string" where
  "html_url r = ''https://github.com/'' @ rr_owner r @ ''/'' @ rr_name r"

section \<open>parse_repo_url\<close>

definition validate_ref :: "string \<Rightarrow> repo_error + string" where
  "validate_ref ref =
     (let r = strip ref
      in if \<not> rx_match REF r \<or> ends_with ''.lock'' r
         then Inl (Invalid_repo_url (py_repr (take 80 r) @ '' is not a valid branch, tag or commit.''))
         else Inr r)"

definition has_http_scheme :: "string \<Rightarrow> bool" where
  "has_http_scheme text \<longleftrightarrow> starts_with ''http://'' (lower text) \<or> starts_with ''https://'' (lower text)"

definition complete_url :: "string \<Rightarrow> string" where
  "complete_url text =
     (if \<not> has_http_scheme text
         \<and> (starts_with ''github.com/'' (lower text) \<or> starts_with ''www.github.com/'' (lower text))
      then ''https://'' @ text else text)"

definition check_location :: "split_url \<Rightarrow> repo_error + unit" where
  "check_location parts =
     (if lower (su_scheme parts) \<noteq> ''https''
      then Inl (Invalid_repo_url ''Only https://github.com/<owner>/<repo> URLs are supported.'')
      else if has_userinfo parts \<or> CHR ''@'' \<in> set (su_netloc parts)
      then Inl (Invalid_repo_url ''Repository URLs must not contain credentials.'')
      else
        (case url_port parts of
           None \<Rightarrow> Inl (Invalid_repo_url ''Invalid port in URL.'')
         | Some port \<Rightarrow>
             if rstrip_by (\<lambda>c. c = CHR ''.'') (lower (hostname parts)) \<notin> set ALLOWED_HOSTS
                \<or> port \<notin> {None, Some 443}
             then Inl (Invalid_repo_url ''Only repositories on github.com are supported.'')
             else if su_query parts \<noteq> [] \<or> su_fragment parts \<noteq> []
             then Inl (Invalid_repo_url ''Repository URLs must not contain a query or fragment.'')
             else Inr ()))"

definition path_segments_of :: "unicode_ops \<Rightarrow> split_url \<Rightarrow> string list" where
  "path_segments_of ops parts =
     map (unquote ops) (filter (\<lambda>s. s \<noteq> []) (split_on CHR ''/'' (su_path parts)))"

text \<open>Owner, name and the ref after \<open>tree\<close>.\<close>

definition repo_segments :: "string list \<Rightarrow> repo_error + string \<times> string \<times> string option" where
  "repo_segments segments =
     (case segments of
        owner # name # rest \<Rightarrow>
          if rest \<noteq> [] \<and> (hd rest \<noteq> ''tree'' \<or> length rest < 2)
          then Inl (Invalid_repo_url ''Expected https://github.com/<owner>/<repo>[/tree/<ref>].'')
          else Inr (owner, remove_suffix ''.git'' name,
                    if rest = [] then None else Some (join ''/'' (tl rest)))
      | _ \<Rightarrow> Inl (Invalid_repo_url ''Expected https://github.com/<owner>/<repo>.''))"

definition is_truthy :: "string option \<Rightarrow> bool" where
  "is_truthy s \<longleftrightarrow> (case s of None \<Rightarrow> False | Some t \<Rightarrow> t \<noteq> [])"

definition parse_repo_url ::
    "unicode_ops \<Rightarrow> string \<Rightarrow> string option \<Rightarrow> repo_error + repo_ref" where
  "parse_repo_url ops url ref =
     (let text = strip url
      in if 500 < length text \<or> list_ex (\<lambda>c. code c < 32) text
         then Inl (Invalid_repo_url (''That doesn'' @ [CHR 0x27] @ ''t look like a GitHub repository URL.''))
         else
           (case urlsplit ops (complete_url text) of
              None \<Rightarrow> Inl Plain_value_error
            | Some parts \<Rightarrow>
                (case check_location parts of
                   Inl e \<Rightarrow> Inl e
                 | Inr _ \<Rightarrow>
                     (case repo_segments (path_segments_of ops parts) of
                        Inl e \<Rightarrow> Inl e
                      | Inr (owner, name, url_ref) \<Rightarrow>
                          if \<not> rx_match OWNER owner \<or> \<not> rx_match REPO name \<or> name \<in> {''.'', ''..''}
                          then Inl (Invalid_repo_url ''Invalid GitHub owner or repository name.'')
                          else
                            (let chosen = (if is_truthy ref then ref else url_ref)
                             in if is_truthy chosen
                                then (case validate_ref (the chosen) of
                                        Inl e \<Rightarrow> Inl e
                                      | Inr r \<Rightarrow> Inr \<lparr>rr_owner = owner, rr_name = name, rr_ref = Some r\<rparr>)
                                else Inr \<lparr>rr_owner = owner, rr_name = name, rr_ref = None\<rparr>)))))"

section \<open>assert_public_host\<close>

text \<open>
  \<open>resolver\<close> is \<open>socket.getaddrinfo\<close> on port 443, \<open>None\<close> when it raises.  The
  addresses are a set, so which of several bad ones is reported is not determined; the result
  is only whether the function raises \<open>UnsafeHostError\<close>, raises \<open>ValueError\<close> or returns.
\<close>

datatype host_outcome = Host_ok | Unsafe_host | Bad_address

definition address_outcome :: "string \<Rightarrow> host_outcome" where
  "address_outcome address =
     (case parse_ip (before CHR ''%'' address) of
        None \<Rightarrow> Bad_address
      | Some ip \<Rightarrow> if \<not> ip_global ip \<or> ip_multicast ip then Unsafe_host else Host_ok)"

definition assert_public_host ::
    "(string \<Rightarrow> string list option) \<Rightarrow> string \<Rightarrow> host_outcome set" where
  "assert_public_host resolver host =
     (case resolver host of
        None \<Rightarrow> {Unsafe_host}
      | Some addresses \<Rightarrow>
          if addresses = [] then {Unsafe_host}
          else (let bad = filter (\<lambda>r. r \<noteq> Host_ok) (map address_outcome addresses)
                in if bad = [] then {Host_ok} else set bad))"

end
