(* ===== verification/Github_Urls_Props.thy ===== *)
theory Github_Urls_Props
  imports Github_Urls
begin

text \<open>
  What the naming rules let through, from the declarative meaning of the expressions, and the
  shape of a parsed repository.
\<close>

section \<open>Repetitions\<close>

lemma rx_rel_Seqs_Cons:
  "rx_rel (Seqs (r # rs)) s i j \<longleftrightarrow> (\<exists>k. rx_rel r s i k \<and> rx_rel (Seqs rs) s k j)"
  by (cases rs) auto

text \<open>\<open>r\<close> reads one character, at a position where \<open>q\<close> holds.\<close>

definition reads_one :: "rx \<Rightarrow> string \<Rightarrow> (nat \<Rightarrow> bool) \<Rightarrow> bool" where
  "reads_one r s q \<longleftrightarrow> (\<forall>i j. rx_rel r s i j \<longrightarrow> j = Suc i \<and> i < length s \<and> q i)"

lemma UpTo_reads:
  assumes "reads_one r s q"
  shows "rx_rel (UpTo n r) s i j \<Longrightarrow> i \<le> j \<and> j \<le> i + n \<and> (\<forall>k. i \<le> k \<and> k < j \<longrightarrow> q k)"
proof (induction n arbitrary: i)
  case (Suc n)
  show ?case
  proof (cases "j = i")
    case False
    then obtain k where "rx_rel r s i k" "rx_rel (UpTo n r) s k j" using Suc.prems by (auto simp: Opt_def)
    then have "k = Suc i" "q i" "k \<le> j \<and> j \<le> k + n \<and> (\<forall>m. k \<le> m \<and> m < j \<longrightarrow> q m)"
      using Suc.IH assms by (auto simp: reads_one_def)
    then show ?thesis by (metis Suc_leD add_Suc_right add_Suc le_eq_less_or_eq Suc_le_eq)
  qed auto
qed auto

lemma replicate_reads:
  assumes "reads_one r s q"
  shows "rx_rel (Seqs (replicate m r)) s i j \<Longrightarrow> j = i + m \<and> (\<forall>k. i \<le> k \<and> k < j \<longrightarrow> q k)"
proof (induction m arbitrary: i)
  case (Suc m)
  then obtain k where "rx_rel r s i k" "rx_rel (Seqs (replicate m r)) s k j"
    by (auto simp: rx_rel_Seqs_Cons)
  then have "k = Suc i" "q i" "j = k + m \<and> (\<forall>n. k \<le> n \<and> n < j \<longrightarrow> q n)"
    using Suc.IH assms by (auto simp: reads_one_def)
  then show ?case by (metis add_Suc_right add_Suc le_eq_less_or_eq Suc_le_eq)
qed auto

lemma Rep_reads:
  assumes "reads_one r s q" "rx_rel (Rep m n r) s i j"
  shows "i + m \<le> j" "j \<le> i + m + n" "\<forall>k. i \<le> k \<and> k < j \<longrightarrow> q k"
proof -
  obtain l where l: "rx_rel (Seqs (replicate m r)) s i l" "rx_rel (UpTo n r) s l j"
    using assms(2) by (auto simp: Rep_def)
  note a = replicate_reads [OF assms(1) l(1)] and b = UpTo_reads [OF assms(1) l(2)]
  show "i + m \<le> j" "j \<le> i + m + n" using a b by auto
  show "\<forall>k. i \<le> k \<and> k < j \<longrightarrow> q k" using a b by (metis not_le)
qed

lemma reads_one_Cls: "reads_one (Cls p) s (\<lambda>i. p (s ! i))"
  by (simp add: reads_one_def)

lemma at_eol_take: "at_eol s j \<Longrightarrow> s = take j s \<or> s = take j s @ [CHR 0x0A]"
  by (auto simp: at_eol_def) (metis take_Suc_conv_app_nth lessI take_all_iff le_refl)

section \<open>The naming rules\<close>

text \<open>\<open>$\<close> also matches before a final newline, so a name may end with one.\<close>

definition up_to_newline :: "string \<Rightarrow> string \<Rightarrow> bool" where
  "up_to_newline t s \<longleftrightarrow> s = t \<or> s = t @ [CHR 0x0A]"

definition repo_char :: "char \<Rightarrow> bool" where
  "repo_char c \<longleftrightarrow> is_alnum_ascii c \<or> c \<in> set ''._-''"

definition valid_owner :: "string \<Rightarrow> bool" where
  "valid_owner t \<longleftrightarrow>
     1 \<le> length t \<and> length t \<le> 39 \<and> is_alnum_ascii (hd t)
     \<and> (\<forall>k < length t. is_alnum_ascii (t ! k)
          \<or> (t ! k = CHR ''-'' \<and> Suc k < length t \<and> is_alnum_ascii (t ! Suc k)))"

lemma rx_match_REPO:
  assumes "rx_match REPO s"
  obtains t where "up_to_newline t s" "1 \<le> length t" "length t \<le> 100" "\<forall>c \<in> set t. repo_char c"
proof -
  obtain j where j: "rx_rel (Rep 1 99 (Cls (\<lambda>c. is_alnum_ascii c \<or> c \<in> set ''._-''))) s 0 j" "at_eol s j"
    using assms by (auto simp: rx_match_iff REPO_def)
  note r = Rep_reads [OF reads_one_Cls j(1)]
  have len: "length (take j s) = j" using j(2) by (auto simp: at_eol_def)
  show thesis
  proof (rule that)
    show "up_to_newline (take j s) s" using at_eol_take [OF j(2)] by (simp add: up_to_newline_def)
    show "1 \<le> length (take j s)" "length (take j s) \<le> 100" using r(1,2) len by simp_all
    show "\<forall>c \<in> set (take j s). repo_char c"
    proof
      fix c assume "c \<in> set (take j s)"
      then obtain k where "k < j" "c = s ! k" using len by (auto simp: in_set_conv_nth)
      then show "repo_char c" using r(3) unfolding repo_char_def by blast
    qed
  qed
qed

lemma rx_match_OWNER:
  assumes "rx_match OWNER s"
  obtains t where "up_to_newline t s" "valid_owner t"
proof -
  let ?r = "Alt alnum (Seq (Chr CHR ''-'') (Ahead alnum))"
  let ?q = "\<lambda>k. is_alnum_ascii (s ! k)
    \<or> (s ! k = CHR ''-'' \<and> Suc k < length s \<and> is_alnum_ascii (s ! Suc k))"
  obtain j where j: "0 < length s" "is_alnum_ascii (s ! 0)" "rx_rel (UpTo 38 ?r) s 1 j" "at_eol s j"
    using assms by (auto simp: rx_match_iff OWNER_def alnum_def simp del: UpTo.simps)
  have "reads_one ?r s ?q" by (auto simp: reads_one_def alnum_def Chr_def)
  note u = UpTo_reads [OF this j(3)]
  have len: "length (take j s) = j" using j(4) by (auto simp: at_eol_def)
  have "is_alnum_ascii (take j s ! k)
      \<or> (take j s ! k = CHR ''-'' \<and> Suc k < j \<and> is_alnum_ascii (take j s ! Suc k))" if k: "k < j" for k
  proof (cases "k = 0")
    case False
    then have q: "?q k" using u k by simp
    moreover have "Suc k < j" if "Suc k < length s" "is_alnum_ascii (s ! Suc k)"
    proof (rule ccontr)
      assume "\<not> Suc k < j"
      then have "Suc k = j" using k by simp
      then have "s ! Suc k = CHR 0x0A" using that(1) j(4) by (simp add: at_eol_def)
      then show False
        using that(2) by (simp add: is_alnum_ascii_def is_upper_def is_lower_def is_digit_def code_def)
    qed
    ultimately show ?thesis using k by auto
  qed (use j(2) k in simp)
  then have "valid_owner (take j s)"
    using u len j(1,2) by (auto simp: valid_owner_def hd_conv_nth)
  moreover have "up_to_newline (take j s) s" using at_eol_take [OF j(4)] by (simp add: up_to_newline_def)
  ultimately show thesis using that by blast
qed

section \<open>Refs\<close>

definition has_part :: "string \<Rightarrow> string \<Rightarrow> bool" where
  "has_part sub t \<longleftrightarrow> (\<exists>a b. t = a @ sub @ b)"

lemma not_ahead_part:
  assumes "rx_rel (NotAhead (Seq dot_star (Str [c, d]))) s 0 k" "CHR 0x0A \<notin> set s"
  shows "\<not> has_part [c, d] s"
proof
  assume "has_part [c, d] s"
  then obtain a b where s: "s = a @ c # d # b" by (auto simp: has_part_def)
  have "rx_rel dot_star s 0 (length a)"
    unfolding dot_star_def
    using star_Cls_iff [of 0 s "\<lambda>c. c \<noteq> CHR 0x0A" "length a"] assms(2) by (auto simp: s nth_append) (metis nth_mem)
  moreover have "rx_rel (Str [c, d]) s (length a) (length a + 2)"
    by (auto simp: s Chr_def nth_append)
  ultimately show False using assms(1) by (auto simp del: Str.simps)
qed

definition valid_ref :: "string \<Rightarrow> bool" where
  "valid_ref r \<longleftrightarrow>
     1 \<le> length r \<and> length r \<le> 255 \<and> hd r \<noteq> CHR ''-'' \<and> last r \<notin> set ''./''
     \<and> (\<forall>c \<in> set r. is_alnum_ascii c \<or> c \<in> set ''._/@+-'')
     \<and> \<not> has_part ''..'' r \<and> \<not> has_part ''//'' r \<and> \<not> has_part [CHR ''@'', CHR 0x7B] r \<and> \<not> ends_with ''.lock'' r"

lemma last_strip: "strip s \<noteq> [] \<Longrightarrow> \<not> is_space (last (strip s))"
  unfolding strip_def rstrip_by_def by (metis hd_dropWhile last_rev rev_is_Nil_conv)

lemma validate_ref_Inr:
  assumes "validate_ref ref = Inr r"
  shows "valid_ref r"
proof -
  let ?char = "\<lambda>c. is_alnum_ascii c \<or> c \<in> set ''._/@+-''"
  have r: "r = strip ref" "rx_match REF r" "\<not> ends_with ''.lock'' r"
    using assms by (auto simp: validate_ref_def Let_def split: if_splits)
  then obtain j where j: "rx_rel (NotAhead (Chr CHR ''-'')) r 0 0"
      "rx_rel (NotAhead (Seq dot_star (Str ''..''))) r 0 0" "rx_rel (NotAhead (Seq dot_star (Str ''//''))) r 0 0"
      "rx_rel (NotAhead (Seq dot_star (Str [CHR ''@'', CHR 0x7B]))) r 0 0"
      "rx_rel (Rep 1 254 (Cls ?char)) r 0 j" "rx_rel (NotBehind (\<lambda>c. c \<in> set ''./'')) r j j" "at_eol r j"
    unfolding rx_match_iff REF_def rx_rel_Seqs_Cons by (auto simp del: Str.simps)
  note p = Rep_reads [OF reads_one_Cls j(5)]
  have "r \<noteq> []" using p(1) j(7) by (auto simp: at_eol_def)
  then have "last r \<noteq> CHR 0x0A" using last_strip [of ref] r(1) by (auto simp: is_space_def code_def)
  then have len: "length r = j" using j(7) \<open>r \<noteq> []\<close> unfolding at_eol_def by (metis diff_Suc_1 last_conv_nth)
  have chars: "\<forall>c \<in> set r. ?char c" using p(3) len by (metis in_set_conv_nth le0)
  then have "CHR 0x0A \<notin> set r" by (auto simp: is_alnum_ascii_def is_upper_def is_lower_def is_digit_def code_def)
  note no = j(2-4) [THEN not_ahead_part, OF this]
  have "hd r \<noteq> CHR ''-''" using j(1) \<open>r \<noteq> []\<close> by (auto simp: Chr_def hd_conv_nth)
  moreover have "last r \<notin> set ''./''" using j(6) len p(1) \<open>r \<noteq> []\<close> by (simp add: last_conv_nth)
  ultimately show ?thesis using p(1,2) len chars no r(3) by (simp add: valid_ref_def)
qed

section \<open>Repositories\<close>

text \<open>
  C27: What \<open>parse_repo_url\<close> accepts.  The owner is a GitHub owner of 1 to 39 letters, digits
  and single inner hyphens, the name has 1 to 100 of the allowed characters, each but for a
  final newline the rules let through, so the owner and the name contain no slash and the
  clone URL names exactly the host, the owner and the name.  A ref is not an option, has no
  \<open>..\<close>, \<open>//\<close> or an at sign before a brace, and does not end in a dot, a slash or \<open>.lock\<close>.
\<close>

theorem parse_repo_url_valid:
  assumes "parse_repo_url ops url ref = Inr r"
  shows "(\<exists>t. up_to_newline t (rr_owner r) \<and> valid_owner t)
    \<and> (\<exists>t. up_to_newline t (rr_name r) \<and> 1 \<le> length t \<and> length t \<le> 100 \<and> (\<forall>c \<in> set t. repo_char c))
    \<and> rr_name r \<notin> {''.'', ''..''}
    \<and> split_on CHR ''/'' (clone_url r) = [''https:'', [], ''github.com'', rr_owner r, rr_name r @ ''.git'']
    \<and> (\<forall>t. rr_ref r = Some t \<longrightarrow> valid_ref t)"
proof -
  have rules: "rx_match OWNER (rr_owner r)" "rx_match REPO (rr_name r)" "rr_name r \<notin> {''.'', ''..''}"
      "\<And>t. rr_ref r = Some t \<Longrightarrow> valid_ref t"
    using assms validate_ref_Inr
    by (auto simp: parse_repo_url_def Let_def split: if_splits option.splits sum.splits)
  from rx_match_OWNER [OF rules(1)] obtain t where t: "up_to_newline t (rr_owner r)" "valid_owner t" .
  from rx_match_REPO [OF rules(2)] obtain u where
    u: "up_to_newline u (rr_name r)" "1 \<le> length u" "length u \<le> 100" "\<forall>c \<in> set u. repo_char c" .
  have "CHR ''/'' \<notin> set t"
    using t(2) unfolding valid_owner_def in_set_conv_nth
    by (auto simp: is_alnum_ascii_def is_upper_def is_lower_def is_digit_def code_def)
  then have owner: "CHR ''/'' \<notin> set (rr_owner r)" using t(1) by (auto simp: up_to_newline_def)
  have "CHR ''/'' \<notin> set u"
    using u(4) by (auto simp: repo_char_def is_alnum_ascii_def is_upper_def is_lower_def is_digit_def code_def)
  then have name: "CHR ''/'' \<notin> set (rr_name r @ ''.git'')" using u(1) by (auto simp: up_to_newline_def)
  have url: "clone_url r = join ''/'' [''https:'', [], ''github.com'', rr_owner r, rr_name r @ ''.git'']"
    by (simp add: clone_url_def)
  have "split_on CHR ''/'' (clone_url r) = [''https:'', [], ''github.com'', rr_owner r, rr_name r @ ''.git'']"
    unfolding url by (rule split_on_join) (use owner name in auto)
  then show ?thesis using t u rules(3,4) by blast
qed

text \<open>
  The newline is real: an encoded one at the end of the path becomes part of the name, and
  escapes the test for \<open>..\<close>.
\<close>

definition plain_unicode :: unicode_ops where
  "plain_unicode = \<lparr>uo_netloc_ok = (\<lambda>_. False), uo_idna = (\<lambda>_. None), uo_utf8 = id\<rparr>"

theorem parse_repo_url_valid_witness:
  "case parse_repo_url plain_unicode ''https://github.com/o-w/..%0A'' (Some ''main'') of
     Inl _ \<Rightarrow> False
   | Inr r \<Rightarrow> rr_name r = ''..'' @ [CHR 0x0A] \<and> (\<forall>t. rr_ref r = Some t \<longrightarrow> valid_ref t)"
proof -
  have run: "parse_repo_url plain_unicode ''https://github.com/o-w/..%0A'' (Some ''main'') =
     Inr \<lparr>rr_owner = ''o-w'', rr_name = ''..'' @ [CHR 0x0A], rr_ref = Some ''main''\<rparr>"
    by code_simp
  then show ?thesis using parse_repo_url_valid [OF run] by simp
qed

end
