(* ===== verification/Lexical.thy ===== *)
theory Lexical
  imports Regex_Scan
begin

text \<open>
  \<open>web/lexical.py\<close>: the edit distance by rows, look-alike characters, tokens and mentions of
  a brand.  \<open>skeleton\<close>, which depends on the Unicode tables, is an argument of what uses it.
\<close>

section \<open>Edit distance\<close>

text \<open>
  The rest of a row: the entry to the left, the characters of \<open>b\<close> still to come, and the
  previous row from the entry up left on.
\<close>

fun row_rest :: "char \<Rightarrow> nat \<Rightarrow> string \<Rightarrow> nat list \<Rightarrow> nat list" where
  "row_rest char_a left (char_b # bs) (diagonal # up # previous) =
     (let entry = min (up + 1) (min (left + 1) (diagonal + (if char_a \<noteq> char_b then 1 else 0)))
      in entry # row_rest char_a entry bs (up # previous))"
| "row_rest char_a left bs previous = []"

definition next_row :: "nat \<Rightarrow> char \<Rightarrow> string \<Rightarrow> nat list \<Rightarrow> nat list" where
  "next_row i char_a b previous = i # row_rest char_a i b previous"

fun rows_from :: "nat \<Rightarrow> string \<Rightarrow> string \<Rightarrow> nat list \<Rightarrow> nat list" where
  "rows_from i [] b previous = previous"
| "rows_from i (char_a # a) b previous = rows_from (Suc i) a b (next_row i char_a b previous)"

definition levenshtein :: "string \<Rightarrow> string \<Rightarrow> nat" where
  "levenshtein a b =
     (if a = b then 0
      else (let (a, b) = (if length a < length b then (b, a) else (a, b))
            in last (rows_from 1 a b [0..<Suc (length b)])))"

section \<open>Look-alikes\<close>

definition ASCII_LOOKALIKES :: "(string \<times> string) list" where
  "ASCII_LOOKALIKES =
     [(''rn'', ''m''), (''vv'', ''w''), (''cl'', ''d''), (''0'', ''o''), (''1'', ''l''), (''3'', ''e''),
      (''5'', ''s''), (''7'', ''t'')]"

text \<open>\<open>text.replace(old, new)\<close> of a non-empty string.\<close>

function replace_all :: "string \<Rightarrow> string \<Rightarrow> string \<Rightarrow> string" where
  "replace_all old new s =
     (if s = [] then []
      else if old \<noteq> [] \<and> starts_with old s then new @ replace_all old new (drop (length old) s)
      else hd s # replace_all old new (tl s))"
  by pat_completeness auto
termination
  by (relation "measure (\<lambda>(old, new, s). length s)") auto

declare replace_all.simps [simp del]

definition ascii_skeleton :: "(string \<Rightarrow> string) \<Rightarrow> string \<Rightarrow> string" where
  "ascii_skeleton skeleton label =
     foldl (\<lambda>text (lookalike, letter). replace_all lookalike letter text) (skeleton label) ASCII_LOOKALIKES"

definition label_tokens :: "string \<Rightarrow> string list" where
  "label_tokens label = filter (\<lambda>t. t \<noteq> []) (rx_split (Plus (Cls (\<lambda>c. \<not> is_lower c))) (lower label))"

section \<open>Mentions\<close>

definition AMBIGUOUS_KEYWORDS :: "string list" where
  "AMBIGUOUS_KEYWORDS = [''ups'', ''steam'', ''apple'', ''chase bank'', ''adobe'', ''yahoo'']"

definition whole_word :: "rx list \<Rightarrow> rx" where
  "whole_word body = Seqs ([NotBehind is_word] @ body @ [NotAhead (Cls is_word)])"

definition mentions :: "string \<Rightarrow> string \<Rightarrow> bool" where
  "mentions text keyword \<longleftrightarrow>
     keyword \<notin> set AMBIGUOUS_KEYWORDS
     \<and> rx_search (whole_word (map (\<lambda>k. Cls (\<lambda>c. lower_char c = lower_char k)) keyword)) text"

definition title_mentions :: "string \<Rightarrow> string \<Rightarrow> string \<Rightarrow> bool" where
  "title_mentions title keyword brand_name \<longleftrightarrow>
     (if keyword \<in> set AMBIGUOUS_KEYWORDS then rx_search (whole_word (map Chr brand_name)) title
      else mentions title keyword)"

section \<open>The distance is minimal\<close>

text \<open>One insertion, deletion or substitution, and a chain of them.\<close>

inductive one_edit :: "'a list \<Rightarrow> 'a list \<Rightarrow> bool" where
  insert_one: "one_edit (p @ q) (p @ x # q)"
| delete_one: "one_edit (p @ x # q) (p @ q)"
| replace_one: "one_edit (p @ x # q) (p @ y # q)"

inductive edits :: "nat \<Rightarrow> 'a list \<Rightarrow> 'a list \<Rightarrow> bool" where
  no_edit: "edits 0 s s"
| one_more: "one_edit s t \<Longrightarrow> edits n t u \<Longrightarrow> edits (Suc n) s u"

fun min_dist :: "'a list \<Rightarrow> 'a list \<Rightarrow> nat" where
  "min_dist [] ys = length ys"
| "min_dist xs [] = length xs"
| "min_dist (x # xs) (y # ys) =
     min (min_dist xs (y # ys) + 1) (min (min_dist (x # xs) ys + 1)
       (min_dist xs ys + (if x \<noteq> y then 1 else 0)))"

lemma min_dist_Nil2 [simp]: "min_dist xs [] = length xs"
  by (cases xs) auto

lemma min_dist_refl [simp]: "min_dist xs xs = 0"
  by (induction xs) auto

lemma min_dist_Cons1: "min_dist (x # q) u \<le> Suc (min_dist q u)"
  by (cases u) auto

lemma min_dist_Cons2: "min_dist q (y # ys) \<le> Suc (min_dist q ys)"
  by (cases q) auto

lemma min_dist_uncons: "min_dist q u \<le> Suc (min_dist (x # q) u)"
proof (induction u)
  case (Cons y ys)
  then show ?case using min_dist_Cons2 [of q y ys] by auto
qed simp

text \<open>A single edit changes the distance to any string by at most one.\<close>

lemma min_dist_prefix:
  assumes base: "\<And>u. min_dist s u \<le> Suc (min_dist t u)"
  shows "min_dist (p @ s) u \<le> Suc (min_dist (p @ t) u)"
proof (induction p arbitrary: u)
  case (Cons c p)
  note IH = this
  show ?case
  proof (induction u)
    case Nil
    then show ?case using IH [of "[]"] by simp
  next
    case (Cons y ys)
    then show ?case using IH [of "y # ys"] IH [of ys] by auto
  qed
qed (simp add: base)

lemma min_dist_replace: "min_dist (x # q) u \<le> Suc (min_dist (y # q) u)"
proof (induction u)
  case (Cons z u)
  then show ?case by auto
qed simp

lemma one_edit_min_dist: "one_edit s t \<Longrightarrow> min_dist s u \<le> Suc (min_dist t u)"
  by (induction rule: one_edit.induct)
    (rule min_dist_prefix, (rule min_dist_uncons min_dist_Cons1 min_dist_replace))+

lemma edits_min_dist: "edits n s u \<Longrightarrow> min_dist s u \<le> n"
proof (induction rule: edits.induct)
  case (one_more s t n u)
  then show ?case using one_edit_min_dist [of s t u] by linarith
qed simp

lemma edits_trans: "edits m s t \<Longrightarrow> edits n t u \<Longrightarrow> edits (m + n) s u"
  by (induction rule: edits.induct) (auto intro: edits.intros)

lemma one_edit_Cons: "one_edit s t \<Longrightarrow> one_edit (c # s) (c # t)"
proof (induction rule: one_edit.induct)
  case (insert_one p q x)
  then show ?case using one_edit.insert_one [of "c # p" q x] by simp
next
  case (delete_one p x q)
  then show ?case using one_edit.delete_one [of "c # p" x q] by simp
next
  case (replace_one p x q y)
  then show ?case using one_edit.replace_one [of "c # p" x q y] by simp
qed

lemma edits_Cons: "edits n s t \<Longrightarrow> edits n (c # s) (c # t)"
  by (induction rule: edits.induct) (auto intro: edits.intros one_edit_Cons)

lemma edits_min: "edits (min_dist s t) s t"
proof (induction s t rule: min_dist.induct)
  case (1 ys)
  show ?case
  proof (induction ys)
    case (Cons y ys)
    have "one_edit [] [y]" using insert_one [of "[]" "[]" y] by simp
    moreover have "edits (length ys) [y] (y # ys)" using edits_Cons [OF Cons] by simp
    ultimately show ?case by (auto intro: one_more)
  qed (auto intro: no_edit)
next
  case (2 v va)
  have "edits (length xs) xs []" for xs :: "'a list"
  proof (induction xs)
    case (Cons x xs)
    have "one_edit (x # xs) xs" using delete_one [of "[]" x xs] by simp
    with Cons show ?case by (auto intro: one_more)
  qed (auto intro: no_edit)
  from this [of "v # va"] show ?case by simp
next
  case (3 x xs y ys)
  have del: "one_edit (x # xs) xs" and ins: "one_edit (x # xs) (y # x # xs)" and rep: "one_edit (x # xs) (y # xs)"
    using delete_one [of "[]" x xs] insert_one [of "[]" "x # xs" y] replace_one [of "[]" x xs y] by simp_all
  have "edits (Suc (min_dist xs (y # ys))) (x # xs) (y # ys)" by (rule one_more [OF del 3(1)])
  moreover have "edits (Suc (min_dist (x # xs) ys)) (x # xs) (y # ys)"
    by (rule one_more [OF ins edits_Cons [OF 3(2)]])
  moreover have "edits (min_dist xs ys + (if x \<noteq> y then 1 else 0)) (x # xs) (y # ys)"
    using edits_Cons [OF 3(3), of y] one_more [OF rep] by auto
  ultimately show ?case by (auto simp: min_def)
qed

section \<open>The rows compute it\<close>

lemma min_dist_snoc_step:
  "row_rest c (min_dist (c # a) (rev b1)) b2 (map (\<lambda>j. min_dist a (rev (take j (b1 @ b2)))) [length b1..<Suc (length (b1 @ b2))])
     = map (\<lambda>j. min_dist (c # a) (rev (take j (b1 @ b2)))) [Suc (length b1)..<Suc (length (b1 @ b2))]"
proof (induction b2 arbitrary: b1)
  case (Cons d b2)
  let ?b = "b1 @ d # b2"
  have split: "[length b1..<Suc (length ?b)] = length b1 # Suc (length b1) # [Suc (Suc (length b1))..<Suc (length ?b)]"
      "[Suc (length b1)..<Suc (length ?b)] = Suc (length b1) # [Suc (Suc (length b1))..<Suc (length ?b)]"
    by (simp_all add: upt_conv_Cons del: upt_Suc)
  have entry: "min (min_dist a (rev (take (Suc (length b1)) ?b)) + 1)
      (min (min_dist (c # a) (rev b1) + 1) (min_dist a (rev (take (length b1) ?b)) + (if c \<noteq> d then 1 else 0)))
      = min_dist (c # a) (rev (b1 @ [d]))"
    by simp
  show ?case
    using Cons [of "b1 @ [d]"] entry unfolding split by (simp add: upt_conv_Cons Let_def del: upt_Suc)
qed (simp del: upt_Suc)

lemma next_row_dist:
  "next_row (Suc (length a)) c b (map (\<lambda>j. min_dist a (rev (take j b))) [0..<Suc (length b)])
     = map (\<lambda>j. min_dist (c # a) (rev (take j b))) [0..<Suc (length b)]"
  using min_dist_snoc_step [of c a "[]" b] by (simp add: next_row_def upt_conv_Cons del: upt_Suc)

lemma rows_from_dist:
  "rows_from (Suc (length s)) a b (map (\<lambda>j. min_dist s (rev (take j b))) [0..<Suc (length b)])
     = map (\<lambda>j. min_dist (rev a @ s) (rev (take j b))) [0..<Suc (length b)]"
proof (induction a arbitrary: s)
  case (Cons c a)
  then show ?case using next_row_dist [of s c b] Cons [of "c # s"] by (simp del: upt_Suc)
qed simp

lemma one_edit_rev: "one_edit s t \<Longrightarrow> one_edit (rev s) (rev t)"
proof (induction rule: one_edit.induct)
  case (insert_one p q x)
  then show ?case using one_edit.insert_one [of "rev q" "rev p" x] by simp
next
  case (delete_one p x q)
  then show ?case using one_edit.delete_one [of "rev q" x "rev p"] by simp
next
  case (replace_one p x q y)
  then show ?case using one_edit.replace_one [of "rev q" x "rev p" y] by simp
qed

lemma one_edit_sym: "one_edit s t \<Longrightarrow> one_edit t s"
  by (induction rule: one_edit.induct) (auto intro: one_edit.intros)

lemma edits_rev: "edits n s t \<Longrightarrow> edits n (rev s) (rev t)"
  by (induction rule: edits.induct) (auto intro: edits.intros one_edit_rev)

lemma edits_sym: "edits n s t \<Longrightarrow> edits n t s"
proof (induction rule: edits.induct)
  case (one_more s t n u)
  have "edits (Suc 0) t s" using one_edit_sym [OF one_more(1)] by (auto intro: edits.intros)
  from edits_trans [OF one_more(3) this] show ?case by simp
qed (rule no_edit)

lemma min_dist_le: "min_dist s t \<le> n \<longleftrightarrow> (\<exists>m \<le> n. edits m s t)"
  using edits_min edits_min_dist by (meson le_trans)

lemma min_dist_rev [simp]: "min_dist (rev s) (rev t) = min_dist s t"
  using edits_rev [of _ s t] edits_rev [of _ "rev s" "rev t"] edits_min edits_min_dist
  by (metis dual_order.antisym rev_rev_ident)

lemma min_dist_sym: "min_dist s t = min_dist t s"
  using edits_sym edits_min edits_min_dist by (metis dual_order.antisym)

lemma levenshtein_min_dist: "levenshtein a b = min_dist a b"
proof -
  have rows: "last (rows_from 1 a b [0..<Suc (length b)]) = min_dist a b" for a b
  proof -
    have "[0..<Suc (length b)] = map (\<lambda>j. min_dist [] (rev (take j b))) [0..<Suc (length b)]"
      by (rule nth_equalityI) (simp_all del: upt_Suc)
    then show ?thesis using rows_from_dist [of "[]" a b] by (simp add: last_map)
  qed
  then show ?thesis using min_dist_sym by (auto simp: levenshtein_def Let_def simp del: upt_Suc)
qed

lemma levenshtein_minimal:
  "edits (levenshtein a b) a b" "edits n a b \<Longrightarrow> levenshtein a b \<le> n"
  by (simp_all add: levenshtein_min_dist edits_min edits_min_dist)

end
