(* ===== verification/Web_Domains.thy ===== *)
theory Web_Domains
  imports Lexical
begin

text \<open>
  \<open>web/brands.py\<close> and the data of \<open>web/intel.py\<close>: the impersonated brands with their
  domains, the parts of a host name over an extractor of public suffixes given as an argument,
  and what the lookups report.  Times are microseconds.
\<close>

section \<open>Brands\<close>

datatype brand =
  Brand (br_key: string) (br_name: string) (br_domains: "string list") (br_keywords: "string list")

definition brand_labels :: "brand \<Rightarrow> string list" where
  "brand_labels b =
     dict_fromkeys (filter (\<lambda>l. 4 \<le> length l) (map (before CHR ''.'') (br_domains b)))"

definition BRANDS :: "brand list" where
  "BRANDS =
   [
    Brand ''paypal'' ''PayPal''
      [''paypal.com'', ''paypal.me'', ''paypalobjects.com'']
      [''paypal''],
    Brand ''microsoft'' ''Microsoft''
      [''microsoft.com'', ''microsoftonline.com'', ''live.com'', ''office.com'',
       ''outlook.com'', ''office365.com'', ''sharepoint.com'', ''onedrive.com'', ''msauth.net'']
      [''microsoft'', ''office 365'', ''microsoft 365'', ''outlook'', ''onedrive'',
       ''sharepoint''],
    Brand ''apple'' ''Apple''
      [''apple.com'', ''icloud.com'']
      [''apple id'', ''icloud'', ''apple''],
    Brand ''google'' ''Google''
      [''google.com'', ''gmail.com'', ''youtube.com'', ''googleapis.com'', ''gstatic.com'']
      [''google'', ''gmail''],
    Brand ''amazon'' ''Amazon''
      [''amazon.com'', ''amazon.co.uk'', ''amazon.de'', ''amazon.in'', ''amazonaws.com'',
       ''media-amazon.com'']
      [''amazon''],
    Brand ''netflix'' ''Netflix''
      [''netflix.com'', ''nflxext.com'']
      [''netflix''],
    Brand ''facebook'' ''Facebook''
      [''facebook.com'', ''fb.com'', ''fbcdn.net'']
      [''facebook''],
    Brand ''instagram'' ''Instagram''
      [''instagram.com'', ''cdninstagram.com'']
      [''instagram''],
    Brand ''whatsapp'' ''WhatsApp''
      [''whatsapp.com'', ''whatsapp.net'']
      [''whatsapp''],
    Brand ''linkedin'' ''LinkedIn''
      [''linkedin.com'', ''licdn.com'']
      [''linkedin''],
    Brand ''dhl'' ''DHL''
      [''dhl.com'', ''dhl.de'']
      [''dhl''],
    Brand ''fedex'' ''FedEx''
      [''fedex.com'']
      [''fedex''],
    Brand ''ups'' ''UPS''
      [''ups.com'']
      [''ups''],
    Brand ''usps'' ''USPS''
      [''usps.com'']
      [''usps''],
    Brand ''chase'' ''Chase''
      [''chase.com'', ''jpmorganchase.com'']
      [''chase bank'', ''jpmorgan chase''],
    Brand ''bankofamerica'' ''Bank of America''
      [''bankofamerica.com'', ''bofa.com'']
      [''bank of america''],
    Brand ''wellsfargo'' ''Wells Fargo''
      [''wellsfargo.com'', ''wf.com'']
      [''wells fargo''],
    Brand ''coinbase'' ''Coinbase''
      [''coinbase.com'']
      [''coinbase''],
    Brand ''binance'' ''Binance''
      [''binance.com'']
      [''binance''],
    Brand ''metamask'' ''MetaMask''
      [''metamask.io'']
      [''metamask''],
    Brand ''dropbox'' ''Dropbox''
      [''dropbox.com'', ''dropboxusercontent.com'']
      [''dropbox''],
    Brand ''docusign'' ''DocuSign''
      [''docusign.com'', ''docusign.net'']
      [''docusign''],
    Brand ''adobe'' ''Adobe''
      [''adobe.com'', ''adobelogin.com'']
      [''adobe''],
    Brand ''att'' ''AT&T''
      [''att.com'', ''att.net'']
      [''at&t''],
    Brand ''steam'' ''Steam''
      [''steampowered.com'', ''steamcommunity.com'']
      [''steam''],
    Brand ''ebay'' ''eBay''
      [''ebay.com'', ''ebay.co.uk'', ''ebayimg.com'']
      [''ebay''],
    Brand ''wetransfer'' ''WeTransfer''
      [''wetransfer.com'', ''we.tl'']
      [''wetransfer''],
    Brand ''yahoo'' ''Yahoo''
      [''yahoo.com'', ''yimg.com'']
      [''yahoo''],
    Brand ''irs'' ''IRS''
      [''irs.gov'']
      [''internal revenue service''],
    Brand ''hmrc'' ''HMRC''
      [''www.gov.uk'', ''hmrc.gov.uk'', ''tax.service.gov.uk'']
      [''hmrc'']
   ]"

definition brand_by_key :: "string \<Rightarrow> brand option" where
  "brand_by_key key = find (\<lambda>b. br_key b = key) BRANDS"

text \<open>A brand owns a domain, or a host at or below one of its domains.\<close>

definition owns_domain :: "string \<Rightarrow> string option \<Rightarrow> brand \<Rightarrow> bool" where
  "owns_domain registrable host b \<longleftrightarrow>
     registrable \<in> set (br_domains b)
     \<or> (case host of
          None \<Rightarrow> False
        | Some h \<Rightarrow> h \<noteq> [] \<and> list_ex (\<lambda>d. h = d \<or> ends_with (CHR ''.'' # d) h) (br_domains b))"

definition brand_for_domain :: "string \<Rightarrow> string option \<Rightarrow> brand option" where
  "brand_for_domain registrable host = find (owns_domain registrable host) BRANDS"

section \<open>Host names\<close>

text \<open>What the extractor of public suffixes reports.\<close>

record tld_parts =
  tp_subdomain :: string
  tp_domain :: string
  tp_suffix :: string
  tp_top_domain :: string
  tp_private :: bool

record domain_parts =
  dp_host :: string
  dp_subdomain :: string
  dp_label :: string
  dp_suffix :: string
  dp_registrable :: string
  dp_hosting_platform :: bool

definition HOSTING_PLATFORMS :: "string list" where
  "HOSTING_PLATFORMS =
     [''weebly.com'', ''weeblysite.com'', ''godaddysites.com'', ''wixsite.com'',
      ''wixstudio.io'', ''square.site'', ''webflow.io'', ''framer.app'', ''framer.website'',
      ''gitbook.io'', ''notion.site'', ''glitch.me'', ''replit.app'', ''repl.co'',
      ''replit.dev'', ''railway.app'', ''onrender.com'', ''000webhostapp.com'',
      ''wordpress.com'', ''carrd.co'', ''mystrikingly.com'', ''jimdosite.com'', ''site123.me'',
      ''yolasite.com'', ''webnode.page'', ''tilda.ws'', ''myshopify.com'', ''hstn.me'',
      ''ukit.me'', ''canva.site'', ''my.canva.site'', ''typedream.app'', ''glide.page'',
      ''softr.app'', ''wiki.gd'', ''blogspot.com'', ''bubbleapps.io'', ''hpage.com'']"

definition split_domain :: "(string \<Rightarrow> tld_parts) \<Rightarrow> string \<Rightarrow> domain_parts" where
  "split_domain extract host =
     (let parts = extract host;
          registrable = (if tp_top_domain parts = [] then host else tp_top_domain parts)
      in if registrable \<in> set HOSTING_PLATFORMS \<and> tp_subdomain parts \<noteq> []
         then (let labels = split_on CHR ''.'' (tp_subdomain parts); tenant = last labels
               in \<lparr>dp_host = host, dp_subdomain = join ''.'' (butlast labels), dp_label = tenant,
                   dp_suffix = registrable, dp_registrable = tenant @ ''.'' @ registrable,
                   dp_hosting_platform = True\<rparr>)
         else \<lparr>dp_host = host, dp_subdomain = tp_subdomain parts, dp_label = tp_domain parts,
               dp_suffix = tp_suffix parts, dp_registrable = registrable,
               dp_hosting_platform = tp_private parts\<rparr>)"

section \<open>Lookups\<close>

record registration =
  rg_registered_at :: "int option"
  rg_registrar :: "string option"

record dns_info =
  di_a :: "string list"
  di_aaaa :: "string list"
  di_mx :: "string list"
  di_error :: "string option"

record certificate_info =
  ci_not_before :: "int option"
  ci_hostname_matches :: "bool option"
  ci_trusted :: "bool option"
  ci_error :: "string option"

record reputation =
  rp_source :: string
  rp_listed :: "bool option"
  rp_detail :: "string option"

definition hostname_matches :: "string \<Rightarrow> string list \<Rightarrow> bool" where
  "hostname_matches host names \<longleftrightarrow>
     (let clean = (\<lambda>s. rstrip_by (\<lambda>c. c = CHR ''.'') (lower s)); h = clean host
      in list_ex (\<lambda>name. let n = clean name in
           n = h \<or> (starts_with ''*.'' n \<and> count_list h CHR ''.'' = count_list n CHR ''.''
                     \<and> ends_with (drop 1 n) h)) names)"

end
