(* ===== verification/Risk.thy ===== *)
theory Risk
  imports Web_Domains Net_Guard
begin

text \<open>
  \<open>web/risk.py\<close>: the evidence for a phishing or clone page and the score it adds up to.
  A piece of evidence is its signal, category, points, status and the brand it names; the
  sentences and the other details of its value are left out.  An assessment is an option:
  \<open>None\<close> is the \<open>ValueError\<close> that \<open>urlsplit\<close> raises and nothing here catches.  The
  extractor of suffixes, \<open>skeleton\<close> and the distance of two image hashes are arguments.
\<close>

section \<open>Tables\<close>

definition WEIGHTS :: "(string \<times> int) list" where
  "WEIGHTS =
     [(''domain_age_under_7d'', 25), (''domain_age_under_30d'', 18),
      (''domain_age_under_90d'', 10), (''domain_age_under_1y'', 4),
      (''domain_age_over_3y'', - 8), (''tld_high_risk'', 8), (''tld_elevated_risk'', 4),
      (''ip_address_host'', 15), (''hosting_platform'', 6), (''deep_subdomain'', 5),
      (''punycode'', 8), (''homoglyph_brand'', 30), (''typosquat_brand'', 25),
      (''brand_in_domain'', 20), (''brand_name_other_suffix'', 20),
      (''brand_in_subdomain'', 18), (''no_mx_record'', 3), (''no_https'', 8),
      (''cert_untrusted'', 12), (''cert_hostname_mismatch'', 15), (''cert_new'', 5),
      (''visual_match_strong'', 35), (''visual_match_moderate'', 18), (''favicon_match'', 30),
      (''brand_in_title'', 15), (''brand_in_text_with_credentials'', 8),
      (''links_to_brand'', 15), (''password_field'', 8), (''payment_fields'', 10),
      (''credentials_cross_domain_form'', 22), (''sensitive_fields_insecure'', 15),
      (''cross_domain_redirect'', 4), (''reputation_safe_browsing'', 60),
      (''reputation_openphish_url'', 60), (''reputation_openphish_host'', 35)]"

definition VISUAL_STRONG :: real where
  "VISUAL_STRONG = 0.90"

definition VISUAL_MODERATE :: real where
  "VISUAL_MODERATE = 0.84"

definition FAVICON_MATCH :: real where
  "FAVICON_MATCH = 0.95"

definition HIGH_RISK_TLDS :: "string list" where
  "HIGH_RISK_TLDS =
     [''tk'', ''ml'', ''ga'', ''cf'', ''gq'', ''top'', ''xyz'', ''icu'', ''buzz'', ''cyou'',
      ''rest'', ''sbs'', ''cfd'', ''bond'', ''click'', ''zip'', ''mov'', ''quest'', ''cam'',
      ''monster'', ''lol'', ''bar'', ''support'']"

definition ELEVATED_RISK_TLDS :: "string list" where
  "ELEVATED_RISK_TLDS =
     [''online'', ''site'', ''live'', ''shop'', ''store'', ''info'', ''club'', ''vip'',
      ''work'', ''life'', ''pw'', ''ru'', ''cn'', ''cc'', ''ws'', ''win'', ''loan'', ''link'',
      ''digital'', ''app'', ''dev'', ''page'']"

section \<open>Data\<close>

record evidence =
  ev_signal :: string
  ev_category :: string
  ev_points :: int
  ev_status :: string
  ev_brand :: "string option"

record form_input =
  fi_type :: "string option"
  fi_card_like :: bool

record page_form =
  pf_action :: string
  pf_inputs :: "form_input list"

record capture =
  cp_final_url :: string
  cp_redirects :: "string list"
  cp_title :: string
  cp_text :: string
  cp_links :: "string list"
  cp_forms :: "page_form list"
  cp_orphan_inputs :: "form_input list"

record image_hashes =
  ih_phash :: string
  ih_dhash :: string
  ih_low_information :: bool

record favicon_hashes =
  fh_sha256 :: string
  fh_phash :: "string option"

record reference =
  rf_brand :: string
  rf_phash :: string
  rf_dhash :: string
  rf_low_information :: bool
  rf_favicon_sha256 :: "string option"
  rf_favicon_phash :: "string option"

record risk_inputs =
  ri_capture :: capture
  ri_registration :: "registration option"
  ri_dns :: "dns_info option"
  ri_certificate :: "certificate_info option"
  ri_reputation :: "reputation list"
  ri_screenshot :: "image_hashes option"
  ri_favicon :: "favicon_hashes option"
  ri_references :: "reference list"
  ri_now :: int

record risk_env =
  rv_unicode :: unicode_ops
  rv_extract :: "string \<Rightarrow> tld_parts"
  rv_skeleton :: "string \<Rightarrow> string"
  rv_distance :: "string \<Rightarrow> string \<Rightarrow> nat"

record risk_report =
  rr_score :: int
  rr_level :: string
  rr_summary :: "evidence list"
  rr_evidence :: "evidence list"
  rr_impersonated_brand :: "string option"
  rr_visual_match :: "(string \<times> real) option"

definition fired :: "string \<Rightarrow> string \<Rightarrow> string option \<Rightarrow> evidence" where
  "fired signal category brand =
     \<lparr>ev_signal = signal, ev_category = category, ev_points = the (map_of WEIGHTS signal),
      ev_status = ''fired'', ev_brand = brand\<rparr>"

definition info :: "string \<Rightarrow> string \<Rightarrow> string option \<Rightarrow> string \<Rightarrow> evidence" where
  "info signal category brand status =
     \<lparr>ev_signal = signal, ev_category = category, ev_points = 0, ev_status = status, ev_brand = brand\<rparr>"

definition parts_of :: "risk_env \<Rightarrow> string \<Rightarrow> domain_parts" where
  "parts_of env host = split_domain (rv_extract env) host"

text \<open>\<open>_host\<close>: the host, if there is one; \<open>None\<close> is a \<open>ValueError\<close>.\<close>

definition host_of :: "risk_env \<Rightarrow> string \<Rightarrow> string option option" where
  "host_of env url =
     (case normalize_url (rv_unicode env) url of
        Inr u \<Rightarrow> Some (Some (nu_host u))
      | Inl Value_error \<Rightarrow> None
      | Inl (Blocked _) \<Rightarrow>
          map_option (\<lambda>p. if hostname p = [] then None else Some (hostname p)) (urlsplit (rv_unicode env) url))"

section \<open>Domain\<close>

definition days_between :: "int \<Rightarrow> int \<Rightarrow> int" where
  "days_between now earlier = (now - earlier) div 86400000000"

definition age_evidence :: "int \<Rightarrow> evidence" where
  "age_evidence days =
     (if days < 7 then fired ''domain_age_under_7d'' ''domain'' None
      else if days < 30 then fired ''domain_age_under_30d'' ''domain'' None
      else if days < 90 then fired ''domain_age_under_90d'' ''domain'' None
      else if days < 365 then fired ''domain_age_under_1y'' ''domain'' None
      else if 3 * 365 \<le> days then fired ''domain_age_over_3y'' ''domain'' None
      else info ''domain_age'' ''domain'' None ''clear'')"

definition registration_evidence :: "risk_inputs \<Rightarrow> evidence list" where
  "registration_evidence inputs =
     (case ri_registration inputs of
        None \<Rightarrow> [info ''domain_age'' ''domain'' None ''unavailable'']
      | Some r \<Rightarrow>
          (case rg_registered_at r of
             None \<Rightarrow> [info ''domain_age'' ''domain'' None ''unavailable'']
           | Some t \<Rightarrow>
               age_evidence (days_between (ri_now inputs) t)
               # (if rg_registrar r = None \<or> rg_registrar r = Some [] then []
                  else [info ''registrar'' ''domain'' None ''info''])))"

definition digit_like :: "char \<Rightarrow> bool" where
  "digit_like c \<longleftrightarrow> is_digit c \<or> code c \<in> {178, 179, 185}"

definition is_ip_host :: "string \<Rightarrow> bool" where
  "is_ip_host host \<longleftrightarrow>
     (let digits = filter (\<lambda>c. c \<noteq> CHR ''.'') host
      in (digits \<noteq> [] \<and> list_all digit_like digits) \<or> CHR '':'' \<in> set host)"

definition suffix_evidence :: "domain_parts \<Rightarrow> evidence list" where
  "suffix_evidence parts =
     (let tld = (if dp_suffix parts = [] then [] else last (split_on CHR ''.'' (dp_suffix parts)))
      in if dp_hosting_platform parts then [fired ''hosting_platform'' ''domain'' None]
         else if tld \<in> set HIGH_RISK_TLDS then [fired ''tld_high_risk'' ''domain'' None]
         else if tld \<in> set ELEVATED_RISK_TLDS then [fired ''tld_elevated_risk'' ''domain'' None]
         else [])"

definition has_text :: "'a list \<Rightarrow> 'a list \<Rightarrow> bool" where
  "has_text sub s \<longleftrightarrow> list_ex (\<lambda>i. starts_with sub (drop i s)) [0..<Suc (length s)]"

text \<open>The checks of one label of a brand, in order.\<close>

definition label_signal :: "risk_env \<Rightarrow> domain_parts \<Rightarrow> brand \<Rightarrow> string \<Rightarrow> string option" where
  "label_signal env parts b brand_label =
     (let label = lower (dp_label parts);
          label_skeleton = ascii_skeleton (rv_skeleton env) label;
          distance = levenshtein label brand_label;
          limit = (if length brand_label < 6 then 0 else if length brand_label < 9 then 1 else 2)
      in if label \<noteq> brand_label \<and> (label_skeleton = brand_label \<or> rv_skeleton env label = brand_label)
         then Some ''homoglyph_brand''
         else if 0 < distance \<and> distance \<le> limit then Some ''typosquat_brand''
         else if (brand_label \<in> set (label_tokens label_skeleton) \<and> 1 < length (label_tokens label_skeleton))
                 \<or> (5 \<le> length brand_label \<and> has_text brand_label label_skeleton \<and> label_skeleton \<noteq> brand_label)
         then Some ''brand_in_domain''
         else if brand_label \<in> set (label_tokens (dp_subdomain parts))
                 \<or> list_ex (\<lambda>d. has_text d (dp_subdomain parts)) (br_domains b)
         then Some ''brand_in_subdomain''
         else None)"

fun find_map :: "('a \<Rightarrow> 'b option) \<Rightarrow> 'a list \<Rightarrow> 'b option" where
  "find_map f [] = None"
| "find_map f (x # xs) = (case f x of Some y \<Rightarrow> Some y | None \<Rightarrow> find_map f xs)"

definition imitated_brand :: "risk_env \<Rightarrow> domain_parts \<Rightarrow> (evidence \<times> brand) option" where
  "imitated_brand env parts =
     (case find (\<lambda>b. lower (dp_label parts) \<in> set (brand_labels b)
                     \<and> dp_registrable parts \<notin> set (br_domains b)) BRANDS of
        Some b \<Rightarrow> Some (fired ''brand_name_other_suffix'' ''domain'' (Some (br_key b)), b)
      | None \<Rightarrow>
          find_map (\<lambda>b. map_option (\<lambda>signal. (fired signal ''domain'' (Some (br_key b)), b))
            (find_map (label_signal env parts b) (brand_labels b))) BRANDS)"

definition mail_evidence :: "risk_inputs \<Rightarrow> domain_parts \<Rightarrow> evidence list" where
  "mail_evidence inputs parts =
     (case ri_dns inputs of
        None \<Rightarrow> []
      | Some dns \<Rightarrow>
          if di_error dns = None \<and> \<not> dp_hosting_platform parts \<and> di_mx dns = []
             \<and> (di_a dns \<noteq> [] \<or> di_aaaa dns \<noteq> [])
          then [fired ''no_mx_record'' ''domain'' None] else [])"

definition domain_signals :: "risk_env \<Rightarrow> risk_inputs \<Rightarrow> string \<Rightarrow> evidence list \<times> brand option" where
  "domain_signals env inputs host =
     (let parts = parts_of env host;
          official = brand_for_domain (dp_registrable parts) (Some host);
          imitated = (if official = None \<and> dp_label parts \<noteq> [] then imitated_brand env parts else None)
      in ((if is_ip_host host then [fired ''ip_address_host'' ''domain'' None] else [])
          @ registration_evidence inputs
          @ suffix_evidence parts
          @ (if 3 \<le> count_list (dp_subdomain parts) CHR ''.'' then [fired ''deep_subdomain'' ''domain'' None] else [])
          @ (if list_ex (starts_with ''xn--'') (split_on CHR ''.'' host) then [fired ''punycode'' ''domain'' None] else [])
          @ (case imitated of None \<Rightarrow> [] | Some (e, _) \<Rightarrow> [e])
          @ mail_evidence inputs parts,
          map_option snd imitated))"

section \<open>Certificate\<close>

text \<open>\<open>https\<close> is whether the scheme of the final URL is https.\<close>

definition certificate_signals :: "risk_inputs \<Rightarrow> bool \<Rightarrow> evidence list" where
  "certificate_signals inputs https =
     (if \<not> https then [fired ''no_https'' ''certificate'' None]
      else
        (case ri_certificate inputs of
           None \<Rightarrow> [info ''certificate'' ''certificate'' None ''unavailable'']
         | Some cert \<Rightarrow>
             if ci_error cert \<noteq> None \<and> ci_error cert \<noteq> Some []
             then [info ''certificate'' ''certificate'' None ''unavailable'']
             else
               [info ''certificate_issuer'' ''certificate'' None ''info'']
               @ (if ci_trusted cert = Some False then [fired ''cert_untrusted'' ''certificate'' None] else [])
               @ (if ci_hostname_matches cert = Some False
                  then [fired ''cert_hostname_mismatch'' ''certificate'' None] else [])
               @ (case ci_not_before cert of
                    None \<Rightarrow> []
                  | Some t \<Rightarrow>
                      if days_between (ri_now inputs) t < 7 then [fired ''cert_new'' ''certificate'' None] else [])))"

section \<open>Visual\<close>

definition similarity :: "risk_env \<Rightarrow> string \<Rightarrow> string \<Rightarrow> real" where
  "similarity env a b = 1 - real (rv_distance env a b) / 64"

definition screenshot_similarity :: "risk_env \<Rightarrow> image_hashes \<Rightarrow> reference \<Rightarrow> real option" where
  "screenshot_similarity env a b =
     (if ih_low_information a \<or> rf_low_information b then None
      else Some ((similarity env (ih_phash a) (rf_phash b) + similarity env (ih_dhash a) (rf_dhash b)) / 2))"

definition better_match ::
    "risk_env \<Rightarrow> image_hashes \<Rightarrow> (real \<times> reference) option \<Rightarrow> reference \<Rightarrow> (real \<times> reference) option" where
  "better_match env shot best ref =
     (case screenshot_similarity env shot ref of
        None \<Rightarrow> best
      | Some s \<Rightarrow>
          (case best of
             None \<Rightarrow> Some (s, ref)
           | Some (t, _) \<Rightarrow> if t < s then Some (s, ref) else best))"

definition best_reference :: "risk_env \<Rightarrow> risk_inputs \<Rightarrow> (real \<times> reference) option" where
  "best_reference env inputs =
     (case ri_screenshot inputs of
        None \<Rightarrow> None
      | Some shot \<Rightarrow>
          if ih_low_information shot then None
          else foldl (better_match env shot) None (ri_references inputs))"

definition uncompared :: "risk_inputs \<Rightarrow> evidence list" where
  "uncompared inputs =
     (case ri_screenshot inputs of
        None \<Rightarrow> [info ''visual_similarity'' ''visual'' None ''unavailable'']
      | Some shot \<Rightarrow>
          if ih_low_information shot then [info ''visual_similarity'' ''visual'' None ''unavailable''] else [])"

definition same_brand :: "brand option \<Rightarrow> reference \<Rightarrow> bool" where
  "same_brand official ref \<longleftrightarrow> (case official of None \<Rightarrow> False | Some b \<Rightarrow> br_key b = rf_brand ref)"

definition match_evidence :: "brand option \<Rightarrow> real \<times> reference \<Rightarrow> evidence \<times> brand option" where
  "match_evidence official best =
     (case best of
        (s, ref) \<Rightarrow>
          if same_brand official ref
          then (info ''visual_similarity'' ''visual'' (Some (rf_brand ref)) ''info'', None)
          else if VISUAL_STRONG \<le> s
          then (fired ''visual_match_strong'' ''visual'' (Some (rf_brand ref)), brand_by_key (rf_brand ref))
          else if VISUAL_MODERATE \<le> s
          then (fired ''visual_match_moderate'' ''visual'' (Some (rf_brand ref)), brand_by_key (rf_brand ref))
          else (info ''visual_similarity'' ''visual'' (Some (rf_brand ref)) ''clear'', None))"

definition favicon_matches :: "risk_env \<Rightarrow> favicon_hashes \<Rightarrow> reference \<Rightarrow> bool" where
  "favicon_matches env icon ref \<longleftrightarrow>
     rf_favicon_sha256 ref = Some (fh_sha256 icon)
     \<or> (case (rf_favicon_phash ref, fh_phash icon) of
          (Some a, Some b) \<Rightarrow> FAVICON_MATCH \<le> similarity env a b
        | _ \<Rightarrow> False)"

definition favicon_reference :: "risk_env \<Rightarrow> risk_inputs \<Rightarrow> brand option \<Rightarrow> reference option" where
  "favicon_reference env inputs official =
     (case ri_favicon inputs of
        None \<Rightarrow> None
      | Some icon \<Rightarrow>
          find (\<lambda>ref. \<not> same_brand official ref \<and> favicon_matches env icon ref) (ri_references inputs))"

definition first_of :: "'a option \<Rightarrow> 'a option \<Rightarrow> 'a option" where
  "first_of a b = (case a of Some x \<Rightarrow> Some x | None \<Rightarrow> b)"

definition visual_signals ::
    "risk_env \<Rightarrow> risk_inputs \<Rightarrow> brand option \<Rightarrow> evidence list \<times> (string \<times> real) option \<times> brand option" where
  "visual_signals env inputs official =
     (let best = best_reference env inputs;
          matched = map_option (match_evidence official) best;
          favicon = favicon_reference env inputs official
      in (uncompared inputs
          @ (case matched of None \<Rightarrow> [] | Some (e, _) \<Rightarrow> [e])
          @ (case favicon of None \<Rightarrow> [] | Some ref \<Rightarrow> [fired ''favicon_match'' ''visual'' (Some (rf_brand ref))]),
          map_option (\<lambda>(s, ref). (rf_brand ref, py_round 4 s)) best,
          first_of (Option.bind matched snd) (Option.bind favicon (\<lambda>ref. brand_by_key (rf_brand ref)))))"

section \<open>Content\<close>

definition sensitive :: "form_input list \<Rightarrow> bool \<times> bool" where
  "sensitive inputs =
     (list_ex (\<lambda>i. fi_type i = Some ''password'') inputs, list_ex fi_card_like inputs)"

text \<open>Whether a form sends credentials to another domain; a form that is skipped is not parsed.\<close>

definition posts_elsewhere :: "risk_env \<Rightarrow> string \<Rightarrow> page_form \<Rightarrow> bool option" where
  "posts_elsewhere env registrable form =
     (case sensitive (pf_inputs form) of
        (password, card_field) \<Rightarrow>
          if \<not> (password \<or> card_field)
             \<or> \<not> (starts_with ''http://'' (pf_action form) \<or> starts_with ''https://'' (pf_action form))
          then Some False
          else map_option (\<lambda>h. case h of
                   None \<Rightarrow> False
                 | Some host \<Rightarrow> host \<noteq> [] \<and> dp_registrable (parts_of env host) \<noteq> registrable)
                 (host_of env (pf_action form)))"

fun any_elsewhere :: "risk_env \<Rightarrow> string \<Rightarrow> page_form list \<Rightarrow> bool option" where
  "any_elsewhere env registrable [] = Some False"
| "any_elsewhere env registrable (form # forms) =
     (case posts_elsewhere env registrable form of
        None \<Rightarrow> None
      | Some True \<Rightarrow> Some True
      | Some False \<Rightarrow> any_elsewhere env registrable forms)"

text \<open>The registrable domains of a list of URLs, \<open>None\<close> if one of them raises.\<close>

fun registrables_of :: "risk_env \<Rightarrow> string list \<Rightarrow> string list option" where
  "registrables_of env [] = Some []"
| "registrables_of env (url # urls) =
     (case host_of env url of
        None \<Rightarrow> None
      | Some h \<Rightarrow>
          map_option (\<lambda>rs. (case h of
              None \<Rightarrow> rs
            | Some host \<Rightarrow> if host = [] then rs else dp_registrable (parts_of env host) # rs))
            (registrables_of env urls))"

definition title_brand :: "capture \<Rightarrow> brand option" where
  "title_brand cap =
     find (\<lambda>b. list_ex (\<lambda>k. title_mentions (cp_title cap) k (br_name b)) (br_keywords b)) BRANDS"

definition text_brand :: "capture \<Rightarrow> brand option" where
  "text_brand cap =
     find (\<lambda>b. list_ex (mentions (take 5000 (cp_text cap))) (br_keywords b)) BRANDS"

definition link_share :: "string list \<Rightarrow> brand \<Rightarrow> real" where
  "link_share domains b =
     real (length (filter (\<lambda>d. d \<in> set (br_domains b)) domains)) / real (length domains)"

definition linked_brand :: "string list \<Rightarrow> brand option" where
  "linked_brand domains =
     (if 5 \<le> length domains then find (\<lambda>b. 0.5 \<le> link_share domains b) BRANDS else None)"

text \<open>The brands a page of no official brand mentions: by title, by text, by its links.\<close>

definition mentioned_brands ::
    "risk_env \<Rightarrow> capture \<Rightarrow> bool \<Rightarrow> (evidence list \<times> brand option) option" where
  "mentioned_brands env cap credentials =
     map_option (\<lambda>domains.
       let titled = title_brand cap;
           texted = (if titled = None \<and> credentials then text_brand cap else None);
           linked = linked_brand domains
       in ((case titled of None \<Rightarrow> [] | Some b \<Rightarrow> [fired ''brand_in_title'' ''content'' (Some (br_key b))])
           @ (case texted of None \<Rightarrow> []
              | Some b \<Rightarrow> [fired ''brand_in_text_with_credentials'' ''content'' (Some (br_key b))])
           @ (case linked of None \<Rightarrow> [] | Some b \<Rightarrow> [fired ''links_to_brand'' ''content'' (Some (br_key b))]),
           first_of titled (first_of texted linked)))
       (registrables_of env (cp_links cap))"

definition content_signals ::
    "risk_env \<Rightarrow> risk_inputs \<Rightarrow> bool \<Rightarrow> string \<Rightarrow> brand option \<Rightarrow> (evidence list \<times> brand option) option" where
  "content_signals env inputs https registrable official =
     (let cap = ri_capture inputs
      in case sensitive (concat (map pf_inputs (cp_forms cap)) @ cp_orphan_inputs cap) of
        (password, card_field) \<Rightarrow>
          Option.bind (any_elsewhere env registrable (cp_forms cap)) (\<lambda>elsewhere.
          Option.bind (if official = None then mentioned_brands env cap (password \<or> card_field) else Some ([], None))
            (\<lambda>(brand_evidence, suspected).
          map_option (\<lambda>redirects.
            ((if password then [fired ''password_field'' ''content'' None] else [])
             @ (if card_field then [fired ''payment_fields'' ''content'' None] else [])
             @ (if (password \<or> card_field) \<and> \<not> https then [fired ''sensitive_fields_insecure'' ''content'' None] else [])
             @ (if elsewhere then [fired ''credentials_cross_domain_form'' ''content'' None] else [])
             @ brand_evidence
             @ (if 1 < length (dict_fromkeys redirects) then [fired ''cross_domain_redirect'' ''content'' None] else []),
             suspected))
            (registrables_of env (cp_redirects cap)))))"

section \<open>Reputation\<close>

definition reputation_evidence :: "bool \<Rightarrow> brand option \<Rightarrow> reputation \<Rightarrow> evidence list" where
  "reputation_evidence platform official rep =
     (if rp_listed rep = None
      then [info (''reputation_'' @ rp_source rep) ''reputation'' None ''unavailable'']
      else if rp_listed rep = Some False
      then [info (''reputation_'' @ rp_source rep) ''reputation'' None ''clear'']
      else if rp_source rep = ''google_safe_browsing''
      then [fired ''reputation_safe_browsing'' ''reputation'' None]
      else if (case rp_detail rep of None \<Rightarrow> False | Some d \<Rightarrow> starts_with ''host listed'' d)
      then (if official = None \<and> \<not> platform then [fired ''reputation_openphish_host'' ''reputation'' None] else [])
      else [fired ''reputation_openphish_url'' ''reputation'' None])"

definition reputation_signals :: "risk_inputs \<Rightarrow> bool \<Rightarrow> brand option \<Rightarrow> evidence list" where
  "reputation_signals inputs platform official =
     concat (map (reputation_evidence platform official) (ri_reputation inputs))"

section \<open>Assessment\<close>

definition level_for :: "int \<Rightarrow> string" where
  "level_for score =
     (if 70 \<le> score then ''very_high'' else if 45 \<le> score then ''high''
      else if 20 \<le> score then ''moderate'' else ''low'')"

definition evidence_key :: "evidence \<Rightarrow> int \<times> string" where
  "evidence_key e = (- \<bar>ev_points e\<bar>, ev_category e)"

text \<open>The score, the summary and the order of the evidence.\<close>

definition risk_report_of :: "evidence list \<Rightarrow> (string \<times> real) option \<Rightarrow> string option \<Rightarrow> risk_report" where
  "risk_report_of evidence match brand =
     (let score = max 0 (min 100 (sum_list (map ev_points evidence)))
      in \<lparr>rr_score = score,
          rr_level = level_for score,
          rr_summary = take 3 (sort_key (\<lambda>e. - ev_points e) (filter (\<lambda>e. 0 < ev_points e) evidence)),
          rr_evidence = sort_key evidence_key evidence,
          rr_impersonated_brand = brand,
          rr_visual_match = match\<rparr>)"

definition assess :: "risk_env \<Rightarrow> risk_inputs \<Rightarrow> risk_report option" where
  "assess env inputs =
     Option.bind (host_of env (cp_final_url (ri_capture inputs))) (\<lambda>found.
     Option.bind (urlsplit (rv_unicode env) (cp_final_url (ri_capture inputs))) (\<lambda>url.
       let host = (case found of None \<Rightarrow> [] | Some h \<Rightarrow> h);
           https = (su_scheme url = ''https'');
           parts = parts_of env host;
           official = brand_for_domain (dp_registrable parts) (Some host);
           (domain_evidence, lexical_brand) = domain_signals env inputs host;
           (visual_evidence, match, visual_brand) = visual_signals env inputs official
       in map_option (\<lambda>(content_evidence, content_brand).
            let evidence =
                  (case official of
                     None \<Rightarrow> []
                   | Some b \<Rightarrow> [info ''official_brand_domain'' ''domain'' (Some (br_key b)) ''info''])
                  @ reputation_signals inputs (dp_hosting_platform parts) official
                  @ visual_evidence @ domain_evidence @ content_evidence
                  @ certificate_signals inputs https;
                brand = first_of visual_brand (first_of lexical_brand content_brand)
            in risk_report_of evidence match (if official = None then map_option br_key brand else None))
            (content_signals env inputs https (dp_registrable parts) official)))"

end
