(* ===== verification/Risk_Props.thy ===== *)
theory Risk_Props
  imports Risk
begin

text \<open>
  The evidence adds up to the score, an accusation rests on evidence and never meets an
  official domain, and the links that make the assessment fail.
\<close>

section \<open>Evidence\<close>

text \<open>A piece of evidence carries the weight of its signal when it fired, and no points otherwise.\<close>

definition sound :: "evidence \<Rightarrow> bool" where
  "sound e \<longleftrightarrow>
     (if ev_status e = ''fired'' then map_of WEIGHTS (ev_signal e) = Some (ev_points e)
      else ev_points e = 0)"

lemma sound_info [simp]: "status \<noteq> ''fired'' \<Longrightarrow> sound (info signal category brand status)"
  by (simp add: sound_def info_def)

lemma sound_fired [simp]: "map_of WEIGHTS signal \<noteq> None \<Longrightarrow> sound (fired signal category brand)"
  by (auto simp: sound_def fired_def)

text \<open>The signals that accuse a page of using a brand, by its name, its text or its links.\<close>

definition brand_signals :: "string list" where
  "brand_signals =
     [''homoglyph_brand'', ''typosquat_brand'', ''brand_in_domain'', ''brand_name_other_suffix'',
      ''brand_in_subdomain'', ''brand_in_title'', ''brand_in_text_with_credentials'', ''links_to_brand'']"

definition names_brand :: "evidence list \<Rightarrow> brand option \<Rightarrow> bool" where
  "names_brand es b \<longleftrightarrow>
     (\<forall>x. b = Some x \<longrightarrow> (\<exists>e \<in> set es. ev_status e = ''fired'' \<and> ev_brand e = Some (br_key x)))"

lemma names_brand_mono: "names_brand es b \<Longrightarrow> set es \<subseteq> set fs \<Longrightarrow> names_brand fs b"
  by (auto simp: names_brand_def)

lemma names_brand_first_of:
  "names_brand es a \<Longrightarrow> names_brand es b \<Longrightarrow> names_brand es (first_of a b)"
  by (cases a) (auto simp: first_of_def)

named_theorems evidence_simps "selectors of evidence"

lemma evidence_fields [evidence_simps, simp]:
  "ev_signal (fired s c b) = s" "ev_status (fired s c b) = ''fired''" "ev_brand (fired s c b) = b"
  "ev_signal (info s c b st) = s" "ev_status (info s c b st) = st" "ev_brand (info s c b st) = b"
  by (simp_all add: fired_def info_def)

lemma weights [simp]:
  "map_of WEIGHTS ''domain_age_under_7d'' = Some 25"
  "map_of WEIGHTS ''domain_age_under_30d'' = Some 18"
  "map_of WEIGHTS ''domain_age_under_90d'' = Some 10"
  "map_of WEIGHTS ''domain_age_under_1y'' = Some 4"
  "map_of WEIGHTS ''domain_age_over_3y'' = Some (- 8)"
  "map_of WEIGHTS ''tld_high_risk'' = Some 8"
  "map_of WEIGHTS ''tld_elevated_risk'' = Some 4"
  "map_of WEIGHTS ''ip_address_host'' = Some 15"
  "map_of WEIGHTS ''hosting_platform'' = Some 6"
  "map_of WEIGHTS ''deep_subdomain'' = Some 5"
  "map_of WEIGHTS ''punycode'' = Some 8"
  "map_of WEIGHTS ''homoglyph_brand'' = Some 30"
  "map_of WEIGHTS ''typosquat_brand'' = Some 25"
  "map_of WEIGHTS ''brand_in_domain'' = Some 20"
  "map_of WEIGHTS ''brand_name_other_suffix'' = Some 20"
  "map_of WEIGHTS ''brand_in_subdomain'' = Some 18"
  "map_of WEIGHTS ''no_mx_record'' = Some 3"
  "map_of WEIGHTS ''no_https'' = Some 8"
  "map_of WEIGHTS ''cert_untrusted'' = Some 12"
  "map_of WEIGHTS ''cert_hostname_mismatch'' = Some 15"
  "map_of WEIGHTS ''cert_new'' = Some 5"
  "map_of WEIGHTS ''visual_match_strong'' = Some 35"
  "map_of WEIGHTS ''visual_match_moderate'' = Some 18"
  "map_of WEIGHTS ''favicon_match'' = Some 30"
  "map_of WEIGHTS ''brand_in_title'' = Some 15"
  "map_of WEIGHTS ''brand_in_text_with_credentials'' = Some 8"
  "map_of WEIGHTS ''links_to_brand'' = Some 15"
  "map_of WEIGHTS ''password_field'' = Some 8"
  "map_of WEIGHTS ''payment_fields'' = Some 10"
  "map_of WEIGHTS ''credentials_cross_domain_form'' = Some 22"
  "map_of WEIGHTS ''sensitive_fields_insecure'' = Some 15"
  "map_of WEIGHTS ''cross_domain_redirect'' = Some 4"
  "map_of WEIGHTS ''reputation_safe_browsing'' = Some 60"
  "map_of WEIGHTS ''reputation_openphish_url'' = Some 60"
  "map_of WEIGHTS ''reputation_openphish_host'' = Some 35"
  by code_simp+

lemma label_signal_cases:
  "label_signal env parts b l = Some s \<Longrightarrow>
     s \<in> {''homoglyph_brand'', ''typosquat_brand'', ''brand_in_domain'', ''brand_in_subdomain''}"
  unfolding label_signal_def Let_def by (simp split: if_splits)

lemma find_map_SomeD: "find_map f xs = Some y \<Longrightarrow> \<exists>x \<in> set xs. f x = Some y"
  by (induction xs) (auto split: option.splits)

lemma brand_signals_weight: "s \<in> set brand_signals \<Longrightarrow> map_of WEIGHTS s \<noteq> None"
  unfolding brand_signals_def by (simp only: list.set insert_iff empty_iff) (elim disjE, simp_all)

lemma imitated_brandD:
  assumes "imitated_brand env parts = Some (e, b)"
  shows "sound e" "ev_signal e \<in> set brand_signals" "ev_status e = ''fired''" "ev_brand e = Some (br_key b)"
proof -
  have "\<exists>s. e = fired s ''domain'' (Some (br_key b)) \<and> s \<in> set brand_signals"
  proof (cases "find (\<lambda>b. lower (dp_label parts) \<in> set (brand_labels b)
      \<and> dp_registrable parts \<notin> set (br_domains b)) BRANDS")
    case (Some c)
    then have "e = fired ''brand_name_other_suffix'' ''domain'' (Some (br_key b))"
      using assms by (auto simp: imitated_brand_def)
    moreover have "''brand_name_other_suffix'' \<in> set brand_signals" by (simp add: brand_signals_def)
    ultimately show ?thesis by blast
  next
    case None
    then have "find_map (\<lambda>b. map_option (\<lambda>signal. (fired signal ''domain'' (Some (br_key b)), b))
        (find_map (label_signal env parts b) (brand_labels b))) BRANDS = Some (e, b)"
      using assms by (simp add: imitated_brand_def)
    from find_map_SomeD [OF this] obtain s where s: "e = fired s ''domain'' (Some (br_key b))"
        "find_map (label_signal env parts b) (brand_labels b) = Some s" by auto
    then obtain l where "label_signal env parts b l = Some s" by (auto dest: find_map_SomeD)
    from label_signal_cases [OF this] have "s \<in> set brand_signals" by (auto simp: brand_signals_def)
    with s(1) show ?thesis by blast
  qed
  then show "sound e" "ev_signal e \<in> set brand_signals" "ev_status e = ''fired''" "ev_brand e = Some (br_key b)"
    using brand_signals_weight by auto
qed

section \<open>The groups of signals\<close>

definition plain :: "evidence list \<Rightarrow> bool" where
  "plain es \<longleftrightarrow> (\<forall>e \<in> set es. sound e \<and> ev_signal e \<notin> set brand_signals)"

lemma plain_simps [simp]:
  "plain []" "plain (es @ fs) \<longleftrightarrow> plain es \<and> plain fs"
  "plain (e # es) \<longleftrightarrow> sound e \<and> ev_signal e \<notin> set brand_signals \<and> plain es"
  by (auto simp: plain_def)

lemma brand_signals_unfold: "s \<notin> set brand_signals \<longleftrightarrow>
    s \<notin> {''homoglyph_brand'', ''typosquat_brand'', ''brand_in_domain'', ''brand_name_other_suffix'',
      ''brand_in_subdomain'', ''brand_in_title'', ''brand_in_text_with_credentials'', ''links_to_brand''}"
  by (simp add: brand_signals_def)

lemma plain_registration: "plain (registration_evidence inputs)"
  by (simp add: registration_evidence_def age_evidence_def brand_signals_unfold split: option.splits)

lemma plain_suffix: "plain (suffix_evidence parts)"
  by (simp add: suffix_evidence_def brand_signals_unfold Let_def)

lemma plain_mail: "plain (mail_evidence inputs parts)"
  by (simp add: mail_evidence_def brand_signals_unfold split: option.splits)

lemma plain_certificate: "plain (certificate_signals inputs https)"
  by (simp add: certificate_signals_def brand_signals_unfold split: option.splits)

lemma plain_reputation: "plain (reputation_signals inputs platform official)"
proof -
  have "plain (reputation_evidence platform official rep)" for rep
    by (simp add: reputation_evidence_def brand_signals_unfold split: option.splits)
  then show ?thesis by (auto simp: reputation_signals_def plain_def)
qed

lemma domain_signals_props:
  assumes "domain_signals env inputs host = (es, b)"
  shows "\<forall>e \<in> set es. sound e" "names_brand es b"
    and "brand_for_domain (dp_registrable (parts_of env host)) (Some host) \<noteq> None \<Longrightarrow> plain es \<and> b = None"
proof -
  define imitated where "imitated = (if brand_for_domain (dp_registrable (parts_of env host)) (Some host) = None
    \<and> dp_label (parts_of env host) \<noteq> [] then imitated_brand env (parts_of env host) else None)"
  obtain before_it after_it where es: "es = before_it @ (case imitated of None \<Rightarrow> [] | Some (e, _) \<Rightarrow> [e]) @ after_it"
      "plain before_it" "plain after_it" "b = map_option snd imitated"
  proof (rule that)
    let ?parts = "parts_of env host"
    show "plain ((if is_ip_host host then [fired ''ip_address_host'' ''domain'' None] else [])
        @ registration_evidence inputs @ suffix_evidence ?parts
        @ (if 3 \<le> count_list (dp_subdomain ?parts) CHR ''.'' then [fired ''deep_subdomain'' ''domain'' None] else [])
        @ (if list_ex (starts_with ''xn--'') (split_on CHR ''.'' host) then [fired ''punycode'' ''domain'' None] else []))"
      by (simp add: plain_registration plain_suffix brand_signals_unfold)
    show "plain (mail_evidence inputs ?parts)" by (rule plain_mail)
  qed (use assms in \<open>simp_all add: domain_signals_def Let_def imitated_def\<close>)
  have imit: "sound e \<and> ev_status e = ''fired'' \<and> ev_brand e = Some (br_key x)" if "imitated = Some (e, x)" for e x
    using that imitated_brandD by (auto simp: imitated_def split: if_splits)
  show "\<forall>e \<in> set es. sound e"
    using es(2,3) imit by (cases imitated) (auto simp: es(1) plain_def)
  show "names_brand es b"
    using imit by (cases imitated) (auto simp: es names_brand_def)
  assume "brand_for_domain (dp_registrable (parts_of env host)) (Some host) \<noteq> None"
  then have "imitated = None" by (auto simp: imitated_def)
  then show "plain es \<and> b = None" using es by simp
qed

lemma brand_by_keyD: "brand_by_key key = Some b \<Longrightarrow> br_key b = key"
  using find_SomeD by (fastforce simp: brand_by_key_def)

lemma visual_signals_props:
  assumes "visual_signals env inputs official = (es, m, b)"
  shows "plain es" "names_brand es b"
    and "\<And>x e. official = Some x \<Longrightarrow> e \<in> set es \<Longrightarrow> ev_status e = ''fired'' \<Longrightarrow> ev_brand e \<noteq> Some (br_key x)"
proof -
  define matched where "matched = map_option (match_evidence official) (best_reference env inputs)"
  define favicon where "favicon = favicon_reference env inputs official"
  have es: "es = uncompared inputs @ (case matched of None \<Rightarrow> [] | Some (e, _) \<Rightarrow> [e])
      @ (case favicon of None \<Rightarrow> [] | Some ref \<Rightarrow> [fired ''favicon_match'' ''visual'' (Some (rf_brand ref))])"
    and b: "b = first_of (Option.bind matched snd) (Option.bind favicon (\<lambda>ref. brand_by_key (rf_brand ref)))"
    using assms by (simp_all add: visual_signals_def Let_def matched_def favicon_def)
  have unc: "plain (uncompared inputs)" "\<forall>e \<in> set (uncompared inputs). ev_status e \<noteq> ''fired''"
    by (simp_all add: uncompared_def brand_signals_unfold split: option.splits)
  have match: "sound e" "ev_signal e \<notin> set brand_signals"
      "\<And>x. b' = Some x \<Longrightarrow> ev_status e = ''fired'' \<and> ev_brand e = Some (br_key x)"
      "\<And>x. official = Some x \<Longrightarrow> ev_status e = ''fired'' \<Longrightarrow> ev_brand e \<noteq> Some (br_key x)"
    if m: "matched = Some (e, b')" for e b'
  proof -
    obtain s ref where r: "match_evidence official (s, ref) = (e, b')" using m by (auto simp: matched_def)
    show "sound e" "ev_signal e \<notin> set brand_signals"
      using r by (auto simp: match_evidence_def brand_signals_unfold split: if_splits)
    show "ev_status e = ''fired'' \<and> ev_brand e = Some (br_key x)" if "b' = Some x" for x
      using r that brand_by_keyD by (auto simp: match_evidence_def split: if_splits)
    show "ev_brand e \<noteq> Some (br_key x)" if "official = Some x" "ev_status e = ''fired''" for x
      using r that by (auto simp: match_evidence_def same_brand_def split: if_splits)
  qed
  have icon: "\<not> same_brand official ref" if "favicon = Some ref" for ref
    using that by (auto simp: favicon_def favicon_reference_def split: option.splits dest: find_SomeD)
  show "plain es"
    using unc(1) match(1,2) by (auto simp: es brand_signals_unfold split: option.splits)
  show "names_brand es b"
    unfolding b
  proof (rule names_brand_first_of)
    show "names_brand es (Option.bind matched snd)"
      using match(3) by (cases matched) (auto simp: names_brand_def es)
    show "names_brand es (Option.bind favicon (\<lambda>ref. brand_by_key (rf_brand ref)))"
      using brand_by_keyD by (cases favicon) (auto simp: names_brand_def es)
  qed
  show "ev_brand e \<noteq> Some (br_key x)" if "official = Some x" "e \<in> set es" "ev_status e = ''fired''" for x e
    using that unc(2) match(4) icon by (auto simp: es same_brand_def split: option.splits)
qed

lemma mentioned_brands_props:
  assumes "mentioned_brands env cap credentials = Some (es, b)"
  shows "\<forall>e \<in> set es. sound e" "names_brand es b"
proof -
  obtain t x l where es: "es = (case t of None \<Rightarrow> [] | Some b \<Rightarrow> [fired ''brand_in_title'' ''content'' (Some (br_key b))])
      @ (case x of None \<Rightarrow> [] | Some b \<Rightarrow> [fired ''brand_in_text_with_credentials'' ''content'' (Some (br_key b))])
      @ (case l of None \<Rightarrow> [] | Some b \<Rightarrow> [fired ''links_to_brand'' ''content'' (Some (br_key b))])"
      and b: "b = first_of t (first_of x l)"
    using assms by (auto simp: mentioned_brands_def Let_def)
  show "\<forall>e \<in> set es. sound e" by (auto simp: es split: option.splits)
  show "names_brand es b"
    unfolding b by (intro names_brand_first_of) (auto simp: es names_brand_def split: option.splits)
qed

lemma content_signals_props:
  assumes "content_signals env inputs https registrable official = Some (es, b)"
  shows "\<forall>e \<in> set es. sound e" "names_brand es b" "official \<noteq> None \<Longrightarrow> plain es \<and> b = None"
proof -
  let ?cap = "ri_capture inputs"
  obtain password card_field where
    fields: "sensitive (concat (map pf_inputs (cp_forms ?cap)) @ cp_orphan_inputs ?cap) = (password, card_field)"
    by fastforce
  obtain elsewhere bs and redirects :: "string list" where mb:
      "(if official = None then mentioned_brands env ?cap (password \<or> card_field) else Some ([], None)) = Some (bs, b)"
    and es: "es = (if password then [fired ''password_field'' ''content'' None] else [])
        @ (if card_field then [fired ''payment_fields'' ''content'' None] else [])
        @ (if (password \<or> card_field) \<and> \<not> https then [fired ''sensitive_fields_insecure'' ''content'' None] else [])
        @ (if elsewhere then [fired ''credentials_cross_domain_form'' ''content'' None] else [])
        @ bs
        @ (if 1 < length (dict_fromkeys redirects) then [fired ''cross_domain_redirect'' ''content'' None] else [])"
  proof (cases "any_elsewhere env registrable (cp_forms ?cap)")
    case (Some elsewhere)
    note e = this
    show thesis
    proof (cases "if official = None then mentioned_brands env ?cap (password \<or> card_field) else Some ([], None)")
      case None
      then show thesis using assms e by (simp add: content_signals_def fields del: if_split)
    next
      case (Some bb)
      note m = this
      obtain bs b' where bb: "bb = (bs, b')" by fastforce
      show thesis
      proof (cases "registrables_of env (cp_redirects ?cap)")
        case None
        then show thesis using assms e m bb by (simp add: content_signals_def fields)
      next
        case (Some rs)
        then show thesis using assms e m bb by (intro that [of bs elsewhere rs]) (simp_all add: content_signals_def fields)
      qed
    qed
  qed (use assms in \<open>simp add: content_signals_def fields\<close>)
  have bs: "\<forall>e \<in> set bs. sound e" "names_brand bs b" "official \<noteq> None \<Longrightarrow> bs = [] \<and> b = None"
    using mb mentioned_brands_props [of env ?cap "password \<or> card_field" bs b]
    by (auto split: if_splits simp: names_brand_def)
  show "\<forall>e \<in> set es. sound e" using bs(1) by (auto simp: es)
  show "names_brand es b" by (rule names_brand_mono [OF bs(2)]) (auto simp: es)
  show "plain es \<and> b = None" if "official \<noteq> None"
    using bs(3) [OF that] by (auto simp: es brand_signals_unfold)
qed

section \<open>The assessment\<close>

definition host_text :: "string option \<Rightarrow> string" where
  "host_text found = (case found of None \<Rightarrow> [] | Some h \<Rightarrow> h)"

definition official_brand :: "risk_env \<Rightarrow> risk_inputs \<Rightarrow> brand option" where
  "official_brand env inputs =
     (let host = host_text (the (host_of env (cp_final_url (ri_capture inputs))))
      in brand_for_domain (dp_registrable (parts_of env host)) (Some host))"

lemma assess_cases:
  assumes "assess env inputs = Some r"
  obtains es match b where
    "r = risk_report_of es match (if official_brand env inputs = None then map_option br_key b else None)"
    "\<forall>e \<in> set es. sound e" "names_brand es b"
    "\<And>x. official_brand env inputs = Some x \<Longrightarrow> plain es"
proof -
  let ?cap = "ri_capture inputs" and ?official = "official_brand env inputs"
  from assms obtain found url where f: "host_of env (cp_final_url ?cap) = Some found"
      "urlsplit (rv_unicode env) (cp_final_url ?cap) = Some url"
    by (auto simp: assess_def bind_eq_Some_conv)
  let ?host = "host_text found" and ?https = "su_scheme url = ''https''"
  let ?parts = "parts_of env ?host"
  have official: "?official = brand_for_domain (dp_registrable ?parts) (Some ?host)"
    by (simp add: official_brand_def f(1) Let_def)
  obtain des db where d: "domain_signals env inputs ?host = (des, db)" by fastforce
  obtain ves m vb where v: "visual_signals env inputs ?official = (ves, m, vb)" by (metis prod.exhaust)
  from assms obtain ces cb where c: "content_signals env inputs ?https (dp_registrable ?parts) ?official = Some (ces, cb)"
    and r: "r = risk_report_of ((case ?official of None \<Rightarrow> []
                | Some b \<Rightarrow> [info ''official_brand_domain'' ''domain'' (Some (br_key b)) ''info''])
              @ reputation_signals inputs (dp_hosting_platform ?parts) ?official
              @ ves @ des @ ces @ certificate_signals inputs ?https) m
            (if ?official = None then map_option br_key (first_of vb (first_of db cb)) else None)"
    using f d v unfolding assess_def official host_text_def by (auto simp: Let_def)
  note dp = domain_signals_props [OF d] and vp = visual_signals_props [OF v] and cp = content_signals_props [OF c]
  have pr: "plain (reputation_signals inputs (dp_hosting_platform ?parts) ?official)" "plain (certificate_signals inputs ?https)"
    by (rule plain_reputation, rule plain_certificate)
  have start: "plain (case ?official of None \<Rightarrow> [] | Some b \<Rightarrow> [info ''official_brand_domain'' ''domain'' (Some (br_key b)) ''info''])"
    by (simp add: brand_signals_unfold split: option.splits)
  show thesis
  proof (rule that [OF r])
    show "\<forall>e \<in> set ((case ?official of None \<Rightarrow> []
                | Some b \<Rightarrow> [info ''official_brand_domain'' ''domain'' (Some (br_key b)) ''info''])
              @ reputation_signals inputs (dp_hosting_platform ?parts) ?official
              @ ves @ des @ ces @ certificate_signals inputs ?https). sound e"
      using dp(1) vp(1) cp(1) pr start unfolding plain_def by auto
    show "names_brand ((case ?official of None \<Rightarrow> []
                | Some b \<Rightarrow> [info ''official_brand_domain'' ''domain'' (Some (br_key b)) ''info''])
              @ reputation_signals inputs (dp_hosting_platform ?parts) ?official
              @ ves @ des @ ces @ certificate_signals inputs ?https) (first_of vb (first_of db cb))"
      by (intro names_brand_first_of names_brand_mono [OF dp(2)] names_brand_mono [OF vp(2)] names_brand_mono [OF cp(2)]) auto
    show "plain ((case ?official of None \<Rightarrow> []
                | Some b \<Rightarrow> [info ''official_brand_domain'' ''domain'' (Some (br_key b)) ''info''])
              @ reputation_signals inputs (dp_hosting_platform ?parts) ?official
              @ ves @ des @ ces @ certificate_signals inputs ?https)" if "?official = Some x" for x
      using dp(3) vp(1) cp(3) pr start that official by simp
  qed
qed

text \<open>
  C28: The risk report is accountable.  The score is the sum of the points of the evidence,
  kept between 0 and 100, and the level is its band; a signal that fired has exactly its
  weight in the table, everything else no points, and the evidence is listed by weight.  A
  brand is named as impersonated only with fired evidence that names it, and a page on a
  brand's official domain is neither said to impersonate a brand nor given points for using
  a brand's name in its domain, its title, its text or its links.
\<close>

theorem assess_accountable:
  assumes "assess env inputs = Some r"
  shows "rr_score r = max 0 (min 100 (sum_list (map ev_points (rr_evidence r))))
    \<and> rr_level r = level_for (rr_score r)
    \<and> (\<forall>e \<in> set (rr_evidence r). sound e)
    \<and> sorted (map (\<lambda>e. - \<bar>ev_points e\<bar>) (rr_evidence r))
    \<and> set (rr_summary r) \<subseteq> {e \<in> set (rr_evidence r). 0 < ev_points e}
    \<and> (\<forall>k. rr_impersonated_brand r = Some k \<longrightarrow>
          (\<exists>e \<in> set (rr_evidence r). ev_status e = ''fired'' \<and> ev_brand e = Some k))
    \<and> (official_brand env inputs \<noteq> None \<longrightarrow>
          rr_impersonated_brand r = None \<and> (\<forall>e \<in> set (rr_evidence r). ev_signal e \<notin> set brand_signals))"
  using assms
proof (cases rule: assess_cases)
  case (1 es match b)
  have "sum_list (map ev_points (sort_key evidence_key es)) = sum_list (map ev_points es)"
    by (rule sum_list_sort_key)
  moreover have "sorted (map (\<lambda>e. - \<bar>ev_points e\<bar>) (sort_key evidence_key es))"
  proof -
    have "sorted (map evidence_key (sort_key evidence_key es))" by simp
    then show ?thesis
      unfolding sorted_map
      by (rule sorted_wrt_mono_rel [rotated]) (auto simp: evidence_key_def less_eq_prod_def)
  qed
  moreover have "set (take 3 (sort_key (\<lambda>e. - ev_points e) (filter (\<lambda>e. 0 < ev_points e) es)))
      \<subseteq> {e \<in> set es. 0 < ev_points e}"
    using set_take_subset by fastforce
  moreover have "\<exists>e \<in> set es. ev_status e = ''fired'' \<and> ev_brand e = Some k"
    if "(if official_brand env inputs = None then map_option br_key b else None) = Some k" for k
    using that 1(3) by (auto simp: names_brand_def split: if_splits)
  ultimately show ?thesis
    using 1(2,4) by (auto simp: 1(1) risk_report_of_def Let_def plain_def)
qed

definition example_risk_env :: risk_env where
  "example_risk_env =
     \<lparr>rv_unicode = \<lparr>uo_netloc_ok = (\<lambda>_. False), uo_idna = (\<lambda>_. None), uo_utf8 = id\<rparr>,
      rv_extract = (\<lambda>h. \<lparr>tp_subdomain = [], tp_domain = before CHR ''.'' h, tp_suffix = ''com'',
         tp_top_domain = h, tp_private = False\<rparr>),
      rv_skeleton = id, rv_distance = (\<lambda>_ _. 0)\<rparr>"

definition example_page :: "string \<Rightarrow> string list \<Rightarrow> risk_inputs" where
  "example_page url links =
     \<lparr>ri_capture = \<lparr>cp_final_url = url, cp_redirects = [], cp_title = [], cp_text = [], cp_links = links,
         cp_forms = [\<lparr>pf_action = [], pf_inputs = [\<lparr>fi_type = Some ''password'', fi_card_like = False\<rparr>]\<rparr>],
         cp_orphan_inputs = []\<rparr>,
      ri_registration = None, ri_dns = None, ri_certificate = None, ri_reputation = [], ri_screenshot = None,
      ri_favicon = None, ri_references = [], ri_now = 0\<rparr>"

theorem assess_accountable_witness:
  "case assess example_risk_env (example_page ''http://paypa1.com/'' []) of
     None \<Rightarrow> False
   | Some r \<Rightarrow> rr_score r = 61 \<and> rr_level r = ''high'' \<and> rr_impersonated_brand r = Some ''paypal''
       \<and> (\<forall>e \<in> set (rr_evidence r). sound e)"
proof -
  have run: "map_option (\<lambda>r. (rr_score r, rr_level r, rr_impersonated_brand r))
      (assess example_risk_env (example_page ''http://paypa1.com/'' [])) = Some (61, ''high'', Some ''paypal'')"
    by code_simp
  then obtain r where r: "assess example_risk_env (example_page ''http://paypa1.com/'' []) = Some r" by auto
  then show ?thesis using run assess_accountable [OF r] by (simp add: level_for_def)
qed

text \<open>
  One link is enough to escape the assessment.  On any page of no official brand, a link
  that \<open>urlsplit\<close> refuses to read, such as \<open>javascript:[]\<close>, makes the assessment end in a
  \<open>ValueError\<close>, whatever the other evidence, since only \<open>BlockedUrlError\<close> is caught.
\<close>

theorem assess_link_evasion:
  assumes "''javascript:[]'' \<in> set (cp_links (ri_capture inputs))" "official_brand env inputs = None"
  shows "assess env inputs = None"
proof -
  let ?cap = "ri_capture inputs"
  have "normalize_url ops ''javascript:[]'' = Inl Value_error" for ops
  proof -
    have "urlsplit ops ''https://javascript:[]'' = None" by code_simp
    then show ?thesis by (simp add: normalize_url_def) code_simp
  qed
  then have "host_of env ''javascript:[]'' = None" by (simp add: host_of_def)
  then have "registrables_of env urls = None" if "''javascript:[]'' \<in> set urls" for urls
    using that by (induction urls) (auto split: option.splits)
  then have "content_signals env inputs https registrable None = None" for https registrable
    using assms(1) by (auto simp: content_signals_def mentioned_brands_def bind_eq_None_conv split: option.splits prod.splits)
  then show ?thesis
    using assms(2)
    by (auto simp: assess_def official_brand_def host_text_def Let_def bind_eq_None_conv split: prod.splits)
qed

theorem assess_link_evasion_witness:
  "assess example_risk_env (example_page ''http://paypa1.com/'' [''javascript:[]'']) = None"
proof (rule assess_link_evasion)
  show "''javascript:[]'' \<in> set (cp_links (ri_capture (example_page ''http://paypa1.com/'' [''javascript:[]''])))"
    by (simp add: example_page_def)
  show "official_brand example_risk_env (example_page ''http://paypa1.com/'' [''javascript:[]'']) = None"
    by code_simp
qed

end
