(* ===== verification/Dep_Versions.thy ===== *)
theory Dep_Versions
  imports Py_Resolver
begin

text \<open>
  The versions of \<open>analyzers/dep_health.py\<close>: semantic versions as npm orders them, the
  lowest version a constraint allows, how far an installed version is behind the registry, and
  the size of a package.  PyPI versions are those of the \<open>packaging\<close> library, given by
  the release and the order it reports.
\<close>

section \<open>Ecosystems\<close>

datatype ecosystem = PyPI | Npm

definition ECOSYSTEMS :: "ecosystem list" where
  "ECOSYSTEMS = [PyPI, Npm]"

definition ecosystem_name :: "ecosystem \<Rightarrow> string" where
  "ecosystem_name eco = (case eco of PyPI \<Rightarrow> ''PyPI'' | Npm \<Rightarrow> ''npm'')"

definition canonical_pypi :: "string \<Rightarrow> string" where
  "canonical_pypi name = lower (rx_sub (Plus (OneOf ''-_.'')) ''-'' name)"

definition dependency_key :: "ecosystem \<Rightarrow> string \<Rightarrow> string" where
  "dependency_key eco name = (if eco = PyPI then normalize_dist name else name)"

section \<open>Versions\<close>

text \<open>
  \<open>pk_release\<close> gives the release of a version and whether it is a pre-release or a
  development release, \<open>None\<close> for \<open>InvalidVersion\<close>; \<open>pk_less\<close> compares two valid ones.
\<close>

record packaging =
  pk_release :: "string \<Rightarrow> (nat list \<times> bool) option"
  pk_less :: "string \<Rightarrow> string \<Rightarrow> bool"

record 'k version =
  vn_text :: string
  vn_key :: 'k
  vn_major_key :: "nat list"
  vn_prerelease :: bool

type_synonym npm_key = "nat list \<times> nat \<times> (nat \<times> nat \<times> string) list"

definition major_key :: "nat list \<Rightarrow> nat list" where
  "major_key release =
     (let major = (case release of [] \<Rightarrow> 0 | a # _ \<Rightarrow> a);
          minor = (case release of a # b # _ \<Rightarrow> b | _ \<Rightarrow> 0)
      in if 0 < major then [major] else [0, minor])"

definition parse_pypi_version :: "packaging \<Rightarrow> string \<Rightarrow> string version option" where
  "parse_pypi_version pk text =
     map_option (\<lambda>(release, pre). \<lparr>vn_text = text, vn_key = text, vn_major_key = major_key release,
         vn_prerelease = pre\<rparr>)
       (pk_release pk text)"

definition semver_char :: "char \<Rightarrow> bool" where
  "semver_char c \<longleftrightarrow> is_alnum_ascii c \<or> c = CHR ''.'' \<or> c = CHR ''-''"

definition SEMVER :: "rx list" where
  "SEMVER =
     [Seq (Star (Cls is_space)) (Opt (Chr CHR ''v'')), Plus (Cls is_digit),
      Opt (Seq (Chr CHR ''.'') (Plus (Cls is_digit))), Opt (Seq (Chr CHR ''.'') (Plus (Cls is_digit))),
      Opt (Seq (Chr CHR ''-'') (Plus (Cls semver_char))),
      Seqs [Opt (Seq (Chr CHR ''+'') (Plus (Cls semver_char))), Star (Cls is_space), Eol]]"

definition identifier_key :: "string \<Rightarrow> nat \<times> nat \<times> string" where
  "identifier_key p =
     (if p \<noteq> [] \<and> list_all is_digit p then (0, nat_of_digits 0 p, []) else (1, 0, p))"

definition semver_key :: "nat list \<Rightarrow> string \<Rightarrow> npm_key" where
  "semver_key release pre =
     (if pre \<noteq> [] then (release, 0, map identifier_key (split_on CHR ''.'' pre)) else (release, 1, []))"

definition parse_npm_version :: "string \<Rightarrow> npm_key version option" where
  "parse_npm_version text =
     (case rx_groups SEMVER text of
        Some [_, major, minor, patch, pre, _] \<Rightarrow>
          let release = map (nat_of_digits 0) [major, drop 1 minor, drop 1 patch]
          in Some \<lparr>vn_text = text, vn_key = semver_key release (drop 1 pre),
                   vn_major_key = major_key release, vn_prerelease = (pre \<noteq> [])\<rparr>
      | _ \<Rightarrow> None)"

section \<open>Constraints\<close>

definition NON_REGISTRY_NPM :: "string list" where
  "NON_REGISTRY_NPM =
     [''file:'', ''link:'', ''workspace:'', ''git'', ''http:'', ''https:'', ''github:'', ''npm:'',
      ''portal:'', ''patch:'']"

definition number_or_x :: rx where
  "number_or_x = Alt (Plus (Cls is_digit)) (OneOf ''xX*'')"

definition NPM_BOUND :: "rx list" where
  "NPM_BOUND =
     [Opt (Alts [Chr CHR ''^'', Chr CHR ''~'', Str ''>='', Chr CHR ''>'', Chr CHR ''='']),
      Seq (Star (Cls is_space)) (Opt (Chr CHR ''v'')),
      number_or_x, Opt (Seq (Chr CHR ''.'') number_or_x), Opt (Seq (Chr CHR ''.'') number_or_x),
      Opt (Seq (Chr CHR ''-'') (Plus (Cls (\<lambda>c. is_word c \<or> c = CHR ''.'' \<or> c = CHR ''-'')))), Eol]"

definition all_digits :: "string \<Rightarrow> bool" where
  "all_digits s \<longleftrightarrow> s \<noteq> [] \<and> list_all is_digit s"

text \<open>The outcome of the first part that has the form of a bound.\<close>

definition npm_bound_of :: "string list \<Rightarrow> (string \<times> bool) option" where
  "npm_bound_of gs =
     (case gs of
        [operator, _, major, minor, patch, pre, _] \<Rightarrow>
          let numbers = [major, drop 1 minor, drop 1 patch]
          in if \<not> all_digits major then None
             else Some (join ''.'' (map (\<lambda>g. if all_digits g then g else ''0'') numbers) @ pre,
                        (operator = [] \<or> operator = ''='') \<and> list_all all_digits numbers)
      | _ \<Rightarrow> None)"

definition npm_lower_bound :: "string \<Rightarrow> (string \<times> bool) option" where
  "npm_lower_bound spec =
     (let word = Plus (Cls (\<lambda>c. \<not> is_space c));
          spec = (case rx_groups [word, Seqs [Plus (Cls is_space), Chr CHR ''-'', Plus (Cls is_space), word, Eol]] spec of
                    Some (low # _) \<Rightarrow> low | _ \<Rightarrow> spec)
      in case List.map_filter (rx_groups NPM_BOUND) (py_words spec) of
           [] \<Rightarrow> None
         | gs # _ \<Rightarrow> npm_bound_of gs)"

definition npm_minimum :: "string \<Rightarrow> (string \<times> bool) option" where
  "npm_minimum spec =
     (if list_ex (\<lambda>p. starts_with p spec) NON_REGISTRY_NPM \<or> spec \<in> {''*'', '''', ''latest'', ''next'', ''x''}
      then None
      else
        let candidates = List.map_filter (\<lambda>a. npm_lower_bound (strip a)) (rx_split (Str ''||'') spec);
            valid = List.map_filter (\<lambda>(text, exact).
                map_option (\<lambda>v. (v, text, exact)) (parse_npm_version text)) candidates
        in if valid = [] then None
           else (case arg_min_list (\<lambda>(v, _, _). vn_key v) valid of
                   (_, text, exact) \<Rightarrow> Some (text, exact \<and> length valid = 1)))"

definition PYPI_CLAUSE :: "rx list" where
  "PYPI_CLAUSE =
     [Opt (Alts [Str ''==='', Str ''=='', Str ''>='', Str ''~='', Chr CHR ''^'', Chr CHR ''~'', Chr CHR ''>'', Chr CHR ''='']),
      Seq (Star (Cls is_space)) (Opt (Chr CHR ''v'')),
      Seq (Cls is_digit) (Star (Cls (\<lambda>c. is_alnum_ascii c \<or> c \<in> set ''.!+*-''))), Eol]"

definition pypi_minimum :: "string \<Rightarrow> (string \<times> bool) option" where
  "pypi_minimum spec =
     (case List.map_filter (\<lambda>clause. rx_groups PYPI_CLAUSE (strip clause)) (split_on CHR '','' spec) of
        [operator, _, version, _] # _ \<Rightarrow>
          Some (rx_sub (Seq (Plus (Str ''.*'')) Eol) [] version,
                operator \<in> {[], ''=='', ''==='', ''=''} \<and> CHR ''*'' \<notin> set version)
      | _ \<Rightarrow> None)"

definition minimum_version :: "ecosystem \<Rightarrow> string option \<Rightarrow> (string \<times> bool) option" where
  "minimum_version eco spec =
     (case spec of
        None \<Rightarrow> None
      | Some s \<Rightarrow>
          if s = [] then None
          else if eco = Npm then npm_minimum (strip s) else pypi_minimum (strip s))"

section \<open>Freshness and size\<close>

record registry_info =
  gi_found :: bool
  gi_latest :: "string option"
  gi_versions :: "string list"
  gi_sizes :: "(string, int) dict"
  gi_file_counts :: "(string, int) dict"

record freshness =
  fr_versions_behind :: nat
  fr_majors_behind :: nat
  fr_score :: real

text \<open>The stable versions newer than the installed one and not newer than the latest.\<close>

definition newer_versions ::
    "('k \<Rightarrow> 'k \<Rightarrow> bool) \<Rightarrow> 'k version option list \<Rightarrow> 'k version option \<Rightarrow> 'k version \<Rightarrow> 'k version list" where
  "newer_versions lt versions latest current =
     (let ceiling_version = (case latest of Some v \<Rightarrow> if vn_prerelease v then None else Some v | None \<Rightarrow> None)
      in filter (\<lambda>v. \<not> vn_prerelease v \<and> lt (vn_key current) (vn_key v)
                 \<and> (case ceiling_version of None \<Rightarrow> True | Some c \<Rightarrow> \<not> lt (vn_key c) (vn_key v)))
           (List.map_filter id versions))"

definition freshness_report :: "'k version list \<Rightarrow> 'k version \<Rightarrow> freshness" where
  "freshness_report newer current =
     (let majors = length (remdups (filter (\<lambda>m. vn_major_key current < m) (map vn_major_key newer)));
          behind = length newer;
          factor = (if behind \<le> 2 then 1 else if behind \<le> 10 then 0.8 else 0.6)
      in \<lparr>fr_versions_behind = behind, fr_majors_behind = majors, fr_score = factor / (1 + real majors)\<rparr>)"

definition freshness_with ::
    "('k \<Rightarrow> 'k \<Rightarrow> bool) \<Rightarrow> (string \<Rightarrow> 'k version option) \<Rightarrow> string \<Rightarrow> registry_info \<Rightarrow> freshness option" where
  "freshness_with lt parse installed reg =
     map_option (\<lambda>current.
         let latest = (case gi_latest reg of None \<Rightarrow> None | Some l \<Rightarrow> if l = [] then None else parse l)
         in freshness_report (newer_versions lt (map parse (gi_versions reg)) latest current) current)
       (parse installed)"

definition freshness_of :: "packaging \<Rightarrow> ecosystem \<Rightarrow> string \<Rightarrow> registry_info \<Rightarrow> freshness option" where
  "freshness_of pk eco =
     (case eco of
        PyPI \<Rightarrow> freshness_with (pk_less pk) (parse_pypi_version pk)
      | Npm \<Rightarrow> freshness_with (<) parse_npm_version)"

definition trivial_size ::
    "ecosystem \<Rightarrow> string option \<Rightarrow> registry_info \<Rightarrow> (string \<times> int option \<times> int option) option" where
  "trivial_size eco installed reg =
     (let known = (\<lambda>v. v \<in> fst ` set (gi_sizes reg));
          version = (if eco = Npm then gi_latest reg
                     else (case installed of
                             Some v \<Rightarrow> if known v then Some v else gi_latest reg
                           | None \<Rightarrow> gi_latest reg))
      in case version of
           None \<Rightarrow> None
         | Some v \<Rightarrow>
             if \<not> known v \<and> v \<notin> fst ` set (gi_file_counts reg) then None
             else Some (v, map_of (gi_sizes reg) v, map_of (gi_file_counts reg) v))"

definition is_trivial :: "int \<Rightarrow> string \<times> int option \<times> int option \<Rightarrow> bool" where
  "is_trivial threshold size_facts =
     (case size_facts of
        (_, size_bytes, files) \<Rightarrow>
          (case size_bytes of None \<Rightarrow> False | Some n \<Rightarrow> n < threshold)
          \<or> (case files of None \<Rightarrow> False | Some n \<Rightarrow> n \<le> 2))"

section \<open>Properties\<close>

lemma freshness_report_bounds: "0 < fr_score (freshness_report newer current) \<and> fr_score (freshness_report newer current) \<le> 1"
  by (auto simp: freshness_report_def Let_def divide_le_eq)

lemma freshness_of_bounds:
  "freshness_of pk eco installed reg = Some f \<Longrightarrow> 0 < fr_score f \<and> fr_score f \<le> 1"
  by (auto simp: freshness_of_def freshness_with_def Let_def freshness_report_bounds split: ecosystem.splits)

text \<open>A pre-release sorts before the release it leads to, after every lower release.\<close>

lemma prerelease_before_release:
  "pre \<noteq> [] \<Longrightarrow> semver_key release pre < semver_key release []"
  by (simp add: semver_key_def less_prod_def)

lemma release_order:
  "r < (r' :: nat list) \<Longrightarrow> semver_key r pre < semver_key r' pre'"
  by (auto simp: semver_key_def less_prod_def)

end
