(* ===== verification/Dep_Manifests.thy ===== *)
theory Dep_Manifests
  imports Dep_Versions
begin

text \<open>
  The direct dependencies of \<open>analyzers/dep_health.py\<close>: requirement lines, groups, the
  allow-lists, and \<open>ManifestReader\<close> with every manifest it reads.  The result is passed
  from file to file; an exception the code does not catch is a value of the left summand.  The
  readers of JSON, TOML and INI files are in \<open>dep_env\<close>, as is the text of a number.
\<close>

section \<open>Data\<close>

datatype dep_kind = Runtime | Dev

record dependency =
  dd_name :: string
  dd_key :: string
  dd_ecosystem :: ecosystem
  dd_kind :: dep_kind
  dd_manifest :: string
  dd_spec :: "string option"
  dd_registry :: bool

record manifests =
  mf_files :: "ecosystem \<Rightarrow> string list"
  mf_deps :: "ecosystem \<Rightarrow> (string, dependency) dict"
  mf_pins :: "(string, string) dict"
  mf_workspace :: "string list"
  mf_corpus :: "(string \<times> string) list"

definition no_manifests :: manifests where
  "no_manifests = \<lparr>mf_files = (\<lambda>_. []), mf_deps = (\<lambda>_. []), mf_pins = [], mf_workspace = [], mf_corpus = []\<rparr>"

text \<open>
  \<open>de_read limit path\<close> is \<open>index.read_text\<close>; \<open>de_cfg\<close> is the parsed INI file, section by
  section with the defaults filled in, \<open>None\<close> for \<open>configparser.Error\<close>.
\<close>

record dep_env =
  de_files :: "string list"
  de_read :: "int \<Rightarrow> string \<Rightarrow> string option"
  de_json :: "string \<Rightarrow> json option"
  de_toml :: "string \<Rightarrow> (string \<times> json) list option"
  de_cfg :: "string \<Rightarrow> (string \<times> (string \<times> string) list) list option"
  de_number :: "real \<Rightarrow> string"
  de_packaging :: packaging

definition MAX_MANIFEST_BYTES :: int where
  "MAX_MANIFEST_BYTES = 2 * 1024 * 1024"

definition manifest_text :: "dep_env \<Rightarrow> string \<Rightarrow> string option" where
  "manifest_text env = de_read env MAX_MANIFEST_BYTES"

text \<open>A dependency that is already known becomes a runtime one once it is declared as such.\<close>

definition absorb_dep :: "dependency \<Rightarrow> dependency \<Rightarrow> dependency" where
  "absorb_dep existing dep =
     (if dd_kind existing = Dev \<and> dd_kind dep = Runtime
      then existing\<lparr>dd_kind := Runtime, dd_manifest := dd_manifest dep,
             dd_spec := (if dd_spec dep = None \<or> dd_spec dep = Some [] then dd_spec existing else dd_spec dep)\<rparr>
      else if dd_spec existing = None \<and> dd_spec dep \<noteq> None \<and> dd_spec dep \<noteq> Some []
      then existing\<lparr>dd_spec := dd_spec dep\<rparr>
      else existing)"

definition add_dep :: "dependency \<Rightarrow> manifests \<Rightarrow> manifests" where
  "add_dep dep m =
     (let deps = mf_deps m (dd_ecosystem dep);
          entry = (case map_of deps (dd_key dep) of None \<Rightarrow> dep | Some existing \<Rightarrow> absorb_dep existing dep)
      in m\<lparr>mf_deps := (mf_deps m)(dd_ecosystem dep := dict_set (dd_key dep) entry deps)\<rparr>)"

definition mark_file :: "ecosystem \<Rightarrow> string \<Rightarrow> manifests \<Rightarrow> manifests" where
  "mark_file eco rel m =
     (if rel \<in> set (mf_files m eco) then m
      else m\<lparr>mf_files := (mf_files m)(eco := mf_files m eco @ [rel])\<rparr>)"

definition add_corpus :: "string \<Rightarrow> string \<Rightarrow> manifests \<Rightarrow> manifests" where
  "add_corpus rel text m = m\<lparr>mf_corpus := mf_corpus m @ [(rel, text)]\<rparr>"

section \<open>Groups and allow-lists\<close>

definition DEV_TOKENS :: "string list" where
  "DEV_TOKENS =
     [''dev'', ''develop'', ''development'', ''test'', ''tests'', ''testing'', ''lint'', ''docs'', ''doc'',
      ''ci'', ''typing'', ''types'']"

definition is_dev_group :: "string \<Rightarrow> bool" where
  "is_dev_group name \<longleftrightarrow>
     list_ex (\<lambda>token. token \<in> set DEV_TOKENS)
       (rx_split (Plus (Cls (\<lambda>c. c \<in> set ''-_.'' \<or> is_space c))) (lower name))"

definition TOOLING_ALLOW_LIST :: "string list" where
  "TOOLING_ALLOW_LIST =
     [''pytest*'', ''black'', ''ruff'', ''mypy'', ''flake8*'', ''isort'', ''pre-commit'', ''coverage'', ''tox'',
      ''nox'', ''sphinx*'', ''mkdocs*'', ''types-*'', ''*-stubs'', ''@types/*'', ''typescript'', ''eslint*'',
      ''prettier*'', ''jest'', ''vitest'', ''webpack*'', ''vite'', ''@vitejs/*'', ''babel*'', ''@babel/*'',
      ''ts-node'', ''nodemon'', ''husky'', ''lint-staged'', ''gunicorn'', ''uvicorn'', ''setuptools'', ''wheel'',
      ''pip'', ''build'', ''twine'', ''hatchling'', ''poetry-core'']"

definition RUNTIME_PLUGIN_ALLOW_LIST :: "string list" where
  "RUNTIME_PLUGIN_ALLOW_LIST =
     [''psycopg2'', ''psycopg2-binary'', ''psycopg'', ''psycopg-binary'', ''asyncpg'', ''pymysql'', ''mysqlclient'',
      ''aiosqlite'', ''cx-oracle'', ''oracledb'', ''python-multipart'', ''email-validator'', ''uvloop'', ''httptools'']"

definition STUB_PATTERNS :: "string list" where
  "STUB_PATTERNS = [''@types/*'', ''types-*'', ''*-stubs'']"

text \<open>\<open>fnmatchcase\<close> for patterns whose only wildcard is the star.\<close>

fun glob_match :: "string \<Rightarrow> string \<Rightarrow> bool" where
  "glob_match [] s \<longleftrightarrow> s = []"
| "glob_match (c # p) s \<longleftrightarrow>
     (if c = CHR ''*'' then list_ex (\<lambda>i. glob_match p (drop i s)) [0..<Suc (length s)]
      else (case s of [] \<Rightarrow> False | x # xs \<Rightarrow> x = c \<and> glob_match p xs))"

definition matches_any :: "string \<Rightarrow> string list \<Rightarrow> bool" where
  "matches_any name patterns \<longleftrightarrow> list_ex (\<lambda>p. glob_match p name) patterns"

definition allow_listed :: "dependency \<Rightarrow> bool" where
  "allow_listed dep \<longleftrightarrow>
     (let name = (if dd_ecosystem dep = PyPI then canonical_pypi (dd_name dep) else lower (dd_name dep))
      in matches_any name TOOLING_ALLOW_LIST \<or> matches_any name RUNTIME_PLUGIN_ALLOW_LIST)"

section \<open>Requirements\<close>

definition REQUIREMENT :: "rx list" where
  "REQUIREMENT =
     [Seq (Cls is_alnum_ascii) (Star (Cls (\<lambda>c. is_alnum_ascii c \<or> c \<in> set ''._-''))),
      Seqs [Star (Cls is_space), Opt (Seqs [Chr CHR ''['', Star (NotOf '']''), Chr CHR '']'']), Star (Cls is_space)],
      Star (Cls (\<lambda>c. c \<noteq> CHR 0x0A)), Eol]"

definition strip_of :: "string \<Rightarrow> string \<Rightarrow> string" where
  "strip_of cs s = rstrip_by (\<lambda>c. c \<in> set cs) (lstrip_by (\<lambda>c. c \<in> set cs) s)"

text \<open>Name, constraint, and whether the registry has it.\<close>

definition requirement_parts :: "string \<Rightarrow> (string \<times> string \<times> bool) option" where
  "requirement_parts line =
     (let line = strip (hd (rx_split (Str [CHR 0x09, CHR ''#'']) (hd (rx_split (Str '' #'') line))))
      in if line = [] \<or> starts_with ''#'' line \<or> starts_with ''-'' line then None
         else (case rx_groups REQUIREMENT line of
                 Some [name, _, rest, _] \<Rightarrow>
                   let rest = strip (before CHR '';'' rest)
                   in if starts_with ''@'' rest then Some (name, [], False)
                      else Some (name, strip (strip_of ''()'' rest), True)
               | _ \<Rightarrow> None))"

definition add_python :: "string \<Rightarrow> dep_kind \<Rightarrow> manifests \<Rightarrow> string \<Rightarrow> manifests" where
  "add_python rel kind m line =
     (case requirement_parts line of
        None \<Rightarrow> m
      | Some (name, spec, registry) \<Rightarrow>
          add_dep \<lparr>dd_name = name, dd_key = normalize_dist name, dd_ecosystem = PyPI, dd_kind = kind,
            dd_manifest = rel, dd_spec = (if spec = [] then None else Some spec), dd_registry = registry\<rparr> m)"

fun poetry_spec :: "json \<Rightarrow> string option \<times> bool" where
  "poetry_spec (JStr s) = (Some s, True)"
| "poetry_spec (JObj d) =
     (if list_ex (\<lambda>k. k \<in> fst ` set d) [''git'', ''path'', ''url'', ''file''] then (None, False)
      else ((case json_get d ''version'' of JStr v \<Rightarrow> Some v | _ \<Rightarrow> None), True))"
| "poetry_spec (JList (v # vs)) = poetry_spec v"
| "poetry_spec _ = (None, True)"

text \<open>\<open>str(value)\<close> of a parsed value.\<close>

fun json_repr :: "(real \<Rightarrow> string) \<Rightarrow> json \<Rightarrow> string" where
  "json_repr num JNull = ''None''"
| "json_repr num (JBool b) = (if b then ''True'' else ''False'')"
| "json_repr num (JNum x) = num x"
| "json_repr num (JStr s) = py_repr s"
| "json_repr num (JList vs) = ''['' @ join '', '' (map (json_repr num) vs) @ '']''"
| "json_repr num (JObj d) =
     ''{'' @ join '', '' (map (\<lambda>(k, v). py_repr k @ '': '' @ json_repr num v) d) @ ''}''"

definition json_str :: "(real \<Rightarrow> string) \<Rightarrow> json \<Rightarrow> string" where
  "json_str num v = (case v of JStr s \<Rightarrow> s | _ \<Rightarrow> json_repr num v)"

section \<open>setup.py\<close>

definition string_literals :: "string \<Rightarrow> string list" where
  "string_literals text =
     map (\<lambda>m. butlast (tl m))
       (rx_findall (Alt (Seqs [Chr CHR 0x27, Star (NotOf [CHR 0x27, CHR 0x0A]), Chr CHR 0x27])
                        (Seqs [Chr CHR 0x22, Star (NotOf [CHR 0x22, CHR 0x0A]), Chr CHR 0x22])) text)"

text \<open>The body up to the closer that balances an opener just read.\<close>

fun bracket_body :: "char \<Rightarrow> char \<Rightarrow> nat \<Rightarrow> string \<Rightarrow> string option" where
  "bracket_body opener closer depth [] = None"
| "bracket_body opener closer depth (c # cs) =
     (if c = opener then map_option ((#) c) (bracket_body opener closer (Suc depth) cs)
      else if c = closer
      then (if depth = 1 then Some [] else map_option ((#) c) (bracket_body opener closer (depth - 1) cs))
      else map_option ((#) c) (bracket_body opener closer depth cs))"

definition bracketed :: "string \<Rightarrow> string \<Rightarrow> char \<Rightarrow> char \<Rightarrow> string list" where
  "bracketed text keyword opener closer =
     List.map_filter (\<lambda>(_, stop). bracket_body opener closer 1 (take 49999 (drop stop text)))
       (rx_scan (Seqs [NotBehind is_word, Str keyword, Star (Cls is_space), Chr CHR ''='', Star (Cls is_space), Chr opener])
         text 0)"

definition is_extra_name :: "string \<Rightarrow> string \<Rightarrow> bool" where
  "is_extra_name body literal \<longleftrightarrow>
     rx_fullmatch (Plus (Cls (\<lambda>c. is_word c \<or> c = CHR ''.'' \<or> c = CHR ''-''))) literal
     \<and> rx_search (Seqs [OneOf [CHR 0x27, CHR 0x22], Str literal, OneOf [CHR 0x27, CHR 0x22],
          Star (Cls is_space), Chr CHR '':'']) body"

definition setup_py :: "dep_env \<Rightarrow> string \<Rightarrow> manifests \<Rightarrow> manifests" where
  "setup_py env rel m =
     (let text = (case manifest_text env rel of None \<Rightarrow> [] | Some t \<Rightarrow> t);
          literals = concat (map (\<lambda>(keyword, opener, closer, kind).
              concat (map (\<lambda>body. map (Pair kind)
                  (filter (\<lambda>l. \<not> (keyword = ''extras_require'' \<and> is_extra_name body l)) (string_literals body)))
                (bracketed text keyword opener closer)))
              [(''install_requires'', CHR ''['', CHR '']'', Runtime), (''extras_require'', CHR ''{'', CHR ''}'', Runtime),
               (''tests_require'', CHR ''['', CHR '']'', Dev)])
      in foldl (\<lambda>m (kind, l). add_python rel kind m l) (mark_file PyPI rel m) literals)"

section \<open>Requirement files and setup.cfg\<close>

definition pin_line :: "(string, string) dict \<Rightarrow> string \<Rightarrow> (string, string) dict" where
  "pin_line pins line =
     (case requirement_parts line of
        None \<Rightarrow> pins
      | Some (name, spec, _) \<Rightarrow>
          (case minimum_version PyPI (Some spec) of
             Some (version, True) \<Rightarrow>
               if normalize_dist name \<in> fst ` set pins then pins else dict_set (normalize_dist name) version pins
           | _ \<Rightarrow> pins))"

definition requirements_file :: "dep_env \<Rightarrow> string \<Rightarrow> string \<Rightarrow> manifests \<Rightarrow> manifests" where
  "requirements_file env rel name m =
     (let text = (case manifest_text env rel of None \<Rightarrow> [] | Some t \<Rightarrow> t)
      in if ends_with ''.txt'' name \<and> take (length rel - 4) rel @ ''.in'' \<in> set (de_files env)
         then m\<lparr>mf_pins := foldl pin_line (mf_pins m) (splitlines text)\<rparr>
         else
           let stem = (if CHR ''.'' \<in> set name then before_last CHR ''.'' name else name);
               kind = (if is_dev_group (remove_prefix ''requirements'' stem) then Dev else Runtime)
           in foldl (add_python rel kind) (mark_file PyPI rel m)
                (splitlines (rx_sub (Str [CHR 0x5C, CHR 0x0A]) '' '' text)))"

definition cfg_lines :: "(string \<times> (string \<times> string) list) list \<Rightarrow> (dep_kind \<times> string) list" where
  "cfg_lines cfg =
     (case map_of cfg ''options'' of
        None \<Rightarrow> []
      | Some items \<Rightarrow>
          concat (map (\<lambda>(option_name, kind).
              map (Pair kind) (splitlines (case map_of items option_name of None \<Rightarrow> [] | Some v \<Rightarrow> v)))
            [(''install_requires'', Runtime), (''tests_require'', Dev)]))
     @ (case map_of cfg ''options.extras_require'' of
          None \<Rightarrow> []
        | Some items \<Rightarrow> concat (map (\<lambda>(_, v). map (Pair Runtime) (splitlines v)) items))"

definition setup_cfg :: "dep_env \<Rightarrow> string \<Rightarrow> manifests \<Rightarrow> manifests" where
  "setup_cfg env rel m =
     (case de_cfg env (case manifest_text env rel of None \<Rightarrow> [] | Some t \<Rightarrow> t) of
        None \<Rightarrow> m
      | Some cfg \<Rightarrow>
          let m' = foldl (\<lambda>m (kind, line). add_python rel kind m line) m (cfg_lines cfg)
          in if cfg_lines cfg = [] then m' else mark_file PyPI rel m')"

section \<open>pyproject.toml and Pipfile\<close>

definition toml_file :: "dep_env \<Rightarrow> string \<Rightarrow> (string \<times> json) list option" where
  "toml_file env rel = Option.bind (manifest_text env rel) (de_toml env)"

text \<open>A table of poetry or Pipfile dependencies.\<close>

definition table_dep :: "string \<Rightarrow> dep_kind \<Rightarrow> string \<Rightarrow> string option \<times> bool \<Rightarrow> dependency" where
  "table_dep rel kind name entry =
     \<lparr>dd_name = name, dd_key = normalize_dist name, dd_ecosystem = PyPI, dd_kind = kind, dd_manifest = rel,
      dd_spec = fst entry, dd_registry = snd entry\<rparr>"

text \<open>
  The requirement lines and poetry entries of a \<open>pyproject.toml\<close>, in the order they are
  added, with the lines of its scripts.
\<close>

definition project_lines :: "(string \<times> json) list \<Rightarrow> (dep_kind \<times> string) list result" where
  "project_lines project =
     rbind (iter_or_empty (json_get project ''dependencies'')) (\<lambda>specs.
     rbind (dict_or_empty (json_get project ''optional-dependencies'')) (\<lambda>optional.
     rbind (rmap (\<lambda>(group, specs). rbind (iter_or_empty specs)
              (\<lambda>ss. Inr (map (Pair (if is_dev_group group then Dev else Runtime)) (json_strings ss)))) optional)
       (\<lambda>groups. Inr (map (Pair Runtime) (json_strings specs) @ concat groups))))"

definition group_lines :: "(string \<times> json) list \<Rightarrow> (string \<times> json) list \<Rightarrow> (dep_kind \<times> string) list result" where
  "group_lines data tool =
     rbind (dict_or_empty (json_get data ''dependency-groups'')) (\<lambda>groups.
     rbind (dict_or_empty (json_get tool ''pdm'')) (\<lambda>pdm.
     rbind (dict_or_empty (json_get pdm ''dev-dependencies'')) (\<lambda>pdm_groups.
     rbind (dict_or_empty (json_get tool ''uv'')) (\<lambda>uv.
     rbind (rmap iter_or_empty (map snd groups @ map snd pdm_groups @ [json_get uv ''dev-dependencies'']))
       (\<lambda>specs. Inr (map (Pair Dev) (json_strings (concat specs))))))))"

definition poetry_tables :: "(string \<times> json) list \<Rightarrow> (json \<times> dep_kind) list result" where
  "poetry_tables poetry =
     rbind (dict_or_empty (json_get poetry ''group'')) (\<lambda>groups.
       Inr ([(json_get poetry ''dependencies'', Runtime), (json_get poetry ''dev-dependencies'', Dev)]
            @ concat (map (\<lambda>(name, group). case group of
                JObj g \<Rightarrow> [(json_get g ''dependencies'', if name = ''main'' then Runtime else Dev)]
              | _ \<Rightarrow> []) groups)))"

definition poetry_deps :: "string \<Rightarrow> (string \<times> json) list \<Rightarrow> dependency list result" where
  "poetry_deps rel poetry =
     rbind (poetry_tables poetry) (\<lambda>tables.
     rbind (rmap (\<lambda>(table, kind). rbind (dict_or_empty table) (\<lambda>entries.
              Inr (map (\<lambda>(name, v). table_dep rel kind name (poetry_spec v))
                (filter (\<lambda>(name, _). lower name \<noteq> ''python'') entries)))) tables)
       (\<lambda>deps. Inr (concat deps)))"

definition script_lines :: "(real \<Rightarrow> string) \<Rightarrow> json list \<Rightarrow> string list" where
  "script_lines num tables =
     concat (map (\<lambda>t. case t of JObj d \<Rightarrow> map (json_str num \<circ> snd) d | _ \<Rightarrow> []) tables)"

definition pyproject_file :: "dep_env \<Rightarrow> string \<Rightarrow> manifests \<Rightarrow> manifests result" where
  "pyproject_file env rel m =
     (case toml_file env rel of
        None \<Rightarrow> Inr m
      | Some data \<Rightarrow>
          rbind (dict_or_empty (json_get data ''tool'')) (\<lambda>tool.
          rbind (dict_or_empty (json_get data ''project'')) (\<lambda>project.
          rbind (project_lines project) (\<lambda>lines1.
          rbind (group_lines data tool) (\<lambda>lines2.
          rbind (dict_or_empty (json_get tool ''poetry'')) (\<lambda>poetry.
          rbind (poetry_deps rel poetry) (\<lambda>deps.
            let m1 = foldl (\<lambda>m (kind, line). add_python rel kind m line) m (lines1 @ lines2);
                m2 = foldl (\<lambda>m d. add_dep d m) m1 deps;
                declares = lines1 @ lines2 \<noteq> [] \<or> deps \<noteq> [];
                m3 = (if declares \<or> project \<noteq> [] \<or> poetry \<noteq> [] then mark_file PyPI rel m2 else m2);
                scripts = script_lines (de_number env)
                  [json_get project ''scripts'', json_get project ''gui-scripts'', json_get poetry ''scripts'']
            in Inr (if scripts = [] then m3 else add_corpus rel (join [CHR 0x0A] scripts) m3))))))))"

definition pipfile_deps :: "string \<Rightarrow> (string \<times> json) list \<Rightarrow> dependency list result" where
  "pipfile_deps rel data =
     rbind (rmap (\<lambda>(section_name, kind). rbind (dict_or_empty (json_get data section_name)) (\<lambda>entries.
              Inr (map (\<lambda>(name, v). case poetry_spec v of
                  (spec, registry) \<Rightarrow> table_dep rel kind name (if spec = Some ''*'' then None else spec, registry)) entries)))
            [(''packages'', Runtime), (''dev-packages'', Dev)])
       (\<lambda>deps. Inr (concat deps))"

definition pipfile :: "dep_env \<Rightarrow> string \<Rightarrow> manifests \<Rightarrow> manifests result" where
  "pipfile env rel m =
     (case toml_file env rel of
        None \<Rightarrow> Inr m
      | Some data \<Rightarrow>
          rbind (pipfile_deps rel data) (\<lambda>deps. Inr (foldl (\<lambda>m d. add_dep d m) (mark_file PyPI rel m) deps)))"

section \<open>package.json\<close>

definition INTERNAL_SPECS :: "string list" where
  "INTERNAL_SPECS = [''workspace:'', ''file:'', ''link:'', ''portal:'']"

definition package_deps :: "string \<Rightarrow> string list \<Rightarrow> (string \<times> json) list \<Rightarrow> dependency list" where
  "package_deps rel workspace data =
     concat (map (\<lambda>(section_name, kind).
       (case json_get data section_name of
          JObj deps \<Rightarrow>
            List.map_filter (\<lambda>(name, spec).
              let spec_text = (case spec of JStr s \<Rightarrow> Some s | _ \<Rightarrow> None);
                  text = (case spec_text of None \<Rightarrow> [] | Some s \<Rightarrow> s)
              in if name \<in> set workspace \<or> list_ex (\<lambda>p. starts_with p text) INTERNAL_SPECS then None
                 else Some \<lparr>dd_name = name, dd_key = name, dd_ecosystem = Npm, dd_kind = kind, dd_manifest = rel,
                        dd_spec = spec_text,
                        dd_registry = \<not> list_ex (\<lambda>p. starts_with p text) NON_REGISTRY_NPM\<rparr>) deps
        | _ \<Rightarrow> []))
       [(''dependencies'', Runtime), (''peerDependencies'', Runtime), (''optionalDependencies'', Runtime),
        (''devDependencies'', Dev)])"

definition json_file :: "dep_env \<Rightarrow> int \<Rightarrow> string \<Rightarrow> json option" where
  "json_file env limit rel = Option.bind (de_read env limit rel) (de_json env)"

definition package_json_file :: "dep_env \<Rightarrow> string \<Rightarrow> manifests \<Rightarrow> manifests" where
  "package_json_file env rel m =
     (case json_file env MAX_MANIFEST_BYTES rel of
        Some (JObj data) \<Rightarrow>
          let m' = foldl (\<lambda>m d. add_dep d m) (mark_file Npm rel m) (package_deps rel (mf_workspace m) data)
          in (case json_get data ''scripts'' of
                JObj scripts \<Rightarrow>
                  add_corpus rel (join [CHR 0x0A] (map (json_str (de_number env) \<circ> snd) scripts)) m'
              | _ \<Rightarrow> m')
      | _ \<Rightarrow> m)"

section \<open>The reader\<close>

definition SCRIPT_FILES :: "string list" where
  "SCRIPT_FILES = [''Procfile'', ''Makefile'', ''makefile'', ''GNUmakefile'']"

definition not_newline :: rx where
  "not_newline = Cls (\<lambda>c. c \<noteq> CHR 0x0A)"

definition CONFIG_FILE :: rx where
  "CONFIG_FILE =
     Alt (Seqs [Plus not_newline, Str ''.config.'',
            Alts (map Str [''js'', ''cjs'', ''mjs'', ''ts'', ''cts'', ''mts'', ''json''])])
         (Seqs [Chr CHR ''.'', Alts (map Str [''eslintrc'', ''babelrc'', ''prettierrc'']), Star not_newline])"

definition COMPOSE_FILE :: rx where
  "COMPOSE_FILE =
     (let yml = Seqs [Str ''.y'', Opt (Chr CHR ''a''), Str ''ml'']
      in Alt (Seqs [Str ''docker-compose'', Star not_newline, yml]) (Seq (Str ''compose'') yml))"

definition is_tool_file :: "string \<Rightarrow> bool" where
  "is_tool_file name \<longleftrightarrow>
     name \<in> set SCRIPT_FILES \<or> starts_with ''Dockerfile'' name \<or> ends_with ''.dockerfile'' name
     \<or> rx_fullmatch COMPOSE_FILE name \<or> rx_fullmatch CONFIG_FILE name"

definition read_dispatch :: "dep_env \<Rightarrow> string \<Rightarrow> manifests \<Rightarrow> manifests result" where
  "read_dispatch env rel m =
     (let name = path_name rel
      in if starts_with ''requirements'' name \<and> (ends_with ''.txt'' name \<or> ends_with ''.in'' name)
         then Inr (requirements_file env rel name m)
         else if name = ''pyproject.toml'' then pyproject_file env rel m
         else if name = ''Pipfile'' then pipfile env rel m
         else if name = ''setup.cfg'' then Inr (setup_cfg env rel m)
         else if name = ''setup.py'' then Inr (setup_py env rel m)
         else if name = ''package.json'' then Inr (package_json_file env rel m)
         else Inr m)"

definition read_one :: "dep_env \<Rightarrow> string \<Rightarrow> manifests \<Rightarrow> manifests result" where
  "read_one env rel m =
     rbind (read_dispatch env rel m) (\<lambda>m'.
       Inr (if is_tool_file (path_name rel)
            then (case manifest_text env rel of
                    Some t \<Rightarrow> if t = [] then m' else add_corpus rel t m'
                  | None \<Rightarrow> m')
            else m'))"

fun read_all :: "dep_env \<Rightarrow> string list \<Rightarrow> manifests \<Rightarrow> manifests result" where
  "read_all env [] m = Inr m"
| "read_all env (rel # rels) m = rbind (read_one env rel m) (read_all env rels)"

definition path_order :: "string \<Rightarrow> nat \<times> string" where
  "path_order f = (count_list f CHR ''/'', f)"

definition workspace_names :: "dep_env \<Rightarrow> string list \<Rightarrow> string list" where
  "workspace_names env files =
     List.map_filter (\<lambda>rel.
       (case json_file env MAX_MANIFEST_BYTES rel of
          Some (JObj data) \<Rightarrow> (case json_get data ''name'' of JStr s \<Rightarrow> Some s | _ \<Rightarrow> None)
        | _ \<Rightarrow> None))
       (filter (\<lambda>rel. path_name rel = ''package.json'') files)"

definition read_manifests :: "dep_env \<Rightarrow> manifests result" where
  "read_manifests env =
     (let files = sort_key path_order (de_files env)
      in read_all env files (no_manifests\<lparr>mf_workspace := workspace_names env files\<rparr>))"

end
