(* ===== verification/Dep_Lockfiles.thy ===== *)
theory Dep_Lockfiles
  imports Dep_Manifests
begin

text \<open>
  The lockfiles of \<open>analyzers/dep_health.py\<close>: the breadth-first depth, Node's module
  lookup, the readers of npm, yarn v1, uv, poetry, Pipenv and pnpm lockfiles and
  \<open>LockfileReader\<close>.  A parsed lockfile is the number of packages and of direct ones, the
  depth and the versions.
\<close>

section \<open>Breadth-first depth\<close>

text \<open>The inner loop: the unseen children get their depth and join the queue.\<close>

fun visit :: "nat \<Rightarrow> 'a list \<Rightarrow> ('a, nat) dict \<times> 'a list \<Rightarrow> ('a, nat) dict \<times> 'a list" where
  "visit d [] state = state"
| "visit d (c # cs) (depth, queue) =
     (if c \<in> fst ` set depth then visit d cs (depth, queue)
      else visit d cs (depth @ [(c, d)], queue @ [c]))"

definition children_of :: "('a, 'a list) dict \<Rightarrow> 'a \<Rightarrow> 'a list" where
  "children_of edges node = bucket_get edges node"

lemma visit_grows:
  "visit d cs (depth, queue) = (depth', queue') \<Longrightarrow>
     \<exists>new. depth' = depth @ map (\<lambda>c. (c, d)) new \<and> queue' = queue @ new \<and> distinct new
       \<and> set new = set cs - fst ` set depth"
proof (induction cs arbitrary: depth queue)
  case (Cons c cs)
  show ?case
  proof (cases "c \<in> fst ` set depth")
    case True
    with Cons.prems have "visit d cs (depth, queue) = (depth', queue')" by simp
    from Cons.IH [OF this] True show ?thesis by auto
  next
    case False
    with Cons.prems have "visit d cs (depth @ [(c, d)], queue @ [c]) = (depth', queue')" by simp
    from Cons.IH [OF this] obtain new where new: "depth' = (depth @ [(c, d)]) @ map (\<lambda>c. (c, d)) new"
        "queue' = (queue @ [c]) @ new" "distinct new" "set new = set cs - fst ` set (depth @ [(c, d)])" by blast
    have "depth' = depth @ map (\<lambda>c. (c, d)) (c # new)" "queue' = queue @ (c # new)" "distinct (c # new)"
        "set (c # new) = set (c # cs) - fst ` set depth"
      using new False by auto
    then show ?thesis by blast
  qed
qed simp

definition all_children :: "('a, 'a list) dict \<Rightarrow> 'a set" where
  "all_children edges = \<Union> (set ` snd ` set edges)"

lemma children_of_subset: "set (children_of edges v) \<subseteq> all_children edges"
proof (cases "map_of edges v")
  case (Some cs)
  from map_of_SomeD [OF this] have "set cs \<subseteq> all_children edges" by (force simp: all_children_def)
  then show ?thesis by (simp add: children_of_def bucket_get_def Some)
qed (simp add: children_of_def bucket_get_def)

function bfs_loop :: "('a, 'a list) dict \<Rightarrow> ('a, nat) dict \<Rightarrow> 'a list \<Rightarrow> ('a, nat) dict" where
  "bfs_loop edges depth [] = depth"
| "bfs_loop edges depth (node # queue) =
     (let (depth', queue') = visit (Suc (the (map_of depth node))) (children_of edges node) (depth, queue)
      in bfs_loop edges depth' queue')"
  by pat_completeness auto
termination
proof (relation "measure (\<lambda>(edges, depth, queue). length queue + 2 * card (all_children edges - fst ` set depth))",
    goal_cases)
  case (2 edges depth node queue p depth' queue')
  obtain new where new: "depth' = depth @ map (\<lambda>c. (c, Suc (the (map_of depth node)))) new"
      "queue' = queue @ new" "distinct new" "set new = set (children_of edges node) - fst ` set depth"
    using visit_grows 2 by (metis prod.inject)
  let ?rest = "all_children edges - fst ` set depth"
  have fin: "finite ?rest" by (auto simp: all_children_def)
  have sub: "set new \<subseteq> ?rest" using new(4) children_of_subset [of edges node] by blast
  have "all_children edges - fst ` set depth' = ?rest - set new" unfolding new(1) by force
  moreover have "card (?rest - set new) = card ?rest - length new"
    using card_Diff_subset [OF _ sub] distinct_card [OF new(3)] by simp
  moreover have "length new \<le> card ?rest"
    using card_mono [OF fin sub] distinct_card [OF new(3)] by simp
  ultimately show ?case using new(2) by simp
qed simp

definition bfs_depth :: "'a list \<Rightarrow> ('a, 'a list) dict \<Rightarrow> nat" where
  "bfs_depth roots edges =
     (case visit 1 roots ([], []) of
        (depth, queue) \<Rightarrow> fold max (map snd (bfs_loop edges depth queue)) 0)"

section \<open>Node's lookup\<close>

definition rfind :: "string \<Rightarrow> string \<Rightarrow> nat option" where
  "rfind sub s = (case rev (filter (\<lambda>i. starts_with sub (drop i s)) [0..<length s]) of [] \<Rightarrow> None | i # _ \<Rightarrow> Some i)"

lemma rfind_less: "rfind sub s = Some i \<Longrightarrow> i < length s"
proof -
  assume "rfind sub s = Some i"
  then obtain js where "rev (filter (\<lambda>i. starts_with sub (drop i s)) [0..<length s]) = i # js"
    unfolding rfind_def by (metis (no_types, lifting) list.exhaust list.simps(4,5) option.distinct(1) option.inject)
  then have "i \<in> set (rev (filter (\<lambda>i. starts_with sub (drop i s)) [0..<length s]))" by simp
  then show ?thesis by simp
qed

definition NODE_MODULES :: string where
  "NODE_MODULES = ''node_modules/''"

definition enclosing :: "string \<Rightarrow> string" where
  "enclosing path =
     (case rfind NODE_MODULES path of None \<Rightarrow> [] | Some i \<Rightarrow> rstrip_by (\<lambda>c. c = CHR ''/'') (take i path))"

lemma length_enclosing: "path \<noteq> [] \<Longrightarrow> length (enclosing path) < length path"
proof (cases "rfind NODE_MODULES path")
  case (Some i)
  have "length (rstrip_by p s) \<le> length s" for p and s :: string
    using length_dropWhile_le [of p "rev s"] by (simp add: rstrip_by_def)
  from this [of _ "take i path"] have "length (enclosing path) \<le> length (take i path)"
    unfolding enclosing_def Some by simp
  then show ?thesis using rfind_less [OF Some] by simp
qed (simp add: enclosing_def)

type_synonym lock_entries = "(string, (string \<times> json) list) dict"

function node_resolve :: "lock_entries \<Rightarrow> string \<Rightarrow> string \<Rightarrow> string option" where
  "node_resolve entries path name =
     (let candidate = (if path = [] then NODE_MODULES @ name else path @ ''/'' @ NODE_MODULES @ name)
      in if candidate \<in> fst ` set entries then Some candidate
         else if path = [] then None
         else node_resolve entries (enclosing path) name)"
  by pat_completeness auto
termination
  by (relation "measure (\<lambda>(entries, path, name). length path)") (auto simp: length_enclosing)

declare node_resolve.simps [simp del]

section \<open>npm\<close>

text \<open>\<open>_dep_names\<close>: the keys of those sections of an entry that are objects.\<close>

definition dep_names :: "(string \<times> json) list \<Rightarrow> string list \<Rightarrow> string list" where
  "dep_names entry sections =
     concat (map (\<lambda>s. case json_get entry s of JObj d \<Rightarrow> map fst d | _ \<Rightarrow> []) sections)"

definition NPM_ROOT_SECTIONS :: "string list" where
  "NPM_ROOT_SECTIONS = [''dependencies'', ''devDependencies'', ''optionalDependencies'', ''peerDependencies'']"

definition NPM_CHILD_SECTIONS :: "string list" where
  "NPM_CHILD_SECTIONS = [''dependencies'', ''optionalDependencies'', ''peerDependencies'']"

lemma json_get_size: "json_get d key = JObj n \<Longrightarrow> size_list (size_prod (\<lambda>_. 0) size) n < size_list (size_prod (\<lambda>_. 0) size) d"
proof -
  assume "json_get d key = JObj n"
  then have "map_of d key = Some (JObj n)" by (auto simp: json_get_def split: option.splits)
  then have "(key, JObj n) \<in> set d" by (rule map_of_SomeD)
  then show ?thesis by (induction d) auto
qed

text \<open>The nested tree of lockfile version 1, flattened to paths.\<close>

function lock_tree :: "string \<Rightarrow> (string \<times> json) list \<Rightarrow> lock_entries \<Rightarrow> lock_entries" where
  "lock_tree prefix [] entries = entries"
| "lock_tree prefix ((name, value) # tree) entries =
     (case value of
        JObj entry \<Rightarrow>
          let path = (if prefix = [] then NODE_MODULES @ name else prefix @ ''/'' @ NODE_MODULES @ name);
              requires = json_get entry ''requires'';
              entries1 = dict_set path [(''version'', json_get entry ''version''),
                  (''dependencies'', if json_truthy requires then requires else JObj [])] entries;
              entries2 = (case json_get entry ''dependencies'' of
                  JObj nested \<Rightarrow> lock_tree path nested entries1 | _ \<Rightarrow> entries1)
          in lock_tree prefix tree entries2
      | _ \<Rightarrow> lock_tree prefix tree entries)"
  by pat_completeness auto
termination
  by (relation "measure (\<lambda>(prefix, tree, entries). size_list (size_prod (\<lambda>_. 0) size) tree)")
    (auto dest!: json_get_size)

text \<open>The entries of a lockfile and its root, \<open>None\<close> when it has neither form.\<close>

definition lock_entries_of :: "(string \<times> json) list \<Rightarrow> (lock_entries \<times> (string \<times> json) list) option" where
  "lock_entries_of data =
     (case json_get data ''packages'' of
        JObj (p # ps) \<Rightarrow>
          Some (List.map_filter (\<lambda>(k, v). case v of JObj e \<Rightarrow> if k = [] then None else Some (k, e) | _ \<Rightarrow> None) (p # ps),
                case json_get (p # ps) [] of JObj r \<Rightarrow> r | _ \<Rightarrow> [])
      | _ \<Rightarrow>
          (case json_get data ''dependencies'' of
             JObj tree \<Rightarrow> Some (lock_tree [] tree [], [])
           | _ \<Rightarrow> None))"

definition lock_entry_of :: "lock_entries \<Rightarrow> string \<Rightarrow> (string \<times> json) list" where
  "lock_entry_of entries path = (case map_of entries path of None \<Rightarrow> [] | Some e \<Rightarrow> e)"

definition is_link :: "(string \<times> json) list \<Rightarrow> bool" where
  "is_link entry = json_truthy (json_get entry ''link'')"

text \<open>At most five workspace links are followed.\<close>

fun link_target :: "lock_entries \<Rightarrow> nat \<Rightarrow> string option \<Rightarrow> string option" where
  "link_target entries 0 path = path"
| "link_target entries (Suc n) None = None"
| "link_target entries (Suc n) (Some path) =
     (if is_link (lock_entry_of entries path)
      then link_target entries n
             (case json_get (lock_entry_of entries path) ''resolved'' of
                JStr r \<Rightarrow> if r \<in> fst ` set entries then Some r else None
              | _ \<Rightarrow> None)
      else Some path)"

definition resolve_dep :: "lock_entries \<Rightarrow> string \<Rightarrow> string \<Rightarrow> string option" where
  "resolve_dep entries path name = link_target entries 5 (node_resolve entries path name)"

definition counted_entries :: "lock_entries \<Rightarrow> lock_entries" where
  "counted_entries entries = filter (\<lambda>(path, e). 0 < count_str NODE_MODULES path \<and> \<not> is_link e) entries"

definition after_modules :: "string \<Rightarrow> string" where
  "after_modules path =
     (case rfind NODE_MODULES path of None \<Rightarrow> path | Some i \<Rightarrow> drop (i + length NODE_MODULES) path)"

definition entry_identity :: "(real \<Rightarrow> string) \<Rightarrow> string \<times> (string \<times> json) list \<Rightarrow> string \<times> string" where
  "entry_identity num p = (after_modules (fst p), json_str num (json_get (snd p) ''version''))"

definition lock_root_names :: "lock_entries \<Rightarrow> (string \<times> json) list \<Rightarrow> string list option \<Rightarrow> string list" where
  "lock_root_names entries root_entry root_deps =
     (let names = (case root_deps of Some ds \<Rightarrow> ds | None \<Rightarrow> dep_names root_entry NPM_ROOT_SECTIONS)
      in if names = [] \<and> root_entry = []
         then map (remove_prefix NODE_MODULES) (filter (\<lambda>p. count_str NODE_MODULES p = 1) (map fst entries))
         else names)"

definition lock_roots :: "lock_entries \<Rightarrow> string list \<Rightarrow> string list" where
  "lock_roots entries names = List.map_filter (resolve_dep entries []) (dict_fromkeys names)"

definition lock_edges :: "lock_entries \<Rightarrow> (string, string list) dict" where
  "lock_edges entries =
     map (\<lambda>(path, e). (path, List.map_filter (resolve_dep entries path) (dep_names e NPM_CHILD_SECTIONS))) entries"

record parsed_lock =
  pl_packages :: nat
  pl_direct :: nat
  pl_depth :: nat
  pl_versions :: "(string, string) dict"

definition count_distinct :: "'a list \<Rightarrow> nat" where
  "count_distinct xs = length (remdups xs)"

definition dict_of :: "('k \<times> 'v) list \<Rightarrow> ('k, 'v) dict" where
  "dict_of kvs = foldl (\<lambda>d (k, v). dict_set k v d) [] kvs"

definition parse_package_lock ::
    "(real \<Rightarrow> string) \<Rightarrow> (string \<times> json) list \<Rightarrow> string list option \<Rightarrow> parsed_lock option" where
  "parse_package_lock num data root_deps =
     map_option (\<lambda>(entries, root_entry).
       let counted = counted_entries entries;
           roots = lock_roots entries (lock_root_names entries root_entry root_deps)
       in \<lparr>pl_packages = count_distinct (map (entry_identity num) counted),
           pl_direct = count_distinct (map (entry_identity num)
             (List.map_filter (\<lambda>p. map_option (Pair p) (map_of counted p)) roots)),
           pl_depth = bfs_depth roots (lock_edges entries),
           pl_versions = dict_of (map (\<lambda>(p, e). (remove_prefix NODE_MODULES p, json_str num (json_get e ''version'')))
             (filter (\<lambda>(p, e). count_str NODE_MODULES p = 1 \<and> json_truthy (json_get e ''version'')) counted))\<rparr>)
       (lock_entries_of data)"

section \<open>yarn v1\<close>

record yarn_entry =
  ye_name :: string
  ye_version :: string
  ye_deps :: "(string \<times> string) list"

record yarn_state =
  ys_descriptors :: "(string, nat) dict"
  ys_entries :: "yarn_entry list"
  ys_in_deps :: bool

definition descriptor_name :: "string \<Rightarrow> string \<times> string" where
  "descriptor_name descriptor =
     (case rfind ''@'' descriptor of
        None \<Rightarrow> (descriptor, [])
      | Some i \<Rightarrow> if i = 0 then (descriptor, []) else (take i descriptor, drop (Suc i) descriptor))"

definition quote_mark :: char where
  "quote_mark = CHR 0x22"

definition YARN_VERSION :: "rx list" where
  "YARN_VERSION =
     [Seqs [Str ''version'', Plus (Cls is_space), Opt (Chr quote_mark)], Plus (NotOf [quote_mark]),
      Seq (Opt (Chr quote_mark)) Eol]"

text \<open>
  The name ends at the first quote or space whether it is matched lazily, as in the code, or not.
\<close>

definition YARN_DEP :: "rx list" where
  "YARN_DEP =
     [Opt (Chr quote_mark), Plus (Cls (\<lambda>c. c \<noteq> quote_mark \<and> \<not> is_space c)),
      Seqs [Opt (Chr quote_mark), Plus (Cls is_space), Opt (Chr quote_mark)],
      Star (NotOf [quote_mark]), Seq (Opt (Chr quote_mark)) Eol]"

definition update_last :: "('a \<Rightarrow> 'a) \<Rightarrow> 'a list \<Rightarrow> 'a list" where
  "update_last f xs = (if xs = [] then [] else butlast xs @ [f (last xs)])"

definition yarn_header :: "string \<Rightarrow> yarn_state \<Rightarrow> yarn_state" where
  "yarn_header line st =
     (let keys = map (\<lambda>k. strip_of [quote_mark] (strip k)) (split_on CHR '','' (butlast line));
          position = length (ys_entries st)
      in \<lparr>ys_descriptors = foldl (\<lambda>d key. dict_set key position d) (ys_descriptors st) keys,
          ys_entries = ys_entries st @ [\<lparr>ye_name = fst (descriptor_name (hd keys)), ye_version = [], ye_deps = []\<rparr>],
          ys_in_deps = False\<rparr>)"

definition yarn_line :: "yarn_state \<Rightarrow> string \<Rightarrow> yarn_state" where
  "yarn_line st raw =
     (let line = strip raw; indent = length (takeWhile (\<lambda>c. c = CHR '' '') raw)
      in if line = [] \<or> starts_with ''#'' (lstrip_by is_space raw) then st
         else if indent = 0 \<and> ends_with '':'' line then yarn_header line st
         else if ys_entries st = [] then st
         else if indent = 2
         then st\<lparr>ys_in_deps := line \<in> {''dependencies:'', ''optionalDependencies:''},
                 ys_entries := (case rx_groups YARN_VERSION line of
                     Some [_, v, _] \<Rightarrow> update_last (\<lambda>e. e\<lparr>ye_version := v\<rparr>) (ys_entries st)
                   | _ \<Rightarrow> ys_entries st)\<rparr>
         else if 4 \<le> indent \<and> ys_in_deps st
         then (case rx_groups YARN_DEP line of
                 Some [_, name, _, spec, _] \<Rightarrow>
                   st\<lparr>ys_entries := update_last (\<lambda>e. e\<lparr>ye_deps := ye_deps e @ [(name, spec)]\<rparr>) (ys_entries st)\<rparr>
               | _ \<Rightarrow> st)
         else st)"

definition yarn_scan :: "string \<Rightarrow> yarn_state" where
  "yarn_scan text =
     foldl yarn_line \<lparr>ys_descriptors = [], ys_entries = [], ys_in_deps = False\<rparr> (splitlines text)"

definition positions_by_name :: "yarn_entry list \<Rightarrow> (string, nat) dict" where
  "positions_by_name entries =
     foldl (\<lambda>d (position, e). if ye_name e \<in> fst ` set d then d else dict_set (ye_name e) position d) []
       (List.enumerate 0 entries)"

definition yarn_lookup :: "yarn_state \<Rightarrow> (string, nat) dict \<Rightarrow> string \<times> string option \<Rightarrow> nat option" where
  "yarn_lookup st by_name dep =
     (case dep of
        (name, Some spec) \<Rightarrow>
          (case map_of (ys_descriptors st) (name @ ''@'' @ spec) of
             Some p \<Rightarrow> Some p | None \<Rightarrow> map_of by_name name)
      | (name, None) \<Rightarrow> map_of by_name name)"

definition yarn_identity :: "yarn_entry \<Rightarrow> string \<times> string" where
  "yarn_identity e = (ye_name e, ye_version e)"

definition parse_yarn_v1 :: "string \<Rightarrow> (string \<times> string option) list \<Rightarrow> parsed_lock" where
  "parse_yarn_v1 text root_specs =
     (let st = yarn_scan text; entries = ys_entries st; by_name = positions_by_name entries;
          edges = map (\<lambda>(position, e). (position,
              List.map_filter (\<lambda>(n, s). yarn_lookup st by_name (n, Some s)) (ye_deps e))) (List.enumerate 0 entries);
          roots = List.map_filter (yarn_lookup st by_name) root_specs
      in \<lparr>pl_packages = count_distinct (map yarn_identity entries),
          pl_direct = count_distinct (map (\<lambda>r. yarn_identity (entries ! r)) roots),
          pl_depth = bfs_depth (dict_fromkeys roots) edges,
          pl_versions = map (\<lambda>(name, pos). (name, ye_version (entries ! pos))) by_name\<rparr>)"

section \<open>uv and poetry\<close>

definition named_packages :: "json list \<Rightarrow> (string \<times> json) list list" where
  "named_packages items =
     List.map_filter (\<lambda>p. case p of JObj d \<Rightarrow> if json_truthy (json_get d ''name'') then Some d else None | _ \<Rightarrow> None) items"

text \<open>The names in a dependency list, or in every group of a table of lists.\<close>

fun dep_list :: "json \<Rightarrow> string list result"
  and dep_groups :: "(string \<times> json) list \<Rightarrow> string list result" where
  "dep_list (JList items) = rmap (\<lambda>d. normalize_json (json_get d ''name'')) (named_packages items)"
| "dep_list (JObj groups) = dep_groups groups"
| "dep_list JNull = Inr []"
| "dep_list (JBool b) = Inr []"
| "dep_list (JNum x) = Inr []"
| "dep_list (JStr s) = Inr []"
| "dep_groups [] = Inr []"
| "dep_groups ((label, value) # groups) =
     rbind (dep_list value) (\<lambda>names. rbind (dep_groups groups) (\<lambda>rest. Inr (names @ rest)))"

record uv_package =
  up_name :: string
  up_version :: string
  up_children :: "string list"
  up_dev :: "string list"
  up_project :: bool

definition uv_package_of :: "(real \<Rightarrow> string) \<Rightarrow> (string \<times> json) list \<Rightarrow> uv_package result" where
  "uv_package_of num package =
     rbind (normalize_json (json_get package ''name'')) (\<lambda>name.
     rbind (dep_list (json_get package ''dependencies'')) (\<lambda>deps.
     rbind (dep_list (json_get package ''optional-dependencies'')) (\<lambda>optional.
       let project = (case json_get package ''source'' of
             JObj source \<Rightarrow> ''editable'' \<in> fst ` set source \<or> ''virtual'' \<in> fst ` set source | _ \<Rightarrow> False)
       in rbind (if project then dep_list (json_get package ''dev-dependencies'') else Inr []) (\<lambda>dev.
          Inr \<lparr>up_name = name, up_version = json_str num (json_get package ''version''),
            up_children = deps @ optional, up_dev = dev, up_project = project\<rparr>))))"

text \<open>\<open>setdefault(name, []).extend(children)\<close> and \<open>setdefault(name, version)\<close>, package by package.\<close>

definition extend_edges :: "(string \<times> string list) list \<Rightarrow> (string, string list) dict" where
  "extend_edges kvs = foldl (\<lambda>d (k, cs). dict_set k (bucket_get d k @ cs) d) [] kvs"

definition first_versions :: "(string \<times> string) list \<Rightarrow> (string, string) dict" where
  "first_versions kvs = foldl (\<lambda>d (k, v). if k \<in> fst ` set d then d else dict_set k v d) [] kvs"

definition direct_count :: "string list \<Rightarrow> (string, string) dict \<Rightarrow> nat" where
  "direct_count roots versions =
     count_distinct (List.map_filter (\<lambda>n. map_option (Pair n) (map_of versions n)) roots)"

definition uv_summary :: "uv_package list \<Rightarrow> string list \<Rightarrow> parsed_lock" where
  "uv_summary packages fallback_roots =
     (let project_names = map up_name (filter up_project packages);
          edges = extend_edges (map (\<lambda>p. (up_name p, up_children p)) packages);
          locked = map (\<lambda>p. (up_name p, up_version p)) (filter (\<lambda>p. \<not> up_project p) packages);
          versions = first_versions locked;
          root_children = concat (map (\<lambda>p. up_children p @ up_dev p) (filter up_project packages));
          roots = (if project_names = [] then filter (\<lambda>r. r \<in> fst ` set edges) fallback_roots
                   else filter (\<lambda>r. r \<notin> set project_names) (dict_fromkeys root_children))
      in \<lparr>pl_packages = count_distinct locked, pl_direct = direct_count roots versions,
          pl_depth = bfs_depth roots edges, pl_versions = versions\<rparr>)"

definition parse_uv_lock :: "(real \<Rightarrow> string) \<Rightarrow> (string \<times> json) list \<Rightarrow> string list \<Rightarrow> parsed_lock result" where
  "parse_uv_lock num data fallback_roots =
     rbind (iter_or_empty (json_get data ''package'')) (\<lambda>items.
     rbind (rmap (uv_package_of num) (named_packages items)) (\<lambda>packages.
       Inr (uv_summary packages fallback_roots)))"

definition poetry_package_of :: "(real \<Rightarrow> string) \<Rightarrow> (string \<times> json) list \<Rightarrow> (string \<times> string \<times> string list) result" where
  "poetry_package_of num package =
     rbind (normalize_json (json_get package ''name'')) (\<lambda>name.
     rbind (iter_or_empty (json_get package ''dependencies'')) (\<lambda>deps.
     rbind (rmap normalize_json deps) (\<lambda>children.
       Inr (name, json_str num (json_get package ''version''), children))))"

definition parse_poetry_lock :: "(real \<Rightarrow> string) \<Rightarrow> (string \<times> json) list \<Rightarrow> string list \<Rightarrow> parsed_lock result" where
  "parse_poetry_lock num data roots =
     rbind (iter_or_empty (json_get data ''package'')) (\<lambda>items.
     rbind (rmap (poetry_package_of num) (named_packages items)) (\<lambda>packages.
       let locked = map (\<lambda>(name, version, _). (name, version)) packages;
           versions = first_versions locked;
           root_list = filter (\<lambda>r. r \<in> fst ` set versions) (dict_fromkeys roots)
       in Inr \<lparr>pl_packages = count_distinct locked, pl_direct = direct_count root_list versions,
            pl_depth = bfs_depth root_list (extend_edges (map (\<lambda>(name, _, cs). (name, cs)) packages)),
            pl_versions = versions\<rparr>))"

section \<open>pnpm\<close>

text \<open>Count so far and whether the scan is below \<open>packages:\<close>.\<close>

definition pnpm_line :: "nat \<times> bool \<Rightarrow> string \<Rightarrow> nat \<times> bool" where
  "pnpm_line state line =
     (case state of
        (n, inside) \<Rightarrow>
          if strip line = [] \<or> starts_with ''#'' (lstrip_by is_space line) then (n, inside)
          else if \<not> starts_with '' '' line then (n, rstrip_by is_space line = ''packages:'')
          else if inside \<and> \<not> starts_with ''   '' line
               \<and> rx_match (Seqs [Str ''  '', Cls (\<lambda>c. \<not> is_space c), Star not_newline, Chr CHR '':'',
                    Star (Cls is_space), Eol]) line
          then (Suc n, inside)
          else (n, inside))"

definition count_pnpm_packages :: "string \<Rightarrow> nat option" where
  "count_pnpm_packages text =
     (case foldl pnpm_line (0, False) (splitlines text) of
        (n, _) \<Rightarrow> if n = 0 then None else Some n)"

end
