(* ===== verification/Dep_Lock_Reader.thy ===== *)
theory Dep_Lock_Reader
  imports Dep_Lockfiles
begin

text \<open>
  \<open>LockfileReader\<close> of \<open>analyzers/dep_health.py\<close> and the registry client with its cache.  A
  lockfile whose reading raises one of the caught exceptions is kept with a note and no counts.
\<close>

section \<open>Lockfiles\<close>

record lockfile =
  lk_path :: string
  lk_format :: string
  lk_ecosystem :: ecosystem
  lk_packages :: "nat option"
  lk_direct :: "nat option"
  lk_transitive :: "nat option"
  lk_depth :: "nat option"
  lk_note :: "string option"
  lk_versions :: "(string, string) dict"

definition LOCKFILE_NAMES :: "(string \<times> ecosystem) list" where
  "LOCKFILE_NAMES =
     [(''package-lock.json'', Npm), (''npm-shrinkwrap.json'', Npm), (''yarn.lock'', Npm), (''pnpm-lock.yaml'', Npm),
      (''uv.lock'', PyPI), (''poetry.lock'', PyPI), (''Pipfile.lock'', PyPI), (''bun.lock'', Npm),
      (''bun.lockb'', Npm), (''pdm.lock'', PyPI), (''pylock.toml'', PyPI)]"

definition MAX_LOCKFILE_BYTES :: int where
  "MAX_LOCKFILE_BYTES = 30 * 1024 * 1024"

definition set_missing :: "'k \<Rightarrow> 'v \<Rightarrow> ('k, 'v) dict \<Rightarrow> ('k, 'v) dict" where
  "set_missing k v d = (if k \<in> fst ` set d then d else dict_set k v d)"

text \<open>What the manifests of a directory declare, with the sections of its \<open>package.json\<close>.\<close>

definition local_sections :: "dep_env \<Rightarrow> string \<Rightarrow> (string \<times> string option) list" where
  "local_sections env rel =
     (if path_name rel \<noteq> ''package.json'' then []
      else (case json_file env MAX_MANIFEST_BYTES rel of
              Some (JObj data) \<Rightarrow>
                concat (map (\<lambda>s. case json_get data s of
                    JObj deps \<Rightarrow> map (\<lambda>(name, spec). (name, case spec of JStr t \<Rightarrow> Some t | _ \<Rightarrow> None)) deps
                  | _ \<Rightarrow> []) NPM_ROOT_SECTIONS)
            | _ \<Rightarrow> []))"

definition dir_manifest_deps :: "dep_env \<Rightarrow> manifests \<Rightarrow> string \<Rightarrow> ecosystem \<Rightarrow> (string, string option) dict option" where
  "dir_manifest_deps env m directory eco =
     (let local = filter (\<lambda>f. parent f = directory) (mf_files m eco);
          found = dict_of (map (\<lambda>(_, d). (dd_key d, dd_spec d))
            (filter (\<lambda>(_, d). dd_manifest d \<in> set local) (mf_deps m eco)))
      in if local = [] then None
         else Some (foldl (\<lambda>d (name, spec). set_missing name spec d) found (concat (map (local_sections env) local))))"

definition filled :: "lockfile \<Rightarrow> parsed_lock \<Rightarrow> lockfile" where
  "filled lock p =
     lock\<lparr>lk_packages := Some (pl_packages p), lk_direct := Some (pl_direct p), lk_depth := Some (pl_depth p),
          lk_versions := pl_versions p\<rparr>"

definition lock_text :: "dep_env \<Rightarrow> lockfile \<Rightarrow> string" where
  "lock_text env lock = (case de_read env MAX_LOCKFILE_BYTES (lk_path lock) of None \<Rightarrow> [] | Some t \<Rightarrow> t)"

definition fill_package_lock :: "dep_env \<Rightarrow> (string, string option) dict option \<Rightarrow> lockfile \<Rightarrow> lockfile option" where
  "fill_package_lock env local lock =
     (case json_file env MAX_LOCKFILE_BYTES (lk_path lock) of
        Some (JObj data) \<Rightarrow>
          let has_root = (case json_get data ''packages'' of JObj ps \<Rightarrow> [] \<in> fst ` set ps | _ \<Rightarrow> False);
              roots = (if has_root then None
                       else (case local of None \<Rightarrow> None | Some d \<Rightarrow> if d = [] then None else Some (map fst d)))
          in map_option (filled lock) (parse_package_lock (de_number env) data roots)
      | _ \<Rightarrow> None)"

definition pipfile_names :: "dep_env \<Rightarrow> (string \<times> json) list \<Rightarrow> (string, string) dict result" where
  "pipfile_names env data =
     rbind (rmap (\<lambda>s. dict_or_empty (json_get data s)) [''default'', ''develop'']) (\<lambda>tables.
       Inr (foldl (\<lambda>d (name, entry). set_missing (normalize_dist name)
              (lstrip_by (\<lambda>c. c = CHR ''='') (case entry of
                 JObj e \<Rightarrow> (case map_of e ''version'' of None \<Rightarrow> [] | Some v \<Rightarrow> json_str (de_number env) v)
               | _ \<Rightarrow> [])) d) [] (concat tables)))"

definition of_result :: "'a result \<Rightarrow> 'a option" where
  "of_result r = (case r of Inl _ \<Rightarrow> None | Inr x \<Rightarrow> Some x)"

definition fill_lock :: "dep_env \<Rightarrow> manifests \<Rightarrow> lockfile \<Rightarrow> lockfile option" where
  "fill_lock env m lock =
     (let eco = lk_ecosystem lock; name = lk_format lock;
          local = dir_manifest_deps env m (parent (lk_path lock)) eco;
          repo_roots = map fst (mf_deps m eco);
          roots = (case local of Some d \<Rightarrow> map fst d | None \<Rightarrow> repo_roots)
      in if name \<in> {''package-lock.json'', ''npm-shrinkwrap.json''} then fill_package_lock env local lock
         else if name = ''yarn.lock''
         then (if rx_search (Str ''__metadata:'') (lock_text env lock)
               then Some (lock\<lparr>lk_note := Some ''yarn berry (v2+) lockfiles are not supported''\<rparr>)
               else Some (filled lock (parse_yarn_v1 (lock_text env lock)
                      (case local of Some d \<Rightarrow> d | None \<Rightarrow> map (\<lambda>k. (k, None)) repo_roots))))
         else if name = ''uv.lock''
         then Option.bind (de_toml env (lock_text env lock))
                (\<lambda>data. map_option (filled lock) (of_result (parse_uv_lock (de_number env) data roots)))
         else if name = ''poetry.lock''
         then Option.bind (de_toml env (lock_text env lock))
                (\<lambda>data. map_option (filled lock) (of_result (parse_poetry_lock (de_number env) data roots)))
         else if name = ''Pipfile.lock''
         then (case json_file env MAX_LOCKFILE_BYTES (lk_path lock) of
                 Some (JObj data) \<Rightarrow>
                   map_option (\<lambda>names.
                     lock\<lparr>lk_packages := Some (length names),
                          lk_direct := Some (count_distinct (filter (\<lambda>k. k \<in> fst ` set names) roots)),
                          lk_versions := filter (\<lambda>(_, v). v \<noteq> []) names,
                          lk_note := Some ''flat lockfile: depth unknown''\<rparr>)
                     (of_result (pipfile_names env data))
               | _ \<Rightarrow> None)
         else if name = ''pnpm-lock.yaml''
         then (case count_pnpm_packages (lock_text env lock) of
                 None \<Rightarrow> Some (lock\<lparr>lk_note := Some ''pnpm lockfile layout not recognised''\<rparr>)
               | Some n \<Rightarrow>
                   Some (lock\<lparr>lk_packages := Some n, lk_direct := Some (min n (length roots)),
                          lk_note := Some ''packages counted only: depth unknown''\<rparr>))
         else Some (lock\<lparr>lk_note := Some (name @ '' is not supported'')\<rparr>))"

definition read_lock :: "dep_env \<Rightarrow> manifests \<Rightarrow> string \<times> ecosystem \<Rightarrow> lockfile" where
  "read_lock env m p =
     (let empty_lock = \<lparr>lk_path = fst p, lk_format = path_name (fst p), lk_ecosystem = snd p, lk_packages = None,
            lk_direct = None, lk_transitive = None, lk_depth = None, lk_note = None, lk_versions = []\<rparr>;
          lock = (case fill_lock env m empty_lock of
                    Some l \<Rightarrow> l | None \<Rightarrow> empty_lock\<lparr>lk_note := Some ''could not be parsed''\<rparr>)
      in case (lk_packages lock, lk_direct lock) of
           (Some n, Some d) \<Rightarrow> lock\<lparr>lk_transitive := Some (n - d)\<rparr>
         | _ \<Rightarrow> lock)"

definition read_locks :: "dep_env \<Rightarrow> manifests \<Rightarrow> lockfile list" where
  "read_locks env m =
     map (read_lock env m)
       (List.map_filter (\<lambda>rel. map_option (Pair rel) (map_of LOCKFILE_NAMES (path_name rel)))
         (sort_key path_order (de_files env)))"

section \<open>Registry client\<close>

text \<open>What the HTTP client yields: no answer, or a status and the body as JSON, if it is that.\<close>

datatype http_answer = Transport_failure | Http_response nat "json option"

record registry_state =
  gs_cache :: "(ecosystem \<times> string, real \<times> registry_info) dict"
  gs_unreachable :: "ecosystem list"
  gs_cache_hits :: nat
  gs_requests :: nat

definition not_found :: registry_info where
  "not_found = \<lparr>gi_found = False, gi_latest = None, gi_versions = [], gi_sizes = [], gi_file_counts = []\<rparr>"

text \<open>\<open>isinstance(value, int)\<close>; a number without fractional part counts as one.\<close>

definition json_int :: "json \<Rightarrow> int option" where
  "json_int v =
     (case v of
        JNum x \<Rightarrow> if of_int \<lfloor>x\<rfloor> = x then Some \<lfloor>x\<rfloor> else None
      | JBool b \<Rightarrow> Some (if b then 1 else 0)
      | _ \<Rightarrow> None)"

definition json_text :: "json \<Rightarrow> string option" where
  "json_text v = (case v of JStr s \<Rightarrow> Some s | _ \<Rightarrow> None)"

definition live_files :: "json \<Rightarrow> (string \<times> json) list list result" where
  "live_files files =
     rbind (iter_or_empty files) (\<lambda>items.
       Inr (List.map_filter (\<lambda>f. case f of
           JObj d \<Rightarrow> if json_truthy (json_get d ''yanked'') then None else Some d
         | _ \<Rightarrow> None) items))"

definition normalise_pypi :: "(string \<times> json) list \<Rightarrow> registry_info result" where
  "normalise_pypi data =
     rbind (dict_or_empty (json_get data ''releases'')) (\<lambda>releases.
     rbind (rmap (\<lambda>(version, files). rbind (live_files files) (\<lambda>live. Inr (version, live))) releases) (\<lambda>lives.
     rbind (dict_or_empty (json_get data ''info'')) (\<lambda>facts.
       let live = filter (\<lambda>(_, fs). fs \<noteq> []) lives
       in Inr \<lparr>gi_found = True, gi_latest = json_text (json_get facts ''version''), gi_versions = map fst live,
            gi_sizes = List.map_filter (\<lambda>(version, fs).
              let sizes = List.map_filter (\<lambda>f. json_int (json_get f ''size'')) fs
              in if sizes = [] then None else Some (version, Min (set sizes))) live,
            gi_file_counts = []\<rparr>)))"

definition normalise_npm :: "(string \<times> json) list \<Rightarrow> registry_info result" where
  "normalise_npm data =
     rbind (dict_or_empty (json_get data ''versions'')) (\<lambda>versions.
     rbind (dict_or_empty (json_get data ''dist-tags'')) (\<lambda>tags.
       let dist = (\<lambda>meta. case meta of JObj d \<Rightarrow> (case json_get d ''dist'' of JObj x \<Rightarrow> x | _ \<Rightarrow> []) | _ \<Rightarrow> []);
           sizes_of = (\<lambda>key. List.map_filter (\<lambda>(version, meta).
             map_option (Pair version) (json_int (json_get (dist meta) key))) versions)
       in Inr \<lparr>gi_found = True, gi_latest = json_text (json_get tags ''latest''), gi_versions = map fst versions,
            gi_sizes = sizes_of ''unpackedSize'', gi_file_counts = sizes_of ''fileCount''\<rparr>))"

text \<open>\<open>_fetch\<close>: \<open>Inr None\<close> is \<open>RegistryUnavailableError\<close>.\<close>

definition fetch_info :: "ecosystem \<Rightarrow> http_answer \<Rightarrow> registry_info option result" where
  "fetch_info eco answer =
     (case answer of
        Transport_failure \<Rightarrow> Inr None
      | Http_response status body \<Rightarrow>
          if status = 404 then Inr (Some not_found)
          else if 500 \<le> status \<or> status = 429 then Inr None
          else if status \<noteq> 200 then Inr (Some not_found)
          else (case body of
                  None \<Rightarrow> Inr None
                | Some (JObj data) \<Rightarrow>
                    rbind (if eco = PyPI then normalise_pypi data else normalise_npm data) (\<lambda>reg. Inr (Some reg))
                | Some _ \<Rightarrow> Inr (Some not_found)))"

definition registry_name :: "ecosystem \<Rightarrow> string \<Rightarrow> string" where
  "registry_name eco name = (if eco = PyPI then canonical_pypi name else name)"

definition fresh_entry :: "real \<Rightarrow> real \<Rightarrow> registry_state \<Rightarrow> ecosystem \<times> string \<Rightarrow> registry_info option" where
  "fresh_entry now ttl st key =
     (case map_of (gs_cache st) key of
        Some (fetched_at, reg) \<Rightarrow> if ttl < now - fetched_at then None else Some reg
      | None \<Rightarrow> None)"

definition lookup_package ::
    "(ecosystem \<Rightarrow> string \<Rightarrow> http_answer) \<Rightarrow> real \<Rightarrow> real \<Rightarrow> ecosystem \<Rightarrow> string \<Rightarrow> registry_state
      \<Rightarrow> (registry_info option \<times> registry_state) result" where
  "lookup_package server now ttl eco name st =
     (let key = (eco, registry_name eco name)
      in case fresh_entry now ttl st key of
           Some reg \<Rightarrow> Inr (Some reg, st\<lparr>gs_cache_hits := Suc (gs_cache_hits st)\<rparr>)
         | None \<Rightarrow>
             if eco \<in> set (gs_unreachable st) then Inr (None, st)
             else
               let st' = st\<lparr>gs_requests := Suc (gs_requests st)\<rparr>
               in rbind (fetch_info eco (server eco (snd key))) (\<lambda>fetched.
                    Inr (case fetched of
                      None \<Rightarrow> (None, st'\<lparr>gs_unreachable := gs_unreachable st' @ [eco]\<rparr>)
                    | Some reg \<Rightarrow> (Some reg, st'\<lparr>gs_cache := dict_set key (now, reg) (gs_cache st')\<rparr>))))"

text \<open>The lookups of a scan, one after the other.\<close>

fun lookup_all ::
    "(ecosystem \<Rightarrow> string \<Rightarrow> http_answer) \<Rightarrow> real \<Rightarrow> real \<Rightarrow> dependency list \<Rightarrow> registry_state
      \<Rightarrow> ((ecosystem \<times> string, registry_info option) dict \<times> registry_state) result" where
  "lookup_all server now ttl [] st = Inr ([], st)"
| "lookup_all server now ttl (dep # deps) st =
     rbind (lookup_package server now ttl (dd_ecosystem dep) (dd_name dep) st) (\<lambda>(reg, st').
     rbind (lookup_all server now ttl deps st') (\<lambda>(results, st'').
       Inr (((dd_ecosystem dep, dd_key dep), reg) # results, st'')))"

text \<open>
  An unreachable registry is asked once: after the first failure of an ecosystem no further
  request goes to it, whatever is looked up.
\<close>

lemma lookup_package_unreachable:
  assumes "lookup_package server now ttl eco name st = Inr (r, st')" "eco' \<in> set (gs_unreachable st)"
  shows "eco' \<in> set (gs_unreachable st') \<and> (eco = eco' \<longrightarrow> gs_requests st' = gs_requests st)"
  using assms
  by (auto simp: lookup_package_def Let_def rbind_Inr split: option.splits if_splits)

lemma lookup_all_unreachable:
  assumes "lookup_all server now ttl deps st = Inr (rs, st')" "eco \<in> set (gs_unreachable st)"
    "\<forall>d \<in> set deps. dd_ecosystem d = eco"
  shows "gs_requests st' = gs_requests st"
  using assms
proof (induction deps arbitrary: st rs)
  case (Cons d deps)
  from Cons.prems(1) obtain r st1 rs' where
      one: "lookup_package server now ttl (dd_ecosystem d) (dd_name d) st = Inr (r, st1)"
      and others: "lookup_all server now ttl deps st1 = Inr (rs', st')"
    by (auto simp: rbind_Inr)
  from lookup_package_unreachable [OF one Cons.prems(2)] Cons.prems(3)
  have "eco \<in> set (gs_unreachable st1)" "gs_requests st1 = gs_requests st" by auto
  with Cons.IH [OF others] Cons.prems(3) show ?case by simp
qed simp

text \<open>What was fetched is served from the cache until it is older than the limit.\<close>

lemma lookup_cached:
  assumes "lookup_package server now ttl eco name st = Inr (Some reg, st')" "fresh_entry now ttl st (eco, registry_name eco name) = None"
    "later - now \<le> ttl"
  shows "lookup_package server' later ttl eco name st' = Inr (Some reg, st'\<lparr>gs_cache_hits := Suc (gs_cache_hits st')\<rparr>)"
proof -
  let ?key = "(eco, registry_name eco name)"
  have "eco \<notin> set (gs_unreachable st)"
    using assms(1,2) by (auto simp: lookup_package_def)
  with assms(1,2) have "gs_cache st' = dict_set ?key (now, reg) (gs_cache st)"
    by (auto simp: lookup_package_def Let_def rbind_Inr split: option.splits)
  with assms(3) have "fresh_entry later ttl st' ?key = Some reg" by (simp add: fresh_entry_def)
  then show ?thesis by (simp add: lookup_package_def)
qed

end
