(* ===== verification/Dep_Usage.thy ===== *)
theory Dep_Usage
  imports Dep_Lock_Reader
begin

text \<open>
  What the code uses (\<open>collect_usage\<close> and \<open>_template_imports\<close> of
  \<open>analyzers/dep_health.py\<close>) and where a dependency is mentioned in tool files.
\<close>

section \<open>Import usage\<close>

record import_usage =
  iu_used :: "ecosystem \<Rightarrow> string list"
  iu_external :: "ecosystem \<Rightarrow> string list"
  iu_phantom :: "ecosystem \<Rightarrow> (string, string \<times> int) dict"
  iu_candidates :: "(string, string list) dict"

definition empty_usage :: import_usage where
  "empty_usage = \<lparr>iu_used = (\<lambda>_. []), iu_external = (\<lambda>_. []), iu_phantom = (\<lambda>_. []), iu_candidates = []\<rparr>"

definition EXTRA_IMPORT_ALIASES :: "(string \<times> string list) list" where
  "EXTRA_IMPORT_ALIASES =
     [(''dns'', [''dnspython'']), (''kafka'', [''kafka_python'']), (''fitz'', [''pymupdf'']),
      (''websocket'', [''websocket_client'']), (''Xlib'', [''python_xlib'']), (''ldap'', [''python_ldap'']),
      (''usb'', [''pyusb'']), (''nacl'', [''pynacl'']), (''faiss'', [''faiss_cpu'', ''faiss_gpu'']),
      (''github'', [''pygithub'']), (''jose'', [''python_jose'']), (''mpl_toolkits'', [''matplotlib''])]"

definition aliases_of :: "(string \<times> string list) list \<Rightarrow> string \<Rightarrow> string list" where
  "aliases_of table name = (case map_of table name of None \<Rightarrow> [] | Some ds \<Rightarrow> ds)"

definition dotted_prefixes :: "string list \<Rightarrow> string list" where
  "dotted_prefixes parts =
     map (\<lambda>stop. normalize_dist (join ''_'' (take stop parts))) [2..<Suc (length parts)]"

definition python_candidates :: "resolved_import \<Rightarrow> string list" where
  "python_candidates item =
     (let raw = rs_raw item;
          first = before CHR ''.'' (ri_specifier raw);
          top_name = (case rs_target item of None \<Rightarrow> first | Some t \<Rightarrow> if t = [] then first else t);
          normal = normalize_dist top_name;
          dotted = filter (\<lambda>p. p \<noteq> []) (split_on CHR ''.'' (ri_specifier raw));
          variants = (if ri_kind raw = ''from'' \<and> ri_names raw \<noteq> []
                      then map (\<lambda>n. dotted @ [n]) (ri_names raw) else [dotted])
      in dict_fromkeys
           ([normal, ''python_'' @ normal, ''py'' @ normal] @ aliases_of PYTHON_IMPORT_ALIASES top_name
            @ aliases_of EXTRA_IMPORT_ALIASES top_name @ concat (map dotted_prefixes variants)))"

definition add_names :: "string list \<Rightarrow> string list \<Rightarrow> string list" where
  "add_names names xs = dict_fromkeys (xs @ names)"

definition usage_ecosystem :: "(string \<times> string) list \<Rightarrow> resolved_import \<Rightarrow> ecosystem" where
  "usage_ecosystem languages item = (if map_of languages (rs_source item) = Some ''python'' then PyPI else Npm)"

text \<open>Imports of the standard library, of Node's builtins and of URLs have other methods.\<close>

definition counts_as_usage :: "resolved_import \<Rightarrow> bool" where
  "counts_as_usage item \<longleftrightarrow>
     rs_status item = External \<and> rs_target item \<noteq> None \<and> rs_target item \<noteq> Some []
     \<and> rs_method item \<in> {Some ''declared'', Some ''undeclared''}"

definition use_import :: "(string \<times> string) list \<Rightarrow> import_usage \<Rightarrow> resolved_import \<Rightarrow> import_usage" where
  "use_import languages usage item =
     (if \<not> counts_as_usage item then usage
      else
        let eco = usage_ecosystem languages item; package = the (rs_target item);
            names = (if eco = PyPI then python_candidates item else [package]);
            known = (case map_of (iu_candidates usage) package of None \<Rightarrow> [] | Some cs \<Rightarrow> cs)
        in usage\<lparr>iu_external := (iu_external usage)(eco := add_names [package] (iu_external usage eco)),
                 iu_used := (iu_used usage)(eco := add_names names (iu_used usage eco)),
                 iu_candidates := (if eco = PyPI
                   then dict_set package (add_names names known) (iu_candidates usage)
                   else iu_candidates usage),
                 iu_phantom := (if rs_method item = Some ''undeclared''
                   then (iu_phantom usage)(eco := set_missing package (rs_source item, ri_line (rs_raw item)) (iu_phantom usage eco))
                   else iu_phantom usage)\<rparr>)"

definition import_order :: "resolved_import \<Rightarrow> string \<times> int" where
  "import_order item = (rs_source item, ri_line (rs_raw item))"

definition collect_usage :: "resolved_import list \<Rightarrow> (string \<times> string) list \<Rightarrow> import_usage" where
  "collect_usage resolved languages = foldl (use_import languages) empty_usage (sort_key import_order resolved)"

section \<open>Templates and style sheets\<close>

definition TEMPLATE_EXTENSIONS :: "string list" where
  "TEMPLATE_EXTENSIONS = [''.vue'', ''.svelte'', ''.astro'', ''.mdx'']"

definition STYLE_EXTENSIONS :: "string list" where
  "STYLE_EXTENSIONS = [''.css'', ''.scss'', ''.sass'', ''.less'']"

definition quote_class :: rx where
  "quote_class = OneOf [CHR 0x27, CHR 0x22]"

definition package_specifier :: rx where
  "package_specifier = Seq (NotOf ([CHR 0x27, CHR 0x22] @ ''./'')) (Star (NotOf [CHR 0x27, CHR 0x22]))"

definition template_specifiers :: "string \<Rightarrow> string list" where
  "template_specifiers text =
     rx_findall_group
       (Seqs [Alts (map (\<lambda>w. Seq (NotBehind is_word) (Str w)) [''from'', ''import'', ''require('']),
              Star (Cls is_space), quote_class])
       package_specifier quote_class text"

definition style_specifiers :: "string \<Rightarrow> string list" where
  "style_specifiers text =
     rx_findall_group
       (Seqs [Chr CHR ''@'', Alts (map Str [''import'', ''use'', ''forward'', ''plugin'']), Plus (Cls is_space),
              Opt (Str ''url(''), quote_class, Opt (Chr CHR ''~'')])
       package_specifier quote_class text"

definition package_of :: "string \<Rightarrow> string" where
  "package_of specifier =
     (let parts = split_on CHR ''/'' specifier
      in if starts_with ''@'' specifier then join ''/'' (take 2 parts) else hd parts)"

definition has_extension :: "string list \<Rightarrow> string \<Rightarrow> bool" where
  "has_extension extensions f \<longleftrightarrow> list_ex (\<lambda>e. ends_with e f) extensions"

definition template_imports :: "dep_env \<Rightarrow> string list" where
  "template_imports env =
     (let files = take 2000 (sort (filter (has_extension (TEMPLATE_EXTENSIONS @ STYLE_EXTENSIONS)) (de_files env)))
      in concat (map (\<lambda>rel.
           let text = (case de_read env (512 * 1024) rel of None \<Rightarrow> [] | Some t \<Rightarrow> t)
           in map package_of
                (if has_extension STYLE_EXTENSIONS rel then style_specifiers text else template_specifiers text)) files))"

section \<open>Mentions\<close>

definition mention :: "bool \<Rightarrow> (char \<Rightarrow> bool) \<Rightarrow> string list \<Rightarrow> rx" where
  "mention ignore_case left names =
     (let letter = (\<lambda>k. if ignore_case then Cls (\<lambda>c. lower_char c = lower_char k) else Chr k)
      in Seqs [NotBehind left, Alts (map (\<lambda>n. Seqs (map letter n)) names),
               NotAhead (Cls (\<lambda>c. is_word c \<or> c = CHR ''-''))])"

definition referenced :: "dependency \<Rightarrow> (string \<times> string) list \<Rightarrow> string option" where
  "referenced dep corpus =
     (let pypi = (dd_ecosystem dep = PyPI);
          names = sort (remdups (dd_name dep # (if pypi then [canonical_pypi (dd_name dep), dd_key dep] else [])));
          pattern = mention pypi (\<lambda>c. is_word c \<or> c \<in> set ''@.-'') names
      in map_option fst (find (\<lambda>(rel, text). rx_search pattern text) corpus))"

definition line_of :: "dep_env \<Rightarrow> string \<Rightarrow> string \<Rightarrow> int" where
  "line_of env rel name =
     (let text = (case manifest_text env rel of None \<Rightarrow> [] | Some t \<Rightarrow> t);
          pattern = mention True (\<lambda>c. is_word c \<or> c \<in> set ''@/.-'') [name]
      in case find (\<lambda>(number, line). rx_search pattern line) (List.enumerate 1 (splitlines text)) of
           Some (number, _) \<Rightarrow> int number | None \<Rightarrow> 1)"

section \<open>Properties\<close>

text \<open>The names used are the candidates of the imports that count.\<close>

lemma use_import_used:
  "set (iu_used (use_import languages usage item) eco) =
     set (iu_used usage eco)
     \<union> (if counts_as_usage item \<and> usage_ecosystem languages item = eco
        then (if eco = PyPI then set (python_candidates item) else {the (rs_target item)}) else {})"
  by (auto simp: use_import_def Let_def add_names_def)

lemma foldl_use_import_used:
  "set (iu_used (foldl (use_import languages) usage items) eco) =
     set (iu_used usage eco)
     \<union> (\<Union>item \<in> {i \<in> set items. counts_as_usage i \<and> usage_ecosystem languages i = eco}.
          if eco = PyPI then set (python_candidates item) else {the (rs_target item)})"
  by (induction items arbitrary: usage) (auto simp: use_import_used)

lemma collect_usage_used:
  "set (iu_used (collect_usage resolved languages) eco) =
     (\<Union>item \<in> {i \<in> set resolved. counts_as_usage i \<and> usage_ecosystem languages i = eco}.
        if eco = PyPI then set (python_candidates item) else {the (rs_target item)})"
  by (simp add: collect_usage_def foldl_use_import_used empty_usage_def)

text \<open>The phantom packages are the undeclared ones among them, each once and external.\<close>

definition undeclared_in :: "(string \<times> string) list \<Rightarrow> ecosystem \<Rightarrow> resolved_import \<Rightarrow> bool" where
  "undeclared_in languages eco item \<longleftrightarrow>
     counts_as_usage item \<and> usage_ecosystem languages item = eco \<and> rs_method item = Some ''undeclared''"

lemma set_missing_keys [simp]: "fst ` set (set_missing k v d) = insert k (fst ` set d)"
  by (auto simp: set_missing_def dict_set_keys)

lemma distinct_set_missing: "distinct (map fst d) \<Longrightarrow> distinct (map fst (set_missing k v d))"
  by (simp add: set_missing_def distinct_dict_set)

lemma use_import_phantom:
  "fst ` set (iu_phantom (use_import languages usage item) eco) =
     fst ` set (iu_phantom usage eco) \<union> (if undeclared_in languages eco item then {the (rs_target item)} else {})"
  "distinct (map fst (iu_phantom usage eco)) \<Longrightarrow> distinct (map fst (iu_phantom (use_import languages usage item) eco))"
  "set (iu_external (use_import languages usage item) eco) =
     set (iu_external usage eco)
     \<union> (if counts_as_usage item \<and> usage_ecosystem languages item = eco then {the (rs_target item)} else {})"
  "distinct (iu_external usage eco) \<Longrightarrow> distinct (iu_external (use_import languages usage item) eco)"
  by (auto simp: use_import_def Let_def undeclared_in_def add_names_def distinct_set_missing)

lemma foldl_use_import_phantom:
  "fst ` set (iu_phantom (foldl (use_import languages) usage items) eco) =
     fst ` set (iu_phantom usage eco) \<union> (the \<circ> rs_target) ` {i \<in> set items. undeclared_in languages eco i}"
  by (induction items arbitrary: usage) (auto simp: use_import_phantom(1))

lemma collect_usage_invariant:
  "distinct (map fst (iu_phantom (collect_usage resolved languages) eco))
   \<and> distinct (iu_external (collect_usage resolved languages) eco)
   \<and> fst ` set (iu_phantom (collect_usage resolved languages) eco) \<subseteq> set (iu_external (collect_usage resolved languages) eco)"
proof -
  let ?ok = "\<lambda>u. distinct (map fst (iu_phantom u eco)) \<and> distinct (iu_external u eco)
      \<and> fst ` set (iu_phantom u eco) \<subseteq> set (iu_external u eco)"
  have step: "?ok (use_import languages u item)" if "?ok u" for u item
    using that use_import_phantom [where languages = languages and usage = u and item = item and eco = eco] by (auto simp: undeclared_in_def)
  have "?ok (foldl (use_import languages) u items)" if "?ok u" for u items
    using that by (induction items arbitrary: u) (simp_all add: step del: map_eq_conv)
  from this [of empty_usage] show ?thesis by (simp add: collect_usage_def empty_usage_def)
qed

lemma collect_usage_phantom:
  "fst ` set (iu_phantom (collect_usage resolved languages) eco) =
     (the \<circ> rs_target) ` {i \<in> set resolved. undeclared_in languages eco i}"
  by (simp add: collect_usage_def foldl_use_import_phantom empty_usage_def)

end
