(* ===== verification/Signals.thy ===== *)
theory Signals
  imports Complex_Main
begin

text \<open>
  The report of an experimental signal (\<open>analyzers/signals.py\<close>): components between 0 and 1, some
  of them not available, and their mean.  Metrics and reasons are left out.
\<close>

section \<open>Signal reports\<close>

record health_report =
  sr_applicable :: bool
  sr_score :: "real option"
  sr_components :: "(string \<times> real option) list"

definition mean_of :: "real list \<Rightarrow> real option" where
  "mean_of values = (if values = [] then None else Some (sum_list values / real (length values)))"

definition mean_score :: "(string \<times> real option) list \<Rightarrow> real option" where
  "mean_score components = mean_of (List.map_filter snd components)"

definition clamp01 :: "real \<Rightarrow> real" where
  "clamp01 value = max 0 (min 1 value)"

definition inapplicable_report :: health_report where
  "inapplicable_report = \<lparr>sr_applicable = False, sr_score = None, sr_components = []\<rparr>"

definition in_unit :: "real option \<Rightarrow> bool" where
  "in_unit v \<longleftrightarrow> (case v of None \<Rightarrow> True | Some x \<Rightarrow> 0 \<le> x \<and> x \<le> 1)"

lemma in_unit_simps [simp]: "in_unit None" "in_unit (Some x) \<longleftrightarrow> 0 \<le> x \<and> x \<le> 1"
  by (simp_all add: in_unit_def)

lemma clamp01_bounds: "0 \<le> clamp01 x \<and> clamp01 x \<le> 1"
  by (simp add: clamp01_def)

lemma sum_list_unit: "\<forall>x \<in> set xs. (0::real) \<le> x \<and> x \<le> 1 \<Longrightarrow> 0 \<le> sum_list xs \<and> sum_list xs \<le> real (length xs)"
  by (induction xs) auto

lemma in_unit_mean: "\<forall>x \<in> set xs. 0 \<le> x \<and> x \<le> 1 \<Longrightarrow> in_unit (mean_of xs)"
  using sum_list_unit [of xs] by (auto simp: mean_of_def divide_le_eq)

lemma in_unit_mean_score: "\<forall>(n, v) \<in> set cs. in_unit v \<Longrightarrow> in_unit (mean_score cs)"
  unfolding mean_score_def by (rule in_unit_mean) (auto simp: in_unit_def map_filter_def split: option.splits)

text \<open>
  What every signal promises to the rubric: when it applies, its components lie between 0 and 1
  and its score is their mean.
\<close>

locale signal_contract =
  fixes applicable :: "'a \<Rightarrow> bool"
    and components :: "'a \<Rightarrow> (string \<times> real option) list"
    and report :: "'a \<Rightarrow> health_report"
  assumes report: "report x =
      (if applicable x then \<lparr>sr_applicable = True, sr_score = mean_score (components x), sr_components = components x\<rparr>
       else inapplicable_report)"
    and unit: "(name, v) \<in> set (components x) \<Longrightarrow> in_unit v"
begin

lemma report_unit: "list_all (in_unit \<circ> snd) (sr_components (report x)) \<and> in_unit (sr_score (report x))"
proof -
  have all: "\<forall>(name, v) \<in> set (components x). in_unit v" using unit by blast
  then have "in_unit (mean_score (components x))" by (rule in_unit_mean_score)
  then show ?thesis using all by (auto simp: report inapplicable_report_def list_all_iff)
qed

lemma score_in_unit: "in_unit (sr_score (report x))"
  using report_unit by blast

end

end
