(* ===== verification/Dep_Health.thy ===== *)
theory Dep_Health
  imports Dep_Usage Signals
begin

text \<open>
  \<open>DepHealthAnalyzer\<close> of \<open>analyzers/dep_health.py\<close>: the six components, the findings and \<open>collect\<close>.  The lookups'
  results are an argument, \<open>None\<close> for a package that was not looked up in time or whose
  registry did not answer.  Metrics and notes, which only report the same numbers, are left out.
\<close>

section \<open>Findings and settings\<close>

record dep_finding =
  df_rule :: string
  df_ecosystem :: ecosystem
  df_package :: string
  df_key :: string
  df_file :: string
  df_line :: int

record dep_settings =
  ds_baseline :: "ecosystem \<Rightarrow> int"
  ds_registry_enabled :: bool
  ds_max_lookups :: int
  ds_trivial_bytes :: int

section \<open>Counts\<close>

definition direct_component :: "int \<Rightarrow> nat \<Rightarrow> real" where
  "direct_component baseline n =
     (let b = max 1 baseline in clamp01 (of_int b / of_int (max (int n) b)))"

definition direct_counts :: "dep_settings \<Rightarrow> manifests \<Rightarrow> real option" where
  "direct_counts settings m =
     mean_of (map (\<lambda>eco. direct_component (ds_baseline settings eco) (length (mf_deps m eco)))
       (filter (\<lambda>eco. mf_files m eco \<noteq> []) ECOSYSTEMS))"

definition transitive_component :: "nat \<Rightarrow> nat \<Rightarrow> real" where
  "transitive_component transitive direct = 1 / (1 + real (transitive - 10 * direct) / (50 * real (max 1 direct)))"

definition transitive_value :: "lockfile list \<Rightarrow> real option" where
  "transitive_value locks =
     (let usable = filter (\<lambda>l. lk_transitive l \<noteq> None \<and> lk_direct l \<noteq> None) locks
      in if usable = [] then None
         else Some (transitive_component (sum_list (map (the \<circ> lk_transitive) usable))
                      (sum_list (map (the \<circ> lk_direct) usable))))"

section \<open>Registry\<close>

definition lock_versions :: "lockfile list \<Rightarrow> ecosystem \<Rightarrow> (string, string) dict" where
  "lock_versions locks eco =
     foldl (\<lambda>d (key, version). set_missing (dependency_key eco key) version d) []
       (concat (map lk_versions (filter (\<lambda>l. lk_ecosystem l = eco) locks)))"

definition installed_version ::
    "dependency \<Rightarrow> (ecosystem \<Rightarrow> (string, string) dict) \<Rightarrow> (string, string) dict \<Rightarrow> string option" where
  "installed_version dep locked pins =
     (case map_of (locked (dd_ecosystem dep)) (dd_key dep) of
        Some (c # cs) \<Rightarrow> Some (c # cs)
      | _ \<Rightarrow>
          (case (if dd_ecosystem dep = PyPI then map_of pins (dd_key dep) else None) of
             Some v \<Rightarrow> Some v
           | None \<Rightarrow> map_option fst (minimum_version (dd_ecosystem dep) (dd_spec dep))))"

definition lookup_order :: "dependency \<Rightarrow> nat \<times> string \<times> string" where
  "lookup_order d = ((if dd_kind d = Runtime then 0 else 1), ecosystem_name (dd_ecosystem d), dd_key d)"

definition selected_deps :: "dep_settings \<Rightarrow> manifests \<Rightarrow> dependency list" where
  "selected_deps settings m =
     take (nat (ds_max_lookups settings))
       (sort_key lookup_order
         (filter dd_registry (concat (map (\<lambda>eco. map snd (mf_deps m eco)) ECOSYSTEMS))))"

definition checked_deps ::
    "dep_settings \<Rightarrow> manifests \<Rightarrow> (ecosystem \<Rightarrow> string \<Rightarrow> registry_info option) \<Rightarrow> (dependency \<times> registry_info) list" where
  "checked_deps settings m results =
     List.map_filter (\<lambda>d.
       case results (dd_ecosystem d) (dd_key d) of
         None \<Rightarrow> None
       | Some reg \<Rightarrow> if gi_found reg then Some (d, reg) else None) (selected_deps settings m)"

definition freshness_value ::
    "dep_env \<Rightarrow> manifests \<Rightarrow> lockfile list \<Rightarrow> (dependency \<times> registry_info) list \<Rightarrow> real option" where
  "freshness_value env m locks checked =
     mean_of (List.map_filter (\<lambda>(d, reg).
       Option.bind (installed_version d (lock_versions locks) (mf_pins m)) (\<lambda>v.
         map_option fr_score (freshness_of (de_packaging env) (dd_ecosystem d) v reg))) checked)"

definition trivial_value ::
    "dep_settings \<Rightarrow> manifests \<Rightarrow> lockfile list \<Rightarrow> (dependency \<times> registry_info) list \<Rightarrow> real option" where
  "trivial_value settings m locks checked =
     (let sized = List.map_filter (\<lambda>(d, reg).
            if matches_any (registry_name (dd_ecosystem d) (dd_name d)) STUB_PATTERNS then None
            else map_option (is_trivial (ds_trivial_bytes settings))
                   (trivial_size (dd_ecosystem d) (installed_version d (lock_versions locks) (mf_pins m)) reg)) checked
      in if sized = [] then None
         else Some (1 - real (length (filter id sized)) / real (length sized)))"

definition registry_values ::
    "dep_env \<Rightarrow> dep_settings \<Rightarrow> manifests \<Rightarrow> lockfile list \<Rightarrow> (ecosystem \<Rightarrow> string \<Rightarrow> registry_info option)
      \<Rightarrow> real option \<times> real option" where
  "registry_values env settings m locks results =
     (if \<not> ds_registry_enabled settings then (None, None)
      else let checked = checked_deps settings m results
           in (freshness_value env m locks checked, trivial_value settings m locks checked))"

section \<open>Unused and phantom dependencies\<close>

definition is_unused :: "manifests \<Rightarrow> (ecosystem \<Rightarrow> string list) \<Rightarrow> dependency \<Rightarrow> bool" where
  "is_unused m used d \<longleftrightarrow>
     dd_key d \<notin> set (used (dd_ecosystem d)) \<and> \<not> allow_listed d \<and> referenced d (mf_corpus m) = None"

definition sorted_deps :: "manifests \<Rightarrow> dependency list" where
  "sorted_deps m = concat (map (\<lambda>eco. sort_key dd_key (map snd (mf_deps m eco))) ECOSYSTEMS)"

definition unused_finding :: "dep_env \<Rightarrow> dependency \<Rightarrow> dep_finding" where
  "unused_finding env d =
     \<lparr>df_rule = ''unused-dependency'', df_ecosystem = dd_ecosystem d, df_package = dd_name d, df_key = dd_key d,
      df_file = dd_manifest d, df_line = line_of env (dd_manifest d) (dd_name d)\<rparr>"

definition unused_deps ::
    "dep_env \<Rightarrow> manifests \<Rightarrow> (ecosystem \<Rightarrow> string list) \<Rightarrow> real option \<times> dep_finding list" where
  "unused_deps env m used =
     (let declared = sorted_deps m; unused = filter (is_unused m used) declared
      in (if declared = [] then None else Some (clamp01 (1 - real (length unused) / real (length declared))),
          map (unused_finding env) unused))"

definition is_phantom :: "manifests \<Rightarrow> import_usage \<Rightarrow> ecosystem \<Rightarrow> string \<Rightarrow> bool" where
  "is_phantom m usage eco package \<longleftrightarrow>
     \<not> (eco = PyPI \<and> list_ex (\<lambda>c. c \<in> fst ` set (mf_deps m eco))
          (case map_of (iu_candidates usage) package of None \<Rightarrow> [] | Some cs \<Rightarrow> cs))"

definition phantom_finding :: "ecosystem \<Rightarrow> string \<times> string \<times> int \<Rightarrow> dep_finding" where
  "phantom_finding eco p =
     (case p of (package, source, line) \<Rightarrow>
        \<lparr>df_rule = ''phantom-dependency'', df_ecosystem = eco, df_package = package, df_key = package,
         df_file = source, df_line = line\<rparr>)"

definition phantom_deps :: "manifests \<Rightarrow> import_usage \<Rightarrow> real option \<times> dep_finding list" where
  "phantom_deps m usage =
     (let counted = filter (\<lambda>eco. mf_files m eco \<noteq> []) ECOSYSTEMS;
          externals = sum_list (map (\<lambda>eco. length (iu_external usage eco)) counted);
          findings = concat (map (\<lambda>eco. map (phantom_finding eco)
            (filter (\<lambda>p. is_phantom m usage eco (fst p)) (sort_key fst (iu_phantom usage eco)))) counted)
      in (if counted = [] then None
          else Some (clamp01 (1 - real (length findings) / real (max 1 externals))), findings))"

section \<open>collect\<close>

definition import_values ::
    "dep_env \<Rightarrow> manifests \<Rightarrow> (resolved_import list \<times> (string \<times> string) list) option
      \<Rightarrow> (real option \<times> dep_finding list) \<times> (real option \<times> dep_finding list)" where
  "import_values env m architecture =
     (case architecture of
        None \<Rightarrow> ((None, []), (None, []))
      | Some (resolved, languages) \<Rightarrow>
          let usage = collect_usage resolved languages;
              used = (\<lambda>eco. iu_used usage eco @ (if eco = Npm then template_imports env else []))
          in (unused_deps env m used, phantom_deps m usage))"

definition collect ::
    "dep_env \<Rightarrow> dep_settings \<Rightarrow> (ecosystem \<Rightarrow> string \<Rightarrow> registry_info option)
      \<Rightarrow> (resolved_import list \<times> (string \<times> string) list) option
      \<Rightarrow> (health_report \<times> dep_finding list) result" where
  "collect env settings results architecture =
     rbind (read_manifests env) (\<lambda>m.
       if list_all (\<lambda>eco. mf_files m eco = []) ECOSYSTEMS then Inr (inapplicable_report, [])
       else
         let locks = read_locks env m;
             (fresh_part, trivial_part) = registry_values env settings m locks results;
             ((unused_part, unused), (phantom_part, phantom)) = import_values env m architecture;
             components = [(''direct_count'', direct_counts settings m), (''freshness'', fresh_part),
               (''transitive'', transitive_value locks), (''trivial'', trivial_part), (''unused'', unused_part),
               (''phantom'', phantom_part)]
         in Inr (\<lparr>sr_applicable = True, sr_score = mean_score components, sr_components = components\<rparr>,
                 unused @ phantom))"

end
