(* ===== verification/Dep_Lockfiles_Props.thy ===== *)
theory Dep_Lockfiles_Props
  imports Dep_Lockfiles
begin

text \<open>
  The breadth-first depth of a lockfile is the largest distance from the direct dependencies:
  walks count the packages from a direct dependency on, and the loop keeps a queue in the order
  of the distances, as in the usual proof of the search.
\<close>

section \<open>Walks\<close>

inductive walk :: "'a list \<Rightarrow> ('a, 'a list) dict \<Rightarrow> nat \<Rightarrow> 'a \<Rightarrow> bool" for roots edges where
  walk_root: "r \<in> set roots \<Longrightarrow> walk roots edges 1 r"
| walk_step: "walk roots edges n u \<Longrightarrow> v \<in> set (children_of edges u) \<Longrightarrow> walk roots edges (Suc n) v"

text \<open>The distance of a package: no walk to it is shorter.\<close>

definition distance :: "'a list \<Rightarrow> ('a, 'a list) dict \<Rightarrow> nat \<Rightarrow> 'a \<Rightarrow> bool" where
  "distance roots edges d v \<longleftrightarrow> walk roots edges d v \<and> (\<forall>n. walk roots edges n v \<longrightarrow> d \<le> n)"

lemma distance_unique: "distance roots edges d v \<Longrightarrow> distance roots edges d' v \<Longrightarrow> d = d'"
  by (auto simp: distance_def intro: antisym)

section \<open>The loop\<close>

abbreviation (input) depth_at :: "('a, nat) dict \<Rightarrow> 'a \<Rightarrow> nat" where
  "depth_at depth v \<equiv> the (map_of depth v)"

text \<open>Every edge of a finished package leads to a package that is at most one level deeper.\<close>

definition edges_ok :: "('a, 'a list) dict \<Rightarrow> ('a, nat) dict \<Rightarrow> 'a list \<Rightarrow> bool" where
  "edges_ok edges depth finished \<longleftrightarrow>
     (\<forall>u \<in> set finished. \<forall>c \<in> set (children_of edges u).
        c \<in> fst ` set depth \<and> depth_at depth c \<le> Suc (depth_at depth u))"

definition walks_ok :: "'a list \<Rightarrow> ('a, 'a list) dict \<Rightarrow> ('a, nat) dict \<Rightarrow> bool" where
  "walks_ok roots edges depth \<longleftrightarrow>
     distinct (map fst depth) \<and> (\<forall>(v, d) \<in> set depth. walk roots edges d v)
     \<and> (\<forall>r \<in> set roots. map_of depth r = Some 1)"

definition bfs_inv :: "'a list \<Rightarrow> ('a, 'a list) dict \<Rightarrow> ('a, nat) dict \<Rightarrow> 'a list \<Rightarrow> 'a list \<Rightarrow> bool" where
  "bfs_inv roots edges depth finished queue \<longleftrightarrow>
     walks_ok roots edges depth \<and> map fst depth = finished @ queue \<and> edges_ok edges depth finished
     \<and> sorted (map snd depth)
     \<and> (case queue of [] \<Rightarrow> True | x # _ \<Rightarrow> \<forall>d \<in> snd ` set depth. d \<le> Suc (depth_at depth x))"

lemma map_of_append_old: "v \<in> fst ` set depth \<Longrightarrow> map_of (depth @ extra) v = map_of depth v"
  by (metis map_add_find_right map_of_append map_of_eq_None_iff not_None_eq)

lemma map_of_append_new:
  assumes "v \<notin> fst ` set depth" "v \<in> set new"
  shows "map_of (depth @ map (\<lambda>c. (c, d)) new) v = Some d"
proof -
  have "map_of depth v = None" using assms(1) by (simp add: map_of_eq_None_iff)
  moreover have "map_of (map (\<lambda>c. (c, d)) new) v = Some d" using assms(2) by (induction new) auto
  ultimately show ?thesis by (simp add: map_add_def)
qed

lemma sorted_depths:
  assumes "sorted (map snd depth)" "map fst depth = xs @ u # ys" "distinct (map fst depth)" "v \<in> set ys"
  shows "depth_at depth u \<le> depth_at depth v"
proof -
  obtain before_u m after_u where parts: "depth = before_u @ (u, m) # after_u" "map fst after_u = ys"
    using assms(2) by (auto simp: map_eq_append_conv map_eq_Cons_conv)
  with assms(4) obtain k where k: "(v, k) \<in> set after_u" by auto
  then have "m \<le> k" using assms(1) parts(1) by (auto simp: sorted_append)
  moreover have "map_of depth u = Some m" "map_of depth v = Some k"
    using assms(3) k parts(1) by (auto simp: map_of_eq_Some_iff simp del: map_of_append map_of.simps)
  ultimately show ?thesis by simp
qed

lemma bfs_step:
  assumes inv: "bfs_inv roots edges depth finished (node # queue)"
    and visit: "visit (Suc (depth_at depth node)) (children_of edges node) (depth, queue) = (depth', queue')"
  shows "bfs_inv roots edges depth' (finished @ [node]) queue'"
proof -
  let ?d = "Suc (depth_at depth node)"
  from visit_grows [OF visit] obtain new where depth': "depth' = depth @ map (\<lambda>c. (c, ?d)) new"
      and queue': "queue' = queue @ new" and dist: "distinct new"
      and new: "set new = set (children_of edges node) - fst ` set depth" by blast
  have walks: "walks_ok roots edges depth" and keys: "map fst depth = finished @ node # queue"
    and eok: "edges_ok edges depth finished" and ord: "sorted (map snd depth)"
    and ub: "\<forall>d \<in> snd ` set depth. d \<le> ?d"
    using inv by (auto simp: bfs_inv_def)
  have keyset: "fst ` set depth = set finished \<union> {node} \<union> set queue"
    using arg_cong [OF keys, of set] by auto
  then have node: "node \<in> fst ` set depth" by blast
  have at_node: "(node, depth_at depth node) \<in> set depth"
    using node walks by (auto simp: walks_ok_def)
  have old: "depth_at depth' v = depth_at depth v" if "v \<in> fst ` set depth" for v
    using that by (simp only: depth' map_of_append_old)
  have fresh: "depth_at depth' v = ?d" if "v \<in> set new" for v
  proof -
    have "v \<notin> fst ` set depth" using that new by blast
    from map_of_append_new [OF this that, of ?d] show ?thesis by (simp only: depth' option.sel)
  qed
  have "walk roots edges (depth_at depth node) node"
    using walks at_node unfolding walks_ok_def by blast
  then have "walk roots edges ?d v" if "v \<in> set new" for v
    by (rule walk_step) (use that new in blast)
  then have sound: "\<forall>(v, d) \<in> set depth'. walk roots edges d v"
    using walks unfolding depth' walks_ok_def by auto
  have "distinct (map fst depth)" using walks by (simp add: walks_ok_def)
  then have "distinct (map fst depth')" using dist new by (auto simp: depth' comp_def)
  moreover have "map_of depth' r = Some 1" if "r \<in> set roots" for r
  proof -
    have r: "map_of depth r = Some 1" using that walks by (simp only: walks_ok_def)
    then have "r \<in> fst ` set depth" by (metis domI dom_map_of_conv_image_fst)
    then show ?thesis using r by (simp only: depth' map_of_append_old)
  qed
  ultimately have walks': "walks_ok roots edges depth'" using sound unfolding walks_ok_def by blast
  have eok': "edges_ok edges depth' (finished @ [node])"
    unfolding edges_ok_def
  proof (intro ballI)
    fix u c
    assume u: "u \<in> set (finished @ [node])" and c: "c \<in> set (children_of edges u)"
    have u_in: "u \<in> fst ` set depth" using u keyset by auto
    show "c \<in> fst ` set depth' \<and> depth_at depth' c \<le> Suc (depth_at depth' u)"
    proof (cases "c \<in> fst ` set depth")
      case True
      have "depth_at depth c \<le> Suc (depth_at depth u)"
      proof (cases "u = node")
        case True
        have "(c, depth_at depth c) \<in> set depth"
          using \<open>c \<in> fst ` set depth\<close> walks by (auto simp: walks_ok_def)
        then show ?thesis using ub True by force
      qed (use u c eok in \<open>auto simp: edges_ok_def\<close>)
      then show ?thesis using True old u_in by (auto simp: depth')
    next
      case False
      then have "u = node" using u c eok by (auto simp: edges_ok_def)
      then have "c \<in> set new" using c new False by blast
      then show ?thesis using fresh old [OF node] \<open>u = node\<close> by (force simp: depth')
    qed
  qed
  have ord': "sorted (map snd depth')"
    using ord ub by (auto simp: depth' sorted_append comp_def sorted_replicate map_replicate_const)
  have "\<forall>d \<in> snd ` set depth'. d \<le> Suc (depth_at depth' x)" if "queue' = x # xs" for x xs
  proof -
    have le: "depth_at depth node \<le> depth_at depth' x"
    proof (cases "x \<in> set new")
      case False
      then have "x \<in> set queue" using that queue' by (metis in_set_conv_decomp append_Cons append_Nil Un_iff set_append)
      have "distinct (map fst depth)" using walks by (simp add: walks_ok_def)
      from sorted_depths [OF ord keys this \<open>x \<in> set queue\<close>] show ?thesis
        using old [of x] keyset \<open>x \<in> set queue\<close> by simp
    qed (simp add: fresh)
    show ?thesis
    proof
      fix d
      assume "d \<in> snd ` set depth'"
      then have "d \<le> ?d" using ub by (auto simp: depth')
      then show "d \<le> Suc (depth_at depth' x)" using le by simp
    qed
  qed
  then show ?thesis
    unfolding bfs_inv_def using walks' eok' ord' keys
    by (simp add: depth' queue' comp_def split: list.splits)
qed

lemma bfs_loop_inv:
  assumes "bfs_inv roots edges depth finished queue"
  shows "\<exists>all. bfs_inv roots edges (bfs_loop edges depth queue) all []"
  using assms
proof (induction edges depth queue arbitrary: finished rule: bfs_loop.induct)
  case (1 edges depth)
  then show ?case by auto
next
  case (2 edges depth node queue)
  obtain depth' queue' where visit: "visit (Suc (depth_at depth node)) (children_of edges node) (depth, queue) = (depth', queue')"
    by fastforce
  from 2(1) [OF visit [symmetric] refl bfs_step [OF 2(2) visit]]
  show ?case by (simp add: visit)
qed

lemma bfs_start:
  assumes "visit 1 roots ([], []) = (depth, queue)"
  shows "bfs_inv roots edges depth [] queue"
proof -
  from visit_grows [OF assms] obtain new where depth: "depth = map (\<lambda>c. (c, 1)) new" and queue: "queue = new"
      and new: "distinct new" "set new = set roots" by auto
  have one: "map_of depth r = Some 1" if "r \<in> set new" for r
    using map_of_append_new [of r "[]" new 1] that by (simp add: depth del: One_nat_def)
  have "walks_ok roots edges depth"
    using new one walk_root [of _ roots edges]
    by (auto simp: walks_ok_def depth comp_def simp del: One_nat_def)
  then show ?thesis
    by (auto simp: bfs_inv_def depth queue edges_ok_def comp_def sorted_replicate map_replicate_const split: list.splits)
qed

lemma fold_max_Max: "fold max ns (n::nat) = Max (insert n (set ns))"
proof (induction ns arbitrary: n)
  case (Cons m ns)
  have "Max (insert n (insert m (set ns))) = Max (insert (max m n) (set ns))"
    by (cases "ns = []") (simp_all add: max.commute max.left_commute)
  then show ?case by (simp add: Cons)
qed simp

section \<open>The theorem\<close>

lemma bfs_depth_map:
  obtains depth finished where "bfs_inv roots edges depth finished []"
    "bfs_depth roots edges = Max (insert 0 (snd ` set depth))"
proof -
  obtain depth queue where start: "visit 1 roots ([], []) = (depth, queue)" by fastforce
  from bfs_loop_inv [OF bfs_start [OF start]] obtain finished where
    "bfs_inv roots edges (bfs_loop edges depth queue) finished []" by blast
  then show thesis by (rule that) (simp add: bfs_depth_def start fold_max_Max del: One_nat_def)
qed

lemma bfs_inv_final:
  assumes inv: "bfs_inv roots edges depth finished []" and walk: "walk roots edges n v"
  shows "v \<in> fst ` set depth \<and> depth_at depth v \<le> n"
  using walk
proof induction
  case (walk_root r)
  then have "map_of depth r = Some 1" using inv by (simp add: bfs_inv_def walks_ok_def)
  then show ?case by (metis domI dom_map_of_conv_image_fst option.sel order.refl)
next
  case (walk_step n u v)
  have "fst ` set depth = set finished" using inv unfolding bfs_inv_def by (metis append_Nil2 list.set_map)
  with walk_step inv show ?case unfolding bfs_inv_def edges_ok_def by force
qed

lemma bfs_depths:
  assumes inv: "bfs_inv roots edges depth finished []"
  shows "snd ` set depth = {d. \<exists>v. distance roots edges d v}"
proof (intro set_eqI iffI)
  fix d
  assume "d \<in> snd ` set depth"
  then obtain v where v: "(v, d) \<in> set depth" by auto
  then have "walk roots edges d v" using inv unfolding bfs_inv_def walks_ok_def by blast
  moreover have "map_of depth v = Some d" using v inv unfolding bfs_inv_def walks_ok_def
    by (metis map_of_eq_Some_iff)
  then have "d \<le> n" if "walk roots edges n v" for n using bfs_inv_final [OF inv that] by simp
  ultimately show "d \<in> {d. \<exists>v. distance roots edges d v}" unfolding distance_def by blast
next
  fix d
  assume "d \<in> {d. \<exists>v. distance roots edges d v}"
  then obtain v where v: "distance roots edges d v" by blast
  with bfs_inv_final [OF inv] have "v \<in> fst ` set depth" "depth_at depth v \<le> d" unfolding distance_def by blast+
  then obtain e where e: "map_of depth v = Some e" "e \<le> d" by (metis map_of_eq_None_iff not_None_eq option.sel)
  then have "(v, e) \<in> set depth" by (simp add: map_of_SomeD)
  moreover from this have "walk roots edges e v" using inv unfolding bfs_inv_def walks_ok_def by blast
  then have "e = d" using v e(2) unfolding distance_def by (blast intro: antisym)
  ultimately show "d \<in> snd ` set depth" by force
qed

text \<open>
  C29: The depth reported for a lockfile is the largest distance of a package from the direct
  dependencies, 0 if there are none, however the edges are shared or run in circles: the
  breadth-first search gives every package the length of the shortest chain that needs it.
\<close>

theorem bfs_depth_largest_distance:
  "finite {d. \<exists>v. distance roots edges d v}
   \<and> bfs_depth roots edges = Max (insert 0 {d. \<exists>v. distance roots edges d v})"
proof -
  obtain depth finished where inv: "bfs_inv roots edges depth finished []"
      and eq: "bfs_depth roots edges = Max (insert 0 (snd ` set depth))" by (rule bfs_depth_map)
  show ?thesis using eq unfolding bfs_depths [OF inv, symmetric] by simp
qed

end
