(* ===== verification/Dep_Health_Props.thy ===== *)
theory Dep_Health_Props
  imports Dep_Health Dep_Lockfiles_Props
begin

text \<open>
  The dependency-health signal: what reading the manifests keeps of the declared dependencies,
  the bounds of every component, and exactly which dependencies are reported as unused or
  phantom.
\<close>

section \<open>Declared dependencies\<close>

text \<open>Each ecosystem's dependencies are keyed by their own key, once.\<close>

definition deps_ok :: "manifests \<Rightarrow> bool" where
  "deps_ok m \<longleftrightarrow>
     (\<forall>eco. distinct (map fst (mf_deps m eco))
        \<and> (\<forall>(k, d) \<in> set (mf_deps m eco). dd_key d = k \<and> dd_ecosystem d = eco))"

lemma dict_set_entries: "p \<in> set (dict_set k v d) \<Longrightarrow> p = (k, v) \<or> p \<in> set d"
  by (induction k v d rule: dict_set.induct) (auto split: if_splits)

lemma absorb_dep_fields [simp]:
  "dd_key (absorb_dep e d) = dd_key e" "dd_ecosystem (absorb_dep e d) = dd_ecosystem e"
  by (simp_all add: absorb_dep_def)

lemma deps_ok_add: "deps_ok m \<Longrightarrow> deps_ok (add_dep d m)"
proof -
  assume ok: "deps_ok m"
  let ?deps = "mf_deps m (dd_ecosystem d)"
  let ?entry = "case map_of ?deps (dd_key d) of None \<Rightarrow> d | Some existing \<Rightarrow> absorb_dep existing d"
  have "dd_key ?entry = dd_key d \<and> dd_ecosystem ?entry = dd_ecosystem d"
    using ok map_of_SomeD [of ?deps "dd_key d"] by (fastforce simp: deps_ok_def split: option.splits)
  then show ?thesis
    using ok dict_set_entries [of _ "dd_key d" ?entry ?deps]
    unfolding deps_ok_def add_dep_def Let_def
    by (auto simp: distinct_dict_set split: if_splits)
qed

lemma deps_ok_mark [simp]: "deps_ok (mark_file eco rel m) = deps_ok m"
  by (simp add: deps_ok_def mark_file_def)

lemma deps_ok_corpus [simp]: "deps_ok (add_corpus rel text m) = deps_ok m"
  by (simp add: deps_ok_def add_corpus_def)

lemma deps_ok_pins [simp]: "deps_ok (m\<lparr>mf_pins := pins\<rparr>) = deps_ok m"
  by (simp add: deps_ok_def)

lemma deps_ok_python: "deps_ok m \<Longrightarrow> deps_ok (add_python rel kind m line)"
  by (auto simp: add_python_def deps_ok_add split: option.splits prod.splits)

lemmas deps_ok_intros = deps_ok_add deps_ok_python foldl_keeps [where P = deps_ok]

lemma deps_ok_dispatch: "read_dispatch env rel m = Inr m' \<Longrightarrow> deps_ok m \<Longrightarrow> deps_ok m'"
proof -
  assume run: "read_dispatch env rel m = Inr m'" and ok: "deps_ok m"
  have "deps_ok (requirements_file env rel name m)" for name
    using ok by (auto simp: requirements_file_def Let_def intro!: deps_ok_intros)
  moreover have "deps_ok (setup_cfg env rel m)" "deps_ok (setup_py env rel m)"
    using ok by (auto simp: setup_cfg_def setup_py_def Let_def intro!: deps_ok_intros split: option.splits prod.splits)
  moreover have "deps_ok (package_json_file env rel m)"
    using ok by (auto simp: package_json_file_def Let_def intro!: deps_ok_intros split: option.splits json.splits)
  moreover have "deps_ok x" if "pipfile env rel m = Inr x" for x
    using ok that by (auto simp: pipfile_def rbind_Inr intro!: deps_ok_intros split: option.splits)
  moreover have "deps_ok x" if "pyproject_file env rel m = Inr x" for x
    using ok that
    by (auto simp: pyproject_file_def rbind_Inr Let_def intro!: deps_ok_intros split: option.splits if_splits prod.splits)
  ultimately show ?thesis using run ok by (auto simp: read_dispatch_def Let_def split: if_splits)
qed

lemma deps_ok_read_all: "read_all env rels m = Inr m' \<Longrightarrow> deps_ok m \<Longrightarrow> deps_ok m'"
proof (induction rels arbitrary: m)
  case (Cons rel rels)
  from Cons.prems(1) obtain m1 where m1: "read_one env rel m = Inr m1" "read_all env rels m1 = Inr m'"
    by (auto simp: rbind_Inr)
  have "deps_ok m1"
    using m1(1) deps_ok_dispatch [OF _ Cons.prems(2)]
    by (auto simp: read_one_def rbind_Inr split: option.splits if_splits)
  then show ?case using Cons.IH m1(2) by blast
qed simp

lemma read_manifests_ok: "read_manifests env = Inr m \<Longrightarrow> deps_ok m"
  unfolding read_manifests_def Let_def
  by (erule deps_ok_read_all) (simp add: deps_ok_def no_manifests_def)

text \<open>Runtime wins: a dependency stays one of the runtime once any manifest declares it as such.\<close>

lemma absorb_dep_kind:
  "dd_kind (absorb_dep e d) = (if dd_kind e = Runtime \<or> dd_kind d = Runtime then Runtime else Dev)"
  by (cases "dd_kind e"; cases "dd_kind d") (auto simp: absorb_dep_def)

section \<open>Bounds of the components\<close>

lemma in_unit_direct: "in_unit (direct_counts settings m)"
  unfolding direct_counts_def
  by (rule in_unit_mean) (auto simp: direct_component_def Let_def clamp01_bounds)

lemma inverse_shift_bounds: "0 \<le> x \<Longrightarrow> 0 < 1 / (1 + x) \<and> 1 / (1 + x) \<le> (1::real)"
  by simp

lemma transitive_component_bounds: "0 < transitive_component t d \<and> transitive_component t d \<le> 1"
  unfolding transitive_component_def by (rule inverse_shift_bounds) simp

lemma in_unit_transitive: "in_unit (transitive_value locks)"
  using transitive_component_bounds by (simp add: transitive_value_def Let_def less_imp_le)

lemma in_unit_registry: "registry_values env settings m locks results = (f, t) \<Longrightarrow> in_unit f \<and> in_unit t"
proof -
  assume run: "registry_values env settings m locks results = (f, t)"
  have "in_unit (freshness_value env m locks checked)" for checked
    unfolding freshness_value_def
  proof (rule in_unit_mean, rule ballI)
    fix x
    assume "x \<in> set (List.map_filter (\<lambda>(d, reg).
       Option.bind (installed_version d (lock_versions locks) (mf_pins m)) (\<lambda>v.
         map_option fr_score (freshness_of (de_packaging env) (dd_ecosystem d) v reg))) checked)"
    then obtain d :: dependency and v reg fr where "freshness_of (de_packaging env) (dd_ecosystem d) v reg = Some fr" "x = fr_score fr"
      unfolding set_map_filter by (clarsimp simp: bind_eq_Some_conv)
    then show "0 \<le> x \<and> x \<le> 1" using freshness_of_bounds by (metis less_imp_le)
  qed
  moreover have "in_unit (trivial_value settings m locks checked)" for checked
    by (auto simp: trivial_value_def Let_def divide_le_eq intro!: length_filter_le)
  ultimately show ?thesis using run by (auto simp: registry_values_def Let_def split: if_splits)
qed

section \<open>Reported dependencies\<close>

definition declared_in :: "manifests \<Rightarrow> dependency \<Rightarrow> bool" where
  "declared_in m d \<longleftrightarrow> (\<exists>eco k. (k, d) \<in> set (mf_deps m eco))"

text \<open>Some import that counts may belong to the dependency.\<close>

definition imported_dep :: "resolved_import list \<Rightarrow> (string \<times> string) list \<Rightarrow> dependency \<Rightarrow> bool" where
  "imported_dep resolved languages d \<longleftrightarrow>
     (\<exists>item \<in> set resolved. counts_as_usage item \<and> usage_ecosystem languages item = dd_ecosystem d
        \<and> (if dd_ecosystem d = PyPI then dd_key d \<in> set (python_candidates item)
           else rs_target item = Some (dd_key d)))"

definition unused_dep :: "dep_env \<Rightarrow> manifests \<Rightarrow> resolved_import list \<Rightarrow> (string \<times> string) list \<Rightarrow> dependency \<Rightarrow> bool" where
  "unused_dep env m resolved languages d \<longleftrightarrow>
     \<not> imported_dep resolved languages d
     \<and> \<not> (dd_ecosystem d = Npm \<and> dd_key d \<in> set (template_imports env))
     \<and> \<not> allow_listed d \<and> referenced d (mf_corpus m) = None"

definition phantom_package :: "manifests \<Rightarrow> resolved_import list \<Rightarrow> (string \<times> string) list \<Rightarrow> ecosystem \<Rightarrow> string \<Rightarrow> bool" where
  "phantom_package m resolved languages eco p \<longleftrightarrow>
     mf_files m eco \<noteq> []
     \<and> (\<exists>item \<in> set resolved. undeclared_in languages eco item \<and> rs_target item = Some p)
     \<and> is_phantom m (collect_usage resolved languages) eco p"

lemma deps_okD: "deps_ok m \<Longrightarrow> (k, d) \<in> set (mf_deps m eco) \<Longrightarrow> dd_key d = k \<and> dd_ecosystem d = eco"
  unfolding deps_ok_def by fast

lemma set_sorted_deps: "deps_ok m \<Longrightarrow> set (sorted_deps m) = {d. declared_in m d}"
proof -
  have "eco \<in> set ECOSYSTEMS" for eco by (cases eco) (simp_all add: ECOSYSTEMS_def)
  then show ?thesis by (force simp: sorted_deps_def declared_in_def)
qed

lemma keys_of_deps: "deps_ok m \<Longrightarrow> map dd_key (map snd (mf_deps m eco)) = map fst (mf_deps m eco)"
  using deps_okD by fastforce

lemma distinct_sorted_deps:
  assumes "deps_ok m"
  shows "distinct (map (\<lambda>d. (dd_ecosystem d, dd_key d)) (sorted_deps m))"
proof -
  have eco: "dd_ecosystem d = eco" if "d \<in> snd ` set (mf_deps m eco)" for d eco
    using that deps_okD [OF assms] by auto
  have "distinct (map dd_key (map snd (mf_deps m eco)))" for eco
    unfolding keys_of_deps [OF assms] using assms by (simp add: deps_ok_def)
  then have "distinct (map dd_key (sort_key dd_key (map snd (mf_deps m eco))))" for eco
    by (simp only: distinct_map distinct_sort set_sort)
  then have "distinct (map (\<lambda>d. (dd_ecosystem d, dd_key d)) (sort_key dd_key (map snd (mf_deps m eco))))" for eco
    by (auto simp: distinct_map inj_on_def)
  then show ?thesis
    using eco by (fastforce simp: sorted_deps_def ECOSYSTEMS_def)
qed

lemma is_unused_iff:
  "is_unused m (\<lambda>eco. iu_used (collect_usage resolved languages) eco @ (if eco = Npm then template_imports env else [])) d
     \<longleftrightarrow> unused_dep env m resolved languages d"
  unfolding is_unused_def unused_dep_def imported_dep_def
  by (auto simp: collect_usage_used counts_as_usage_def split: if_splits)

text \<open>The phantom findings of an ecosystem with a manifest.\<close>

lemma phantom_names:
  "fst ` set (filter (\<lambda>p. is_phantom m (collect_usage resolved languages) eco (fst p))
       (sort_key fst (iu_phantom (collect_usage resolved languages) eco)))
   = {p. is_phantom m (collect_usage resolved languages) eco p
        \<and> (\<exists>item \<in> set resolved. undeclared_in languages eco item \<and> rs_target item = Some p)}"
proof -
  have "p \<in> fst ` set (iu_phantom (collect_usage resolved languages) eco)
      \<longleftrightarrow> (\<exists>item \<in> set resolved. undeclared_in languages eco item \<and> rs_target item = Some p)" for p
    unfolding collect_usage_phantom by (auto simp: undeclared_in_def counts_as_usage_def image_iff)
  moreover have "fst ` set (filter (\<lambda>p. P (fst p)) xs) = {x. P x \<and> x \<in> fst ` set xs}"
    for P and xs :: "(string \<times> string \<times> int) list"
    by force
  ultimately show ?thesis by simp
qed

abbreviation finding_id :: "dep_finding \<Rightarrow> string \<times> ecosystem \<times> string" where
  "finding_id f \<equiv> (df_rule f, df_ecosystem f, df_key f)"

lemma unused_deps_findings:
  assumes "deps_ok m" "unused_deps env m used = (v, fs)"
    "used = (\<lambda>eco. iu_used (collect_usage resolved languages) eco @ (if eco = Npm then template_imports env else []))"
  shows "finding_id ` set fs = (\<lambda>d. (''unused-dependency'', dd_ecosystem d, dd_key d)) ` {d. declared_in m d \<and> unused_dep env m resolved languages d}"
    "distinct (map finding_id fs)" "in_unit v"
    "v = (if sorted_deps m = [] then None else Some (1 - real (length fs) / real (length (sorted_deps m))))"
proof -
  have reads: "is_unused m used = unused_dep env m resolved languages"
    by (rule ext) (simp only: assms(3) is_unused_iff)
  have fs: "fs = map (unused_finding env) (filter (unused_dep env m resolved languages) (sorted_deps m))"
    and v: "v = (if sorted_deps m = [] then None else Some (clamp01 (1 - real (length fs) / real (length (sorted_deps m)))))"
    using assms(2) unfolding unused_deps_def Let_def reads by auto
  have id: "finding_id \<circ> unused_finding env = (\<lambda>d. (''unused-dependency'', dd_ecosystem d, dd_key d))"
    by (auto simp: unused_finding_def)
  have "finding_id ` set fs = (finding_id \<circ> unused_finding env) ` {d. declared_in m d \<and> unused_dep env m resolved languages d}"
    by (simp add: fs set_sorted_deps [OF assms(1)] image_comp)
  then show "finding_id ` set fs = (\<lambda>d. (''unused-dependency'', dd_ecosystem d, dd_key d)) ` {d. declared_in m d \<and> unused_dep env m resolved languages d}"
    unfolding id .
  show "distinct (map finding_id fs)"
    using distinct_sorted_deps [OF assms(1)]
    by (auto simp: fs distinct_map unused_finding_def inj_on_def)
  have "length fs \<le> length (sorted_deps m)" by (simp add: fs)
  then show "v = (if sorted_deps m = [] then None else Some (1 - real (length fs) / real (length (sorted_deps m))))"
    by (auto simp: v clamp01_def divide_le_eq)
  show "in_unit v" by (simp add: v clamp01_bounds)
qed

lemma phantom_deps_findings:
  assumes "phantom_deps m (collect_usage resolved languages) = (v, fs)"
  shows "finding_id ` set fs = (\<lambda>(eco, p). (''phantom-dependency'', eco, p)) ` {(eco, p). phantom_package m resolved languages eco p}"
    "distinct (map finding_id fs)" "in_unit v"
proof -
  let ?usage = "collect_usage resolved languages"
  define part where "part = (\<lambda>eco. filter (\<lambda>p. is_phantom m ?usage eco (fst p)) (sort_key fst (iu_phantom ?usage eco)))"
  have fs: "fs = concat (map (\<lambda>eco. map (phantom_finding eco) (part eco)) (filter (\<lambda>eco. mf_files m eco \<noteq> []) ECOSYSTEMS))"
    and v: "in_unit v"
    using assms by (auto simp: phantom_deps_def Let_def part_def clamp01_bounds)
  have id: "finding_id (phantom_finding eco p) = (''phantom-dependency'', eco, fst p)" for eco p
    by (simp add: phantom_finding_def split: prod.splits)
  have "finding_id ` set (map (phantom_finding eco) (part eco)) = Pair ''phantom-dependency'' ` Pair eco ` fst ` set (part eco)" for eco
    by (simp add: image_comp comp_def id)
  then have names: "finding_id ` set (map (phantom_finding eco) (part eco))
      = Pair ''phantom-dependency'' ` Pair eco ` {p. is_phantom m ?usage eco p
        \<and> (\<exists>item \<in> set resolved. undeclared_in languages eco item \<and> rs_target item = Some p)}" for eco
    unfolding part_def phantom_names .
  have "eco \<in> set ECOSYSTEMS" for eco by (cases eco) (simp_all add: ECOSYSTEMS_def)
  then have "finding_id ` set fs = (\<Union>eco \<in> {eco. mf_files m eco \<noteq> []}. finding_id ` set (map (phantom_finding eco) (part eco)))"
    unfolding fs by (simp add: image_UN)
  then show "finding_id ` set fs = (\<lambda>(eco, p). (''phantom-dependency'', eco, p)) ` {(eco, p). phantom_package m resolved languages eco p}"
    unfolding names by (auto simp: phantom_package_def image_iff)
  have "distinct (map fst (part eco))" for eco
    using collect_usage_invariant [of resolved languages eco] unfolding part_def
    by (simp add: distinct_map inj_on_def)
  then have "distinct (map finding_id (map (phantom_finding eco) (part eco)))" for eco
    by (auto simp: id comp_def distinct_map inj_on_def)
  then show "distinct (map finding_id fs)"
    by (auto simp: fs ECOSYSTEMS_def phantom_finding_def)
  show "in_unit v" by (fact v)
qed

section \<open>The report\<close>

text \<open>
  C30: The dependency signal is sound.  Every component and the score lie between 0 and 1, and
  the score is the mean of the components there are.  With an architecture report, the findings
  are exactly the declared dependencies that no import may belong to, that no template names,
  that are not on an allow-list and that no tool file mentions, and the undeclared packages the
  code imports in an ecosystem that has a manifest; each is reported once, and the component
  for unused dependencies is the share of declared ones not reported.
\<close>

theorem dep_health_exact:
  assumes "collect env settings results architecture = Inr (report, findings)"
  shows "(\<forall>v \<in> snd ` set (sr_components report). in_unit v) \<and> in_unit (sr_score report)
    \<and> sr_score report = mean_score (sr_components report)
    \<and> distinct (map finding_id findings)
    \<and> (sr_applicable report \<longrightarrow> (\<exists>m. read_manifests env = Inr m
        \<and> (case architecture of
             None \<Rightarrow> findings = []
           | Some (resolved, languages) \<Rightarrow>
               finding_id ` set findings =
                 (\<lambda>d. (''unused-dependency'', dd_ecosystem d, dd_key d))
                   ` {d. declared_in m d \<and> unused_dep env m resolved languages d}
                 \<union> (\<lambda>(eco, p). (''phantom-dependency'', eco, p))
                   ` {(eco, p). phantom_package m resolved languages eco p}
               \<and> map_of (sr_components report) ''unused'' = Some
                   (if sorted_deps m = [] then None
                    else Some (1 - real (length (filter (\<lambda>f. df_rule f = ''unused-dependency'') findings))
                                 / real (length (sorted_deps m)))))))"
proof -
  obtain m where m: "read_manifests env = Inr m"
      and body: "(if list_all (\<lambda>eco. mf_files m eco = []) ECOSYSTEMS then Inr (inapplicable_report, [])
        else let locks = read_locks env m;
             (fresh_part, trivial_part) = registry_values env settings m locks results;
             ((unused_part, unused), (phantom_part, phantom)) = import_values env m architecture;
             components = [(''direct_count'', direct_counts settings m), (''freshness'', fresh_part),
               (''transitive'', transitive_value locks), (''trivial'', trivial_part), (''unused'', unused_part),
               (''phantom'', phantom_part)]
         in Inr (\<lparr>sr_applicable = True, sr_score = mean_score components, sr_components = components\<rparr>,
                 unused @ phantom)) = (Inr (report, findings) :: (health_report \<times> dep_finding list) result)"
    using assms unfolding collect_def rbind_Inr by blast
  have ok: "deps_ok m" using read_manifests_ok [OF m] .
  show ?thesis
  proof (cases "list_all (\<lambda>eco. mf_files m eco = []) ECOSYSTEMS")
    case True
    with body show ?thesis by (auto simp: inapplicable_report_def mean_score_def mean_of_def)
  next
    case False
    obtain f t where reg: "registry_values env settings m (read_locks env m) results = (f, t)" by fastforce
    obtain u us p ps where imp: "import_values env m architecture = ((u, us), (p, ps))" by (metis surj_pair)
    define components where "components = [(''direct_count'', direct_counts settings m), (''freshness'', f),
        (''transitive'', transitive_value (read_locks env m)), (''trivial'', t), (''unused'', u), (''phantom'', p)]"
    have report: "report = \<lparr>sr_applicable = True, sr_score = mean_score components, sr_components = components\<rparr>"
        and findings: "findings = us @ ps"
      using body False by (simp_all add: Let_def reg imp components_def)
    show ?thesis
    proof (cases architecture)
      case None
      then have parts: "u = None" "p = None" "us = []" "ps = []" using imp by (simp_all add: import_values_def)
      have "\<forall>v \<in> snd ` set components. in_unit v"
        using in_unit_direct in_unit_transitive in_unit_registry [OF reg] by (simp add: components_def parts)
      moreover from this have "in_unit (mean_score components)" by (intro in_unit_mean_score) force
      ultimately show ?thesis using m None by (simp add: report findings parts)
    next
      case (Some a)
      obtain resolved languages where a: "a = (resolved, languages)" by fastforce
      let ?used = "\<lambda>eco. iu_used (collect_usage resolved languages) eco @ (if eco = Npm then template_imports env else [])"
      have un: "unused_deps env m ?used = (u, us)" and ph: "phantom_deps m (collect_usage resolved languages) = (p, ps)"
        using imp Some a by (simp_all add: import_values_def Let_def)
      note us = unused_deps_findings [OF ok un refl] and ps = phantom_deps_findings [OF ph]
      have units: "\<forall>v \<in> snd ` set components. in_unit v"
        using in_unit_direct in_unit_transitive in_unit_registry [OF reg] us(3) ps(3) by (simp add: components_def)
      then have score: "in_unit (mean_score components)" by (intro in_unit_mean_score) force
      have rule_us: "df_rule x = ''unused-dependency''" if "x \<in> set us" for x
      proof -
        have "finding_id x \<in> (\<lambda>d. (''unused-dependency'', dd_ecosystem d, dd_key d))
            ` {d. declared_in m d \<and> unused_dep env m resolved languages d}"
          using that us(1) by blast
        then show ?thesis by auto
      qed
      have rule_ps: "df_rule x = ''phantom-dependency''" if "x \<in> set ps" for x
      proof -
        have "finding_id x \<in> (\<lambda>(eco, p). (''phantom-dependency'', eco, p)) ` {(eco, p). phantom_package m resolved languages eco p}"
          using that ps(1) by blast
        then show ?thesis by auto
      qed
      have "filter (\<lambda>f. df_rule f = ''unused-dependency'') findings = us"
        using rule_us rule_ps by (simp add: findings filter_empty_conv)
      moreover have "distinct (map finding_id findings)"
      proof -
        have "finding_id x \<noteq> finding_id y" if "x \<in> set us" "y \<in> set ps" for x y
          using rule_us [OF that(1)] rule_ps [OF that(2)] by simp
        then have "finding_id ` set us \<inter> finding_id ` set ps = {}" by blast
        then show ?thesis using us(2) ps(2) by (simp add: findings)
      qed
      moreover have "finding_id ` set findings = finding_id ` set us \<union> finding_id ` set ps"
        by (simp add: findings image_Un)
      ultimately show ?thesis
        using m Some a us(1) ps(1) us(4) units score by (simp add: report components_def)
    qed
  qed
qed

text \<open>A package with one dependency that is never imported and one import that is not declared.\<close>

definition example_dep_env :: dep_env where
  "example_dep_env =
     \<lparr>de_files = [''package.json'', ''a.js''], de_read = (\<lambda>_ f. if f = ''package.json'' then Some [] else None),
      de_json = (\<lambda>_. Some (JObj [(''dependencies'', JObj [(''left-pad'', JStr ''1.0.0''), (''react'', JStr ''^18.0.0'')])])),
      de_toml = (\<lambda>_. None), de_cfg = (\<lambda>_. None), de_number = (\<lambda>_. []),
      de_packaging = \<lparr>pk_release = (\<lambda>_. None), pk_less = (\<lambda>_ _. False)\<rparr>\<rparr>"

definition example_dep_settings :: dep_settings where
  "example_dep_settings =
     \<lparr>ds_baseline = (\<lambda>_. 23), ds_registry_enabled = False, ds_max_lookups = 150, ds_trivial_bytes = 4096\<rparr>"

definition example_js_import :: "string \<Rightarrow> string \<Rightarrow> resolved_import" where
  "example_js_import package how =
     \<lparr>rs_source = ''a.js'', rs_raw = \<lparr>ri_specifier = package, ri_kind = ''import'', ri_line = 1, ri_statement = [],
        ri_names = [], ri_level = 0, ri_type_only = False, ri_lazy = False, ri_dynamic = False\<rparr>,
      rs_status = External, rs_target = Some package, rs_method = Some how, rs_reason = None\<rparr>"

theorem dep_health_exact_witness:
  "case collect example_dep_env example_dep_settings (\<lambda>_ _. None)
      (Some ([example_js_import ''react'' ''declared'', example_js_import ''lodash'' ''undeclared''], [(''a.js'', ''javascript'')])) of
     Inl _ \<Rightarrow> False
   | Inr (report, findings) \<Rightarrow>
       map finding_id findings = [(''unused-dependency'', Npm, ''left-pad''), (''phantom-dependency'', Npm, ''lodash'')]
       \<and> in_unit (sr_score report)"
proof -
  let ?run = "collect example_dep_env example_dep_settings (\<lambda>_ _. None)
      (Some ([example_js_import ''react'' ''declared'', example_js_import ''lodash'' ''undeclared''], [(''a.js'', ''javascript'')]))"
  have run: "(case ?run of Inl _ \<Rightarrow> None | Inr (r, fs) \<Rightarrow> Some (map finding_id fs))
      = Some [(''unused-dependency'', Npm, ''left-pad''), (''phantom-dependency'', Npm, ''lodash'')]"
    by code_simp
  then obtain r fs where r: "?run = Inr (r, fs)" by (cases ?run) auto
  have "in_unit (sr_score r)" using dep_health_exact [OF r] by blast
  then show ?thesis using run by (simp add: r)
qed

end
