(* ===== verification/Patches.thy ===== *)
theory Patches
  imports Regex_Scan
begin

text \<open>
  \<open>llm/patches.py\<close>: a unified diff proposed by a model is checked against the scanned
  source.  Files are keyed by the parts of their path and hold bytes; what \<open>git apply\<close> does,
  how bytes decode and whether a text parses are in \<open>patch_env\<close>.  The texts of errors are left out.
\<close>

section \<open>The repository and the tools\<close>

type_synonym file_map = "string list \<rightharpoonup> string"

text \<open>
  Which paths are symbolic links, which resolve to a place inside the repository, and the
  regular files.
\<close>

record repo_view =
  rw_symlink :: "string list \<Rightarrow> bool"
  rw_inside :: "string list \<Rightarrow> bool"
  rw_files :: file_map

text \<open>A run of \<open>git apply\<close>: a timeout, or whether it succeeded and the files after it.\<close>

datatype git_run = Git_timeout | Git_run bool file_map

record patch_env =
  pe_git :: "string list \<Rightarrow> file_map \<Rightarrow> string \<Rightarrow> git_run"
  pe_decode :: "string \<Rightarrow> string"
  pe_python :: "string \<Rightarrow> bool"
  pe_grammar :: "string \<Rightarrow> bool"
  pe_tree :: "string \<Rightarrow> string \<Rightarrow> bool"

text \<open>Reading a file as text turns every line ending into a newline.\<close>

fun universal_newlines :: "string \<Rightarrow> string" where
  "universal_newlines [] = []"
| "universal_newlines [c] = (if c = CHR 0x0D then [CHR 0x0A] else [c])"
| "universal_newlines (c # d # cs) =
     (if c = CHR 0x0D
      then CHR 0x0A # universal_newlines (if d = CHR 0x0A then cs else d # cs)
      else c # universal_newlines (d # cs))"

section \<open>Reading a diff\<close>

definition newline :: char where
  "newline = CHR 0x0A"

definition strip_newlines :: "string \<Rightarrow> string" where
  "strip_newlines s = rstrip_by (\<lambda>c. c = newline) (lstrip_by (\<lambda>c. c = newline) s)"

definition FENCE_OPEN :: rx where
  "FENCE_OPEN = Seqs [Str ''```'', Star (Cls (\<lambda>c. is_word c \<or> c = CHR ''-'')), Chr newline]"

definition FENCE_CLOSE :: rx where
  "FENCE_CLOSE = Seqs [Opt (Chr newline), Str ''```'', Star (Cls is_space), Eol]"

text \<open>The shortest body between the fences, as the lazy group of the code's expression finds it.\<close>

definition fenced_body :: "string \<Rightarrow> string option" where
  "fenced_body text =
     Option.bind (rx_match_end FENCE_OPEN text) (\<lambda>i.
       map_option (slice text i) (find (\<lambda>k. rx_ends FENCE_CLOSE text k \<noteq> []) [i..<Suc (length text)]))"

definition normalize_patch :: "string \<Rightarrow> string" where
  "normalize_patch patch =
     (let text = strip_newlines patch;
          text = (case fenced_body text of Some body \<Rightarrow> body | None \<Rightarrow> text)
      in if strip text = [] then [] else rstrip_by (\<lambda>c. c = newline) text @ [newline])"

definition DIFF_PATH :: "rx list" where
  "DIFF_PATH =
     [Seqs [Alt (Str ''---'') (Str ''+++''), Chr CHR '' '', Opt (Seq (OneOf ''ab'') (Chr CHR ''/''))],
      Plus (Cls (\<lambda>c. \<not> is_space c))]"

definition diff_path :: "string \<Rightarrow> string option" where
  "diff_path line = (case rx_groups DIFF_PATH line of Some [_, path] \<Rightarrow> Some path | _ \<Rightarrow> None)"

definition patch_paths :: "string \<Rightarrow> string list" where
  "patch_paths patch =
     dict_fromkeys (filter (\<lambda>p. p \<noteq> ''/dev/null'') (List.map_filter diff_path (splitlines patch)))"

definition comma_count :: rx where
  "comma_count = Opt (Seq (Chr CHR '','') (Plus (Cls is_digit)))"

definition HUNK :: "rx list" where
  "HUNK =
     [Seqs [Str ''@@ -'', Plus (Cls is_digit), comma_count, Str '' +''], Plus (Cls is_digit), comma_count, Str '' @@'']"

section \<open>Paths\<close>

definition unsafe_path :: "repo_view \<Rightarrow> string \<Rightarrow> bool" where
  "unsafe_path repo path \<longleftrightarrow>
     (let parts = path_parts path
      in starts_with ''/'' path \<or> ''..'' \<in> set parts \<or> CHR 0x5C \<in> set path
         \<or> rw_symlink repo parts \<or> \<not> rw_inside repo parts
         \<or> rw_files repo parts = None)"

section \<open>Line endings\<close>

fun take_int :: "int \<Rightarrow> 'a list \<Rightarrow> 'a list" where
  "take_int n [] = []"
| "take_int n (x # xs) = (if n \<le> 0 then [] else x # take_int (n - 1) xs)"

definition uses_crlf :: "string \<Rightarrow> bool" where
  "uses_crlf bytes \<longleftrightarrow>
     (let data = take_int 1000000 bytes;
          crlf = length (rx_scan (Str [CHR 0x0D, CHR 0x0A]) data 0)
      in 0 < crlf \<and> count_list data newline - crlf \<le> crlf)"

definition file_uses_crlf :: "repo_view \<Rightarrow> string \<Rightarrow> bool" where
  "file_uses_crlf repo path \<longleftrightarrow>
     \<not> unsafe_path repo path
     \<and> (case rw_files repo (path_parts path) of None \<Rightarrow> False | Some bytes \<Rightarrow> uses_crlf bytes)"

text \<open>The loop over the lines, with the file's line ending and whether a hunk is open.\<close>

fun match_lines :: "repo_view \<Rightarrow> bool \<Rightarrow> bool \<Rightarrow> string list \<Rightarrow> string list" where
  "match_lines repo crlf in_hunk [] = []"
| "match_lines repo crlf in_hunk (line # lines) =
     (let bare = rstrip_by (\<lambda>c. c = CHR 0x0D) line;
          next_line = (case lines of [] \<Rightarrow> [] | l # _ \<Rightarrow> l)
      in if starts_with ''--- '' bare \<and> starts_with ''+++ '' next_line
         then bare # match_lines repo crlf False lines
         else if starts_with ''+++ '' bare
         then bare # match_lines repo
                (case diff_path bare of None \<Rightarrow> False | Some path \<Rightarrow> file_uses_crlf repo path) in_hunk lines
         else if starts_with ''@@'' bare then bare # match_lines repo crlf True lines
         else if in_hunk \<and> (bare = [] \<or> hd bare \<in> set '' -+'')
         then (if lines = [] \<and> bare = [] then bare
               else if crlf then (if bare = [] then '' '' else bare) @ [CHR 0x0D]
               else bare) # match_lines repo crlf in_hunk lines
         else line # match_lines repo crlf in_hunk lines)"

definition match_line_endings :: "string \<Rightarrow> repo_view \<Rightarrow> string" where
  "match_line_endings patch repo = join [newline] (match_lines repo False False (split_on newline patch))"

section \<open>Applying\<close>

text \<open>The loop of \<open>_apply\<close>: \<open>None\<close> is a timeout, otherwise whether the diff was applied.\<close>

fun apply_tries :: "patch_env \<Rightarrow> string list \<Rightarrow> string \<Rightarrow> file_map \<Rightarrow> string list list \<Rightarrow> (bool \<times> file_map) option" where
  "apply_tries env strip_args patch files [] = Some (False, files)"
| "apply_tries env strip_args patch files (extra # extras) =
     (case pe_git env ([''--check'', ''--recount''] @ extra @ strip_args) files patch of
        Git_timeout \<Rightarrow> None
      | Git_run accepted _ \<Rightarrow>
          if \<not> accepted then apply_tries env strip_args patch files extras
          else (case pe_git env ([''--recount''] @ extra @ strip_args) files patch of
                  Git_timeout \<Rightarrow> None
                | Git_run applied files' \<Rightarrow>
                    if applied then Some (True, files')
                    else apply_tries env strip_args patch files' extras))"

definition apply_diff :: "patch_env \<Rightarrow> file_map \<Rightarrow> string \<Rightarrow> string list \<Rightarrow> (bool \<times> file_map) option" where
  "apply_diff env files patch strip_args = apply_tries env strip_args patch files [[], [''--unidiff-zero'']]"

text \<open>\<open>re.search("^--- a/", patch, MULTILINE)\<close>: some line starts so.\<close>

definition strip_option :: "string \<Rightarrow> string list" where
  "strip_option patch =
     (if list_ex (starts_with ''--- a/'') (split_on newline patch) then [''-p1''] else [''-p0''])"

section \<open>Syntax\<close>

definition has_syntax_error :: "patch_env \<Rightarrow> string \<Rightarrow> string \<Rightarrow> bool" where
  "has_syntax_error env path source \<longleftrightarrow>
     (let suffix = lower (path_suffix path)
      in if suffix = ''.py'' then \<not> pe_python env source
         else if \<not> pe_grammar env suffix then False
         else \<not> pe_tree env suffix source)"

section \<open>Excerpts\<close>

record file_change =
  fc_path :: string
  fc_start_line :: int
  fc_original :: string
  fc_patched :: string

text \<open>The new-file ranges of the hunks below the header of a file.\<close>

fun ranges_from :: "string \<Rightarrow> string option \<Rightarrow> string list \<Rightarrow> (int \<times> int) list" where
  "ranges_from path current [] = []"
| "ranges_from path current (line # lines) =
     (if diff_path line \<noteq> None \<and> starts_with ''+++'' line then ranges_from path (diff_path line) lines
      else if current = Some path
      then (case rx_groups HUNK line of
              Some [_, first_line, size_text, _] \<Rightarrow>
                let s = int (nat_of_digits 0 first_line);
                    n = (if size_text = [] then 1 else int (nat_of_digits 0 (drop 1 size_text)))
                in (s, s + max n 1 - 1) # ranges_from path current lines
            | _ \<Rightarrow> ranges_from path current lines)
      else ranges_from path current lines)"

definition changed_ranges :: "string \<Rightarrow> string \<Rightarrow> (int \<times> int) list" where
  "changed_ranges patch path = ranges_from path None (splitlines patch)"

text \<open>\<open>lines[start - 1 : stop]\<close> for a start of at least 1.\<close>

definition line_slice :: "string list \<Rightarrow> int \<Rightarrow> int \<Rightarrow> string" where
  "line_slice lines start stop = join [newline] (take (nat (stop - (start - 1))) (drop (nat (start - 1)) lines))"

definition excerpt_bounds :: "(int \<times> int) list \<Rightarrow> int \<times> int" where
  "excerpt_bounds ranges =
     (let start = max 1 (Min (set (map fst ranges)) - 12)
      in (start, min (Max (set (map snd ranges)) + 12) (start + 400 - 1)))"

definition excerpts :: "string \<Rightarrow> string \<Rightarrow> string \<Rightarrow> string \<Rightarrow> file_change" where
  "excerpts path original patched patch =
     (let new_lines = splitlines patched; old_lines = splitlines original;
          found = changed_ranges patch path;
          ranges = (if found = [] then [(1, int (length new_lines))] else found);
          (start, end_new) = excerpt_bounds ranges;
          delta = int (length new_lines) - int (length old_lines);
          end_old = max start (end_new - delta)
      in \<lparr>fc_path = path, fc_start_line = start, fc_original = line_slice old_lines start end_old,
          fc_patched = line_slice new_lines start end_new\<rparr>)"

section \<open>Validation\<close>

datatype validation_status = No_patch | Failed_to_apply | Syntax_error | Valid

record patch_validation =
  pv_status :: validation_status
  pv_changes :: "file_change list"

definition rejected :: "validation_status \<Rightarrow> patch_validation" where
  "rejected status = \<lparr>pv_status = status, pv_changes = []\<rparr>"

definition MAX_PATCH_BYTES :: int where
  "MAX_PATCH_BYTES = 512 * 1024"

definition utf8_length :: "string \<Rightarrow> int" where
  "utf8_length s = int (length s) + int (length (filter (\<lambda>c. 128 \<le> code c) s))"

definition read_text :: "patch_env \<Rightarrow> string \<Rightarrow> string" where
  "read_text env bytes = universal_newlines (pe_decode env bytes)"

text \<open>
  The files of a diff after it was applied, one by one: \<open>None\<close> if a file is gone, and
  \<open>Some None\<close> if one of them stopped parsing.
\<close>

fun check_files ::
    "patch_env \<Rightarrow> string \<Rightarrow> file_map \<Rightarrow> file_map \<Rightarrow> string list \<Rightarrow> file_change list option option" where
  "check_files env patch before_map after_map [] = Some (Some [])"
| "check_files env patch before_map after_map (path # paths) =
     (case after_map (path_parts path) of
        None \<Rightarrow> None
      | Some bytes \<Rightarrow>
          let patched = read_text env bytes; original = read_text env (the (before_map (path_parts path)))
          in if has_syntax_error env path patched \<and> \<not> has_syntax_error env path original then Some None
             else (case check_files env patch before_map after_map paths of
                     None \<Rightarrow> None
                   | Some None \<Rightarrow> Some None
                   | Some (Some cs) \<Rightarrow> Some (Some (excerpts path original patched patch # cs))))"

definition work_copy :: "repo_view \<Rightarrow> string list \<Rightarrow> file_map" where
  "work_copy repo paths = rw_files repo |` (path_parts ` set paths)"

text \<open>\<open>None\<close> is an exception that leaves \<open>validate_patch\<close>.\<close>

definition validate_patch :: "patch_env \<Rightarrow> repo_view \<Rightarrow> string option \<Rightarrow> patch_validation option" where
  "validate_patch env repo proposed =
     (let patch = normalize_patch (case proposed of None \<Rightarrow> [] | Some p \<Rightarrow> p);
          paths = patch_paths patch; sent = match_line_endings patch repo; work = work_copy repo paths
      in if patch = [] then Some (rejected No_patch)
         else if MAX_PATCH_BYTES < utf8_length patch then Some (rejected Failed_to_apply)
         else if ''/dev/null'' \<in> set (List.map_filter diff_path (splitlines patch)) then Some (rejected Failed_to_apply)
         else if paths = [] then Some (rejected Failed_to_apply)
         else if list_ex (unsafe_path repo) paths then Some (rejected Failed_to_apply)
         else (case apply_diff env work sent (strip_option sent) of
                 None \<Rightarrow> Some (rejected Failed_to_apply)
               | Some (applied, work') \<Rightarrow>
                   if \<not> applied then Some (rejected Failed_to_apply)
                   else (case check_files env sent work work' paths of
                           None \<Rightarrow> None
                         | Some None \<Rightarrow> Some (rejected Syntax_error)
                         | Some (Some changes) \<Rightarrow> Some \<lparr>pv_status = Valid, pv_changes = changes\<rparr>)))"

text \<open>Applied or not, and the files of the repository afterwards.\<close>

definition apply_patch_in_place :: "patch_env \<Rightarrow> repo_view \<Rightarrow> string \<Rightarrow> bool \<times> file_map" where
  "apply_patch_in_place env repo proposed =
     (let patch = normalize_patch proposed; sent = match_line_endings patch repo
      in if list_ex (unsafe_path repo) (patch_paths patch) then (False, rw_files repo)
         else (case apply_diff env (rw_files repo) sent (strip_option sent) of
                 None \<Rightarrow> (False, rw_files repo)
               | Some result \<Rightarrow> result))"

section \<open>Properties\<close>

lemma universal_newlines_no_cr: "CHR 0x0D \<notin> set (universal_newlines s)"
  by (induction s rule: universal_newlines.induct) auto

lemma universal_newlines_id: "CHR 0x0D \<notin> set s \<Longrightarrow> universal_newlines s = s"
  by (induction s rule: universal_newlines.induct) auto

lemma check_files_Valid:
  assumes "check_files env patch before_map after_map paths = Some (Some changes)"
  shows "map fc_path changes = paths
    \<and> (\<forall>p \<in> set paths. \<exists>bytes. after_map (path_parts p) = Some bytes
         \<and> (has_syntax_error env p (read_text env bytes)
              \<longrightarrow> has_syntax_error env p (read_text env (the (before_map (path_parts p))))))"
  using assms
proof (induction paths arbitrary: changes)
  case (Cons p paths)
  then show ?case by (auto simp: Let_def excerpts_def split: option.splits if_splits prod.splits)
qed simp

lemma apply_tries_True:
  assumes "apply_tries env strip_args patch files extras = Some (True, files')"
    and "\<And>args fs fs'. pe_git env args fs patch = Git_run False fs' \<Longrightarrow> fs' = fs"
  shows "\<exists>extra \<in> set extras. (\<exists>fs. pe_git env ([''--check'', ''--recount''] @ extra @ strip_args) files patch = Git_run True fs)
    \<and> pe_git env ([''--recount''] @ extra @ strip_args) files patch = Git_run True files'"
  using assms(1)
proof (induction extras)
  case (Cons extra extras)
  then show ?case by (auto split: git_run.splits if_splits dest: assms(2))
qed simp

end
