(* ===== verification/Patches_Props.thy ===== *)
theory Patches_Props
  imports Patches
begin

text \<open>
  What a valid patch is: which files it may change, what is handed to \<open>git\<close>, and what its
  result was checked for.
\<close>

section \<open>Line endings\<close>

definition bare_line :: "string \<Rightarrow> string" where
  "bare_line line = rstrip_by (\<lambda>c. c = CHR 0x0D) line"

text \<open>The same line up to its carriage returns; an empty line may become a blank context line.\<close>

definition same_line :: "string \<Rightarrow> string \<Rightarrow> bool" where
  "same_line a b \<longleftrightarrow> bare_line b = bare_line a \<or> bare_line a = [] \<and> bare_line b = '' ''"

lemma rstrip_by_append: "p c \<Longrightarrow> rstrip_by p (s @ [c]) = rstrip_by p s"
  by (simp add: rstrip_by_def)

lemma rstrip_by_idem: "rstrip_by p (rstrip_by p s) = rstrip_by p s"
  by (simp add: rstrip_by_def dropWhile_idem)

lemma match_lines_same: "list_all2 same_line lines (match_lines repo crlf in_hunk lines)"
proof (induction repo crlf in_hunk lines rule: match_lines.induct)
  case (2 repo crlf in_hunk line lines)
  let ?bare = "rstrip_by (\<lambda>c. c = CHR 0x0D) line"
  have same: "same_line line ?bare" "same_line line line" "same_line line (?bare @ [CHR 0x0D])"
    by (simp_all add: same_line_def bare_line_def rstrip_by_idem rstrip_by_append)
  have blank: "rstrip_by (\<lambda>c. c = CHR 0x0D) [CHR '' '', CHR 0x0D] = '' ''"
    by (simp add: rstrip_by_def)
  show ?case
    using 2 same by (auto simp: Let_def same_line_def bare_line_def rstrip_by_def)
qed simp

section \<open>Excerpts\<close>

lemma excerpt_bounds_size:
  "excerpt_bounds ranges = (start, stop) \<Longrightarrow> 1 \<le> start \<and> stop - (start - 1) \<le> 400"
  by (auto simp: excerpt_bounds_def Let_def)

section \<open>Valid patches\<close>

definition repository_file :: "repo_view \<Rightarrow> string \<Rightarrow> bool" where
  "repository_file repo path \<longleftrightarrow>
     path_parts path \<in> dom (rw_files repo) \<and> ''..'' \<notin> set (path_parts path) \<and> \<not> starts_with ''/'' path
     \<and> CHR 0x5C \<notin> set path \<and> \<not> rw_symlink repo (path_parts path) \<and> rw_inside repo (path_parts path)"

lemma unsafe_path_iff: "unsafe_path repo path \<longleftrightarrow> \<not> repository_file repo path"
  by (auto simp: unsafe_path_def repository_file_def Let_def domIff)

definition proposed_patch :: "string option \<Rightarrow> string" where
  "proposed_patch proposed = normalize_patch (case proposed of None \<Rightarrow> [] | Some p \<Rightarrow> p)"

lemma validate_patch_cases:
  assumes "validate_patch env repo proposed = Some v" "pv_status v = Valid"
  obtains work' changes where
    "\<forall>p \<in> set (patch_paths (proposed_patch proposed)). repository_file repo p"
    "utf8_length (proposed_patch proposed) \<le> MAX_PATCH_BYTES"
    "''/dev/null'' \<notin> set (List.map_filter diff_path (splitlines (proposed_patch proposed)))"
    "patch_paths (proposed_patch proposed) \<noteq> []"
    "apply_diff env (work_copy repo (patch_paths (proposed_patch proposed)))
       (match_line_endings (proposed_patch proposed) repo)
       (strip_option (match_line_endings (proposed_patch proposed) repo)) = Some (True, work')"
    "check_files env (match_line_endings (proposed_patch proposed) repo)
       (work_copy repo (patch_paths (proposed_patch proposed))) work' (patch_paths (proposed_patch proposed))
       = Some (Some changes)"
    "v = \<lparr>pv_status = Valid, pv_changes = changes\<rparr>"
  using assms
  unfolding validate_patch_def Let_def proposed_patch_def [symmetric]
  by (auto simp: rejected_def unsafe_path_iff list_ex_iff split: if_splits option.splits prod.splits)


text \<open>A tool that replaces the one line of a file, and a diff for it.\<close>

definition example_patch :: string where
  "example_patch =
     ''--- a/x.py'' @ [newline] @ ''+++ b/x.py'' @ [newline] @ ''@@ -1 +1 @@'' @ [newline] @ ''-a'' @ [newline] @ ''+b'' @ [newline]"

definition example_patch_env :: patch_env where
  "example_patch_env =
     \<lparr>pe_git = (\<lambda>args files patch. Git_run True (files([''x.py''] \<mapsto> ''b''))), pe_decode = id,
      pe_python = (\<lambda>_. True), pe_grammar = (\<lambda>_. False), pe_tree = (\<lambda>_ _. True)\<rparr>"

definition example_repo :: repo_view where
  "example_repo = \<lparr>rw_symlink = (\<lambda>_. False), rw_inside = (\<lambda>_. True), rw_files = [[''x.py''] \<mapsto> ''a'']\<rparr>"


end
