(* ===== verification/PR_Builder.thy ===== *)
theory PR_Builder
  imports Patches Github_Urls
begin

text \<open>
  \<open>github/pr_builder.py\<close>: which suggestions a pull request contains, how their patches are
  replayed on the current base, what blocks it, and the commits that are created after the
  confirmation.  GitHub's answers are arguments; commit messages, the body and the diff shown are
  texts and left out.  Files are keyed by the parts of their path.
\<close>

section \<open>Errors\<close>

datatype github_kind = Auth_failure | Permission_failure | Not_found_failure | Validation_failure | Other_failure

record github_error =
  ge_kind :: github_kind
  ge_code :: string
  ge_status :: int
  ge_message :: string
  ge_github_message :: "string option"
  ge_github_errors :: "string list"

type_synonym pr_error = "string \<times> int"

definition mentions_text :: "string \<Rightarrow> string \<Rightarrow> bool" where
  "mentions_text sub s \<longleftrightarrow> rx_search (Str sub) s"

text \<open>The distinct code and the HTTP status of a failure in a stage of the creation.\<close>

definition map_github_error :: "github_error \<Rightarrow> string \<Rightarrow> pr_error" where
  "map_github_error exc stage =
     (let text = lower (case ge_github_message exc of
                          None \<Rightarrow> ge_message exc | Some m \<Rightarrow> if m = [] then ge_message exc else m)
            @ '' '' @ lower (join '' '' (ge_github_errors exc))
      in if ge_kind exc = Auth_failure then (''github_auth_required'', 401)
         else if mentions_text ''protected branch'' text \<or> mentions_text ''branch protection'' text
              \<or> (mentions_text ''protected'' text \<and> stage = ''branch'')
              \<or> (mentions_text ''rule violation'' text \<and> stage = ''branch'')
         then (''branch_protected'', 409)
         else if stage = ''branch''
              \<and> (mentions_text ''reference already exists'' text
                 \<or> (ge_kind exc = Validation_failure \<and> mentions_text ''already exists'' text))
         then (''branch_exists'', 409)
         else if stage = ''pull_request'' \<and> mentions_text ''already exists'' text
         then (''pull_request_exists'', 409)
         else if ge_kind exc = Permission_failure \<or> (ge_kind exc = Not_found_failure \<and> stage \<noteq> ''read'')
         then (''insufficient_permissions'', 403)
         else (ge_code exc, ge_status exc))"

section \<open>Groups\<close>

record suggestion =
  sg_id :: int
  sg_scan :: string
  sg_ready :: bool
  sg_valid :: bool
  sg_patch :: "string option"
  sg_call :: "int option"
  sg_finding :: int

record fix_group =
  fg_suggestions :: "suggestion list"
  fg_findings :: "int list"
  fg_patch :: string

definition suggestion_ids :: "fix_group \<Rightarrow> int list" where
  "suggestion_ids g = sort (map sg_id (fg_suggestions g))"

definition group_paths :: "fix_group \<Rightarrow> string list" where
  "group_paths g = patch_paths (fg_patch g)"

datatype exclusion = Not_of_scan | Not_verified

definition includable :: "suggestion \<Rightarrow> bool" where
  "includable s \<longleftrightarrow> sg_ready s \<and> sg_valid s \<and> sg_patch s \<noteq> None \<and> sg_patch s \<noteq> Some []"

definition exclusion_of :: "suggestion list \<Rightarrow> string \<Rightarrow> int \<Rightarrow> exclusion option" where
  "exclusion_of rows scan i =
     (case find (\<lambda>s. sg_id s = i) rows of
        None \<Rightarrow> Some Not_of_scan
      | Some s \<Rightarrow> if sg_scan s \<noteq> scan then Some Not_of_scan
                  else if includable s then None else Some Not_verified)"

text \<open>Suggestions of one model call with one patch form a group; the rest is excluded with a reason.\<close>

definition load_groups :: "suggestion list \<Rightarrow> int list \<Rightarrow> string \<Rightarrow> int list \<Rightarrow> fix_group list \<times> (int \<times> exclusion) list" where
  "load_groups rows known_findings scan ids =
     (let requested = dict_fromkeys ids;
          excluded = List.map_filter (\<lambda>i. map_option (Pair i) (exclusion_of rows scan i)) requested;
          members = List.map_filter (\<lambda>i. if exclusion_of rows scan i = None then find (\<lambda>s. sg_id s = i) rows else None) requested;
          grouped = group_into [] (map (\<lambda>s. ((sg_call s, the (sg_patch s)), s)) members)
      in (map (\<lambda>((_, patch), ss).
            \<lparr>fg_suggestions = ss, fg_findings = filter (\<lambda>f. f \<in> set known_findings) (map sg_finding ss),
             fg_patch = patch\<rparr>) grouped,
          excluded))"

section \<open>Replaying patches\<close>

text \<open>A fresh temporary directory has no links, and every relative path lies inside it.\<close>

definition workspace :: "file_map \<Rightarrow> repo_view" where
  "workspace files = \<lparr>rw_symlink = (\<lambda>_. False), rw_inside = (\<lambda>_. True), rw_files = files\<rparr>"

definition apply_work :: "patch_env \<Rightarrow> file_map \<Rightarrow> string \<Rightarrow> bool \<times> file_map" where
  "apply_work env files patch = apply_patch_in_place env (workspace files) patch"

text \<open>\<open>read_text\<close> of a file in the directory, which fails if it is not there, and \<open>write_text\<close>.\<close>

definition read_work :: "file_map \<Rightarrow> string \<Rightarrow> string option" where
  "read_work files path = map_option universal_newlines (files (path_parts path))"

fun read_works :: "file_map \<Rightarrow> string list \<Rightarrow> (string \<times> string) list option" where
  "read_works files [] = Some []"
| "read_works files (path # paths) =
     (case (read_work files path, read_works files paths) of
        (Some text, Some rest) \<Rightarrow> Some ((path, text) # rest) | _ \<Rightarrow> None)"

definition write_works :: "(string \<times> string) list \<Rightarrow> file_map \<Rightarrow> file_map" where
  "write_works entries files = foldl (\<lambda>fs (path, text). fs(path_parts path \<mapsto> text)) files entries"

text \<open>Whether one of the files stopped parsing; the files after it are not read.\<close>

fun any_broken :: "patch_env \<Rightarrow> file_map \<Rightarrow> string list \<Rightarrow> bool option" where
  "any_broken env files [] = Some False"
| "any_broken env files (path # paths) =
     (case read_work files path of
        None \<Rightarrow> None
      | Some text \<Rightarrow> if has_syntax_error env path text then Some True else any_broken env files paths)"

datatype check_status = Applies | No_longer_applies | Conflicts | Breaks_syntax

record plan_state =
  ps_files :: file_map
  ps_applied :: "fix_group list"
  ps_checks :: "(int list \<times> check_status) list"

definition add_check :: "fix_group \<Rightarrow> check_status \<Rightarrow> plan_state \<Rightarrow> plan_state" where
  "add_check g status st = st\<lparr>ps_checks := ps_checks st @ [(suggestion_ids g, status)]\<rparr>"

definition failure_status :: "bool \<Rightarrow> plan_state \<Rightarrow> fix_group \<Rightarrow> check_status" where
  "failure_status head_moved st g =
     (if list_ex (\<lambda>h. set (group_paths g) \<inter> set (group_paths h) \<noteq> {}) (ps_applied st) \<and> \<not> head_moved
      then Conflicts else No_longer_applies)"

text \<open>One group; \<open>None\<close> is an exception.  A group that breaks a file's syntax is taken back.\<close>

definition plan_group ::
    "patch_env \<Rightarrow> (string list \<Rightarrow> string option) \<Rightarrow> bool \<Rightarrow> plan_state \<Rightarrow> fix_group \<Rightarrow> plan_state option" where
  "plan_group env originals head_moved st g =
     (let paths = group_paths g
      in if list_ex (\<lambda>p. originals (path_parts p) = None) paths then Some (add_check g No_longer_applies st)
         else
           (case read_works (ps_files st) paths of
              None \<Rightarrow> None
            | Some snapshot \<Rightarrow>
                (case apply_work env (ps_files st) (fg_patch g) of
                   (False, files') \<Rightarrow> Some (add_check g (failure_status head_moved st g) (st\<lparr>ps_files := files'\<rparr>))
                 | (True, files') \<Rightarrow>
                     (case any_broken env files' paths of
                        None \<Rightarrow> None
                      | Some True \<Rightarrow> Some (add_check g Breaks_syntax (st\<lparr>ps_files := write_works snapshot files'\<rparr>))
                      | Some False \<Rightarrow> Some (add_check g Applies
                          (st\<lparr>ps_files := files', ps_applied := ps_applied st @ [g]\<rparr>))))))"

fun plan_groups ::
    "patch_env \<Rightarrow> (string list \<Rightarrow> string option) \<Rightarrow> bool \<Rightarrow> plan_state \<Rightarrow> fix_group list \<Rightarrow> plan_state option" where
  "plan_groups env originals head_moved st [] = Some st"
| "plan_groups env originals head_moved st (g # gs) =
     Option.bind (plan_group env originals head_moved st g) (\<lambda>st'. plan_groups env originals head_moved st' gs)"

text \<open>The originals of all groups, written before the replay.\<close>

definition base_files :: "(string list \<Rightarrow> string option) \<Rightarrow> fix_group list \<Rightarrow> file_map" where
  "base_files originals groups = originals |` (path_parts ` set (concat (map group_paths groups)))"

definition start_plan :: "(string list \<Rightarrow> string option) \<Rightarrow> fix_group list \<Rightarrow> plan_state" where
  "start_plan originals groups = \<lparr>ps_files = base_files originals groups, ps_applied = [], ps_checks = []\<rparr>"

text \<open>The files of the applied groups: path, original and result.\<close>

definition plan_files ::
    "(string list \<Rightarrow> string option) \<Rightarrow> fix_group list \<Rightarrow> plan_state \<Rightarrow> (string \<times> string \<times> string option) list" where
  "plan_files originals groups st =
     List.map_filter (\<lambda>path.
       case originals (path_parts path) of
         None \<Rightarrow> None
       | Some original \<Rightarrow>
           if list_ex (\<lambda>g. path \<in> set (group_paths g)) (ps_applied st)
           then Some (path, original, read_work (ps_files st) path) else None)
       (dict_fromkeys (concat (map group_paths groups)))"

section \<open>Base and branch\<close>

text \<open>The branch the scan was of, unless that is a commit or gone; then the default branch.\<close>

definition base_branch :: "string option \<Rightarrow> string \<Rightarrow> (string \<Rightarrow> string option) \<Rightarrow> (string \<times> string) option" where
  "base_branch scan_ref default_branch heads =
     (let wanted = (case scan_ref of
            Some r \<Rightarrow> if r \<noteq> [] \<and> \<not> rx_match SHA r then r else default_branch
          | None \<Rightarrow> default_branch)
      in case heads wanted of
           Some sha \<Rightarrow> Some (wanted, sha)
         | None \<Rightarrow> map_option (Pair default_branch) (heads default_branch))"

text \<open>
  Whether the wanted branch is free and the first free name with a suffix; \<open>None\<close> for the
  branches of a fork that does not exist yet.
\<close>

definition branch_choice :: "(string \<Rightarrow> bool) option \<Rightarrow> string \<Rightarrow> bool \<times> string option" where
  "branch_choice taken wanted =
     (case taken of
        None \<Rightarrow> (True, None)
      | Some exists_branch \<Rightarrow>
          if \<not> exists_branch wanted then (True, None)
          else (False, find (\<lambda>b. \<not> exists_branch b)
                 (map (\<lambda>i. wanted @ ''-'' @ show_nat i) [2..<22])))"

section \<open>The plan\<close>

record plan_request =
  pq_base_sha :: string
  pq_scan_sha :: string
  pq_owner :: string
  pq_name :: string
  pq_login :: string
  pq_can_push :: bool
  pq_use_fork :: bool
  pq_branch :: string
  pq_originals :: "string list \<Rightarrow> string option"
  pq_branches :: "(string \<Rightarrow> bool) option"

text \<open>The digest of the fingerprint has an arbitrary type.\<close>

record 'h plan =
  pp_groups :: "fix_group list"
  pp_checks :: "(int list \<times> check_status) list"
  pp_files :: "(string \<times> string \<times> string option) list"
  pp_blocking :: "string list"
  pp_suggested :: "string option"
  pp_fingerprint :: 'h

type_synonym fingerprint_material = "string \<times> string \<times> string \<times> bool \<times> (int list \<times> string) list"

definition head_repo :: "plan_request \<Rightarrow> string" where
  "head_repo q = (if pq_use_fork q then pq_login q @ ''/'' @ pq_name q else pq_owner q @ ''/'' @ pq_name q)"

definition fingerprint_of ::
    "(fingerprint_material \<Rightarrow> 'h) \<Rightarrow> (string \<Rightarrow> string) \<Rightarrow> plan_request \<Rightarrow> fix_group list \<Rightarrow> 'h" where
  "fingerprint_of hash digest q groups =
     hash (pq_base_sha q, head_repo q, pq_branch q, pq_use_fork q,
       map (\<lambda>g. (suggestion_ids g, digest (fg_patch g))) groups)"

definition blocking_codes :: "plan_request \<Rightarrow> fix_group list \<Rightarrow> bool \<Rightarrow> string list" where
  "blocking_codes q applied available =
     (if applied = [] then [if pq_base_sha q \<noteq> pq_scan_sha q then ''stale_head'' else ''merge_conflict''] else [])
     @ (if \<not> pq_can_push q \<and> \<not> pq_use_fork q then [''fork_required''] else [])
     @ (if \<not> available then [''branch_exists''] else [])"

text \<open>\<open>None\<close> is an exception, \<open>Inl\<close> a reported error.\<close>

definition build_plan ::
    "(fingerprint_material \<Rightarrow> 'h) \<Rightarrow> (string \<Rightarrow> string) \<Rightarrow> patch_env \<Rightarrow> plan_request \<Rightarrow> fix_group list
      \<Rightarrow> (pr_error + 'h plan) option" where
  "build_plan hash digest env q groups =
     (if groups = [] then Some (Inl (''no_valid_suggestions'', 422))
      else
        Option.bind
          (plan_groups env (pq_originals q) (pq_base_sha q \<noteq> pq_scan_sha q)
             (start_plan (pq_originals q) groups) groups)
          (\<lambda>st.
             let (available, suggested) = branch_choice (pq_branches q) (pq_branch q);
                 files = plan_files (pq_originals q) groups st
             in if list_ex (\<lambda>(_, _, text). text = None) files then None
                else Some (Inr \<lparr>pp_groups = ps_applied st, pp_checks = ps_checks st, pp_files = files,
                       pp_blocking = blocking_codes q (ps_applied st) available, pp_suggested = suggested,
                       pp_fingerprint = fingerprint_of hash digest q (ps_applied st)\<rparr>)))"

section \<open>Creating the pull request\<close>

text \<open>The replay after the confirmation: the files of each commit, in order.\<close>

fun replay_groups ::
    "patch_env \<Rightarrow> file_map \<Rightarrow> fix_group list \<Rightarrow> (pr_error + (string \<times> string) list list) option" where
  "replay_groups env files [] = Some (Inr [])"
| "replay_groups env files (g # gs) =
     (case apply_work env files (fg_patch g) of
        (False, _) \<Rightarrow> Some (Inl (''merge_conflict'', 409))
      | (True, files') \<Rightarrow>
          (case read_works files' (group_paths g) of
             None \<Rightarrow> None
           | Some entries \<Rightarrow>
               map_option (map_sum id ((#) entries)) (replay_groups env files' gs)))"

definition written_files :: "(string \<times> string \<times> string option) list \<Rightarrow> file_map" where
  "written_files files = write_works (map (\<lambda>(path, original, _). (path, original)) files) Map.empty"

text \<open>
  \<open>create_pull_request_from_preview\<close> up to the commits: only for a confirmed preview whose
  plan, built anew, has the fingerprint the user saw and nothing left that blocks it.
\<close>

definition create_commits ::
    "patch_env \<Rightarrow> bool \<Rightarrow> 'h \<Rightarrow> bool \<Rightarrow> (pr_error + 'h plan) option \<Rightarrow> (pr_error + (string \<times> string) list list) option" where
  "create_commits env confirmed previewed use_fork rebuilt =
     (if \<not> confirmed then Some (Inl (''not_confirmed'', 409))
      else
        (case rebuilt of
           None \<Rightarrow> None
         | Some (Inl e) \<Rightarrow> Some (Inl e)
         | Some (Inr p) \<Rightarrow>
             if pp_fingerprint p \<noteq> previewed then Some (Inl (''preview_outdated'', 409))
             else (case filter (\<lambda>b. \<not> (b = ''fork_required'' \<and> use_fork)) (pp_blocking p) of
                     b # _ \<Rightarrow> Some (Inl (b, 409))
                   | [] \<Rightarrow> replay_groups env (written_files (pp_files p)) (pp_groups p))))"

definition included_ids :: "'h plan \<Rightarrow> int list" where
  "included_ids p = sort (concat (map suggestion_ids (pp_groups p)))"

definition with_ai_notice :: "string \<Rightarrow> string \<Rightarrow> string" where
  "with_ai_notice notice body =
     (if mentions_text notice body then body else notice @ [newline, newline] @ body)"

end
