(* ===== verification/PR_Builder_Props.thy ===== *)
theory PR_Builder_Props
  imports PR_Builder Patches_Props
begin

text \<open>
  What the preview of a pull request promises: the commits made after the confirmation are the
  previewed files, as long as \<open>git apply\<close> keeps to the files of a patch and no file has
  carriage returns; with carriage returns they are lost.
\<close>

section \<open>Reading and writing\<close>

lemma read_works_Cons:
  "read_works files (p # paths) = Some entries \<longleftrightarrow>
     (\<exists>t rest. read_work files p = Some t \<and> read_works files paths = Some rest \<and> entries = (p, t) # rest)"
  by (auto split: option.splits)

lemma read_works_Some:
  "read_works files paths = Some entries \<longleftrightarrow>
     map fst entries = paths \<and> (\<forall>(p, t) \<in> set entries. read_work files p = Some t)"
proof (induction paths arbitrary: entries)
  case (Cons p paths)
  show ?case
  proof (cases entries)
    case (Cons e rest)
    then show ?thesis
      using Cons.IH [of rest] by (cases e) (auto simp: read_works_Cons simp del: read_works.simps)
  qed (simp add: read_works_Cons del: read_works.simps)
qed auto

lemma read_works_defined:
  "(\<exists>entries. read_works files paths = Some entries) \<longleftrightarrow> (\<forall>p \<in> set paths. read_work files p \<noteq> None)"
  by (induction paths) (auto split: option.splits)

lemma any_broken_False: "any_broken env files paths = Some False \<Longrightarrow> \<exists>entries. read_works files paths = Some entries"
  by (induction paths) (auto split: option.splits if_splits)

lemma read_works_cong: "(\<And>p. p \<in> set paths \<Longrightarrow> read_work fs p = read_work fs' p) \<Longrightarrow> read_works fs paths = read_works fs' paths"
  by (induction paths) (auto split: option.splits)

lemma write_works_other: "p \<notin> path_parts ` fst ` set entries \<Longrightarrow> write_works entries fs p = fs p"
  unfolding write_works_def by (induction entries arbitrary: fs) auto

lemma write_works_same:
  assumes "\<forall>(p, t) \<in> set entries. g (path_parts p) = Some t" "p \<in> path_parts ` fst ` set entries"
  shows "write_works entries fs p = g p"
  using assms
proof (induction entries arbitrary: fs)
  case (Cons e entries)
  obtain q t where e: "e = (q, t)" by fastforce
  have "write_works (e # entries) fs = write_works entries (fs(path_parts q \<mapsto> t))"
    by (simp add: write_works_def e)
  then show ?case
    using Cons write_works_other [of p entries] by (cases "p \<in> path_parts ` fst ` set entries") (auto simp: e)
qed simp

section \<open>What is asked of git\<close>

definition no_returns :: "file_map \<Rightarrow> string list set \<Rightarrow> bool" where
  "no_returns files places \<longleftrightarrow> (\<forall>p \<in> places. \<forall>bytes. files p = Some bytes \<longrightarrow> CHR 0x0D \<notin> set bytes)"

definition places :: "string list \<Rightarrow> string list set" where
  "places paths = path_parts ` set paths"

text \<open>
  Applying a patch depends on and changes only the files its headers name, changes nothing when
  it fails, and adds no carriage returns to files without them.
\<close>

definition applies_locally :: "patch_env \<Rightarrow> fix_group \<Rightarrow> bool" where
  "applies_locally env g \<longleftrightarrow>
     (\<forall>fs fs'. (\<forall>p \<in> places (group_paths g). fs p = fs' p) \<longrightarrow>
        fst (apply_work env fs (fg_patch g)) = fst (apply_work env fs' (fg_patch g))
        \<and> (\<forall>p \<in> places (group_paths g). snd (apply_work env fs (fg_patch g)) p = snd (apply_work env fs' (fg_patch g)) p))
     \<and> (\<forall>fs p. p \<notin> places (group_paths g) \<longrightarrow> snd (apply_work env fs (fg_patch g)) p = fs p)
     \<and> (\<forall>fs. \<not> fst (apply_work env fs (fg_patch g)) \<longrightarrow> snd (apply_work env fs (fg_patch g)) = fs)
     \<and> (\<forall>fs. no_returns fs (places (group_paths g))
          \<longrightarrow> no_returns (snd (apply_work env fs (fg_patch g))) (places (group_paths g)))"

definition agree_on :: "string list set \<Rightarrow> file_map \<Rightarrow> file_map \<Rightarrow> bool" where
  "agree_on S fs fs' \<longleftrightarrow> (\<forall>p \<in> S. fs p = fs' p)"

lemma apply_agrees:
  assumes "applies_locally env g" "agree_on S fs fs'" "places (group_paths g) \<subseteq> S"
  shows "fst (apply_work env fs (fg_patch g)) = fst (apply_work env fs' (fg_patch g))"
    "agree_on S (snd (apply_work env fs (fg_patch g))) (snd (apply_work env fs' (fg_patch g)))"
proof -
  have eq: "\<forall>p \<in> places (group_paths g). fs p = fs' p" using assms(2,3) by (auto simp: agree_on_def)
  then show "fst (apply_work env fs (fg_patch g)) = fst (apply_work env fs' (fg_patch g))"
    using assms(1) unfolding applies_locally_def by blast
  show "agree_on S (snd (apply_work env fs (fg_patch g))) (snd (apply_work env fs' (fg_patch g)))"
    unfolding agree_on_def
  proof
    fix p
    assume p: "p \<in> S"
    show "snd (apply_work env fs (fg_patch g)) p = snd (apply_work env fs' (fg_patch g)) p"
    proof (cases "p \<in> places (group_paths g)")
      case True
      then show ?thesis using eq assms(1) unfolding applies_locally_def by blast
    next
      case False
      then have "snd (apply_work env fs (fg_patch g)) p = fs p" "snd (apply_work env fs' (fg_patch g)) p = fs' p"
        using assms(1) unfolding applies_locally_def by blast+
      then show ?thesis using p assms(2) by (simp add: agree_on_def)
    qed
  qed
qed

section \<open>One group\<close>

text \<open>A group either changes nothing, or is applied as it would be anywhere.\<close>

lemma plan_group_cases:
  assumes run: "plan_group env originals head_moved st g = Some st'"
    and local: "applies_locally env g" and lf: "no_returns (ps_files st) (places (group_paths g))"
  obtains (kept) "ps_files st' = ps_files st" "ps_applied st' = ps_applied st"
  | (applied) entries where "apply_work env (ps_files st) (fg_patch g) = (True, ps_files st')"
      "ps_applied st' = ps_applied st @ [g]" "read_works (ps_files st') (group_paths g) = Some entries"
      "\<forall>p \<in> set (group_paths g). originals (path_parts p) \<noteq> None"
proof (cases "list_ex (\<lambda>p. originals (path_parts p) = None) (group_paths g)")
  case True
  then show thesis using run kept by (auto simp: plan_group_def Let_def add_check_def)
next
  case False
  obtain snapshot where snap: "read_works (ps_files st) (group_paths g) = Some snapshot"
    using run False by (auto simp: plan_group_def Let_def split: option.splits)
  obtain ok files' where ap: "apply_work env (ps_files st) (fg_patch g) = (ok, files')" by fastforce
  show thesis
  proof (cases ok)
    case False
    then have "files' = ps_files st" using local ap unfolding applies_locally_def by (metis fst_conv snd_conv)
    then show thesis
      using run \<open>\<not> list_ex _ _\<close> snap ap False kept by (auto simp: plan_group_def Let_def add_check_def)
  next
    case ok: True
    obtain broken where broken: "any_broken env files' (group_paths g) = Some broken"
      using run False snap ap ok by (auto simp: plan_group_def Let_def split: option.splits)
    show thesis
    proof (cases broken)
      case bad: True
      have restored: "write_works snapshot files' = ps_files st"
      proof
        fix p
        have fst_snap: "path_parts ` fst ` set snapshot = places (group_paths g)"
          using snap unfolding read_works_Some places_def by (metis list.set_map)
        show "write_works snapshot files' p = ps_files st p"
        proof (cases "p \<in> places (group_paths g)")
          case True
          have "\<forall>(q, t) \<in> set snapshot. ps_files st (path_parts q) = Some t"
          proof (clarify)
            fix q t
            assume q: "(q, t) \<in> set snapshot"
            then have "read_work (ps_files st) q = Some t" using snap unfolding read_works_Some by blast
            then obtain bytes where b: "ps_files st (path_parts q) = Some bytes" "t = universal_newlines bytes"
              by (auto simp: read_work_def)
            have "path_parts q \<in> places (group_paths g)" using q fst_snap by force
            then have "CHR 0x0D \<notin> set bytes" using lf b(1) by (auto simp: no_returns_def)
            then show "ps_files st (path_parts q) = Some t" using b by (simp add: universal_newlines_id)
          qed
          then show ?thesis using write_works_same [of snapshot "ps_files st" p] True fst_snap by blast
        next
          case False
          then have "write_works snapshot files' p = files' p" using write_works_other fst_snap by blast
          also have "\<dots> = ps_files st p"
            using local ap False unfolding applies_locally_def by (metis snd_conv)
          finally show ?thesis .
        qed
      qed
      then show thesis
        using run False snap ap ok broken bad kept restored by (auto simp: plan_group_def Let_def add_check_def)
    next
      case good: False
      have "st' = add_check g Applies (st\<lparr>ps_files := files', ps_applied := ps_applied st @ [g]\<rparr>)"
        using run False snap ap ok broken good by (auto simp: plan_group_def Let_def)
      moreover obtain entries where "read_works files' (group_paths g) = Some entries"
        using broken good any_broken_False [of env] by force
      ultimately show thesis
        using applied [of entries] ap ok False by (auto simp: add_check_def list_ex_iff)
    qed
  qed
qed

section \<open>The whole replay\<close>

definition all_places :: "fix_group list \<Rightarrow> string list set" where
  "all_places gs = places (concat (map group_paths gs))"

lemma all_places_simps [simp]:
  "all_places [] = {}" "all_places (g # gs) = places (group_paths g) \<union> all_places gs"
  "all_places (gs @ hs) = all_places gs \<union> all_places hs"
  by (auto simp: all_places_def places_def)

lemma no_returns_mono: "no_returns fs S \<Longrightarrow> T \<subseteq> S \<Longrightarrow> no_returns fs T"
  by (auto simp: no_returns_def)

lemma applied_no_returns:
  assumes "applies_locally env g" "no_returns fs S" "places (group_paths g) \<subseteq> S"
  shows "no_returns (snd (apply_work env fs (fg_patch g))) S"
  unfolding no_returns_def
proof (intro ballI allI impI)
  fix p bytes
  assume p: "p \<in> S" and bytes: "snd (apply_work env fs (fg_patch g)) p = Some bytes"
  show "CHR 0x0D \<notin> set bytes"
  proof (cases "p \<in> places (group_paths g)")
    case True
    have "no_returns (snd (apply_work env fs (fg_patch g))) (places (group_paths g))"
      using assms(1) no_returns_mono [OF assms(2,3)] unfolding applies_locally_def by blast
    then show ?thesis using True bytes by (auto simp: no_returns_def)
  next
    case False
    then have "fs p = Some bytes" using assms(1) bytes unfolding applies_locally_def by metis
    then show ?thesis using assms(2) p by (auto simp: no_returns_def)
  qed
qed

text \<open>
  The last commit that contains a path decides its content; later groups that do not name the
  path leave it alone.
\<close>

lemma replay_groups_Inr:
  "replay_groups env fs (g # gs) = Some (Inr commits) \<longleftrightarrow>
     (\<exists>fs' entries cs. apply_work env fs (fg_patch g) = (True, fs') \<and> read_works fs' (group_paths g) = Some entries
        \<and> replay_groups env fs' gs = Some (Inr cs) \<and> commits = entries # cs)"
proof -
  obtain ok fs' where ap: "apply_work env fs (fg_patch g) = (ok, fs')" by fastforce
  show ?thesis
  proof (cases "ok \<and> read_works fs' (group_paths g) \<noteq> None \<and> replay_groups env fs' gs \<noteq> None")
    case True
    then obtain entries z where "read_works fs' (group_paths g) = Some entries" "replay_groups env fs' gs = Some z" by auto
    then show ?thesis using True ap by (cases z) auto
  next
    case False
    then show ?thesis using ap by (cases ok) (auto split: option.splits)
  qed
qed

lemma replay_untouched:
  assumes "replay_groups env fs gs = Some (Inr commits)" "\<forall>g \<in> set gs. applies_locally env g"
  shows "map (map fst) commits = map group_paths gs"
  using assms
proof (induction gs arbitrary: fs commits)
  case (Cons g gs)
  from Cons.prems(1) obtain fs' entries cs where "read_works fs' (group_paths g) = Some entries"
      "replay_groups env fs' gs = Some (Inr cs)" "commits = entries # cs"
    unfolding replay_groups_Inr by blast
  then show ?case using Cons.IH Cons.prems(2) by (auto simp: read_works_Some)
qed simp

definition committed :: "(string \<times> string) list list \<Rightarrow> string \<Rightarrow> string option" where
  "committed commits path = map_of (concat (rev commits)) path"

lemma committed_dom:
  assumes "replay_groups env fs gs = Some (Inr commits)" "\<forall>g \<in> set gs. applies_locally env g"
  shows "committed commits p \<noteq> None \<longleftrightarrow> p \<in> set (concat (map group_paths gs))"
proof -
  have "set (map fst (concat (rev commits))) = set (concat (map (map fst) commits))" by (auto simp: map_concat)
  also have "\<dots> = set (concat (map group_paths gs))" by (simp only: replay_untouched [OF assms])
  finally show ?thesis by (auto simp: committed_def map_of_eq_None_iff)
qed

lemma map_of_read_works:
  assumes "read_works files paths = Some entries" "p \<in> set paths"
  shows "map_of entries p = read_work files p"
proof -
  have keys: "map fst entries = paths" and vals: "\<forall>(p, t) \<in> set entries. read_work files p = Some t"
    using assms(1) unfolding read_works_Some by blast+
  from assms(2) keys have "p \<in> fst ` set entries" by auto
  then obtain t where "map_of entries p = Some t" by (metis map_of_eq_None_iff not_None_eq)
  then show ?thesis using vals map_of_SomeD by fastforce
qed

lemma plan_replays:
  assumes "plan_groups env originals head_moved st gs = Some st'"
    "\<forall>g \<in> set gs. applies_locally env g" "no_returns (ps_files st) (all_places gs)"
    "agree_on S fs (ps_files st)"
  obtains new where "ps_applied st' = ps_applied st @ new" "set new \<subseteq> set gs"
    "\<forall>g \<in> set new. \<forall>p \<in> set (group_paths g). originals (path_parts p) \<noteq> None"
    "all_places new \<subseteq> S \<Longrightarrow> inj_on path_parts (set (concat (map group_paths new))) \<Longrightarrow>
       \<exists>commits. replay_groups env fs new = Some (Inr commits)
         \<and> (\<forall>p \<in> set (concat (map group_paths new)). committed commits p = read_work (ps_files st') p)"
    "\<forall>p. p \<notin> all_places new \<longrightarrow> ps_files st' p = ps_files st p"
  using assms
proof (induction gs arbitrary: st fs S thesis)
  case Nil
  then show ?case by simp
next
  case (Cons g gs)
  obtain st1 where one: "plan_group env originals head_moved st g = Some st1"
      and rest: "plan_groups env originals head_moved st1 gs = Some st'"
    using Cons.prems(2) by (auto simp: bind_eq_Some_conv)
  have local: "applies_locally env g" and locals: "\<forall>g \<in> set gs. applies_locally env g" using Cons.prems(3) by auto
  have lf: "no_returns (ps_files st) (places (group_paths g))" "no_returns (ps_files st) (all_places gs)"
    using Cons.prems(4) by (auto intro: no_returns_mono)
  show ?case
  proof (rule plan_group_cases [OF one local lf(1)])
    assume kept: "ps_files st1 = ps_files st" "ps_applied st1 = ps_applied st"
    show ?thesis
      by (rule Cons.IH [OF _ rest locals, of S fs]) (use kept lf Cons.prems(1,5) in auto)
  next
    fix entries
    assume ap: "apply_work env (ps_files st) (fg_patch g) = (True, ps_files st1)"
      and app: "ps_applied st1 = ps_applied st @ [g]"
      and en: "read_works (ps_files st1) (group_paths g) = Some entries"
      and orig: "\<forall>p \<in> set (group_paths g). originals (path_parts p) \<noteq> None"
    define fs1 where "fs1 = snd (apply_work env fs (fg_patch g))"
    define T where "T = (if places (group_paths g) \<subseteq> S then S else {})"
    have agree: "agree_on T fs1 (ps_files st1)" and applied: "T = S \<Longrightarrow> places (group_paths g) \<subseteq> S \<Longrightarrow> fst (apply_work env fs (fg_patch g))"
      using apply_agrees [OF local Cons.prems(5)] ap by (auto simp: T_def fs1_def agree_on_def)
    have "no_returns (snd (apply_work env (ps_files st) (fg_patch g))) (all_places (g # gs))"
      by (rule applied_no_returns [OF local Cons.prems(4)]) simp
    then have lf1: "no_returns (ps_files st1) (all_places gs)" unfolding ap snd_conv by (rule no_returns_mono) simp
    have other: "ps_files st1 p = ps_files st p" if "p \<notin> places (group_paths g)" for p
      using local that ap unfolding applies_locally_def by (metis snd_conv)
    show ?thesis
    proof (rule Cons.IH [OF _ rest locals lf1 agree])
      fix new
      assume new: "ps_applied st' = ps_applied st1 @ new" "set new \<subseteq> set gs"
        and orig': "\<forall>g \<in> set new. \<forall>p \<in> set (group_paths g). originals (path_parts p) \<noteq> None"
        and later: "all_places new \<subseteq> T \<Longrightarrow> inj_on path_parts (set (concat (map group_paths new))) \<Longrightarrow>
          \<exists>commits. replay_groups env fs1 new = Some (Inr commits)
            \<and> (\<forall>p \<in> set (concat (map group_paths new)). committed commits p = read_work (ps_files st') p)"
        and unchanged: "\<forall>p. p \<notin> all_places new \<longrightarrow> ps_files st' p = ps_files st1 p"
      show ?thesis
      proof (rule Cons.prems(1) [of "g # new"])
        show "ps_applied st' = ps_applied st @ g # new" using new(1) app by simp
        show "set (g # new) \<subseteq> set (g # gs)" using new(2) by auto
        show "\<forall>h \<in> set (g # new). \<forall>p \<in> set (group_paths h). originals (path_parts p) \<noteq> None"
          using orig orig' by simp
        show "\<forall>p. p \<notin> all_places (g # new) \<longrightarrow> ps_files st' p = ps_files st p"
          using unchanged other by simp
        assume sub: "all_places (g # new) \<subseteq> S" and inj: "inj_on path_parts (set (concat (map group_paths (g # new))))"
        then have T: "T = S" "places (group_paths g) \<subseteq> S" by (auto simp: T_def)
        have "all_places new \<subseteq> T" using sub T by simp
        moreover have "inj_on path_parts (set (concat (map group_paths new)))"
          using inj by (rule inj_on_subset) auto
        ultimately obtain commits where run: "replay_groups env fs1 new = Some (Inr commits)"
            and cs: "\<forall>p \<in> set (concat (map group_paths new)). committed commits p = read_work (ps_files st') p"
          using later by blast
        have "read_works fs1 (group_paths g) = read_works (ps_files st1) (group_paths g)"
          using agree T by (intro read_works_cong) (auto simp: agree_on_def read_work_def places_def)
        then have run': "replay_groups env fs (g # new) = Some (Inr (entries # commits))"
          using applied T run en unfolding fs1_def by (cases "apply_work env fs (fg_patch g)") auto
        have "committed (entries # commits) p = read_work (ps_files st') p"
          if p: "p \<in> set (concat (map group_paths (g # new)))" for p
        proof (cases "p \<in> set (concat (map group_paths new))")
          case True
          then have "committed commits p \<noteq> None" using committed_dom [OF run] new(2) locals by blast
          then show ?thesis using cs True by (auto simp: committed_def map_add_def)
        next
          case False
          then have p: "p \<in> set (group_paths g)" using p by auto
          have "path_parts p \<notin> all_places new"
          proof
            assume "path_parts p \<in> all_places new"
            then obtain q where q: "q \<in> set (concat (map group_paths new))" "path_parts q = path_parts p"
              unfolding all_places_def places_def by (metis image_iff)
            then have "q = p" using inj p by (auto dest!: inj_onD)
            then show False using q False by simp
          qed
          then have "read_work (ps_files st') p = read_work (ps_files st1) p"
            using unchanged by (simp add: read_work_def)
          moreover have "map_of entries p = read_work (ps_files st1) p"
            using en p by (rule map_of_read_works)
          moreover have "committed commits p = None"
            using committed_dom [OF run] new(2) locals False by blast
          ultimately show ?thesis by (simp add: committed_def map_add_def)
        qed
        then show "\<exists>commits. replay_groups env fs (g # new) = Some (Inr commits)
            \<and> (\<forall>p \<in> set (concat (map group_paths (g # new))). committed commits p = read_work (ps_files st') p)"
          using run' by blast
      qed
    qed
  qed
qed

text \<open>Whatever the files were, the committed texts have no carriage returns any more.\<close>

lemma line_endings_rewritten:
  assumes "replay_groups env fs gs = Some (Inr commits)" "entries \<in> set commits" "(p, t) \<in> set entries"
  shows "CHR 0x0D \<notin> set t"
  using assms
proof (induction gs arbitrary: fs commits)
  case (Cons g gs)
  from Cons.prems(1) obtain fs' es cs where "read_works fs' (group_paths g) = Some es"
      "replay_groups env fs' gs = Some (Inr cs)" "commits = es # cs"
    unfolding replay_groups_Inr by blast
  then show ?case
    using Cons.IH [of fs' cs] Cons.prems(2,3) unfolding read_works_Some
    by (auto simp: read_work_def universal_newlines_no_cr)
qed simp

lemma plan_files_props:
  assumes "ps_applied st = new" "set new \<subseteq> set groups"
    "\<forall>g \<in> set new. \<forall>p \<in> set (group_paths g). originals (path_parts p) \<noteq> None"
  shows "fst ` set (plan_files originals groups st) = set (concat (map group_paths new))"
    "\<forall>(p, original, after) \<in> set (plan_files originals groups st).
       originals (path_parts p) = Some original \<and> after = read_work (ps_files st) p"
proof -
  show "\<forall>(p, original, after) \<in> set (plan_files originals groups st).
       originals (path_parts p) = Some original \<and> after = read_work (ps_files st) p"
    by (auto simp: plan_files_def set_map_filter split: option.splits if_splits)
  have "p \<in> fst ` set (plan_files originals groups st) \<longleftrightarrow> p \<in> set (concat (map group_paths new))" for p
  proof
    assume "p \<in> fst ` set (plan_files originals groups st)"
    then obtain original after where "(p, original, after) \<in> set (plan_files originals groups st)" by force
    then have "list_ex (\<lambda>g. p \<in> set (group_paths g)) (ps_applied st)"
      unfolding plan_files_def set_map_filter by (auto split: option.splits if_splits)
    then show "p \<in> set (concat (map group_paths new))" using assms(1) by (auto simp: list_ex_iff)
  next
    assume p: "p \<in> set (concat (map group_paths new))"
    then obtain g where g: "g \<in> set new" "p \<in> set (group_paths g)" by auto
    with assms(3) obtain original where o: "originals (path_parts p) = Some original" by blast
    have "p \<in> set (concat (map group_paths groups))" using g assms(2) by auto
    then have "(p, original, read_work (ps_files st) p) \<in> set (plan_files originals groups st)"
      unfolding plan_files_def set_map_filter using o g assms(1)
      by (intro CollectI bexI [of _ p]) (auto simp: list_ex_iff)
    then show "p \<in> fst ` set (plan_files originals groups st)" by force
  qed
  then show "fst ` set (plan_files originals groups st) = set (concat (map group_paths new))" by blast
qed


section \<open>A concrete run\<close>

text \<open>One suggestion or two for \<open>a.py\<close>.\<close>

definition sample_patch :: string where
  "sample_patch = ''--- a/a.py'' @ [newline] @ ''+++ b/a.py'' @ [newline]"

definition sample_git :: patch_env where
  "sample_git = \<lparr>pe_git = (\<lambda>args fs patch.
       if ''--check'' \<in> set args then Git_run True fs else Git_run True (fs([''a.py''] \<mapsto> ''new''))),
     pe_decode = id, pe_python = (\<lambda>_. True), pe_grammar = (\<lambda>_. False), pe_tree = (\<lambda>_ _. True)\<rparr>"

definition sample_group :: "int \<Rightarrow> fix_group" where
  "sample_group i = \<lparr>fg_suggestions = [\<lparr>sg_id = i, sg_scan = ''s'', sg_ready = True, sg_valid = True,
     sg_patch = Some sample_patch, sg_call = Some i, sg_finding = i\<rparr>], fg_findings = [i], fg_patch = sample_patch\<rparr>"

definition sample_request :: plan_request where
  "sample_request = \<lparr>pq_base_sha = ''c1'', pq_scan_sha = ''c1'', pq_owner = ''o'', pq_name = ''r'', pq_login = ''u'',
     pq_can_push = True, pq_use_fork = False, pq_branch = ''fix'',
     pq_originals = [[''a.py''] \<mapsto> ''old''], pq_branches = Some (\<lambda>_. False)\<rparr>"

lemma sample_texts:
  "normalize_patch sample_patch = sample_patch" "patch_paths sample_patch = [''a.py'']" "path_parts ''a.py'' = [''a.py'']"
  by code_simp+

lemma sample_apply:
  "apply_work sample_git fs sample_patch =
     (case fs [''a.py''] of None \<Rightarrow> (False, fs) | Some _ \<Rightarrow> (True, fs([''a.py''] \<mapsto> ''new'')))"
proof -
  have strip: "strip_option p \<in> {[''-p1''], [''-p0'']}" for p by (simp add: strip_option_def)
  have files: "rw_files (workspace fs) = fs" by (simp add: workspace_def)
  have unsafe: "unsafe_path (workspace fs) ''a.py'' \<longleftrightarrow> fs [''a.py''] = None"
    by (simp add: unsafe_path_def sample_texts workspace_def Let_def starts_with_def)
  show ?thesis
    using strip [of "match_line_endings sample_patch (workspace fs)"]
    by (auto simp: apply_work_def apply_patch_in_place_def sample_texts unsafe apply_diff_def sample_git_def Let_def
      files split: option.splits)
qed

lemma sample_local: "applies_locally sample_git (sample_group i)"
  by (auto simp: applies_locally_def sample_group_def group_paths_def sample_texts places_def sample_apply
    no_returns_def split: option.splits)

lemma sample_paths [simp]: "group_paths (sample_group i) = [''a.py'']" "suggestion_ids (sample_group i) = [i]"
    "fg_patch (sample_group i) = sample_patch"
  by (simp_all add: group_paths_def suggestion_ids_def sample_group_def sample_texts)

lemma sample_reads: "read_work fs ''a.py'' = map_option universal_newlines (fs [''a.py''])"
  by (simp add: read_work_def sample_texts)

lemma sample_branch: "branch_choice (pq_branches sample_request) (pq_branch sample_request) = (True, None)"
  by (simp add: branch_choice_def sample_request_def)

lemma sample_group_applies:
  assumes "ps_files st [''a.py''] = Some t"
  shows "plan_group sample_git (pq_originals sample_request) False st (sample_group i)
    = Some (add_check (sample_group i) Applies
        (st\<lparr>ps_files := (ps_files st)([''a.py''] \<mapsto> ''new''), ps_applied := ps_applied st @ [sample_group i]\<rparr>))"
proof -
  have "\<not> has_syntax_error sample_git ''a.py'' s" for s
    by (simp add: has_syntax_error_def sample_git_def Let_def)
  then show ?thesis
    using assms by (simp add: plan_group_def sample_reads sample_apply sample_texts sample_request_def add_check_def)
qed

definition sample_preview :: "int list \<Rightarrow> fingerprint_material plan" where
  "sample_preview is = \<lparr>pp_groups = map sample_group is, pp_checks = map (\<lambda>i. ([i], Applies)) is,
     pp_files = [(''a.py'', ''old'', Some ''new'')], pp_blocking = [], pp_suggested = None,
     pp_fingerprint = fingerprint_of id id sample_request (map sample_group is)\<rparr>"

lemma sample_plan:
  assumes "is \<in> {[3], [5, 3]}"
  shows "build_plan id id sample_git sample_request (map sample_group is) = Some (Inr (sample_preview is))"
proof -
  have req: "pq_base_sha sample_request = ''c1''" "pq_scan_sha sample_request = ''c1''" "pq_can_push sample_request"
      "pq_originals sample_request [''a.py''] = Some ''old''"
    by (simp_all add: sample_request_def)
  have base: "base_files (pq_originals sample_request) (map sample_group is) [''a.py''] = Some ''old''"
    using assms by (auto simp: base_files_def sample_texts sample_request_def)
  have uni: "universal_newlines ''new'' = ''new''" by simp
  have fk: "dict_fromkeys [''a.py''] = [''a.py'']" "dict_fromkeys [''a.py'', ''a.py''] = [''a.py'']"
    by (simp_all add: dict_fromkeys_def)
  from assms base show ?thesis
    by (auto simp: build_plan_def req sample_branch sample_group_applies start_plan_def add_check_def sample_preview_def
      plan_files_def sample_texts sample_reads uni fk blocking_codes_def)
qed


end
