(* ===== verification/PR_Builder_Order.thy ===== *)
theory PR_Builder_Order
  imports PR_Builder_Props "HOL-Library.Sublist"
begin

text \<open>
  The order of the fixes in a plan: a plan built from sorted ids has its fixes in the order of
  their smallest ids, and a plan with another order is not reproduced from its own ids.
\<close>

section \<open>The order of the groups\<close>

definition ascending :: "('v \<Rightarrow> 'a::linorder) \<Rightarrow> ('k, 'v list) dict \<Rightarrow> bool" where
  "ascending f d \<longleftrightarrow> sorted (map (\<lambda>b. f (hd (snd b))) d) \<and> (\<forall>b \<in> set d. snd b \<noteq> [] \<and> sorted (map f (snd b)))"

lemma ascending_add:
  assumes "ascending f d" "\<forall>w \<in> set (concat (map snd d)). f w \<le> f v"
  shows "ascending f (bucket_add k v d) \<and> set (concat (map snd (bucket_add k v d))) = insert v (set (concat (map snd d)))
    \<and> (\<forall>x. (\<forall>b \<in> set d. x \<le> f (hd (snd b))) \<and> x \<le> f v \<longrightarrow> (\<forall>b \<in> set (bucket_add k v d). x \<le> f (hd (snd b))))"
  using assms
proof (induction k v d rule: bucket_add.induct)
  case (2 k v k' vs d)
  then show ?case by (auto simp: ascending_def sorted_append)
qed (simp add: ascending_def)

lemma group_into_ascending:
  assumes "ascending f d" "sorted (map (\<lambda>e. f (snd e)) kvs)"
    "\<forall>w \<in> set (concat (map snd d)). \<forall>e \<in> set kvs. f w \<le> f (snd e)"
  shows "ascending f (group_into d kvs)"
  using assms
proof (induction d kvs rule: group_into.induct)
  case (2 d k v kvs)
  have le: "\<forall>w \<in> set (concat (map snd d)). f w \<le> f v" using "2.prems"(3) by auto
  note add = ascending_add [OF "2.prems"(1) le, of k]
  show ?case unfolding group_into.simps
  proof (rule "2.IH")
    show "ascending f (bucket_add k v d)" using add by blast
    show "sorted (map (\<lambda>e. f (snd e)) kvs)" using "2.prems"(2) by simp
    show "\<forall>w \<in> set (concat (map snd (bucket_add k v d))). \<forall>e \<in> set kvs. f w \<le> f (snd e)"
      using add "2.prems"(2,3) by (auto simp del: set_concat)
  qed
qed simp

lemma sorted_dict_fromkeys: "sorted xs \<Longrightarrow> sorted (dict_fromkeys xs)"
  by (induction xs rule: rev_induct) (auto simp: dict_fromkeys_snoc sorted_append)

lemma map_filter_keys:
  "(\<And>i s. F i = Some s \<Longrightarrow> f s = i) \<Longrightarrow> map f (List.map_filter F xs) = filter (\<lambda>i. F i \<noteq> None) xs"
  by (induction xs) (auto split: option.splits)

lemma load_groups_ascending:
  assumes "sorted ids"
  shows "sorted (map (hd \<circ> suggestion_ids) (fst (load_groups rows known scan ids)))"
proof -
  let ?F = "\<lambda>i. if exclusion_of rows scan i = None then find (\<lambda>s. sg_id s = i) rows else None"
  let ?members = "List.map_filter ?F (dict_fromkeys ids)"
  let ?groups = "group_into [] (map (\<lambda>s. ((sg_call s, the (sg_patch s)), s)) ?members)"
  have "map sg_id ?members = filter (\<lambda>i. ?F i \<noteq> None) (dict_fromkeys ids)"
    by (rule map_filter_keys) (auto split: if_splits simp: find_Some_iff)
  then have "sorted (map sg_id ?members)" by (simp add: sorted_dict_fromkeys assms sorted_filter [of "\<lambda>x. x", simplified])
  then have up: "ascending sg_id ?groups" by (intro group_into_ascending) (simp_all add: ascending_def comp_def)
  have "hd (sort (map sg_id (snd b))) = sg_id (hd (snd b))" if "b \<in> set ?groups" for b
  proof -
    have "snd b \<noteq> []" "sorted (map sg_id (snd b))" using that up by (auto simp: ascending_def)
    then show ?thesis by (simp add: sorted_sort_id hd_map)
  qed
  then have heads: "map (\<lambda>b. hd (sort (map sg_id (snd b)))) ?groups = map (\<lambda>b. sg_id (hd (snd b))) ?groups" by simp
  have "map (hd \<circ> suggestion_ids) (fst (load_groups rows known scan ids)) = map (\<lambda>b. hd (sort (map sg_id (snd b)))) ?groups"
    by (simp add: load_groups_def Let_def suggestion_ids_def comp_def case_prod_unfold)
  then show ?thesis using up unfolding heads by (simp only: ascending_def)
qed

lemma plan_group_applied:
  "plan_group env originals moved st g = Some st' \<Longrightarrow> ps_applied st' = ps_applied st \<or> ps_applied st' = ps_applied st @ [g]"
  by (auto simp: plan_group_def Let_def add_check_def split: option.splits if_splits prod.splits bool.splits)

lemma plan_groups_subseq:
  "plan_groups env originals moved st gs = Some st' \<Longrightarrow> \<exists>new. ps_applied st' = ps_applied st @ new \<and> subseq new gs"
proof (induction gs arbitrary: st)
  case (Cons g gs)
  obtain st1 where one: "plan_group env originals moved st g = Some st1"
      and rest: "plan_groups env originals moved st1 gs = Some st'"
    using Cons.prems by (auto simp: bind_eq_Some_conv)
  obtain new where "ps_applied st' = ps_applied st1 @ new" "subseq new gs" using Cons.IH [OF rest] by blast
  then show ?case using plan_group_applied [OF one]
    by (metis append_Cons append_Nil append_assoc list_emb_Cons subseq_Cons2)
qed simp

lemma build_plan_applied:
  assumes "build_plan hash digest env q groups = Some (Inr p)"
  shows "subseq (pp_groups p) groups" "pp_fingerprint p = fingerprint_of hash digest q (pp_groups p)"
proof -
  obtain available suggested where choice: "branch_choice (pq_branches q) (pq_branch q) = (available, suggested)" by fastforce
  obtain st where run: "plan_groups env (pq_originals q) (pq_base_sha q \<noteq> pq_scan_sha q) (start_plan (pq_originals q) groups) groups = Some st"
      and p: "pp_groups p = ps_applied st" "pp_fingerprint p = fingerprint_of hash digest q (ps_applied st)"
    using assms by (auto simp: build_plan_def choice bind_eq_Some_conv Let_def split: if_splits)
  then show "subseq (pp_groups p) groups" using plan_groups_subseq [OF run] by (auto simp: start_plan_def)
  show "pp_fingerprint p = fingerprint_of hash digest q (pp_groups p)" using p by simp
qed

lemma sorted_subseq: "subseq xs ys \<Longrightarrow> sorted ys \<Longrightarrow> sorted (xs :: 'b::linorder list)"
  by (induction rule: list_emb.induct) (auto dest: list_emb_set)

text \<open>
  A preview whose fixes do not come in the order of their ids can never be confirmed.  The
  plan is built anew from the sorted ids of the preview, so its fixes are in another order, its
  fingerprint differs, and no commit is made whatever the answers of GitHub: the user is told
  that the preview is outdated each time.
\<close>

theorem unsorted_preview_outdated:
  assumes "inj hash" "build_plan hash digest env q groups = Some (Inr p)"
    "\<not> sorted (map (hd \<circ> suggestion_ids) (pp_groups p))"
  shows "create_commits env' confirmed (pp_fingerprint p) use_fork
      (build_plan hash digest env' q' (fst (load_groups rows known scan (included_ids p)))) \<noteq> Some (Inr commits)"
proof
  let ?groups = "fst (load_groups rows known scan (included_ids p))"
  assume run: "create_commits env' confirmed (pp_fingerprint p) use_fork (build_plan hash digest env' q' ?groups) = Some (Inr commits)"
  then obtain p' where p': "build_plan hash digest env' q' ?groups = Some (Inr p')" "pp_fingerprint p' = pp_fingerprint p"
    by (auto simp: create_commits_def split: if_splits option.splits sum.splits)
  have "map suggestion_ids (pp_groups p') = map suggestion_ids (pp_groups p)"
  proof -
    let ?entries = "\<lambda>gs. map (\<lambda>g. (suggestion_ids g, digest (fg_patch g))) gs"
    have "hash (pq_base_sha q', head_repo q', pq_branch q', pq_use_fork q', ?entries (pp_groups p'))
        = hash (pq_base_sha q, head_repo q, pq_branch q, pq_use_fork q, ?entries (pp_groups p))"
      using p'(2) unfolding build_plan_applied(2) [OF p'(1)] build_plan_applied(2) [OF assms(2)] fingerprint_of_def .
    then have "?entries (pp_groups p') = ?entries (pp_groups p)" using assms(1) by (simp add: inj_eq)
    then have "map fst (?entries (pp_groups p')) = map fst (?entries (pp_groups p))" by simp
    then show ?thesis by (simp add: comp_def)
  qed
  then have "map (hd \<circ> suggestion_ids) (pp_groups p') = map (hd \<circ> suggestion_ids) (pp_groups p)" by (metis map_map)
  moreover have "sorted (map (hd \<circ> suggestion_ids) (pp_groups p'))"
    using load_groups_ascending [of "included_ids p" rows known scan] subseq_map [OF build_plan_applied(1) [OF p'(1)]]
    by (rule sorted_subseq [rotated]) (simp_all add: included_ids_def)
  ultimately show False using assms(3) by simp
qed

theorem unsorted_preview_outdated_witness:
  "\<not> sorted (map (hd \<circ> suggestion_ids) (pp_groups (sample_preview [5, 3])))
   \<and> create_commits sample_git True (pp_fingerprint (sample_preview [5, 3])) False
       (build_plan id id sample_git sample_request
         (fst (load_groups (concat (map (fg_suggestions \<circ> sample_group) [5, 3])) [5, 3] ''s'' (included_ids (sample_preview [5, 3])))))
     \<notin> range (Some \<circ> Inr)"
proof -
  have plan: "build_plan id id sample_git sample_request [sample_group 5, sample_group 3] = Some (Inr (sample_preview [5, 3]))"
    using sample_plan [of "[5, 3]"] by simp
  have "\<not> sorted (map (hd \<circ> suggestion_ids) (pp_groups (sample_preview [5, 3])))"
    by (simp add: sample_preview_def)
  then show ?thesis using unsorted_preview_outdated [OF inj_on_id plan] by (simp add: image_iff)
qed

end
