(* ===== verification/Git_Log.thy ===== *)
theory Git_Log
  imports Ip_Address
begin

text \<open>
  \<open>analyzers/git_log.py\<close>: the captured commit log and its parser.  The runs of \<open>git\<close> in a sandbox
  are left out; what they print is given by \<open>LOG_FORMAT\<close> and git's documented \<open>--numstat\<close> lines,
  as \<open>render_log\<close>.  How UTF-8 decodes is an argument.
\<close>

section \<open>Commits\<close>

record commit =
  cm_sha :: string
  cm_parents :: "string list"
  cm_author :: string
  cm_timestamp :: int
  cm_subject :: string
  cm_files :: "(string \<times> nat option \<times> nat option) list"
  cm_boundary :: bool

definition is_merge :: "commit \<Rightarrow> bool" where
  "is_merge c \<longleftrightarrow> 1 < length (cm_parents c)"

section \<open>Quoted paths\<close>

definition bslash :: char where
  "bslash = CHR 0x5C"

definition quote :: char where
  "quote = CHR 0x22"

definition ESCAPES :: "(char \<times> nat) list" where
  "ESCAPES = [(CHR ''a'', 7), (CHR ''b'', 8), (CHR ''t'', 9), (CHR ''n'', 10), (CHR ''v'', 11), (CHR ''f'', 12),
     (CHR ''r'', 13), (quote, 34), (bslash, 92)]"

definition utf8_char :: "char \<Rightarrow> string" where
  "utf8_char c = (if code c < 128 then [c] else [char_of (192 + code c div 64), char_of (128 + code c mod 64)])"

definition is_octal :: "char \<Rightarrow> bool" where
  "is_octal c \<longleftrightarrow> 48 \<le> code c \<and> code c \<le> 55"

definition octal_value :: "string \<Rightarrow> nat" where
  "octal_value s = foldl (\<lambda>n c. 8 * n + (code c - 48)) 0 s"

definition escaped_byte :: "char \<Rightarrow> char" where
  "escaped_byte c = char_of ((case map_of ESCAPES c of Some n \<Rightarrow> n | None \<Rightarrow> code c) mod 256)"

function unescape_bytes :: "string \<Rightarrow> string" where
  "unescape_bytes [] = []"
| "unescape_bytes (c # cs) =
     (if c \<noteq> bslash \<or> cs = [] then utf8_char c @ unescape_bytes cs
      else if length (take 3 cs) = 3 \<and> list_all is_octal (take 3 cs)
      then char_of (octal_value (take 3 cs) mod 256) # unescape_bytes (drop 3 cs)
      else escaped_byte (hd cs) # unescape_bytes (tl cs))"
  by pat_completeness auto
termination
  by (relation "measure length") auto

definition unquote_path :: "(string \<Rightarrow> string) \<Rightarrow> string \<Rightarrow> string" where
  "unquote_path decode path =
     (if length path < 2 \<or> \<not> (starts_with [quote] path \<and> ends_with [quote] path) then path
      else decode (unescape_bytes (take (length path - 2) (drop 1 path))))"

section \<open>The parser\<close>

definition record_mark :: char where
  "record_mark = CHR 0x1E"

definition field_mark :: char where
  "field_mark = CHR 0x1F"

definition tab :: char where
  "tab = CHR 0x09"

text \<open>\<open>s.split()\<close>: words between white space.\<close>

definition split_words :: "string \<Rightarrow> string list" where
  "split_words s = filter (\<lambda>w. w \<noteq> []) (split_on CHR '' '' (map (\<lambda>c. if is_space c then CHR '' '' else c) s))"

text \<open>
  A count of a numstat line; superscript digits pass \<open>isdigit\<close> but \<open>int\<close> raises for them, which is
  the outer \<open>None\<close>.
\<close>

definition is_digit_py :: "char \<Rightarrow> bool" where
  "is_digit_py c \<longleftrightarrow> is_digit c \<or> code c \<in> {178, 179, 185}"

definition numstat_count :: "string \<Rightarrow> nat option option" where
  "numstat_count s =
     (if s \<noteq> [] \<and> list_all is_digit_py s
      then (if list_all is_digit s then Some (Some (nat_of_digits 0 s)) else None)
      else Some None)"

fun numstat_lines :: "(string \<Rightarrow> string) \<Rightarrow> string list \<Rightarrow> (string \<times> nat option \<times> nat option) list option" where
  "numstat_lines decode [] = Some []"
| "numstat_lines decode (line # lines) =
     (case split_on tab line of
        [added, deleted, path] \<Rightarrow>
          (case (numstat_count added, numstat_count deleted, numstat_lines decode lines) of
             (Some a, Some d, Some files) \<Rightarrow> Some ((unquote_path decode path, a, d) # files)
           | _ \<Rightarrow> None)
      | _ \<Rightarrow> numstat_lines decode lines)"

text \<open>One record: \<open>None\<close> is an exception, \<open>Some None\<close> a record that is skipped.\<close>

definition parse_record :: "(string \<Rightarrow> string) \<Rightarrow> string list \<Rightarrow> string \<Rightarrow> commit option option" where
  "parse_record decode boundary rec_text =
     (if strip rec_text = [] then Some None
      else
        (let (header, _, body) = partition_at CHR 0x0A rec_text
         in case split_on field_mark header of
              [sha, parents, name, email, timestamp, subject] \<Rightarrow>
                (case py_int 10 timestamp of
                   None \<Rightarrow> Some None
                 | Some stamp \<Rightarrow>
                     map_option (\<lambda>files. Some \<lparr>cm_sha = sha, cm_parents = split_words parents,
                         cm_author = name @ '' <'' @ lower email @ ''>'', cm_timestamp = stamp, cm_subject = subject,
                         cm_files = files, cm_boundary = (sha \<in> set boundary)\<rparr>)
                       (numstat_lines decode (splitlines body)))
            | _ \<Rightarrow> Some None))"

fun parse_records :: "(string \<Rightarrow> string) \<Rightarrow> string list \<Rightarrow> string list \<Rightarrow> commit list option" where
  "parse_records decode boundary [] = Some []"
| "parse_records decode boundary (r # rs) =
     (case (parse_record decode boundary r, parse_records decode boundary rs) of
        (Some None, Some cs) \<Rightarrow> Some cs
      | (Some (Some c), Some cs) \<Rightarrow> Some (c # cs)
      | _ \<Rightarrow> None)"

definition parse_log :: "(string \<Rightarrow> string) \<Rightarrow> string list \<Rightarrow> string \<Rightarrow> commit list option" where
  "parse_log decode boundary text = parse_records decode boundary (split_on record_mark text)"

text \<open>What was captured: no log at all, or its commits with the boundary listed beside it.\<close>

definition read_history :: "(string \<Rightarrow> string) \<Rightarrow> string option \<Rightarrow> string option \<Rightarrow> commit list option option" where
  "read_history decode log_file shallow =
     (case log_file of
        None \<Rightarrow> Some None
      | Some text \<Rightarrow> map_option Some (parse_log decode (case shallow of None \<Rightarrow> [] | Some s \<Rightarrow> split_words s) text))"

section \<open>What git prints\<close>

text \<open>
  A commit as git knows it, printed in \<open>LOG_FORMAT\<close>, with the \<open>--numstat\<close> lines after an empty
  line.  A path with control characters, quotes or bslashes is quoted as in C, with the other
  characters left as they are (\<open>core.quotePath=false\<close>).
\<close>

record raw_commit =
  rc_sha :: string
  rc_parents :: "string list"
  rc_name :: string
  rc_email :: string
  rc_time :: int
  rc_subject :: string
  rc_files :: "(string \<times> (nat \<times> nat) option) list"

definition needs_quoting :: "char \<Rightarrow> bool" where
  "needs_quoting c \<longleftrightarrow> code c < 32 \<or> code c = 127 \<or> c = quote \<or> c = bslash"

definition octal_digits :: "nat \<Rightarrow> string" where
  "octal_digits n = map (\<lambda>d. char_of (48 + d)) [n div 64, n div 8 mod 8, n mod 8]"

definition quote_char :: "char \<Rightarrow> string" where
  "quote_char c =
     (case find (\<lambda>(_, n). n = code c) ESCAPES of
        Some (letter, _) \<Rightarrow> [bslash, letter]
      | None \<Rightarrow> if needs_quoting c then bslash # octal_digits (code c) else [c])"

definition quote_path :: "string \<Rightarrow> string" where
  "quote_path path =
     (if list_ex needs_quoting path then [quote] @ concat (map quote_char path) @ [quote] else path)"

definition numstat_line :: "string \<times> (nat \<times> nat) option \<Rightarrow> string" where
  "numstat_line file =
     (case file of
        (path, Some (added, deleted)) \<Rightarrow> join [tab] [show_nat added, show_nat deleted, quote_path path]
      | (path, None) \<Rightarrow> join [tab] [''-'', ''-'', quote_path path])"

definition render_commit :: "raw_commit \<Rightarrow> string" where
  "render_commit c =
     [record_mark]
     @ join [field_mark] [rc_sha c, join '' '' (rc_parents c), rc_name c, rc_email c, show_int (rc_time c), rc_subject c]
     @ [CHR 0x0A]
     @ (if rc_files c = [] then [] else CHR 0x0A # concat (map (\<lambda>f. numstat_line f @ [CHR 0x0A]) (rc_files c)))"

definition render_log :: "raw_commit list \<Rightarrow> string" where
  "render_log cs = concat (map render_commit cs)"

definition commit_of :: "string list \<Rightarrow> raw_commit \<Rightarrow> commit" where
  "commit_of boundary c =
     \<lparr>cm_sha = rc_sha c, cm_parents = rc_parents c, cm_author = rc_name c @ '' <'' @ lower (rc_email c) @ ''>'',
      cm_timestamp = rc_time c, cm_subject = rc_subject c,
      cm_files = map (\<lambda>(path, counts). (path, map_option fst counts, map_option snd counts)) (rc_files c),
      cm_boundary = (rc_sha c \<in> set boundary)\<rparr>"

end
