(* ===== verification/Git_Log_Props.thy ===== *)
theory Git_Log_Props
  imports Git_Log
begin

text \<open>
  The log is read back as it was printed, quoted paths included, as long as no field contains one
  of the marks; and a subject that contains them is read as further commits.
\<close>

section \<open>Numbers\<close>

lemma digits_value_digits:
  "\<forall>c \<in> set s. is_digit c \<Longrightarrow> digits_value 10 (int a) s = Some (int (nat_of_digits a s))"
proof (induction s arbitrary: a)
  case (Cons c s)
  then have "48 \<le> code c" "code c \<le> 57" by (simp_all add: is_digit_def)
  then have "digit_value c = Some (int (code c - 48))" "int (code c - 48) < 10" by (auto simp: digit_value_def is_digit_def)
  moreover have "digits_value 10 (10 * int a + int (code c - 48)) s = Some (int (nat_of_digits (10 * a + (code c - 48)) s))"
    using Cons.IH [of "10 * a + (code c - 48)"] Cons.prems by simp
  ultimately show ?case by simp
qed simp

lemma no_space_digit: "is_digit c \<Longrightarrow> \<not> is_space c"
  by (auto simp: is_digit_def is_space_def)

lemma strip_no_space: "\<forall>c \<in> set s. \<not> is_space c \<Longrightarrow> strip s = s"
proof -
  assume s: "\<forall>c \<in> set s. \<not> is_space c"
  then have "lstrip_by is_space s = s" by (cases s) (auto simp: lstrip_by_def)
  moreover have "dropWhile is_space (rev s) = rev s" using s by (cases "rev s") (auto simp: dropWhile_eq_self_iff)
  ultimately show ?thesis by (simp add: strip_def rstrip_by_def)
qed

lemma strip_ne: "\<exists>d \<in> set s. \<not> is_space d \<Longrightarrow> strip s \<noteq> []"
proof
  let ?t = "dropWhile is_space s"
  assume "\<exists>d \<in> set s. \<not> is_space d" and empty: "strip s = []"
  then have t: "?t \<noteq> []" by (simp add: dropWhile_eq_Nil_conv)
  then have "\<not> is_space (hd ?t)" "hd ?t \<in> set ?t" using hd_dropWhile [of is_space s] by simp_all
  then show False using empty by (auto simp: strip_def rstrip_by_def lstrip_by_def dropWhile_eq_Nil_conv)
qed

lemma show_int_chars: "c \<in> set (show_int k) \<Longrightarrow> is_digit c \<or> c = CHR ''-''"
  using show_nat_digits by (auto simp: show_int_def split: if_splits)

lemma show_nat_ne [simp]: "[] \<noteq> show_nat n" "show_nat n \<noteq> []"
  using show_nat_digits by metis+

lemma py_int_show_int: "py_int 10 (show_int k) = Some k"
proof -
  have strip: "strip (show_int k) = show_int k"
  proof (rule strip_no_space)
    have "\<not> is_space CHR ''-''" by (simp add: is_space_def code_def)
    then show "\<forall>c \<in> set (show_int k). \<not> is_space c" using show_int_chars no_space_digit by blast
  qed
  have digits: "py_digits = show_nat n \<Longrightarrow> take 1 py_digits \<noteq> ''-'' \<and> take 1 py_digits \<noteq> ''+'' \<and> split_on CHR ''_'' py_digits = [py_digits]" for py_digits n
  proof -
    assume "py_digits = show_nat n"
    then have d: "\<forall>c \<in> set py_digits. is_digit c" using show_nat_digits by blast
    then have "CHR ''_'' \<notin> set py_digits" by (auto simp: is_digit_def code_def)
    moreover have "take 1 py_digits \<noteq> ''-'' \<and> take 1 py_digits \<noteq> ''+''"
      using d by (cases py_digits) (auto simp: is_digit_def code_def)
    ultimately show ?thesis by (simp add: split_on_single)
  qed
  have parsed: "digits_value 10 0 (show_nat n) = Some (int n)" for n
    using digits_value_digits [of "show_nat n" 0] show_nat_digits [of n] by simp
  show ?thesis
  proof (cases "k < 0")
    case True
    then have k: "show_int k = CHR ''-'' # show_nat (nat (- k))" by (simp add: show_int_def)
    show ?thesis
      using True strip digits [OF refl, of "nat (- k)"] show_nat_digits [of "nat (- k)"]
      by (simp add: py_int_def k Let_def base_digits_def parsed)
  next
    case False
    then have k: "show_int k = show_nat (nat k)" by (simp add: show_int_def)
    show ?thesis
      using False strip digits [OF refl, of "nat k"] show_nat_digits [of "nat k"]
      by (simp add: py_int_def k Let_def base_digits_def parsed)
  qed
qed

section \<open>Words\<close>

lemma split_words_join:
  assumes "\<forall>p \<in> set ps. p \<noteq> [] \<and> (\<forall>c \<in> set p. \<not> is_space c)"
  shows "split_words (join '' '' ps) = ps"
proof (cases "ps = []")
  case False
  have space: "is_space CHR '' ''" by (simp add: is_space_def code_def)
  have "map (\<lambda>c. if is_space c then CHR '' '' else c) (join '' '' ps) = join '' '' ps"
    using assms
  proof (induction ps rule: induct_list012)
    case (3 p q ps)
    then show ?case by (auto simp: is_space_def code_def intro: map_idI)
  qed (auto intro: map_idI)
  moreover have "split_on CHR '' '' (join '' '' ps) = ps"
    using assms False space by (intro split_on_join) auto
  ultimately show ?thesis using assms by (simp add: split_words_def)
qed (simp add: split_words_def)

section \<open>Quoting\<close>

lemma octal_value_digits: "n < 512 \<Longrightarrow> octal_value (octal_digits n) = n"
proof -
  assume n: "n < 512"
  have "n div 64 = n div 8 div 8" by (simp add: div_mult2_eq [symmetric])
  moreover have "8 * (n div 8) + n mod 8 = n" "8 * (n div 8 div 8) + n div 8 mod 8 = n div 8" by simp_all
  ultimately have "64 * (n div 64) + 8 * (n div 8 mod 8) + n mod 8 = n" by linarith
  then show ?thesis using n by (simp add: octal_value_def octal_digits_def code_def)
qed

lemma octal_digits_octal: "n < 512 \<Longrightarrow> length (octal_digits n) = 3 \<and> list_all is_octal (octal_digits n)"
  by (auto simp: octal_digits_def is_octal_def code_def)

lemma bslash_code [simp]: "code bslash = 92" "code quote = 34"
  by (simp_all add: bslash_def quote_def code_def)

lemma code_less: "code c < 256"
  by (simp add: code_def)

lemma ESCAPES_letters:
  assumes "(letter, n) \<in> set ESCAPES"
  shows "escaped_byte letter = char_of n \<and> \<not> is_octal letter \<and> n < 128 \<and> 32 \<le> code letter \<and> code letter < 128"
proof -
  have "list_all (\<lambda>(letter, n). escaped_byte letter = char_of n \<and> \<not> is_octal letter \<and> n < 128
      \<and> 32 \<le> code letter \<and> code letter < 128) ESCAPES"
    by code_simp
  then show ?thesis using assms by (auto simp: list_all_iff)
qed

lemma unquote_quote_char: "unescape_bytes (quote_char c @ s) = utf8_char c @ unescape_bytes s"
proof (cases "find (\<lambda>(_, n). n = code c) ESCAPES")
  case (Some e)
  then obtain letter where e: "e = (letter, code c)" "(letter, code c) \<in> set ESCAPES"
    by (cases e) (auto dest: find_SomeD)
  note l = ESCAPES_letters [OF e(2)]
  have "escaped_byte letter = c" using l by (simp add: code_def)
  moreover have "utf8_char c = [c]" using l by (simp add: utf8_char_def)
  ultimately show ?thesis using Some e(1) l by (simp add: quote_char_def)
next
  case None
  then have plain: "c \<noteq> bslash" by (auto simp: ESCAPES_def find_None_iff bslash_def code_def)
  show ?thesis
  proof (cases "needs_quoting c")
    case True
    then have small: "code c < 128" "utf8_char c = [c]"
      by (auto simp: needs_quoting_def utf8_char_def quote_def bslash_def code_def)
    note digits = octal_digits_octal [of "code c"] octal_value_digits [of "code c"] code_less [of c]
    have "octal_digits (code c) \<noteq> []" using digits by auto
    moreover have "char_of (code c mod 256) = c" using code_less [of c] by (simp add: code_def)
    ultimately show ?thesis using None True digits small by (simp add: quote_char_def)
  next
    case False
    then show ?thesis using None plain by (simp add: quote_char_def)
  qed
qed

lemma unquote_quoted: "unescape_bytes (concat (map quote_char path)) = concat (map utf8_char path)"
  by (induction path) (simp_all add: unquote_quote_char)

lemma unquote_quote_path:
  assumes "decode (concat (map utf8_char path)) = path"
  shows "unquote_path decode (quote_path path) = path"
proof (cases "list_ex needs_quoting path")
  case True
  then show ?thesis
    using assms by (simp add: quote_path_def unquote_path_def starts_with_def ends_with_def unquote_quoted)
next
  case False
  then have "quote \<notin> set path" by (auto simp: list_ex_iff needs_quoting_def)
  then have "\<not> starts_with [quote] path" by (cases path) (auto simp: starts_with_def)
  then show ?thesis using False by (simp add: quote_path_def unquote_path_def)
qed

lemma quote_char_set: "d \<in> set (quote_char c) \<Longrightarrow> 32 \<le> code d \<and> code d \<noteq> 133 \<or> d = c \<and> 32 \<le> code c"
proof (cases "find (\<lambda>(_, n). n = code c) ESCAPES")
  case (Some e)
  assume d: "d \<in> set (quote_char c)"
  from Some obtain letter where e: "e = (letter, code c)" "(letter, code c) \<in> set ESCAPES"
    by (cases e) (auto dest: find_SomeD)
  then show ?thesis using d Some ESCAPES_letters [OF e(2)] by (auto simp: quote_char_def bslash_def code_def)
next
  case None
  assume "d \<in> set (quote_char c)"
  then show ?thesis using None code_less [of c] octal_digits_octal [of "code c"]
    by (auto simp: quote_char_def needs_quoting_def list_all_iff is_octal_def bslash_code split: if_splits)
qed

lemma quote_path_set: "d \<in> set (quote_path path) \<Longrightarrow> 32 \<le> code d \<and> (code d = 133 \<longrightarrow> d \<in> set path)"
proof (cases "list_ex needs_quoting path")
  case True
  assume "d \<in> set (quote_path path)"
  then show ?thesis using True quote_char_set [of d] by (auto simp: quote_path_def quote_def code_def)
next
  case False
  assume "d \<in> set (quote_path path)"
  then show ?thesis using False by (auto simp: quote_path_def list_ex_iff needs_quoting_def)
qed

section \<open>Lines\<close>

lemma lines_from_line:
  "\<forall>c \<in> set line. \<not> is_line_break c \<Longrightarrow> lines_from acc (line @ CHR 0x0A # s) = (acc @ line) # lines_from [] s"
proof (induction line arbitrary: acc)
  case Nil
  have "is_line_break CHR 0x0A" by (simp add: is_line_break_def code_def)
  then show ?case by (cases s) auto
next
  case (Cons c line)
  then have "\<not> is_line_break c" "c \<noteq> CHR 0x0D" by (auto simp: is_line_break_def code_def)
  then show ?case using Cons by (cases "line @ CHR 0x0A # s") auto
qed

lemma splitlines_lines:
  "\<forall>line \<in> set ls. \<forall>c \<in> set line. \<not> is_line_break c \<Longrightarrow> splitlines (concat (map (\<lambda>line. line @ [CHR 0x0A]) ls)) = ls"
  unfolding splitlines_def by (induction ls) (simp_all add: lines_from_line)

section \<open>Commits\<close>

definition plain_field :: "string \<Rightarrow> bool" where
  "plain_field s \<longleftrightarrow> set s \<inter> {CHR 0x0A, record_mark, field_mark} = {}"

definition readable_path :: "(string \<Rightarrow> string) \<Rightarrow> string \<Rightarrow> bool" where
  "readable_path decode path \<longleftrightarrow> CHR 0x85 \<notin> set path \<and> decode (concat (map utf8_char path)) = path"

definition readable_commit :: "(string \<Rightarrow> string) \<Rightarrow> raw_commit \<Rightarrow> bool" where
  "readable_commit decode c \<longleftrightarrow>
     plain_field (rc_sha c) \<and> plain_field (rc_name c) \<and> plain_field (rc_email c) \<and> plain_field (rc_subject c)
     \<and> (\<forall>p \<in> set (rc_parents c). p \<noteq> [] \<and> (\<forall>d \<in> set p. \<not> is_space d))
     \<and> (\<forall>f \<in> set (rc_files c). readable_path decode (fst f))"

lemma marks_code [simp]: "code record_mark = 30" "code field_mark = 31" "code tab = 9"
  by (simp_all add: record_mark_def field_mark_def tab_def code_def)

lemma numstat_count_show: "numstat_count (show_nat n) = Some (Some n)" "numstat_count ''-'' = Some None"
proof -
  have "list_all is_digit (show_nat n)" using show_nat_digits by (auto simp: list_all_iff)
  moreover from this have "list_all is_digit_py (show_nat n)" by (auto simp: list_all_iff is_digit_py_def)
  ultimately show "numstat_count (show_nat n) = Some (Some n)" using show_nat_digits by (simp add: numstat_count_def)
  show "numstat_count ''-'' = Some None" by (simp add: numstat_count_def is_digit_py_def is_digit_def code_def)
qed

lemma tab_free: "tab \<notin> set (show_nat n)" "tab \<notin> set ''-''" "tab \<notin> set (quote_path path)"
proof -
  have "\<not> is_digit tab" "tab \<noteq> CHR ''-''" by (simp add: is_digit_def) (simp add: tab_def)
  then show "tab \<notin> set (show_nat n)" "tab \<notin> set ''-''" using show_nat_no_sep [of tab] by simp_all
  show "tab \<notin> set (quote_path path)" using quote_path_set [of tab path] by auto
qed

lemma numstat_lines_read:
  assumes "\<forall>f \<in> set files. readable_path decode (fst f)"
  shows "numstat_lines decode (map numstat_line files)
    = Some (map (\<lambda>(path, counts). (path, map_option fst counts, map_option snd counts)) files)"
  using assms
proof (induction files)
  case (Cons f files)
  obtain path counts where f: "f = (path, counts)" by fastforce
  have path: "unquote_path decode (quote_path path) = path"
    using Cons.prems by (intro unquote_quote_path) (simp add: f readable_path_def)
  obtain x y a b where line: "numstat_line f = join [tab] [x, y, quote_path path]" and xy: "tab \<notin> set x" "tab \<notin> set y"
      "numstat_count x = Some a" "numstat_count y = Some b" "map_option fst counts = a" "map_option snd counts = b"
  proof (cases counts)
    case None
    then show thesis using that [of "''-''" "''-''"] tab_free by (simp add: f numstat_line_def numstat_count_show)
  next
    case (Some ab)
    then show thesis using that [of "show_nat (fst ab)" "show_nat (snd ab)"]
      by (cases ab) (simp add: f numstat_line_def tab_free numstat_count_show)
  qed
  have "split_on tab (numstat_line f) = [x, y, quote_path path]"
    unfolding line by (rule split_on_join) (use xy tab_free in auto)
  then show ?case using Cons xy path by (simp add: f)
qed simp

lemma numstat_line_set: "d \<in> set (numstat_line f) \<Longrightarrow> (32 \<le> code d \<or> d = tab) \<and> (code d = 133 \<longrightarrow> d \<in> set (fst f))"
proof -
  have nat: "e \<in> set (show_nat n) \<Longrightarrow> 32 \<le> code e \<and> code e \<noteq> 133" for e n
    using show_nat_digits [of n] by (auto simp: is_digit_def)
  assume "d \<in> set (numstat_line f)"
  then consider "d = tab" | "d \<in> set (quote_path (fst f))" | "d = CHR ''-''" | n where "d \<in> set (show_nat n)"
    by (cases f; cases "snd f") (auto simp: numstat_line_def split: option.splits)
  then show ?thesis
  proof cases
    case 3
    then show ?thesis by (simp add: code_def)
  qed (use nat quote_path_set [of d "fst f"] in auto)
qed

lemma numstat_line_plain:
  assumes "readable_path decode (fst f)" "d \<in> set (numstat_line f)"
  shows "\<not> is_line_break d \<and> d \<noteq> record_mark"
proof -
  have "d = char_of (code d)" by (simp add: code_def)
  moreover have "char_of (133 :: nat) = CHR 0x85" by code_simp
  ultimately have "code d = 133 \<Longrightarrow> d = CHR 0x85" by metis
  moreover have "tab \<noteq> record_mark" by (simp add: tab_def record_mark_def)
  ultimately show ?thesis
    using numstat_line_set [OF assms(2)] assms(1) by (auto simp: readable_path_def is_line_break_def)
qed

text \<open>The record of a commit, between its mark and the next.\<close>

definition header_fields :: "raw_commit \<Rightarrow> string list" where
  "header_fields c = [rc_sha c, join '' '' (rc_parents c), rc_name c, rc_email c, show_int (rc_time c), rc_subject c]"

definition record_body :: "raw_commit \<Rightarrow> string" where
  "record_body c = (if rc_files c = [] then [] else CHR 0x0A # concat (map (\<lambda>f. numstat_line f @ [CHR 0x0A]) (rc_files c)))"

lemma render_commit_record:
  "render_commit c = record_mark # join [field_mark] (header_fields c) @ CHR 0x0A # record_body c"
  by (simp add: render_commit_def header_fields_def record_body_def)

lemma join_set: "c \<in> set (join [d] ps) \<Longrightarrow> c = d \<or> (\<exists>p \<in> set ps. c \<in> set p)"
  by (induction ps rule: induct_list012) auto

lemma header_fields_plain: "readable_commit decode c \<Longrightarrow> p \<in> set (header_fields c) \<Longrightarrow> plain_field p"
proof -
  assume c: "readable_commit decode c" and p: "p \<in> set (header_fields c)"
  have marks: "is_space CHR 0x0A" "is_space record_mark" "is_space field_mark"
    by (simp_all add: is_space_def) (simp add: code_def)
  have "plain_field (show_int (rc_time c))"
  proof -
    have "\<not> is_digit m \<and> m \<noteq> CHR ''-''" if "m \<in> {CHR 0x0A, record_mark, field_mark}" for m
      using that by (auto simp: is_digit_def record_mark_def field_mark_def code_def)
    then show ?thesis using show_int_chars [of _ "rc_time c"] unfolding plain_field_def by blast
  qed
  moreover have "plain_field (join '' '' (rc_parents c))"
    using c marks join_set [of _ "CHR '' ''" "rc_parents c"]
    by (fastforce simp: plain_field_def readable_commit_def record_mark_def field_mark_def)
  ultimately show ?thesis using c p by (auto simp: header_fields_def readable_commit_def)
qed

lemma record_body_lines:
  assumes "readable_commit decode c"
  shows "record_mark \<notin> set (record_body c)"
    "numstat_lines decode (splitlines (record_body c))
      = Some (map (\<lambda>(path, counts). (path, map_option fst counts, map_option snd counts)) (rc_files c))"
proof -
  have files: "\<forall>f \<in> set (rc_files c). readable_path decode (fst f)" using assms by (simp add: readable_commit_def)
  then show "record_mark \<notin> set (record_body c)"
  proof -
    have "record_mark \<notin> set (numstat_line f)" if "f \<in> set (rc_files c)" for f
      using numstat_line_plain files that by blast
    moreover have "record_mark \<noteq> CHR 0x0A" by (simp add: record_mark_def)
    ultimately show ?thesis by (auto simp: record_body_def)
  qed
  have "splitlines (record_body c) = (if rc_files c = [] then [] else [] # map numstat_line (rc_files c))"
  proof (cases "rc_files c = []")
    case False
    have "splitlines (concat (map (\<lambda>line. line @ [CHR 0x0A]) ([] # map numstat_line (rc_files c)))) = [] # map numstat_line (rc_files c)"
      using files numstat_line_plain by (intro splitlines_lines) fastforce
    then show ?thesis using False by (simp add: record_body_def comp_def)
  qed (simp add: record_body_def splitlines_def)
  then show "numstat_lines decode (splitlines (record_body c))
      = Some (map (\<lambda>(path, counts). (path, map_option fst counts, map_option snd counts)) (rc_files c))"
    using numstat_lines_read [OF files] by simp
qed

lemma parse_record_commit:
  assumes "readable_commit decode c"
  shows "parse_record decode boundary (join [field_mark] (header_fields c) @ CHR 0x0A # record_body c)
    = Some (Some (commit_of boundary c))"
proof -
  let ?header = "join [field_mark] (header_fields c)"
  have fields: "plain_field p" if "p \<in> set (header_fields c)" for p using header_fields_plain [OF assms that] .
  have newline: "CHR 0x0A \<notin> set ?header"
    using join_set [of "CHR 0x0A" field_mark "header_fields c"] fields by (auto simp: plain_field_def field_mark_def)
  have split: "split_on field_mark ?header = header_fields c"
    using fields by (intro split_on_join) (auto simp: plain_field_def header_fields_def)
  have "\<exists>d \<in> set (?header @ CHR 0x0A # record_body c). \<not> is_space d"
  proof -
    obtain d where d: "d \<in> set (show_int (rc_time c))" by (cases "show_int (rc_time c)") (auto simp: show_int_def split: if_splits)
    then have "\<not> is_space d" using show_int_chars [OF d] no_space_digit by (auto simp: is_space_def code_def)
    moreover have "d \<in> set ?header" using d by (simp add: header_fields_def)
    ultimately show ?thesis by auto
  qed
  then have "strip (?header @ CHR 0x0A # record_body c) \<noteq> []"
    by (rule strip_ne)
  moreover have "partition_at CHR 0x0A (?header @ CHR 0x0A # record_body c) = (?header, True, record_body c)"
    by (simp add: partition_at_def before_append [OF newline])
  moreover have "split_words (join '' '' (rc_parents c)) = rc_parents c"
    using assms by (intro split_words_join) (simp add: readable_commit_def)
  ultimately show ?thesis
    using split record_body_lines(2) [OF assms]
    by (simp add: parse_record_def Let_def header_fields_def py_int_show_int commit_of_def)
qed

lemma split_render_log:
  assumes "\<forall>c \<in> set cs. readable_commit decode c" "record_mark \<notin> set s"
  shows "split_on record_mark (s @ render_log cs)
    = s # map (\<lambda>c. join [field_mark] (header_fields c) @ CHR 0x0A # record_body c) cs"
  using assms
proof (induction cs arbitrary: s)
  case Nil
  then show ?case by (simp add: render_log_def split_on_single)
next
  case (Cons c cs)
  let ?r = "join [field_mark] (header_fields c) @ CHR 0x0A # record_body c"
  have c: "readable_commit decode c" using Cons.prems by simp
  have "record_mark \<notin> set (join [field_mark] (header_fields c))"
    using join_set [of record_mark field_mark "header_fields c"] header_fields_plain [OF c]
    by (auto simp: plain_field_def record_mark_def field_mark_def)
  then have "record_mark \<notin> set ?r" using record_body_lines(1) [OF c] by (simp add: record_mark_def)
  then have "split_on record_mark (?r @ render_log cs) = ?r # map (\<lambda>c. join [field_mark] (header_fields c) @ CHR 0x0A # record_body c) cs"
    by (intro Cons.IH) (use Cons.prems(1) in simp)
  then show ?case using Cons.prems(2) by (simp add: render_log_def render_commit_record split_on_append_sep)
qed

text \<open>
  C33: The log is read back exactly: for commits none of whose fields contains a line feed or one of
  the two marks, and files whose names do not contain the one line break that git leaves unquoted,
  parsing what git prints yields these commits in order, with their parents, the lower-cased
  address, the time, the subject, the counts of every file and the files' names, quoted or not.
\<close>

theorem parse_log_render:
  assumes "\<forall>c \<in> set cs. readable_commit decode c"
  shows "parse_log decode boundary (render_log cs) = Some (map (commit_of boundary) cs)"
proof -
  have "split_on record_mark (render_log cs) = [] # map (\<lambda>c. join [field_mark] (header_fields c) @ CHR 0x0A # record_body c) cs"
    using split_render_log [OF assms, of "[]"] by simp
  moreover have "parse_records decode boundary (map (\<lambda>c. join [field_mark] (header_fields c) @ CHR 0x0A # record_body c) cs)
      = Some (map (commit_of boundary) cs)"
    using assms by (induction cs) (simp_all add: parse_record_commit)
  moreover have "parse_record decode boundary [] = Some None"
    by (simp add: parse_record_def strip_def rstrip_by_def lstrip_by_def)
  ultimately show ?thesis by (simp add: parse_log_def)
qed

definition example_commit :: raw_commit where
  "example_commit = \<lparr>rc_sha = ''c1'', rc_parents = [''b1'', ''b2''], rc_name = ''Ann'', rc_email = ''Ann@X.org'', rc_time = 5,
     rc_subject = ''Merge (#7)'', rc_files = [(''a b.py'', Some (3, 14)), ([CHR ''t'', tab, quote], None)]\<rparr>"

theorem parse_log_render_witness:
  "parse_log id [] (render_log [example_commit]) = Some [commit_of [] example_commit]"
  by (rule parse_log_render [of "[example_commit]", simplified])
    (simp add: readable_commit_def example_commit_def plain_field_def readable_path_def record_mark_def field_mark_def
      is_space_def code_def utf8_char_def tab_def quote_def)

text \<open>
  A subject with the marks in it adds a commit that never was, with an author and a time of its
  choice; and a file name with the unquoted line break is lost.
\<close>

definition forged_subject :: string where
  "forged_subject = ''x'' @ [record_mark] @ join [field_mark] [''c9'', [], ''Bob'', ''bob@y.org'', ''7'', ''feat: y'']"

lemma forged_commit:
  "map_option (map (\<lambda>c. (cm_author c, cm_timestamp c, cm_subject c)))
     (parse_log id [] (render_log [example_commit\<lparr>rc_subject := forged_subject\<rparr>]))
   = Some [(''Ann <ann@x.org>'', 5, ''x''), (''Bob <bob@y.org>'', 7, ''feat: y'')]"
  by code_simp

lemma lost_path:
  "map_option (map cm_files)
     (parse_log id [] (render_log [example_commit\<lparr>rc_files := [(''a'' @ [CHR 0x85] @ ''b'', Some (1, 2))]\<rparr>]))
   = Some [[(''a'', Some 1, Some 2)]]"
  by code_simp

end
