(* ===== verification/Git_History.thy ===== *)
theory Git_History
  imports Git_Log Imports Signals
begin

text \<open>
  \<open>analyzers/git_history.py\<close>: the statistics of a commit log and the signal they add up to.  The
  decision points per file come from the parser and are an argument, as are the files of the
  tree; numbers are reals.
\<close>

section \<open>Subjects, authors and paths\<close>

definition not_line_feed :: rx where
  "not_line_feed = NotOf [CHR 0x0A]"

definition CONVENTIONAL :: rx where
  "CONVENTIONAL = Seqs
     [Alts (map Str [''feat'', ''fix'', ''docs'', ''style'', ''refactor'', ''perf'', ''test'', ''build'', ''ci'', ''chore'', ''revert'']),
      Opt (Seqs [Chr CHR ''('', Plus (NotOf '')''), Chr CHR '')'']), Opt (Chr CHR ''!''), Str '': '', Plus not_line_feed]"

definition LOW_INFO :: rx where
  "LOW_INFO = Seqs
     [Alts (map Str [''fix'', ''fixes'', ''fixed'', ''update'', ''updates'', ''updated'', ''wip'', ''test'', ''tests'', ''asdf'', ''misc'',
        ''changes'', ''minor'', ''stuff'', ''.'']), Opt (Chr CHR ''.''), Eol]"

definition SQUASH_SUFFIX :: rx where
  "SQUASH_SUFFIX = Seqs [Str ''(#'', Plus (Cls is_digit), Chr CHR '')'', Star (Cls is_space), Eol]"

definition BOT_MARKERS :: "string list" where
  "BOT_MARKERS = [''[bot]'', ''dependabot'', ''renovate'', ''github-actions'']"

definition MIN_COMMITS :: nat where
  "MIN_COMMITS = 5"

definition MAX_COMMITS :: nat where
  "MAX_COMMITS = 5000"

definition EXCLUDED_NAMES :: "string list" where
  "EXCLUDED_NAMES =
     [''package-lock.json'', ''yarn.lock'', ''pnpm-lock.yaml'', ''npm-shrinkwrap.json'', ''poetry.lock'', ''pipfile.lock'', ''uv.lock'',
      ''cargo.lock'', ''composer.lock'', ''gemfile.lock'', ''go.sum'']"

definition EXCLUDED_DIRS :: "string list" where
  "EXCLUDED_DIRS = [''dist'', ''build'', ''vendor'', ''node_modules'']"

definition EXCLUDED_SUFFIXES :: "string list" where
  "EXCLUDED_SUFFIXES = [''.min.js'', ''.min.css'', ''.map'']"

definition author_email :: "string \<Rightarrow> string" where
  "author_email author =
     (let rest = after_last CHR ''<'' author
      in if rest \<noteq> [] then lower (strip (rstrip_by (\<lambda>c. c = CHR ''>'') rest)) else lower (strip author))"

definition is_bot :: "string \<Rightarrow> bool" where
  "is_bot author \<longleftrightarrow> list_ex (\<lambda>marker. rx_search (Str marker) (lower author)) BOT_MARKERS"

definition is_excluded :: "string \<Rightarrow> bool" where
  "is_excluded path \<longleftrightarrow>
     (let name = lower (path_name path)
      in name \<in> set EXCLUDED_NAMES \<or> list_ex (\<lambda>suffix. ends_with suffix name) EXCLUDED_SUFFIXES
         \<or> list_ex (\<lambda>part. part \<in> set EXCLUDED_DIRS) (butlast (path_parts path)))"

definition is_low_info :: "string \<Rightarrow> bool" where
  "is_low_info subject \<longleftrightarrow>
     (let stripped = strip subject in length stripped < 8 \<or> rx_fullmatch LOW_INFO (lower stripped))"

section \<open>Numbers\<close>

definition rank_sum :: "nat list \<Rightarrow> nat" where
  "rank_sum ordered = sum_list (map (\<lambda>(i, x). i * x) (enumerate 1 ordered))"

definition gini :: "nat list \<Rightarrow> real option" where
  "gini values =
     (let ordered = sort values; total_count = sum_list ordered; n = length ordered
      in if n = 0 \<or> total_count = 0 then None
         else Some (2 * real (rank_sum ordered) / real (n * total_count) - (real n + 1) / real n))"

fun cover_steps :: "nat \<Rightarrow> nat \<Rightarrow> nat \<Rightarrow> nat list \<Rightarrow> nat" where
  "cover_steps total_lines covered steps [] = steps"
| "cover_steps total_lines covered steps (l # ls) =
     (if total_lines \<le> 2 * (covered + l) then Suc steps else cover_steps total_lines (covered + l) (Suc steps) ls)"

definition bus_factor :: "nat list \<Rightarrow> nat option" where
  "bus_factor lines_by_author =
     (let total_lines = sum_list lines_by_author
      in if total_lines = 0 then None else Some (cover_steps total_lines 0 0 (rev (sort lines_by_author))))"

definition top_decile :: "(string \<times> nat) list \<Rightarrow> string list" where
  "top_decile values =
     (if values = [] then []
      else map fst (filter (\<lambda>e. 0 < snd e)
        (take (max 1 ((length values + 9) div 10)) (sort_key (\<lambda>e. (- int (snd e), fst e)) values))))"

definition share :: "nat \<Rightarrow> nat \<Rightarrow> real option" where
  "share part whole = (if whole = 0 then None else Some (real part / real whole))"

definition top_counts :: "nat \<Rightarrow> ('a \<times> nat) list \<Rightarrow> ('a \<times> nat) list" where
  "top_counts k counts = take k (sort_key (\<lambda>e. - int (snd e)) counts)"

section \<open>Metrics\<close>

record message_stats =
  ms_commits :: nat
  ms_conventional :: nat
  ms_conventional_share :: "real option"
  ms_low_info :: nat
  ms_low_info_share :: "real option"
  ms_avg_length :: "real option"

definition message_metrics :: "commit list \<Rightarrow> message_stats" where
  "message_metrics commits =
     (let subjects = map cm_subject (filter (\<lambda>c. \<not> is_merge c) commits);
          conventional = length (filter (\<lambda>s. rx_match CONVENTIONAL (strip s)) subjects);
          low_info = length (filter is_low_info subjects)
      in \<lparr>ms_commits = length subjects, ms_conventional = conventional,
          ms_conventional_share = share conventional (length subjects),
          ms_low_info = low_info, ms_low_info_share = share low_info (length subjects),
          ms_avg_length = share (sum_list (map (\<lambda>s. length (strip s)) subjects)) (length subjects)\<rparr>)"

record recency_stats =
  rt_newest :: int
  rt_days :: real
  rt_recent :: nat

definition recency_metrics :: "commit list \<Rightarrow> real \<Rightarrow> recency_stats" where
  "recency_metrics commits now =
     (let newest = Max (set (map cm_timestamp commits)); since = now - 90 * 86400
      in \<lparr>rt_newest = newest, rt_days = max 0 ((now - of_int newest) / 86400),
          rt_recent = length (filter (\<lambda>c. \<not> is_merge c \<and> since \<le> of_int (cm_timestamp c)) commits)\<rparr>)"

record author_stats =
  as_authors :: nat
  as_bot_commits :: nat
  as_bus_factor :: "nat option"
  as_gini :: "real option"
  as_changed_lines :: nat
  as_top_lines :: "(string \<times> nat) list"
  as_top_commits :: "(string \<times> nat) list"

definition human_commits :: "commit list \<Rightarrow> commit list" where
  "human_commits commits = filter (\<lambda>c. \<not> is_merge c \<and> \<not> is_bot (cm_author c)) commits"

definition changed_lines :: "commit \<Rightarrow> (string \<times> nat) list" where
  "changed_lines c =
     (author_email (cm_author c), 0)
     # (if cm_boundary c then []
        else map (\<lambda>(_, added, deleted).
               (author_email (cm_author c), (case added of None \<Rightarrow> 0 | Some a \<Rightarrow> a) + (case deleted of None \<Rightarrow> 0 | Some d \<Rightarrow> d)))
             (filter (\<lambda>f. \<not> is_excluded (fst f)) (cm_files c)))"

definition lines_by_author :: "commit list \<Rightarrow> (string, nat) dict" where
  "lines_by_author commits = add_counts (concat (map changed_lines (human_commits commits)))"

definition commits_by_author :: "commit list \<Rightarrow> (string, nat) dict" where
  "commits_by_author commits = counter (map (\<lambda>c. author_email (cm_author c)) (human_commits commits))"

definition author_metrics :: "commit list \<Rightarrow> author_stats" where
  "author_metrics commits =
     (let lines_of = lines_by_author commits; commits_of = commits_by_author commits
      in \<lparr>as_authors = length commits_of,
          as_bot_commits = length (filter (\<lambda>c. \<not> is_merge c \<and> is_bot (cm_author c)) commits),
          as_bus_factor = bus_factor (map snd lines_of), as_gini = gini (map snd commits_of),
          as_changed_lines = sum_list (map snd lines_of), as_top_lines = top_counts 10 lines_of,
          as_top_commits = top_counts 10 commits_of\<rparr>)"

text \<open>Commits that touch each file still present; a commit counts once for a path.\<close>

definition change_frequency :: "commit list \<Rightarrow> string list \<Rightarrow> (string, nat) dict" where
  "change_frequency commits present =
     counter (concat (map (\<lambda>c. filter (\<lambda>p. p \<in> set present \<and> \<not> is_excluded p) (dict_fromkeys (map fst (cm_files c))))
       (filter (\<lambda>c. \<not> is_merge c \<and> \<not> cm_boundary c) commits)))"

record hotspot_stats =
  hs_top_churn :: "string list"
  hs_hotspots :: "(string \<times> nat \<times> nat) list option"
  hs_share :: "real option"

definition MAX_HOTSPOTS :: nat where
  "MAX_HOTSPOTS = 20"

definition hotspot_metrics :: "(string, nat) dict \<Rightarrow> (string, nat) dict option \<Rightarrow> hotspot_stats" where
  "hotspot_metrics frequency complexity =
     (let churn_top = top_decile frequency
      in case complexity of
           None \<Rightarrow> \<lparr>hs_top_churn = take MAX_HOTSPOTS churn_top, hs_hotspots = None, hs_share = None\<rparr>
         | Some counts \<Rightarrow>
             (let complex_top = top_decile counts; hotspots = filter (\<lambda>p. p \<in> set complex_top) churn_top
              in \<lparr>hs_top_churn = take MAX_HOTSPOTS churn_top,
                  hs_hotspots = Some (map (\<lambda>p. (p, the (map_of frequency p), the (map_of counts p))) (take MAX_HOTSPOTS hotspots)),
                  hs_share = (if churn_top \<noteq> [] \<and> complex_top \<noteq> []
                    then Some (real (length hotspots) / real (max 1 (length churn_top))) else None)\<rparr>))"

section \<open>Review flow\<close>

definition by_sha :: "commit list \<Rightarrow> string \<Rightarrow> commit option" where
  "by_sha commits sha = map_of (rev (map (\<lambda>c. (cm_sha c, c)) commits)) sha"

lemma by_sha_in: "by_sha commits sha = Some c \<Longrightarrow> c \<in> set commits \<and> cm_sha c = sha"
  by (auto simp: by_sha_def dest!: map_of_SomeD)

text \<open>The chain of first parents among the fetched commits, until it ends or meets itself.\<close>

definition first_parent :: "commit list \<Rightarrow> commit \<Rightarrow> commit option" where
  "first_parent commits c = (case cm_parents c of [] \<Rightarrow> None | p # _ \<Rightarrow> by_sha commits p)"

lemma first_parent_in: "first_parent commits c = Some d \<Longrightarrow> d \<in> set commits"
  by (auto simp: first_parent_def split: list.splits dest: by_sha_in)

function review_chain :: "commit list \<Rightarrow> string list \<Rightarrow> commit \<Rightarrow> commit list" where
  "review_chain commits seen c =
     (if cm_sha c \<in> set seen then []
      else c # (case first_parent commits c of None \<Rightarrow> [] | Some d \<Rightarrow> review_chain commits (cm_sha c # seen) d))"
  by pat_completeness auto
termination
proof (relation "measure (\<lambda>(commits, seen, c). card (insert (cm_sha c) (cm_sha ` set commits) - set seen))")
  fix commits :: "commit list" and seen c d
  assume new: "cm_sha c \<notin> set seen" and d: "first_parent commits c = Some d"
  have "cm_sha d \<in> cm_sha ` set commits" using first_parent_in [OF d] by blast
  then have "insert (cm_sha d) (cm_sha ` set commits) - set (cm_sha c # seen) \<subset> insert (cm_sha c) (cm_sha ` set commits) - set seen"
    using new by auto
  then show "((commits, cm_sha c # seen, d), commits, seen, c) \<in> measure (\<lambda>(commits, seen, c). card (insert (cm_sha c) (cm_sha ` set commits) - set seen))"
    by (auto intro: psubset_card_mono)
qed simp

declare review_chain.simps [simp del]

definition is_direct :: "commit \<Rightarrow> bool" where
  "is_direct c \<longleftrightarrow> \<not> (is_merge c \<or> rx_search SQUASH_SUFFIX (cm_subject c))"

record review_stats =
  rv_commits :: nat
  rv_direct :: nat
  rv_ratio :: "real option"

definition review_flow_metrics :: "commit list \<Rightarrow> review_stats" where
  "review_flow_metrics commits =
     (case commits of
        [] \<Rightarrow> \<lparr>rv_commits = 0, rv_direct = 0, rv_ratio = None\<rparr>
      | head_commit # _ \<Rightarrow>
          (let chain = review_chain commits [] head_commit; direct = length (filter is_direct chain)
           in \<lparr>rv_commits = length chain, rv_direct = direct, rv_ratio = share direct (length chain)\<rparr>))"

section \<open>The signal\<close>

definition inverse_of :: "real option \<Rightarrow> real option" where
  "inverse_of v = map_option (\<lambda>x. 1 - x) v"

definition history_components ::
    "commit list \<Rightarrow> real \<Rightarrow> string list \<Rightarrow> (string, nat) dict option \<Rightarrow> (string \<times> real option) list" where
  "history_components commits now present complexity =
     (let messages = message_metrics commits; recency = recency_metrics commits now; authors = author_metrics commits;
          hotspots = hotspot_metrics (change_frequency commits present) complexity; review = review_flow_metrics commits
      in [(''conventional'', ms_conventional_share messages),
          (''informative'', inverse_of (ms_low_info_share messages)),
          (''recency'', Some (exp (- rt_days recency / 365))),
          (''activity'', Some (min 1 (real (rt_recent recency) / 10))),
          (''bus_factor'', map_option (\<lambda>b. real (min b 3) / 3) (as_bus_factor authors)),
          (''concentration'', inverse_of (as_gini authors)),
          (''hotspots'', inverse_of (hs_share hotspots)),
          (''review_flow'', inverse_of (rv_ratio review))])"

definition build_report ::
    "commit list \<Rightarrow> real \<Rightarrow> string list \<Rightarrow> (string, nat) dict option \<Rightarrow> health_report" where
  "build_report commits now present complexity =
     (if length commits < MIN_COMMITS then inapplicable_report
      else (let components = history_components commits now present complexity
            in \<lparr>sr_applicable = True, sr_score = mean_score components, sr_components = components\<rparr>))"

record history_extent =
  he_depth :: nat
  he_merges :: nat
  he_shallow :: bool
  he_capped :: bool
  he_first :: int

definition history_extent_of :: "commit list \<Rightarrow> history_extent" where
  "history_extent_of commits =
     \<lparr>he_depth = length commits, he_merges = length (filter is_merge commits), he_shallow = list_ex cm_boundary commits,
      he_capped = (MAX_COMMITS \<le> length commits), he_first = Min (set (map cm_timestamp commits))\<rparr>"

text \<open>
  The history of a scan: the log captured while cloning, or that of an uploaded repository, which
  is captured only if there is none; \<open>None\<close> outside is an exception of the parser.
\<close>

definition scan_history ::
    "(string \<Rightarrow> string) \<Rightarrow> (string option \<times> string option) option \<Rightarrow> bool \<Rightarrow> (string option \<times> string option) option \<Rightarrow> commit list option option" where
  "scan_history decode cloned has_git uploaded =
     (let from_upload = (if has_git then (case uploaded of None \<Rightarrow> Some None | Some (text, shallow) \<Rightarrow> read_history decode text shallow)
                         else Some None)
      in case cloned of
           None \<Rightarrow> from_upload
         | Some (text, shallow) \<Rightarrow>
             (case read_history decode text shallow of
                None \<Rightarrow> None | Some (Some cs) \<Rightarrow> Some (Some cs) | Some None \<Rightarrow> from_upload))"

text \<open>The files whose complexity is asked for, and the report of a run.\<close>

definition complexity_paths :: "string list \<Rightarrow> string list" where
  "complexity_paths present =
     sort (filter (\<lambda>p. language_for p \<noteq> None \<and> list_all (\<lambda>part. part \<notin> set IGNORED_DIRS) (butlast (path_parts p))) present)"

definition run_history ::
    "commit list option \<Rightarrow> string list \<Rightarrow> (string list \<Rightarrow> (string, nat) dict option) \<Rightarrow> real \<Rightarrow> health_report" where
  "run_history history present collect_complexity now =
     (case history of
        None \<Rightarrow> inapplicable_report
      | Some commits \<Rightarrow>
          if length commits < MIN_COMMITS then inapplicable_report
          else build_report commits now present
                 (if complexity_paths present = [] then Some [] else collect_complexity (complexity_paths present)))"

end
