(* ===== verification/Git_History_Props.thy ===== *)
theory Git_History_Props
  imports Git_History
begin

text \<open>
  The commit history signal: the bus factor is the least number of authors that cover half of
  the changed lines, and every component and the score lie between 0 and 1.
\<close>

section \<open>The bus factor\<close>

lemma cover_steps_least:
  assumes "t \<le> 2 * (c + sum_list ls)" "2 * c < t"
  obtains k where "cover_steps t c n ls = n + k" "k \<le> length ls" "t \<le> 2 * (c + sum_list (take k ls))"
    "\<forall>j < k. 2 * (c + sum_list (take j ls)) < t"
  using assms
proof (induction ls arbitrary: c n thesis)
  case (Cons l ls)
  show ?case
  proof (cases "t \<le> 2 * (c + l)")
    case True
    then show ?thesis using Cons.prems(3) by (intro Cons.prems(1) [of 1]) auto
  next
    case False
    have more: "t \<le> 2 * (c + l + sum_list ls)" "2 * (c + l) < t" using Cons.prems(2) False by simp_all
    obtain k where k: "cover_steps t (c + l) (Suc n) ls = Suc n + k" "k \<le> length ls"
        "t \<le> 2 * (c + l + sum_list (take k ls))" "\<forall>j < k. 2 * (c + l + sum_list (take j ls)) < t"
      using Cons.IH [OF _ more] by blast
    have "\<forall>j < Suc k. 2 * (c + sum_list (take j (l # ls))) < t"
      using k(4) Cons.prems(3) by (auto simp: less_Suc_eq_0_disj add.assoc)
    then show ?thesis using k False by (intro Cons.prems(1) [of "Suc k"]) (auto simp: add.assoc)
  qed
qed simp

text \<open>No choice of entries has more than the first entries of a descending list.\<close>

lemma sum_le_top:
  assumes "sorted_wrt (\<ge>) (map f es)" "distinct es" "A \<subseteq> set es"
  shows "sum f A \<le> (sum_list (map f (take (card A) es)) :: nat)"
  using assms
proof (induction es arbitrary: A rule: rev_induct)
  case (snoc e es)
  have fin: "finite A" using snoc.prems(3) finite_subset by blast
  have sorted: "sorted_wrt (\<ge>) (map f es)" "\<forall>x \<in> set es. f e \<le> f x" using snoc.prems(1) by (auto simp: sorted_wrt_append)
  show ?case
  proof (cases "e \<in> A")
    case False
    then have A: "A \<subseteq> set es" using snoc.prems(3) by auto
    then have "card A \<le> length es" using snoc.prems(2) by (metis card_mono distinct_append distinct_card finite_set)
    then show ?thesis using snoc.IH [OF sorted(1) _ A] snoc.prems(2) by simp
  next
    case True
    define B where "B = A - {e}"
    have B: "B \<subseteq> set es" "card A = Suc (card B)" "sum f A = f e + sum f B"
      using snoc.prems(3) True fin card.remove [OF fin True] by (auto simp: B_def sum.remove)
    have ih: "sum f B \<le> sum_list (map f (take (card B) es))" using snoc.IH [OF sorted(1) _ B(1)] snoc.prems(2) by simp
    have "card B \<le> length es" using B(1) snoc.prems(2) by (metis card_mono distinct_append distinct_card finite_set)
    then consider "card B = length es" | "card B < length es" by linarith
    then show ?thesis
    proof cases
      case 1
      then show ?thesis using ih B by simp
    next
      case 2
      then have "f e \<le> f (es ! card B)" using sorted(2) by simp
      then show ?thesis using 2 ih B by (simp add: take_Suc_conv_app_nth)
    qed
  qed
qed simp

lemma bus_factor_dict:
  fixes d :: "(string, nat) dict"
  assumes keys: "distinct (map fst d)" and pos: "sum_list (map snd d) \<noteq> 0"
  shows "bus_factor (map snd d)
    = Some (LEAST b. \<exists>A \<subseteq> fst ` set d. card A = b \<and> sum_list (map snd d) \<le> 2 * (\<Sum>k \<in> A. the (map_of d k)))"
proof -
  define t where "t = sum_list (map snd d)"
  define es where "es = rev (sort_key snd d)"
  have vals: "rev (sort (map snd d)) = map snd es"
    by (simp add: es_def sort_key_map [of "\<lambda>x. x", simplified] rev_map)
  have es: "distinct es" "set es = set d" "distinct (map fst es)" "sorted_wrt (\<ge>) (map snd es)" "sum_list (map snd es) = t"
  proof -
    have "mset (sort_key snd d) = mset d" by simp
    then have "mset (map fst (sort_key snd d)) = mset (map fst d)" by simp
    then show fst_es: "distinct (map fst es)" using keys mset_eq_imp_distinct_iff unfolding es_def by (metis distinct_rev rev_map)
    then show "distinct es" by (simp add: distinct_map)
    show "set es = set d" by (simp add: es_def)
    show "sorted_wrt (\<ge>) (map snd es)" unfolding es_def rev_map [symmetric] sorted_wrt_rev using sorted_sort_key [of snd d] by simp
    have "mset (map snd es) = mset (map snd d)" by (simp add: es_def)
    then show "sum_list (map snd es) = t" unfolding t_def by (metis sum_mset_sum_list)
  qed
  have pos: "2 * 0 < t" using pos unfolding t_def [symmetric] by simp
  have "t \<le> 2 * (0 + sum_list (map snd es))" using es(5) by simp
  then obtain k where k: "cover_steps t 0 0 (map snd es) = 0 + k" "k \<le> length (map snd es)"
      "t \<le> 2 * (0 + sum_list (take k (map snd es)))" "\<forall>j < k. 2 * (0 + sum_list (take j (map snd es))) < t"
    using pos by (rule cover_steps_least)
  let ?P = "\<lambda>b. \<exists>A \<subseteq> fst ` set d. card A = b \<and> t \<le> 2 * (\<Sum>k \<in> A. the (map_of d k))"
  have lookup: "the (map_of d (fst e)) = snd e" if "e \<in> set d" for e
    using map_of_is_SomeI [OF keys, of "fst e" "snd e"] that by simp
  have "(LEAST b. ?P b) = k"
  proof (rule Least_equality)
    let ?A = "fst ` set (take k es)"
    have "distinct (map fst (take k es))" using es(3) by (metis distinct_take take_map)
    then have inj_take: "inj_on fst (set (take k es))" by (simp add: distinct_map)
    have "(\<Sum>x \<in> ?A. the (map_of d x)) = (\<Sum>e \<in> set (take k es). the (map_of d (fst e)))"
      using inj_take by (simp add: sum.reindex)
    also have "\<dots> = (\<Sum>e \<in> set (take k es). snd e)"
      using es(2) lookup by (intro sum.cong) (auto dest: in_set_takeD)
    also have "\<dots> = sum_list (map snd (take k es))" using es(1) by (simp add: sum_list_distinct_conv_sum_set)
    finally have "t \<le> 2 * (\<Sum>x \<in> ?A. the (map_of d x))" using k(3) by (simp add: take_map)
    moreover have "card ?A = k"
      using card_image [OF inj_take] distinct_card [of "take k es"] es(1) k(2) by simp
    moreover have "?A \<subseteq> fst ` set d" using es(2) by (auto dest: in_set_takeD)
    ultimately show "?P k" by blast
  next
    fix b
    assume "?P b"
    then obtain A where A: "A \<subseteq> fst ` set d" "card A = b" "t \<le> 2 * (\<Sum>x \<in> A. the (map_of d x))" by blast
    define E where "E = {e \<in> set es. fst e \<in> A}"
    have inj: "inj_on fst (set es)" using es(3) by (simp add: distinct_map)
    have img: "fst ` E = A" using A(1) es(2) by (auto simp: E_def)
    have "(\<Sum>x \<in> A. the (map_of d x)) = (\<Sum>e \<in> E. the (map_of d (fst e)))"
      unfolding img [symmetric] using inj by (subst sum.reindex) (auto simp: E_def inj_on_def)
    also have "\<dots> = sum snd E" using es(2) lookup by (intro sum.cong) (auto simp: E_def)
    also have "\<dots> \<le> sum_list (map snd (take (card E) es))" by (rule sum_le_top) (use es in \<open>auto simp: E_def\<close>)
    finally have "t \<le> 2 * sum_list (take (card E) (map snd es))" using A(3) by (simp add: take_map)
    moreover have "card E = b" using A(2) inj unfolding img [symmetric] by (metis (no_types, lifting) E_def card_image inj_on_subset mem_Collect_eq subsetI)
    ultimately show "k \<le> b" using k(4) by (metis add_0 leI not_less)
  qed
  then show ?thesis using pos k(1) by (simp add: bus_factor_def Let_def vals t_def [symmetric])
qed

section \<open>Bounds\<close>

lemma in_unit_share: "part \<le> whole \<Longrightarrow> in_unit (share part whole)"
  by (auto simp: share_def divide_le_eq)

lemma in_unit_filter: "in_unit (share (length (filter P xs)) (length xs))"
  by (intro in_unit_share length_filter_le)

lemma in_unit_inverse: "in_unit v \<Longrightarrow> in_unit (inverse_of v)"
  by (cases v) (auto simp: inverse_of_def)

lemma rank_sum_nth: "rank_sum xs = (\<Sum>i = 0..<length xs. Suc i * xs ! i)"
proof (induction xs rule: rev_induct)
  case (snoc x xs)
  then show ?case by (simp add: rank_sum_def enumerate_append_eq nth_append)
qed (simp add: rank_sum_def)

lemma gini_unit: "gini vs = Some g \<Longrightarrow> 0 \<le> g \<and> g < 1"
proof -
  assume gini: "gini vs = Some g"
  define xs where "xs = sort vs"
  define n where "n = length xs"
  define t where "t = sum_list xs"
  have n: "0 < n" "0 < t" and g: "g = 2 * real (rank_sum xs) / real (n * t) - (real n + 1) / real n"
    using gini unfolding gini_def Let_def xs_def [symmetric] n_def [symmetric] t_def [symmetric] by (auto split: if_splits)
  have mono: "i \<le> j \<Longrightarrow> j < n \<Longrightarrow> xs ! i \<le> xs ! j" for i j
    using sorted_nth_mono [of xs i j] by (simp add: xs_def n_def)
  have t: "(\<Sum>i = 0..<n. real (xs ! i)) = real t"
    by (simp add: t_def n_def sum_list_sum_nth flip: of_nat_sum)
  have w: "(\<Sum>i = 0..<n. real (Suc i) * real (xs ! i)) = real (rank_sum xs)"
    by (simp only: rank_sum_nth n_def of_nat_sum of_nat_mult)
  have gauss: "(\<Sum>i = 0..<n. real (Suc i)) = real n * (real n + 1) / 2"
    by (induction n) (auto simp: field_simps)
  have "real n * (\<Sum>i = 0..<n. real (Suc i) * - real (xs ! i)) \<le> (\<Sum>i = 0..<n. real (Suc i)) * (\<Sum>i = 0..<n. - real (xs ! i))"
    by (rule Chebyshev_sum_upper) (use mono in auto)
  then have "real n * (real n + 1) / 2 * real t \<le> real n * real (rank_sum xs)"
    by (simp add: sum_negf t w gauss flip: of_nat_Suc)
  then have "real n * ((real n + 1) * real t) \<le> real n * (2 * real (rank_sum xs))" by (simp add: algebra_simps)
  then have "(real n + 1) * real t \<le> 2 * real (rank_sum xs)"
    using n(1) by (simp only: mult_le_cancel_left_pos of_nat_0_less_iff)
  then have "(real n + 1) * real t / real (n * t) \<le> 2 * real (rank_sum xs) / real (n * t)"
    by (intro divide_right_mono) simp_all
  moreover have "(real n + 1) * real t / real (n * t) = (real n + 1) / real n" using n by simp
  ultimately have lower: "(real n + 1) / real n \<le> 2 * real (rank_sum xs) / real (n * t)" by metis
  have "real (rank_sum xs) \<le> (\<Sum>i = 0..<n. real n * real (xs ! i))"
    unfolding w [symmetric] by (intro sum_mono mult_right_mono) auto
  then have "real (rank_sum xs) \<le> real n * real t" by (simp add: t flip: sum_distrib_left)
  then have upper: "2 * real (rank_sum xs) / real (n * t) \<le> 2" using n by (simp add: field_simps)
  have "(real n + 1) / real n = 1 + 1 / real n" using n by (simp add: field_simps)
  moreover have "0 < 1 / real n" using n by simp
  ultimately show ?thesis using lower upper unfolding g by linarith
qed

lemma in_unit_gini: "in_unit (gini vs)"
  using gini_unit [of vs] by (cases "gini vs") auto

lemma in_unit_hotspots: "in_unit (hs_share (hotspot_metrics frequency complexity))"
  by (auto simp: hotspot_metrics_def Let_def divide_le_eq le_max_iff_disj split: option.splits)

lemma history_components_unit:
  assumes "(name, v) \<in> set (history_components commits now present complexity)"
  shows "in_unit v"
proof -
  have "in_unit (ms_conventional_share (message_metrics commits))" "in_unit (ms_low_info_share (message_metrics commits))"
    by (simp_all only: message_metrics_def Let_def message_stats.select_convs in_unit_filter)
  moreover have "in_unit (rv_ratio (review_flow_metrics commits))"
    by (cases commits) (simp_all add: review_flow_metrics_def Let_def in_unit_filter)
  moreover have "in_unit (as_gini (author_metrics commits))"
    by (simp add: author_metrics_def Let_def in_unit_gini)
  moreover have "in_unit (Some (exp (- rt_days (recency_metrics commits now) / 365)))"
    by (simp add: recency_metrics_def Let_def)
  moreover have "in_unit (map_option (\<lambda>b. real (min b 3) / 3) (as_bus_factor (author_metrics commits)))"
    by (cases "as_bus_factor (author_metrics commits)") (auto simp: divide_le_eq)
  ultimately show ?thesis
    using assms in_unit_hotspots [of "change_frequency commits present" complexity]
    by (auto simp: history_components_def Let_def in_unit_inverse)
qed

section \<open>The properties\<close>

definition human_lines :: "commit list \<Rightarrow> string \<Rightarrow> nat" where
  "human_lines commits email = sum_list (map snd (filter (\<lambda>e. fst e = email) (concat (map changed_lines (human_commits commits)))))"

lemma lines_by_author_keys:
  "fst ` set (concat (map changed_lines (human_commits commits))) = (\<lambda>c. author_email (cm_author c)) ` set (human_commits commits)"
proof -
  have "fst ` set (changed_lines c) = {author_email (cm_author c)}" for c by (auto simp: changed_lines_def)
  then show ?thesis by (simp add: image_UN UNION_singleton_eq_range)
qed

lemma add_counts_keys: "fst ` set (add_counts xs) = fst ` set xs"
proof -
  have "k \<in> fst ` set (add_counts xs) \<longleftrightarrow> k \<in> fst ` set xs" for k
    using map_of_add_counts [of xs k] map_of_eq_None_iff [of "add_counts xs" k] by (auto split: if_splits)
  then show ?thesis by blast
qed

lemma sum_list_dict:
  fixes d :: "('a, nat) dict"
  assumes "distinct (map fst d)"
  shows "sum_list (map snd d) = (\<Sum>k \<in> fst ` set d. the (map_of d k))"
proof -
  have "distinct d" "inj_on fst (set d)" using assms by (simp_all add: distinct_map)
  then have "(\<Sum>k \<in> fst ` set d. the (map_of d k)) = (\<Sum>e \<in> set d. the (map_of d (fst e)))" by (simp add: sum.reindex)
  also have "\<dots> = (\<Sum>e \<in> set d. snd e)" using assms by (intro sum.cong) auto
  finally show ?thesis using \<open>distinct d\<close> by (simp add: sum_list_distinct_conv_sum_set)
qed

text \<open>
  C34: The bus factor is what it claims to be: the least number of human authors whose changed
  lines together make up at least half of all changed lines of human authors, and none without
  any such line.
\<close>

theorem bus_factor_least:
  "as_bus_factor (author_metrics commits) =
     (let authors = (\<lambda>c. author_email (cm_author c)) ` set (human_commits commits);
          all_lines = (\<Sum>a \<in> authors. human_lines commits a)
      in if all_lines = 0 then None
         else Some (LEAST b. \<exists>A \<subseteq> authors. card A = b \<and> all_lines \<le> 2 * (\<Sum>a \<in> A. human_lines commits a)))"
proof -
  define xs where "xs = concat (map changed_lines (human_commits commits))"
  let ?d = "add_counts xs"
  let ?authors = "(\<lambda>c. author_email (cm_author c)) ` set (human_commits commits)"
  have keys: "fst ` set ?d = ?authors" by (simp only: add_counts_keys xs_def lines_by_author_keys)
  have lookup: "the (map_of ?d a) = human_lines commits a" if "a \<in> ?authors" for a
    using that keys add_counts_keys [of xs] by (simp add: map_of_add_counts human_lines_def xs_def)
  have sums: "(\<Sum>a \<in> A. the (map_of ?d a)) = (\<Sum>a \<in> A. human_lines commits a)" if "A \<subseteq> ?authors" for A
    using that by (intro sum.cong) (auto intro: lookup)
  have all: "sum_list (map snd ?d) = (\<Sum>a \<in> ?authors. human_lines commits a)"
    unfolding sum_list_dict [OF distinct_add_counts] keys by (rule sums) simp
  have least: "(LEAST b. \<exists>A \<subseteq> ?authors. card A = b \<and> n \<le> 2 * (\<Sum>a \<in> A. the (map_of ?d a)))
      = (LEAST b. \<exists>A \<subseteq> ?authors. card A = b \<and> n \<le> 2 * (\<Sum>a \<in> A. human_lines commits a))" for n
    by (intro arg_cong [where f = Least] ext iff_exI conj_cong refl) (simp only: sums)
  have "as_bus_factor (author_metrics commits) = bus_factor (map snd ?d)"
    by (simp add: author_metrics_def Let_def lines_by_author_def xs_def)
  then show ?thesis
    using bus_factor_dict [OF distinct_add_counts, of xs] unfolding keys least all Let_def
    by (auto simp: bus_factor_def all)
qed

interpretation history_signal: signal_contract
  "\<lambda>(commits, now, present, complexity). MIN_COMMITS \<le> length commits"
  "\<lambda>(commits, now, present, complexity). history_components commits now present complexity"
  "\<lambda>(commits, now, present, complexity). build_report commits now present complexity"
proof
  show "in_unit v"
    if "(name, v) \<in> set ((\<lambda>(commits, now, present, complexity). history_components commits now present complexity) x)" for name v x
    using that history_components_unit by (auto split: prod.splits)
qed (auto simp: build_report_def Let_def)

text \<open>
  The history counts from five commits on, and then the score exists and lies between 0 and 1
  together with every available component, whatever the log, the clock and the files say.
\<close>

theorem history_report_bounds:
  "let report = build_report commits now present complexity
   in (sr_applicable report \<longleftrightarrow> 5 \<le> length commits)
      \<and> (\<forall>(name, v) \<in> set (sr_components report). in_unit v)
      \<and> in_unit (sr_score report)
      \<and> (sr_score report \<noteq> None \<longleftrightarrow> sr_applicable report)"
proof (cases "length commits < 5")
  case True
  then show ?thesis by (simp add: build_report_def MIN_COMMITS_def inapplicable_report_def)
next
  case False
  let ?components = "history_components commits now present complexity"
  have "Some (exp (- rt_days (recency_metrics commits now) / 365)) \<in> snd ` set ?components"
    by (simp add: history_components_def Let_def)
  then have "List.map_filter snd ?components \<noteq> []"
    unfolding set_empty [symmetric] set_map_filter by force
  then have "mean_score ?components \<noteq> None" by (simp add: mean_score_def mean_of_def)
  then show ?thesis
    using False history_components_unit history_signal.score_in_unit [of "(commits, now, present, complexity)"]
    by (auto simp: build_report_def MIN_COMMITS_def Let_def)
qed

end
