(* ===== verification/CI_Quality.thy ===== *)
theory CI_Quality
  imports Git_Log Signals
begin

text \<open>
  \<open>analyzers/ci_quality.py\<close>: what the continuous integration files of a repository run, when, and
  whether building waits for the tests.  The files and the YAML parser are arguments; a parsed
  document is a finite tree.
\<close>

section \<open>YAML values\<close>

text \<open>\<open>Y_other\<close> is any other value, with what \<open>str\<close> and \<open>repr\<close> make of it.\<close>

datatype yaml =
    Y_null
  | Y_bool bool
  | Y_int int
  | Y_str string
  | Y_other string string
  | Y_list "yaml list"
  | Y_map "(yaml \<times> yaml) list"

function yaml_repr :: "yaml \<Rightarrow> string" and reprs :: "yaml list \<Rightarrow> string list"
    and entry_reprs :: "(yaml \<times> yaml) list \<Rightarrow> string list" where
  "yaml_repr Y_null = ''None''"
| "yaml_repr (Y_bool b) = (if b then ''True'' else ''False'')"
| "yaml_repr (Y_int n) = show_int n"
| "yaml_repr (Y_str s) = py_repr s"
| "yaml_repr (Y_other s r) = r"
| "yaml_repr (Y_list vs) = ''['' @ join '', '' (reprs vs) @ '']''"
| "yaml_repr (Y_map kvs) = ''{'' @ join '', '' (entry_reprs kvs) @ ''}''"
| "reprs [] = []"
| "reprs (v # vs) = yaml_repr v # reprs vs"
| "entry_reprs [] = []"
| "entry_reprs ((k, v) # kvs) = (yaml_repr k @ '': '' @ yaml_repr v) # entry_reprs kvs"
  by pat_completeness auto
termination
  by (relation "measure (case_sum size (case_sum (size_list size) (size_list (size_prod size size))))") auto

definition yaml_str :: "yaml \<Rightarrow> string" where
  "yaml_str v = (case v of Y_str s \<Rightarrow> s | Y_other s r \<Rightarrow> s | _ \<Rightarrow> yaml_repr v)"

text \<open>Python compares a truth value with a number: \<open>True\<close> is the key 1.\<close>

definition key_of :: "yaml \<Rightarrow> yaml" where
  "key_of k = (case k of Y_bool b \<Rightarrow> Y_int (if b then 1 else 0) | _ \<Rightarrow> k)"

definition yaml_get :: "yaml \<Rightarrow> (yaml \<times> yaml) list \<Rightarrow> yaml option" where
  "yaml_get k kvs = map_option snd (find (\<lambda>e. key_of (fst e) = key_of k) kvs)"

definition get_or :: "string \<Rightarrow> yaml \<Rightarrow> (yaml \<times> yaml) list \<Rightarrow> yaml" where
  "get_or k fallback kvs = (case yaml_get (Y_str k) kvs of None \<Rightarrow> fallback | Some v \<Rightarrow> v)"

definition is_key :: "yaml \<Rightarrow> string list \<Rightarrow> bool" where
  "is_key k names = (case k of Y_str s \<Rightarrow> s \<in> set names | _ \<Rightarrow> False)"

section \<open>Classification\<close>

definition CI_CATEGORIES :: "string list" where
  "CI_CATEGORIES = [''tests'', ''lint'', ''security'', ''build'']"

text \<open>Word boundaries next to a word character, and the parts the patterns share.\<close>

definition WordStart :: rx where
  "WordStart = NotBehind is_word"

definition WordEnd :: rx where
  "WordEnd = NotAhead (Cls is_word)"

definition Word :: "string \<Rightarrow> rx" where
  "Word s = Seqs [WordStart, Str s, WordEnd]"

definition Spaces :: rx where
  "Spaces = Plus (Cls is_space)"

definition SameLine :: rx where
  "SameLine = Star (NotOf [CHR 0x0A])"

definition Python :: rx where
  "Python = Seqs [WordStart, Str ''python'', Star (Cls (\<lambda>c. is_digit c \<or> c = CHR ''.''))]"

definition Runner :: "string list \<Rightarrow> string \<Rightarrow> rx" where
  "Runner tools task =
     Seqs [WordStart, Alts (map Str tools), Spaces, Opt (Seq (Str ''run'') Spaces), Str task, WordEnd]"

definition WordThen :: "string \<Rightarrow> string \<Rightarrow> rx" where
  "WordThen a b = Seqs [WordStart, Str a, Spaces, Str b, WordEnd]"

definition npm_tools :: "string list" where
  "npm_tools = [''npm'', ''yarn'', ''pnpm'', ''bun'']"

definition CATEGORY_PATTERNS :: "(string \<times> rx list) list" where
  "CATEGORY_PATTERNS =
     [(''tests'',
        [Word ''pytest'',
         Seqs [Python, Spaces, Str ''-m'', Spaces, Alt (Str ''pytest'') (Str ''unittest''), WordEnd],
         Word ''unittest'', Word ''tox'', Word ''nox'', Runner npm_tools ''test'', Word ''jest'', Word ''vitest'', Word ''mocha'',
         WordThen ''go'' ''test'', WordThen ''cargo'' ''test'',
         Seqs [WordStart, Str ''mvn'', Opt (Chr CHR ''w''), WordEnd, SameLine, Word ''test''],
         Seqs [WordStart, Str ''gradle'', Opt (Chr CHR ''w''), WordEnd, SameLine, Word ''test''],
         WordThen ''make'' ''test'', WordThen ''playwright'' ''test'', WordThen ''cypress'' ''run'', Str ''cypress-io/github-action'']),
      (''lint'',
        [Word ''ruff'', Word ''flake8'', Word ''pylint'', Seqs [Word ''black'', SameLine, Str ''--check'', WordEnd], Word ''mypy'',
         Word ''pyright'', Word ''eslint'', Word ''tsc'', Seqs [Word ''prettier'', SameLine, Str ''--check'', WordEnd],
         Runner npm_tools ''lint'', Word ''golangci-lint'', Str ''super-linter'', WordThen ''pre-commit'' ''run'', Str ''pre-commit/action'']),
      (''security'',
        [Str ''codeql'', Word ''semgrep'', Word ''bandit'', Word ''snyk'', Word ''trivy'', Str ''osv-scanner'', Str ''pip-audit'',
         Seqs [WordStart, Alts (map Str [''npm'', ''yarn'', ''pnpm'']), Spaces, Str ''audit'', WordEnd],
         Seqs [WordStart, Str ''safety'', Spaces, Alt (Str ''check'') (Str ''scan''), WordEnd], Word ''gitleaks'', Word ''trufflehog'',
         Str ''dependency-review-action'', Alt (Word ''zap'') (Str ''zaproxy'')]),
      (''build'',
        [Seqs [WordStart, Str ''docker'', Spaces,
           Alts [Str ''build'', Str ''push'', Seqs [Str ''buildx'', Spaces, Str ''build''], Seqs [Str ''compose'', Spaces, Str ''build'']], WordEnd],
         Str ''docker/build-push-action'', Runner npm_tools ''build'',
         Seqs [Python, Spaces, Str ''-m'', Spaces, Str ''build'', WordEnd], WordThen ''vite'' ''build'',
         Alts [Word ''deploy'', Word ''publish'', Word ''release''], Str ''aws-actions/'',
         Seqs [Str ''azure/'', Star (Cls (\<lambda>c. c \<noteq> CHR ''@'' \<and> \<not> is_space c)), Str ''deploy''], Str ''peaceiris/actions-gh-pages'',
         Str ''pypa/gh-action-pypi-publish'', WordThen ''twine'' ''upload'', Word ''goreleaser''])]"

definition INSTALL_LINE :: rx where
  "INSTALL_LINE =
     (let tool = (\<lambda>names verbs. Seqs [Alts (map Str names), Spaces, Alts (map Str verbs)])
      in Seqs [Bol, Star (Cls is_space), Opt (Seq (Str ''sudo'') Spaces),
           Alt
             (Seqs [Alts
                [Seq (Str ''pip'') (Opt (Chr CHR ''3'')),
                 Seqs [Str ''python'', Star (Cls (\<lambda>c. is_digit c \<or> c = CHR ''.'')), Spaces, Str ''-m'', Spaces, Str ''pip''],
                 Str ''pipx'',
                 Seqs [Str ''uv'', Spaces, Alts [Str ''pip'', Str ''add'', Str ''sync'', Seqs [Str ''tool'', Spaces, Str ''install'']]],
                 tool [''poetry''] [''add'', ''install''], tool [''npm'', ''pnpm'', ''bun''] [''i'', ''install'', ''ci'', ''add''],
                 tool [''yarn''] [''add'', ''install''],
                 Seqs [Str ''apt'', Opt (Str ''-get''), Spaces, Str ''install''], tool [''brew''] [''install''], tool [''go''] [''install''],
                 tool [''cargo''] [''install''], tool [''gem''] [''install'']],
               Ahead (Alt (Cls is_space) Eol)])
             (Seqs [Str ''yarn'', Star (Cls is_space), Alt Eol (Str ''--'')])])"

definition ECHO_LINE :: rx where
  "ECHO_LINE = Seqs [Bol, Star (Cls is_space), Alts [Str ''echo'', Str ''printf'', Str ''#'']]"

text \<open>The patterns ignore case, so they are matched against the lower-cased text.\<close>

definition classify :: "string \<Rightarrow> string list" where
  "classify text =
     (let t = lower text
      in if rx_search INSTALL_LINE t \<or> rx_search ECHO_LINE t then []
         else map fst (filter (\<lambda>(_, patterns). list_ex (\<lambda>p. rx_search p t) patterns) CATEGORY_PATTERNS))"

section \<open>Commands\<close>

definition block_lines :: "string \<Rightarrow> string list" where
  "block_lines block =
     filter (\<lambda>l. l \<noteq> [] \<and> \<not> starts_with ''#'' l)
       (map strip (splitlines (rx_sub (Str [bslash, CHR 0x0A]) '' '' block)))"

definition command_lines :: "yaml \<Rightarrow> string list" where
  "command_lines v =
     (case v of
        Y_str s \<Rightarrow> block_lines s
      | Y_list vs \<Rightarrow> concat (map block_lines (List.map_filter (\<lambda>v. case v of Y_str s \<Rightarrow> Some s | _ \<Rightarrow> None) vs))
      | _ \<Rightarrow> [])"

definition strip_ref :: "string \<Rightarrow> string" where
  "strip_ref ref = strip (before CHR ''@'' ref)"

definition COMMAND_KEYS :: "string list" where
  "COMMAND_KEYS =
     [''run'', ''script'', ''before_script'', ''after_script'', ''command'', ''bash'', ''pwsh'', ''powershell'', ''install'',
      ''before_install'', ''after_success'', ''before_deploy'', ''deploy'']"

definition REF_KEYS :: "string list" where
  "REF_KEYS = [''uses'', ''task'', ''pipe'']"

definition is_map :: "yaml \<Rightarrow> bool" where
  "is_map v = (case v of Y_map _ \<Rightarrow> True | _ \<Rightarrow> False)"

definition is_text :: "yaml \<Rightarrow> bool" where
  "is_text v = (case v of Y_str _ \<Rightarrow> True | _ \<Rightarrow> False)"

definition is_list :: "yaml \<Rightarrow> bool" where
  "is_list v = (case v of Y_list _ \<Rightarrow> True | _ \<Rightarrow> False)"

definition has_map :: "yaml \<Rightarrow> bool" where
  "has_map v = (case v of Y_list vs \<Rightarrow> list_ex is_map vs | _ \<Rightarrow> False)"

text \<open>Every command line and action reference below a node, in document order.\<close>

fun collect_items :: "yaml \<Rightarrow> string list" and collect_entries :: "(yaml \<times> yaml) list \<Rightarrow> string list"
    and collect_list :: "yaml list \<Rightarrow> string list" where
  "collect_items (Y_map kvs) = collect_entries kvs"
| "collect_items (Y_list vs) = collect_list vs"
| "collect_items _ = []"
| "collect_entries [] = []"
| "collect_entries ((k, v) # kvs) =
     (if is_key k COMMAND_KEYS \<and> (is_text v \<or> is_list v)
      then (if has_map v then collect_items v else command_lines v)
      else if is_key k REF_KEYS \<and> is_text v then [strip_ref (yaml_str v)]
      else if is_key k [''deploy'', ''deployment'']
      then (if is_text v then yaml_str k @ '': '' @ yaml_str v else yaml_str k) # collect_items v
      else collect_items v)
     @ collect_entries kvs"
| "collect_list [] = []"
| "collect_list (v # vs) = collect_items v @ collect_list vs"

definition as_list :: "yaml \<Rightarrow> string list" where
  "as_list v =
     (case v of
        Y_str s \<Rightarrow> [s]
      | Y_list vs \<Rightarrow> map yaml_str (filter (\<lambda>v. case v of Y_str _ \<Rightarrow> True | Y_int _ \<Rightarrow> True | Y_bool _ \<Rightarrow> True | _ \<Rightarrow> False) vs)
      | _ \<Rightarrow> [])"

section \<open>Jobs and files\<close>

record ci_job =
  jb_name :: string
  jb_items :: "string list"
  jb_needs :: "string list"
  jb_stage :: "nat option"

datatype ci_problem = Too_large | Unreadable | Invalid_yaml

record ci_file =
  cf_path :: string
  cf_provider :: string
  cf_jobs :: "ci_job list"
  cf_triggers :: "string list"
  cf_push_branches :: "string list"
  cf_runs_on_pr :: bool
  cf_pr_condition :: bool
  cf_error :: "ci_problem option"

definition new_file :: "string \<Rightarrow> string \<Rightarrow> ci_file" where
  "new_file path provider =
     \<lparr>cf_path = path, cf_provider = provider, cf_jobs = [], cf_triggers = [], cf_push_branches = [],
      cf_runs_on_pr = False, cf_pr_condition = False, cf_error = None\<rparr>"

definition job_categories :: "ci_job \<Rightarrow> string list" where
  "job_categories job = concat (map classify (jb_items job))"

section \<open>Providers\<close>

definition PR_EVENT_CONDITION :: rx where
  "PR_EVENT_CONDITION =
     Seqs [Str ''github.event_name'', Star (Cls is_space), Str ''=='', Star (Cls is_space), OneOf [CHR 0x27, CHR 0x22], Str ''pull_request'']"

definition github_job :: "yaml \<times> yaml \<Rightarrow> ci_job" where
  "github_job entry =
     (case entry of (name, spec) \<Rightarrow>
        (case spec of
           Y_map kvs \<Rightarrow>
             \<lparr>jb_name = yaml_str name,
              jb_items = (case yaml_get (Y_str ''uses'') kvs of Some (Y_str ref) \<Rightarrow> [strip_ref ref] | _ \<Rightarrow> [])
                @ collect_items (get_or ''steps'' (Y_list []) kvs),
              jb_needs = as_list (get_or ''needs'' Y_null kvs), jb_stage = None\<rparr>
         | _ \<Rightarrow> \<lparr>jb_name = yaml_str name, jb_items = [], jb_needs = [], jb_stage = None\<rparr>))"

definition github_triggers :: "yaml \<Rightarrow> string list" where
  "github_triggers on =
     (case on of Y_str s \<Rightarrow> [s] | Y_list ts \<Rightarrow> map yaml_str ts | Y_map kvs \<Rightarrow> map (yaml_str \<circ> fst) kvs | _ \<Rightarrow> [])"

definition push_branches_of :: "yaml \<Rightarrow> string list" where
  "push_branches_of on =
     (case on of
        Y_map kvs \<Rightarrow> (case yaml_get (Y_str ''push'') kvs of Some (Y_map push) \<Rightarrow> as_list (get_or ''branches'' Y_null push) | _ \<Rightarrow> [])
      | _ \<Rightarrow> [])"

text \<open>YAML 1.1 reads a bare \<open>on\<close> as true, so both keys are tried.\<close>

definition parse_github :: "ci_file \<Rightarrow> yaml \<Rightarrow> string \<Rightarrow> ci_file" where
  "parse_github ci doc text =
     (case doc of
        Y_map kvs \<Rightarrow>
          (let on = get_or ''on'' (case yaml_get (Y_bool True) kvs of None \<Rightarrow> Y_null | Some v \<Rightarrow> v) kvs;
               triggers = github_triggers on
           in ci\<lparr>cf_triggers := triggers, cf_push_branches := push_branches_of on,
                 cf_runs_on_pr := list_ex (\<lambda>t. t \<in> {''pull_request'', ''pull_request_target''}) triggers,
                 cf_pr_condition := rx_search PR_EVENT_CONDITION text,
                 cf_jobs := (case yaml_get (Y_str ''jobs'') kvs of Some (Y_map jobs) \<Rightarrow> map github_job jobs | _ \<Rightarrow> [])\<rparr>)
      | _ \<Rightarrow> ci)"

definition GITLAB_RESERVED :: "string list" where
  "GITLAB_RESERVED =
     [''stages'', ''variables'', ''default'', ''include'', ''workflow'', ''image'', ''services'', ''cache'', ''before_script'',
      ''after_script'', ''types'']"

definition GITLAB_DEFAULT_STAGES :: "string list" where
  "GITLAB_DEFAULT_STAGES = [''.pre'', ''build'', ''test'', ''deploy'', ''.post'']"

definition merge_condition :: "string \<Rightarrow> bool" where
  "merge_condition s \<longleftrightarrow> rx_search (Str ''merge_request_event'') s \<or> rx_search (Str ''CI_MERGE_REQUEST'') s"

fun gitlab_pr :: "yaml \<Rightarrow> bool" and gitlab_pr_entries :: "(yaml \<times> yaml) list \<Rightarrow> bool"
    and gitlab_pr_list :: "yaml list \<Rightarrow> bool" where
  "gitlab_pr (Y_map kvs) = gitlab_pr_entries kvs"
| "gitlab_pr (Y_list vs) = gitlab_pr_list vs"
| "gitlab_pr _ = False"
| "gitlab_pr_entries [] = False"
| "gitlab_pr_entries ((k, v) # kvs) =
     ((if k = Y_str ''only''
       then ''merge_requests'' \<in> set (as_list (case v of Y_map refs \<Rightarrow> get_or ''refs'' Y_null refs | _ \<Rightarrow> v))
       else if k = Y_str ''if'' \<and> is_text v then merge_condition (yaml_str v)
       else k \<noteq> Y_str ''except'' \<and> gitlab_pr v)
      \<or> gitlab_pr_entries kvs)"
| "gitlab_pr_list [] = False"
| "gitlab_pr_list (v # vs) = (gitlab_pr v \<or> gitlab_pr_list vs)"

fun stage_position :: "'a \<Rightarrow> 'a list \<Rightarrow> nat option" where
  "stage_position x [] = None"
| "stage_position x (y # ys) = (if y = x then Some 0 else map_option Suc (stage_position x ys))"

definition gitlab_needs :: "(yaml \<times> yaml) list \<Rightarrow> string list" where
  "gitlab_needs spec =
     (case yaml_get (Y_str ''needs'') spec of
        Some (Y_list ns) \<Rightarrow>
          List.map_filter (\<lambda>n. case n of Y_str s \<Rightarrow> Some s | Y_map kvs \<Rightarrow> Some (yaml_str (get_or ''job'' (Y_str []) kvs)) | _ \<Rightarrow> None) ns
      | _ \<Rightarrow> [])
     @ as_list (get_or ''dependencies'' Y_null spec)"

definition gitlab_job :: "string list \<Rightarrow> string list \<Rightarrow> yaml \<times> yaml \<Rightarrow> ci_job option" where
  "gitlab_job stages global_before entry =
     (case entry of
        (name, Y_map spec) \<Rightarrow>
          if is_key name GITLAB_RESERVED \<or> starts_with ''.'' (yaml_str name)
             \<or> \<not> list_ex (\<lambda>k. yaml_get (Y_str k) spec \<noteq> None) [''script'', ''trigger'', ''extends'']
          then None
          else Some \<lparr>jb_name = yaml_str name,
                 jb_items = global_before @ collect_items (Y_map (filter (\<lambda>e. fst e \<noteq> Y_str ''rules'') spec)),
                 jb_needs = gitlab_needs spec,
                 jb_stage = stage_position (yaml_str (get_or ''stage'' (Y_str ''test'') spec)) stages\<rparr>
      | _ \<Rightarrow> None)"

definition parse_gitlab :: "ci_file \<Rightarrow> yaml \<Rightarrow> ci_file" where
  "parse_gitlab ci doc =
     (case doc of
        Y_map kvs \<Rightarrow>
          (let listed = as_list (get_or ''stages'' Y_null kvs);
               stages = (if listed = [] then GITLAB_DEFAULT_STAGES else listed);
               global_before = command_lines (get_or ''before_script'' Y_null kvs)
           in ci\<lparr>cf_jobs := List.map_filter (gitlab_job stages global_before) kvs, cf_runs_on_pr := gitlab_pr doc,
                 cf_triggers := (if gitlab_pr doc then [''merge_request''] else [''push''])\<rparr>)
      | _ \<Rightarrow> ci)"

definition circle_job :: "yaml \<times> yaml \<Rightarrow> string \<times> ci_job" where
  "circle_job entry =
     (yaml_str (fst entry),
      \<lparr>jb_name = yaml_str (fst entry), jb_items = collect_items (snd entry), jb_needs = [], jb_stage = None\<rparr>)"

text \<open>One job of a workflow: an unknown name makes a job of its own, \<open>requires\<close> adds needs.\<close>

definition workflow_entry :: "(string, ci_job) dict \<Rightarrow> yaml \<times> yaml \<Rightarrow> (string, ci_job) dict" where
  "workflow_entry jobs entry =
     (let name = yaml_str (fst entry);
          job = (case map_of jobs name of
                   Some j \<Rightarrow> j | None \<Rightarrow> \<lparr>jb_name = name, jb_items = [name], jb_needs = [], jb_stage = None\<rparr>);
          added = (case snd entry of Y_map options \<Rightarrow> as_list (get_or ''requires'' Y_null options) | _ \<Rightarrow> [])
      in dict_set name (job\<lparr>jb_needs := jb_needs job @ added\<rparr>) jobs)"

definition workflow_entries :: "yaml \<Rightarrow> (yaml \<times> yaml) list" where
  "workflow_entries workflow =
     (case workflow of
        Y_map kvs \<Rightarrow>
          (case get_or ''jobs'' (Y_list []) kvs of
             Y_list entries \<Rightarrow> concat (map (\<lambda>e. case e of Y_map options \<Rightarrow> options | _ \<Rightarrow> []) entries)
           | _ \<Rightarrow> [])
      | _ \<Rightarrow> [])"

definition parse_circleci :: "ci_file \<Rightarrow> yaml \<Rightarrow> ci_file" where
  "parse_circleci ci doc =
     (case doc of
        Y_map kvs \<Rightarrow>
          (let defined_jobs = (case yaml_get (Y_str ''jobs'') kvs of
                 Some (Y_map jobs) \<Rightarrow> foldl (\<lambda>d e. dict_set (fst (circle_job e)) (snd (circle_job e)) d) [] jobs | _ \<Rightarrow> []);
               entries = (case yaml_get (Y_str ''workflows'') kvs of
                 Some (Y_map workflows) \<Rightarrow> concat (map (workflow_entries \<circ> snd) workflows) | _ \<Rightarrow> [])
           in ci\<lparr>cf_jobs := map snd (foldl workflow_entry defined_jobs entries), cf_triggers := [''push'']\<rparr>)
      | _ \<Rightarrow> ci)"

definition on_pushes :: "bool \<Rightarrow> string list" where
  "on_pushes runs_on_pr = (if runs_on_pr then [''push'', ''pull_request''] else [''push''])"

definition parse_single_job :: "ci_file \<Rightarrow> yaml \<Rightarrow> ci_file" where
  "parse_single_job ci doc =
     (let ci' = ci\<lparr>cf_jobs := [\<lparr>jb_name = cf_provider ci, jb_items = collect_items doc, jb_needs = [], jb_stage = None\<rparr>]\<rparr>
      in case doc of
           Y_map kvs \<Rightarrow>
             if cf_provider ci = ''travis'' then ci'\<lparr>cf_runs_on_pr := True, cf_triggers := on_pushes True\<rparr>
             else if cf_provider ci = ''azure''
             then (let pr = (key_of (get_or ''pr'' (Y_str ''default'') kvs) \<notin> {Y_str ''none'', Y_int 0, Y_null})
                   in ci'\<lparr>cf_runs_on_pr := pr, cf_triggers := on_pushes pr\<rparr>)
             else if cf_provider ci = ''bitbucket''
             then (let pr = (case yaml_get (Y_str ''pipelines'') kvs of
                        Some (Y_map pipelines) \<Rightarrow> yaml_get (Y_str ''pull-requests'') pipelines \<noteq> None | _ \<Rightarrow> False)
                   in ci'\<lparr>cf_runs_on_pr := pr, cf_triggers := on_pushes pr\<rparr>)
             else ci'
         | _ \<Rightarrow> ci')"

subsection \<open>Jenkins\<close>

definition JENKINS_STEP :: rx where
  "JENKINS_STEP =
     Seqs [WordStart, Alts (map Str [''sh'', ''bat'', ''pwsh'', ''powershell'']), Star (Cls is_space), Opt (Chr CHR ''(''),
       Star (Cls is_space), Opt (Seqs [Str ''script'', Star (Cls is_space), Chr CHR '':'', Star (Cls is_space)])]"

text \<open>The body of a quoted text at a position and where it ends: the shortest one of a triple quote.\<close>

definition triple_body :: "char \<Rightarrow> string \<Rightarrow> nat \<Rightarrow> (string \<times> nat) option" where
  "triple_body q s i =
     (if \<not> starts_with [q, q, q] (drop i s) then None
      else map_option (\<lambda>k. (Regex_Scan.slice s (i + 3) k, k + 3)) (find (\<lambda>k. starts_with [q, q, q] (drop k s)) [i + 3..<length s]))"

definition line_body :: "char \<Rightarrow> string \<Rightarrow> nat \<Rightarrow> (string \<times> nat) option" where
  "line_body q s i =
     (if \<not> starts_with [q] (drop i s) then None
      else (let body = takeWhile (\<lambda>c. c \<noteq> q \<and> c \<noteq> CHR 0x0A) (drop (Suc i) s); k = Suc i + length body
            in if starts_with [q] (drop k s) then Some (body, Suc k) else None))"

definition quoted_body :: "string \<Rightarrow> nat \<Rightarrow> (string \<times> nat) list" where
  "quoted_body s i =
     List.map_filter id [triple_body CHR 0x27 s i, triple_body CHR 0x22 s i, line_body CHR 0x27 s i, line_body CHR 0x22 s i]"

function jenkins_bodies :: "string \<Rightarrow> nat \<Rightarrow> string list" where
  "jenkins_bodies s i =
     (if length s < i then []
      else (case concat (map (quoted_body s) (rx_ends JENKINS_STEP s i)) of
              [] \<Rightarrow> jenkins_bodies s (Suc i)
            | (body, j) # _ \<Rightarrow> body # jenkins_bodies s (max (Suc i) j)))"
  by pat_completeness auto
termination
  by (relation "measure (\<lambda>(s, i). Suc (length s) - i)") auto

declare jenkins_bodies.simps [simp del]

definition parse_jenkins :: "ci_file \<Rightarrow> string \<Rightarrow> ci_file" where
  "parse_jenkins ci text =
     (let pr = (rx_search (Str ''changeRequest'') text \<or> rx_search (Str ''CHANGE_ID'') text)
      in ci\<lparr>cf_jobs := [\<lparr>jb_name = ''Jenkinsfile'', jb_items = concat (map block_lines (jenkins_bodies text 0)), jb_needs = [], jb_stage = None\<rparr>],
            cf_runs_on_pr := pr, cf_triggers := on_pushes pr\<rparr>)"

section \<open>Files\<close>

text \<open>
  The names in the workflow directory, if it is one and no link; which paths are regular files and
  no links; size and text of a file, \<open>None\<close> for a failure of the system; and the YAML parser.
\<close>

record ci_env =
  ce_workflows :: "string list"
  ce_regular :: "string \<Rightarrow> bool"
  ce_size :: "string \<Rightarrow> int option"
  ce_text :: "string \<Rightarrow> string option"
  ce_yaml :: "string \<Rightarrow> yaml option"

definition MAX_CI_FILE_BYTES :: int where
  "MAX_CI_FILE_BYTES = 512 * 1024"

definition SINGLE_FILES :: "(string \<times> string) list" where
  "SINGLE_FILES =
     [(''.gitlab-ci.yml'', ''gitlab''), (''Jenkinsfile'', ''jenkins''), (''.circleci/config.yml'', ''circleci''),
      (''azure-pipelines.yml'', ''azure''), (''.travis.yml'', ''travis''), (''bitbucket-pipelines.yml'', ''bitbucket'')]"

definition discover_ci_files :: "ci_env \<Rightarrow> (string \<times> string) list" where
  "discover_ci_files env =
     map (\<lambda>name. (''.github/workflows/'' @ name, ''github''))
       (filter (\<lambda>name. path_suffix name \<in> {''.yml'', ''.yaml''} \<and> ce_regular env (''.github/workflows/'' @ name)) (sort (ce_workflows env)))
     @ filter (\<lambda>(rel, _). ce_regular env rel) SINGLE_FILES"

definition load_ci_file :: "ci_env \<Rightarrow> string \<Rightarrow> string \<Rightarrow> ci_file" where
  "load_ci_file env rel provider =
     (let ci = new_file rel provider
      in case ce_size env rel of
           None \<Rightarrow> ci\<lparr>cf_error := Some Unreadable\<rparr>
         | Some size_bytes \<Rightarrow>
             if MAX_CI_FILE_BYTES < size_bytes then ci\<lparr>cf_error := Some Too_large\<rparr>
             else (case ce_text env rel of
                     None \<Rightarrow> ci\<lparr>cf_error := Some Unreadable\<rparr>
                   | Some text \<Rightarrow>
                       if provider = ''jenkins'' then parse_jenkins ci text
                       else (case ce_yaml env text of
                               None \<Rightarrow> ci\<lparr>cf_error := Some Invalid_yaml\<rparr>
                             | Some doc \<Rightarrow>
                                 if provider = ''github'' then parse_github ci doc text
                                 else if provider = ''gitlab'' then parse_gitlab ci doc
                                 else if provider = ''circleci'' then parse_circleci ci doc
                                 else parse_single_job ci doc)))"

section \<open>Gating\<close>

definition job_named :: "ci_job list \<Rightarrow> string \<Rightarrow> ci_job option" where
  "job_named jobs name = map_of (rev (map (\<lambda>j. (jb_name j, j)) jobs)) name"

definition needs_of :: "ci_job list \<Rightarrow> string \<Rightarrow> string list" where
  "needs_of jobs name = (case job_named jobs name of None \<Rightarrow> [] | Some j \<Rightarrow> jb_needs j)"

definition needed_names :: "ci_job list \<Rightarrow> string set" where
  "needed_names jobs = (\<Union>j \<in> set jobs. set (jb_needs j))"

lemma job_named_in: "job_named jobs name = Some j \<Longrightarrow> j \<in> set jobs \<and> jb_name j = name"
  by (auto simp: job_named_def dest!: map_of_SomeD)

lemma needs_of_names: "set (needs_of jobs name) \<subseteq> needed_names jobs"
  using job_named_in [of jobs name] by (cases "job_named jobs name") (auto simp: needs_of_def needed_names_def)

text \<open>The loop of \<open>_ancestors\<close>, with the end of the list as the top of the stack.\<close>

function needed_before :: "ci_job list \<Rightarrow> string list \<Rightarrow> string list \<Rightarrow> string list" where
  "needed_before jobs seen stack =
     (if stack = [] then seen
      else if last stack \<in> set seen then needed_before jobs seen (butlast stack)
      else needed_before jobs (last stack # seen) (butlast stack @ needs_of jobs (last stack)))"
  by pat_completeness auto
termination
proof (relation "measures [\<lambda>(jobs, seen, stack). card (set stack \<union> needed_names jobs - set seen), \<lambda>(jobs, seen, stack). length stack]")
  fix jobs :: "ci_job list" and seen stack :: "string list"
  let ?card = "\<lambda>seen stack. card (set stack \<union> needed_names jobs - set seen)"
  have fin: "finite (set stack \<union> needed_names jobs - set seen)" by (simp add: needed_names_def)
  assume ne: "stack \<noteq> []"
  then have parts: "set stack = insert (last stack) (set (butlast stack))"
    by (metis append_butlast_last_id insert_is_Un list.simps(15) set_append Un_commute empty_set)
  {
    assume "last stack \<in> set seen"
    have "?card seen (butlast stack) \<le> ?card seen stack" using parts fin by (intro card_mono) auto
    then show "((jobs, seen, butlast stack), jobs, seen, stack) \<in> measures [\<lambda>(jobs, seen, stack). card (set stack \<union> needed_names jobs - set seen), \<lambda>(jobs, seen, stack). length stack]"
      using ne by auto
  next
    assume new: "last stack \<notin> set seen"
    have "set (butlast stack @ needs_of jobs (last stack)) \<union> needed_names jobs - set (last stack # seen) \<subset> set stack \<union> needed_names jobs - set seen"
      using new parts needs_of_names [of jobs "last stack"] by auto
    then show "((jobs, last stack # seen, butlast stack @ needs_of jobs (last stack)), jobs, seen, stack) \<in> measures [\<lambda>(jobs, seen, stack). card (set stack \<union> needed_names jobs - set seen), \<lambda>(jobs, seen, stack). length stack]"
      using psubset_card_mono [OF fin] by simp
  }
qed simp

declare needed_before.simps [simp del]

definition indices_of :: "string \<Rightarrow> string list \<Rightarrow> nat list" where
  "indices_of category items = map fst (filter (\<lambda>(i, item). category \<in> set (classify item)) (enumerate 0 items))"

definition test_jobs :: "ci_file \<Rightarrow> string list" where
  "test_jobs ci = map jb_name (filter (\<lambda>j. ''tests'' \<in> set (job_categories j)) (cf_jobs ci))"

definition gate_of :: "ci_file \<Rightarrow> ci_job \<Rightarrow> string option" where
  "gate_of ci job =
     (let builds = indices_of ''build'' (jb_items job); tests = indices_of ''tests'' (jb_items job);
          upstream = sort (remdups (filter (\<lambda>n. n \<in> set (test_jobs ci)) (needed_before (cf_jobs ci) [] (jb_needs job))))
      in if builds = [] then None
         else if upstream \<noteq> [] then Some (jb_name job @ '': needs '' @ join '', '' upstream)
         else if tests \<noteq> [] \<and> Min (set tests) < Max (set builds) then Some (jb_name job @ '': runs after tests in the same job'')
         else (case jb_stage job of
                 None \<Rightarrow> None
               | Some stage \<Rightarrow>
                   if list_ex (\<lambda>other. jb_name other \<in> set (test_jobs ci)
                        \<and> (case jb_stage other of None \<Rightarrow> False | Some earlier \<Rightarrow> earlier < stage)) (cf_jobs ci)
                   then Some (jb_name job @ '': later stage than the test jobs'') else None))"

definition gated_jobs :: "ci_file \<Rightarrow> string list" where
  "gated_jobs ci = List.map_filter (gate_of ci) (cf_jobs ci)"

section \<open>The signal\<close>

definition add_match :: "(string, string list) dict \<Rightarrow> string \<times> string \<Rightarrow> (string, string list) dict" where
  "add_match matched entry =
     (let (item, category) = entry; bucket = (case map_of matched category of None \<Rightarrow> [] | Some b \<Rightarrow> b); short_item = take 120 item
      in dict_set category (if length bucket < 5 \<and> short_item \<notin> set bucket then bucket @ [short_item] else bucket) matched)"

definition matched_items :: "ci_file \<Rightarrow> (string, string list) dict" where
  "matched_items ci =
     foldl add_match [] (concat (map (\<lambda>item. map (Pair item) (sort (classify item))) (concat (map jb_items (cf_jobs ci)))))"

definition file_categories :: "ci_file \<Rightarrow> string list" where
  "file_categories ci = filter (\<lambda>c. map_of (matched_items ci) c \<noteq> None) CI_CATEGORIES"

definition HINT_FILES :: "string list" where
  "HINT_FILES = [''.github/settings.yml'', ''.github/CODEOWNERS'', ''CODEOWNERS'', ''docs/CODEOWNERS'']"

definition REQUIRED_STATUS :: rx where
  "REQUIRED_STATUS = Alt (Str ''required_status_checks'') (Str ''required status'')"

definition settings_hint :: "ci_env \<Rightarrow> string \<Rightarrow> bool" where
  "settings_hint env rel \<longleftrightarrow>
     ce_regular env rel
     \<and> (case ce_size env rel of None \<Rightarrow> False | Some n \<Rightarrow> n \<le> MAX_CI_FILE_BYTES)
     \<and> (case ce_text env rel of None \<Rightarrow> False | Some text \<Rightarrow> rx_search REQUIRED_STATUS (lower text))"

text \<open>Each hint with the file it is about.\<close>

definition protection_hints :: "ci_env \<Rightarrow> ci_file list \<Rightarrow> (string \<times> string) list" where
  "protection_hints env files =
     map (\<lambda>rel. (rel, ''required status checks'')) (filter (settings_hint env) HINT_FILES)
     @ concat (map (\<lambda>ci. map (Pair (cf_path ci)) (filter (\<lambda>g. rx_search (Str '': needs '') g) (gated_jobs ci))) files)
     @ map (\<lambda>ci. (cf_path ci, ''pull_request-only conditions'')) (filter cf_pr_condition files)"

definition flag :: "bool \<Rightarrow> real" where
  "flag b = (if b then 1 else 0)"

definition ci_components :: "ci_env \<Rightarrow> ci_file list \<Rightarrow> (string \<times> real option) list" where
  "ci_components env files =
     (let present = concat (map file_categories files)
      in map (\<lambda>c. (c, Some (flag (c \<in> set present)))) CI_CATEGORIES
         @ [(''pr_trigger'', Some (flag (list_ex cf_runs_on_pr files))),
            (''gating'',
              if ''build'' \<in> set present
              then Some (flag (list_ex (\<lambda>ci. gated_jobs ci \<noteq> []) files \<or> protection_hints env files \<noteq> [])) else None)])"

definition analyze_ci :: "ci_env \<Rightarrow> health_report" where
  "analyze_ci env =
     (let files = map (\<lambda>(rel, provider). load_ci_file env rel provider) (discover_ci_files env)
      in if files = [] then inapplicable_report
         else (let components = ci_components env files
               in \<lparr>sr_applicable = True, sr_score = mean_score components, sr_components = components\<rparr>))"

end
