(* ===== verification/CI_Quality_Props.thy ===== *)
theory CI_Quality_Props
  imports CI_Quality
begin

text \<open>
  The pipeline signal against what its documentation promises: a category counts exactly if some
  command of some file belongs to it, and gating means that a job that builds waits for a test
  job, along any chain of needs, or in its own steps, or by its stage.
\<close>

section \<open>Needs\<close>

definition needs_rel :: "ci_job list \<Rightarrow> (string \<times> string) set" where
  "needs_rel jobs = {(m, n). n \<in> set (needs_of jobs m)}"

lemma closure_of_closed:
  assumes "\<forall>m \<in> S. r `` {m} \<subseteq> S \<union> T"
  shows "r\<^sup>* `` S \<subseteq> S \<union> r\<^sup>* `` T"
proof
  fix y
  assume "y \<in> r\<^sup>* `` S"
  then obtain x where x: "x \<in> S" "(x, y) \<in> r\<^sup>*" by blast
  from x(2,1) show "y \<in> S \<union> r\<^sup>* `` T"
  proof (induction rule: rtrancl_induct)
    case (step y z)
    then show ?case using assms by (auto intro: rtrancl_into_rtrancl)
  qed simp
qed

lemma rtrancl_Image_insert: "r\<^sup>* `` {x} = insert x (r\<^sup>* `` (r `` {x}))"
  by (auto intro: converse_rtrancl_into_rtrancl elim: converse_rtranclE)

lemma needed_before_reaches:
  assumes "\<forall>m \<in> set seen. needs_rel jobs `` {m} \<subseteq> set seen \<union> set stack"
  shows "set (needed_before jobs seen stack) = set seen \<union> (needs_rel jobs)\<^sup>* `` set stack"
  using assms
proof (induction jobs seen stack rule: needed_before.induct)
  case (1 jobs seen stack)
  let ?r = "needs_rel jobs"
  show ?case
  proof (cases "stack = []")
    case True
    then show ?thesis by (simp add: needed_before.simps)
  next
    case False
    let ?top = "last stack"
    have parts: "set stack = insert ?top (set (butlast stack))"
      using False by (metis append_butlast_last_id insert_is_Un list.simps(15) set_append Un_commute empty_set)
    have split: "?r\<^sup>* `` set stack = ?r\<^sup>* `` {?top} \<union> ?r\<^sup>* `` set (butlast stack)" unfolding parts by blast
    show ?thesis
    proof (cases "?top \<in> set seen")
      case True
      have closed: "\<forall>m \<in> set seen. ?r `` {m} \<subseteq> set seen \<union> set (butlast stack)" using "1.prems" parts True by auto
      have "set (needed_before jobs seen stack) = set seen \<union> ?r\<^sup>* `` set (butlast stack)"
        using "1.IH"(1) [OF False True closed] False True by (simp add: needed_before.simps [of jobs seen stack])
      moreover have "?r\<^sup>* `` {?top} \<subseteq> set seen \<union> ?r\<^sup>* `` set (butlast stack)"
        using closure_of_closed [OF closed] True by blast
      ultimately show ?thesis using split by blast
    next
      case new: False
      have succ: "set (needs_of jobs ?top) = ?r `` {?top}" by (auto simp: needs_rel_def)
      have closed: "\<forall>m \<in> set (?top # seen). ?r `` {m} \<subseteq> set (?top # seen) \<union> set (butlast stack @ needs_of jobs ?top)"
        using "1.prems" parts succ by auto
      have "set (needed_before jobs seen stack) = insert ?top (set seen) \<union> ?r\<^sup>* `` (set (butlast stack) \<union> ?r `` {?top})"
        using "1.IH"(2) [OF False new closed] False new succ by (simp add: needed_before.simps [of jobs seen stack])
      then show ?thesis unfolding split rtrancl_Image_insert by blast
    qed
  qed
qed

lemma needed_before_iff:
  "n \<in> set (needed_before jobs [] (jb_needs job)) \<longleftrightarrow> (\<exists>m \<in> set (jb_needs job). (m, n) \<in> (needs_rel jobs)\<^sup>*)"
  using needed_before_reaches [of "[]" jobs "jb_needs job"] by auto

section \<open>What a job waits for\<close>

definition runs_in :: "string \<Rightarrow> ci_job \<Rightarrow> bool" where
  "runs_in category job \<longleftrightarrow> (\<exists>item \<in> set (jb_items job). category \<in> set (classify item))"

definition is_test_job :: "ci_file \<Rightarrow> string \<Rightarrow> bool" where
  "is_test_job ci name \<longleftrightarrow> (\<exists>j \<in> set (cf_jobs ci). jb_name j = name \<and> runs_in ''tests'' j)"

definition needs_tests :: "ci_file \<Rightarrow> ci_job \<Rightarrow> bool" where
  "needs_tests ci job \<longleftrightarrow> (\<exists>m n. m \<in> set (jb_needs job) \<and> (m, n) \<in> (needs_rel (cf_jobs ci))\<^sup>* \<and> is_test_job ci n)"

definition tests_first :: "ci_job \<Rightarrow> bool" where
  "tests_first job \<longleftrightarrow>
     (\<exists>i j. i < j \<and> j < length (jb_items job) \<and> ''tests'' \<in> set (classify (jb_items job ! i))
        \<and> ''build'' \<in> set (classify (jb_items job ! j)))"

definition later_stage :: "ci_file \<Rightarrow> ci_job \<Rightarrow> bool" where
  "later_stage ci job \<longleftrightarrow>
     (\<exists>stage other earlier. jb_stage job = Some stage \<and> other \<in> set (cf_jobs ci) \<and> is_test_job ci (jb_name other)
        \<and> jb_stage other = Some earlier \<and> earlier < stage)"

definition build_gated :: "ci_file \<Rightarrow> ci_job \<Rightarrow> bool" where
  "build_gated ci job \<longleftrightarrow> runs_in ''build'' job \<and> (needs_tests ci job \<or> tests_first job \<or> later_stage ci job)"

lemma set_indices_of: "set (indices_of c items) = {i. i < length items \<and> c \<in> set (classify (items ! i))}"
  by (force simp: indices_of_def in_set_enumerate_eq)

lemma indices_of_Nil: "indices_of c (jb_items job) = [] \<longleftrightarrow> \<not> runs_in c job"
  unfolding set_empty [symmetric] set_indices_of runs_in_def by (simp add: all_set_conv_all_nth)

lemma test_jobs_iff: "n \<in> set (test_jobs ci) \<longleftrightarrow> is_test_job ci n"
  by (auto simp: test_jobs_def is_test_job_def runs_in_def job_categories_def)

lemma tests_first_iff:
  "indices_of ''tests'' (jb_items job) \<noteq> []
     \<and> Min (set (indices_of ''tests'' (jb_items job))) < Max (set (indices_of ''build'' (jb_items job)))
   \<longleftrightarrow> tests_first job"
  if "indices_of ''build'' (jb_items job) \<noteq> []"
proof (cases "indices_of ''tests'' (jb_items job) = []")
  case True
  then have "set (indices_of ''tests'' (jb_items job)) = {}" by simp
  then show ?thesis using True unfolding tests_first_def set_indices_of by auto
next
  case False
  have "Min (set (indices_of ''tests'' (jb_items job))) < Max (set (indices_of ''build'' (jb_items job)))
      \<longleftrightarrow> (\<exists>i \<in> set (indices_of ''tests'' (jb_items job)). \<exists>j \<in> set (indices_of ''build'' (jb_items job)). i < j)"
    using False that by (simp add: Min_less_iff Max_gr_iff) blast
  also have "\<dots> \<longleftrightarrow> tests_first job"
    unfolding tests_first_def set_indices_of by (auto intro: less_trans)
  finally show ?thesis using False by simp
qed

lemma gate_of_iff: "gate_of ci job \<noteq> None \<longleftrightarrow> build_gated ci job"
proof (cases "indices_of ''build'' (jb_items job) = []")
  case True
  then show ?thesis using indices_of_Nil [of "''build''" job] by (simp add: gate_of_def build_gated_def)
next
  case False
  have up: "sort (remdups (filter (\<lambda>n. n \<in> set (test_jobs ci)) (needed_before (cf_jobs ci) [] (jb_needs job)))) \<noteq> []
      \<longleftrightarrow> needs_tests ci job"
    unfolding set_empty [symmetric] set_sort set_remdups set_filter needed_before_iff test_jobs_iff needs_tests_def by blast
  have stage: "(case jb_stage job of None \<Rightarrow> None
      | Some stage \<Rightarrow> if list_ex (\<lambda>other. jb_name other \<in> set (test_jobs ci)
            \<and> (case jb_stage other of None \<Rightarrow> False | Some earlier \<Rightarrow> earlier < stage)) (cf_jobs ci) then Some r else None) \<noteq> None
      \<longleftrightarrow> later_stage ci job" for r :: string
    by (auto simp: later_stage_def test_jobs_iff list_ex_iff split: option.splits)
  show ?thesis
    using False up stage tests_first_iff [OF False] indices_of_Nil [of "''build''" job]
    unfolding gate_of_def Let_def build_gated_def by (simp del: set_sort sort_key_simps)
qed

lemma gated_jobs_iff: "gated_jobs ci \<noteq> [] \<longleftrightarrow> (\<exists>job \<in> set (cf_jobs ci). build_gated ci job)"
proof -
  have "gated_jobs ci \<noteq> [] \<longleftrightarrow> (\<exists>job \<in> set (cf_jobs ci). gate_of ci job \<noteq> None)"
    unfolding gated_jobs_def set_empty [symmetric] set_map_filter by auto
  then show ?thesis unfolding gate_of_iff .
qed

section \<open>Categories\<close>

lemma add_match_keys: "fst ` set (foldl add_match d xs) = fst ` set d \<union> snd ` set xs"
proof (induction xs arbitrary: d)
  case (Cons x xs)
  have "fst ` set (add_match d x) = insert (snd x) (fst ` set d)"
    by (cases x) (simp add: add_match_def Let_def dict_set_keys)
  then show ?case by (simp add: Cons.IH)
qed simp

lemma file_categories_iff:
  "c \<in> set (file_categories ci) \<longleftrightarrow> c \<in> set CI_CATEGORIES \<and> (\<exists>job \<in> set (cf_jobs ci). runs_in c job)"
proof -
  have "map_of (matched_items ci) c \<noteq> None \<longleftrightarrow> c \<in> fst ` set (matched_items ci)" by (simp add: map_of_eq_None_iff)
  also have "\<dots> \<longleftrightarrow> (\<exists>job \<in> set (cf_jobs ci). runs_in c job)"
    unfolding matched_items_def add_match_keys by (force simp: runs_in_def)
  finally show ?thesis by (auto simp: file_categories_def)
qed

section \<open>The signal\<close>

definition ci_files :: "ci_env \<Rightarrow> ci_file list" where
  "ci_files env = map (\<lambda>(rel, provider). load_ci_file env rel provider) (discover_ci_files env)"

definition any_runs :: "ci_env \<Rightarrow> string \<Rightarrow> bool" where
  "any_runs env category \<longleftrightarrow> (\<exists>ci \<in> set (ci_files env). \<exists>job \<in> set (cf_jobs ci). runs_in category job)"

definition any_gated :: "ci_env \<Rightarrow> bool" where
  "any_gated env \<longleftrightarrow> (\<exists>ci \<in> set (ci_files env). \<exists>job \<in> set (cf_jobs ci). build_gated ci job)"

lemma flag_unit: "in_unit (Some (flag b))"
  by (simp add: flag_def)

lemma ci_components_unit: "(name, v) \<in> set (ci_components env files) \<Longrightarrow> in_unit v"
  using flag_unit by (auto simp: ci_components_def Let_def)

interpretation ci_signal: signal_contract "\<lambda>env. ci_files env \<noteq> []" "\<lambda>env. ci_components env (ci_files env)" analyze_ci
proof
  show "in_unit v" if "(name, v) \<in> set (ci_components env (ci_files env))" for name v env
    using that by (rule ci_components_unit)
qed (simp add: analyze_ci_def ci_files_def Let_def)


definition example_ci :: ci_env where
  "example_ci = \<lparr>ce_workflows = [], ce_regular = (\<lambda>rel. rel = ''Jenkinsfile''), ce_size = (\<lambda>_. None), ce_text = (\<lambda>_. None),
     ce_yaml = (\<lambda>_. None)\<rparr>"


text \<open>A line that installs something is skipped as a whole, whatever it runs after that.\<close>

lemma install_hides_tests: "classify ''npm ci && npm test'' = []"
  by code_simp

end
