(* ===== verification/Syntax_Trees.thy ===== *)
theory Syntax_Trees
  imports Imports Findings
begin

text \<open>
  The syntax trees of tree-sitter as values, whose nodes know the field of the parent they fill; a
  node in a tree is the node with its ancestors, each with the position of the child on the way.
  The traversal is that of \<open>graph/parser.py\<close>, and the loop over the source files is
  \<open>iter_source_trees\<close> of \<open>analyzers/error_handling.py\<close>.
\<close>

section \<open>Syntax trees\<close>

datatype node = Node
  (nd_type: string) (nd_named: bool) (nd_field: "string option") (nd_text: string) (nd_start: nat) (nd_row: nat) (nd_end_row: nat)
  (nd_children: "node list")

type_synonym node_path = "(node \<times> nat) list"

type_synonym located = "node \<times> node_path"

definition field_entry :: "node \<Rightarrow> string \<Rightarrow> (nat \<times> node) option" where
  "field_entry n f = find (\<lambda>(_, c). nd_field c = Some f) (enumerate 0 (nd_children n))"

definition child_field :: "node \<Rightarrow> string \<Rightarrow> node option" where
  "child_field n f = map_option snd (field_entry n f)"

definition field_position :: "node \<Rightarrow> string \<Rightarrow> nat option" where
  "field_position n f = map_option fst (field_entry n f)"

definition named_children :: "node \<Rightarrow> node list" where
  "named_children n = filter nd_named (nd_children n)"

definition code_children :: "node \<Rightarrow> node list" where
  "code_children n = filter (\<lambda>c. nd_type c \<noteq> ''comment'') (named_children n)"

definition text_of :: "node option \<Rightarrow> string" where
  "text_of n = (case n of None \<Rightarrow> [] | Some m \<Rightarrow> nd_text m)"

definition node_line :: "node \<Rightarrow> int" where
  "node_line n = int (nd_row n) + 1"

lemma child_smaller: "c \<in> set (nd_children n) \<Longrightarrow> size c < size n"
  by (cases n) (auto simp: less_Suc_eq_le intro: size_list_estimation')

lemma child_field_in: "child_field n f = Some c \<Longrightarrow> c \<in> set (nd_children n)"
  by (auto simp: child_field_def field_entry_def in_set_enumerate_eq dest!: find_SomeD)

lemma named_children_in: "named_children n = c # cs \<Longrightarrow> c \<in> set (nd_children n)"
  using filter_is_subset [of nd_named "nd_children n"] by (auto simp: named_children_def)

text \<open>\<open>_walk\<close>: the loop over an explicit stack, here with its top in front.\<close>

definition sub_nodes :: "located \<Rightarrow> located list" where
  "sub_nodes x = map (\<lambda>(i, c). (c, (fst x, i) # snd x)) (enumerate 0 (nd_children (fst x)))"

definition stack_size :: "located list \<Rightarrow> nat" where
  "stack_size st = sum_list (map (size \<circ> fst) st)"

lemma stack_size_sub: "stack_size (sub_nodes x) < size (fst x)"
proof -
  have "map (size \<circ> fst) (sub_nodes x) = map size (nd_children (fst x))"
    by (simp add: sub_nodes_def comp_def case_prod_unfold flip: map_map [of size snd, unfolded comp_def])
  then show ?thesis by (cases "fst x") (simp add: stack_size_def size_list_conv_sum_list)
qed

function walk_stack :: "located list \<Rightarrow> located list" where
  "walk_stack [] = []"
| "walk_stack (x # st) = x # walk_stack (sub_nodes x @ st)"
  by pat_completeness auto
termination
  using stack_size_sub by (relation "measure stack_size") (auto simp: stack_size_def)

definition walk_tree :: "node \<Rightarrow> located list" where
  "walk_tree n = walk_stack [(n, [])]"

section \<open>The traversal\<close>

fun preorder :: "node \<Rightarrow> node list" where
  "preorder (Node t nm f tx b r er cs) = Node t nm f tx b r er cs # concat (map preorder cs)"

lemma preorder_unfold: "preorder n = n # concat (map preorder (nd_children n))"
  by (cases n) simp

lemma fst_sub_nodes: "map fst (sub_nodes x) = nd_children (fst x)"
proof -
  have "map fst (sub_nodes x) = map snd (enumerate 0 (nd_children (fst x)))"
    by (simp add: sub_nodes_def comp_def case_prod_unfold)
  then show ?thesis by simp
qed

lemma walk_stack_preorder: "map fst (walk_stack st) = concat (map (preorder \<circ> fst) st)"
proof (induction st rule: walk_stack.induct)
  case (2 x st)
  have "concat (map (\<lambda>a. preorder (fst a)) (sub_nodes x)) = concat (map preorder (nd_children (fst x)))"
    unfolding fst_sub_nodes [symmetric] by (simp add: comp_def)
  then show ?case using 2 by (simp add: preorder_unfold [of "fst x"])
qed simp

text \<open>
  The traversal with an explicit stack is the recursive one: it ends and yields every node of
  the tree exactly once, parents before children and in the order of the source.
\<close>

theorem walk_tree_preorder: "map fst (walk_tree n) = preorder n"
  unfolding walk_tree_def walk_stack_preorder by simp

section \<open>A repository\<close>

record source_file =
  sc_path :: string
  sc_size :: "int option"
  sc_bytes :: string
  sc_tree :: node

definition MAX_FILE_BYTES :: int where
  "MAX_FILE_BYTES = 1024 * 1024"

text \<open>\<open>bytes.splitlines\<close> and \<open>bytes.strip\<close> know ASCII only.\<close>

definition is_byte_space :: "char \<Rightarrow> bool" where
  "is_byte_space c \<longleftrightarrow> code c \<in> {9, 10, 11, 12, 13, 32}"

fun byte_lines_from :: "string \<Rightarrow> string \<Rightarrow> string list" where
  "byte_lines_from acc [] = (if acc = [] then [] else [acc])"
| "byte_lines_from acc [c] = (if c = CHR 0x0A \<or> c = CHR 0x0D then [acc] else [acc @ [c]])"
| "byte_lines_from acc (c # d # cs) =
     (if c = CHR 0x0D \<and> d = CHR 0x0A then acc # byte_lines_from [] cs
      else if c = CHR 0x0A \<or> c = CHR 0x0D then acc # byte_lines_from [] (d # cs)
      else byte_lines_from (acc @ [c]) (d # cs))"

definition non_blank_lines :: "string \<Rightarrow> nat" where
  "non_blank_lines s = length (filter (\<lambda>l. \<not> list_all is_byte_space l) (byte_lines_from [] s))"

text \<open>Whether a file is read, skipped with a remark or not looked at.\<close>

datatype file_use = Not_source | Skipped | Parsed string

definition file_use_of :: "source_file \<Rightarrow> file_use" where
  "file_use_of f =
     (if is_test_path (sc_path f) then Not_source
      else (case language_for (sc_path f) of
              None \<Rightarrow> Not_source
            | Some (language, _) \<Rightarrow>
                (case sc_size f of
                   None \<Rightarrow> Skipped | Some n \<Rightarrow> if MAX_FILE_BYTES < n then Skipped else Parsed language)))"

definition fold_trees :: "(source_file \<Rightarrow> string \<Rightarrow> 's \<Rightarrow> 's) \<Rightarrow> 's \<Rightarrow> source_file list \<Rightarrow> 's" where
  "fold_trees visit_tree start files =
     foldl (\<lambda>s f. case file_use_of f of Parsed language \<Rightarrow> visit_tree f language s | _ \<Rightarrow> s) start files"

text \<open>A collector keeps a promise about what it has collected, tree by tree.\<close>

locale tree_collector =
  fixes start :: 's
    and visit_tree :: "source_file \<Rightarrow> string \<Rightarrow> 's \<Rightarrow> 's"
    and promise :: "'s \<Rightarrow> bool"
  assumes promise_start: "promise start"
    and promise_visit: "promise s \<Longrightarrow> promise (visit_tree f language s)"
begin

lemma promise_fold: "promise s \<Longrightarrow> promise (fold_trees visit_tree s files)"
proof (induction files arbitrary: s)
  case (Cons f files)
  then show ?case using promise_visit by (cases "file_use_of f") (simp_all add: fold_trees_def)
qed (simp add: fold_trees_def)

lemma collected_promise: "promise (fold_trees visit_tree start files)"
  using promise_start by (rule promise_fold)

end

definition parsed_language :: "source_file \<Rightarrow> string option" where
  "parsed_language f = (case file_use_of f of Parsed language \<Rightarrow> Some language | _ \<Rightarrow> None)"

definition files_parsed :: "source_file list \<Rightarrow> nat" where
  "files_parsed files = length (List.map_filter parsed_language files)"

end
