(* ===== verification/Error_Handling.thy ===== *)
theory Error_Handling
  imports Syntax_Trees Signals Regex_Scan
begin

text \<open>
  \<open>analyzers/error_handling.py\<close>: swallowed exceptions, unguarded input and output and unhandled
  promises, on syntax trees.  The trees, sizes and file list are arguments.
\<close>

section \<open>Where a node stands\<close>

definition PY_FUNCTIONS :: "string list" where
  "PY_FUNCTIONS = [''function_definition'', ''lambda'']"

definition JS_FUNCTIONS :: "string list" where
  "JS_FUNCTIONS =
     [''function_declaration'', ''function_expression'', ''function'', ''generator_function_declaration'', ''generator_function'',
      ''arrow_function'', ''method_definition'']"

fun inside_try_body :: "string list \<Rightarrow> node_path \<Rightarrow> bool" where
  "inside_try_body functions [] = False"
| "inside_try_body functions ((p, i) # anc) =
     (if nd_type p \<in> set functions then False
      else if nd_type p = ''try_statement'' \<and> field_position p ''body'' = Some i then True
      else inside_try_body functions anc)"

section \<open>Python\<close>

definition PY_BROAD :: "string list" where
  "PY_BROAD = [''Exception'', ''BaseException'']"

definition PY_EXPECTED :: "string list" where
  "PY_EXPECTED =
     [''KeyError'', ''IndexError'', ''LookupError'', ''AttributeError'', ''StopIteration'', ''StopAsyncIteration'', ''ImportError'',
      ''ModuleNotFoundError'', ''FileNotFoundError'', ''FileExistsError'', ''NotADirectoryError'', ''IsADirectoryError'',
      ''ProcessLookupError'']"

definition PY_LOG_OBJECTS :: "string list" where
  "PY_LOG_OBJECTS = [''logger'', ''logging'', ''log'', ''_logger'', ''_log'', ''LOGGER'', ''LOG'']"

definition PY_LOG_METHODS :: "string list" where
  "PY_LOG_METHODS = [''debug'', ''info'', ''warning'', ''warn'', ''error'', ''exception'', ''critical'', ''fatal'', ''log'']"

definition PY_REPORT_CALLS :: "string list" where
  "PY_REPORT_CALLS =
     [''warnings.warn'', ''traceback.print_exc'', ''traceback.print_exception'', ''sentry_sdk.capture_exception'', ''capture_exception'']"

definition PY_HTTP_VERBS :: "string list" where
  "PY_HTTP_VERBS = [''get'', ''post'', ''put'', ''patch'', ''delete'', ''head'', ''options'', ''request'', ''stream'']"

definition PY_IO_EXACT :: "string list" where
  "PY_IO_EXACT = [''open'', ''io.open'', ''urlopen'', ''urllib.request.urlopen'', ''aiohttp.request'']"

definition PY_IO_MODULE_FUNCTIONS :: "(string \<times> string list) list" where
  "PY_IO_MODULE_FUNCTIONS =
     [(''requests'', PY_HTTP_VERBS), (''httpx'', PY_HTTP_VERBS), (''aiohttp'', PY_HTTP_VERBS),
      (''socket'', [''create_connection'', ''create_server'', ''getaddrinfo'', ''gethostbyname'', ''gethostbyname_ex'', ''gethostbyaddr'']),
      (''subprocess'', [''run'', ''call'', ''check_call'', ''check_output'', ''Popen'', ''getoutput'', ''getstatusoutput'']),
      (''os'', [''remove'', ''unlink'', ''rename'', ''replace'', ''rmdir'', ''removedirs'', ''mkdir'', ''makedirs'', ''listdir'', ''scandir'',
         ''open'', ''system'', ''popen'', ''chmod'', ''chown'', ''symlink'', ''link'']),
      (''shutil'', [''copy'', ''copy2'', ''copyfile'', ''copytree'', ''move'', ''rmtree''])]"

definition PY_IO_METHODS :: "string list" where
  "PY_IO_METHODS = [''execute'', ''executemany'', ''read_text'', ''write_text'', ''read_bytes'', ''write_bytes'']"

definition python_io_call :: "node \<Rightarrow> bool" where
  "python_io_call call =
     (case child_field call ''function'' of
        None \<Rightarrow> False
      | Some f \<Rightarrow>
          nd_text f \<in> set PY_IO_EXACT
          \<or> nd_type f = ''attribute''
             \<and> (let method = text_of (child_field f ''attribute'')
                in method \<in> set PY_IO_METHODS
                   \<or> (case map_of PY_IO_MODULE_FUNCTIONS (text_of (child_field f ''object'')) of
                         None \<Rightarrow> False | Some names \<Rightarrow> method \<in> set names)))"

definition py_log_call :: "node \<Rightarrow> bool" where
  "py_log_call call \<longleftrightarrow>
     (let f = child_field call ''function''
      in text_of f \<in> set PY_REPORT_CALLS
         \<or> (case f of
               None \<Rightarrow> False
             | Some g \<Rightarrow>
                 nd_type g = ''attribute''
                 \<and> (let method = text_of (child_field g ''attribute''); owner = after_last CHR ''.'' (text_of (child_field g ''object''))
                    in (owner \<in> set PY_LOG_OBJECTS \<or> ends_with ''logger'' (lower owner)) \<and> method \<in> set PY_LOG_METHODS)))"

text \<open>The caught types, the bound name and the body of an except clause.\<close>

definition clause_parts :: "node \<Rightarrow> node list" where
  "clause_parts clause = filter (\<lambda>c. nd_type c \<notin> {''block'', ''comment''}) (named_children clause)"

definition caught_type :: "node \<Rightarrow> node option" where
  "caught_type child =
     (if nd_type child = ''as_pattern'' then (case named_children child of [] \<Rightarrow> None | c # _ \<Rightarrow> Some c) else Some child)"

definition caught_names :: "node \<Rightarrow> string list" where
  "caught_names child =
     (case caught_type child of
        None \<Rightarrow> []
      | Some t \<Rightarrow> map (\<lambda>e. after_last CHR ''.'' (nd_text e)) (if nd_type t = ''tuple'' then named_children t else [t]))"

definition bound_name :: "node \<Rightarrow> string option" where
  "bound_name clause =
     foldl (\<lambda>alias c. if nd_type c = ''as_pattern''
                      then (let s = text_of (child_field c ''alias'') in if s = [] then None else Some s) else alias)
       None (clause_parts clause)"

definition py_handler_parts :: "node \<Rightarrow> string list \<times> string option \<times> node option" where
  "py_handler_parts clause =
     (concat (map caught_names (clause_parts clause)), bound_name clause,
      find (\<lambda>c. nd_type c = ''block'') (named_children clause))"

text \<open>The nodes of a block, not those of functions and classes defined in it.\<close>

definition opaque :: "node \<Rightarrow> bool" where
  "opaque n \<longleftrightarrow> nd_type n \<in> {''function_definition'', ''class_definition'', ''lambda''}"

function own_stack :: "node list \<Rightarrow> node list" where
  "own_stack [] = []"
| "own_stack (n # st) = n # own_stack ((if opaque n then [] else nd_children n) @ st)"
  by pat_completeness auto
termination
proof (relation "measure (\<lambda>st. sum_list (map size st))")
  fix n :: node and st
  have "sum_list (map size (nd_children n)) < size n" by (cases n) (simp add: size_list_conv_sum_list)
  then show "((if opaque n then [] else nd_children n) @ st, n # st) \<in> measure (\<lambda>st. sum_list (map size st))"
    by (cases n) auto
qed simp

definition own_nodes :: "node \<Rightarrow> node list" where
  "own_nodes body = own_stack (nd_children body)"

definition py_trivial_body :: "node \<Rightarrow> bool" where
  "py_trivial_body body \<longleftrightarrow>
     list_all (\<lambda>s. nd_type s = ''pass_statement''
         \<or> nd_type s = ''expression_statement'' \<and> (case named_children s of [e] \<Rightarrow> nd_type e = ''ellipsis'' | _ \<Rightarrow> False))
       (code_children body)"

definition handles :: "string option \<Rightarrow> node \<Rightarrow> bool" where
  "handles alias n \<longleftrightarrow>
     nd_type n = ''raise_statement'' \<or> nd_type n = ''call'' \<and> py_log_call n
     \<or> (case alias of None \<Rightarrow> False | Some a \<Rightarrow> nd_type n = ''identifier'' \<and> nd_text n = a)"

definition py_swallow_rule :: "node \<Rightarrow> string option" where
  "py_swallow_rule clause =
     (let (types, alias, body) = py_handler_parts clause
      in if types = [] then Some ''bare-except''
         else (case body of
                 None \<Rightarrow> None
               | Some b \<Rightarrow>
                   if list_ex (\<lambda>t. t \<in> set PY_BROAD) types \<and> py_trivial_body b then Some ''swallowed-broad-except''
                   else if \<not> list_all (\<lambda>t. t \<in> set PY_EXPECTED) types \<and> \<not> list_ex (handles alias) (own_nodes b)
                   then Some ''exception-ignored'' else None))"

definition guards_large_block :: "node \<Rightarrow> node_path \<Rightarrow> bool" where
  "guards_large_block clause anc \<longleftrightarrow>
     (let types = fst (py_handler_parts clause)
      in (types = [] \<or> list_ex (\<lambda>t. t \<in> set PY_BROAD) types)
         \<and> (case anc of
               [] \<Rightarrow> False
             | (try_statement, _) # _ \<Rightarrow>
                 (case child_field try_statement ''body'' of
                    None \<Rightarrow> False | Some b \<Rightarrow> 25 < int (nd_end_row b) - int (nd_row b) + 1)))"

section \<open>What is collected\<close>

record eh_finding =
  ef_rule :: string
  ef_path :: string
  ef_line :: int
  ef_end_line :: int
  ef_snippet :: string

record collected =
  co_findings :: "eh_finding list"
  co_handlers :: nat
  co_io_sites :: nat
  co_io_wrapped :: nat
  co_promise_sites :: nat
  co_unwrapped :: "(string \<times> int) list"

definition nothing_collected :: collected where
  "nothing_collected =
     \<lparr>co_findings = [], co_handlers = 0, co_io_sites = 0, co_io_wrapped = 0, co_promise_sites = 0, co_unwrapped = []\<rparr>"

definition snippet_of :: "node \<Rightarrow> string" where
  "snippet_of n = (if nd_text n = [] then [] else take 200 (strip (hd (splitlines (nd_text n)))))"

definition add_eh :: "string \<Rightarrow> string \<Rightarrow> node \<Rightarrow> collected \<Rightarrow> collected" where
  "add_eh rule path n out =
     out\<lparr>co_findings := co_findings out @
       [\<lparr>ef_rule = rule, ef_path = path, ef_line = node_line n, ef_end_line = int (nd_end_row n) + 1, ef_snippet = snippet_of n\<rparr>]\<rparr>"

definition add_rule :: "string option \<Rightarrow> string \<Rightarrow> node \<Rightarrow> collected \<Rightarrow> collected" where
  "add_rule rule path n out = (case rule of None \<Rightarrow> out | Some r \<Rightarrow> add_eh r path n out)"

definition add_io_site :: "bool \<Rightarrow> string \<Rightarrow> node \<Rightarrow> collected \<Rightarrow> collected" where
  "add_io_site wrapped path n out =
     (let out' = out\<lparr>co_io_sites := Suc (co_io_sites out)\<rparr>
      in if wrapped then out'\<lparr>co_io_wrapped := Suc (co_io_wrapped out)\<rparr>
         else out'\<lparr>co_unwrapped := co_unwrapped out @ [(path, node_line n)]\<rparr>)"

definition python_handler :: "string \<Rightarrow> located \<Rightarrow> collected \<Rightarrow> collected" where
  "python_handler path x out =
     (let (clause, anc) = x;
          out' = add_rule (py_swallow_rule clause) path clause (out\<lparr>co_handlers := Suc (co_handlers out)\<rparr>)
      in if guards_large_block clause anc then add_eh ''broad-except-large-block'' path clause out' else out')"

definition python_step :: "string \<Rightarrow> collected \<Rightarrow> located \<Rightarrow> collected" where
  "python_step path out x =
     (if nd_type (fst x) = ''except_clause'' then python_handler path x out
      else if nd_type (fst x) = ''call'' \<and> python_io_call (fst x)
      then add_io_site (inside_try_body PY_FUNCTIONS (snd x)) path (fst x) out
      else out)"

section \<open>JavaScript and TypeScript\<close>

definition JS_HTTP_VERBS :: "string list" where
  "JS_HTTP_VERBS = [''get'', ''post'', ''put'', ''patch'', ''delete'', ''head'', ''options'', ''request'']"

definition JS_IO_EXACT :: "string list" where
  "JS_IO_EXACT =
     [''fetch'', ''window.fetch'', ''globalThis.fetch'', ''axios'', ''http.request'', ''http.get'', ''https.request'', ''https.get'', ''exec'',
      ''execSync'', ''execFile'', ''execFileSync'', ''spawn'', ''spawnSync'']"

definition JS_IO_OBJECTS :: "string list" where
  "JS_IO_OBJECTS = [''fs'', ''fsp'', ''fsPromises'', ''fs.promises'', ''child_process'', ''childProcess'']"

definition js_io_call :: "node \<Rightarrow> bool" where
  "js_io_call call =
     (case child_field call ''function'' of
        None \<Rightarrow> False
      | Some f \<Rightarrow>
          nd_text f \<in> set JS_IO_EXACT
          \<or> nd_type f = ''member_expression''
             \<and> (let owner = text_of (child_field f ''object''); method = text_of (child_field f ''property'')
                in if owner = ''axios'' then method \<in> set JS_HTTP_VERBS
                   else owner \<in> set JS_IO_OBJECTS \<or> method = ''query''))"

definition js_new_io :: "node \<Rightarrow> bool" where
  "js_new_io n \<longleftrightarrow> text_of (child_field n ''constructor'') = ''XMLHttpRequest''"

definition argument_count :: "node \<Rightarrow> nat" where
  "argument_count call = (case child_field call ''arguments'' of None \<Rightarrow> 0 | Some a \<Rightarrow> length (code_children a))"

text \<open>The calls chained onto a call: each takes two ancestors, the member and the call of it.\<close>

fun chain_methods_above :: "node_path \<Rightarrow> (string \<times> nat) list" where
  "chain_methods_above ((member, i) # (outer, j) # anc) =
     (if nd_type member \<noteq> ''member_expression'' \<or> field_position member ''object'' \<noteq> Some i
         \<or> nd_type outer \<noteq> ''call_expression'' \<or> field_position outer ''function'' \<noteq> Some j
      then []
      else (text_of (child_field member ''property''), argument_count outer) # chain_methods_above anc)"
| "chain_methods_above _ = []"

text \<open>The object of the method a call calls, if it calls one.\<close>

definition member_of :: "node \<Rightarrow> node option" where
  "member_of call =
     (if nd_type call = ''call_expression''
      then (case child_field call ''function'' of
              None \<Rightarrow> None | Some f \<Rightarrow> if nd_type f = ''member_expression'' then Some f else None)
      else None)"

lemma member_smaller:
  assumes "member_of call = Some f" "child_field f g = Some c"
  shows "size c < size call"
proof -
  have "child_field call ''function'' = Some f" using assms(1) by (auto simp: member_of_def split: if_splits option.splits)
  then show ?thesis using assms(2) child_smaller child_field_in by (meson less_trans)
qed

function chain_methods_below :: "node \<Rightarrow> (string \<times> nat) list" where
  "chain_methods_below call =
     (case member_of call of
        None \<Rightarrow> []
      | Some f \<Rightarrow>
          (text_of (child_field f ''property''), argument_count call)
          # (case child_field f ''object'' of None \<Rightarrow> [] | Some inner \<Rightarrow> chain_methods_below inner))"
  by pat_completeness auto
termination
  using member_smaller by (relation "measure size") auto

function chain_calls_below :: "node \<Rightarrow> node list" where
  "chain_calls_below call =
     (if nd_type call \<noteq> ''call_expression'' then []
      else call # (case member_of call of
                     None \<Rightarrow> []
                   | Some f \<Rightarrow> (case child_field f ''object'' of None \<Rightarrow> [] | Some inner \<Rightarrow> chain_calls_below inner)))"
  by pat_completeness auto
termination
  using member_smaller by (relation "measure size") auto

declare chain_methods_below.simps [simp del] chain_calls_below.simps [simp del]

definition handles_rejection :: "(string \<times> nat) list \<Rightarrow> bool" where
  "handles_rejection methods \<longleftrightarrow> list_ex (\<lambda>(m, n). m = ''catch'' \<or> m = ''then'' \<and> 2 \<le> n) methods"

definition enclosing_function :: "node_path \<Rightarrow> node option" where
  "enclosing_function anc = map_option fst (find (\<lambda>(p, _). nd_type p \<in> set JS_FUNCTIONS) anc)"

definition is_async :: "node \<Rightarrow> bool" where
  "is_async f \<longleftrightarrow> list_ex (\<lambda>c. \<not> nd_named c \<and> nd_type c = ''async'') (nd_children f)"

function unwrap_node :: "node \<Rightarrow> node option" where
  "unwrap_node n =
     (if nd_type n \<noteq> ''parenthesized_expression'' then Some n
      else (case named_children n of [] \<Rightarrow> None | c # _ \<Rightarrow> unwrap_node c))"
  by pat_completeness auto
termination
  using child_smaller named_children_in by (relation "measure size") auto

declare unwrap_node.simps [simp del]

definition first_unwrapped :: "node \<Rightarrow> node option" where
  "first_unwrapped n = (case named_children n of [] \<Rightarrow> None | c # _ \<Rightarrow> unwrap_node c)"

definition console_call :: "node \<Rightarrow> bool" where
  "console_call s \<longleftrightarrow>
     nd_type s = ''expression_statement''
     \<and> (case first_unwrapped s of
           None \<Rightarrow> False
         | Some call \<Rightarrow>
             (case member_of call of None \<Rightarrow> False | Some f \<Rightarrow> text_of (child_field f ''object'') = ''console''))"

definition js_swallow_rule :: "node \<Rightarrow> string option" where
  "js_swallow_rule clause =
     (case child_field clause ''body'' of
        None \<Rightarrow> None
      | Some b \<Rightarrow>
          if code_children b = [] then Some ''empty-catch''
          else if list_all console_call (code_children b) then Some ''catch-only-logs-to-console'' else None)"

definition js_statement :: "string \<Rightarrow> node \<Rightarrow> collected \<Rightarrow> collected" where
  "js_statement path n out =
     (case first_unwrapped n of
        None \<Rightarrow> out
      | Some e \<Rightarrow>
          if nd_type e \<noteq> ''call_expression'' then out
          else (let methods = chain_methods_below e
                in if \<not> list_ex (\<lambda>(m, _). m = ''then'') methods then out
                   else (let out' = out\<lparr>co_promise_sites := Suc (co_promise_sites out)\<rparr>
                         in if handles_rejection methods then out' else add_eh ''unhandled-promise'' path n out')))"

definition js_await :: "string \<Rightarrow> located \<Rightarrow> collected \<Rightarrow> collected" where
  "js_await path x out =
     (case first_unwrapped (fst x) of
        None \<Rightarrow> out
      | Some argument \<Rightarrow>
          if nd_type argument \<noteq> ''call_expression'' \<or> \<not> list_ex js_io_call (chain_calls_below argument) then out
          else (case enclosing_function (snd x) of
                  None \<Rightarrow> out
                | Some f \<Rightarrow>
                    if \<not> is_async f then out
                    else (let out' = out\<lparr>co_promise_sites := Suc (co_promise_sites out)\<rparr>
                          in if inside_try_body JS_FUNCTIONS (snd x) \<or> handles_rejection (chain_methods_below argument) then out'
                             else add_eh ''await-io-outside-try'' path (fst x) out')))"

definition js_step :: "string \<Rightarrow> collected \<Rightarrow> located \<Rightarrow> collected" where
  "js_step path out x =
     (let (n, anc) = x; kind = nd_type n
      in if kind = ''catch_clause''
         then add_rule (js_swallow_rule n) path n (out\<lparr>co_handlers := Suc (co_handlers out)\<rparr>)
         else if kind = ''call_expression'' \<and> js_io_call n
         then add_io_site (inside_try_body JS_FUNCTIONS anc \<or> handles_rejection (chain_methods_above anc)) path n out
         else if kind = ''new_expression'' \<and> js_new_io n then add_io_site (inside_try_body JS_FUNCTIONS anc) path n out
         else if kind = ''expression_statement'' then js_statement path n out
         else if kind = ''await_expression'' then js_await path x out
         else out)"

section \<open>A repository\<close>

definition collect_file :: "source_file \<Rightarrow> string \<Rightarrow> collected \<Rightarrow> collected" where
  "collect_file f language out =
     foldl (if language = ''python'' then python_step (sc_path f) else js_step (sc_path f)) out (walk_tree (sc_tree f))"

definition eh_order :: "eh_finding \<Rightarrow> string \<times> int \<times> string" where
  "eh_order f = (ef_path f, ef_line f, ef_rule f)"

definition collect_errors :: "source_file list \<Rightarrow> collected" where
  "collect_errors files =
     (let out = fold_trees collect_file nothing_collected files
      in out\<lparr>co_findings := sort_key eh_order (co_findings out), co_unwrapped := take 10 (co_unwrapped out)\<rparr>)"

section \<open>The report and the findings\<close>

definition SWALLOW_RULES :: "string list" where
  "SWALLOW_RULES = [''bare-except'', ''swallowed-broad-except'', ''empty-catch'', ''exception-ignored'', ''catch-only-logs-to-console'']"

definition PROMISE_RULES :: "string list" where
  "PROMISE_RULES = [''unhandled-promise'', ''await-io-outside-try'']"

definition count_rules :: "string list \<Rightarrow> eh_finding list \<Rightarrow> nat" where
  "count_rules rules fs = length (filter (\<lambda>f. ef_rule f \<in> set rules) fs)"

definition error_components :: "collected \<Rightarrow> (string \<times> real option) list" where
  "error_components c =
     [(''swallow_rate'',
        if co_handlers c = 0 then None
        else Some (1 - real (count_rules SWALLOW_RULES (co_findings c)) / real (max 1 (co_handlers c)))),
      (''io_wrapped_ratio'', if co_io_sites c = 0 then None else Some (real (co_io_wrapped c) / real (co_io_sites c))),
      (''promise_handling'',
        if co_promise_sites c = 0 then None
        else Some (1 - real (count_rules PROMISE_RULES (co_findings c)) / real (max 1 (co_promise_sites c))))]"

definition error_report :: "source_file list \<Rightarrow> health_report" where
  "error_report files =
     (if files_parsed files = 0 then inapplicable_report
      else (let components = error_components (collect_errors files)
            in \<lparr>sr_applicable = True, sr_score = mean_score components, sr_components = components\<rparr>))"

definition RULES :: "(string \<times> severity \<times> string) list" where
  "RULES =
     [(''bare-except'', WARNING, ''Bare `except:` catches everything, including KeyboardInterrupt and SystemExit.''),
      (''swallowed-broad-except'', WARNING, ''Broad exception handler silently discards the error (body is only `pass`/`...`).''),
      (''exception-ignored'', INFO, ''Exception handler neither re-raises, logs, nor uses the caught exception.''),
      (''broad-except-large-block'', INFO, ''Broad exception handler guards a try block longer than 25 lines.''),
      (''empty-catch'', WARNING, ''Empty catch block silently discards the error.''),
      (''catch-only-logs-to-console'', INFO, ''Catch block only logs to the console and then carries on as if nothing failed.''),
      (''unhandled-promise'', INFO, ''Promise chain has `.then(` but no `.catch(` or rejection handler.''),
      (''await-io-outside-try'', INFO, ''Awaited I/O call is not inside a try block and has no `.catch(`.'')]"

definition MAX_FINDINGS_PER_RULE :: nat where
  "MAX_FINDINGS_PER_RULE = 200"

definition eh_finding_data :: "eh_finding \<Rightarrow> severity \<Rightarrow> string \<Rightarrow> finding_data" where
  "eh_finding_data f rule_severity rule_message =
     \<lparr>analyzer = ''error_handling'', rule_id = ''error_handling/'' @ ef_rule f, sev = rule_severity, file_path = ef_path f,
      start_line = ef_line f, end_line = ef_end_line f, message = rule_message,
      code_snippet = (if ef_snippet f = [] then None else Some (ef_snippet f)),
      category = Some (''error_handling:'' @ ef_rule f @ '':'' @ ef_path f @ '':'' @ show_int (ef_line f)),
      cwe_ids = [], dependency = None, corroborated_by = [], merged_from = []\<rparr>"

text \<open>The loop of \<open>parse\<close>, with the number of findings of each rule so far.\<close>

fun report_findings :: "(string \<Rightarrow> nat) \<Rightarrow> eh_finding list \<Rightarrow> finding_data list" where
  "report_findings seen [] = []"
| "report_findings seen (f # fs) =
     (case map_of RULES (ef_rule f) of
        None \<Rightarrow> report_findings seen fs
      | Some (s, text) \<Rightarrow>
          (let n = Suc (seen (ef_rule f)); seen' = seen(ef_rule f := n)
           in if MAX_FINDINGS_PER_RULE < n then report_findings seen' fs
              else eh_finding_data f s text # report_findings seen' fs))"

definition error_findings :: "source_file list \<Rightarrow> finding_data list" where
  "error_findings files = report_findings (\<lambda>_. 0) (co_findings (collect_errors files))"

section \<open>Properties\<close>

text \<open>
  The counts that the components divide are consistent, so the components lie between 0 and 1; and what is reported of each rule.
\<close>

section \<open>Counts\<close>

definition consistent :: "collected \<Rightarrow> bool" where
  "consistent c \<longleftrightarrow>
     count_rules SWALLOW_RULES (co_findings c) \<le> co_handlers c
     \<and> count_rules PROMISE_RULES (co_findings c) \<le> co_promise_sites c
     \<and> co_io_wrapped c + length (co_unwrapped c) = co_io_sites c"

lemma count_rules_append: "count_rules rules (fs @ gs) = count_rules rules fs + count_rules rules gs"
  by (simp add: count_rules_def)

lemma count_rules_one: "count_rules rules [f] = (if ef_rule f \<in> set rules then 1 else 0)"
  by (simp add: count_rules_def)

lemmas consistent_simps = consistent_def count_rules_append count_rules_one add_eh_def add_rule_def add_io_site_def
  SWALLOW_RULES_def PROMISE_RULES_def Let_def

lemma py_swallow_rules: "py_swallow_rule n = Some r \<Longrightarrow> r \<in> set SWALLOW_RULES \<and> r \<notin> set PROMISE_RULES"
  by (auto simp: py_swallow_rule_def SWALLOW_RULES_def PROMISE_RULES_def Let_def split: prod.splits if_splits option.splits)

lemma js_swallow_rules: "js_swallow_rule n = Some r \<Longrightarrow> r \<in> set SWALLOW_RULES \<and> r \<notin> set PROMISE_RULES"
  by (auto simp: js_swallow_rule_def SWALLOW_RULES_def PROMISE_RULES_def split: if_splits option.splits)

lemma consistent_handler:
  assumes "consistent out" "\<And>r. rule = Some r \<Longrightarrow> r \<in> set SWALLOW_RULES \<and> r \<notin> set PROMISE_RULES"
  shows "consistent (add_rule rule path n (out\<lparr>co_handlers := Suc (co_handlers out)\<rparr>))"
  using assms by (cases rule) (auto simp: consistent_simps)

lemma consistent_io: "consistent out \<Longrightarrow> consistent (add_io_site wrapped path n out)"
  by (auto simp: consistent_simps)

lemma consistent_large: "consistent out \<Longrightarrow> consistent (add_eh ''broad-except-large-block'' path n out)"
  by (auto simp: consistent_simps)

lemma consistent_promise:
  assumes "consistent out" "rule \<in> {''unhandled-promise'', ''await-io-outside-try''}"
  shows "consistent (out\<lparr>co_promise_sites := Suc (co_promise_sites out)\<rparr>)"
    "consistent (add_eh rule path n (out\<lparr>co_promise_sites := Suc (co_promise_sites out)\<rparr>))"
  using assms by (auto simp: consistent_simps)

lemma consistent_python: "consistent out \<Longrightarrow> consistent (python_step path out x)"
  by (auto simp: python_step_def python_handler_def Let_def split: prod.splits
    intro!: consistent_io consistent_large consistent_handler dest: py_swallow_rules)

lemma consistent_js: "consistent out \<Longrightarrow> consistent (js_step path out x)"
  by (auto simp: js_step_def js_statement_def js_await_def Let_def split: prod.splits option.splits
    intro!: consistent_io consistent_handler consistent_promise dest: js_swallow_rules)

interpretation error_collector: tree_collector nothing_collected collect_file consistent
proof
  show "consistent nothing_collected" by (simp add: consistent_def nothing_collected_def count_rules_def)
  show "consistent (collect_file f language out)" if "consistent out" for f language out
    using that by (auto simp: collect_file_def intro!: foldl_keeps [where P = consistent] consistent_python consistent_js)
qed

lemma count_rules_sort: "count_rules rules (sort_key k fs) = count_rules rules fs"
  unfolding count_rules_def by (metis mset_filter mset_sort size_mset)

section \<open>Findings\<close>

definition known_rule :: "eh_finding \<Rightarrow> bool" where
  "known_rule f \<longleftrightarrow> map_of RULES (ef_rule f) \<noteq> None"

definition rule_reports :: "string \<Rightarrow> finding_data list \<Rightarrow> nat" where
  "rule_reports rule fs = length (filter (\<lambda>f. rule_id f = ''error_handling/'' @ rule) fs)"

lemma rule_reports_simps [simp]:
  "rule_reports rule [] = 0"
  "rule_reports rule (eh_finding_data f s text # fs) = (if ef_rule f = rule then 1 else 0) + rule_reports rule fs"
  by (simp_all add: rule_reports_def eh_finding_data_def)

lemma report_findings_step:
  "report_findings seen (f # fs) =
     (case map_of RULES (ef_rule f) of
        None \<Rightarrow> report_findings seen fs
      | Some sm \<Rightarrow>
          (if seen (ef_rule f) < MAX_FINDINGS_PER_RULE then [eh_finding_data f (fst sm) (snd sm)] else [])
          @ report_findings (seen(ef_rule f := Suc (seen (ef_rule f)))) fs)"
  by (auto simp: Let_def not_less_eq_eq split: option.splits)

declare report_findings.simps(2) [simp del]

lemma report_findings_count:
  assumes "map_of RULES rule \<noteq> None"
  shows "rule_reports rule (report_findings seen fs)
    = min (MAX_FINDINGS_PER_RULE - seen rule) (length (filter (\<lambda>f. ef_rule f = rule) fs))"
proof (induction fs arbitrary: seen)
  case (Cons f fs)
  have "ef_rule f \<noteq> rule" if "map_of RULES (ef_rule f) = None" using that assms by auto
  then show ?case
    by (cases "ef_rule f = rule") (auto simp: report_findings_step Cons split: option.splits)
qed simp

lemma error_components_sort: "error_components (collect_errors files) = error_components (fold_trees collect_file nothing_collected files)"
  by (simp add: collect_errors_def error_components_def Let_def count_rules_sort)

lemma error_components_unit:
  assumes "consistent c"
  shows "(name, v) \<in> set (error_components c) \<Longrightarrow> in_unit v"
  using assms by (auto simp: error_components_def consistent_def divide_le_eq)

interpretation error_signal: signal_contract
  "\<lambda>files. files_parsed files \<noteq> 0" "\<lambda>files. error_components (collect_errors files)" error_report
proof
  show "in_unit v" if "(name, v) \<in> set (error_components (collect_errors files))" for name v files
    using that error_components_unit [OF error_collector.collected_promise] unfolding error_components_sort by blast
qed (simp add: error_report_def Let_def)


end
