(* ===== verification/Advisory.thy ===== *)
theory Advisory
  imports Error_Handling
begin

text \<open>
  \<open>analyzers/advisory.py\<close>: how identifiers are named, how much is commented and documented, measured
  on the same syntax trees as error handling.  The source of a file is its bytes.
\<close>

section \<open>Names\<close>

definition GENERIC_NAMES :: "string list" where
  "GENERIC_NAMES =
     [''data'', ''temp'', ''tmp'', ''foo'', ''bar'', ''handler'', ''manager'', ''util'', ''utils'', ''helper'', ''obj'', ''stuff'', ''thing'', ''info'']"

definition small_or_digit :: rx where
  "small_or_digit = Cls (\<lambda>c. is_lower c \<or> is_digit c)"

definition big_or_digit :: rx where
  "big_or_digit = Cls (\<lambda>c. is_upper c \<or> is_digit c)"

definition SNAKE :: rx where
  "SNAKE = Seqs [Bol, Cls is_lower, Star small_or_digit, Star (Seq (Chr CHR ''_'') (Plus small_or_digit)), Eol]"

definition UPPER_SNAKE :: rx where
  "UPPER_SNAKE = Seqs [Bol, Cls is_upper, Star big_or_digit, Star (Seq (Chr CHR ''_'') (Plus big_or_digit)), Eol]"

definition PASCAL :: rx where
  "PASCAL = Seqs [Bol, Cls is_upper, Star (Cls is_alnum_ascii), Eol]"

definition CAMEL :: rx where
  "CAMEL = Seqs [Bol, Cls is_lower, Star (Cls is_alnum_ascii), Eol]"

definition PY_SCOPES :: "string list" where
  "PY_SCOPES = [''function_definition'', ''class_definition'', ''lambda'']"

definition JS_SCOPES :: "string list" where
  "JS_SCOPES =
     [''function_declaration'', ''function_expression'', ''function'', ''generator_function_declaration'', ''generator_function'',
      ''arrow_function'', ''method_definition'', ''class_declaration'', ''class'']"

definition JS_FUNCTION_VALUES :: "string list" where
  "JS_FUNCTION_VALUES = [''arrow_function'', ''function_expression'', ''function'', ''generator_function'']"

definition JS_TYPE_DECLARATIONS :: "string list" where
  "JS_TYPE_DECLARATIONS =
     [''class_declaration'', ''abstract_class_declaration'', ''class'', ''interface_declaration'', ''type_alias_declaration'', ''enum_declaration'']"

text \<open>An identifier, with the byte where its scope starts, \<open>-1\<close> outside of any.\<close>

record ident =
  id_name :: string
  id_kind :: string
  id_line :: int
  id_exempt_short :: bool
  id_const :: bool
  id_scope :: int

definition strip_name :: "string \<Rightarrow> string" where
  "strip_name name = rstrip_by (\<lambda>c. c = CHR ''_'') (lstrip_by (\<lambda>c. c \<in> {CHR ''_'', CHR ''$''}) name)"

definition conforms :: "string \<Rightarrow> ident \<Rightarrow> bool" where
  "conforms language ident =
     (let name = strip_name (id_name ident)
      in if name = [] then True
         else if id_kind ident = ''class'' then rx_match PASCAL name
         else if language = ''python''
         then id_kind ident = ''variable'' \<and> rx_match UPPER_SNAKE name \<or> rx_match SNAKE name
         else id_kind ident = ''function'' \<and> rx_match PASCAL name \<or> id_const ident \<and> rx_match UPPER_SNAKE name
              \<or> rx_match CAMEL name)"

definition expected_style :: "string \<Rightarrow> string \<Rightarrow> string" where
  "expected_style language kind =
     (if kind = ''class'' then ''PascalCase'' else if language = ''python'' then ''snake_case'' else ''camelCase'')"

section \<open>Trees\<close>

definition scope_of :: "string list \<Rightarrow> node_path \<Rightarrow> int" where
  "scope_of scopes anc = (case find (\<lambda>(p, _). nd_type p \<in> set scopes) anc of None \<Rightarrow> -1 | Some (p, _) \<Rightarrow> int (nd_start p))"

definition named_sub :: "located \<Rightarrow> located list" where
  "named_sub x = filter (nd_named \<circ> fst) (sub_nodes x)"

definition field_sub :: "located \<Rightarrow> string \<Rightarrow> located option" where
  "field_sub x f = map_option (\<lambda>(i, c). (c, (fst x, i) # snd x)) (field_entry (fst x) f)"

lemma named_sub_smaller: "y \<in> set (named_sub x) \<Longrightarrow> size (fst y) < size (fst x)"
  using child_smaller by (auto simp: named_sub_def sub_nodes_def in_set_enumerate_eq)

lemma code_child_smaller: "c \<in> set (named_children n) \<Longrightarrow> size c < size n"
  using child_smaller by (auto simp: named_children_def)

section \<open>Python\<close>

definition TARGET_LISTS :: "string list" where
  "TARGET_LISTS =
     [''pattern_list'', ''tuple_pattern'', ''list_pattern'', ''tuple'', ''list'', ''list_splat_pattern'', ''parenthesized_expression'']"

function py_targets :: "located \<Rightarrow> located list" where
  "py_targets x =
     (if nd_type (fst x) = ''identifier'' then [x]
      else if nd_type (fst x) \<in> set TARGET_LISTS then concat (map py_targets (named_sub x)) else [])"
  by pat_completeness auto
termination
  using named_sub_smaller by (relation "measure (size \<circ> fst)") auto

declare py_targets.simps [simp del]

definition targets_of :: "located option \<Rightarrow> located list" where
  "targets_of x = (case x of None \<Rightarrow> [] | Some y \<Rightarrow> py_targets y)"

definition py_parameter :: "node \<Rightarrow> node list" where
  "py_parameter child =
     (if nd_type child = ''identifier'' then [child]
      else if nd_type child \<in> {''default_parameter'', ''typed_default_parameter''}
      then (case child_field child ''name'' of
              None \<Rightarrow> [] | Some name \<Rightarrow> if nd_type name = ''identifier'' then [name] else [])
      else if nd_type child \<in> {''typed_parameter'', ''list_splat_pattern'', ''dictionary_splat_pattern''}
      then filter (\<lambda>c. nd_type c = ''identifier'') (take 1 (named_children child))
      else [])"

definition py_parameters :: "node option \<Rightarrow> node list" where
  "py_parameters parameters = (case parameters of None \<Rightarrow> [] | Some p \<Rightarrow> concat (map py_parameter (named_children p)))"

definition py_ident :: "node \<Rightarrow> string \<Rightarrow> bool \<Rightarrow> int \<Rightarrow> ident list" where
  "py_ident n kind exempt scope =
     (if starts_with ''__'' (nd_text n) \<and> ends_with ''__'' (nd_text n) then []
      else [\<lparr>id_name = nd_text n, id_kind = kind, id_line = node_line n, id_exempt_short = exempt, id_const = False, id_scope = scope\<rparr>])"

definition py_variables :: "bool \<Rightarrow> located list \<Rightarrow> ident list" where
  "py_variables exempt targets = concat (map (\<lambda>t. py_ident (fst t) ''variable'' exempt (scope_of PY_SCOPES (snd t))) targets)"

definition py_named :: "string \<Rightarrow> located \<Rightarrow> ident list" where
  "py_named kind x =
     (case child_field (fst x) ''name'' of None \<Rightarrow> [] | Some name \<Rightarrow> py_ident name kind False (scope_of PY_SCOPES (snd x)))"

definition py_params :: "bool \<Rightarrow> node \<Rightarrow> ident list" where
  "py_params exempt n =
     concat (map (\<lambda>p. py_ident p ''variable'' exempt (int (nd_start n))) (py_parameters (child_field n ''parameters'')))"

definition in_except :: "node_path \<Rightarrow> bool" where
  "in_except anc = (case anc of _ # (p, _) # _ \<Rightarrow> nd_type p = ''except_clause'' | _ \<Rightarrow> False)"

definition py_found :: "located \<Rightarrow> ident list" where
  "py_found x =
     (let kind = nd_type (fst x)
      in if kind = ''function_definition'' then py_named ''function'' x @ py_params False (fst x)
         else if kind = ''lambda'' then py_params True (fst x)
         else if kind = ''class_definition'' then py_named ''class'' x
         else if kind \<in> {''assignment'', ''augmented_assignment''} then py_variables False (targets_of (field_sub x ''left''))
         else if kind \<in> {''for_statement'', ''for_in_clause''} then py_variables True (targets_of (field_sub x ''left''))
         else if kind = ''as_pattern_target''
         then concat (map (\<lambda>t. py_variables (in_except (snd x) \<and> nd_text (fst t) = ''e'') [t])
                (targets_of (case named_sub x of [] \<Rightarrow> None | t # _ \<Rightarrow> Some t)))
         else [])"

definition python_identifiers :: "node \<Rightarrow> ident list" where
  "python_identifiers n = concat (map py_found (walk_tree n))"

definition py_documented :: "node \<Rightarrow> bool" where
  "py_documented n =
     (case child_field n ''body'' of
        None \<Rightarrow> False
      | Some body \<Rightarrow>
          (case code_children body of
             [] \<Rightarrow> False
           | s # _ \<Rightarrow>
               nd_type s = ''expression_statement''
               \<and> (case named_children s of [] \<Rightarrow> False | e # _ \<Rightarrow> nd_type e \<in> {''string'', ''concatenated_string''})))"

definition py_nested :: "node_path \<Rightarrow> bool" where
  "py_nested anc = list_ex (\<lambda>(p, _). nd_type p \<in> {''function_definition'', ''lambda''}) anc"

definition py_public :: "located \<Rightarrow> bool" where
  "py_public x \<longleftrightarrow>
     nd_type (fst x) \<in> {''function_definition'', ''class_definition''}
     \<and> (let name = text_of (child_field (fst x) ''name'')
        in name \<noteq> [] \<and> \<not> starts_with ''_'' name \<and> \<not> py_nested (snd x))"

section \<open>JavaScript and TypeScript\<close>

function js_pattern_names :: "node \<Rightarrow> node list" where
  "js_pattern_names n =
     (let part = (\<lambda>f. case child_field n f of None \<Rightarrow> [] | Some c \<Rightarrow> js_pattern_names c)
      in if nd_type n \<in> {''identifier'', ''shorthand_property_identifier_pattern''} then [n]
         else if nd_type n = ''pair_pattern'' then part ''value''
         else if nd_type n \<in> {''assignment_pattern'', ''object_assignment_pattern''} then part ''left''
         else if nd_type n \<in> {''required_parameter'', ''optional_parameter''} then part ''pattern''
         else if nd_type n \<in> {''object_pattern'', ''array_pattern'', ''rest_pattern''}
         then concat (map js_pattern_names (named_children n))
         else [])"
  by pat_completeness auto
termination
  using child_smaller [OF child_field_in] code_child_smaller by (relation "measure size") auto

declare js_pattern_names.simps [simp del]

definition names_in :: "node option \<Rightarrow> node list" where
  "names_in n = (case n of None \<Rightarrow> [] | Some m \<Rightarrow> js_pattern_names m)"

definition is_loop_declaration :: "node_path \<Rightarrow> bool" where
  "is_loop_declaration anc = (case anc of _ # (loop, _) # _ \<Rightarrow> nd_type loop = ''for_statement'' | _ \<Rightarrow> False)"

definition js_ident :: "string \<Rightarrow> int \<Rightarrow> bool \<Rightarrow> bool \<Rightarrow> node \<Rightarrow> ident list" where
  "js_ident kind scope exempt const_decl n =
     (let name = lstrip_by (\<lambda>c. c = CHR ''#'') (nd_text n)
      in if name = [] then []
         else [\<lparr>id_name = name, id_kind = kind, id_line = node_line n, id_exempt_short = exempt, id_const = const_decl, id_scope = scope\<rparr>])"

definition js_named :: "string \<Rightarrow> located \<Rightarrow> ident list" where
  "js_named kind x =
     (case child_field (fst x) ''name'' of None \<Rightarrow> [] | Some name \<Rightarrow> js_ident kind (scope_of JS_SCOPES (snd x)) False False name)"

definition js_method :: "located \<Rightarrow> ident list" where
  "js_method x =
     (case child_field (fst x) ''name'' of
        None \<Rightarrow> []
      | Some name \<Rightarrow>
          if nd_type name \<in> {''property_identifier'', ''private_property_identifier''} \<and> nd_text name \<noteq> ''constructor''
          then js_ident ''function'' (scope_of JS_SCOPES (snd x)) False False name else [])"

definition is_const :: "node_path \<Rightarrow> bool" where
  "is_const anc =
     (case anc of [] \<Rightarrow> False | (declaration, _) # _ \<Rightarrow> list_ex (\<lambda>c. \<not> nd_named c \<and> nd_type c = ''const'') (nd_children declaration))"

definition is_function_value :: "node \<Rightarrow> bool" where
  "is_function_value d = (case child_field d ''value'' of None \<Rightarrow> False | Some v \<Rightarrow> nd_type v \<in> set JS_FUNCTION_VALUES)"

definition js_declarator :: "located \<Rightarrow> ident list" where
  "js_declarator x =
     concat (map (js_ident (if is_function_value (fst x) then ''function'' else ''variable'') (scope_of JS_SCOPES (snd x))
         (is_loop_declaration (snd x)) (is_const (snd x)))
       (names_in (child_field (fst x) ''name'')))"

definition js_formals :: "located \<Rightarrow> ident list" where
  "js_formals x =
     (let (arrow, scope) = (case snd x of [] \<Rightarrow> (False, -1) | (f, _) # _ \<Rightarrow> (nd_type f = ''arrow_function'', int (nd_start f)))
      in concat (map (js_ident ''variable'' scope arrow False) (concat (map js_pattern_names (named_children (fst x))))))"

definition js_bare_parameter :: "node \<Rightarrow> ident list" where
  "js_bare_parameter n =
     (case child_field n ''parameter'' of
        None \<Rightarrow> [] | Some p \<Rightarrow> if nd_type p = ''identifier'' then js_ident ''variable'' (int (nd_start n)) True False p else [])"

definition js_found :: "located \<Rightarrow> ident list" where
  "js_found x =
     (let n = fst x; kind = nd_type n
      in if kind \<in> {''function_declaration'', ''generator_function_declaration''} then js_named ''function'' x
         else if kind = ''method_definition'' then js_method x
         else if kind \<in> set JS_TYPE_DECLARATIONS then js_named ''class'' x
         else if kind = ''variable_declarator'' then js_declarator x
         else if kind = ''for_in_statement''
         then concat (map (js_ident ''variable'' (scope_of JS_SCOPES (snd x)) True False) (names_in (child_field n ''left'')))
         else if kind = ''formal_parameters'' then js_formals x
         else if kind = ''arrow_function'' then js_bare_parameter n
         else if kind = ''catch_clause''
         then concat (map (\<lambda>name. js_ident ''variable'' (int (nd_start n)) (nd_text name = ''e'') False name)
                (names_in (child_field n ''parameter'')))
         else [])"

definition js_identifiers :: "node \<Rightarrow> ident list" where
  "js_identifiers n = concat (map js_found (walk_tree n))"

text \<open>A documentation comment is the named sibling just before the statement.\<close>

definition previous_named :: "node list \<Rightarrow> nat \<Rightarrow> node option" where
  "previous_named cs i = (case rev (filter nd_named (take i cs)) of [] \<Rightarrow> None | p # _ \<Rightarrow> Some p)"

definition js_documented :: "node \<Rightarrow> node option \<Rightarrow> bool" where
  "js_documented statement previous =
     (case previous of
        None \<Rightarrow> False
      | Some p \<Rightarrow>
          nd_type p = ''comment'' \<and> starts_with ''/**'' (nd_text p) \<and> int (nd_row statement) - 1 \<le> int (nd_end_row p))"

definition exported :: "node \<Rightarrow> node option" where
  "exported statement =
     (case child_field statement ''declaration'' of None \<Rightarrow> child_field statement ''value'' | Some d \<Rightarrow> Some d)"

definition js_public :: "node \<Rightarrow> bool" where
  "js_public statement \<longleftrightarrow>
     nd_type statement = ''export_statement''
     \<and> (case exported statement of
           None \<Rightarrow> False
         | Some d \<Rightarrow>
             nd_type d \<in> {''function_declaration'', ''generator_function_declaration'', ''class_declaration'', ''abstract_class_declaration'',
               ''function_expression'', ''function'', ''class'', ''arrow_function''}
             \<or> nd_type d \<in> {''lexical_declaration'', ''variable_declaration''}
                \<and> list_ex (\<lambda>v. nd_type v = ''variable_declarator'' \<and> is_function_value v) (named_children d))"

section \<open>Totals\<close>

text \<open>\<open>d.setdefault(k, default)\<close> followed by a change of the entry.\<close>

definition adjust :: "'k \<Rightarrow> 'v \<Rightarrow> ('v \<Rightarrow> 'v) \<Rightarrow> ('k, 'v) dict \<Rightarrow> ('k, 'v) dict" where
  "adjust k default_value f d = dict_set k (f (case map_of d k of None \<Rightarrow> default_value | Some v \<Rightarrow> v)) d"

type_synonym good_count = "nat \<times> nat"

definition count_one :: "bool \<Rightarrow> good_count \<Rightarrow> good_count" where
  "count_one good t = (fst t + (if good then 1 else 0), Suc (snd t))"

definition MAX_EXAMPLES :: nat where
  "MAX_EXAMPLES = 20"

definition example_add :: "'a \<Rightarrow> 'a list \<Rightarrow> 'a list" where
  "example_add x xs = (if length xs < MAX_EXAMPLES then xs @ [x] else xs)"

record advisory_totals =
  at_naming :: "(string, (string, good_count) dict) dict"
  at_naming_examples :: "(string \<times> string \<times> string \<times> string \<times> int) list"
  at_identifiers :: nat
  at_single :: nat
  at_single_examples :: "(string \<times> int \<times> string) list"
  at_generic :: "(string, nat) dict"
  at_generic_examples :: "(string \<times> int \<times> string) list"
  at_comments :: "(string, good_count) dict"
  at_docs :: "(string, good_count) dict"
  at_undocumented :: "(string \<times> int) list"

definition no_totals :: advisory_totals where
  "no_totals = \<lparr>at_naming = [], at_naming_examples = [], at_identifiers = 0, at_single = 0, at_single_examples = [],
     at_generic = [], at_generic_examples = [], at_comments = [], at_docs = [], at_undocumented = []\<rparr>"

definition count_doc :: "string \<Rightarrow> string \<Rightarrow> advisory_totals \<Rightarrow> bool \<times> int \<Rightarrow> advisory_totals" where
  "count_doc language path t d =
     (let t' = t\<lparr>at_docs := adjust language (0, 0) (count_one (fst d)) (at_docs t)\<rparr>
      in if fst d then t' else t'\<lparr>at_undocumented := example_add (path, snd d) (at_undocumented t)\<rparr>)"

text \<open>Whether each public definition is documented, with its line.\<close>

definition python_docs :: "node \<Rightarrow> (bool \<times> int) list" where
  "python_docs n = map (\<lambda>x. (py_documented (fst x), node_line (fst x))) (filter py_public (walk_tree n))"

definition js_docs :: "node \<Rightarrow> (bool \<times> int) list" where
  "js_docs n =
     map (\<lambda>(i, s). (js_documented s (previous_named (nd_children n) i), node_line s))
       (filter (\<lambda>(i, s). nd_named s \<and> js_public s) (enumerate 0 (nd_children n)))"

definition add_docs :: "string \<Rightarrow> string \<Rightarrow> (bool \<times> int) list \<Rightarrow> advisory_totals \<Rightarrow> advisory_totals" where
  "add_docs language path docs t =
     foldl (count_doc language path) (t\<lparr>at_docs := adjust language (0, 0) id (at_docs t)\<rparr>) docs"

definition comment_lines :: "node \<Rightarrow> nat" where
  "comment_lines n =
     length (remdups (concat (map (\<lambda>x. [nd_row (fst x)..<Suc (nd_end_row (fst x))])
       (filter (\<lambda>x. nd_type (fst x) = ''comment'') (walk_tree n)))))"

definition ident_key :: "ident \<Rightarrow> string \<times> string \<times> int" where
  "ident_key i = (id_name i, id_kind i, id_scope i)"

definition is_single_letter :: "ident \<Rightarrow> bool" where
  "is_single_letter i \<longleftrightarrow>
     id_kind i = ''variable'' \<and> length (id_name i) = 1 \<and> id_name i \<noteq> ''_'' \<and> \<not> id_exempt_short i"

definition generic_name :: "ident \<Rightarrow> string" where
  "generic_name i =
     (let strippable = (\<lambda>c. c \<in> {CHR ''_'', CHR ''$''}) in lower (rstrip_by strippable (lstrip_by strippable (id_name i))))"

definition tally_naming :: "string \<Rightarrow> string \<Rightarrow> ident \<Rightarrow> advisory_totals \<Rightarrow> advisory_totals" where
  "tally_naming language path i t =
     (let t' = t\<lparr>at_identifiers := Suc (at_identifiers t),
                at_naming := adjust language [] (adjust (id_kind i) (0, 0) (count_one (conforms language i))) (at_naming t)\<rparr>
      in if conforms language i then t'
         else t'\<lparr>at_naming_examples := example_add (id_name i, id_kind i, expected_style language (id_kind i), path, id_line i)
                  (at_naming_examples t)\<rparr>)"

definition tally_single :: "string \<Rightarrow> ident \<Rightarrow> advisory_totals \<Rightarrow> advisory_totals" where
  "tally_single path i t =
     (if is_single_letter i
      then t\<lparr>at_single := Suc (at_single t), at_single_examples := example_add (path, id_line i, id_name i) (at_single_examples t)\<rparr>
      else t)"

definition tally_generic :: "string \<Rightarrow> ident \<Rightarrow> advisory_totals \<Rightarrow> advisory_totals" where
  "tally_generic path i t =
     (if generic_name i \<in> set GENERIC_NAMES
      then t\<lparr>at_generic := adjust (generic_name i) 0 Suc (at_generic t),
             at_generic_examples := example_add (path, id_line i, id_name i) (at_generic_examples t)\<rparr>
      else t)"

definition tally_one :: "string \<Rightarrow> string \<Rightarrow> ident \<Rightarrow> advisory_totals \<Rightarrow> advisory_totals" where
  "tally_one language path i t = tally_generic path i (tally_single path i (tally_naming language path i t))"

text \<open>The loop of \<open>_tally\<close>, with the keys seen so far.\<close>

fun tally_loop ::
    "string \<Rightarrow> string \<Rightarrow> (string \<times> string \<times> int) list \<Rightarrow> ident list \<Rightarrow> advisory_totals \<Rightarrow> advisory_totals" where
  "tally_loop language path seen [] t = t"
| "tally_loop language path seen (i # is) t =
     (if ident_key i \<in> set seen then tally_loop language path seen is t
      else tally_loop language path (ident_key i # seen) is (tally_one language path i t))"

definition tally_identifiers :: "string \<Rightarrow> string \<Rightarrow> ident list \<Rightarrow> advisory_totals \<Rightarrow> advisory_totals" where
  "tally_identifiers language path is t =
     tally_loop language path [] is (t\<lparr>at_naming := adjust language [] id (at_naming t)\<rparr>)"

definition identifiers_of :: "string \<Rightarrow> node \<Rightarrow> ident list" where
  "identifiers_of language n = (if language = ''python'' then python_identifiers n else js_identifiers n)"

definition docs_of :: "string \<Rightarrow> node \<Rightarrow> (bool \<times> int) list" where
  "docs_of language n = (if language = ''python'' then python_docs n else js_docs n)"

definition measure_tree :: "source_file \<Rightarrow> string \<Rightarrow> advisory_totals \<Rightarrow> advisory_totals" where
  "measure_tree f language t =
     (let t' = tally_identifiers language (sc_path f) (identifiers_of language (sc_tree f))
                 (add_docs language (sc_path f) (docs_of language (sc_tree f)) t)
      in t'\<lparr>at_comments := adjust language (0, 0)
               (\<lambda>(c, n). (c + comment_lines (sc_tree f), n + non_blank_lines (sc_bytes f))) (at_comments t')\<rparr>)"

section \<open>The metrics\<close>

definition ratio_of :: "nat \<Rightarrow> nat \<Rightarrow> real option" where
  "ratio_of numerator denominator = (if denominator = 0 then None else Some (py_round 4 (real numerator / real denominator)))"

definition per_1k :: "nat \<Rightarrow> nat \<Rightarrow> real option" where
  "per_1k n identifiers = (if identifiers = 0 then None else Some (py_round 2 (real (n * 1000) / real identifiers)))"

definition sum_tallies :: "('k \<times> good_count) list \<Rightarrow> good_count" where
  "sum_tallies d = (sum_list (map (fst \<circ> snd) d), sum_list (map (snd \<circ> snd) d))"

text \<open>A tally with its ratio, per language where the code reports it so.\<close>

record rated =
  ra_good :: nat
  ra_total :: nat
  ra_rate :: "real option"

definition rated_of :: "good_count \<Rightarrow> rated" where
  "rated_of t = \<lparr>ra_good = fst t, ra_total = snd t, ra_rate = ratio_of (fst t) (snd t)\<rparr>"

definition rates :: "(string, good_count) dict \<Rightarrow> (string \<times> real option) list" where
  "rates d = map (\<lambda>(k, t). (k, ratio_of (fst t) (snd t))) (sort_key fst d)"

record advisory_metrics =
  am_files :: nat
  am_languages :: "(string \<times> nat) list"
  am_skipped :: nat
  am_identifiers :: nat
  am_naming :: "(string \<times> (string \<times> rated) list \<times> real option) list"
  am_naming_examples :: "(string \<times> string \<times> string \<times> string \<times> int) list"
  am_single :: "nat \<times> real option \<times> (string \<times> int \<times> string) list"
  am_generic :: "nat \<times> real option \<times> (string \<times> nat) list \<times> (string \<times> int \<times> string) list"
  am_comments :: rated
  am_comments_by_language :: "(string \<times> real option) list"
  am_docs :: rated
  am_docs_by_language :: "(string \<times> real option) list"
  am_undocumented :: "(string \<times> int) list"

definition naming_metrics :: "(string, (string, good_count) dict) dict \<Rightarrow> (string \<times> (string \<times> rated) list \<times> real option) list" where
  "naming_metrics naming =
     map (\<lambda>(language, kinds).
         (language, map (\<lambda>(kind, t). (kind, rated_of t)) (sort_key fst kinds),
          (let (good, n) = sum_tallies kinds in ratio_of good n)))
       (sort_key fst naming)"

definition metrics_of :: "source_file list \<Rightarrow> advisory_totals \<Rightarrow> advisory_metrics" where
  "metrics_of files t =
     (let languages = List.map_filter parsed_language files; generic_count = sum_list (map snd (at_generic t))
      in \<lparr>am_files = length languages, am_languages = sort_key fst (counter languages),
          am_skipped = length (filter (\<lambda>f. file_use_of f = Skipped) files),
          am_identifiers = at_identifiers t, am_naming = naming_metrics (at_naming t), am_naming_examples = at_naming_examples t,
          am_single = (at_single t, per_1k (at_single t) (at_identifiers t), at_single_examples t),
          am_generic = (generic_count, per_1k generic_count (at_identifiers t),
            sort_key (\<lambda>e. - int (snd e)) (at_generic t), at_generic_examples t),
          am_comments = rated_of (sum_tallies (at_comments t)), am_comments_by_language = rates (at_comments t),
          am_docs = rated_of (sum_tallies (at_docs t)), am_docs_by_language = rates (at_docs t),
          am_undocumented = at_undocumented t\<rparr>)"

definition collect_advisory :: "source_file list \<Rightarrow> advisory_metrics" where
  "collect_advisory files = metrics_of files (fold_trees measure_tree no_totals files)"

text \<open>The report carries the metrics and no score; \<open>None\<close> is the one that does not apply.\<close>

definition advisory_report :: "source_file list \<Rightarrow> advisory_metrics option" where
  "advisory_report files = (let c = collect_advisory files in if am_files c = 0 then None else Some c)"

section \<open>Properties\<close>

text \<open>
  The advisory metrics count every name once per kind and scope, and their rates are shares; the
  density of comments is not one.
\<close>

section \<open>Entries of dictionaries\<close>

lemma sum_adjust:
  fixes w :: "'v \<Rightarrow> nat"
  assumes "\<And>v. w (f v) = w v + c" "w dflt = 0"
  shows "sum_list (map (w \<circ> snd) (adjust k dflt f d)) = sum_list (map (w \<circ> snd) d) + c"
  unfolding adjust_def by (induction d) (auto simp: assms)

lemma adjust_all:
  assumes "list_all (P \<circ> snd) d" "P dflt" "\<And>v. P v \<Longrightarrow> P (f v)"
  shows "list_all (P \<circ> snd) (adjust k dflt f d)"
  using assms(1) unfolding adjust_def by (induction d) (auto simp: assms(2,3))

lemma example_add_bound: "length xs \<le> MAX_EXAMPLES \<Longrightarrow> length (example_add x xs) \<le> MAX_EXAMPLES"
  by (simp add: example_add_def)

section \<open>What the totals promise\<close>

definition is_share :: "good_count \<Rightarrow> bool" where
  "is_share s \<longleftrightarrow> fst s \<le> snd s"

definition kinds_total :: "(string, good_count) dict \<Rightarrow> nat" where
  "kinds_total kinds = sum_list (map (snd \<circ> snd) kinds)"

definition examples_bounded :: "advisory_totals \<Rightarrow> bool" where
  "examples_bounded t \<longleftrightarrow>
     length (at_naming_examples t) \<le> MAX_EXAMPLES \<and> length (at_single_examples t) \<le> MAX_EXAMPLES
     \<and> length (at_generic_examples t) \<le> MAX_EXAMPLES \<and> length (at_undocumented t) \<le> MAX_EXAMPLES"

definition sound_totals :: "advisory_totals \<Rightarrow> bool" where
  "sound_totals t \<longleftrightarrow>
     list_all (list_all (is_share \<circ> snd) \<circ> snd) (at_naming t) \<and> list_all (is_share \<circ> snd) (at_docs t)
     \<and> sum_list (map (kinds_total \<circ> snd) (at_naming t)) = at_identifiers t
     \<and> at_single t \<le> at_identifiers t \<and> sum_list (map snd (at_generic t)) \<le> at_identifiers t
     \<and> examples_bounded t"

lemma is_share_count: "is_share s \<Longrightarrow> is_share (count_one b s)"
  by (auto simp: is_share_def count_one_def)

lemma is_share_zero: "is_share (0, 0)"
  by (simp add: is_share_def)

lemma kinds_total_count: "kinds_total (adjust kind (0, 0) (count_one b) kinds) = kinds_total kinds + 1"
  unfolding kinds_total_def by (rule sum_adjust) (simp_all add: count_one_def)

lemma kinds_total_Nil: "kinds_total [] = 0"
  by (simp add: kinds_total_def)

lemma generic_step: "sum_list (map snd (adjust g 0 Suc d)) = sum_list (map snd d) + 1"
  using sum_adjust [of id Suc 1 0 g d] by simp

lemma sound_naming:
  assumes "sound_totals t"
  shows "sound_totals (tally_naming language path i t)"
proof -
  let ?f = "adjust (id_kind i) (0, 0) (count_one (conforms language i))"
  have "list_all (list_all (is_share \<circ> snd) \<circ> snd) (adjust language [] ?f (at_naming t))"
    using assms by (intro adjust_all) (auto simp: sound_totals_def intro!: adjust_all is_share_count is_share_zero)
  moreover have "sum_list (map (kinds_total \<circ> snd) (adjust language [] ?f (at_naming t))) = at_identifiers t + 1"
    unfolding sum_adjust [of kinds_total ?f, OF kinds_total_count kinds_total_Nil] using assms by (simp add: sound_totals_def)
  ultimately show ?thesis
    using assms
    by (cases "conforms language i") (simp_all add: sound_totals_def tally_naming_def examples_bounded_def example_add_bound Let_def)
qed

lemma tally_naming_counts:
  "at_identifiers (tally_naming language path i t) = Suc (at_identifiers t)" "at_single (tally_naming language path i t) = at_single t"
  "at_generic (tally_naming language path i t) = at_generic t" "at_docs (tally_naming language path i t) = at_docs t"
  by (simp_all add: tally_naming_def Let_def)

lemma tally_single_fields:
  "at_identifiers (tally_single path i t) = at_identifiers t" "at_naming (tally_single path i t) = at_naming t"
  "at_generic (tally_single path i t) = at_generic t" "at_docs (tally_single path i t) = at_docs t"
  by (simp_all add: tally_single_def)

lemma tally_generic_fields:
  "at_identifiers (tally_generic path i t) = at_identifiers t" "at_naming (tally_generic path i t) = at_naming t"
  "at_single (tally_generic path i t) = at_single t" "at_docs (tally_generic path i t) = at_docs t"
  by (simp_all add: tally_generic_def)

lemma tally_one_identifiers: "at_identifiers (tally_one language path i t) = Suc (at_identifiers t)"
  by (simp add: tally_one_def tally_generic_fields tally_single_fields tally_naming_counts)

text \<open>A single letter or a generic name is counted for an identifier just counted.\<close>

lemma sound_tally_one:
  assumes "sound_totals t"
  shows "sound_totals (tally_one language path i t)"
proof -
  let ?n = "tally_naming language path i t"
  note n = sound_naming [OF assms, of language path i]
  have examples: "examples_bounded (tally_one language path i t)"
    using n by (auto simp: sound_totals_def examples_bounded_def tally_one_def tally_generic_def tally_single_def example_add_bound)
  have single: "at_single (tally_single path i ?n) \<le> at_single t + 1"
    by (simp add: tally_single_def tally_naming_counts)
  have generic: "sum_list (map snd (at_generic (tally_one language path i t))) \<le> sum_list (map snd (at_generic t)) + 1"
    by (simp add: tally_one_def tally_generic_def tally_single_fields tally_naming_counts generic_step)
  show ?thesis
    using assms n examples single generic
    by (simp add: sound_totals_def tally_one_def tally_generic_fields tally_single_fields tally_naming_counts)
qed

lemma sound_tally_loop: "sound_totals t \<Longrightarrow> sound_totals (tally_loop language path seen is t)"
  by (induction language path seen "is" t rule: tally_loop.induct) (simp_all add: sound_tally_one)

lemma sound_touch_naming: "sound_totals t \<Longrightarrow> sound_totals (t\<lparr>at_naming := adjust language [] id (at_naming t)\<rparr>)"
  using sum_adjust [of kinds_total id 0 "[]" language "at_naming t"] kinds_total_Nil
  by (auto simp: sound_totals_def examples_bounded_def intro!: adjust_all)

lemma sound_doc: "sound_totals t \<Longrightarrow> sound_totals (count_doc language path t d)"
  by (auto simp: sound_totals_def examples_bounded_def count_doc_def example_add_bound Let_def intro!: adjust_all is_share_count is_share_zero)

lemma sound_docs:
  assumes "sound_totals t"
  shows "sound_totals (add_docs language path docs t)"
  unfolding add_docs_def
proof (rule foldl_keeps)
  show "sound_totals (t\<lparr>at_docs := adjust language (0, 0) id (at_docs t)\<rparr>)"
    using assms by (auto simp: sound_totals_def examples_bounded_def intro!: adjust_all is_share_zero)
qed (rule sound_doc)

interpretation advisory_collector: tree_collector no_totals measure_tree sound_totals
proof
  show "sound_totals no_totals" by (simp add: sound_totals_def examples_bounded_def no_totals_def)
  show "sound_totals (measure_tree f language t)" if "sound_totals t" for f language t
  proof -
    have "sound_totals (t'\<lparr>at_comments := c\<rparr>)" if "sound_totals t'" for t' c
      using that by (simp add: sound_totals_def examples_bounded_def)
    then show ?thesis
      using that by (simp add: measure_tree_def tally_identifiers_def sound_tally_loop sound_touch_naming sound_docs Let_def)
  qed
qed

section \<open>Every name once\<close>

lemma tally_loop_identifiers:
  "at_identifiers (tally_loop language path seen is t) = at_identifiers t + card (ident_key ` set is - set seen)"
proof (induction language path seen "is" t rule: tally_loop.induct)
  case (2 language path seen i "is" t)
  have split: "ident_key ` set (i # is) - set seen
      = (if ident_key i \<in> set seen then ident_key ` set is - set seen
         else insert (ident_key i) (ident_key ` set is - set (ident_key i # seen)))"
    by auto
  show ?case
    using 2 unfolding split by (cases "ident_key i \<in> set seen") (simp_all add: tally_one_identifiers)
qed simp

lemma count_doc_identifiers: "at_identifiers (foldl (count_doc language path) t docs) = at_identifiers t"
  by (induction docs arbitrary: t) (simp_all add: count_doc_def Let_def)

definition file_names :: "source_file \<Rightarrow> (string \<times> string \<times> int) set" where
  "file_names f = (case parsed_language f of None \<Rightarrow> {} | Some language \<Rightarrow> ident_key ` set (identifiers_of language (sc_tree f)))"

lemma measure_identifiers:
  "at_identifiers (measure_tree f language t) = at_identifiers t + card (ident_key ` set (identifiers_of language (sc_tree f)))"
  by (simp add: measure_tree_def tally_identifiers_def tally_loop_identifiers add_docs_def count_doc_identifiers Let_def)

lemma fold_identifiers:
  "at_identifiers (fold_trees measure_tree t files) = at_identifiers t + sum_list (map (card \<circ> file_names) files)"
proof (induction files arbitrary: t)
  case (Cons f files)
  then show ?case
    by (cases "file_use_of f") (simp_all add: fold_trees_def file_names_def parsed_language_def measure_identifiers)
qed (simp add: fold_trees_def)

section \<open>The metrics\<close>

lemma ratio_unit:
  assumes "is_share (a, b)"
  shows "in_unit (ratio_of a b)"
proof -
  have "py_round 4 (real a / real b) \<le> 1" if "b \<noteq> 0"
    using that assms py_round_mono [of "real a / real b" 1 4] py_round_of_int [of 4 1] by (simp add: is_share_def)
  then show ?thesis by (simp add: ratio_of_def py_round_nonneg)
qed

lemma is_share_sum: "list_all (is_share \<circ> snd) d \<Longrightarrow> is_share (sum_tallies d)"
  by (induction d) (auto simp: sum_tallies_def is_share_def)

lemma list_all_sort: "list_all P (sort_key k xs) = list_all P xs"
  by (simp add: list_all_iff)

lemma rates_unit: "list_all (is_share \<circ> snd) d \<Longrightarrow> list_all (in_unit \<circ> snd) (rates d)"
  using ratio_unit by (auto simp: rates_def list_all_iff)

definition naming_total :: "(string \<times> (string \<times> rated) list \<times> real option) list \<Rightarrow> nat" where
  "naming_total naming = sum_list (map (\<lambda>(_, kinds, _). sum_list (map (ra_total \<circ> snd) kinds)) naming)"

definition naming_unit :: "string \<times> (string \<times> rated) list \<times> real option \<Rightarrow> bool" where
  "naming_unit entry = (case entry of (_, kinds, overall) \<Rightarrow> in_unit overall \<and> list_all (\<lambda>(_, r). in_unit (ra_rate r)) kinds)"

lemma sort_sum: "sum_list (map g (sort_key k xs)) = sum_list (map g xs)" for g :: "'a \<Rightarrow> nat"
  by (metis mset_map mset_sort sum_mset_sum_list)

lemma naming_metrics_total: "naming_total (naming_metrics naming) = sum_list (map (kinds_total \<circ> snd) naming)"
proof -
  have "sum_list (map (ra_total \<circ> snd) (map (\<lambda>(kind, t). (kind, rated_of t)) (sort_key fst kinds))) = kinds_total kinds" for kinds
    using sort_sum [of "snd \<circ> snd" fst kinds] by (simp add: kinds_total_def rated_of_def comp_def case_prod_unfold)
  then have "naming_total (naming_metrics naming) = sum_list (map (kinds_total \<circ> snd) (sort_key fst naming))"
    by (simp add: naming_total_def naming_metrics_def comp_def case_prod_unfold)
  then show ?thesis by (simp only: sort_sum)
qed

lemma naming_metrics_unit:
  assumes "list_all (list_all (is_share \<circ> snd) \<circ> snd) naming"
  shows "list_all naming_unit (naming_metrics naming)"
proof -
  have "naming_unit (language, map (\<lambda>(kind, t). (kind, rated_of t)) (sort_key fst kinds),
      (let (good, n) = sum_tallies kinds in ratio_of good n))" if "list_all (is_share \<circ> snd) kinds" for language kinds
  proof -
    obtain a b where s: "sum_tallies kinds = (a, b)" by fastforce
    then have "in_unit (ratio_of a b)" using is_share_sum [OF that] ratio_unit by metis
    then show ?thesis
      using that ratio_unit by (auto simp: naming_unit_def s list_all_iff rated_of_def)
  qed
  then show ?thesis using assms by (auto simp: naming_metrics_def list_all_iff)
qed


text \<open>
  Blank lines inside a block comment count as comment lines but not as non-blank lines, so the
  density of comments may exceed one.
\<close>

definition comment_only :: source_file where
  "comment_only = \<lparr>sc_path = ''a.js'', sc_size = Some 7,
     sc_bytes = ''/*'' @ [CHR 0x0A, CHR 0x0A, CHR 0x0A] @ ''*/'',
     sc_tree = Node ''program'' True None [] 0 0 3 [Node ''comment'' True None (''/*'' @ [CHR 0x0A, CHR 0x0A, CHR 0x0A] @ ''*/'') 0 0 3 []]\<rparr>"

lemma comment_density_above_one:
  "comment_lines (sc_tree comment_only) = 4 \<and> non_blank_lines (sc_bytes comment_only) = 2"
  by code_simp

end
