(* ===== verification/Vulnerabilities.thy ===== *)
theory Vulnerabilities
  imports Dedup Regex_Scan
begin

text \<open>
  \<open>analyzers/dependency.py\<close>: what OSV-Scanner reports becomes findings with the version to upgrade
  to.  The report is given by the fields of the OSV schema the code reads, a malformed result as
  \<open>None\<close>; the number in a CVSS score is read by the caller, \<open>None\<close> when it is not one.
\<close>

section \<open>Severity\<close>

definition DB_SEVERITY_MAP :: "(string \<times> severity) list" where
  "DB_SEVERITY_MAP =
     [(''CRITICAL'', CRITICAL), (''HIGH'', ERROR), (''MODERATE'', WARNING), (''MEDIUM'', WARNING), (''LOW'', INFO)]"

text \<open>The upper case of the ASCII letters is enough to find a label of the table.\<close>

definition upper_label :: "string \<Rightarrow> string" where
  "upper_label s = map (\<lambda>c. if is_lower c then char_of (code c - 32) else c) s"

definition normalize_severity :: "real option \<Rightarrow> string list \<Rightarrow> severity" where
  "normalize_severity score labels =
     (let labelled = List.map_filter (\<lambda>l. map_of DB_SEVERITY_MAP (upper_label l)) labels;
          by_label = (if labelled = [] then WARNING else first_max id labelled)
      in case score of
           None \<Rightarrow> by_label
         | Some x \<Rightarrow>
             if 0 < x then (if 9 \<le> x then CRITICAL else if 7 \<le> x then ERROR else if 4 \<le> x then WARNING else INFO)
             else by_label)"

section \<open>Versions\<close>

text \<open>Numeric parts, with the mark 1, come after words, with the mark 0.\<close>

type_synonym rank_key = "(nat \<times> nat \<times> string) list"

definition is_letter :: "char \<Rightarrow> bool" where
  "is_letter c \<longleftrightarrow> is_upper c \<or> is_lower c"

definition VERSION_PART :: rx where
  "VERSION_PART = Alt (Plus (Cls is_digit)) (Plus (Cls is_letter))"

definition version_rank :: "string \<Rightarrow> rank_key" where
  "version_rank v =
     map (\<lambda>p. if list_all is_digit p then (1, nat_of_digits 0 p, []) else (0, 0, lower p)) (rx_findall VERSION_PART v)"

definition normalize_package_name :: "string \<Rightarrow> string \<Rightarrow> string" where
  "normalize_package_name name ecosystem =
     (if ecosystem = ''PyPI'' then lower (rx_sub (Plus (OneOf ''-_.'')) ''-'' name) else name)"

section \<open>Fixed versions\<close>

record osv_event =
  ev_introduced :: "string option"
  ev_fixed :: "string option"

record osv_range =
  rg_type :: string
  rg_events :: "osv_event list"

record osv_package =
  op_name :: string
  op_version :: string
  op_ecosystem :: string

record osv_affected =
  af_package :: osv_package
  af_ranges :: "osv_range list"

record osv_vulnerability =
  vu_id :: string
  vu_summary :: string
  vu_details :: string
  vu_label :: "string option"
  vu_affected :: "osv_affected list"

text \<open>The loop over the events, with the version that opened the current interval.\<close>

fun range_fixes :: "rank_key \<Rightarrow> string option \<Rightarrow> osv_event list \<Rightarrow> string list" where
  "range_fixes installed introduced [] = []"
| "range_fixes installed introduced (e # es) =
     (case ev_introduced e of
        Some v \<Rightarrow> range_fixes installed (Some v) es
      | None \<Rightarrow>
          (case (ev_fixed e, introduced) of
             (Some fixed, Some from) \<Rightarrow>
               (if (from = ''0'' \<or> version_rank from \<le> installed) \<and> installed < version_rank fixed then [fixed] else [])
               @ range_fixes installed None es
           | _ \<Rightarrow> range_fixes installed introduced es))"

definition same_package :: "osv_package \<Rightarrow> osv_package \<Rightarrow> bool" where
  "same_package p package \<longleftrightarrow>
     op_ecosystem p = op_ecosystem package
     \<and> normalize_package_name (op_name p) (op_ecosystem p) = normalize_package_name (op_name package) (op_ecosystem package)"

text \<open>\<open>sorted(set(...), key=...)\<close>; versions of the same rank come in the order they occur.\<close>

definition sorted_versions :: "string list \<Rightarrow> string list" where
  "sorted_versions vs = sort_key version_rank (dict_fromkeys vs)"

definition affected_fixes :: "osv_package \<Rightarrow> osv_affected \<Rightarrow> string list" where
  "affected_fixes package affected =
     (if same_package (af_package affected) package
      then concat (map (\<lambda>r. if rg_type r = ''GIT'' then [] else range_fixes (version_rank (op_version package)) None (rg_events r))
             (af_ranges affected))
      else [])"

definition fixed_versions :: "osv_vulnerability \<Rightarrow> osv_package \<Rightarrow> string list" where
  "fixed_versions vulnerability package = sorted_versions (concat (map (affected_fixes package) (vu_affected vulnerability)))"

section \<open>Groups of advisories\<close>

record osv_group =
  gr_ids :: "string list"
  gr_aliases :: "string list"
  gr_score :: "real option"

definition first_with :: "string \<Rightarrow> string list \<Rightarrow> string option" where
  "first_with prefix candidates =
     (case sort (filter (starts_with prefix) candidates) of [] \<Rightarrow> None | c # _ \<Rightarrow> Some c)"

definition advisory_id :: "osv_group \<Rightarrow> string" where
  "advisory_id group_data =
     (case first_with ''CVE-'' (gr_aliases group_data) of
        Some c \<Rightarrow> c
      | None \<Rightarrow>
          (case first_with ''GHSA-'' (gr_ids group_data @ gr_aliases group_data) of
             Some c \<Rightarrow> c
           | None \<Rightarrow> (case gr_ids group_data of [] \<Rightarrow> ''unknown-advisory'' | i # _ \<Rightarrow> i)))"

definition before_sentence :: "string \<Rightarrow> string" where
  "before_sentence s = (case rx_split (Str ''. '') s of [] \<Rightarrow> [] | p # _ \<Rightarrow> p)"

definition first_sentence :: "string \<Rightarrow> string" where
  "first_sentence details = take 200 (rstrip_by (\<lambda>c. c = CHR ''.'') (before_sentence (join '' '' (py_words details))))"

definition vuln_summary :: "osv_vulnerability list \<Rightarrow> string" where
  "vuln_summary vulns =
     (case find (\<lambda>s. s \<noteq> []) (map (strip \<circ> vu_summary) vulns) of
        Some s \<Rightarrow> s
      | None \<Rightarrow>
          (case find (\<lambda>v. py_words (vu_details v) \<noteq> []) vulns of
             Some v \<Rightarrow> first_sentence (vu_details v) | None \<Rightarrow> ''Known vulnerability''))"

text \<open>The records of a group; of two with one id the later counts.\<close>

definition group_vulns :: "osv_vulnerability list \<Rightarrow> osv_group \<Rightarrow> osv_vulnerability list" where
  "group_vulns vulns group_data = List.map_filter (map_of (rev (map (\<lambda>v. (vu_id v, v)) vulns))) (gr_ids group_data)"

definition upgrade_version :: "osv_package \<Rightarrow> osv_vulnerability list \<Rightarrow> string option" where
  "upgrade_version package vulns =
     (let fixes = map (\<lambda>v. fixed_versions v package) vulns
      in if list_all (\<lambda>fs. fs \<noteq> []) fixes then Some (first_max version_rank (map hd fixes)) else None)"

definition all_fixes :: "osv_package \<Rightarrow> osv_vulnerability list \<Rightarrow> string list" where
  "all_fixes package vulns = sorted_versions (concat (map (\<lambda>v. fixed_versions v package) vulns))"

section \<open>Findings\<close>

record osv_entry =
  en_package :: osv_package
  en_vulnerabilities :: "osv_vulnerability list"
  en_groups :: "osv_group list"

record osv_result =
  rs_path :: string
  rs_packages :: "osv_entry list"

text \<open>What the finding says of the dependency beyond the fields the comparison reads.\<close>

record vulnerable_dependency =
  vd_finding :: finding_data
  vd_advisory :: string
  vd_aliases :: "string list"
  vd_fixed :: "string option"
  vd_all_fixes :: "string list"

definition strip_nul :: "string \<Rightarrow> string" where
  "strip_nul s = filter (\<lambda>c. c \<noteq> CHR 0x00) s"

definition fix_text :: "string option \<Rightarrow> string" where
  "fix_text fixed = (case fixed of None \<Rightarrow> ''No fixed version is known.'' | Some v \<Rightarrow> ''Upgrade to '' @ v @ '' or later.'')"

definition group_finding :: "string \<Rightarrow> osv_package \<Rightarrow> osv_vulnerability list \<Rightarrow> osv_group \<Rightarrow> vulnerable_dependency" where
  "group_finding path package vulns group_data =
     (let fixed = upgrade_version package vulns; advisory = advisory_id group_data;
          text = op_name package @ '' '' @ op_version package @ '': '' @ vuln_summary vulns @ ''. '' @ fix_text fixed
      in \<lparr>vd_finding =
            \<lparr>analyzer = ''dependency'', rule_id = take 512 (strip_nul advisory),
             sev = normalize_severity (gr_score group_data) (List.map_filter vu_label vulns), file_path = strip_nul path,
             start_line = 1, end_line = 1, message = strip_nul text, code_snippet = None,
             category = Some (''vulnerable-dependency:'' @ op_ecosystem package @ '':'' @ op_name package @ '':'' @ advisory),
             cwe_ids = [],
             dependency = Some \<lparr>dep_ecosystem = Some (strip_nul (op_ecosystem package)),
               dep_package = Some (strip_nul (op_name package)), dep_version = Some (strip_nul (op_version package))\<rparr>,
             corroborated_by = [], merged_from = []\<rparr>,
          vd_advisory = strip_nul advisory,
          vd_aliases = map strip_nul (sort (remdups (gr_ids group_data @ gr_aliases group_data))),
          vd_fixed = map_option strip_nul fixed, vd_all_fixes = map strip_nul (all_fixes package vulns)\<rparr>)"

definition entry_findings :: "string \<Rightarrow> osv_entry \<Rightarrow> vulnerable_dependency list" where
  "entry_findings path entry =
     List.map_filter (\<lambda>g. case group_vulns (en_vulnerabilities entry) g of
         [] \<Rightarrow> None | vs \<Rightarrow> Some (group_finding path (en_package entry) vs g))
       (en_groups entry)"

definition parse_osv_output :: "osv_result option list \<Rightarrow> vulnerable_dependency list" where
  "parse_osv_output results =
     concat (map (\<lambda>r. case r of
         None \<Rightarrow> []
       | Some result \<Rightarrow> concat (map (entry_findings (normalize_path (rs_path result))) (rs_packages result)))
       results)"

section \<open>Properties\<close>

text \<open>
  The recommended version of a group is the threshold from which every advisory of the group has
  been fixed once; that a later range is open there again is not looked at.
\<close>

section \<open>Intervals\<close>

definition neutral :: "osv_event \<Rightarrow> bool" where
  "neutral e \<longleftrightarrow> ev_introduced e = None \<and> ev_fixed e = None"

definition closes :: "osv_event \<Rightarrow> string \<Rightarrow> bool" where
  "closes e v \<longleftrightarrow> ev_introduced e = None \<and> ev_fixed e = Some v"

text \<open>The next event that says something closes the open interval.\<close>

definition leads_to :: "osv_event list \<Rightarrow> string \<Rightarrow> bool" where
  "leads_to es v \<longleftrightarrow> (\<exists>mid e post. es = mid @ e # post \<and> list_all neutral mid \<and> closes e v)"

definition interval :: "osv_event list \<Rightarrow> string \<Rightarrow> string \<Rightarrow> bool" where
  "interval es from v \<longleftrightarrow> (\<exists>pre e post. es = pre @ e # post \<and> ev_introduced e = Some from \<and> leads_to post v)"

lemma leads_to_Nil [simp]: "\<not> leads_to [] v"
  by (simp add: leads_to_def)

lemma leads_to_Cons: "leads_to (e # es) v \<longleftrightarrow> closes e v \<or> neutral e \<and> leads_to es v"
proof
  assume "leads_to (e # es) v"
  then obtain mid b post where m: "e # es = mid @ b # post" "list_all neutral mid" "closes b v"
    unfolding leads_to_def by blast
  then show "closes e v \<or> neutral e \<and> leads_to es v"
    by (cases mid) (auto simp: leads_to_def)
next
  assume "closes e v \<or> neutral e \<and> leads_to es v"
  then show "leads_to (e # es) v"
  proof
    assume "closes e v"
    then show ?thesis unfolding leads_to_def by (intro exI [of _ "[]"]) simp
  next
    assume *: "neutral e \<and> leads_to es v"
    then obtain mid b post where "es = mid @ b # post" "list_all neutral mid" "closes b v"
      unfolding leads_to_def by blast
    then show ?thesis using * unfolding leads_to_def by (intro exI [of _ "e # mid"]) simp
  qed
qed

lemma interval_Nil [simp]: "\<not> interval [] from v"
  by (simp add: interval_def)

lemma interval_Cons: "interval (e # es) from v \<longleftrightarrow> ev_introduced e = Some from \<and> leads_to es v \<or> interval es from v"
  unfolding interval_def by (auto simp: Cons_eq_append_conv)

definition applies_from :: "rank_key \<Rightarrow> string \<Rightarrow> bool" where
  "applies_from installed from \<longleftrightarrow> from = ''0'' \<or> version_rank from \<le> installed"

lemma range_fixes_iff:
  "v \<in> set (range_fixes installed introduced es) \<longleftrightarrow>
     installed < version_rank v
     \<and> (\<exists>from. applies_from installed from \<and> (interval es from v \<or> introduced = Some from \<and> leads_to es v))"
proof (induction installed introduced es rule: range_fixes.induct)
  case (2 installed introduced e es)
  show ?case
  proof (cases "ev_introduced e")
    case (Some w)
    then show ?thesis using 2 by (auto simp: interval_Cons leads_to_Cons closes_def neutral_def)
  next
    case None
    show ?thesis
    proof (cases "ev_fixed e")
      case None
      then show ?thesis using 2 \<open>ev_introduced e = None\<close>
        by (cases introduced) (auto simp: interval_Cons leads_to_Cons closes_def neutral_def)
    next
      case (Some f)
      then show ?thesis using 2 None
        by (cases introduced) (auto simp: interval_Cons leads_to_Cons closes_def neutral_def applies_from_def)
    qed
  qed
qed simp

section \<open>Fixed versions\<close>

text \<open>A version fixes an advisory if it ends an interval of the package that holds the installed one.\<close>

definition fixed_in :: "osv_package \<Rightarrow> osv_vulnerability \<Rightarrow> string \<Rightarrow> bool" where
  "fixed_in package u v \<longleftrightarrow>
     version_rank (op_version package) < version_rank v
     \<and> (\<exists>a \<in> set (vu_affected u). same_package (af_package a) package
          \<and> (\<exists>r \<in> set (af_ranges a). rg_type r \<noteq> ''GIT''
               \<and> (\<exists>from. applies_from (version_rank (op_version package)) from \<and> interval (rg_events r) from v)))"

lemma set_sorted_versions [simp]: "set (sorted_versions vs) = set vs"
  by (simp add: sorted_versions_def)

lemma fixed_versions_iff: "v \<in> set (fixed_versions u package) \<longleftrightarrow> fixed_in package u v"
  by (auto simp: fixed_versions_def affected_fixes_def fixed_in_def range_fixes_iff split: if_splits)

lemma fixed_versions_least:
  assumes "fixed_versions u package \<noteq> []"
  shows "fixed_in package u (hd (fixed_versions u package))"
    "fixed_in package u f \<Longrightarrow> version_rank (hd (fixed_versions u package)) \<le> version_rank f"
proof -
  show "fixed_in package u (hd (fixed_versions u package))"
    using assms by (simp flip: fixed_versions_iff)
  have sorted: "sorted (map version_rank (fixed_versions u package))"
    by (simp add: fixed_versions_def sorted_versions_def)
  show "version_rank (hd (fixed_versions u package)) \<le> version_rank f" if "fixed_in package u f"
    using that assms sorted unfolding fixed_versions_iff [symmetric] by (cases "fixed_versions u package") auto
qed

text \<open>
  C38: A group of advisories gets a version to upgrade to exactly if every advisory has a version
  that ends an interval with the installed one, and this version is the threshold: it is newer
  than the installed one, and a version reaches it exactly if it reaches such an end for every
  advisory of the group.
\<close>

theorem upgrade_is_threshold:
  assumes "vulns \<noteq> []"
  shows "(upgrade_version package vulns = None \<longleftrightarrow> (\<exists>u \<in> set vulns. \<forall>v. \<not> fixed_in package u v))
    \<and> (\<forall>v. upgrade_version package vulns = Some v \<longrightarrow>
          version_rank (op_version package) < version_rank v
          \<and> (\<forall>w. version_rank v \<le> version_rank w \<longleftrightarrow>
                 (\<forall>u \<in> set vulns. \<exists>f. fixed_in package u f \<and> version_rank f \<le> version_rank w)))"
proof -
  let ?fixes = "\<lambda>u. fixed_versions u package"
  have empty: "?fixes u = [] \<longleftrightarrow> (\<forall>v. \<not> fixed_in package u v)" for u
    by (simp flip: fixed_versions_iff)
  have none: "upgrade_version package vulns = None \<longleftrightarrow> (\<exists>u \<in> set vulns. \<forall>v. \<not> fixed_in package u v)"
    unfolding empty [symmetric] by (auto simp: upgrade_version_def list_all_iff Let_def)
  have some: "version_rank (op_version package) < version_rank v
      \<and> (\<forall>w. version_rank v \<le> version_rank w \<longleftrightarrow>
             (\<forall>u \<in> set vulns. \<exists>f. fixed_in package u f \<and> version_rank f \<le> version_rank w))"
    if "upgrade_version package vulns = Some v" for v
  proof -
    let ?firsts = "map (\<lambda>u. hd (?fixes u)) vulns"
    have all: "\<And>u. u \<in> set vulns \<Longrightarrow> ?fixes u \<noteq> []" and v: "v = first_max version_rank ?firsts"
      using that by (auto simp: upgrade_version_def list_all_iff comp_def Let_def split: if_splits)
    have "v \<in> set ?firsts" unfolding v using assms by (intro first_max_in) simp
    then obtain u0 where u0: "u0 \<in> set vulns" "v = hd (?fixes u0)" by auto
    have above: "version_rank (hd (?fixes u)) \<le> version_rank v" if "u \<in> set vulns" for u
      unfolding v using that by (intro first_max_ge) simp
    have "fixed_in package u0 v" using fixed_versions_least(1) all u0 by blast
    moreover have "\<exists>f. fixed_in package u f \<and> version_rank f \<le> version_rank w"
      if "version_rank v \<le> version_rank w" "u \<in> set vulns" for u w
      using fixed_versions_least(1) [OF all [OF that(2)]] above [OF that(2)] that(1) by (meson order_trans)
    moreover have "version_rank v \<le> version_rank w"
      if "\<forall>u \<in> set vulns. \<exists>f. fixed_in package u f \<and> version_rank f \<le> version_rank w" for w
      using that fixed_versions_least(2) [OF all] u0 by (meson order_trans)
    ultimately show ?thesis unfolding fixed_in_def by blast
  qed
  show ?thesis using none some by blast
qed

section \<open>An example\<close>

definition introduced_at :: "string \<Rightarrow> osv_event" where
  "introduced_at v = \<lparr>ev_introduced = Some v, ev_fixed = None\<rparr>"

definition fixed_at :: "string \<Rightarrow> osv_event" where
  "fixed_at v = \<lparr>ev_introduced = None, ev_fixed = Some v\<rparr>"

definition example_package :: "string \<Rightarrow> osv_package" where
  "example_package v = \<lparr>op_name = ''pkg'', op_version = v, op_ecosystem = ''npm''\<rparr>"

definition example_vuln :: "osv_event list \<Rightarrow> osv_vulnerability" where
  "example_vuln es = \<lparr>vu_id = ''A'', vu_summary = [], vu_details = [], vu_label = None,
     vu_affected = [\<lparr>af_package = example_package [], af_ranges = [\<lparr>rg_type = ''SEMVER'', rg_events = es\<rparr>]\<rparr>]\<rparr>"

definition two_lines :: osv_vulnerability where
  "two_lines = example_vuln [introduced_at ''0'', fixed_at ''1.5'', introduced_at ''2.0'', fixed_at ''2.3'']"

definition late_fix :: osv_vulnerability where
  "late_fix = example_vuln [introduced_at ''0'', fixed_at ''2.1'']"

theorem upgrade_is_threshold_witness:
  "\<forall>w. version_rank ''2.1'' \<le> version_rank w \<longleftrightarrow>
     (\<forall>u \<in> set [two_lines, late_fix]. \<exists>f. fixed_in (example_package ''1.0'') u f \<and> version_rank f \<le> version_rank w)"
proof -
  have "upgrade_version (example_package ''1.0'') [two_lines, late_fix] = Some ''2.1''" by code_simp
  then show ?thesis using upgrade_is_threshold [of "[two_lines, late_fix]" "example_package ''1.0''"] by blast
qed

text \<open>
  The recommended version may be in a later interval of an advisory of the group, so that the
  program itself reports the advisory again after the upgrade.
\<close>

lemma upgrade_still_vulnerable:
  "upgrade_version (example_package ''1.0'') [two_lines, late_fix] = Some ''2.1''
   \<and> fixed_versions two_lines (example_package ''2.1'') = [''2.3'']"
  by code_simp

end
