(* ===== verification/Code_Windows.thy ===== *)
theory Code_Windows
  imports Regex_Scan
begin

text \<open>
  The source code sent with a fix request (\<open>llm/context.py\<close>): the lines around a finding, windows
  that touch merged into one, and what is said of a dependency update.  The text of a file is an
  argument, \<open>None\<close> when it is not a readable file of the repository.
\<close>

record code_window =
  cw_path :: string
  cw_start :: int
  cw_end :: int
  cw_text :: string

text \<open>\<open>lines[i:j]\<close> for a natural \<open>i\<close>; a negative end counts from the back.\<close>

definition lines_between :: "string list \<Rightarrow> nat \<Rightarrow> int \<Rightarrow> string list" where
  "lines_between ls i j = (let k = nat (if j < 0 then j + int (length ls) else j) in take (k - i) (drop i ls))"

definition cut_window :: "string option \<Rightarrow> string \<Rightarrow> int \<Rightarrow> int \<Rightarrow> int \<Rightarrow> code_window option" where
  "cut_window text path start stop context_lines =
     (case text of
        None \<Rightarrow> None
      | Some t \<Rightarrow>
          (let ls = splitlines t; first = max 1 (start - context_lines);
               final = min (int (length ls)) (max start stop + context_lines)
           in Some \<lparr>cw_path = path, cw_start = first, cw_end = final,
                cw_text = join [CHR 0x0A] (lines_between ls (nat (first - 1)) final)\<rparr>))"

definition touches :: "code_window \<Rightarrow> code_window \<Rightarrow> bool" where
  "touches previous w \<longleftrightarrow> cw_path previous = cw_path w \<and> cw_start w \<le> cw_end previous + 1"

definition joined :: "code_window \<Rightarrow> code_window \<Rightarrow> code_window" where
  "joined previous w =
     (let overlap = cw_end previous - cw_start w + 1;
          ls = split_on CHR 0x0A (cw_text previous) @ drop (nat overlap) (split_on CHR 0x0A (cw_text w))
      in \<lparr>cw_path = cw_path w, cw_start = cw_start previous, cw_end = max (cw_end previous) (cw_end w),
          cw_text = join [CHR 0x0A] ls\<rparr>)"

definition merge_step :: "code_window list \<Rightarrow> code_window \<Rightarrow> code_window list" where
  "merge_step merged w =
     (if merged \<noteq> [] \<and> touches (last merged) w then butlast merged @ [joined (last merged) w] else merged @ [w])"

definition window_key :: "code_window \<Rightarrow> string \<times> int" where
  "window_key w = (cw_path w, cw_start w)"

definition merge_windows :: "code_window list \<Rightarrow> code_window list" where
  "merge_windows ws = foldl merge_step [] (sort_key window_key ws)"

section \<open>Dependency updates\<close>

definition version_numbers :: "string \<Rightarrow> nat list" where
  "version_numbers v = map (nat_of_digits 0) (take 3 (rx_findall (Plus (Cls is_digit)) v))"

definition minor_of :: "nat list \<Rightarrow> nat" where
  "minor_of parts = (case parts of _ # m # _ \<Rightarrow> m | _ \<Rightarrow> 0)"

definition is_major_bump :: "string \<Rightarrow> string option \<Rightarrow> bool option" where
  "is_major_bump installed fixed =
     (case fixed of
        None \<Rightarrow> None
      | Some f \<Rightarrow>
          (if f = [] then None
           else (case (version_numbers installed, version_numbers f) of
                   (a # as, b # bs) \<Rightarrow>
                     Some (if a = 0 \<and> b = 0 then minor_of (a # as) \<noteq> minor_of (b # bs) else a \<noteq> b)
                 | _ \<Rightarrow> None)))"

definition NPM_LOCKFILES :: "string list" where
  "NPM_LOCKFILES = [''package-lock.json'', ''npm-shrinkwrap.json'', ''yarn.lock'', ''pnpm-lock.yaml'']"

definition manifest_beside :: "string \<Rightarrow> string" where
  "manifest_beside path =
     (let parts = path_parent_parts path; below = (if path_root path = [] then parts else tl parts)
      in path_root path @ join ''/'' (below @ [''package.json'']))"

definition dependency_manifest :: "(string \<Rightarrow> bool) \<Rightarrow> string \<Rightarrow> string \<Rightarrow> string" where
  "dependency_manifest is_file path ecosystem =
     (if ecosystem = ''npm'' \<and> path_name path \<in> set NPM_LOCKFILES \<and> is_file (manifest_beside path)
      then manifest_beside path else path)"

section \<open>Properties\<close>

text \<open>
  Merged windows are excerpts of the file again: they cover the same lines, each once, in order
  and with a gap between two of the same file.
\<close>

section \<open>Excerpts\<close>

definition section_of :: "string list \<Rightarrow> int \<Rightarrow> int \<Rightarrow> string list" where
  "section_of ls a b = take (nat (b - a + 1)) (drop (nat (a - 1)) ls)"

definition excerpt :: "(string \<Rightarrow> string list) \<Rightarrow> code_window \<Rightarrow> bool" where
  "excerpt src w \<longleftrightarrow>
     1 \<le> cw_start w \<and> cw_start w \<le> cw_end w \<and> cw_end w \<le> int (length (src (cw_path w)))
     \<and> (\<forall>l \<in> set (src (cw_path w)). CHR 0x0A \<notin> set l)
     \<and> cw_text w = join [CHR 0x0A] (section_of (src (cw_path w)) (cw_start w) (cw_end w))"

lemma section_ne: "1 \<le> a \<Longrightarrow> a \<le> b \<Longrightarrow> b \<le> int (length ls) \<Longrightarrow> section_of ls a b \<noteq> []"
  by (simp add: section_of_def)

lemma split_excerpt:
  assumes "excerpt src w"
  shows "split_on CHR 0x0A (cw_text w) = section_of (src (cw_path w)) (cw_start w) (cw_end w)"
proof -
  have "\<forall>l \<in> set (section_of (src (cw_path w)) (cw_start w) (cw_end w)). CHR 0x0A \<notin> set l"
    using assms by (auto simp: excerpt_def section_of_def dest: in_set_takeD in_set_dropD)
  then show ?thesis using assms section_ne by (simp add: excerpt_def split_on_join)
qed

lemma take_drop_join:
  assumes "i \<le> k" "k \<le> j" "i \<le> j"
  shows "take (j - i) (drop i ls) @ drop (j - k) (take (l - k) (drop k ls)) = take (max j l - i) (drop i ls)"
proof -
  have "drop (j - k) (take (l - k) (drop k ls)) = take (l - j) (drop j ls)"
    using assms by (simp add: drop_take)
  moreover have "take (max j l - i) (drop i ls) = take (j - i) (drop i ls) @ take (l - j) (drop j ls)"
    using assms take_add [of "j - i" "l - j" "drop i ls"] by (cases "j \<le> l") simp_all
  ultimately show ?thesis by simp
qed

lemma section_join:
  assumes "1 \<le> a" "a \<le> b" "a \<le> c" "c \<le> b + 1" "c \<le> d"
  shows "section_of ls a b @ drop (nat (b - c + 1)) (section_of ls c d) = section_of ls a (max b d)"
proof -
  define i j k l where "i = nat (a - 1)" and "j = nat b" and "k = nat (c - 1)" and "l = nat d"
  have "a = int i + 1" "b = int j" "c = int k + 1" "d = int l" using assms by (simp_all add: i_def j_def k_def l_def)
  moreover from this have "nat (int j - int i) = j - i" "nat (int l - int k) = l - k" "nat (int j - int k) = j - k"
      "nat (max (int j) (int l) - int i) = max j l - i"
    using assms by linarith+
  ultimately show ?thesis using assms take_drop_join [of i k j ls l] by (simp add: section_of_def)
qed

lemma excerpt_joined:
  assumes "excerpt src p" "excerpt src w" "touches p w" "cw_start p \<le> cw_start w"
  shows "excerpt src (joined p w)"
proof -
  let ?ls = "src (cw_path w)"
  have path: "cw_path p = cw_path w" and touch: "cw_start w \<le> cw_end p + 1" using assms(3) by (simp_all add: touches_def)
  have bounds: "1 \<le> cw_start p" "cw_start p \<le> cw_end p" "cw_start w \<le> cw_end w" "cw_end p \<le> int (length ?ls)"
      "cw_end w \<le> int (length ?ls)"
    using assms(1,2) path by (simp_all add: excerpt_def)
  have "cw_text (joined p w) = join [CHR 0x0A] (section_of ?ls (cw_start p) (max (cw_end p) (cw_end w)))"
    using section_join [OF bounds(1,2) assms(4) touch bounds(3), of ?ls]
    by (simp add: joined_def split_excerpt [OF assms(1)] split_excerpt [OF assms(2)] path Let_def)
  then show ?thesis using assms(2) bounds by (auto simp: excerpt_def joined_def Let_def)
qed

section \<open>Merging\<close>

definition lines_covered :: "code_window list \<Rightarrow> (string \<times> int) set" where
  "lines_covered ws = (\<Union>w \<in> set ws. {cw_path w} \<times> {cw_start w..cw_end w})"

definition apart :: "code_window \<Rightarrow> code_window \<Rightarrow> bool" where
  "apart a b \<longleftrightarrow> cw_path a < cw_path b \<or> cw_path a = cw_path b \<and> cw_end a + 1 < cw_start b"

lemma lines_covered_simps [simp]:
  "lines_covered [] = {}" "lines_covered (w # ws) = {cw_path w} \<times> {cw_start w..cw_end w} \<union> lines_covered ws"
  "lines_covered (ws @ vs) = lines_covered ws \<union> lines_covered vs"
  by (auto simp: lines_covered_def)

definition merging :: "(string \<Rightarrow> string list) \<Rightarrow> code_window list \<Rightarrow> bool" where
  "merging src ms \<longleftrightarrow> (\<forall>m \<in> set ms. excerpt src m) \<and> sorted_wrt apart ms"

lemma joined_cover:
  assumes "excerpt src p" "excerpt src w" "touches p w" "cw_start p \<le> cw_start w"
  shows "lines_covered [joined p w] = lines_covered [p, w]"
  using assms by (auto simp: excerpt_def touches_def joined_def Let_def)

lemma merge_step_props:
  assumes "merging src ms" "excerpt src w" "\<forall>m \<in> set ms. window_key m \<le> window_key w"
  shows "merging src (merge_step ms w) \<and> lines_covered (merge_step ms w) = lines_covered ms \<union> lines_covered [w]
    \<and> (\<forall>m \<in> set (merge_step ms w). window_key m \<le> window_key w)"
proof (cases ms rule: rev_cases)
  case Nil
  then show ?thesis using assms by (simp add: merge_step_def merging_def)
next
  case (snoc ms' p)
  have p: "excerpt src p" "\<forall>m \<in> set ms'. apart m p" "window_key p \<le> window_key w"
    using assms snoc by (auto simp: merging_def sorted_wrt_append)
  show ?thesis
  proof (cases "touches p w")
    case True
    then have start: "cw_start p \<le> cw_start w" using p(3) by (auto simp: window_key_def touches_def)
    note j = excerpt_joined [OF p(1) assms(2) True start] joined_cover [OF p(1) assms(2) True start]
    have "\<forall>m \<in> set ms'. apart m (joined p w)"
      using p(2) True by (auto simp: apart_def joined_def touches_def Let_def)
    moreover have "window_key (joined p w) \<le> window_key w" using start by (simp add: window_key_def joined_def Let_def)
    ultimately show ?thesis
      using assms snoc True j by (auto simp: merge_step_def merging_def sorted_wrt_append)
  next
    case False
    have "cw_start p \<le> cw_end p" using p(1) by (simp add: excerpt_def)
    moreover have "apart p w" using False p(3) by (auto simp: apart_def touches_def window_key_def)
    ultimately have "\<forall>m \<in> set ms'. apart m w"
      using p(2) by (force simp: apart_def intro: less_trans)
    then show ?thesis
      using assms snoc False \<open>apart p w\<close> by (auto simp: merge_step_def merging_def sorted_wrt_append)
  qed
qed

lemma merge_fold_props:
  assumes "merging src ms" "\<forall>w \<in> set ws. excerpt src w" "sorted (map window_key ws)"
    "\<forall>m \<in> set ms. \<forall>w \<in> set ws. window_key m \<le> window_key w"
  shows "merging src (foldl merge_step ms ws) \<and> lines_covered (foldl merge_step ms ws) = lines_covered ms \<union> lines_covered ws"
  using assms
proof (induction ws arbitrary: ms)
  case (Cons w ws)
  have step: "merging src (merge_step ms w)" "lines_covered (merge_step ms w) = lines_covered ms \<union> lines_covered [w]"
      "\<forall>m \<in> set (merge_step ms w). window_key m \<le> window_key w"
    using merge_step_props [of src ms w] Cons.prems by auto
  have "\<forall>m \<in> set (merge_step ms w). \<forall>v \<in> set ws. window_key m \<le> window_key v"
    using step(3) Cons.prems(3) by (auto intro: order_trans)
  then show ?case using Cons.IH [OF step(1)] Cons.prems step(2) by auto
qed simp

text \<open>
  C39: Merging windows that are excerpts of files gives excerpts again, whose text is the text of
  the file between their lines; they cover exactly the lines of the given windows, and two of
  them of the same file neither overlap nor touch, so no line is sent twice.
\<close>

theorem merge_windows_exact:
  assumes "\<forall>w \<in> set ws. excerpt src w"
  shows "(\<forall>m \<in> set (merge_windows ws). excerpt src m)
    \<and> lines_covered (merge_windows ws) = lines_covered ws
    \<and> sorted_wrt apart (merge_windows ws)"
proof -
  have "merging src [] \<and> sorted (map window_key (sort_key window_key ws))" by (simp add: merging_def)
  then show ?thesis
    using merge_fold_props [of src "[]" "sort_key window_key ws"] assms
    by (simp add: merge_windows_def merging_def lines_covered_def)
qed

section \<open>Windows of a file\<close>

lemma no_break_no_feed: "\<not> is_line_break c \<Longrightarrow> CHR 0x0A \<noteq> c"
  by (auto simp: is_line_break_def code_def)

lemma lines_from_no_break: "CHR 0x0A \<notin> set acc \<Longrightarrow> \<forall>l \<in> set (lines_from acc s). CHR 0x0A \<notin> set l"
  by (induction acc s rule: lines_from.induct) (auto dest: no_break_no_feed)

lemma cut_window_excerpt:
  assumes "cut_window (Some t) path start stop context_lines = Some w" "cw_start w \<le> cw_end w" "src path = splitlines t"
  shows "excerpt src w"
proof -
  have w: "cw_path w = path" "1 \<le> cw_start w" "cw_end w \<le> int (length (splitlines t))"
      "cw_text w = join [CHR 0x0A] (lines_between (splitlines t) (nat (cw_start w - 1)) (cw_end w))"
    using assms(1) by (auto simp: cut_window_def Let_def)
  have "lines_between (splitlines t) (nat (cw_start w - 1)) (cw_end w) = section_of (splitlines t) (cw_start w) (cw_end w)"
    using w(2) assms(2) by (simp add: lines_between_def section_of_def Let_def nat_diff_distrib' [symmetric] algebra_simps)
  then show ?thesis
    using w assms(2,3) lines_from_no_break [of "[]" t] by (simp add: excerpt_def splitlines_def)
qed

definition sample_file :: string where
  "sample_file = ''a'' @ [CHR 0x0A] @ ''b'' @ [CHR 0x0A] @ ''c'' @ [CHR 0x0A] @ ''d''"

definition sample_windows :: "code_window list" where
  "sample_windows = List.map_filter (\<lambda>n. cut_window (Some sample_file) ''f'' n n 1) [4, 2]"

theorem merge_windows_exact_witness:
  "sorted_wrt apart (merge_windows sample_windows) \<and> map cw_start (merge_windows sample_windows) = [1]
   \<and> map cw_end (merge_windows sample_windows) = [4] \<and> lines_covered (merge_windows sample_windows) = lines_covered sample_windows"
proof -
  have "\<forall>w \<in> set sample_windows. excerpt (\<lambda>_. splitlines sample_file) w"
  proof
    fix w assume "w \<in> set sample_windows"
    then have "\<exists>n \<in> {4, 2}. cut_window (Some sample_file) ''f'' n n 1 = Some w"
      unfolding sample_windows_def set_map_filter by auto
    moreover have "list_all (\<lambda>w. cw_start w \<le> cw_end w) sample_windows" by code_simp
    ultimately show "excerpt (\<lambda>_. splitlines sample_file) w"
      using \<open>w \<in> set sample_windows\<close> cut_window_excerpt by (auto simp: list_all_iff)
  qed
  note merge_windows_exact [OF this]
  moreover have "map cw_start (merge_windows sample_windows) = [1] \<and> map cw_end (merge_windows sample_windows) = [4]" by code_simp
  ultimately show ?thesis by blast
qed

end
