(* ===== verification/Test_Quality.thy ===== *)
theory Test_Quality
  imports Syntax_Trees Signals Regex_Scan
begin

text \<open>
  \<open>analyzers/test_quality.py\<close>: how much test code there is, whether the tests assert anything, of
  which type they are and what a committed coverage report says.  The trees, the imports of a file
  and the reading of JSON are arguments; the metrics and the list of coverage settings, which only
  report, are left out.
\<close>

section \<open>Assertions\<close>

definition word_end :: rx where
  "word_end = NotAhead (Cls is_word)"

definition PY_HELPER :: rx where
  "PY_HELPER = Seqs [Bol,
     Alts [Seq (Str ''assert'') (Star (Cls is_word)), Seq (Str ''check_'') (Plus (Cls is_word)),
       Seq (Str ''verify'') (Star (Cls is_word)), Seq (Str ''expect'') (Star (Cls is_word))], Eol]"

definition PY_HELPER_EXCLUDED :: "string list" where
  "PY_HELPER_EXCLUDED = [''check_output'', ''check_call'']"

definition PY_PYTEST_ASSERTIONS :: "string list" where
  "PY_PYTEST_ASSERTIONS = [''pytest.raises'', ''pytest.warns'', ''pytest.fail'', ''pytest.deprecated_call'']"

definition JS_HELPER :: rx where
  "JS_HELPER = Seqs [Bol,
     Alts [Seq (Str ''assert'') (Star (Cls is_word)),
       Seqs [Str ''check'', Cls (\<lambda>c. is_upper c \<or> c = CHR ''_''), Star (Cls is_word)],
       Seq (Str ''verify'') (Star (Cls is_word)), Seq (Str ''expect'') (Plus (Cls is_word))], Eol]"

definition JS_EXPECT :: "string list" where
  "JS_EXPECT = [''expect'', ''expect.assertions'', ''expect.hasAssertions'', ''expect.soft'']"

definition JS_TEST_CALLS :: "string list" where
  "JS_TEST_CALLS = [''it'', ''test'', ''it.only'', ''test.only'', ''it.concurrent'', ''test.concurrent'']"

definition JS_EACH_CALLS :: "string list" where
  "JS_EACH_CALLS = [''it.each'', ''test.each'', ''it.only.each'', ''test.only.each'']"

definition FUNCTION_NODES :: "string list" where
  "FUNCTION_NODES = [''arrow_function'', ''function_expression'', ''function'', ''generator_function'']"

definition py_callee_name :: "node \<Rightarrow> string \<times> string option" where
  "py_callee_name f =
     (if nd_type f = ''identifier'' then (nd_text f, None)
      else if nd_type f = ''attribute'' then (text_of (child_field f ''attribute''), Some (text_of (child_field f ''object'')))
      else ([], None))"

text \<open>The loop over a stack that does not descend into what it counts.\<close>

function count_stack :: "(node \<Rightarrow> bool) \<Rightarrow> node list \<Rightarrow> nat" where
  "count_stack is_assertion [] = 0"
| "count_stack is_assertion (n # st) =
     (if is_assertion n then Suc (count_stack is_assertion st) else count_stack is_assertion (nd_children n @ st))"
  by pat_completeness auto
termination
proof (relation "measure (\<lambda>(_, st). sum_list (map size st))", simp_all)
  show "0 < size n" for n :: node by (cases n) simp
  show "sum_list (map size (nd_children n)) < size n" for n :: node by (cases n) (simp add: size_list_conv_sum_list)
qed

definition count_assertions :: "(node \<Rightarrow> bool) \<Rightarrow> node \<Rightarrow> nat" where
  "count_assertions is_assertion body = count_stack is_assertion [body]"

definition is_python_assertion :: "node \<Rightarrow> bool" where
  "is_python_assertion n \<longleftrightarrow>
     nd_type n = ''assert_statement''
     \<or> nd_type n = ''call''
        \<and> (case child_field n ''function'' of
              None \<Rightarrow> False
            | Some f \<Rightarrow>
                (let (name, owner) = py_callee_name f
                 in if nd_text f \<in> set PY_PYTEST_ASSERTIONS then True
                    else (case owner of
                            Some obj \<Rightarrow>
                              if obj = ''self'' then starts_with ''assert'' name \<or> name = ''fail'' else starts_with ''assert_'' name
                          | None \<Rightarrow> rx_match PY_HELPER name \<and> name \<notin> set PY_HELPER_EXCLUDED)))"

definition is_js_assertion :: "node \<Rightarrow> bool" where
  "is_js_assertion n =
     (if nd_type n = ''member_expression'' then text_of (child_field n ''property'') = ''should''
      else if nd_type n \<noteq> ''call_expression'' then False
      else (case child_field n ''function'' of
              None \<Rightarrow> False
            | Some f \<Rightarrow>
                if nd_text f \<in> set JS_EXPECT \<or> nd_text f = ''assert'' then True
                else if nd_type f = ''member_expression''
                then (case child_field f ''object'' of None \<Rightarrow> False | Some obj \<Rightarrow> nd_type obj = ''identifier'' \<and> nd_text obj = ''assert'')
                     \<or> text_of (child_field f ''property'') = ''expect''
                else nd_type f = ''identifier'' \<and> rx_match JS_HELPER (nd_text f)))"

section \<open>Tests\<close>

record test_case =
  tc_name :: string
  tc_line :: int
  tc_end_line :: int
  tc_assertions :: nat

definition py_definition :: "node \<Rightarrow> node option" where
  "py_definition n = (if nd_type n = ''decorated_definition'' then child_field n ''definition'' else Some n)"

definition is_test_class :: "node \<Rightarrow> bool" where
  "is_test_class cls \<longleftrightarrow>
     starts_with ''Test'' (text_of (child_field cls ''name''))
     \<or> rx_search (Seq (Str ''TestCase'') word_end) (text_of (child_field cls ''superclasses''))"

definition py_test :: "string \<Rightarrow> node \<Rightarrow> test_case list" where
  "py_test prefix f =
     (let name = text_of (child_field f ''name'')
      in case child_field f ''body'' of
           None \<Rightarrow> []
         | Some body \<Rightarrow>
             if starts_with ''test'' name
             then [\<lparr>tc_name = prefix @ name, tc_line = node_line f, tc_end_line = int (nd_end_row f) + 1,
                   tc_assertions = count_assertions is_python_assertion body\<rparr>]
             else [])"

definition py_methods :: "node \<Rightarrow> test_case list" where
  "py_methods cls =
     (case child_field cls ''body'' of
        None \<Rightarrow> []
      | Some body \<Rightarrow>
          concat (map (\<lambda>m. case py_definition m of
              None \<Rightarrow> []
            | Some f \<Rightarrow>
                if nd_type f = ''function_definition'' then py_test (text_of (child_field cls ''name'') @ ''.'') f else [])
            (named_children body)))"

definition python_tests :: "node \<Rightarrow> test_case list" where
  "python_tests n =
     concat (map (\<lambda>c. case py_definition c of
         None \<Rightarrow> []
       | Some d \<Rightarrow>
           if nd_type d = ''function_definition'' then py_test [] d
           else if nd_type d = ''class_definition'' \<and> is_test_class d then py_methods d else [])
       (named_children n))"

definition js_test_callee :: "node \<Rightarrow> string option" where
  "js_test_callee call =
     (case child_field call ''function'' of
        None \<Rightarrow> None
      | Some f \<Rightarrow>
          if nd_type f = ''call_expression''
          then (let name = text_of (child_field f ''function'') in if name \<in> set JS_EACH_CALLS then Some name else None)
          else if nd_text f \<in> set JS_TEST_CALLS then Some (nd_text f) else None)"

definition js_string :: "node \<Rightarrow> string option" where
  "js_string n = (if nd_type n \<in> {''string'', ''template_string''} then Some (butlast (tl (nd_text n))) else None)"

definition js_test :: "node \<Rightarrow> test_case option" where
  "js_test n =
     (if nd_type n \<noteq> ''call_expression'' then None
      else (case (js_test_callee n, child_field n ''arguments'') of
              (Some callee, Some arguments) \<Rightarrow>
                (let args = code_children arguments; functions = filter (\<lambda>a. nd_type a \<in> set FUNCTION_NODES) args
                 in if functions = [] then None
                    else (let f = last functions; body = (case child_field f ''body'' of None \<Rightarrow> f | Some b \<Rightarrow> b)
                          in Some \<lparr>tc_name = (case js_string (hd args) of None \<Rightarrow> callee | Some t \<Rightarrow> t), tc_line = node_line n,
                               tc_end_line = int (nd_end_row n) + 1, tc_assertions = count_assertions is_js_assertion body\<rparr>))
            | _ \<Rightarrow> None))"

definition javascript_tests :: "node \<Rightarrow> test_case list" where
  "javascript_tests n = List.map_filter (js_test \<circ> fst) (walk_tree n)"

section \<open>Types of tests\<close>

definition E2E_PACKAGES :: "string list" where
  "E2E_PACKAGES = [''playwright'', ''@playwright/test'', ''selenium'', ''cypress'', ''puppeteer'', ''pyppeteer'']"

definition INTEGRATION_PACKAGES :: "string list" where
  "INTEGRATION_PACKAGES =
     [''requests'', ''httpx'', ''aiohttp'', ''urllib3'', ''fastapi.testclient'', ''starlette.testclient'', ''supertest'', ''axios'',
      ''node-fetch'', ''undici'', ''got'', ''sqlalchemy'', ''psycopg'', ''psycopg2'', ''asyncpg'', ''sqlite3'', ''pymongo'', ''motor'',
      ''redis'', ''testcontainers'', ''pg'', ''mysql'', ''mysql2'', ''mongodb'', ''mongoose'', ''prisma'', ''@prisma/client'', ''knex'',
      ''typeorm'', ''sequelize'', ''ioredis'']"

definition INTEGRATION_NAMES :: "string list" where
  "INTEGRATION_NAMES = [''TestClient'']"

definition package_keys :: "string \<Rightarrow> string list" where
  "package_keys specifier =
     (if starts_with ''.'' specifier \<or> starts_with ''/'' specifier then [specifier]
      else (let slashed = split_on CHR ''/'' specifier; dotted = split_on CHR ''.'' specifier
            in specifier
               # (if CHR ''/'' \<in> set specifier
                  then [if starts_with ''@'' specifier then join ''/'' (take 2 slashed) else hd slashed] else [])
               @ map (\<lambda>i. join ''.'' (take (Suc i) dotted)) [0..<length dotted]))"

definition path_mentions :: "string \<Rightarrow> string \<Rightarrow> bool" where
  "path_mentions part s = rx_search (Str part) s"

definition classify_test_file :: "string \<Rightarrow> raw_import list \<Rightarrow> string" where
  "classify_test_file path imports =
     (let keys = concat (map (package_keys \<circ> ri_specifier) imports); names = concat (map ri_names imports);
          among = (\<lambda>xs ys. list_ex (\<lambda>x. x \<in> set ys) xs)
      in if path_mentions ''e2e'' (lower path) \<or> among keys E2E_PACKAGES then ''e2e''
         else if path_mentions ''integration'' (lower path) \<or> among keys INTEGRATION_PACKAGES \<or> among names INTEGRATION_NAMES
         then ''integration'' else ''unit'')"

section \<open>Coverage reports\<close>

text \<open>The reports of a repository: files in the order of the walk, and what reading them gives.\<close>

record coverage_env =
  cv_files :: "string list list"
  cv_symlink :: "string \<Rightarrow> bool"
  cv_size :: "string \<Rightarrow> int option"
  cv_text :: "string \<Rightarrow> string option"
  cv_json :: "string \<Rightarrow> json option"
  cv_int :: "string \<Rightarrow> int option"
  cv_float :: "string \<Rightarrow> real option"

datatype report_kind = Istanbul_summary | Lcov | Istanbul_final | Cobertura | Coverage_sqlite

definition COVERAGE_FILES :: "(string \<times> report_kind \<times> nat) list" where
  "COVERAGE_FILES =
     [(''coverage-summary.json'', Istanbul_summary, 0), (''lcov.info'', Lcov, 1), (''coverage-final.json'', Istanbul_final, 2),
      (''coverage.xml'', Cobertura, 3), (''cobertura.xml'', Cobertura, 3), (''cobertura-coverage.xml'', Cobertura, 3),
      (''.coverage'', Coverage_sqlite, 9)]"

definition COVERAGE_SEARCH_DEPTH :: nat where
  "COVERAGE_SEARCH_DEPTH = 4"

definition MAX_COVERAGE_BYTES :: int where
  "MAX_COVERAGE_BYTES = 20 * 1024 * 1024"

record coverage_report =
  cr_covered :: "int option"
  cr_total :: "int option"
  cr_pct :: real

text \<open>\<open>float\<close> of a text of digits and dots.\<close>

definition decimal_value :: "string \<Rightarrow> real option" where
  "decimal_value s =
     (case split_on CHR ''.'' s of
        [a] \<Rightarrow> if a = [] then None else Some (real (nat_of_digits 0 a))
      | [a, b] \<Rightarrow> if a = [] \<and> b = [] then None else Some (real (nat_of_digits 0 (a @ b)) / 10 ^ length b)
      | _ \<Rightarrow> None)"

definition double_quote :: rx where
  "double_quote = Chr CHR 0x22"

definition attribute_value :: "string \<Rightarrow> rx \<Rightarrow> string \<Rightarrow> string option" where
  "attribute_value name value_rx tag =
     (case rx_findall_group (Seqs [NotBehind is_word, Str name, Str ''='', double_quote]) (Plus value_rx) double_quote tag of
        [] \<Rightarrow> None | v # _ \<Rightarrow> Some v)"

definition cobertura :: "string \<Rightarrow> (real option \<times> int option \<times> int option) option" where
  "cobertura text =
     (case rx_findall (Seqs [Str ''<coverage'', word_end, Star (NotOf ''>''), Str ''>'']) (take 65536 text) of
        [] \<Rightarrow> None
      | tag # _ \<Rightarrow>
          map_option (\<lambda>rate. (decimal_value rate,
              map_option (int \<circ> nat_of_digits 0) (attribute_value ''lines-covered'' (Cls is_digit) tag),
              map_option (int \<circ> nat_of_digits 0) (attribute_value ''lines-valid'' (Cls is_digit) tag)))
            (attribute_value ''line-rate'' (Cls (\<lambda>c. is_digit c \<or> c = CHR ''.'')) tag))"

definition line_start :: rx where
  "line_start = NotBehind (\<lambda>c. c \<noteq> CHR 0x0A)"

definition lcov_sum :: "string \<Rightarrow> string \<Rightarrow> int" where
  "lcov_sum key text =
     sum_list (map (int \<circ> nat_of_digits 0) (rx_findall_group (Seq line_start (Str key)) (Plus (Cls is_digit)) Eps text))"

definition istanbul_entry :: "json \<Rightarrow> int \<times> int" where
  "istanbul_entry entry =
     (case entry of
        JObj d \<Rightarrow>
          (case json_get d ''s'' of
             JObj statements \<Rightarrow>
               (int (length (filter (\<lambda>(_, hits). case hits of JNum x \<Rightarrow> x = of_int \<lfloor>x\<rfloor> \<and> 0 < x | JBool b \<Rightarrow> b | _ \<Rightarrow> False) statements)),
                int (length statements))
           | _ \<Rightarrow> (0, 0))
      | _ \<Rightarrow> (0, 0))"

definition istanbul_final :: "(string \<times> json) list \<Rightarrow> int \<times> int" where
  "istanbul_final data =
     (let entries = map (istanbul_entry \<circ> snd) data in (sum_list (map fst entries), sum_list (map snd entries)))"

text \<open>\<open>int(value)\<close> and \<open>float(value)\<close> of a JSON value; \<open>None\<close> is the exception.\<close>

definition int_of_json :: "coverage_env \<Rightarrow> json \<Rightarrow> int option" where
  "int_of_json env v =
     (case v of
        JNum x \<Rightarrow> Some (if 0 \<le> x then \<lfloor>x\<rfloor> else \<lceil>x\<rceil>) | JBool b \<Rightarrow> Some (if b then 1 else 0) | JStr s \<Rightarrow> cv_int env s | _ \<Rightarrow> None)"

definition float_of_json :: "coverage_env \<Rightarrow> json \<Rightarrow> real option" where
  "float_of_json env v =
     (case v of JNum x \<Rightarrow> Some x | JBool b \<Rightarrow> Some (if b then 1 else 0) | JStr s \<Rightarrow> cv_float env s | _ \<Rightarrow> None)"

definition counted_report :: "int \<Rightarrow> int \<Rightarrow> coverage_report option" where
  "counted_report hit found =
     (if found = 0 then None
      else Some \<lparr>cr_covered = Some hit, cr_total = Some found, cr_pct = py_round 2 (100 * of_int hit / of_int found)\<rparr>)"

definition summary_report :: "coverage_env \<Rightarrow> json \<Rightarrow> coverage_report option" where
  "summary_report env v =
     (case v of
        JObj d \<Rightarrow>
          (case map_of d ''total'' of
             Some (JObj t) \<Rightarrow>
               (case map_of t ''lines'' of
                  Some (JObj l) \<Rightarrow>
                    (case (map_of l ''covered'', map_of l ''total'', map_of l ''pct'') of
                       (Some c, Some n, Some p) \<Rightarrow>
                         (case (int_of_json env c, int_of_json env n, float_of_json env p) of
                            (Some hit, Some found, Some pct) \<Rightarrow> Some \<lparr>cr_covered = Some hit, cr_total = Some found, cr_pct = pct\<rparr>
                          | _ \<Rightarrow> None)
                     | _ \<Rightarrow> None)
                | _ \<Rightarrow> None)
           | _ \<Rightarrow> None)
      | _ \<Rightarrow> None)"

text \<open>A report, or \<open>None\<close> for one of the exceptions \<open>collect_coverage\<close> catches.\<close>

definition read_report :: "coverage_env \<Rightarrow> string \<Rightarrow> report_kind \<Rightarrow> coverage_report option" where
  "read_report env text kind =
     (case kind of
        Cobertura \<Rightarrow>
          (case cobertura text of
             Some (Some rate, covered, valid) \<Rightarrow> Some \<lparr>cr_covered = covered, cr_total = valid, cr_pct = py_round 2 (rate * 100)\<rparr>
           | _ \<Rightarrow> None)
      | Lcov \<Rightarrow> counted_report (lcov_sum ''LH:'' text) (lcov_sum ''LF:'' text)
      | Istanbul_summary \<Rightarrow> Option.bind (cv_json env text) (summary_report env)
      | _ \<Rightarrow> (case cv_json env text of Some (JObj d) \<Rightarrow> (let (hit, found) = istanbul_final d in counted_report hit found) | _ \<Rightarrow> None))"

definition visited :: "string list \<Rightarrow> bool" where
  "visited parts \<longleftrightarrow>
     length parts \<le> Suc COVERAGE_SEARCH_DEPTH
     \<and> list_all (\<lambda>d. d \<notin> set IGNORED_DIRS \<or> d = ''coverage'') (butlast parts)"

definition add_candidate ::
    "(string list, nat \<times> string \<times> report_kind) dict \<Rightarrow> string list \<Rightarrow> (string list, nat \<times> string \<times> report_kind) dict" where
  "add_candidate candidates parts =
     (case map_of COVERAGE_FILES (last parts) of
        None \<Rightarrow> candidates
      | Some (kind, priority) \<Rightarrow>
          if kind = Coverage_sqlite then candidates
          else (case map_of candidates (butlast parts) of
                  Some (best, _) \<Rightarrow>
                    if priority < best then dict_set (butlast parts) (priority, join ''/'' parts, kind) candidates else candidates
                | None \<Rightarrow> dict_set (butlast parts) (priority, join ''/'' parts, kind) candidates))"

definition coverage_candidates :: "coverage_env \<Rightarrow> (string list, nat \<times> string \<times> report_kind) dict" where
  "coverage_candidates env = foldl add_candidate [] (filter visited (cv_files env))"

definition coverage_reports :: "coverage_env \<Rightarrow> coverage_report list" where
  "coverage_reports env =
     List.map_filter (\<lambda>(_, rel, kind).
         case cv_size env rel of
           None \<Rightarrow> None
         | Some n \<Rightarrow>
             if cv_symlink env rel \<or> MAX_COVERAGE_BYTES < n then None
             else Option.bind (cv_text env rel) (\<lambda>text. read_report env text kind))
       (sort_key (\<lambda>(_, rel, _). rel) (map snd (coverage_candidates env)))"

text \<open>The combined percentage; the outer \<open>None\<close> is a \<open>TypeError\<close> that nothing catches.\<close>

definition combined_pct :: "coverage_report list \<Rightarrow> real option option" where
  "combined_pct reports =
     (if reports = [] then Some None
      else if list_all (\<lambda>r. case cr_total r of None \<Rightarrow> False | Some n \<Rightarrow> n \<noteq> 0) reports
      then (if list_ex (\<lambda>r. cr_covered r = None) reports then None
            else (let covered = sum_list (map (the \<circ> cr_covered) reports); total = sum_list (map (the \<circ> cr_total) reports)
                  in Some (if total = 0 then None else Some (py_round 2 (100 * of_int covered / of_int total)))))
      else Some (Some (py_round 2 (sum_list (map cr_pct reports) / real (length reports)))))"

section \<open>The collector and the report\<close>

text \<open>A file with its imports, \<open>None\<close> when parsing it raised.\<close>

record test_source = source_file +
  ts_symlink :: bool
  ts_imports :: "raw_import list option"

record test_data =
  td_source_files :: nat
  td_source_loc :: nat
  td_test_files :: nat
  td_test_loc :: nat
  td_tests :: "(string \<times> test_case) list"
  td_kinds :: "string list"

definition no_tests :: test_data where
  "no_tests = \<lparr>td_source_files = 0, td_source_loc = 0, td_test_files = 0, td_test_loc = 0, td_tests = [], td_kinds = []\<rparr>"

definition tests_of :: "string \<Rightarrow> node \<Rightarrow> test_case list" where
  "tests_of language n = (if language = ''python'' then python_tests n else javascript_tests n)"

definition unreadable :: "test_source \<Rightarrow> bool" where
  "unreadable f \<longleftrightarrow> ts_symlink f \<or> (case sc_size f of None \<Rightarrow> True | Some n \<Rightarrow> MAX_FILE_BYTES < n)"

definition collect_test_file :: "test_data \<Rightarrow> test_source \<Rightarrow> test_data" where
  "collect_test_file d f =
     (if unreadable f then d
      else if \<not> is_test_path (sc_path f)
      then d\<lparr>td_source_files := Suc (td_source_files d), td_source_loc := td_source_loc d + non_blank_lines (sc_bytes f)\<rparr>
      else (let d' = d\<lparr>td_test_files := Suc (td_test_files d), td_test_loc := td_test_loc d + non_blank_lines (sc_bytes f)\<rparr>
            in case (language_for (sc_path f), ts_imports f) of
                 (Some (language, _), Some imports) \<Rightarrow>
                   (let found = tests_of language (sc_tree f)
                    in if found = [] then d'
                       else d'\<lparr>td_tests := td_tests d @ map (Pair (sc_path f)) found,
                               td_kinds := td_kinds d @ [classify_test_file (sc_path f) imports]\<rparr>)
               | _ \<Rightarrow> d'))"

definition collect_tests :: "test_source list \<Rightarrow> test_data" where
  "collect_tests files = foldl collect_test_file no_tests files"

definition zero_tests :: "test_data \<Rightarrow> (string \<times> test_case) list" where
  "zero_tests d = filter (\<lambda>(_, t). tc_assertions t = 0) (td_tests d)"

definition assertion_total :: "test_data \<Rightarrow> nat" where
  "assertion_total d = sum_list (map (tc_assertions \<circ> snd) (td_tests d))"

definition types_present :: "test_data \<Rightarrow> nat" where
  "types_present d = length (filter (\<lambda>kind. kind \<in> set (td_kinds d)) [''unit'', ''integration'', ''e2e''])"

definition test_components :: "test_data \<Rightarrow> real option \<Rightarrow> (string \<times> real option) list" where
  "test_components d pct =
     (let tests = length (td_tests d)
      in if tests = 0
         then [(''test_presence'', Some 0), (''assertion_density'', None), (''assertion_free'', None), (''type_mix'', None), (''coverage'', None)]
         else [(''test_presence'',
                 Some (if td_source_loc d = 0 then 1 else clamp01 (real (td_test_loc d) / (3 / 10 * real (td_source_loc d))))),
               (''assertion_density'', Some (clamp01 (real (assertion_total d) / real tests / 2))),
               (''assertion_free'', Some (1 - real (length (zero_tests d)) / real tests)),
               (''type_mix'', Some (if 2 \<le> types_present d then 1 else 1 / 2)),
               (''coverage'', map_option (\<lambda>p. clamp01 (p / 100)) pct)])"

definition test_report :: "test_data \<Rightarrow> real option \<Rightarrow> health_report" where
  "test_report d pct =
     (if td_source_files d + td_test_files d = 0 then inapplicable_report
      else if td_tests d = []
      then \<lparr>sr_applicable = True, sr_score = Some 0, sr_components = test_components d pct\<rparr>
      else \<lparr>sr_applicable = True, sr_score = mean_score (test_components d pct), sr_components = test_components d pct\<rparr>)"

text \<open>\<open>collect\<close> and \<open>build_report\<close>; \<open>None\<close> is the exception of the coverage reports.\<close>

definition test_signal :: "test_source list \<Rightarrow> coverage_env \<Rightarrow> health_report option" where
  "test_signal files env = map_option (test_report (collect_tests files)) (combined_pct (coverage_reports env))"

definition test_finding :: "string \<times> test_case \<Rightarrow> finding_data" where
  "test_finding t =
     \<lparr>analyzer = ''test_quality'', rule_id = ''assertion-free-test'', sev = INFO, file_path = fst t, start_line = tc_line (snd t),
      end_line = tc_end_line (snd t),
      message = ''Test `'' @ tc_name (snd t)
        @ ''` makes no assertions: it only fails if the code raises, so it can pass without checking any behaviour.'',
      code_snippet = None, category = Some (''test_quality:assertion-free-test:'' @ fst t @ '':'' @ show_int (tc_line (snd t))),
      cwe_ids = [], dependency = None, corroborated_by = [], merged_from = []\<rparr>"

definition test_findings :: "test_data \<Rightarrow> finding_data list" where
  "test_findings d = map test_finding (zero_tests d)"

section \<open>Properties\<close>

text \<open>The assertions counted are those below no other assertion.\<close>

fun topmost :: "(node \<Rightarrow> bool) \<Rightarrow> node \<Rightarrow> nat" where
  "topmost p (Node t nm f tx b r er cs) = (if p (Node t nm f tx b r er cs) then 1 else sum_list (map (topmost p) cs))"

lemma topmost_unfold: "topmost p n = (if p n then 1 else sum_list (map (topmost p) (nd_children n)))"
  by (cases n) simp

lemma count_stack_topmost: "count_stack p st = sum_list (map (topmost p) st)"
proof (induction p st rule: count_stack.induct)
  case (2 p n st)
  then show ?case by (simp add: topmost_unfold [of p n])
qed simp

lemma topmost_zero: "topmost p n = 0 \<longleftrightarrow> list_all (\<lambda>m. \<not> p m) (preorder n)"
proof (induction n rule: preorder.induct)
  case (1 t nm f tx b r er cs)
  then show ?case by (auto simp: list_all_iff)
qed

text \<open>
  A test is reported to assert nothing exactly if no node of its body is an assertion, however
  deep it is nested.
\<close>

theorem assertions_counted:
  "count_assertions p body = topmost p body
   \<and> (count_assertions p body = 0 \<longleftrightarrow> list_all (\<lambda>m. \<not> p m) (preorder body))"
  by (simp add: count_assertions_def count_stack_topmost topmost_zero)

text \<open>Of the reports of one directory the first with the least priority is read.\<close>

definition report_entry :: "string list \<Rightarrow> (nat \<times> string \<times> report_kind) option" where
  "report_entry parts =
     (case map_of COVERAGE_FILES (last parts) of
        None \<Rightarrow> None
      | Some (kind, priority) \<Rightarrow> if kind = Coverage_sqlite then None else Some (priority, join ''/'' parts, kind))"

definition directory_entries :: "string list \<Rightarrow> string list list \<Rightarrow> (nat \<times> string \<times> report_kind) list" where
  "directory_entries dir files = List.map_filter report_entry (filter (\<lambda>parts. butlast parts = dir) files)"

definition best_entry :: "(nat \<times> string \<times> report_kind) list \<Rightarrow> (nat \<times> string \<times> report_kind) option" where
  "best_entry es = (if es = [] then None else Some (first_max (\<lambda>e. - int (fst e)) es))"

lemma best_entry_snoc:
  "best_entry (es @ [e]) = (case best_entry es of None \<Rightarrow> Some e | Some b \<Rightarrow> Some (if fst e < fst b then e else b))"
  by (cases es) (simp_all add: best_entry_def first_max_def)

lemma add_candidate_entry:
  "add_candidate d parts =
     (case report_entry parts of
        None \<Rightarrow> d
      | Some e \<Rightarrow>
          (case map_of d (butlast parts) of
             None \<Rightarrow> dict_set (butlast parts) e d
           | Some b \<Rightarrow> if fst e < fst b then dict_set (butlast parts) e d else d))"
  by (auto simp: add_candidate_def report_entry_def split: option.splits)

lemma directory_entries_snoc:
  "directory_entries dir (files @ [parts]) =
     directory_entries dir files @ (if butlast parts = dir then (case report_entry parts of None \<Rightarrow> [] | Some e \<Rightarrow> [e]) else [])"
  by (simp add: directory_entries_def map_filter_def split: option.splits)

theorem best_report_per_directory:
  "map_of (coverage_candidates env) dir = best_entry (directory_entries dir (filter visited (cv_files env)))"
proof -
  have "map_of (foldl add_candidate [] files) dir = best_entry (directory_entries dir files)" for files
  proof (induction files rule: rev_induct)
    case Nil
    then show ?case by (simp add: directory_entries_def best_entry_def map_filter_def)
  next
    case (snoc parts files)
    show ?case
    proof (cases "butlast parts = dir")
      case True
      then show ?thesis using snoc
        by (cases "report_entry parts")
          (auto simp: add_candidate_entry directory_entries_snoc best_entry_snoc split: option.splits)
    next
      case False
      then show ?thesis using snoc
        by (auto simp: add_candidate_entry directory_entries_snoc split: option.splits)
    qed
  qed
  then show ?thesis by (simp add: coverage_candidates_def)
qed

lemma test_components_unit: "(name, v) \<in> set (test_components d pct) \<Longrightarrow> in_unit v"
proof -
  have "real (length (zero_tests d)) \<le> real (length (td_tests d))"
    by (simp add: zero_tests_def)
  then show "(name, v) \<in> set (test_components d pct) \<Longrightarrow> in_unit v"
    using clamp01_bounds by (cases pct) (auto simp: test_components_def Let_def divide_le_eq split: if_splits)
qed

lemma mean_without_tests: "td_tests d = [] \<Longrightarrow> mean_score (test_components d pct) = Some 0"
  by (simp add: mean_score_def mean_of_def test_components_def map_filter_def)

lemma test_report_mean:
  "test_report d pct = (if td_source_files d + td_test_files d \<noteq> 0
     then \<lparr>sr_applicable = True, sr_score = mean_score (test_components d pct), sr_components = test_components d pct\<rparr>
     else inapplicable_report)"
  unfolding test_report_def using mean_without_tests [of d pct] by simp

interpretation test_signal: signal_contract
  "\<lambda>(d, pct). td_source_files d + td_test_files d \<noteq> 0" "\<lambda>(d, pct). test_components d pct" "\<lambda>(d, pct). test_report d pct"
proof
  show "in_unit v" if "(name, v) \<in> set (case x of (d, pct) \<Rightarrow> test_components d pct)" for name v x
    using that test_components_unit by (cases x) auto
qed (simp only: test_report_mean case_prod_unfold)


text \<open>A Cobertura report without \<open>lines-covered\<close> has a number of lines and no covered ones.\<close>

definition cobertura_tag :: string where
  "cobertura_tag = ''<coverage line-rate='' @ [CHR 0x22] @ ''0.5'' @ [CHR 0x22] @ '' lines-valid='' @ [CHR 0x22] @ ''10'' @ [CHR 0x22] @ ''>''"

lemma cobertura_without_covered:
  "attribute_value ''line-rate'' (Cls (\<lambda>c. is_digit c \<or> c = CHR ''.'')) cobertura_tag = Some ''0.5''"
  "attribute_value ''lines-covered'' (Cls is_digit) cobertura_tag = None"
  "attribute_value ''lines-valid'' (Cls is_digit) cobertura_tag = Some ''10''"
  by code_simp+

lemma no_covered_fails: "combined_pct [\<lparr>cr_covered = None, cr_total = Some 10, cr_pct = 50\<rparr>] = None"
  by (simp add: combined_pct_def)

end
