(* ===== verification/Spec2Isabelle.thy ===== *)
theory Spec2Isabelle
  imports Rubric_Props Score_Service_Props Dedup_Props Compare_Props Categories_Props
    Pipeline_Results Lifecycle_Props Quota_Props Llm_Ledger_Props Resolver_Props
    Graph_Builder_Props Graph_Metrics_Props Graph_View_Props Archive_Props Net_Guard_Props Github_Urls_Props
    Risk_Props Dep_Health_Props Patches_Props PR_Builder_Order
    Git_Log_Props Git_History_Props CI_Quality_Props Error_Handling Advisory
    Vulnerabilities Code_Windows Test_Quality
begin

text \<open>
  Verification library of CodeAudit, the service under \<open>src/backend/app\<close> that scans a repository
  with several analyzers, merges and scores what they find, maps its architecture, proposes fixes
  with a language model, opens pull requests with them, and assesses web sites for phishing.

  \<^bold>\<open>How the program works, and where it is modelled.\<close>  A scan starts from an uploaded archive or a
  repository URL.  \<open>Archive\<close> is \<open>services/archive.py\<close> and \<open>Github_Urls\<close> is
  \<open>services/github/urls.py\<close>; \<open>Quotas\<close> is the rate limit in front of them (\<open>services/quotas.py\<close>).
  A worker claims the scan: \<open>Lifecycle\<close> is the scan row under any interleaving of deliveries,
  failures and the reaper (\<open>workers/tasks.py\<close>, \<open>workers/maintenance.py\<close>, \<open>llm/enrichment.py\<close>).
  It runs the analyzers: \<open>Analyzers\<close> is the registry, the failure isolation and the concurrent
  execution (\<open>analyzers/base.py\<close>, \<open>registry.py\<close>, \<open>orchestrator.py\<close>), \<open>Pipeline\<close> is
  \<open>scan_pipeline.py\<close> from the selected analyzers to the stored rows.  The findings are merged
  (\<open>Dedup\<close>: \<open>analyzers/dedup.py\<close>), classified (\<open>Categories\<close>: \<open>analyzers/categories.py\<close>),
  scored (\<open>Rubric\<close>: \<open>scoring/rubric.py\<close>; \<open>Score_Service\<close>: \<open>scoring/service.py\<close> and
  \<open>priority.py\<close>) and compared with another scan (\<open>Compare\<close>: \<open>services/compare.py\<close>).

  The analyzers whose logic is the repository's own: the module graph (\<open>Imports\<close>, \<open>Py_Resolver\<close>,
  \<open>Js_Resolver\<close>, \<open>Resolver\<close>: \<open>graph/resolver.py\<close>; \<open>Layers\<close>, \<open>Graph_Builder\<close>,
  \<open>Graph_Metrics\<close>, \<open>Graph_View\<close>: the files of that name under \<open>services/graph\<close>), and the
  experimental signals, whose report is in \<open>Signals\<close> (\<open>analyzers/signals.py\<close>): dependency health
  (\<open>Dep_Versions\<close>, \<open>Dep_Manifests\<close>, \<open>Dep_Lockfiles\<close>, \<open>Dep_Lock_Reader\<close>, \<open>Dep_Usage\<close>,
  \<open>Dep_Health\<close>: \<open>analyzers/dep_health.py\<close>), commit history (\<open>Git_Log\<close>, \<open>Git_History\<close>), the
  pipeline of continuous integration (\<open>CI_Quality\<close>), error handling (\<open>Error_Handling\<close>), the quality
  of tests (\<open>Test_Quality\<close>) and the advisory metrics (\<open>Advisory\<close>), the last three on the trees of
  \<open>Syntax_Trees\<close>.  Of the analyzers that run external tools, \<open>Vulnerabilities\<close> is the reading of
  OSV-Scanner's report (\<open>analyzers/dependency.py\<close>).

  The stage with the language model: \<open>Llm_Ledger\<close> is its cost control (\<open>llm/client.py\<close>,
  \<open>llm/pricing.py\<close>, \<open>services/costs.py\<close>), \<open>Code_Windows\<close> the source lines sent with a request
  (\<open>llm/context.py\<close>), \<open>Patches\<close> the validation of a proposed diff
  (\<open>llm/patches.py\<close>), \<open>PR_Builder\<close> the pull request made of accepted fixes
  (\<open>github/pr_builder.py\<close>).  The web side: \<open>Ip_Address\<close>, \<open>Urls\<close> and \<open>Net_Guard\<close> keep
  requests away from internal addresses (\<open>web/netguard.py\<close>); \<open>Lexical\<close>, \<open>Web_Domains\<close> and
  \<open>Risk\<close> are the evidence and the score of a phishing assessment (\<open>web/lexical.py\<close>,
  \<open>brands.py\<close>, \<open>intel.py\<close>, \<open>risk.py\<close>, \<open>visual.py\<close>).

  \<^bold>\<open>Conventions.\<close>  \<open>Prelude\<close> and \<open>PyStr\<close> hold what Python contributes: dictionaries that keep
  their insertion order as association lists, \<open>sorted\<close> as the stable \<open>sort_key\<close>, \<open>round\<close> with
  ties to even, string and path methods.  \<open>Regex\<close> and \<open>Regex_Scan\<close> are the part of \<open>re\<close> the
  code uses, a backtracking matcher with its declarative meaning.  \<open>Findings\<close> holds the data all
  components share.  A string is a list of code points 0 to 255; where the code treats other
  characters specially, that is an argument.  Dataclasses are records, exceptions are values of a
  sum or an option, and a function that may let an exception escape says so in its type.  Floats
  are real numbers with the code's explicit rounding, so the theorems are about the formulas;
  addresses and octets are machine words.  Times are numbers passed in.  A set the code sorts or
  only tests is a list.  Texts for people (messages of findings, logs, notes) are left out where
  nothing reads them again.

  \<^bold>\<open>What is shown.\<close>  A theory \<open>X_Props\<close> holds the properties of \<open>X\<close>;
  a theory without one holds its own.
  Scores: removing findings never lowers a score, the impact shown for a finding is the gain that
  rescoring without it gives, scores lie between 0 and 100 (\<open>Rubric_Penalty\<close>, \<open>Rubric_Score\<close>,
  \<open>Rubric_Impact\<close>, \<open>Rubric_Props\<close>); stored scores, projections and the selection of findings
  to fix rest on them (\<open>Score_Service_Props\<close>).  Merging: groups partition the findings and no
  report is lost.  Comparison: the three lists are the differences of multisets.  Pipeline: the
  outcome, the rows and the recorded runs are what the results say, and do not depend on the order
  in which analyzers finish (\<open>Pipeline_Props\<close>, \<open>Pipeline_Results\<close>).  Lifecycle: without
  transient errors one run at a time works on a scan and a finished scan stays finished; with them
  it does not.  Limits: the sliding window never admits more than its limit, the ledger never
  exceeds its budgets, and every call is settled.  Graph: every import is answered by a file of
  the repository or not at all, the graph is the relation of resolved imports, every import cycle
  is reported once or the cut is announced (\<open>Graph_Cycles\<close>), the condensed view is the quotient
  of the graph.  Safety: extraction stays below its directory and its limits, validated URLs lead
  to public addresses, parsed repository URLs are what their syntax allows, a valid patch touches
  allowed files only, and the commits of a pull request are the previewed ones.  Phishing: the
  score is the evidence, and an official domain is not accused.  Signals: the
  components and the score lie between 0 and 1, and where the documentation defines them exactly
  (pipeline, dependencies) they are what it says; lockfile depths are the largest distances, the bus factor
  is minimal, the commit log is read back as git writes it.  The version recommended for a
  vulnerable dependency is the threshold of its advisories' fixes; merged source windows are
  excerpts without repetition.

  \<^bold>\<open>Interfaces.\<close>  \<open>damping\<close> (\<open>Rubric_Penalty\<close>) is what the rubric needs of its rank
  multiplier; \<open>location_match\<close> (\<open>Dedup\<close>) what grouping needs of the location test;
  \<open>signal_contract\<close> (\<open>Signals\<close>) what a signal promises the rubric, provided by the error
  handling, history, pipeline and test signals; \<open>tree_collector\<close> (\<open>Syntax_Trees\<close>) the loop over
  source files with a promise kept tree by tree, provided by error handling and the advisory
  metrics.

  \<^bold>\<open>Bounds and fuel.\<close>  A starred pattern is matched with the length of the subject as fuel, which
  \<open>rx_ends_iff\<close> shows to be enough.  Chains of \<open>extends\<close> end after the code's own limit and
  links after five steps, also the code's.  \<open>_probe\<close> has no bound of its own, so the frames left of
  Python's recursion limit are an argument and running out of them is the exception it raises.
  Every other loop is recursion with a measure.

  \<^bold>\<open>What stands for code outside the repository.\<close>  Arguments of the definitions: the graph
  algorithms of \<open>networkx\<close>, the readers of JSON, TOML, INI and YAML, the versions of
  \<open>packaging\<close>, the list of standard modules, the trees of \<open>ast\<close> and tree-sitter, the answers
  of registries, resolvers, GitHub and the language model, the reads of \<open>zipfile\<close>, the sorted
  sets of Redis, \<open>git apply\<close>, the extractor of public suffixes, image hashes, SHA-256, UTF-8 and
  the Unicode tables.  Where a theorem needs a law of one of them, the law is a named hypothesis
  (\<open>nx_ok\<close>, \<open>zset_ok\<close> and others) with a concrete instance in the witness.  The format of
  \<open>git log\<close> is written out as \<open>render_log\<close>.

  \<^bold>\<open>Not modelled.\<close>  The HTTP layer (routes, schemas, pagination, middleware), the database models
  and migrations, configuration, observability, authentication and storage are glue around the
  services above.  The sandbox and the wrappers of external tools (semgrep, ruff, bandit) run
  containers and rename fields of their output.  Prompts and the architecture review
  are texts.  Capturing, rendering and colour analysis of web sites are drivers of a browser and
  floating-point colour formulas.  The extraction of imports with tree-sitter and the AST, and the
  counting of decision points, are queries on library trees; their results are arguments.  The
  front end, the GitHub action, scripts and validation experiments are outside the service.
\<close>

end
